(* ===== verification/Prelude.thy ===== *)
theory Prelude
  imports Complex_Main
begin

text \<open>
  Vocabulary shared by every component: JavaScript values the source relies on (strings, numbers
  that may not be finite, comparators), results that carry a thrown error, machines driven by
  events, and the generic lemmas about them.

  JavaScript strings are lists of \<^typ>\<open>char\<close>, one per code unit, restricted to the Latin-1
  range; \<open>js_trim\<close> and \<open>js_lower\<close> are \<open>String.prototype.trim\<close> and \<open>toLowerCase\<close> on that range.
  A finite JavaScript number is a rational (every IEEE double is one), so comparisons are exact.
\<close>

named_theorems machine_simps \<open>one-step equations of the state machines\<close>
named_theorems role_simps \<open>evaluation of role names\<close>
named_theorems preserved \<open>facts an operation keeps\<close>

section \<open>Strings\<close>

definition js_ws :: "char \<Rightarrow> bool" where
  "js_ws c \<longleftrightarrow> of_char c \<in> {9, 10, 11, 12, 13, 32, 160 :: nat}"

definition js_trim :: "string \<Rightarrow> string" where
  "js_trim s = rev (dropWhile js_ws (rev (dropWhile js_ws s)))"

definition js_lower_char :: "char \<Rightarrow> char" where
  "js_lower_char c =
     (let n = (of_char c :: nat)
      in if (65 \<le> n \<and> n \<le> 90) \<or> (192 \<le> n \<and> n \<le> 222 \<and> n \<noteq> 215) then char_of (n + 32) else c)"

definition js_lower :: "string \<Rightarrow> string" where
  "js_lower s = map js_lower_char s"

text \<open>The relational operator \<open><\<close> on strings: code units, left to right.\<close>

fun js_less :: "string \<Rightarrow> string \<Rightarrow> bool" where
  "js_less _ [] = False"
| "js_less [] (_ # _) = True"
| "js_less (x # xs) (y # ys) =
     ((of_char x :: nat) < of_char y \<or> x = y \<and> js_less xs ys)"

definition js_le :: "string \<Rightarrow> string \<Rightarrow> bool" where
  "js_le s t \<longleftrightarrow> \<not> js_less t s"

fun starts_with :: "string \<Rightarrow> string \<Rightarrow> bool" where
  "starts_with _ [] = True"
| "starts_with [] (_ # _) = False"
| "starts_with (x # xs) (p # ps) = (x = p \<and> starts_with xs ps)"

lemma js_ws_lower [simp]: "js_ws (js_lower_char c) = js_ws c"
proof -
  have "(of_char c :: nat) < 256" by simp
  then show ?thesis
    by (auto simp: js_ws_def js_lower_char_def Let_def)
qed

lemma js_lower_char_idem [simp]: "js_lower_char (js_lower_char c) = js_lower_char c"
  by (auto simp: js_lower_char_def Let_def)

lemma js_lower_idem [simp]: "js_lower (js_lower s) = js_lower s"
  by (simp add: js_lower_def)

lemma js_lower_Nil [simp]: "js_lower [] = []" "js_lower s = [] \<longleftrightarrow> s = []"
  by (simp_all add: js_lower_def)

lemma dropWhile_js_lower: "dropWhile js_ws (js_lower s) = js_lower (dropWhile js_ws s)"
  by (induction s) (auto simp: js_lower_def)

lemma js_trim_lower: "js_trim (js_lower s) = js_lower (js_trim s)"
proof -
  have r: "rev (js_lower u) = js_lower (rev u)" for u by (simp add: js_lower_def rev_map)
  show ?thesis by (simp add: js_trim_def dropWhile_js_lower r)
qed

lemma dropWhile_rev_dropWhile:
  "dropWhile P (rev (dropWhile P (rev (dropWhile P xs)))) = rev (dropWhile P (rev (dropWhile P xs)))"
proof (cases "dropWhile P xs")
  case Nil
  show ?thesis unfolding Nil by simp
next
  case (Cons y ys)
  then have ny: "\<not> P y" by (metis hd_dropWhile list.distinct(1) list.sel(1))
  have "\<exists>zs. rev (dropWhile P (rev (y # ys))) = y # zs"
  proof -
    have "\<exists>w. dropWhile P (zs @ [y]) = w @ [y]" for zs
      using ny by (induction zs) auto
    then obtain w where "dropWhile P (rev ys @ [y]) = w @ [y]" by blast
    then show ?thesis by simp
  qed
  with ny Cons show ?thesis by auto
qed

lemma js_trim_idem [simp]: "js_trim (js_trim s) = js_trim s"
  by (simp add: js_trim_def dropWhile_rev_dropWhile)

lemma js_trim_Nil [simp]: "js_trim [] = []"
  by (simp add: js_trim_def)

lemma js_less_irrefl [simp]: "\<not> js_less s s"
  by (induction s) auto

lemma js_less_trans: "js_less a b \<Longrightarrow> js_less b c \<Longrightarrow> js_less a c"
proof (induction a b arbitrary: c rule: js_less.induct)
  case (1 s)
  then show ?case by simp
next
  case (2 y ys)
  then show ?case by (cases c) auto
next
  case (3 x xs y ys)
  then show ?case by (cases c) auto
qed

lemma js_less_linear: "js_less a b \<or> a = b \<or> js_less b a"
proof (induction a b rule: js_less.induct)
  case (3 x xs y ys)
  have "(of_char x :: nat) = of_char y \<Longrightarrow> x = y" by simp
  with 3 show ?case by (metis js_less.simps(3) linorder_neqE_nat)
next
  case (1 s)
  then show ?case by (cases s) auto
qed simp

lemma js_le_total: "js_le a b \<or> js_le b a"
  unfolding js_le_def using js_less_linear js_less_trans js_less_irrefl by metis

lemma js_le_trans: "js_le a b \<Longrightarrow> js_le b c \<Longrightarrow> js_le a c"
  unfolding js_le_def by (metis js_less_linear js_less_trans)

lemma js_less_le_trans: "js_less a b \<Longrightarrow> js_le b c \<Longrightarrow> js_less a c"
  unfolding js_le_def by (metis js_less_linear js_less_trans)

lemma js_le_less_trans: "js_le a b \<Longrightarrow> js_less b c \<Longrightarrow> js_less a c"
  unfolding js_le_def by (metis js_less_linear js_less_trans)

section \<open>Numbers\<close>

datatype js_number = Num rat | NaN | PosInf | NegInf

text \<open>\<open>Number.isFinite\<close>, and the relational operators, which are false on \<open>NaN\<close>.\<close>

fun js_finite :: "js_number \<Rightarrow> bool" where
  "js_finite (Num _) = True"
| "js_finite _ = False"

fun js_lt :: "js_number \<Rightarrow> js_number \<Rightarrow> bool" where
  "js_lt (Num a) (Num b) = (a < b)"
| "js_lt (Num _) PosInf = True"
| "js_lt NegInf (Num _) = True"
| "js_lt NegInf PosInf = True"
| "js_lt _ _ = False"

fun js_num_le :: "js_number \<Rightarrow> js_number \<Rightarrow> bool" where
  "js_num_le (Num a) (Num b) = (a \<le> b)"
| "js_num_le (Num _) PosInf = True"
| "js_num_le NegInf (Num _) = True"
| "js_num_le NegInf PosInf = True"
| "js_num_le PosInf PosInf = True"
| "js_num_le NegInf NegInf = True"
| "js_num_le _ _ = False"

text \<open>\<open>Number.isInteger\<close> and \<open>Math.round\<close> on a finite number.\<close>

definition is_integer :: "rat \<Rightarrow> bool" where
  "is_integer q \<longleftrightarrow> of_int \<lfloor>q\<rfloor> = q"

definition js_round :: "rat \<Rightarrow> int" where
  "js_round q = \<lfloor>q + 1 / 2\<rfloor>"

lemma is_integer_of_int [simp]: "is_integer (of_int n)" "is_integer (numeral k)" "is_integer 0" "is_integer 1"
  by (simp_all add: is_integer_def)

lemma js_round_of_int [simp]: "js_round (of_int n) = n"
  by (simp add: js_round_def) linarith

section \<open>Results\<close>

text \<open>A call that may throw is a sum: \<open>Inl\<close> the thrown error, \<open>Inr\<close> the returned value.\<close>

fun and_then :: "'e + 'a \<Rightarrow> ('a \<Rightarrow> 'e + 'b) \<Rightarrow> 'e + 'b" where
  "and_then (Inl e) _ = Inl e"
| "and_then (Inr x) f = f x"

definition guard_that :: "bool \<Rightarrow> 'e \<Rightarrow> 'e + unit" where
  "guard_that ok e = (if ok then Inr () else Inl e)"

fun is_ok :: "'e + 'a \<Rightarrow> bool" where
  "is_ok (Inr _) = True"
| "is_ok (Inl _) = False"

fun map_result :: "('a \<Rightarrow> 'e + 'b) \<Rightarrow> 'a list \<Rightarrow> 'e + 'b list" where
  "map_result f [] = Inr []"
| "map_result f (x # xs) = and_then (f x) (\<lambda>y. and_then (map_result f xs) (\<lambda>ys. Inr (y # ys)))"

lemma and_then_Inr_iff: "and_then r f = Inr y \<longleftrightarrow> (\<exists>x. r = Inr x \<and> f x = Inr y)"
  by (cases r) auto

lemma guard_that_Inr_iff [simp]: "guard_that ok e = Inr u \<longleftrightarrow> ok"
  by (simp add: guard_that_def)

lemma map_result_Inr:
  "map_result f xs = Inr ys \<longleftrightarrow> list_all2 (\<lambda>x y. f x = Inr y) xs ys"
proof (induction xs arbitrary: ys)
  case Nil
  then show ?case by auto
next
  case (Cons x xs)
  then show ?case by (auto simp: and_then_Inr_iff list_all2_Cons1)
qed

section \<open>Sorting with a comparator\<close>

text \<open>\<open>Array.prototype.sort\<close> with a comparator is stable: it is the insertion sort below whenever
  the comparator is consistent (total and transitive).\<close>

fun insert_by :: "('a \<Rightarrow> 'a \<Rightarrow> rat) \<Rightarrow> 'a \<Rightarrow> 'a list \<Rightarrow> 'a list" where
  "insert_by cmp x [] = [x]"
| "insert_by cmp x (y # ys) = (if cmp x y \<le> 0 then x # y # ys else y # insert_by cmp x ys)"

definition sort_by :: "('a \<Rightarrow> 'a \<Rightarrow> rat) \<Rightarrow> 'a list \<Rightarrow> 'a list" where
  "sort_by cmp xs = foldr (insert_by cmp) xs []"

text \<open>\<open>compareA || compareB\<close>: the second decides where the first is zero.\<close>

definition or_else :: "rat \<Rightarrow> rat \<Rightarrow> rat" where
  "or_else a b = (if a = 0 then b else a)"

lemma set_insert_by [simp]: "set (insert_by cmp x xs) = insert x (set xs)"
  by (induction xs) auto

lemma sort_by_simps [simp]:
  "sort_by cmp [] = []" "sort_by cmp (x # xs) = insert_by cmp x (sort_by cmp xs)"
  by (simp_all add: sort_by_def)

lemma set_sort_by [simp]: "set (sort_by cmp xs) = set xs"
  by (induction xs) auto

lemma length_insert_by [simp]: "length (insert_by cmp x xs) = Suc (length xs)"
  by (induction xs) auto

lemma length_sort_by [simp]: "length (sort_by cmp xs) = length xs"
  by (induction xs) auto

lemma sort_by_eq_Nil [simp]: "sort_by cmp xs = [] \<longleftrightarrow> xs = []"
  using length_sort_by [of cmp xs] by (metis length_0_conv)

lemma distinct_insert_by: "distinct (insert_by cmp x xs) \<longleftrightarrow> x \<notin> set xs \<and> distinct xs"
  by (induction xs) auto

lemma distinct_sort_by [simp]: "distinct (sort_by cmp xs) = distinct xs"
  by (induction xs) (auto simp: distinct_insert_by)

locale consistent_comparator =
  fixes cmp :: "'a \<Rightarrow> 'a \<Rightarrow> rat"
  assumes cmp_total: "cmp x y \<le> 0 \<or> cmp y x \<le> 0"
    and cmp_trans: "cmp x y \<le> 0 \<Longrightarrow> cmp y z \<le> 0 \<Longrightarrow> cmp x z \<le> 0"
begin

lemma sorted_insert_by:
  "sorted_wrt (\<lambda>a b. cmp a b \<le> 0) xs \<Longrightarrow> sorted_wrt (\<lambda>a b. cmp a b \<le> 0) (insert_by cmp x xs)"
proof (induction xs)
  case Nil
  then show ?case by simp
next
  case (Cons y ys)
  then show ?case using cmp_total cmp_trans by (auto intro: cmp_trans)
qed

lemma sorted_sort_by: "sorted_wrt (\<lambda>a b. cmp a b \<le> 0) (sort_by cmp xs)"
  by (induction xs) (auto intro: sorted_insert_by)

end

section \<open>Machines driven by events\<close>

text \<open>
  A machine's step refuses an event by returning \<open>None\<close>; a refused event leaves the record as it
  was (the handlers answer an error and write nothing), so a history is a fold over attempts.
\<close>

definition attempt :: "('s \<Rightarrow> 'e \<Rightarrow> 's option) \<Rightarrow> 's \<Rightarrow> 'e \<Rightarrow> 's" where
  "attempt step s e = (case step s e of None \<Rightarrow> s | Some s' \<Rightarrow> s')"

fun attempts :: "('s \<Rightarrow> 'e \<Rightarrow> 's option) \<Rightarrow> 's \<Rightarrow> 'e list \<Rightarrow> 's" where
  "attempts step s [] = s"
| "attempts step s (e # es) = attempts step (attempt step s e) es"

lemma attempts_append [simp]: "attempts step s (es @ fs) = attempts step (attempts step s es) fs"
  by (induction es arbitrary: s) auto

lemma attempt_iff:
  "attempt step s e = t \<longleftrightarrow> step s e = Some t \<or> (step s e = None \<and> t = s)"
  by (auto simp: attempt_def split: option.splits)

locale invariant_machine =
  fixes step :: "'s \<Rightarrow> 'e \<Rightarrow> 's option" and good :: "'s \<Rightarrow> bool"
  assumes step_good: "good s \<Longrightarrow> step s e = Some s' \<Longrightarrow> good s'"
begin

lemma attempt_good: "good s \<Longrightarrow> good (attempt step s e)"
  by (auto simp: attempt_def intro: step_good split: option.splits)

lemma attempts_good: "good s \<Longrightarrow> good (attempts step s es)"
  by (induction es arbitrary: s) (auto intro: attempt_good)

end

locale terminal_machine =
  fixes step :: "'s \<Rightarrow> 'e \<Rightarrow> 's option" and final :: "'s \<Rightarrow> bool"
  assumes final_stuck: "final s \<Longrightarrow> step s e = None"
begin

lemma attempt_final: "final s \<Longrightarrow> attempt step s e = s"
  by (simp add: attempt_def final_stuck)

lemma attempts_final: "final s \<Longrightarrow> attempts step s es = s"
  by (induction es) (auto simp: attempt_final)

end

sublocale terminal_machine \<subseteq> invariant_machine step final
  by unfold_locales (simp add: final_stuck)

end
