(* ===== verification/Job_Machine.thy ===== *)
theory Job_Machine
  imports Prelude
begin

text \<open>
  The job status machine of \<open>src/jobStatusMachine.ts\<close>: the composite state (status, awaiting role),
  the event table, the tenant-block escape and return, the standing-contract and internal short cuts,
  and the manual picker. \<open>undefined\<close> options read as false, so the two flags are booleans here.
\<close>

datatype job_status = NEW | QUOTE | AWAITING_APPROVAL | WORK | TENANT | DONE

datatype awaiting_role = FACILITIES | ACCOUNTS

datatype job_event =
    QUOTE_REQUESTED | QUOTE_RECEIVED | QUOTE_APPROVED | PO_CREATED | WORK_COMPLETED
  | INVOICE_APPROVED | TENANT_BLOCKED | TENANT_UNBLOCKED | WORK_AUTHORIZED | INVOICE_PAID

record job_state =
  jobStatus :: job_status
  awaitingRole :: awaiting_role

record job_transition =
  tr_from :: job_state
  tr_event :: job_event
  tr_to :: job_state

definition job_st :: "job_status \<Rightarrow> awaiting_role \<Rightarrow> job_state" where
  "job_st st r = \<lparr>jobStatus = st, awaitingRole = r\<rparr>"

definition job_tr :: "job_status \<times> awaiting_role \<Rightarrow> job_event \<Rightarrow> job_status \<times> awaiting_role \<Rightarrow> job_transition" where
  "job_tr a e b = \<lparr>tr_from = job_st (fst a) (snd a), tr_event = e, tr_to = job_st (fst b) (snd b)\<rparr>"

definition TRANSITIONS :: "job_transition list" where
  "TRANSITIONS =
    [ job_tr (NEW, FACILITIES) QUOTE_REQUESTED (QUOTE, FACILITIES),
      job_tr (NEW, FACILITIES) QUOTE_RECEIVED (AWAITING_APPROVAL, FACILITIES),
      job_tr (QUOTE, FACILITIES) QUOTE_RECEIVED (AWAITING_APPROVAL, FACILITIES),
      job_tr (AWAITING_APPROVAL, FACILITIES) QUOTE_APPROVED (WORK, FACILITIES),
      job_tr (AWAITING_APPROVAL, FACILITIES) PO_CREATED (WORK, FACILITIES),
      job_tr (WORK, FACILITIES) WORK_COMPLETED (AWAITING_APPROVAL, ACCOUNTS),
      job_tr (AWAITING_APPROVAL, ACCOUNTS) INVOICE_APPROVED (DONE, ACCOUNTS),
      job_tr (AWAITING_APPROVAL, ACCOUNTS) INVOICE_PAID (DONE, ACCOUNTS) ]"

definition statesEqual :: "job_state \<Rightarrow> job_state \<Rightarrow> bool" where
  "statesEqual a b \<longleftrightarrow> jobStatus a = jobStatus b \<and> awaitingRole a = awaitingRole b"

record transition_options =
  opt_preBlockState :: "job_state option"
  opt_isContract :: bool
  opt_isInternal :: bool

definition no_options :: transition_options where
  "no_options = \<lparr>opt_preBlockState = None, opt_isContract = False, opt_isInternal = False\<rparr>"

definition UNBLOCK_FALLBACK :: job_state where
  "UNBLOCK_FALLBACK = job_st WORK FACILITIES"

definition resolveUnblockTarget :: "job_state option \<Rightarrow> job_state" where
  "resolveUnblockTarget pre =
     (case pre of
        Some s \<Rightarrow> if jobStatus s \<noteq> TENANT \<and> jobStatus s \<noteq> DONE then s else UNBLOCK_FALLBACK
      | None \<Rightarrow> UNBLOCK_FALLBACK)"

definition job_nextState :: "job_state \<Rightarrow> job_event \<Rightarrow> transition_options \<Rightarrow> job_state option" where
  "job_nextState current event opts =
     (if event = TENANT_BLOCKED then
        (if jobStatus current = DONE then None else Some (job_st TENANT (awaitingRole current)))
      else if event = TENANT_UNBLOCKED then
        (if jobStatus current = TENANT then Some (resolveUnblockTarget (opt_preBlockState opts)) else None)
      else if event = WORK_AUTHORIZED then
        (if opt_isContract opts \<and> jobStatus current = NEW \<and> awaitingRole current = FACILITIES
         then Some (job_st WORK FACILITIES) else None)
      else
        map_option tr_to (find (\<lambda>t. statesEqual (tr_from t) current \<and> tr_event t = event) TRANSITIONS))"

definition job_canTransition :: "job_state \<Rightarrow> job_status \<Rightarrow> transition_options \<Rightarrow> bool" where
  "job_canTransition current target opts =
     (if jobStatus current = target then False
      else if jobStatus current = DONE then False
      else if target = TENANT then True
      else if jobStatus current = TENANT \<and> target = WORK then True
      else if opt_isContract opts \<and> jobStatus current = NEW \<and> awaitingRole current = FACILITIES \<and> target = WORK then True
      else if opt_isInternal opts \<and> target = DONE then True
      else list_ex (\<lambda>t. statesEqual (tr_from t) current \<and> jobStatus (tr_to t) = target) TRANSITIONS)"

definition JobStatus_values :: "job_status list" where
  "JobStatus_values = [NEW, QUOTE, AWAITING_APPROVAL, WORK, TENANT, DONE]"

definition allowedNextStatuses :: "job_state \<Rightarrow> transition_options \<Rightarrow> job_status list" where
  "allowedNextStatuses current opts = filter (\<lambda>s. job_canTransition current s opts) JobStatus_values"

definition resolveManualTarget :: "job_state \<Rightarrow> job_status \<Rightarrow> transition_options \<Rightarrow> job_state option" where
  "resolveManualTarget current target opts =
     (if \<not> job_canTransition current target opts then None
      else if target = TENANT then Some (job_st TENANT (awaitingRole current))
      else if jobStatus current = TENANT \<and> target = WORK then Some (resolveUnblockTarget (opt_preBlockState opts))
      else if jobStatus current = NEW \<and> target = WORK then Some (job_st WORK FACILITIES)
      else if opt_isInternal opts \<and> target = DONE then Some (job_st DONE (awaitingRole current))
      else map_option tr_to
             (find (\<lambda>t. statesEqual (tr_from t) current \<and> jobStatus (tr_to t) = target) TRANSITIONS))"

section \<open>Lemmas\<close>

lemma job_st_sel [simp]:
  "jobStatus (job_st st r) = st" "awaitingRole (job_st st r) = r"
  by (simp_all add: job_st_def)

lemma job_st_eq [simp]: "job_st a r = job_st b q \<longleftrightarrow> a = b \<and> r = q"
  by (simp add: job_st_def)

lemma job_st_collapse [simp]: "job_st (jobStatus s) (awaitingRole s) = s"
  by (simp add: job_st_def)

lemma statesEqual_iff [simp]: "statesEqual a b \<longleftrightarrow> a = b"
  by (auto simp: statesEqual_def)

lemma job_tr_sel [simp]:
  "tr_from (job_tr a e b) = job_st (fst a) (snd a)" "tr_event (job_tr a e b) = e"
  "tr_to (job_tr a e b) = job_st (fst b) (snd b)"
  by (simp_all add: job_tr_def)

lemma job_state_cases [case_names state]:
  obtains st r where "s = job_st st r"
  by (metis job_st_collapse)

lemma resolveUnblockTarget_live:
  "jobStatus (resolveUnblockTarget pre) \<notin> {TENANT, DONE}"
  by (auto simp: resolveUnblockTarget_def UNBLOCK_FALLBACK_def split: option.splits)

lemmas job_machine_defs =
  job_nextState_def job_canTransition_def resolveManualTarget_def TRANSITIONS_def

lemma resolveManualTarget_iff:
  "(\<exists>to. resolveManualTarget current target opts = Some to) \<longleftrightarrow> job_canTransition current target opts"
  by (cases current rule: job_state_cases; cases target; cases "jobStatus current"; cases "awaitingRole current")
     (auto simp: job_machine_defs)

lemma resolveManualTarget_status:
  assumes "resolveManualTarget current target opts = Some to"
  shows "jobStatus to = target \<or>
    (jobStatus current = TENANT \<and> target = WORK \<and> to = resolveUnblockTarget (opt_preBlockState opts))"
  using assms
  by (cases current rule: job_state_cases; cases target; cases "jobStatus current"; cases "awaitingRole current")
     (auto simp: job_machine_defs split: if_splits)

lemma job_nextState_done: "jobStatus s = DONE \<Longrightarrow> job_nextState s e opts = None"
  by (cases s rule: job_state_cases; cases e) (auto simp: job_machine_defs)

interpretation job_events: terminal_machine
  "\<lambda>s (e, opts). job_nextState s e opts" "\<lambda>s. jobStatus s = DONE"
  by unfold_locales (auto simp: job_nextState_done split: prod.splits)

text \<open>The states an event history can reach: accounts only ever wait on an invoice, a block or Done.\<close>

definition job_wf :: "job_state \<Rightarrow> bool" where
  "job_wf s \<longleftrightarrow>
     (awaitingRole s = ACCOUNTS \<longrightarrow> jobStatus s \<in> {AWAITING_APPROVAL, TENANT, DONE}) \<and>
     (jobStatus s = DONE \<longrightarrow> awaitingRole s = ACCOUNTS)"

definition opts_wf :: "transition_options \<Rightarrow> bool" where
  "opts_wf opts \<longleftrightarrow> (case opt_preBlockState opts of None \<Rightarrow> True | Some s \<Rightarrow> job_wf s)"

lemma job_nextState_wf:
  "job_wf s \<Longrightarrow> opts_wf opts \<Longrightarrow> job_nextState s e opts = Some s' \<Longrightarrow> job_wf s'"
  by (cases s rule: job_state_cases; cases e)
     (auto simp: job_machine_defs job_wf_def opts_wf_def resolveUnblockTarget_def UNBLOCK_FALLBACK_def
           split: if_splits option.splits)

text \<open>Which events can put a job to work or close it.\<close>

lemma job_nextState_work:
  assumes "job_nextState s e opts = Some s'" "jobStatus s' = WORK"
  shows "e = QUOTE_APPROVED \<or> e = PO_CREATED \<or> (e = WORK_AUTHORIZED \<and> opt_isContract opts) \<or>
    (e = TENANT_UNBLOCKED \<and> jobStatus s = TENANT)"
  using assms
  by (cases s rule: job_state_cases; cases e) (auto simp: job_machine_defs split: if_splits)

lemma job_nextState_closes:
  assumes "job_nextState s e opts = Some s'" "jobStatus s' = DONE"
  shows "s = job_st AWAITING_APPROVAL ACCOUNTS \<and> e \<in> {INVOICE_APPROVED, INVOICE_PAID}"
  using assms resolveUnblockTarget_live [of "opt_preBlockState opts"]
  by (cases s rule: job_state_cases; cases e) (auto simp: job_machine_defs split: if_splits)

section \<open>What the picker relies on\<close>

text \<open>The statuses the picker offers are exactly those the manual move resolves, and the move ends in
  the picked status, except that picking Work on a held job resumes the state it was held in (never Tenant or
  Done).\<close>

theorem picker_agrees_with_move:
  "(st \<in> set (allowedNextStatuses current opts) \<longleftrightarrow> resolveManualTarget current st opts \<noteq> None) \<and>
   (case resolveManualTarget current st opts of
      None \<Rightarrow> True
    | Some to \<Rightarrow>
        if jobStatus current = TENANT \<and> st = WORK
        then to = resolveUnblockTarget (opt_preBlockState opts) \<and> jobStatus to \<notin> {TENANT, DONE}
        else jobStatus to = st)"
proof -
  have mem: "st \<in> set JobStatus_values" by (cases st) (simp_all add: JobStatus_values_def)
  have "to = resolveUnblockTarget (opt_preBlockState opts)"
    if "resolveManualTarget current st opts = Some to" "jobStatus current = TENANT" "st = WORK" for to
    using that by (auto simp: resolveManualTarget_def split: if_splits)
  with mem resolveManualTarget_iff [of current st opts] resolveManualTarget_status [of current st opts]
    resolveUnblockTarget_live [of "opt_preBlockState opts"]
  show ?thesis by (fastforce simp: allowedNextStatuses_def split: option.splits)
qed

end
