(* ===== verification/Job_Guard.thy ===== *)
theory Job_Guard
  imports Job_Machine
begin

text \<open>
  The transition guard of \<open>src/jobTransitionGuard.ts\<close> and the three handlers that move a job:
  the manual pick of \<open>addJobEvent\<close> (\<open>src/functions/jobs.ts\<close>), the system events of
  \<open>advanceJobStatus\<close> (\<open>src/jobStatusHelpers.ts\<close>) and \<open>reopenJob\<close>
  (\<open>src/functions/reopenJob.ts\<close>). A job is the state the guard decides on and the captured
  pre-block state; the sentences shown to people are not modelled, their codes are.
\<close>

record guard_facts =
  allInvoicesPaid :: bool
  approvedInvoicesNotInMyob :: nat
  hasApprovedQuote :: bool
  hasQuote :: bool
  incomingInvoices :: nat
  incomingInvoicesAwaitingApproval :: nat
  isContract :: bool
  isInternal :: bool

datatype guard_actor = UserActor "string list" | SystemActor

datatype guard_request = Manual job_status | Reopen string | InvoicesPaid

record guard_input =
  gi_actor :: guard_actor
  gi_current :: job_state
  gi_facts :: guard_facts
  gi_machineTarget :: "job_state option"
  gi_request :: guard_request

datatype guard_refusal =
    RoleNotPermitted | DoneIsFinal | Illegal | NoQuote | QuoteNotApproved | InvoiceMissing
  | InvoiceNotApproved | InvoiceNotInMyob | NotDone | ReasonRequired | SystemOnly | InvoicesNotPaid

definition JOB_EDIT_ROLES :: "string list" where
  "JOB_EDIT_ROLES =
    [''facilities'', ''accounts'', ''facilities_manager'', ''accounts_manager'', ''cfo'', ''director'', ''admin'']"

definition REOPEN_ROLES :: "string list" where
  "REOPEN_ROLES = [''facilities_manager'', ''accounts_manager'', ''cfo'', ''director'']"

definition FLAG_ROLES :: "string list" where
  "FLAG_ROLES = [''facilities_manager'', ''accounts_manager'', ''cfo'', ''director'', ''admin'']"

definition guard_holds :: "guard_actor \<Rightarrow> string list \<Rightarrow> bool" where
  "guard_holds actor allowed =
     (case actor of
        UserActor roles \<Rightarrow> list_ex (\<lambda>r. js_lower (js_trim r) \<in> set allowed) roles
      | SystemActor \<Rightarrow> False)"

definition guardManual :: "guard_input \<Rightarrow> job_status \<Rightarrow> guard_refusal + job_state" where
  "guardManual i target =
     (if \<not> guard_holds (gi_actor i) JOB_EDIT_ROLES then Inl RoleNotPermitted
      else if jobStatus (gi_current i) = DONE then Inl DoneIsFinal
      else
        (let resuming = (jobStatus (gi_current i) = TENANT \<and> target = WORK); facts = gi_facts i
         in case gi_machineTarget i of
              None \<Rightarrow> Inl Illegal
            | Some m \<Rightarrow>
                if \<not> resuming \<and> jobStatus m \<noteq> target then Inl Illegal
                else if jobStatus m = AWAITING_APPROVAL \<and> awaitingRole m = FACILITIES \<and> \<not> hasQuote facts
                then Inl NoQuote
                else if jobStatus m = WORK \<and> \<not> (hasApprovedQuote facts \<or> isContract facts \<or> isInternal facts)
                then Inl QuoteNotApproved
                else if jobStatus m = DONE \<and> \<not> isInternal facts \<and> incomingInvoices facts < 1 then Inl InvoiceMissing
                else if jobStatus m = DONE \<and> \<not> isInternal facts \<and> incomingInvoicesAwaitingApproval facts > 0
                then Inl InvoiceNotApproved
                else if jobStatus m = DONE \<and> \<not> isInternal facts \<and> approvedInvoicesNotInMyob facts > 0
                then Inl InvoiceNotInMyob
                else Inr m))"

definition guardReopen :: "guard_input \<Rightarrow> string \<Rightarrow> guard_refusal + job_state" where
  "guardReopen i reason =
     (if \<not> guard_holds (gi_actor i) REOPEN_ROLES then Inl RoleNotPermitted
      else if jobStatus (gi_current i) \<noteq> DONE then Inl NotDone
      else if js_trim reason = '''' then Inl ReasonRequired
      else Inr (if isInternal (gi_facts i) then job_st WORK FACILITIES else job_st AWAITING_APPROVAL ACCOUNTS))"

definition guardInvoicesPaid :: "guard_input \<Rightarrow> guard_refusal + job_state" where
  "guardInvoicesPaid i =
     (if gi_actor i \<noteq> SystemActor then Inl SystemOnly
      else case gi_machineTarget i of
        None \<Rightarrow> Inl Illegal
      | Some m \<Rightarrow>
          if jobStatus m \<noteq> DONE then Inl Illegal
          else if incomingInvoices (gi_facts i) < 1 \<or> \<not> allInvoicesPaid (gi_facts i) then Inl InvoicesNotPaid
          else Inr m)"

definition guardTransition :: "guard_input \<Rightarrow> guard_refusal + job_state" where
  "guardTransition i =
     (case gi_request i of
        Manual target \<Rightarrow> guardManual i target
      | Reopen reason \<Rightarrow> guardReopen i reason
      | InvoicesPaid \<Rightarrow> guardInvoicesPaid i)"

definition isHoldOrResume :: "job_state \<Rightarrow> job_status \<Rightarrow> bool" where
  "isHoldOrResume current target =
     (if jobStatus current = DONE then False
      else if target = TENANT then jobStatus current \<noteq> TENANT
      else jobStatus current = TENANT \<and> target = WORK)"

datatype flag_refusal = FlagRoleNotPermitted | FlagFrozen

definition flagChangeRefusal :: "guard_actor \<Rightarrow> bool \<Rightarrow> flag_refusal option" where
  "flagChangeRefusal actor hasMoneyRecords =
     (if \<not> guard_holds actor FLAG_ROLES then Some FlagRoleNotPermitted
      else if hasMoneyRecords then Some FlagFrozen
      else None)"

section \<open>The handlers that move a job\<close>

record job_row =
  job_current :: job_state
  job_preBlock :: "job_state option"

text \<open>\<open>addJobEvent\<close> with a \<open>NewStatus\<close>: same status is a no-op; otherwise the machine's answer goes
  through the guard, the move is written, and the pre-block state is captured or cleared.\<close>

definition addJobEvent_status ::
  "string list \<Rightarrow> guard_facts \<Rightarrow> job_status \<Rightarrow> job_row \<Rightarrow> guard_refusal + job_row" where
  "addJobEvent_status roles facts newStatus j =
     (if newStatus = jobStatus (job_current j) then Inr j
      else
        (let machineTarget = resolveManualTarget (job_current j) newStatus
               \<lparr>opt_preBlockState = job_preBlock j, opt_isContract = isContract facts, opt_isInternal = isInternal facts\<rparr>
         in case guardTransition \<lparr>gi_actor = UserActor roles, gi_current = job_current j, gi_facts = facts,
                   gi_machineTarget = machineTarget, gi_request = Manual newStatus\<rparr> of
              Inl e \<Rightarrow> Inl e
            | Inr to \<Rightarrow>
                Inr \<lparr>job_current = to,
                     job_preBlock =
                       (if jobStatus to = TENANT then Some (job_current j)
                        else if jobStatus (job_current j) = TENANT then None
                        else job_preBlock j)\<rparr>))"

definition advanceJobStatus :: "job_event \<Rightarrow> job_row \<Rightarrow> bool \<times> job_row" where
  "advanceJobStatus event j =
     (case job_nextState (job_current j) event no_options of
        None \<Rightarrow> (False, j)
      | Some target \<Rightarrow>
          if jobStatus target = jobStatus (job_current j) \<and> awaitingRole target = awaitingRole (job_current j)
          then (False, j)
          else (True, j\<lparr>job_current := target\<rparr>))"

definition closeJobWhenInvoicesPaid :: "guard_facts \<Rightarrow> job_row \<Rightarrow> guard_refusal + job_row" where
  "closeJobWhenInvoicesPaid facts j =
     (case guardTransition \<lparr>gi_actor = SystemActor, gi_current = job_current j, gi_facts = facts,
             gi_machineTarget = job_nextState (job_current j) INVOICE_PAID no_options,
             gi_request = InvoicesPaid\<rparr> of
        Inl e \<Rightarrow> Inl e
      | Inr _ \<Rightarrow>
          (let (advanced, j') = advanceJobStatus INVOICE_PAID j
           in if advanced then Inr j' else Inl Illegal))"

definition REOPEN_REASON_MAX :: nat where
  "REOPEN_REASON_MAX = 1000"

definition reopenJob :: "string list \<Rightarrow> guard_facts \<Rightarrow> string option \<Rightarrow> job_row \<Rightarrow> guard_refusal + job_row" where
  "reopenJob roles facts reasonText j =
     (let reason = (case reasonText of Some t \<Rightarrow> take REOPEN_REASON_MAX (js_trim t) | None \<Rightarrow> '''')
      in case guardTransition \<lparr>gi_actor = UserActor roles, gi_current = job_current j, gi_facts = facts,
                gi_machineTarget = None, gi_request = Reopen reason\<rparr> of
           Inl e \<Rightarrow> Inl e
         | Inr to \<Rightarrow> Inr (j\<lparr>job_current := to\<rparr>))"

section \<open>A job's history\<close>

datatype job_action =
    Pick "string list" guard_facts job_status
  | System job_event
  | ClosePaid guard_facts
  | ReopenAs "string list" guard_facts "string option"

text \<open>The events the handlers raise through \<open>advanceJobStatus\<close>.\<close>

definition raised_events :: "job_event set" where
  "raised_events = {QUOTE_REQUESTED, QUOTE_RECEIVED, QUOTE_APPROVED, PO_CREATED, WORK_COMPLETED}"

fun result_option :: "'e + 'a \<Rightarrow> 'a option" where
  "result_option (Inl _) = None"
| "result_option (Inr x) = Some x"

fun job_step :: "job_row \<Rightarrow> job_action \<Rightarrow> job_row option" where
  "job_step j (Pick roles facts st) = result_option (addJobEvent_status roles facts st j)"
| "job_step j (System e) = (if e \<in> raised_events then Some (snd (advanceJobStatus e j)) else None)"
| "job_step j (ClosePaid facts) = result_option (closeJobWhenInvoicesPaid facts j)"
| "job_step j (ReopenAs roles facts reason) = result_option (reopenJob roles facts reason j)"

text \<open>A held job remembers a live state, any other job remembers none, and only a job past its
  work waits on accounts.\<close>

definition job_row_inv :: "job_row \<Rightarrow> bool" where
  "job_row_inv j \<longleftrightarrow>
     (case job_preBlock j of
        None \<Rightarrow> jobStatus (job_current j) \<noteq> TENANT
      | Some s \<Rightarrow> jobStatus (job_current j) = TENANT \<and> jobStatus s \<noteq> TENANT \<and> jobStatus s \<noteq> DONE \<and>
          awaitingRole s = awaitingRole (job_current j) \<and>
          (awaitingRole s = ACCOUNTS \<longrightarrow> jobStatus s = AWAITING_APPROVAL)) \<and>
     (awaitingRole (job_current j) = ACCOUNTS \<longrightarrow> jobStatus (job_current j) \<in> {AWAITING_APPROVAL, TENANT, DONE})"

lemma result_option_Some [simp]: "result_option r = Some x \<longleftrightarrow> r = Inr x"
  by (cases r) auto

lemmas guard_defs = guardTransition_def guardManual_def guardReopen_def guardInvoicesPaid_def Let_def

lemma guard_manual_Inr:
  assumes "guardTransition \<lparr>gi_actor = UserActor roles, gi_current = c, gi_facts = f,
     gi_machineTarget = m, gi_request = Manual target\<rparr> = Inr to"
  shows "m = Some to \<and> guard_holds (UserActor roles) JOB_EDIT_ROLES \<and> jobStatus c \<noteq> DONE \<and>
    (jobStatus to = target \<or> jobStatus c = TENANT \<and> target = WORK) \<and>
    (to = job_st AWAITING_APPROVAL FACILITIES \<longrightarrow> hasQuote f) \<and>
    (jobStatus to = WORK \<longrightarrow> hasApprovedQuote f \<or> isContract f \<or> isInternal f) \<and>
    (jobStatus to = DONE \<longrightarrow> isInternal f \<or>
       (1 \<le> incomingInvoices f \<and> incomingInvoicesAwaitingApproval f = 0 \<and> approvedInvoicesNotInMyob f = 0))"
  using assms by (auto simp: guard_defs split: option.splits if_splits)

lemma addJobEvent_status_picks:
  assumes "addJobEvent_status roles f st j = Inr j'" "st \<noteq> jobStatus (job_current j)"
  shows "\<exists>opts. resolveManualTarget (job_current j) st opts = Some (job_current j') \<and>
      opt_preBlockState opts = job_preBlock j \<and> st \<noteq> jobStatus (job_current j) \<and>
      guardTransition \<lparr>gi_actor = UserActor roles, gi_current = job_current j, gi_facts = f,
        gi_machineTarget = Some (job_current j'), gi_request = Manual st\<rparr> = Inr (job_current j') \<and>
      job_preBlock j' = (if jobStatus (job_current j') = TENANT then Some (job_current j)
                         else if jobStatus (job_current j) = TENANT then None else job_preBlock j)"
proof -
  let ?m = "resolveManualTarget (job_current j) st
    \<lparr>opt_preBlockState = job_preBlock j, opt_isContract = isContract f, opt_isInternal = isInternal f\<rparr>"
  note st = assms(2)
  from assms obtain to where g: "guardTransition \<lparr>gi_actor = UserActor roles, gi_current = job_current j, gi_facts = f,
        gi_machineTarget = ?m, gi_request = Manual st\<rparr> = Inr to"
    and j': "job_current j' = to" "job_preBlock j' = (if jobStatus to = TENANT then Some (job_current j)
       else if jobStatus (job_current j) = TENANT then None else job_preBlock j)"
    by (auto simp: addJobEvent_status_def Let_def split: if_splits sum.splits)
  from guard_manual_Inr [OF g] have "?m = Some to" by simp
  with st g j' show ?thesis by (intro exI [of _ "\<lparr>opt_preBlockState = job_preBlock j,
     opt_isContract = isContract f, opt_isInternal = isInternal f\<rparr>"]) simp
qed

lemma addJobEvent_status_same: "addJobEvent_status roles f (jobStatus (job_current j)) j = Inr j"
  by (simp add: addJobEvent_status_def)

lemma addJobEvent_status_moves:
  assumes "addJobEvent_status roles f st j = Inr j'" "j' \<noteq> j"
  shows "\<exists>opts. resolveManualTarget (job_current j) st opts = Some (job_current j') \<and>
      opt_preBlockState opts = job_preBlock j \<and> st \<noteq> jobStatus (job_current j) \<and>
      guardTransition \<lparr>gi_actor = UserActor roles, gi_current = job_current j, gi_facts = f,
        gi_machineTarget = Some (job_current j'), gi_request = Manual st\<rparr> = Inr (job_current j') \<and>
      job_preBlock j' = (if jobStatus (job_current j') = TENANT then Some (job_current j)
                         else if jobStatus (job_current j) = TENANT then None else job_preBlock j)"
proof (rule addJobEvent_status_picks [OF assms(1)])
  show "st \<noteq> jobStatus (job_current j)" using assms addJobEvent_status_same by auto
qed

lemma resolveManualTarget_from_tenant:
  "resolveManualTarget s st opts = Some to \<Longrightarrow> jobStatus s = TENANT \<Longrightarrow>
     to = resolveUnblockTarget (opt_preBlockState opts) \<and> st = WORK \<or> to = job_st DONE (awaitingRole s) \<and> st = DONE"
  by (cases s rule: job_state_cases; cases st) (auto simp: job_machine_defs split: if_splits)

lemma resolveManualTarget_live:
  "resolveManualTarget s st opts = Some to \<Longrightarrow> jobStatus s \<noteq> TENANT \<Longrightarrow>
     (awaitingRole s = ACCOUNTS \<longrightarrow> jobStatus s \<in> {AWAITING_APPROVAL, DONE}) \<Longrightarrow>
     jobStatus s \<noteq> DONE \<and> (jobStatus to = TENANT \<longrightarrow> to = job_st TENANT (awaitingRole s)) \<and>
     (awaitingRole to = ACCOUNTS \<longrightarrow> jobStatus to \<in> {AWAITING_APPROVAL, TENANT, DONE})"
  by (cases s rule: job_state_cases; cases st; cases "awaitingRole s")
     (auto simp: job_machine_defs split: if_splits)

lemma pick_preserves [preserved]:
  assumes "job_row_inv j" "addJobEvent_status roles f st j = Inr j'"
  shows "job_row_inv j'"
proof (cases "j' = j")
  case True
  with assms show ?thesis by simp
next
  case False
  from addJobEvent_status_moves [OF assms(2) this] obtain opts where
    m: "resolveManualTarget (job_current j) st opts = Some (job_current j')"
    and pre: "opt_preBlockState opts = job_preBlock j"
    and post: "job_preBlock j' = (if jobStatus (job_current j') = TENANT then Some (job_current j)
                         else if jobStatus (job_current j) = TENANT then None else job_preBlock j)" by blast
  show ?thesis
  proof (cases "jobStatus (job_current j) = TENANT")
    case True
    with assms(1) obtain s where s: "job_preBlock j = Some s" "jobStatus s \<notin> {TENANT, DONE}"
      "awaitingRole s = ACCOUNTS \<longrightarrow> jobStatus s = AWAITING_APPROVAL"
      by (auto simp: job_row_inv_def split: option.splits)
    with resolveManualTarget_from_tenant [OF m True] pre post True show ?thesis
      by (auto simp: job_row_inv_def resolveUnblockTarget_def)
  next
    case False
    with assms(1) have "job_preBlock j = None"
      "awaitingRole (job_current j) = ACCOUNTS \<longrightarrow> jobStatus (job_current j) \<in> {AWAITING_APPROVAL, DONE}"
      by (auto simp: job_row_inv_def split: option.splits)
    with resolveManualTarget_live [OF m False this(2)] post False show ?thesis
      by (auto simp: job_row_inv_def)
  qed
qed

lemma raised_event_step:
  assumes "job_nextState s e no_options = Some t" "e \<in> raised_events"
  shows "jobStatus s \<notin> {TENANT, DONE} \<and> jobStatus t \<noteq> TENANT \<and>
    (awaitingRole t = ACCOUNTS \<longrightarrow> jobStatus t \<in> {AWAITING_APPROVAL, DONE})"
  using assms
  by (cases s rule: job_state_cases; cases e)
     (auto simp: job_nextState_def TRANSITIONS_def raised_events_def split: if_splits)

lemma advance_preserves [preserved]:
  assumes "job_row_inv j" "e \<in> raised_events"
  shows "job_row_inv (snd (advanceJobStatus e j))"
proof (cases "job_nextState (job_current j) e no_options")
  case None
  with assms show ?thesis by (simp add: advanceJobStatus_def)
next
  case (Some t)
  from raised_event_step [OF Some assms(2)] assms(1) Some show ?thesis
    by (auto simp: advanceJobStatus_def job_row_inv_def split: option.splits)
qed

lemma close_paid_Inr:
  assumes "closeJobWhenInvoicesPaid f j = Inr j'"
  shows "job_current j = job_st AWAITING_APPROVAL ACCOUNTS \<and> 1 \<le> incomingInvoices f \<and> allInvoicesPaid f \<and>
    j' = j\<lparr>job_current := job_st DONE ACCOUNTS\<rparr>"
  using assms
  by (cases "job_current j" rule: job_state_cases)
     (auto simp: closeJobWhenInvoicesPaid_def guard_defs advanceJobStatus_def job_nextState_def TRANSITIONS_def
           split: option.splits if_splits sum.splits)

lemma reopen_Inr:
  assumes "reopenJob roles f reason j = Inr j'"
  shows "guard_holds (UserActor roles) REOPEN_ROLES \<and> jobStatus (job_current j) = DONE \<and>
    (\<exists>t. reason = Some t \<and> js_trim t \<noteq> []) \<and>
    j' = j\<lparr>job_current := if isInternal f then job_st WORK FACILITIES else job_st AWAITING_APPROVAL ACCOUNTS\<rparr>"
  using assms
  by (auto simp: reopenJob_def guard_defs split: option.splits if_splits sum.splits)

lemma job_step_inv: "job_row_inv j \<Longrightarrow> job_step j a = Some j' \<Longrightarrow> job_row_inv j'"
proof (cases a)
  case (Pick roles f st)
  then show "job_row_inv j \<Longrightarrow> job_step j a = Some j' \<Longrightarrow> ?thesis" by (auto intro: pick_preserves)
next
  case (System e)
  then show "job_row_inv j \<Longrightarrow> job_step j a = Some j' \<Longrightarrow> ?thesis"
    by (auto intro: advance_preserves split: if_splits)
next
  case (ClosePaid f)
  then show "job_row_inv j \<Longrightarrow> job_step j a = Some j' \<Longrightarrow> ?thesis"
    by (auto dest!: close_paid_Inr simp: job_row_inv_def split: option.splits)
next
  case (ReopenAs roles f reason)
  then show "job_row_inv j \<Longrightarrow> job_step j a = Some j' \<Longrightarrow> ?thesis"
    by (auto dest!: reopen_Inr simp: job_row_inv_def split: option.splits if_splits)
qed

interpretation jobs: invariant_machine job_step job_row_inv
  by unfold_locales (rule job_step_inv)

text \<open>Only a permitted reopen with a reason moves a done job.\<close>

fun permitted_reopen :: "job_action \<Rightarrow> bool" where
  "permitted_reopen (ReopenAs roles _ (Some t)) = (guard_holds (UserActor roles) REOPEN_ROLES \<and> js_trim t \<noteq> [])"
| "permitted_reopen _ = False"

definition job_step_closed :: "job_row \<Rightarrow> job_action \<Rightarrow> job_row option" where
  "job_step_closed j a = (if permitted_reopen a then None else
     case job_step j a of Some j' \<Rightarrow> if j' = j then None else Some j' | None \<Rightarrow> None)"

lemma pick_done: "jobStatus (job_current j) = DONE \<Longrightarrow> addJobEvent_status roles f st j = Inr j' \<Longrightarrow> j' = j"
  using addJobEvent_status_moves [of roles f st j j'] guard_manual_Inr by blast

lemma job_step_closed_done: "jobStatus (job_current j) = DONE \<Longrightarrow> job_step_closed j a = None"
proof (cases a)
  case (Pick roles f st)
  then show "jobStatus (job_current j) = DONE \<Longrightarrow> ?thesis"
    by (auto simp: job_step_closed_def split: option.splits dest: pick_done)
next
  case (ReopenAs roles f reason)
  then show "jobStatus (job_current j) = DONE \<Longrightarrow> ?thesis"
    by (auto simp: job_step_closed_def split: option.splits dest!: reopen_Inr)
qed (auto simp: job_step_closed_def advanceJobStatus_def job_nextState_done split: option.splits dest!: close_paid_Inr)

interpretation done_jobs: terminal_machine job_step_closed "\<lambda>j. jobStatus (job_current j) = DONE"
  by unfold_locales (rule job_step_closed_done)

lemma attempts_closed: "\<forall>a\<in>set as. \<not> permitted_reopen a \<Longrightarrow> attempts job_step j as = attempts job_step_closed j as"
  by (induction as arbitrary: j) (auto simp: attempt_def job_step_closed_def split: option.splits)

text \<open>What put a job into Done.\<close>

fun closing_action :: "job_action \<Rightarrow> bool" where
  "closing_action (Pick roles f _) = (guard_holds (UserActor roles) JOB_EDIT_ROLES \<and>
     (isInternal f \<or> 1 \<le> incomingInvoices f \<and> incomingInvoicesAwaitingApproval f = 0 \<and> approvedInvoicesNotInMyob f = 0))"
| "closing_action (ClosePaid f) = (1 \<le> incomingInvoices f \<and> allInvoicesPaid f)"
| "closing_action _ = False"

lemma job_step_closes:
  assumes "job_step j a = Some j'" "jobStatus (job_current j') = DONE" "jobStatus (job_current j) \<noteq> DONE"
  shows "closing_action a"
proof (cases a)
  case (Pick roles f st)
  with assms have "addJobEvent_status roles f st j = Inr j'" "j' \<noteq> j" by auto
  from addJobEvent_status_moves [OF this] obtain target where
    "guardTransition \<lparr>gi_actor = UserActor roles, gi_current = job_current j, gi_facts = f,
        gi_machineTarget = Some (job_current j'), gi_request = Manual target\<rparr> = Inr (job_current j')"
    by blast
  from guard_manual_Inr [OF this] assms(2) Pick show ?thesis by auto
next
  case (System e)
  with assms have e: "e \<in> raised_events" and adv: "j' = snd (advanceJobStatus e j)" by (auto split: if_splits)
  from adv assms(2,3) obtain t where t: "job_nextState (job_current j) e no_options = Some t" "jobStatus t = DONE"
    by (auto simp: advanceJobStatus_def split: option.splits if_splits)
  from job_nextState_closes [OF t] e show ?thesis by (auto simp: raised_events_def)
next
  case (ClosePaid f)
  with assms close_paid_Inr [of f j j'] show ?thesis by simp
next
  case (ReopenAs roles f reason)
  with assms reopen_Inr [of roles f reason j j'] show ?thesis by (auto split: if_splits)
qed

lemma attempts_closes:
  assumes "jobStatus (job_current (attempts job_step j as)) = DONE" "jobStatus (job_current j) \<noteq> DONE"
  shows "\<exists>a\<in>set as. closing_action a"
  using assms
proof (induction as arbitrary: j)
  case (Cons a as)
  show ?case
  proof (cases "jobStatus (job_current (attempt job_step j a)) = DONE")
    case True
    with Cons.prems(2) show ?thesis
      using job_step_closes [of j a] by (auto simp: attempt_def split: option.splits)
  next
    case False
    with Cons show ?thesis by auto
  qed
qed simp

definition new_job :: job_row where
  "new_job = \<lparr>job_current = job_st NEW FACILITIES, job_preBlock = None\<rparr>"

lemma new_job_inv: "job_row_inv new_job"
  by (simp add: new_job_def job_row_inv_def)

definition ready_facts :: guard_facts where
  "ready_facts = \<lparr>allInvoicesPaid = True, approvedInvoicesNotInMyob = 0, hasApprovedQuote = True, hasQuote = True,
     incomingInvoices = 1, incomingInvoicesAwaitingApproval = 0, isContract = False, isInternal = False\<rparr>"

section \<open>What the handlers guarantee\<close>

text \<open>A person's status pick that moves a job is authorised and earned: an edit role is held, the job
  was not Done, work starts only on an approved quote (or a contract or internal job), and Done needs every
  incoming invoice present, approved and in MYOB unless the job is internal.\<close>

theorem manual_move_authorised:
  assumes "addJobEvent_status roles f st j = Inr j'" "j' \<noteq> j"
  shows "(\<exists>r\<in>set roles. js_lower (js_trim r) \<in> set JOB_EDIT_ROLES) \<and> jobStatus (job_current j) \<noteq> DONE \<and>
    (job_current j' = job_st AWAITING_APPROVAL FACILITIES \<longrightarrow> hasQuote f) \<and>
    (jobStatus (job_current j') = WORK \<longrightarrow> hasApprovedQuote f \<or> isContract f \<or> isInternal f) \<and>
    (jobStatus (job_current j') = DONE \<longrightarrow> isInternal f \<or>
       1 \<le> incomingInvoices f \<and> incomingInvoicesAwaitingApproval f = 0 \<and> approvedInvoicesNotInMyob f = 0)"
proof -
  from addJobEvent_status_moves [OF assms] obtain target where
    "guardTransition \<lparr>gi_actor = UserActor roles, gi_current = job_current j, gi_facts = f,
        gi_machineTarget = Some (job_current j'), gi_request = Manual target\<rparr> = Inr (job_current j')"
    by blast
  from guard_manual_Inr [OF this] show ?thesis by (auto simp: guard_holds_def list_ex_iff)
qed

theorem manual_move_authorised_witness:
  "(\<exists>r\<in>set [''CFO '']. js_lower (js_trim r) \<in> set JOB_EDIT_ROLES) \<and> hasQuote ready_facts"
proof -
  let ?j = "\<lparr>job_current = job_st QUOTE FACILITIES, job_preBlock = None\<rparr>"
  let ?j' = "\<lparr>job_current = job_st AWAITING_APPROVAL FACILITIES, job_preBlock = None\<rparr>"
  have "addJobEvent_status [''CFO ''] ready_facts AWAITING_APPROVAL ?j = Inr ?j'" by code_simp
  moreover have "?j' \<noteq> ?j" by simp
  ultimately show ?thesis using manual_move_authorised [of "[''CFO '']" ready_facts AWAITING_APPROVAL ?j ?j'] by simp
qed

text \<open>Hold then resume is the identity: whatever state a job was held in, picking Work afterwards
  (when the guard lets it through) puts it back there and forgets the hold.\<close>

theorem hold_resume_roundtrip:
  assumes "job_row_inv j" "addJobEvent_status roles f TENANT j = Inr held" "held \<noteq> j"
    and "addJobEvent_status roles' f' WORK held = Inr j'"
  shows "j' = j"
proof -
  from addJobEvent_status_moves [OF assms(2,3)] obtain opts where
    m: "resolveManualTarget (job_current j) TENANT opts = Some (job_current held)"
    and nt: "jobStatus (job_current j) \<noteq> TENANT"
    and pre: "job_preBlock held = (if jobStatus (job_current held) = TENANT then Some (job_current j)
       else if jobStatus (job_current j) = TENANT then None else job_preBlock j)" by auto
  from m have h: "job_current held = job_st TENANT (awaitingRole (job_current j))" "jobStatus (job_current j) \<noteq> DONE"
    by (auto simp: resolveManualTarget_def job_canTransition_def split: if_splits)
  have np: "job_preBlock j = None" using assms(1) nt by (auto simp: job_row_inv_def split: option.splits)
  have "WORK \<noteq> jobStatus (job_current held)" by (simp add: h)
  from addJobEvent_status_picks [OF assms(4) this] obtain opts' where
    m': "resolveManualTarget (job_current held) WORK opts' = Some (job_current j')"
    "opt_preBlockState opts' = job_preBlock held"
    and pre': "job_preBlock j' = (if jobStatus (job_current j') = TENANT then Some (job_current held)
       else if jobStatus (job_current held) = TENANT then None else job_preBlock held)" by blast
  from m' h pre nt have "job_current j' = job_current j"
    by (auto simp: resolveManualTarget_def resolveUnblockTarget_def split: if_splits)
  with pre' h nt np show ?thesis by simp
qed

theorem hold_resume_roundtrip_witness:
  "\<exists>held. addJobEvent_status [''admin''] ready_facts TENANT
      \<lparr>job_current = job_st AWAITING_APPROVAL ACCOUNTS, job_preBlock = None\<rparr> = Inr held \<and>
    addJobEvent_status [''cfo''] ready_facts WORK held =
      Inr \<lparr>job_current = job_st AWAITING_APPROVAL ACCOUNTS, job_preBlock = None\<rparr>"
proof -
  let ?j = "\<lparr>job_current = job_st AWAITING_APPROVAL ACCOUNTS, job_preBlock = None\<rparr>"
  let ?h = "\<lparr>job_current = job_st TENANT ACCOUNTS, job_preBlock = Some (job_st AWAITING_APPROVAL ACCOUNTS)\<rparr>"
  have 1: "addJobEvent_status [''admin''] ready_facts TENANT ?j = Inr ?h" by code_simp
  have "is_ok (addJobEvent_status [''cfo''] ready_facts WORK ?h)" by code_simp
  then obtain r where 2: "addJobEvent_status [''cfo''] ready_facts WORK ?h = Inr r"
    by (auto elim: is_ok.elims)
  have "r = ?j"
    by (rule hold_resume_roundtrip [OF _ 1 _ 2]) (simp_all add: job_row_inv_def)
  with 1 2 show ?thesis by blast
qed

text \<open>C30: Whatever sequence of picks, system events, payment read-backs and reopens a new job goes through,
  its row stays consistent: it remembers a pre-hold state exactly while it is held, that state is a live one
  with the same awaiting role, and only a job past its work waits on accounts.\<close>

theorem job_row_consistent: "job_row_inv (attempts job_step new_job history)"
  by (rule jobs.attempts_good) (rule new_job_inv)

text \<open>C29: Done is final but for a reopen by a manager role with a reason: any history that changes a done
  job contains one.\<close>

theorem done_needs_reopen:
  assumes "jobStatus (job_current j) = DONE" "attempts job_step j history \<noteq> j"
  shows "\<exists>roles f t. ReopenAs roles f (Some t) \<in> set history \<and> js_trim t \<noteq> [] \<and>
    (\<exists>r\<in>set roles. js_lower (js_trim r) \<in> set REOPEN_ROLES)"
proof -
  from assms attempts_closed [of history j] done_jobs.attempts_final
  obtain a where "a \<in> set history" "permitted_reopen a" by force
  then show ?thesis by (cases a rule: permitted_reopen.cases) (auto simp: guard_holds_def list_ex_iff)
qed

theorem done_needs_reopen_witness:
  "\<exists>roles f t. ReopenAs roles f (Some t) \<in> set [ReopenAs [''cfo''] ready_facts (Some ''again'')] \<and>
    js_trim t \<noteq> [] \<and> (\<exists>r\<in>set roles. js_lower (js_trim r) \<in> set REOPEN_ROLES)"
proof -
  let ?j = "\<lparr>job_current = job_st DONE ACCOUNTS, job_preBlock = None\<rparr>"
  have "attempts job_step ?j [ReopenAs [''cfo''] ready_facts (Some ''again'')] =
    \<lparr>job_current = job_st AWAITING_APPROVAL ACCOUNTS, job_preBlock = None\<rparr>" by code_simp
  then show ?thesis by (intro done_needs_reopen [of ?j]) simp_all
qed

text \<open>C6: A new job is only ever closed by an authorised pick whose invoices are all in, approved and in
  MYOB (or on an internal job), or by the payment read-back that saw every incoming invoice paid.\<close>

theorem closed_jobs_were_paid:
  assumes "jobStatus (job_current (attempts job_step new_job history)) = DONE"
  shows "(\<exists>roles f st. Pick roles f st \<in> set history \<and> guard_holds (UserActor roles) JOB_EDIT_ROLES \<and>
      (isInternal f \<or> 1 \<le> incomingInvoices f \<and> incomingInvoicesAwaitingApproval f = 0 \<and>
        approvedInvoicesNotInMyob f = 0)) \<or>
    (\<exists>f. ClosePaid f \<in> set history \<and> 1 \<le> incomingInvoices f \<and> allInvoicesPaid f)"
proof -
  from attempts_closes [OF assms] obtain a where "a \<in> set history" "closing_action a"
    by (auto simp: new_job_def)
  then show ?thesis by (cases a rule: closing_action.cases) auto
qed

theorem closed_jobs_were_paid_witness:
  "\<exists>f. ClosePaid f \<in> set [System QUOTE_RECEIVED, System PO_CREATED, System WORK_COMPLETED, ClosePaid ready_facts] \<and>
    1 \<le> incomingInvoices f \<and> allInvoicesPaid f"
proof -
  have "jobStatus (job_current (attempts job_step new_job
     [System QUOTE_RECEIVED, System PO_CREATED, System WORK_COMPLETED, ClosePaid ready_facts])) = DONE" by code_simp
  from closed_jobs_were_paid [OF this] show ?thesis by auto
qed

end
