(* ===== verification/Rent_Review_Machine.thy ===== *)
theory Rent_Review_Machine
  imports Prelude
begin

text \<open>
  The rent review machine of \<open>src/rentReviewMachine.ts\<close>: ten states (a missing review is \<open>None\<close>),
  seventeen events, one rule per event with its guard and its target. Facts the caller leaves out are
  false (the code tests them with \<open>=== true\<close>); a missing method is \<open>None\<close>.
\<close>

datatype review_state =
    scheduled | due | in_progress | awaiting_index | referred | awaiting_approval
  | approved | completed | waived | cancelled

datatype review_event =
    SCHEDULE | OPEN_WINDOW | COMMENCE | INDEX_PENDING | INDEX_AVAILABLE | REFER | RECORD_MILESTONE
  | RECORD_OUTCOME | SUBMIT | APPROVE | RETURN | WAIVE | CANCEL | ISSUE_NOTICE | CONFIRM_BILLING
  | CLOSE | REVERT

datatype review_method = cpi | fixed | market | other

record review_facts =
  autoApprove :: bool
  billingConfirmed :: bool
  reviewMethod :: "review_method option"
  noticeHandled :: bool
  recordedByDirector :: bool
  withinWindow :: bool

definition no_review_facts :: review_facts where
  "no_review_facts = \<lparr>autoApprove = False, billingConfirmed = False, reviewMethod = None,
     noticeHandled = False, recordedByDirector = False, withinWindow = False\<rparr>"

definition OPEN_RENT_REVIEW_STATES :: "review_state list" where
  "OPEN_RENT_REVIEW_STATES = [scheduled, due, in_progress, awaiting_index, referred, awaiting_approval]"

definition review_isOpenState :: "review_state \<Rightarrow> bool" where
  "review_isOpenState s \<longleftrightarrow> s \<in> set OPEN_RENT_REVIEW_STATES"

definition review_isOverdue :: "review_state \<Rightarrow> string \<Rightarrow> string \<Rightarrow> bool" where
  "review_isOverdue s scheduledFor todayDarwin \<longleftrightarrow> review_isOpenState s \<and> js_less scheduledFor todayDarwin"

record review_rule =
  rr_from :: "review_state option list"
  rr_guard :: "review_facts \<Rightarrow> bool"
  rr_to :: "review_facts \<Rightarrow> review_state"

definition mk_review_rule ::
  "review_state option list \<Rightarrow> (review_facts \<Rightarrow> bool) \<Rightarrow> (review_facts \<Rightarrow> review_state) \<Rightarrow> review_rule" where
  "mk_review_rule f g t = \<lparr>rr_from = f, rr_guard = g, rr_to = t\<rparr>"

abbreviation no_guard :: "review_facts \<Rightarrow> bool" where
  "no_guard \<equiv> (\<lambda>_. True)"

fun REVIEW_RULES :: "review_event \<Rightarrow> review_rule" where
  "REVIEW_RULES SCHEDULE = mk_review_rule [None] no_guard (\<lambda>_. scheduled)"
| "REVIEW_RULES OPEN_WINDOW = mk_review_rule [Some scheduled] withinWindow (\<lambda>_. due)"
| "REVIEW_RULES COMMENCE = mk_review_rule [Some scheduled, Some due] no_guard (\<lambda>_. in_progress)"
| "REVIEW_RULES INDEX_PENDING = mk_review_rule [Some in_progress] (\<lambda>f. reviewMethod f = Some cpi) (\<lambda>_. awaiting_index)"
| "REVIEW_RULES INDEX_AVAILABLE = mk_review_rule [Some awaiting_index] no_guard (\<lambda>_. in_progress)"
| "REVIEW_RULES REFER = mk_review_rule [Some in_progress] (\<lambda>f. reviewMethod f = Some market) (\<lambda>_. referred)"
| "REVIEW_RULES RECORD_MILESTONE = mk_review_rule [Some referred] no_guard (\<lambda>_. referred)"
| "REVIEW_RULES RECORD_OUTCOME = mk_review_rule [Some referred] no_guard
     (\<lambda>f. if recordedByDirector f then approved else awaiting_approval)"
| "REVIEW_RULES SUBMIT = mk_review_rule [Some in_progress] no_guard
     (\<lambda>f. if autoApprove f then approved else awaiting_approval)"
| "REVIEW_RULES APPROVE = mk_review_rule [Some awaiting_approval] no_guard (\<lambda>_. approved)"
| "REVIEW_RULES RETURN = mk_review_rule [Some awaiting_approval] no_guard (\<lambda>_. in_progress)"
| "REVIEW_RULES WAIVE = mk_review_rule (map Some OPEN_RENT_REVIEW_STATES) no_guard (\<lambda>_. waived)"
| "REVIEW_RULES CANCEL = mk_review_rule (map Some OPEN_RENT_REVIEW_STATES) no_guard (\<lambda>_. cancelled)"
| "REVIEW_RULES ISSUE_NOTICE = mk_review_rule [Some approved] no_guard (\<lambda>_. approved)"
| "REVIEW_RULES CONFIRM_BILLING = mk_review_rule [Some approved] no_guard (\<lambda>_. approved)"
| "REVIEW_RULES CLOSE = mk_review_rule [Some approved] (\<lambda>f. noticeHandled f \<and> billingConfirmed f) (\<lambda>_. completed)"
| "REVIEW_RULES REVERT = mk_review_rule [Some approved] no_guard (\<lambda>_. in_progress)"

definition review_nextState :: "review_state option \<Rightarrow> review_event \<Rightarrow> review_facts \<Rightarrow> review_state option" where
  "review_nextState s e facts =
     (let rule = REVIEW_RULES e
      in if s \<notin> set (rr_from rule) then None
         else if \<not> rr_guard rule facts then None
         else Some (rr_to rule facts))"

definition review_canTransition :: "review_state option \<Rightarrow> review_event \<Rightarrow> review_facts \<Rightarrow> bool" where
  "review_canTransition s e facts \<longleftrightarrow> review_nextState s e facts \<noteq> None"

section \<open>Lemmas\<close>

definition review_step :: "review_state option \<Rightarrow> review_event \<times> review_facts \<Rightarrow> review_state option option" where
  "review_step s ef = map_option Some (review_nextState s (fst ef) (snd ef))"

text \<open>The events that put a new rent on the schedule.\<close>

definition applies_rent :: "review_event \<times> review_facts \<Rightarrow> bool" where
  "applies_rent ef \<longleftrightarrow>
     fst ef = APPROVE \<or> (fst ef = SUBMIT \<and> autoApprove (snd ef)) \<or> (fst ef = RECORD_OUTCOME \<and> recordedByDirector (snd ef))"

lemmas review_defs = review_nextState_def mk_review_rule_def OPEN_RENT_REVIEW_STATES_def Let_def

lemma review_nextState_closed:
  "s \<in> {completed, waived, cancelled} \<Longrightarrow> review_nextState (Some s) e facts = None"
  by (cases e) (auto simp: review_defs)

interpretation reviews: terminal_machine review_step "\<lambda>s. s \<in> Some ` {completed, waived, cancelled}"
  by unfold_locales (auto simp: review_step_def review_nextState_closed)

lemma review_nextState_exists:
  "review_nextState None e facts = Some t \<longleftrightarrow> e = SCHEDULE \<and> t = scheduled"
  by (cases e) (auto simp: review_defs)

lemma review_reaches_approved:
  assumes "review_nextState s e facts = Some t" "t \<in> {approved, completed}"
  shows "s = Some approved \<or> applies_rent (e, facts)"
  using assms by (cases e) (auto simp: review_defs applies_rent_def split: if_splits)

lemma review_reaches_completed:
  assumes "review_nextState s e facts = Some completed"
  shows "s = Some approved \<and> e = CLOSE \<and> noticeHandled facts \<and> billingConfirmed facts"
  using assms by (cases e) (auto simp: review_defs split: if_splits)

lemma review_history_approved:
  assumes "attempts review_step s es \<in> Some ` {approved, completed}"
  shows "s \<in> Some ` {approved, completed} \<or> (\<exists>e\<in>set es. applies_rent e)"
  using assms
proof (induction es arbitrary: s)
  case Nil
  then show ?case by simp
next
  case (Cons e es)
  from Cons.prems Cons.IH [of "attempt review_step s e"]
  consider "attempt review_step s e \<in> Some ` {approved, completed}" | "\<exists>e\<in>set es. applies_rent e" by auto
  then show ?case
  proof cases
    case 1
    then show ?thesis
      using review_reaches_approved [of s "fst e" "snd e"]
      by (auto simp: attempt_def review_step_def split: option.splits)
  qed auto
qed

lemma review_history_completed:
  assumes "attempts review_step s es = Some completed" "s \<noteq> Some completed"
  shows "\<exists>f. (CLOSE, f) \<in> set es \<and> noticeHandled f \<and> billingConfirmed f"
  using assms
proof (induction es arbitrary: s)
  case Nil
  then show ?case by simp
next
  case (Cons e es)
  show ?case
  proof (cases "attempt review_step s e = Some completed")
    case True
    with Cons.prems(2) obtain "review_nextState s (fst e) (snd e) = Some completed"
      by (auto simp: attempt_def review_step_def split: option.splits)
    from review_reaches_completed [OF this] show ?thesis by (metis list.set_intros(1) prod.collapse)
  next
    case False
    with Cons.prems Cons.IH show ?thesis by auto
  qed
qed

section \<open>What the lease screens rely on\<close>

text \<open>C31: A review that reached completed from nothing had its new rent applied by an approval (a
  director's approve, an auto-approved submit or an outcome a director recorded), and was closed with the
  notice handled and the billing confirmed.\<close>

theorem completed_reviews_were_approved:
  assumes "attempts review_step None history = Some completed"
  shows "(\<exists>e\<in>set history. applies_rent e) \<and>
    (\<exists>f. (CLOSE, f) \<in> set history \<and> noticeHandled f \<and> billingConfirmed f)"
  using review_history_approved [of None history] review_history_completed [OF assms] assms by auto

definition closing_facts :: review_facts where
  "closing_facts = \<lparr>autoApprove = False, billingConfirmed = True, reviewMethod = Some market,
     noticeHandled = True, recordedByDirector = True, withinWindow = True\<rparr>"

definition market_history :: "(review_event \<times> review_facts) list" where
  "market_history = map (\<lambda>e. (e, closing_facts)) [SCHEDULE, OPEN_WINDOW, COMMENCE, REFER, RECORD_OUTCOME, ISSUE_NOTICE, CLOSE]"

theorem completed_reviews_were_approved_witness:
  "attempts review_step None market_history = Some completed \<and> (\<exists>e\<in>set market_history. applies_rent e)"
proof -
  have "attempts review_step None market_history = Some completed" by code_simp
  with completed_reviews_were_approved [OF this] show ?thesis by blast
qed

text \<open>Completed, waived and cancelled reviews are final, a review only comes into being scheduled, and
  the open states (the ones that can be overdue) are exactly those that can still be cancelled.\<close>

theorem closed_reviews_final:
  "(s \<in> {completed, waived, cancelled} \<longrightarrow> attempts review_step (Some s) history = Some s) \<and>
   (review_canTransition None e facts \<longleftrightarrow> e = SCHEDULE) \<and>
   (review_isOpenState s \<longleftrightarrow> review_canTransition (Some s) CANCEL facts)"
proof -
  have "s \<in> {completed, waived, cancelled} \<Longrightarrow> attempts review_step (Some s) history = Some s"
    by (rule reviews.attempts_final) auto
  then show ?thesis using review_nextState_exists [of e facts]
    by (cases s) (auto simp: review_canTransition_def review_isOpenState_def review_defs)
qed

theorem closed_reviews_final_witness:
  "attempts review_step (Some waived) market_history = Some waived"
  using closed_reviews_final [of waived market_history SCHEDULE closing_facts] by simp

end
