(* ===== verification/Lease_Event_Machine.thy ===== *)
theory Lease_Event_Machine
  imports Prelude
begin

text \<open>
  The lease event machine of \<open>src/leaseEventMachine.ts\<close>: option exercises and renewals share one
  state type; a missing event is \<open>None\<close>. Facts the caller leaves out are false, a missing outcome is
  \<open>None\<close>.
\<close>

datatype lease_event_type = option_exercise | renewal

datatype lease_event_state =
    window_not_open | window_open | notice_received | awaiting_approval | exercised | rejected | lapsed
  | referred | renewed | vacating | holdover | cancelled

datatype lease_event =
    OPEN_OPTION | OPEN_WINDOW | RECORD_NOTICE | APPROVE | REJECT | LAPSE
  | REFER_RENEWAL | DECIDE_RENEWAL | CANCEL

definition OPTION_EXERCISE_STATES :: "lease_event_state list" where
  "OPTION_EXERCISE_STATES =
     [window_not_open, window_open, notice_received, awaiting_approval, exercised, rejected, lapsed]"

definition RENEWAL_STATES :: "lease_event_state list" where
  "RENEWAL_STATES = [referred, renewed, vacating, holdover]"

definition RENEWAL_OUTCOMES :: "lease_event_state list" where
  "RENEWAL_OUTCOMES = [renewed, vacating, holdover]"

definition OPEN_LEASE_EVENT_STATES :: "lease_event_state list" where
  "OPEN_LEASE_EVENT_STATES = [window_not_open, window_open, notice_received, awaiting_approval, referred]"

record lease_facts =
  deadlinePassed :: bool
  directorOverride :: bool
  noticeInWindow :: bool
  outcome :: "lease_event_state option"
  windowOpen :: bool

definition no_lease_facts :: lease_facts where
  "no_lease_facts = \<lparr>deadlinePassed = False, directorOverride = False, noticeInWindow = False,
     outcome = None, windowOpen = False\<rparr>"

definition isOpenLeaseEventState :: "lease_event_state \<Rightarrow> bool" where
  "isOpenLeaseEventState s \<longleftrightarrow> s \<in> set OPEN_LEASE_EVENT_STATES"

definition typeOfState :: "lease_event_state \<Rightarrow> lease_event_type option" where
  "typeOfState s =
     (if s \<in> set OPTION_EXERCISE_STATES then Some option_exercise
      else if s \<in> set RENEWAL_STATES then Some renewal
      else None)"

record lease_rule =
  lr_from :: "lease_event_state option list"
  lr_guard :: "lease_facts \<Rightarrow> bool"
  lr_to :: "lease_facts \<Rightarrow> lease_event_state option"
  lr_type :: "lease_event_type option" \<comment> \<open>\<open>None\<close> for \<open>either\<close>\<close>

definition mk_lease_rule ::
  "lease_event_state option list \<Rightarrow> (lease_facts \<Rightarrow> bool) \<Rightarrow> (lease_facts \<Rightarrow> lease_event_state option) \<Rightarrow>
     lease_event_type option \<Rightarrow> lease_rule" where
  "mk_lease_rule f g t ty = \<lparr>lr_from = f, lr_guard = g, lr_to = t, lr_type = ty\<rparr>"

fun LEASE_RULES :: "lease_event \<Rightarrow> lease_rule" where
  "LEASE_RULES OPEN_OPTION = mk_lease_rule [None] (\<lambda>_. True)
     (\<lambda>f. Some (if windowOpen f then window_open else window_not_open)) (Some option_exercise)"
| "LEASE_RULES OPEN_WINDOW = mk_lease_rule [Some window_not_open] windowOpen
     (\<lambda>_. Some window_open) (Some option_exercise)"
| "LEASE_RULES RECORD_NOTICE = mk_lease_rule [Some window_not_open, Some window_open, Some lapsed] (\<lambda>_. True)
     (\<lambda>f. Some (if noticeInWindow f then awaiting_approval else notice_received)) (Some option_exercise)"
| "LEASE_RULES APPROVE = mk_lease_rule [Some awaiting_approval, Some notice_received] (\<lambda>_. True)
     (\<lambda>f. if directorOverride f then Some exercised else None) (Some option_exercise)"
| "LEASE_RULES REJECT = mk_lease_rule [Some notice_received, Some awaiting_approval] (\<lambda>_. True)
     (\<lambda>_. Some rejected) (Some option_exercise)"
| "LEASE_RULES LAPSE = mk_lease_rule [Some window_not_open, Some window_open] deadlinePassed
     (\<lambda>_. Some lapsed) (Some option_exercise)"
| "LEASE_RULES REFER_RENEWAL = mk_lease_rule [None] (\<lambda>_. True) (\<lambda>_. Some referred) (Some renewal)"
| "LEASE_RULES DECIDE_RENEWAL = mk_lease_rule [Some referred] (\<lambda>_. True)
     (\<lambda>f. case outcome f of Some r \<Rightarrow> if r \<in> set RENEWAL_OUTCOMES then Some r else None | None \<Rightarrow> None) (Some renewal)"
| "LEASE_RULES CANCEL = mk_lease_rule (map Some OPEN_LEASE_EVENT_STATES) (\<lambda>_. True) (\<lambda>_. Some cancelled) None"

definition nextLeaseEventState ::
  "lease_event_type \<Rightarrow> lease_event_state option \<Rightarrow> lease_event \<Rightarrow> lease_facts \<Rightarrow> lease_event_state option" where
  "nextLeaseEventState ty s e facts =
     (let rule = LEASE_RULES e
      in if lr_type rule \<noteq> None \<and> lr_type rule \<noteq> Some ty then None
         else if (case s of Some st \<Rightarrow> typeOfState st \<noteq> None \<and> typeOfState st \<noteq> Some ty | None \<Rightarrow> False) then None
         else if s \<notin> set (lr_from rule) then None
         else if \<not> lr_guard rule facts then None
         else if e = APPROVE \<and> s = Some awaiting_approval then Some exercised
         else lr_to rule facts)"

definition canLeaseEventTransition ::
  "lease_event_type \<Rightarrow> lease_event_state option \<Rightarrow> lease_event \<Rightarrow> lease_facts \<Rightarrow> bool" where
  "canLeaseEventTransition ty s e facts \<longleftrightarrow> nextLeaseEventState ty s e facts \<noteq> None"

section \<open>Lemmas\<close>

definition lease_step ::
  "lease_event_type \<Rightarrow> lease_event_state option \<Rightarrow> lease_event \<times> lease_facts \<Rightarrow> lease_event_state option option" where
  "lease_step ty s ef = map_option Some (nextLeaseEventState ty s (fst ef) (snd ef))"

lemma lease_step_iff:
  "lease_step ty s ef = Some (Some t) \<longleftrightarrow> nextLeaseEventState ty s (fst ef) (snd ef) = Some t"
  by (auto simp: lease_step_def)

lemmas lease_defs = nextLeaseEventState_def mk_lease_rule_def typeOfState_def OPTION_EXERCISE_STATES_def
  RENEWAL_STATES_def RENEWAL_OUTCOMES_def OPEN_LEASE_EVENT_STATES_def Let_def

text \<open>The states an event of a type can be in.\<close>

definition lease_typed :: "lease_event_type \<Rightarrow> lease_event_state option \<Rightarrow> bool" where
  "lease_typed ty s \<longleftrightarrow> (case s of None \<Rightarrow> True | Some st \<Rightarrow> st = cancelled \<or> typeOfState st = Some ty)"

lemma lease_step_typed: "lease_typed ty s \<Longrightarrow> nextLeaseEventState ty s e f = Some t \<Longrightarrow> lease_typed ty (Some t)"
  by (cases e; cases ty) (auto simp: lease_defs lease_typed_def split: option.splits if_splits)

interpretation leases: invariant_machine "lease_step ty" "lease_typed ty" for ty
  by unfold_locales (auto simp: lease_step_def dest: lease_step_typed)

definition lease_closed :: "lease_event_state option \<Rightarrow> bool" where
  "lease_closed s \<longleftrightarrow> s \<in> Some ` {exercised, rejected, renewed, vacating, holdover, cancelled}"

lemma lease_closed_stuck: "lease_closed s \<Longrightarrow> nextLeaseEventState ty s e f = None"
  by (cases e) (auto simp: lease_defs lease_closed_def split: option.splits)

interpretation closed_leases: terminal_machine "lease_step ty" lease_closed for ty
  by unfold_locales (auto simp: lease_step_def lease_closed_stuck)

lemma lease_exercised:
  assumes "nextLeaseEventState ty s e f = Some exercised"
  shows "ty = option_exercise \<and> e = APPROVE \<and>
    (s = Some awaiting_approval \<or> s = Some notice_received \<and> directorOverride f)"
  using assms by (cases e; cases ty) (auto simp: lease_defs split: option.splits if_splits)

lemma lease_awaiting_approval:
  assumes "nextLeaseEventState ty s e f = Some awaiting_approval"
  shows "ty = option_exercise \<and> e = RECORD_NOTICE \<and> noticeInWindow f"
  using assms by (cases e; cases ty) (auto simp: lease_defs split: option.splits if_splits)

lemma lease_notice_received:
  assumes "nextLeaseEventState ty s e f = Some notice_received"
  shows "ty = option_exercise \<and> e = RECORD_NOTICE \<and> \<not> noticeInWindow f"
  using assms by (cases e; cases ty) (auto simp: lease_defs split: option.splits if_splits)

text \<open>What an event history must hold for an option to have been exercised.\<close>

definition in_window_approval :: "(lease_event \<times> lease_facts) list \<Rightarrow> bool" where
  "in_window_approval es \<longleftrightarrow> (\<exists>f g. (RECORD_NOTICE, f) \<in> set es \<and> noticeInWindow f \<and> (APPROVE, g) \<in> set es)"

definition director_approval :: "(lease_event \<times> lease_facts) list \<Rightarrow> bool" where
  "director_approval es \<longleftrightarrow> (\<exists>g. (APPROVE, g) \<in> set es \<and> directorOverride g)"

lemma lease_history_awaiting:
  assumes "attempts (lease_step ty) s es = Some awaiting_approval" "s \<noteq> Some awaiting_approval"
  shows "\<exists>f. (RECORD_NOTICE, f) \<in> set es \<and> noticeInWindow f"
  using assms
proof (induction es arbitrary: s)
  case (Cons e es)
  show ?case
  proof (cases "attempt (lease_step ty) s e = Some awaiting_approval")
    case True
    with Cons.prems(2) have "nextLeaseEventState ty s (fst e) (snd e) = Some awaiting_approval"
      by (auto simp: attempt_def lease_step_def split: option.splits)
    from lease_awaiting_approval [OF this] show ?thesis by (metis list.set_intros(1) prod.collapse)
  next
    case False
    with Cons.prems Cons.IH show ?thesis by auto
  qed
qed simp

lemma lease_history_exercised:
  assumes "attempts (lease_step ty) s es = Some exercised" "s \<noteq> Some exercised" "s \<noteq> Some awaiting_approval"
  shows "in_window_approval es \<or> director_approval es"
  using assms
proof (induction es rule: rev_induct)
  case (snoc e es)
  let ?m = "attempts (lease_step ty) s es"
  show ?case
  proof (cases "?m = Some exercised")
    case True
    with snoc show ?thesis by (auto simp: in_window_approval_def director_approval_def)
  next
    case False
    from snoc.prems(1) have "attempt (lease_step ty) ?m e = Some exercised" by simp
    with False have "lease_step ty ?m e = Some (Some exercised)" by (auto simp: attempt_iff)
    then have "nextLeaseEventState ty ?m (fst e) (snd e) = Some exercised"
      by (simp add: lease_step_iff)
    from lease_exercised [OF this] have e: "fst e = APPROVE"
      and m: "?m = Some awaiting_approval \<or> directorOverride (snd e)" by auto
    from e have "(APPROVE, snd e) \<in> set (es @ [e])" by (metis in_set_conv_decomp prod.collapse)
    with m lease_history_awaiting [of ty s es] snoc.prems(3) show ?thesis
      by (auto simp: in_window_approval_def director_approval_def)
  qed
qed simp

section \<open>What the lease screens rely on\<close>

text \<open>C32: An option is only ever exercised by an approval: of a notice given inside its window, or of any
  notice by a director's override.\<close>

theorem exercised_options_were_approved:
  assumes "attempts (lease_step ty) None history = Some exercised"
  shows "ty = option_exercise \<and> (in_window_approval history \<or> director_approval history)"
proof -
  have "lease_typed ty (attempts (lease_step ty) None history)"
    by (rule leases.attempts_good) (simp add: lease_typed_def)
  with assms have "ty = option_exercise" by (cases ty) (simp_all add: lease_typed_def lease_defs)
  with lease_history_exercised [OF assms] show ?thesis by simp
qed

definition notice_facts :: lease_facts where
  "notice_facts = no_lease_facts\<lparr>noticeInWindow := True\<rparr>"

theorem exercised_options_were_approved_witness:
  "in_window_approval [(OPEN_OPTION, notice_facts), (RECORD_NOTICE, notice_facts), (APPROVE, no_lease_facts)] \<or>
   director_approval [(OPEN_OPTION, notice_facts), (RECORD_NOTICE, notice_facts), (APPROVE, no_lease_facts)]"
proof -
  have "attempts (lease_step option_exercise) None
    [(OPEN_OPTION, notice_facts), (RECORD_NOTICE, notice_facts), (APPROVE, no_lease_facts)] = Some exercised"
    by code_simp
  from exercised_options_were_approved [OF this] show ?thesis by blast
qed

text \<open>An event never leaves its type: an option exercise is only ever in option states and a renewal in
  renewal states (or cancelled), a decided event is final, and a late notice can revive a lapsed option only.\<close>

theorem lease_events_keep_type:
  "(case attempts (lease_step ty) None history of
      None \<Rightarrow> True
    | Some st \<Rightarrow> st = cancelled \<or> typeOfState st = Some ty) \<and>
   (lease_closed s \<longrightarrow> attempts (lease_step ty) s history = s) \<and>
   (canLeaseEventTransition ty (Some lapsed) e facts \<longleftrightarrow> ty = option_exercise \<and> e = RECORD_NOTICE)"
proof -
  have "lease_typed ty (attempts (lease_step ty) None history)"
    by (rule leases.attempts_good) (simp add: lease_typed_def)
  moreover have "canLeaseEventTransition ty (Some lapsed) e facts \<longleftrightarrow> ty = option_exercise \<and> e = RECORD_NOTICE"
    by (cases e; cases ty) (auto simp: canLeaseEventTransition_def lease_defs)
  ultimately show ?thesis
    using closed_leases.attempts_final [of s ty history] by (auto simp: lease_typed_def split: option.splits)
qed

theorem lease_events_keep_type_witness:
  "attempts (lease_step renewal) (Some renewed) [(CANCEL, no_lease_facts)] = Some renewed"
  using lease_events_keep_type [of renewal "[(CANCEL, no_lease_facts)]" "Some renewed"]
  by (simp add: lease_closed_def)

end
