(* ===== verification/Calendar.thy ===== *)
theory Calendar
  imports Prelude
begin

text \<open>
  The part of ECMAScript's \<open>Date\<close> the source uses on calendar days: \<open>Date.UTC\<close> on a year, month and
  day (with its roll-over and its two-digit years), the UTC year, month and day of a day number, and
  the first ten characters of \<open>toISOString\<close>. A day number counts days from 1970-01-01. The second
  half gives the YYYY-MM-DD date keys: reading one, writing one, and their order as text.
\<close>

section \<open>Years\<close>

definition leap_year :: "int \<Rightarrow> bool" where
  "leap_year y \<longleftrightarrow> y mod 4 = 0 \<and> y mod 100 \<noteq> 0 \<or> y mod 400 = 0"

definition day_from_year :: "int \<Rightarrow> int" where
  "day_from_year y = 365 * (y - 1970) + (y - 1969) div 4 - (y - 1901) div 100 + (y - 1601) div 400"

definition days_in_year :: "int \<Rightarrow> int" where
  "days_in_year y = (if leap_year y then 366 else 365)"

text \<open>The year a day falls in: an estimate from the mean year length, corrected by one.\<close>

definition year_from_day :: "int \<Rightarrow> int" where
  "year_from_day d =
     (let y = 1970 + (400 * d) div 146097
      in if day_from_year (y + 1) \<le> d then y + 1 else if day_from_year y \<le> d then y else y - 1)"

lemma div_step_mod: "((y + 1) - c) div n = (y - c) div n + (if (y + 1 - c) mod n = 0 then 1 else 0)"
  if "0 < n" for y c n :: int
proof -
  have "(x + 1) div n = x div n + (if (x + 1) mod n = 0 then 1 else 0)" for x
  proof -
    define q r where "q = x div n" and "r = x mod n"
    have x: "x = q * n + r" and r: "0 \<le> r" "r < n"
      using that by (simp_all add: q_def r_def)
    show ?thesis
    proof (cases "r + 1 = n")
      case True
      then have e: "x + 1 = (q + 1) * n" using x by (simp add: algebra_simps)
      show ?thesis unfolding e using that q_def by simp
    next
      case False
      with r have r1: "0 \<le> r + 1" "r + 1 < n" by auto
      have e: "x + 1 = (r + 1) + q * n" using x by simp
      have "(x + 1) div n = q" "(x + 1) mod n = r + 1"
        unfolding e using r1 by (simp_all add: div_pos_pos_trivial)
      then show ?thesis using r q_def by simp
    qed
  qed
  from this [of "y - c"] show ?thesis by (simp add: algebra_simps)
qed

lemma day_from_year_Suc: "day_from_year (y + 1) = day_from_year y + days_in_year y"
proof -
  have sh: "(n :: int) dvd c - 1 \<Longrightarrow> (y + 1 - c) mod n = 0 \<longleftrightarrow> n dvd y" for n c
    using dvd_diff_left_iff [of n "c - 1" y] by (simp add: mod_eq_0_iff_dvd algebra_simps)
  have a: "(y - 1968) div 4 = (y - 1969) div 4 + (if 4 dvd y then 1 else 0)"
    using div_step_mod [of 4 y 1969] sh [of 4 1969] by simp
  have b: "(y - 1900) div 100 = (y - 1901) div 100 + (if 100 dvd y then 1 else 0)"
    using div_step_mod [of 100 y 1901] sh [of 100 1901] by simp
  have c: "(y - 1600) div 400 = (y - 1601) div 400 + (if 400 dvd y then 1 else 0)"
    using div_step_mod [of 400 y 1601] sh [of 400 1601] by simp
  have d: "400 dvd y \<Longrightarrow> 100 dvd y" "100 dvd y \<Longrightarrow> 4 dvd y"
    by (auto elim: dvd_trans [rotated])
  have leap: "leap_year y \<longleftrightarrow> 4 dvd y \<and> \<not> 100 dvd y \<or> 400 dvd y"
    by (simp add: leap_year_def mod_eq_0_iff_dvd)
  have "day_from_year (y + 1) = 365 * (y - 1969) + (y - 1968) div 4 - (y - 1900) div 100 + (y - 1600) div 400"
    by (simp add: day_from_year_def)
  moreover define p q r where "p = (y - 1969) div 4" and "q = (y - 1901) div 100" and "r = (y - 1601) div 400"
  ultimately have "day_from_year (y + 1) = 365 * (y - 1969) + (p + (if 4 dvd y then 1 else 0))
      - (q + (if 100 dvd y then 1 else 0)) + (r + (if 400 dvd y then 1 else 0))"
    by (simp only: a b c)
  moreover have "day_from_year y = 365 * (y - 1970) + p - q + r"
    by (simp add: day_from_year_def p_def q_def r_def)
  moreover have "days_in_year y = 365 + (if 4 dvd y then 1 else 0) - (if 100 dvd y then 1 else 0) + (if 400 dvd y then 1 else 0)"
    using d by (auto simp: days_in_year_def leap)
  ultimately show ?thesis by (simp add: algebra_simps)
qed

lemma days_in_year_bounds: "365 \<le> days_in_year y" "days_in_year y \<le> 366"
  by (simp_all add: days_in_year_def)

lemma day_from_year_mono_nat: "day_from_year y + 365 * int k \<le> day_from_year (y + int k)"
proof (induction k)
  case 0
  show ?case by simp
next
  case (Suc k)
  have "day_from_year (y + int (Suc k)) = day_from_year (y + int k) + days_in_year (y + int k)"
    using day_from_year_Suc [of "y + int k"] by (simp add: algebra_simps)
  with Suc days_in_year_bounds(1) [of "y + int k"] show ?case by (simp add: algebra_simps)
qed

lemma day_from_year_gap: "y < z \<Longrightarrow> day_from_year y + days_in_year y \<le> day_from_year z"
proof -
  assume "y < z"
  then obtain k where "z = (y + 1) + int k" using zle_iff_zadd [of "y + 1" z] by auto
  with day_from_year_mono_nat [of "y + 1" k] day_from_year_Suc [of y] show ?thesis by simp
qed

lemma day_from_year_less: "y < z \<Longrightarrow> day_from_year y < day_from_year z"
  using day_from_year_gap [of y z] days_in_year_bounds(1) [of y] by linarith

lemma day_from_year_le_iff: "day_from_year y \<le> day_from_year z \<longleftrightarrow> y \<le> z"
  using day_from_year_less [of y z] day_from_year_less [of z y] by (cases y z rule: linorder_cases) auto

lemma year_unique:
  assumes "day_from_year y \<le> d" "d < day_from_year (y + 1)" "day_from_year z \<le> d" "d < day_from_year (z + 1)"
  shows "y = z"
proof -
  have "\<not> y + 1 \<le> z" using day_from_year_le_iff [of "y + 1" z] assms(2,3) by linarith
  moreover have "\<not> z + 1 \<le> y" using day_from_year_le_iff [of "z + 1" y] assms(1,4) by linarith
  ultimately show ?thesis by linarith
qed

lemma div_bounds:
  assumes "0 < n"
  shows "n * (x div n) \<le> (x :: int)" and "x < n * (x div n) + n"
proof -
  have "n * (x div n) + x mod n = x" by simp
  with pos_mod_bound [OF assms, of x] pos_mod_sign [OF assms, of x]
  show "n * (x div n) \<le> x" and "x < n * (x div n) + n" by linarith+
qed

lemma day_from_year_approx:
  "400 * day_from_year y \<le> 146097 * (y - 1970) + 600" "146097 * (y - 1970) - 600 \<le> 400 * day_from_year y"
proof -
  define a b c where "a = (y - 1969) div 4" and "b = (y - 1901) div 100" and "c = (y - 1601) div 400"
  have "4 * a \<le> y - 1969" "y - 1969 < 4 * a + 4" "100 * b \<le> y - 1901" "y - 1901 < 100 * b + 100"
    "400 * c \<le> y - 1601" "y - 1601 < 400 * c + 400"
    unfolding a_def b_def c_def by (rule div_bounds, simp)+
  then show "400 * day_from_year y \<le> 146097 * (y - 1970) + 600" "146097 * (y - 1970) - 600 \<le> 400 * day_from_year y"
    unfolding day_from_year_def a_def [symmetric] b_def [symmetric] c_def [symmetric] by (simp_all add: algebra_simps)
qed

lemma year_from_day_bounds:
  "day_from_year (year_from_day d) \<le> d \<and> d < day_from_year (year_from_day d + 1)"
proof -
  define y where "y = 1970 + (400 * d) div 146097"
  have q: "146097 * (y - 1970) \<le> 400 * d" "400 * d < 146097 * (y - 1970) + 146097"
    using div_bounds [of 146097 "400 * d", OF zero_less_numeral] by (simp_all add: y_def)
  have lower: "day_from_year (y - 1) \<le> d"
    using q day_from_year_approx(1) [of "y - 1"] by (simp add: algebra_simps)
  have upper: "d < day_from_year (y + 2)"
    using q day_from_year_approx(2) [of "y + 2"] by (simp add: algebra_simps)
  have eq: "year_from_day d =
      (if day_from_year (y + 1) \<le> d then y + 1 else if day_from_year y \<le> d then y else y - 1)"
    by (simp add: year_from_day_def y_def Let_def)
  show ?thesis using lower upper by (auto simp: eq add.commute [of 2])
qed

lemma year_from_dayI: "day_from_year y \<le> d \<Longrightarrow> d < day_from_year y + days_in_year y \<Longrightarrow> year_from_day d = y"
  using year_unique [of y d "year_from_day d"] year_from_day_bounds [of d] day_from_year_Suc [of y] by simp

section \<open>Months\<close>

text \<open>Months count from 1, as in a date key.\<close>

definition month_start :: "bool \<Rightarrow> int \<Rightarrow> int" where
  "month_start leap m =
     (if m \<le> 1 then 0 else if m = 2 then 31
      else (if leap then 1 else 0) +
        (if m = 3 then 59 else if m = 4 then 90 else if m = 5 then 120 else if m = 6 then 151
         else if m = 7 then 181 else if m = 8 then 212 else if m = 9 then 243 else if m = 10 then 273
         else if m = 11 then 304 else if m = 12 then 334 else 365))"

definition month_of :: "bool \<Rightarrow> int \<Rightarrow> int" where
  "month_of leap n =
     (if n < 31 then 1 else if n < month_start leap 3 then 2 else if n < month_start leap 4 then 3
      else if n < month_start leap 5 then 4 else if n < month_start leap 6 then 5
      else if n < month_start leap 7 then 6 else if n < month_start leap 8 then 7
      else if n < month_start leap 9 then 8 else if n < month_start leap 10 then 9
      else if n < month_start leap 11 then 10 else if n < month_start leap 12 then 11 else 12)"

definition days_in_month :: "bool \<Rightarrow> int \<Rightarrow> int" where
  "days_in_month leap m = month_start leap (m + 1) - month_start leap m"

definition civil_from_day :: "int \<Rightarrow> int \<times> int \<times> int" where
  "civil_from_day d =
     (let y = year_from_day d; n = d - day_from_year y; m = month_of (leap_year y) n
      in (y, m, n - month_start (leap_year y) m + 1))"

text \<open>\<open>Date.UTC(year, month - 1, day)\<close> in days: months out of 1..12 roll the year over, and a year
  from 0 to 99 means 1900 to 1999.\<close>

definition utc_day :: "int \<Rightarrow> int \<Rightarrow> int \<Rightarrow> int" where
  "utc_day year month day =
     (let y0 = (if 0 \<le> year \<and> year \<le> 99 then 1900 + year else year);
          y = y0 + (month - 1) div 12; m = (month - 1) mod 12 + 1
      in day_from_year y + month_start (leap_year y) m + day - 1)"

definition valid_civil :: "int \<Rightarrow> int \<Rightarrow> int \<Rightarrow> bool" where
  "valid_civil y m d \<longleftrightarrow> 1 \<le> m \<and> m \<le> 12 \<and> 1 \<le> d \<and> d \<le> days_in_month (leap_year y) m"

lemma month_cases [consumes 2]:
  assumes "1 \<le> m" "m \<le> (12::int)"
  obtains "m = 1" | "m = 2" | "m = 3" | "m = 4" | "m = 5" | "m = 6" | "m = 7" | "m = 8" | "m = 9"
    | "m = 10" | "m = 11" | "m = 12"
proof -
  have "m = 1 \<or> m = 2 \<or> m = 3 \<or> m = 4 \<or> m = 5 \<or> m = 6 \<or> m = 7 \<or> m = 8 \<or> m = 9 \<or> m = 10 \<or> m = 11 \<or> m = 12"
    using assms by presburger
  then show thesis using that by blast
qed

lemma month_of_start:
  assumes "1 \<le> m" "m \<le> 12" "0 \<le> k" "k < days_in_month leap m"
  shows "month_of leap (month_start leap m + k) = m"
  using assms by (cases m rule: month_cases) (simp_all add: month_of_def month_start_def days_in_month_def)

lemma month_of_bounds:
  assumes "0 \<le> n" "n < (if leap then 366 else 365)"
  shows "1 \<le> month_of leap n \<and> month_of leap n \<le> 12 \<and> month_start leap (month_of leap n) \<le> n \<and>
    n < month_start leap (month_of leap n + 1)"
proof (cases leap)
  case True
  consider "n < 31" | "31 \<le> n" "n < 60" | "60 \<le> n" "n < 91" | "91 \<le> n" "n < 121" | "121 \<le> n" "n < 152"
    | "152 \<le> n" "n < 182" | "182 \<le> n" "n < 213" | "213 \<le> n" "n < 244" | "244 \<le> n" "n < 274"
    | "274 \<le> n" "n < 305" | "305 \<le> n" "n < 335" | "335 \<le> n" by (meson linorder_not_less)
  then show ?thesis using assms True by cases (simp_all add: month_of_def month_start_def)
next
  case False
  consider "n < 31" | "31 \<le> n" "n < 59" | "59 \<le> n" "n < 90" | "90 \<le> n" "n < 120" | "120 \<le> n" "n < 151"
    | "151 \<le> n" "n < 181" | "181 \<le> n" "n < 212" | "212 \<le> n" "n < 243" | "243 \<le> n" "n < 273"
    | "273 \<le> n" "n < 304" | "304 \<le> n" "n < 334" | "334 \<le> n" by (meson linorder_not_less)
  then show ?thesis using assms False by cases (simp_all add: month_of_def month_start_def)
qed

lemma month_start_le_year:
  assumes "1 \<le> m" "m \<le> 12" "1 \<le> d" "d \<le> days_in_month (leap_year y) m"
  shows "0 \<le> month_start (leap_year y) m + d - 1 \<and> month_start (leap_year y) m + d - 1 < days_in_year y"
  using assms
  by (cases m rule: month_cases; cases "leap_year y")
     (simp_all add: month_start_def days_in_month_def days_in_year_def)

lemma civil_from_day_of_civil:
  assumes "valid_civil y m d"
  shows "civil_from_day (day_from_year y + month_start (leap_year y) m + d - 1) = (y, m, d)"
proof -
  from assms have b: "1 \<le> m" "m \<le> 12" "1 \<le> d" "d \<le> days_in_month (leap_year y) m"
    by (auto simp: valid_civil_def)
  let ?D = "day_from_year y + month_start (leap_year y) m + d - 1"
  have y: "year_from_day ?D = y"
    using month_start_le_year [OF b] by (intro year_from_dayI) auto
  have "month_of (leap_year y) (month_start (leap_year y) m + (d - 1)) = m"
    using b by (intro month_of_start) auto
  then have "month_of (leap_year y) (month_start (leap_year y) m + d - 1) = m"
    by (simp add: algebra_simps)
  with y show ?thesis by (simp add: civil_from_day_def Let_def algebra_simps)
qed

lemma civil_from_day_valid:
  assumes "civil_from_day D = (y, m, d)"
  shows "valid_civil y m d \<and> D = day_from_year y + month_start (leap_year y) m + d - 1"
proof -
  from assms have y: "y = year_from_day D" by (auto simp: civil_from_day_def Let_def)
  define n where "n = D - day_from_year y"
  from year_from_day_bounds [of D] day_from_year_Suc [of y] y
  have n: "0 \<le> n" "n < (if leap_year y then 366 else 365)"
    by (auto simp: n_def days_in_year_def)
  from assms y n_def have "m = month_of (leap_year y) n" "d = n - month_start (leap_year y) m + 1"
    by (auto simp: civil_from_day_def Let_def)
  with month_of_bounds [OF n] show ?thesis
    by (auto simp: valid_civil_def days_in_month_def n_def)
qed

lemma utc_day_valid:
  assumes "valid_civil y m d" "y \<notin> {0..99}"
  shows "utc_day y m d = day_from_year y + month_start (leap_year y) m + d - 1"
proof -
  from assms have "1 \<le> m" "m \<le> 12" by (auto simp: valid_civil_def)
  then have "(m - 1) div 12 = 0" "(m - 1) mod 12 = m - 1" by simp_all
  with assms(2) show ?thesis by (auto simp: utc_day_def Let_def)
qed

lemma civil_utc_day: "valid_civil y m d \<Longrightarrow> y \<notin> {0..99} \<Longrightarrow> civil_from_day (utc_day y m d) = (y, m, d)"
  by (simp add: utc_day_valid civil_from_day_of_civil)

lemma utc_day_civil:
  assumes "civil_from_day D = (y, m, d)" "y \<notin> {0..99}"
  shows "utc_day y m d = D"
  using civil_from_day_valid [OF assms(1)] assms(2) by (auto simp: utc_day_valid)

section \<open>Date keys\<close>

fun dec_digits :: "nat \<Rightarrow> int \<Rightarrow> string" where
  "dec_digits 0 _ = []"
| "dec_digits (Suc k) n = dec_digits k (n div 10) @ [char_of (48 + nat (n mod 10))]"

definition digit_of :: "char \<Rightarrow> int option" where
  "digit_of c = (let n = (of_char c :: nat) in if 48 \<le> n \<and> n \<le> 57 then Some (int n - 48) else None)"

fun number_of :: "string \<Rightarrow> int \<Rightarrow> int option" where
  "number_of [] acc = Some acc"
| "number_of (c # cs) acc = (case digit_of c of None \<Rightarrow> None | Some d \<Rightarrow> number_of cs (10 * acc + d))"

text \<open>The match of \<open>/^(\d{4})-(\d{2})-(\d{2})$/\<close>.\<close>

fun parse_date_key :: "string \<Rightarrow> (int \<times> int \<times> int) option" where
  "parse_date_key [a, b, c, d, p, e, f, q, g, h] =
     (if p = CHR ''-'' \<and> q = CHR ''-'' then
        (case (number_of [a, b, c, d] 0, number_of [e, f] 0, number_of [g, h] 0) of
           (Some y, Some m, Some dd) \<Rightarrow> Some (y, m, dd)
         | _ \<Rightarrow> None)
      else None)"
| "parse_date_key _ = None"

text \<open>\<open>new Date(day * DAY_MS).toISOString().slice(0, 10)\<close>: four digits for the years 0 to 9999, a
  sign and six digits outside them.\<close>

definition iso_day :: "int \<Rightarrow> string" where
  "iso_day D =
     (case civil_from_day D of (y, m, d) \<Rightarrow>
        take 10 ((if 0 \<le> y \<and> y \<le> 9999 then dec_digits 4 y
                  else (if y < 0 then CHR ''-'' else CHR ''+'') # dec_digits 6 \<bar>y\<bar>)
                 @ ''-'' @ dec_digits 2 m @ ''-'' @ dec_digits 2 d))"

lemma length_dec_digits [simp]: "length (dec_digits k n) = k"
  by (induction k arbitrary: n) auto

lemma digit_of_digit [simp]:
  assumes "0 \<le> n" "n < 10" shows "digit_of (char_of (48 + nat n)) = Some n"
proof -
  have "nat n < 10" using assms by simp
  then have "of_char (char_of (48 + nat n)) = 48 + nat n" by simp
  with assms show ?thesis by (simp add: digit_of_def Let_def)
qed

lemma number_of_append: "number_of (xs @ ys) a = Option.bind (number_of xs a) (number_of ys)"
  by (induction xs arbitrary: a) (auto split: option.splits)

lemma number_of_dec_digits:
  "0 \<le> n \<Longrightarrow> n < 10 ^ k \<Longrightarrow> number_of (dec_digits k n) 0 = Some n"
proof (induction k arbitrary: n)
  case 0
  then show ?case by simp
next
  case (Suc k)
  then have "n div 10 < 10 ^ k" by (simp add: div_less_iff_less_mult)
  with Suc have "number_of (dec_digits k (n div 10)) 0 = Some (n div 10)" by simp
  then show ?case by (simp add: number_of_append)
qed

lemma div_mod_less: "a < b \<longleftrightarrow> a div 10 < b div 10 \<or> a div 10 = b div 10 \<and> a mod 10 < b mod (10::int)"
proof -
  define q r q' r' where "q = a div 10" and "r = a mod 10" and "q' = b div 10" and "r' = b mod 10"
  have "a = 10 * q + r" "b = 10 * q' + r'" "0 \<le> r" "r < 10" "0 \<le> r'" "r' < 10"
    by (simp_all add: q_def r_def q'_def r'_def)
  then have "a < b \<longleftrightarrow> q < q' \<or> q = q' \<and> r < r'" by (cases q q' rule: linorder_cases) auto
  then show ?thesis by (simp add: q_def r_def q'_def r'_def)
qed

lemma div_mod_eq: "a = b \<longleftrightarrow> a div 10 = b div 10 \<and> a mod 10 = b mod (10::int)"
  by (metis mult_div_mod_eq)

lemma dec_digits_less:
  assumes "0 \<le> a" "a < 10 ^ k" "0 \<le> b" "b < 10 ^ k"
  shows "js_less (dec_digits k a @ s) (dec_digits k b @ t) \<longleftrightarrow> a < b \<or> a = b \<and> js_less s t"
  using assms
proof (induction k arbitrary: a b s t)
  case 0
  then show ?case by simp
next
  case (Suc k)
  let ?c = "\<lambda>n. char_of (48 + nat (n mod 10)) :: char"
  have m: "0 \<le> n mod 10" "n mod 10 < 10" "nat (n mod 10) < 10" for n :: int by simp_all
  have oc: "(of_char (?c n) :: nat) = 48 + nat (n mod 10)" for n using m(3) [of n] by simp
  have ceq: "?c a = ?c b \<longleftrightarrow> a mod 10 = b mod 10" for a b
  proof
    assume "?c a = ?c b"
    then have "(of_char (?c a) :: nat) = of_char (?c b)" by simp
    then have "nat (a mod 10) = nat (b mod 10)" unfolding oc by simp
    then show "a mod 10 = b mod 10" by simp
  qed simp
  have lt: "(of_char (?c a) :: nat) < of_char (?c b) \<longleftrightarrow> a mod 10 < b mod 10" for a b
    unfolding oc using nat_less_eq_zless [OF m(1) [of a], of "b mod 10"] by simp
  have IH: "js_less (dec_digits k (a div 10) @ s') (dec_digits k (b div 10) @ t') \<longleftrightarrow>
      a div 10 < b div 10 \<or> a div 10 = b div 10 \<and> js_less s' t'" for s' t'
    using Suc.prems by (intro Suc.IH) (simp_all add: div_less_iff_less_mult)
  have "js_less (?c a # s) (?c b # t) \<longleftrightarrow> a mod 10 < b mod 10 \<or> a mod 10 = b mod 10 \<and> js_less s t"
    by (simp only: js_less.simps ceq lt)
  moreover note div_mod_less [of a b] div_mod_eq [of a b]
  ultimately show ?case using IH [of "?c a # s" "?c b # t"] by auto
qed

lemma digits_4: "dec_digits 4 n =
    [char_of (48 + nat (n div 10 div 10 div 10 mod 10)), char_of (48 + nat (n div 10 div 10 mod 10)),
     char_of (48 + nat (n div 10 mod 10)), char_of (48 + nat (n mod 10))]"
  by (simp add: eval_nat_numeral)

lemma digits_2: "dec_digits 2 n = [char_of (48 + nat (n div 10 mod 10)), char_of (48 + nat (n mod 10))]"
  by (simp add: eval_nat_numeral)

lemma parse_written:
  assumes "0 \<le> y" "y \<le> 9999" "0 \<le> m" "m < 100" "0 \<le> d" "d < 100"
  shows "parse_date_key (dec_digits 4 y @ ''-'' @ dec_digits 2 m @ ''-'' @ dec_digits 2 d) = Some (y, m, d)"
  using number_of_dec_digits [of y 4] number_of_dec_digits [of m 2] number_of_dec_digits [of d 2] assms
  by (simp add: digits_4 digits_2 del: number_of.simps)

definition day_range :: "int \<Rightarrow> bool" where
  "day_range D \<longleftrightarrow> day_from_year 100 \<le> D \<and> D < day_from_year 10000"

lemma day_range_civil:
  assumes "civil_from_day D = (y, m, d)"
  shows "day_range D \<longleftrightarrow> 100 \<le> y \<and> y \<le> 9999"
proof -
  from assms have y: "y = year_from_day D" by (auto simp: civil_from_day_def Let_def)
  with year_from_day_bounds [of D] have "day_from_year y \<le> D" "D < day_from_year (y + 1)" by simp_all
  then show ?thesis
    unfolding day_range_def
    using day_from_year_le_iff [of 100 y] day_from_year_le_iff [of "y + 1" 10000]
      day_from_year_le_iff [of "y + 1" 100] day_from_year_le_iff [of 10000 y]
    by (cases "100 \<le> y"; cases "y \<le> 9999") auto
qed

lemma days_in_month_le_31: "1 \<le> m \<Longrightarrow> m \<le> 12 \<Longrightarrow> days_in_month l m \<le> 31"
  by (cases m rule: month_cases) (auto simp: days_in_month_def month_start_def)

lemma civil_small:
  assumes "civil_from_day D = (y, m, d)"
  shows "1 \<le> m" "m \<le> 12" "1 \<le> d" "d \<le> 31"
  using civil_from_day_valid [OF assms] days_in_month_le_31 [of m "leap_year y"]
  by (auto simp: valid_civil_def)

lemma iso_day_eq:
  assumes "civil_from_day D = (y, m, d)" "day_range D"
  shows "iso_day D = dec_digits 4 y @ ''-'' @ dec_digits 2 m @ ''-'' @ dec_digits 2 d"
  using assms day_range_civil [OF assms(1)] by (simp add: iso_day_def)

lemma parse_iso_day:
  assumes "day_range D"
  shows "parse_date_key (iso_day D) = Some (civil_from_day D)"
proof -
  obtain y m d where c: "civil_from_day D = (y, m, d)" by (cases "civil_from_day D")
  from civil_small [OF c] day_range_civil [OF c] assms show ?thesis
    by (simp only: iso_day_eq [OF c assms] c, intro parse_written) auto
qed

text \<open>Text order is date order.\<close>

lemma month_start_less: "1 \<le> m \<Longrightarrow> m < n \<Longrightarrow> n \<le> 12 \<Longrightarrow> month_start l m + days_in_month l m \<le> month_start l n"
  by (cases m rule: month_cases; cases n rule: month_cases)
     (auto simp: days_in_month_def month_start_def)

lemma civil_less:
  assumes "civil_from_day D = (y, m, d)" "civil_from_day E = (y', m', d')"
  shows "D < E \<longleftrightarrow> y < y' \<or> y = y' \<and> (m < m' \<or> m = m' \<and> d < d')"
proof -
  have lt: "D < E" if c: "civil_from_day D = (y, m, d)" "civil_from_day E = (y', m', d')"
    and l: "y < y' \<or> y = y' \<and> (m < m' \<or> m = m' \<and> d < d')" for D E y m d y' m' d'
  proof -
    note v = civil_from_day_valid [OF c(1)] civil_from_day_valid [OF c(2)]
    have "y < y' \<Longrightarrow> D < E"
      using v day_from_year_gap [of y y'] month_start_le_year [of m d y] month_start_le_year [of m' d' y']
      by (auto simp: valid_civil_def)
    moreover have "y = y' \<Longrightarrow> m < m' \<Longrightarrow> D < E"
      using v month_start_less [of m m' "leap_year y"] by (auto simp: valid_civil_def)
    ultimately show ?thesis using v l by auto
  qed
  have "D = E \<Longrightarrow> y = y' \<and> m = m' \<and> d = d'" using assms by simp
  moreover have "y = y' \<Longrightarrow> m = m' \<Longrightarrow> d = d' \<Longrightarrow> D = E"
    using civil_from_day_valid [OF assms(1)] civil_from_day_valid [OF assms(2)] by simp
  ultimately have eq: "y = y' \<and> m = m' \<and> d = d' \<longleftrightarrow> D = E" by blast
  show ?thesis using lt [OF assms] lt [OF assms(2,1)] eq linorder_less_linear [of y y']
      linorder_less_linear [of m m'] linorder_less_linear [of d d'] by (metis order_less_asym)
qed

theorem iso_day_less:
  assumes "day_range D" "day_range E"
  shows "js_less (iso_day D) (iso_day E) \<longleftrightarrow> D < E"
proof -
  obtain y m d where c: "civil_from_day D = (y, m, d)" by (cases "civil_from_day D")
  obtain y' m' d' where c': "civil_from_day E = (y', m', d')" by (cases "civil_from_day E")
  note b = civil_small [OF c] civil_small [OF c'] day_range_civil [OF c] day_range_civil [OF c'] assms
  have y: "js_less (dec_digits 4 y @ s) (dec_digits 4 y' @ t) \<longleftrightarrow> y < y' \<or> y = y' \<and> js_less s t" for s t
    using b by (intro dec_digits_less) auto
  have m: "js_less (dec_digits 2 m @ s) (dec_digits 2 m' @ t) \<longleftrightarrow> m < m' \<or> m = m' \<and> js_less s t" for s t
    using b by (intro dec_digits_less) auto
  have d: "js_less (dec_digits 2 d @ []) (dec_digits 2 d' @ []) \<longleftrightarrow> d < d'"
    using b by (subst dec_digits_less) auto
  show ?thesis
    using d unfolding iso_day_eq [OF c assms(1)] iso_day_eq [OF c' assms(2)] civil_less [OF c c'] y
    by (simp add: m)
qed

end
