(* ===== verification/Business_Time.thy ===== *)
theory Business_Time
  imports Calendar
begin

text \<open>
  The SLA clocks of \<open>src/escalation/businessTime.ts\<close>. An instant is its milliseconds since the epoch;
  Darwin is UTC+09:30 all year; business hours are 08:30 up to 17:00, Monday to Friday, less the
  holidays, which are a set of date keys. \<open>addBusinessHours\<close> is shown equal to counting business
  milliseconds one by one. Instants stay inside \<open>Date\<close>'s range (a hundred million days either side).
\<close>

type_synonym instant = int
type_synonym holidays = "string set"

datatype time_error = RangeError

definition MINUTE_MS :: int where "MINUTE_MS = 60000"
definition HOUR_MS :: int where "HOUR_MS = 3600000"
definition DAY_MS :: int where "DAY_MS = 86400000"
definition DARWIN_OFFSET_MS :: int where "DARWIN_OFFSET_MS = 34200000"
definition BUSINESS_DAY_START_MINUTES :: int where "BUSINESS_DAY_START_MINUTES = 8 * 60 + 30"
definition BUSINESS_DAY_END_MINUTES :: int where "BUSINESS_DAY_END_MINUTES = 17 * 60"
definition BUSINESS_HOURS_PER_DAY :: rat where "BUSINESS_HOURS_PER_DAY = 8"
definition MAX_SKIPPED_DAYS :: nat where "MAX_SKIPPED_DAYS = 3660"

definition startMs :: int where "startMs = BUSINESS_DAY_START_MINUTES * MINUTE_MS"
definition endMs :: int where "endMs = BUSINESS_DAY_END_MINUTES * MINUTE_MS"

definition isRealDate :: "string \<Rightarrow> bool" where
  "isRealDate key =
     (case parse_date_key key of
        None \<Rightarrow> False
      | Some (y, m, d) \<Rightarrow> civil_from_day (utc_day y m d) = (y, m, d))"

fun split_on :: "char \<Rightarrow> string \<Rightarrow> string list" where
  "split_on sep [] = [[]]"
| "split_on sep (c # cs) =
     (if c = sep then [] # split_on sep cs
      else (case split_on sep cs of [] \<Rightarrow> [[c]] | w # ws \<Rightarrow> (c # w) # ws))"

fun parse_holiday_parts :: "string list \<Rightarrow> holidays \<times> string list" where
  "parse_holiday_parts [] = ({}, [])"
| "parse_holiday_parts (part # parts) =
     (let entry = js_trim part; (good, invalid) = parse_holiday_parts parts
      in if entry = [] then (good, invalid)
         else if isRealDate entry then (insert entry good, invalid)
         else (good, entry # invalid))"

definition parseHolidays :: "string option \<Rightarrow> holidays \<times> string list" where
  "parseHolidays raw = parse_holiday_parts (split_on (CHR '','') (case raw of None \<Rightarrow> '''' | Some s \<Rightarrow> s))"

definition darwinDayIndex :: "instant \<Rightarrow> int" where
  "darwinDayIndex t = (t + DARWIN_OFFSET_MS) div DAY_MS"

definition dateKeyOf :: "int \<Rightarrow> string" where
  "dateKeyOf dayIndex = iso_day dayIndex"

text \<open>JavaScript's remainder takes the sign of the dividend.\<close>

definition js_rem :: "int \<Rightarrow> int \<Rightarrow> int" where
  "js_rem a b = sgn a * (\<bar>a\<bar> mod \<bar>b\<bar>)"

definition isBusinessDayIndex :: "int \<Rightarrow> holidays \<Rightarrow> bool" where
  "isBusinessDayIndex dayIndex hol =
     (let weekday = js_rem (js_rem (dayIndex + 4) 7 + 7) 7
      in 1 \<le> weekday \<and> weekday \<le> 5 \<and> dateKeyOf dayIndex \<notin> hol)"

text \<open>The search loops give up after \<open>MAX_SKIPPED_DAYS\<close> days; the first argument counts the tries left.\<close>

fun next_business_loop :: "nat \<Rightarrow> int \<Rightarrow> holidays \<Rightarrow> time_error + int" where
  "next_business_loop tries index hol =
     (if tries = 0 then Inl RangeError
      else if isBusinessDayIndex index hol then Inr index
      else next_business_loop (tries - 1) (index + 1) hol)"

fun previous_business_loop :: "nat \<Rightarrow> int \<Rightarrow> holidays \<Rightarrow> time_error + int" where
  "previous_business_loop tries index hol =
     (if tries = 0 then Inl RangeError
      else if isBusinessDayIndex index hol then Inr index
      else previous_business_loop (tries - 1) (index - 1) hol)"

declare next_business_loop.simps [simp del] previous_business_loop.simps [simp del]

definition nextBusinessDayIndex :: "int \<Rightarrow> holidays \<Rightarrow> time_error + int" where
  "nextBusinessDayIndex fromIndex hol = next_business_loop (MAX_SKIPPED_DAYS + 1) fromIndex hol"

definition dayIndexOfKey :: "string \<Rightarrow> time_error + int" where
  "dayIndexOfKey key =
     (if \<not> isRealDate key then Inl RangeError
      else (case parse_date_key key of Some (y, m, d) \<Rightarrow> Inr (utc_day y m d) | None \<Rightarrow> Inl RangeError))"

definition isBusinessDay :: "string \<Rightarrow> holidays \<Rightarrow> time_error + bool" where
  "isBusinessDay key hol = and_then (dayIndexOfKey key) (\<lambda>i. Inr (isBusinessDayIndex i hol))"

lemma business_bounds: "startMs = 30600000" "endMs = 61200000"
  by (simp_all add: startMs_def endMs_def BUSINESS_DAY_START_MINUTES_def BUSINESS_DAY_END_MINUTES_def MINUTE_MS_def)

function business_hours_loop :: "int \<Rightarrow> int \<Rightarrow> int \<Rightarrow> holidays \<Rightarrow> time_error + instant" where
  "business_hours_loop dayIndex cursor remaining hol =
     (if remaining \<le> endMs - cursor then Inr (dayIndex * DAY_MS + cursor + remaining - DARWIN_OFFSET_MS)
      else (case nextBusinessDayIndex (dayIndex + 1) hol of
              Inl e \<Rightarrow> Inl e
            | Inr next \<Rightarrow> business_hours_loop next startMs (remaining - (endMs - cursor)) hol))"
  by pat_completeness auto

termination
  by (relation "measures [\<lambda>(d, c, r, h). if c = startMs then 0 else 1, \<lambda>(d, c, r, h). nat r]")
     (auto simp: business_bounds)

declare business_hours_loop.simps [simp del]

definition addBusinessHours :: "instant \<Rightarrow> js_number \<Rightarrow> holidays \<Rightarrow> time_error + instant" where
  "addBusinessHours t hours hol =
     (case hours of
        Num h \<Rightarrow>
          if h < 0 then Inl RangeError
          else if h = 0 then Inr t
          else
            (let local = t + DARWIN_OFFSET_MS;
                 dayIndex = local div DAY_MS;
                 cursor = local - dayIndex * DAY_MS;
                 remaining = js_round (h * of_int HOUR_MS)
             in if \<not> isBusinessDayIndex dayIndex hol then
                  and_then (nextBusinessDayIndex (dayIndex + 1) hol) (\<lambda>d. business_hours_loop d startMs remaining hol)
                else if cursor < startMs then business_hours_loop dayIndex startMs remaining hol
                else if cursor \<ge> endMs then
                  and_then (nextBusinessDayIndex (dayIndex + 1) hol) (\<lambda>d. business_hours_loop d startMs remaining hol)
                else business_hours_loop dayIndex cursor remaining hol)
      | _ \<Rightarrow> Inl RangeError)"

definition addWallHours :: "instant \<Rightarrow> js_number \<Rightarrow> time_error + instant" where
  "addWallHours t hours =
     (case hours of
        Num h \<Rightarrow> if h < 0 then Inl RangeError else Inr (t + js_round (h * of_int HOUR_MS))
      | _ \<Rightarrow> Inl RangeError)"

datatype policy_clock = BusinessClock | WallClock

definition addClockHours :: "policy_clock \<Rightarrow> instant \<Rightarrow> js_number \<Rightarrow> holidays \<Rightarrow> time_error + instant" where
  "addClockHours clock t hours hol =
     (if clock = WallClock then addWallHours t hours else addBusinessHours t hours hol)"

definition businessHoursElapsed :: "instant \<Rightarrow> js_number \<Rightarrow> instant \<Rightarrow> holidays \<Rightarrow> time_error + bool" where
  "businessHoursElapsed since hours now hol = and_then (addBusinessHours since hours hol) (\<lambda>t. Inr (t \<le> now))"

definition businessDaysToHours :: "rat \<Rightarrow> rat" where
  "businessDaysToHours days = days * BUSINESS_HOURS_PER_DAY"

definition darwinDateKey :: "instant \<Rightarrow> string" where
  "darwinDateKey t = dateKeyOf (darwinDayIndex t)"

text \<open>\<open>Number.isInteger\<close>, with the integer.\<close>

fun js_integer :: "js_number \<Rightarrow> int option" where
  "js_integer (Num q) = (if is_integer q then Some \<lfloor>q\<rfloor> else None)"
| "js_integer _ = None"

definition addCalendarDays :: "string \<Rightarrow> js_number \<Rightarrow> time_error + string" where
  "addCalendarDays key days =
     (case js_integer days of
        None \<Rightarrow> Inl RangeError
      | Some n \<Rightarrow> and_then (dayIndexOfKey key) (\<lambda>i. Inr (dateKeyOf (i + n))))"

definition nextBusinessDay :: "string \<Rightarrow> holidays \<Rightarrow> time_error + string" where
  "nextBusinessDay key hol =
     and_then (dayIndexOfKey key) (\<lambda>i. and_then (nextBusinessDayIndex i hol) (\<lambda>j. Inr (dateKeyOf j)))"

definition previousBusinessDay :: "string \<Rightarrow> holidays \<Rightarrow> time_error + string" where
  "previousBusinessDay key hol =
     and_then (dayIndexOfKey key) (\<lambda>i.
       and_then (previous_business_loop (MAX_SKIPPED_DAYS + 1) i hol) (\<lambda>j. Inr (dateKeyOf j)))"

fun add_business_days_loop :: "nat \<Rightarrow> int \<Rightarrow> holidays \<Rightarrow> time_error + int" where
  "add_business_days_loop 0 index hol = Inr index"
| "add_business_days_loop (Suc n) index hol =
     and_then (nextBusinessDayIndex (index + 1) hol) (\<lambda>i. add_business_days_loop n i hol)"

definition addBusinessDays :: "string \<Rightarrow> js_number \<Rightarrow> holidays \<Rightarrow> time_error + string" where
  "addBusinessDays key days hol =
     (case js_integer days of
        None \<Rightarrow> Inl RangeError
      | Some n \<Rightarrow>
          if n < 0 then Inl RangeError
          else and_then (dayIndexOfKey key) (\<lambda>i.
                 and_then (add_business_days_loop (nat n) i hol) (\<lambda>j. Inr (dateKeyOf j))))"

definition businessDayStart :: "string \<Rightarrow> time_error + instant" where
  "businessDayStart key =
     and_then (dayIndexOfKey key) (\<lambda>i. Inr (i * DAY_MS + BUSINESS_DAY_START_MINUTES * MINUTE_MS - DARWIN_OFFSET_MS))"

definition businessDayEnd :: "string \<Rightarrow> time_error + instant" where
  "businessDayEnd key =
     and_then (dayIndexOfKey key) (\<lambda>i. Inr (i * DAY_MS + BUSINESS_DAY_END_MINUTES * MINUTE_MS - DARWIN_OFFSET_MS))"

definition nextBusinessHoursInstant :: "instant \<Rightarrow> holidays \<Rightarrow> time_error + instant" where
  "nextBusinessHoursInstant t hol =
     (let local = t + DARWIN_OFFSET_MS;
          dayIndex = local div DAY_MS;
          cursor = local - dayIndex * DAY_MS;
          later = and_then (nextBusinessDayIndex (dayIndex + 1) hol)
                    (\<lambda>d. Inr (d * DAY_MS + startMs - DARWIN_OFFSET_MS))
      in if isBusinessDayIndex dayIndex hol then
           (if cursor \<ge> startMs \<and> cursor < endMs then Inr t
            else if cursor < startMs then Inr (dayIndex * DAY_MS + startMs - DARWIN_OFFSET_MS)
            else later)
         else later)"

definition darwinMinuteOfDay :: "instant \<Rightarrow> int" where
  "darwinMinuteOfDay t =
     (let local = t + DARWIN_OFFSET_MS in (local - local div DAY_MS * DAY_MS) div MINUTE_MS)"

section \<open>Weekdays and the search loops\<close>

lemma weekday_mod: "js_rem (js_rem (d + 4) 7 + 7) 7 = (d + 4) mod 7"
proof -
  define q r where "q = (d + 4) div 7" and "r = (d + 4) mod 7"
  have x: "d + 4 = 7 * q + r" "0 \<le> r" "r < 7" by (simp_all add: q_def r_def)
  have nn: "js_rem a 7 = a mod 7" if "0 \<le> a" for a
    using that by (cases "a = 0") (simp_all add: js_rem_def)
  show ?thesis
  proof (cases "0 \<le> d + 4")
    case True
    then show ?thesis by (simp add: nn)
  next
    case False
    then have neg: "js_rem (d + 4) 7 = - ((- (d + 4)) mod 7)" by (simp add: js_rem_def)
    have b: "0 \<le> (- (d + 4)) mod 7" "(- (d + 4)) mod 7 < 7" by simp_all
    have "(7 - (- (d + 4)) mod 7) mod 7 = (d + 4) mod 7"
      by (metis add.commute diff_minus_eq_add minus_mod_self2 mod_diff_right_eq mod_minus_eq
          cancel_comm_monoid_add_class.diff_zero diff_0 mod_diff_left_eq mod_self)
    then show ?thesis using b by (simp add: neg nn)
  qed
qed

lemma isBusinessDayIndex_iff:
  "isBusinessDayIndex d hol \<longleftrightarrow> (d + 4) mod 7 \<in> {1..5} \<and> dateKeyOf d \<notin> hol"
  by (simp add: isBusinessDayIndex_def Let_def weekday_mod)

lemma next_business_loop_Inr:
  "next_business_loop n i hol = Inr j \<Longrightarrow>
     i \<le> j \<and> j < i + int n \<and> isBusinessDayIndex j hol \<and> (\<forall>k. i \<le> k \<and> k < j \<longrightarrow> \<not> isBusinessDayIndex k hol)"
proof (induction n i hol rule: next_business_loop.induct)
  case (1 n i hol)
  show ?case
  proof (cases "n = 0 \<or> isBusinessDayIndex i hol")
    case True
    with "1.prems" show ?thesis by (subst (asm) next_business_loop.simps) (auto split: if_splits)
  next
    case False
    with "1.prems" have "next_business_loop (n - 1) (i + 1) hol = Inr j"
      by (subst (asm) next_business_loop.simps) simp
    with "1.IH" False have IH: "i + 1 \<le> j" "j < i + 1 + int (n - 1)" "isBusinessDayIndex j hol"
      "\<forall>k. i + 1 \<le> k \<and> k < j \<longrightarrow> \<not> isBusinessDayIndex k hol" by auto
    then have "\<not> isBusinessDayIndex k hol" if "i \<le> k" "k < j" for k
      using that False by (cases "k = i") auto
    with IH False show ?thesis by auto
  qed
qed

lemma next_business_loop_found:
  "i \<le> j \<Longrightarrow> j < i + int n \<Longrightarrow> isBusinessDayIndex j hol \<Longrightarrow> \<exists>k. next_business_loop n i hol = Inr k"
proof (induction n i hol rule: next_business_loop.induct)
  case (1 n i hol)
  show ?case
  proof (cases "isBusinessDayIndex i hol")
    case True
    with "1.prems" show ?thesis by (subst next_business_loop.simps) auto
  next
    case False
    with "1.prems" have "i + 1 \<le> j" "n \<noteq> 0" "j < i + 1 + int (n - 1)" by (cases "i = j"; auto)+
    with "1.IH" False "1.prems"(3) show ?thesis by (subst next_business_loop.simps) auto
  qed
qed

lemma previous_business_loop_Inr:
  "previous_business_loop n i hol = Inr j \<Longrightarrow>
     j \<le> i \<and> i - int n < j \<and> isBusinessDayIndex j hol \<and> (\<forall>k. j < k \<and> k \<le> i \<longrightarrow> \<not> isBusinessDayIndex k hol)"
proof (induction n i hol rule: previous_business_loop.induct)
  case (1 n i hol)
  show ?case
  proof (cases "n = 0 \<or> isBusinessDayIndex i hol")
    case True
    with "1.prems" show ?thesis by (subst (asm) previous_business_loop.simps) (auto split: if_splits)
  next
    case False
    with "1.prems" have "previous_business_loop (n - 1) (i - 1) hol = Inr j"
      by (subst (asm) previous_business_loop.simps) simp
    with "1.IH" False have IH: "j \<le> i - 1" "i - 1 - int (n - 1) < j" "isBusinessDayIndex j hol"
      "\<forall>k. j < k \<and> k \<le> i - 1 \<longrightarrow> \<not> isBusinessDayIndex k hol" by auto
    then have "\<not> isBusinessDayIndex k hol" if "j < k" "k \<le> i" for k
      using that False by (cases "k = i") auto
    with IH False show ?thesis by auto
  qed
qed

lemma nextBusinessDayIndex_Inr:
  assumes "nextBusinessDayIndex i hol = Inr j"
  shows "i \<le> j" "isBusinessDayIndex j hol" "\<And>k. i \<le> k \<Longrightarrow> k < j \<Longrightarrow> \<not> isBusinessDayIndex k hol"
  using next_business_loop_Inr [of _ i hol j] assms unfolding nextBusinessDayIndex_def by blast+

lemma nextBusinessDayIndex_self: "isBusinessDayIndex i hol \<Longrightarrow> nextBusinessDayIndex i hol = Inr i"
  unfolding nextBusinessDayIndex_def by (subst next_business_loop.simps) simp

text \<open>With fewer than ten years of consecutive days off, the search always succeeds.\<close>

definition open_calendar :: "holidays \<Rightarrow> bool" where
  "open_calendar hol \<longleftrightarrow> (\<forall>i. \<exists>j. i \<le> j \<and> j \<le> i + int MAX_SKIPPED_DAYS \<and> isBusinessDayIndex j hol)"

lemma nextBusinessDayIndex_total: "open_calendar hol \<Longrightarrow> \<exists>j. nextBusinessDayIndex i hol = Inr j"
  unfolding nextBusinessDayIndex_def open_calendar_def
  by (metis Suc_eq_plus1 add.commute int_Suc next_business_loop_found zle_add1_eq_le add.assoc)

lemma open_calendar_no_holidays: "open_calendar {}"
  unfolding open_calendar_def
proof
  fix i :: int
  define w where "w = (i + 4) mod 7"
  define j where "j = (if 1 \<le> w \<and> w \<le> 5 then i else if w = 0 then i + 1 else i + 2)"
  have w: "0 \<le> w" "w < 7" by (simp_all add: w_def)
  have shift: "(i + k + 4) mod 7 = (w + k) mod 7" for k by (simp add: w_def mod_simps algebra_simps)
  have "(j + 4) mod 7 = (w + (j - i)) mod 7" using shift [of "j - i"] by simp
  moreover have "w + (j - i) \<in> {1..5} \<or> w + (j - i) = 8" using w by (auto simp: j_def)
  ultimately have "(j + 4) mod 7 \<in> {1..5}" by auto
  then have "i \<le> j \<and> j \<le> i + int MAX_SKIPPED_DAYS \<and> isBusinessDayIndex j {}"
    by (auto simp: j_def MAX_SKIPPED_DAYS_def isBusinessDayIndex_iff)
  then show "\<exists>j. i \<le> j \<and> j \<le> i + int MAX_SKIPPED_DAYS \<and> isBusinessDayIndex j {}" by blast
qed

section \<open>Counting business milliseconds\<close>

definition in_hours :: "holidays \<Rightarrow> instant \<Rightarrow> bool" where
  "in_hours hol t \<longleftrightarrow>
     isBusinessDayIndex ((t + DARWIN_OFFSET_MS) div DAY_MS) hol \<and>
     (t + DARWIN_OFFSET_MS) mod DAY_MS \<in> {startMs..<endMs}"

definition worked :: "holidays \<Rightarrow> instant \<Rightarrow> instant \<Rightarrow> nat" where
  "worked hol a b = card {t \<in> {a..<b}. in_hours hol t}"

definition at_local :: "int \<Rightarrow> int \<Rightarrow> instant" where
  "at_local day ms = day * DAY_MS + ms - DARWIN_OFFSET_MS"

lemma at_local_split: "t = at_local ((t + DARWIN_OFFSET_MS) div DAY_MS) ((t + DARWIN_OFFSET_MS) mod DAY_MS)"
  by (simp add: at_local_def)

lemma DAY_MS_pos: "0 < DAY_MS" "endMs < DAY_MS" "0 < startMs" "startMs < endMs"
  by (simp_all add: DAY_MS_def business_bounds)

lemma at_local_day:
  assumes "0 \<le> c" "c < DAY_MS"
  shows "(at_local d c + DARWIN_OFFSET_MS) div DAY_MS = d" "(at_local d c + DARWIN_OFFSET_MS) mod DAY_MS = c"
  using assms by (simp_all add: at_local_def)

lemma in_hours_at:
  assumes "0 \<le> c" "c < DAY_MS"
  shows "in_hours hol (at_local d c) \<longleftrightarrow> isBusinessDayIndex d hol \<and> startMs \<le> c \<and> c < endMs"
  by (simp add: in_hours_def at_local_day [OF assms])

lemma worked_split:
  assumes "a \<le> b" "b \<le> c"
  shows "worked hol a c = worked hol a b + worked hol b c"
proof -
  have "{t \<in> {a..<c}. in_hours hol t} = {t \<in> {a..<b}. in_hours hol t} \<union> {t \<in> {b..<c}. in_hours hol t}"
    using assms by auto
  moreover have "finite {t \<in> {a..<b}. in_hours hol t}" "finite {t \<in> {b..<c}. in_hours hol t}"
    by (auto intro: finite_subset [of _ "{a..<b}"] finite_subset [of _ "{b..<c}"])
  moreover have "{t \<in> {a..<b}. in_hours hol t} \<inter> {t \<in> {b..<c}. in_hours hol t} = {}" by auto
  ultimately show ?thesis unfolding worked_def by (metis card_Un_disjoint)
qed

lemma worked_none: "(\<And>t. a \<le> t \<Longrightarrow> t < b \<Longrightarrow> \<not> in_hours hol t) \<Longrightarrow> worked hol a b = 0"
proof -
  assume "\<And>t. a \<le> t \<Longrightarrow> t < b \<Longrightarrow> \<not> in_hours hol t"
  then have "{t \<in> {a..<b}. in_hours hol t} = {}" by auto
  then show ?thesis unfolding worked_def by (metis card.empty)
qed

lemma worked_refl [simp]: "worked hol a a = 0"
  by (simp add: worked_def)

lemma worked_all:
  assumes "\<And>t. a \<le> t \<Longrightarrow> t < b \<Longrightarrow> in_hours hol t"
  shows "worked hol a b = nat (b - a)"
proof -
  have "{t \<in> {a..<b}. in_hours hol t} = {a..<b}" using assms by auto
  then show ?thesis by (simp add: worked_def)
qed

lemma worked_within_day:
  assumes "isBusinessDayIndex d hol" "startMs \<le> c" "c \<le> c'" "c' \<le> endMs"
  shows "worked hol (at_local d c) (at_local d c') = nat (c' - c)"
proof -
  have "in_hours hol t" if "at_local d c \<le> t" "t < at_local d c'" for t
  proof -
    define k where "k = t - at_local d 0"
    have t: "t = at_local d k" by (simp add: k_def at_local_def)
    have "c \<le> k" "k < c'" using that by (simp_all add: t at_local_def)
    with assms DAY_MS_pos in_hours_at [of k hol d] show ?thesis by (simp add: t)
  qed
  then show ?thesis by (subst worked_all) (simp_all add: at_local_def)
qed

text \<open>Between a closing and the next opening nothing counts.\<close>

lemma worked_gap:
  assumes "\<And>k. d < k \<Longrightarrow> k < d' \<Longrightarrow> \<not> isBusinessDayIndex k hol" "d < d'"
    and "\<not> isBusinessDayIndex d hol \<or> endMs \<le> c" "0 \<le> c"
  shows "worked hol (at_local d c) (at_local d' startMs) = 0"
proof (rule worked_none)
  fix t assume t: "at_local d c \<le> t" "t < at_local d' startMs"
  define k m where "k = (t + DARWIN_OFFSET_MS) div DAY_MS" and "m = (t + DARWIN_OFFSET_MS) mod DAY_MS"
  have m: "0 \<le> m" "m < DAY_MS" using DAY_MS_pos by (simp_all add: m_def)
  have tk: "t = at_local k m" unfolding k_def m_def by (rule at_local_split)
  have "d \<le> k"
  proof (rule ccontr)
    assume "\<not> d \<le> k"
    then have "(k + 1) * DAY_MS \<le> d * DAY_MS" using DAY_MS_pos by (intro mult_right_mono) auto
    with t(1) m assms(4) show False by (simp add: tk at_local_def algebra_simps)
  qed
  moreover have "k \<le> d'"
  proof (rule ccontr)
    assume "\<not> k \<le> d'"
    then have "(d' + 1) * DAY_MS \<le> k * DAY_MS" using DAY_MS_pos by (intro mult_right_mono) auto
    with t(2) m DAY_MS_pos show False by (simp add: tk at_local_def algebra_simps)
  qed
  moreover have "k = d \<Longrightarrow> c \<le> m" "k = d' \<Longrightarrow> m < startMs"
    using t by (simp_all add: tk at_local_def)
  ultimately show "\<not> in_hours hol t"
    using assms in_hours_at [OF m, of hol k] by (cases "k = d"; cases "k = d'") (auto simp: tk)
qed

lemma business_hours_loop_worked:
  assumes "business_hours_loop d c r hol = Inr t" "isBusinessDayIndex d hol" "startMs \<le> c" "c \<le> endMs" "0 \<le> r"
  shows "worked hol (at_local d c) t = nat r \<and> at_local d c \<le> t \<and> (0 < r \<longrightarrow> in_hours hol (t - 1))"
  using assms
proof (induction d c r hol rule: business_hours_loop.induct)
  case (1 d c r hol)
  show ?case
  proof (cases "r \<le> endMs - c")
    case True
    with "1.prems"(1) have "t = at_local d (c + r)"
      by (subst (asm) business_hours_loop.simps) (simp add: at_local_def)
    moreover have "worked hol (at_local d c) (at_local d (c + r)) = nat r"
      using True "1.prems" worked_within_day [of d hol c "c + r"] by simp
    moreover have "in_hours hol (at_local d (c + r) - 1)" if "0 < r"
    proof -
      have "at_local d (c + r) - 1 = at_local d (c + r - 1)" by (simp add: at_local_def)
      with that True "1.prems" DAY_MS_pos in_hours_at [of "c + r - 1" hol d] show ?thesis by simp
    qed
    moreover have "at_local d c \<le> at_local d (c + r)" using "1.prems" by (simp add: at_local_def)
    ultimately show ?thesis by simp
  next
    case False
    with "1.prems"(1) obtain d' where d': "nextBusinessDayIndex (d + 1) hol = Inr d'"
      and rest: "business_hours_loop d' startMs (r - (endMs - c)) hol = Inr t"
      by (subst (asm) business_hours_loop.simps) (auto split: sum.splits)
    from nextBusinessDayIndex_Inr [OF d'] have d'b: "d < d'" "isBusinessDayIndex d' hol"
      "\<And>k. d < k \<Longrightarrow> k < d' \<Longrightarrow> \<not> isBusinessDayIndex k hol" by auto
    have le: "at_local d c \<le> at_local d endMs" "at_local d endMs \<le> at_local d' startMs"
    proof -
      show "at_local d c \<le> at_local d endMs" using "1.prems" by (simp add: at_local_def)
      have "(d + 1) * DAY_MS \<le> d' * DAY_MS" using d'b(1) DAY_MS_pos by (intro mult_right_mono) auto
      then show "at_local d endMs \<le> at_local d' startMs"
        using DAY_MS_pos by (simp add: at_local_def algebra_simps)
    qed
    from "1.IH" [OF False d' rest] d'b(2) DAY_MS_pos False have IH:
      "worked hol (at_local d' startMs) t = nat (r - (endMs - c))" "at_local d' startMs \<le> t" "in_hours hol (t - 1)"
      by auto
    have "worked hol (at_local d c) t =
        worked hol (at_local d c) (at_local d endMs) + worked hol (at_local d endMs) (at_local d' startMs)
        + worked hol (at_local d' startMs) t"
      using le IH(2) worked_split [of "at_local d c" "at_local d endMs" t hol]
        worked_split [of "at_local d endMs" "at_local d' startMs" t hol] by simp
    also have "\<dots> = nat (endMs - c) + 0 + nat (r - (endMs - c))"
      using worked_within_day [of d hol c endMs] worked_gap [of d d' hol endMs] d'b "1.prems" DAY_MS_pos IH(1)
      by simp
    finally show ?thesis using IH le False "1.prems" by (simp add: nat_add_distrib [symmetric])
  qed
qed

lemma business_hours_loop_total:
  "open_calendar hol \<Longrightarrow> \<exists>t. business_hours_loop d c r hol = Inr t"
proof (induction d c r hol rule: business_hours_loop.induct)
  case (1 d c r hol)
  obtain d' where "nextBusinessDayIndex (d + 1) hol = Inr d'"
    using nextBusinessDayIndex_total [OF "1.prems"] by blast
  with 1 show ?case by (subst business_hours_loop.simps) auto
qed

text \<open>Where counting starts: the instant itself inside business hours, else the next opening.\<close>

definition first_opening :: "instant \<Rightarrow> holidays \<Rightarrow> time_error + (int \<times> int)" where
  "first_opening t hol =
     (let d = (t + DARWIN_OFFSET_MS) div DAY_MS; c = (t + DARWIN_OFFSET_MS) mod DAY_MS
      in if isBusinessDayIndex d hol \<and> c < endMs then Inr (d, max c startMs)
         else and_then (nextBusinessDayIndex (d + 1) hol) (\<lambda>d'. Inr (d', startMs)))"

lemma first_opening_Inr:
  assumes "first_opening t hol = Inr (d, c)"
  shows "isBusinessDayIndex d hol" "startMs \<le> c" "c < endMs" "t \<le> at_local d c"
    "worked hol t (at_local d c) = 0"
proof -
  define k m where "k = (t + DARWIN_OFFSET_MS) div DAY_MS" and "m = (t + DARWIN_OFFSET_MS) mod DAY_MS"
  have m: "0 \<le> m" "m < DAY_MS" using DAY_MS_pos by (simp_all add: m_def)
  have t: "t = at_local k m" unfolding k_def m_def by (rule at_local_split)
  have "isBusinessDayIndex d hol \<and> startMs \<le> c \<and> c < endMs \<and> t \<le> at_local d c \<and> worked hol t (at_local d c) = 0"
  proof (cases "isBusinessDayIndex k hol \<and> m < endMs")
    case True
    then have dc: "d = k" "c = max m startMs"
      using assms by (simp_all add: first_opening_def Let_def k_def m_def)
    have "worked hol t (at_local d c) = 0"
    proof (cases "startMs \<le> m")
      case True
      then show ?thesis by (simp add: t dc)
    next
      case False
      show ?thesis
      proof (rule worked_none)
        fix u assume u: "t \<le> u" "u < at_local d c"
        have "u = at_local k (u - at_local k 0)" by (simp add: at_local_def)
        moreover have "0 \<le> u - at_local k 0" "u - at_local k 0 < startMs"
          using u m False by (simp_all add: t dc at_local_def)
        ultimately show "\<not> in_hours hol u"
          using in_hours_at [of "u - at_local k 0" hol k] DAY_MS_pos by simp
      qed
    qed
    then show ?thesis using True DAY_MS_pos by (simp add: dc t at_local_def)
  next
    case False
    then obtain d' where d': "nextBusinessDayIndex (k + 1) hol = Inr d'" "d = d'" "c = startMs"
      using assms by (auto simp: first_opening_def Let_def k_def m_def and_then_Inr_iff)
    from nextBusinessDayIndex_Inr [OF d'(1)] have n: "k < d'" "isBusinessDayIndex d' hol"
      "\<And>j. k < j \<Longrightarrow> j < d' \<Longrightarrow> \<not> isBusinessDayIndex j hol" by auto
    have "worked hol t (at_local d c) = 0"
      unfolding t d'(2,3) by (rule worked_gap) (use n False m in auto)
    moreover have "t \<le> at_local d c"
    proof -
      have "(k + 1) * DAY_MS \<le> d' * DAY_MS" using n(1) DAY_MS_pos by (intro mult_right_mono) auto
      then show ?thesis using m DAY_MS_pos by (simp add: t d' at_local_def algebra_simps)
    qed
    ultimately show ?thesis using n d' DAY_MS_pos by simp
  qed
  then show "isBusinessDayIndex d hol" "startMs \<le> c" "c < endMs" "t \<le> at_local d c"
    "worked hol t (at_local d c) = 0" by blast+
qed

lemma first_opening_total: "open_calendar hol \<Longrightarrow> \<exists>d c. first_opening t hol = Inr (d, c)"
  using nextBusinessDayIndex_total [of hol "(t + DARWIN_OFFSET_MS) div DAY_MS + 1"]
  by (auto simp: first_opening_def Let_def)

lemma local_mod: "t + DARWIN_OFFSET_MS - (t + DARWIN_OFFSET_MS) div DAY_MS * DAY_MS = (t + DARWIN_OFFSET_MS) mod DAY_MS"
  by (simp add: minus_div_mult_eq_mod)

lemma addBusinessHours_first_opening:
  assumes "0 < h"
  shows "addBusinessHours t (Num h) hol =
    and_then (first_opening t hol) (\<lambda>(d, c). business_hours_loop d c (js_round (h * of_int HOUR_MS)) hol)"
proof -
  define d c where "d = (t + DARWIN_OFFSET_MS) div DAY_MS" and "c = (t + DARWIN_OFFSET_MS) mod DAY_MS"
  show ?thesis
    using assms unfolding addBusinessHours_def first_opening_def Let_def local_mod
    unfolding d_def [symmetric] c_def [symmetric]
    using DAY_MS_pos(4) by (cases "nextBusinessDayIndex (d + 1) hol") (auto simp: max_def)
qed

lemma worked_mono_last:
  assumes "a \<le> u" "u < b" "in_hours hol (b - 1)"
  shows "worked hol a u < worked hol a b"
proof -
  have "worked hol a b = worked hol a u + worked hol u (b - 1) + worked hol (b - 1) b"
    using assms worked_split [of a u b hol] worked_split [of u "b - 1" b hol] by simp
  moreover have "{t \<in> {b - 1..<b}. in_hours hol t} = {b - 1}" using assms(3) by auto
  then have "worked hol (b - 1) b = 1" by (simp add: worked_def)
  ultimately show ?thesis by simp
qed

lemma addBusinessHours_worked:
  assumes "addBusinessHours t (Num h) hol = Inr t'" "0 < js_round (h * of_int HOUR_MS)" "0 < h"
  shows "t \<le> t'" "worked hol t t' = nat (js_round (h * of_int HOUR_MS))" "in_hours hol (t' - 1)"
proof -
  obtain d c where o: "first_opening t hol = Inr (d, c)"
    and l: "business_hours_loop d c (js_round (h * of_int HOUR_MS)) hol = Inr t'"
    using assms(1) by (auto simp: addBusinessHours_first_opening [OF assms(3)] and_then_Inr_iff)
  note op = first_opening_Inr [OF o]
  from business_hours_loop_worked [OF l] op assms(2)
  have "worked hol (at_local d c) t' = nat (js_round (h * of_int HOUR_MS))" "at_local d c \<le> t'" "in_hours hol (t' - 1)"
    by auto
  with op worked_split [of t "at_local d c" t' hol]
  show "t \<le> t'" "worked hol t t' = nat (js_round (h * of_int HOUR_MS))" "in_hours hol (t' - 1)" by auto
qed

lemma addBusinessHours_total:
  assumes "open_calendar hol" "0 \<le> h"
  shows "\<exists>t'. addBusinessHours t (Num h) hol = Inr t'"
proof (cases "h = 0")
  case True
  then show ?thesis by (simp add: addBusinessHours_def)
next
  case False
  then have h: "0 < h" using assms(2) by simp
  obtain d c where "first_opening t hol = Inr (d, c)" using first_opening_total [OF assms(1)] by blast
  then show ?thesis
    using business_hours_loop_total [OF assms(1)] by (simp add: addBusinessHours_first_opening [OF h])
qed

section \<open>The calendar of business days\<close>

lemma add_business_days_count:
  "add_business_days_loop n i hol = Inr j \<Longrightarrow>
     i \<le> j \<and> card {k \<in> {i<..j}. isBusinessDayIndex k hol} = n \<and> (0 < n \<longrightarrow> isBusinessDayIndex j hol)"
proof (induction n arbitrary: i)
  case 0
  then show ?case by auto
next
  case (Suc n)
  then obtain m where m: "nextBusinessDayIndex (i + 1) hol = Inr m" "add_business_days_loop n m hol = Inr j"
    by (auto simp: and_then_Inr_iff)
  note nx = nextBusinessDayIndex_Inr [OF m(1)]
  from Suc.IH [OF m(2)] have IH: "m \<le> j" "card {k \<in> {m<..j}. isBusinessDayIndex k hol} = n"
    "0 < n \<longrightarrow> isBusinessDayIndex j hol" by auto
  have "{k \<in> {i<..j}. isBusinessDayIndex k hol} = insert m {k \<in> {m<..j}. isBusinessDayIndex k hol}"
    using nx IH(1) by (auto simp: not_less) (metis less_linear zless_imp_add1_zle add.commute)
  moreover have "finite {k \<in> {m<..j}. isBusinessDayIndex k hol}" by (rule finite_subset [of _ "{m<..j}"]) auto
  moreover have "n = 0 \<Longrightarrow> j = m" using m(2) by simp
  ultimately show ?case using IH nx by (cases n) auto
qed

lemma add_business_days_total: "open_calendar hol \<Longrightarrow> \<exists>j. add_business_days_loop n i hol = Inr j"
proof (induction n arbitrary: i)
  case (Suc n)
  then obtain m where "nextBusinessDayIndex (i + 1) hol = Inr m" using nextBusinessDayIndex_total by blast
  with Suc show ?case by simp
qed simp

lemma dayIndexOfKey_iso: "day_range D \<Longrightarrow> dayIndexOfKey (iso_day D) = Inr D"
proof -
  assume r: "day_range D"
  obtain y m d where c: "civil_from_day D = (y, m, d)" by (cases "civil_from_day D")
  with r have "utc_day y m d = D" using day_range_civil [OF c] by (intro utc_day_civil [OF c]) simp
  with c show ?thesis by (simp add: dayIndexOfKey_def isRealDate_def parse_iso_day [OF r])
qed

lemma digit_of_Some: "digit_of c = Some n \<Longrightarrow> 0 \<le> n \<and> n < 10 \<and> c = char_of (48 + nat n)"
proof -
  assume "digit_of c = Some n"
  then have b: "48 \<le> (of_char c :: nat)" "(of_char c :: nat) \<le> 57" and n: "n = int (of_char c) - 48"
    by (auto simp: digit_of_def Let_def split: if_splits)
  from b n have "48 + nat n = of_char c" by simp
  then have "char_of (48 + nat n) = c" by (simp only: char_of_char)
  with b n show ?thesis by simp
qed

lemma ten_split: "0 \<le> r \<and> r < 10 \<and> P \<Longrightarrow> (10 * q + r) mod 10 = r" "0 \<le> r \<and> r < 10 \<and> P \<Longrightarrow> (10 * q + r) div 10 = (q :: int)"
  by (simp_all add: mod_mult_self4)

lemma written_4:
  assumes "number_of [a, b, c, d] 0 = Some n" shows "dec_digits 4 n = [a, b, c, d] \<and> 0 \<le> n \<and> n \<le> 9999"
proof -
  from assms obtain i j k l where ds: "digit_of a = Some i" "digit_of b = Some j" "digit_of c = Some k" "digit_of d = Some l"
    and n: "n = 10 * (10 * (10 * i + j) + k) + l"
    by (auto split: option.splits)
  note b = ds [THEN digit_of_Some]
  have "n mod 10 = l" "n div 10 = 10 * (10 * i + j) + k" using b by (simp_all only: n ten_split)
  moreover have "(10 * (10 * i + j) + k) mod 10 = k" "(10 * (10 * i + j) + k) div 10 = 10 * i + j"
    using b by (simp_all only: ten_split)
  moreover have "(10 * i + j) mod 10 = j" "(10 * i + j) div 10 = i" "i mod 10 = i"
    using b by (simp_all only: ten_split mod_pos_pos_trivial)
  ultimately have "dec_digits 4 n = [char_of (48 + nat i), char_of (48 + nat j), char_of (48 + nat k), char_of (48 + nat l)]"
    by (simp only: digits_4)
  with b n show ?thesis by simp
qed

lemma written_2:
  assumes "number_of [a, b] 0 = Some n" shows "dec_digits 2 n = [a, b]"
proof -
  from assms obtain i j where ds: "digit_of a = Some i" "digit_of b = Some j" and n: "n = 10 * i + j"
    by (auto split: option.splits)
  note b = ds [THEN digit_of_Some]
  have "n mod 10 = j" "n div 10 = i" "i mod 10 = i"
    using b by (simp_all only: n ten_split mod_pos_pos_trivial)
  then have "dec_digits 2 n = [char_of (48 + nat i), char_of (48 + nat j)]" by (simp only: digits_2)
  with b show ?thesis by simp
qed

lemma parse_date_key_Some:
  assumes "parse_date_key key = Some (y, m, d)"
  shows "key = dec_digits 4 y @ ''-'' @ dec_digits 2 m @ ''-'' @ dec_digits 2 d \<and> 0 \<le> y \<and> y \<le> 9999"
  using assms
proof (induction key rule: parse_date_key.induct)
  case (1 a b c d' p e f q g h)
  then have pq: "p = CHR ''-''" "q = CHR ''-''"
    and n: "number_of [a, b, c, d'] 0 = Some y" "number_of [e, f] 0 = Some m" "number_of [g, h] 0 = Some d"
    by (auto split: if_splits option.splits simp del: number_of.simps)
  from written_4 [OF n(1)] n(2,3) [THEN written_2] show ?case by (simp add: pq)
qed simp_all

lemma dayIndexOfKey_Inr:
  assumes "dayIndexOfKey key = Inr D"
  shows "day_range D" "iso_day D = key" "isRealDate key"
proof -
  from assms obtain y m d where p: "parse_date_key key = Some (y, m, d)" and D: "D = utc_day y m d"
    and c: "civil_from_day D = (y, m, d)"
    by (auto simp: dayIndexOfKey_def isRealDate_def split: if_splits option.splits)
  note w = parse_date_key_Some [OF p]
  have "\<not> y < 100"
  proof
    assume y: "y < 100"
    from civil_from_day_valid [OF c] have v: "valid_civil y m d"
      and D1: "D = day_from_year y + month_start (leap_year y) m + d - 1" by auto
    from v have md: "1 \<le> m" "m \<le> 12" "1 \<le> d" "d \<le> days_in_month (leap_year y) m"
      by (auto simp: valid_civil_def)
    have "(m - 1) div 12 = 0" "(m - 1) mod 12 + 1 = m" using md by simp_all
    with D w y have D2: "D = day_from_year (1900 + y) + month_start (leap_year (1900 + y)) m + d - 1"
      by (simp add: utc_day_def Let_def)
    have "0 \<le> month_start (leap_year (1900 + y)) m" by (simp add: month_start_def)
    moreover have "month_start (leap_year y) m + d - 1 < 366"
      using month_start_le_year [OF md] by (auto simp: days_in_year_def split: if_splits)
    moreover have "day_from_year y + 365 * 1900 \<le> day_from_year (1900 + y)"
      using day_from_year_mono_nat [of y 1900] by (simp add: add.commute)
    ultimately show False using D1 D2 md by linarith
  qed
  with w day_range_civil [OF c] show "day_range D" by simp
  with iso_day_eq [OF c] w show "iso_day D = key" by simp
  show "isRealDate key" using assms by (auto simp: dayIndexOfKey_def split: if_splits)
qed

lemma darwinDayIndex_at: "0 \<le> c \<Longrightarrow> c < DAY_MS \<Longrightarrow> darwinDayIndex (at_local d c) = d"
  by (simp add: darwinDayIndex_def at_local_day)

lemma business_day_edges:
  assumes "dayIndexOfKey key = Inr d"
  shows "businessDayStart key = Inr (at_local d startMs)" "businessDayEnd key = Inr (at_local d endMs)"
  by (simp_all add: businessDayStart_def businessDayEnd_def assms at_local_def startMs_def endMs_def)

lemma worked_zero_iff: "worked hol a b = 0 \<longleftrightarrow> (\<forall>t. a \<le> t \<and> t < b \<longrightarrow> \<not> in_hours hol t)"
proof -
  have "finite {t \<in> {a..<b}. in_hours hol t}" by (rule finite_subset [of _ "{a..<b}"]) auto
  then show ?thesis by (auto simp: worked_def card_eq_0_iff)
qed

lemma nextBusinessHoursInstant_opening:
  "nextBusinessHoursInstant t hol =
     and_then (first_opening t hol) (\<lambda>(d, c). Inr (at_local d c))"
proof -
  define d c where "d = (t + DARWIN_OFFSET_MS) div DAY_MS" and "c = (t + DARWIN_OFFSET_MS) mod DAY_MS"
  have t: "t = at_local d c" unfolding d_def c_def by (rule at_local_split)
  show ?thesis
    using DAY_MS_pos(4) t
    unfolding nextBusinessHoursInstant_def first_opening_def Let_def local_mod
    unfolding d_def [symmetric] c_def [symmetric]
    by (cases "nextBusinessDayIndex (d + 1) hol") (auto simp: max_def at_local_def)
qed

lemma nextBusinessHoursInstant_least:
  assumes "nextBusinessHoursInstant t hol = Inr t'"
  shows "t \<le> t'" "in_hours hol t'" "\<And>u. t \<le> u \<Longrightarrow> u < t' \<Longrightarrow> \<not> in_hours hol u"
proof -
  from assms obtain d c where o: "first_opening t hol = Inr (d, c)" and t': "t' = at_local d c"
    by (auto simp: nextBusinessHoursInstant_opening and_then_Inr_iff)
  note op = first_opening_Inr [OF o]
  from op show "t \<le> t'" by (simp add: t')
  from op DAY_MS_pos in_hours_at [of c hol d] show "in_hours hol t'" by (simp add: t')
  from op(5) show "\<And>u. t \<le> u \<Longrightarrow> u < t' \<Longrightarrow> \<not> in_hours hol u" by (auto simp: t' worked_zero_iff)
qed

section \<open>What callers rely on\<close>

text \<open>C22: The SLA clock is exactly a count of business milliseconds: with a calendar that is not shut
  for ten years, \<open>addBusinessHours\<close> returns \<open>t'\<close> if and only if \<open>t'\<close> is the least instant from \<open>t\<close> on by
  which the requested number of in-hours milliseconds has passed.\<close>

theorem addBusinessHours_least:
  assumes "open_calendar hol" "0 < js_round (h * of_int HOUR_MS)"
  shows "addBusinessHours t (Num h) hol = Inr t' \<longleftrightarrow>
    t \<le> t' \<and> worked hol t t' = nat (js_round (h * of_int HOUR_MS)) \<and>
    (\<forall>u. t \<le> u \<and> u < t' \<longrightarrow> worked hol t u < nat (js_round (h * of_int HOUR_MS)))"
proof -
  have h: "0 < h"
  proof (rule ccontr)
    assume "\<not> 0 < h"
    then have "h * of_int HOUR_MS \<le> 0" by (simp add: HOUR_MS_def)
    then have "js_round (h * of_int HOUR_MS) \<le> 0" unfolding js_round_def by linarith
    with assms(2) show False by simp
  qed
  obtain r where r: "addBusinessHours t (Num h) hol = Inr r"
    using addBusinessHours_total [OF assms(1)] h by (meson less_imp_le)
  note w = addBusinessHours_worked [OF r assms(2) h]
  from w worked_mono_last [of t _ r hol]
  have least: "t \<le> u \<and> u < r \<longrightarrow> worked hol t u < nat (js_round (h * of_int HOUR_MS))" for u by auto
  with w have "t' = r" if "t \<le> t' \<and> worked hol t t' = nat (js_round (h * of_int HOUR_MS)) \<and>
    (\<forall>u. t \<le> u \<and> u < t' \<longrightarrow> worked hol t u < nat (js_round (h * of_int HOUR_MS)))"
    using that by (metis less_irrefl linorder_neqE_linordered_idom)
  with r w least show ?thesis by auto
qed

theorem addBusinessHours_least_witness:
  "addBusinessHours 109800000 (Num 2) {} = Inr 345600000 \<and> worked {} 109800000 345600000 = 7200000"
proof -
  have v: "addBusinessHours 109800000 (Num 2) {} = Inr 345600000" by code_simp
  have "2 * rat_of_int HOUR_MS = of_int 7200000" by (simp add: HOUR_MS_def)
  then have "js_round (2 * rat_of_int HOUR_MS) = 7200000" by (simp only: js_round_of_int)
  with v addBusinessHours_least [OF open_calendar_no_holidays, of 2 109800000] show ?thesis by auto
qed

text \<open>An hour count that is negative or not a finite number is refused by every clock, and any other
  count succeeds on the wall clock, and on the business clock unless the calendar is shut for ten years.\<close>

theorem addClockHours_errors:
  assumes "open_calendar hol"
  shows "(\<exists>t'. addClockHours clock t hours hol = Inr t') \<longleftrightarrow> (\<exists>h. hours = Num h \<and> 0 \<le> h)"
  using addBusinessHours_total [OF assms] addBusinessHours_total [OF assms, of 0]
  by (cases hours; cases clock)
     (auto simp: addClockHours_def addWallHours_def addBusinessHours_def)

theorem addClockHours_errors_witness:
  "(\<exists>t'. addClockHours BusinessClock 0 (Num 3) {} = Inr t') \<and>
   \<not> (\<exists>t'. addClockHours BusinessClock 0 (Num (- 1)) {} = Inr t')"
  using addClockHours_errors [OF open_calendar_no_holidays, of BusinessClock 0 "Num 3"]
    addClockHours_errors [OF open_calendar_no_holidays, of BusinessClock 0 "Num (- 1)"] by auto

text \<open>\<open>nextBusinessHoursInstant\<close> returns the least instant at or after its argument that is inside
  business hours.\<close>

theorem nextBusinessHoursInstant_correct:
  assumes "open_calendar hol"
  shows "nextBusinessHoursInstant t hol = Inr t' \<longleftrightarrow>
    t \<le> t' \<and> in_hours hol t' \<and> (\<forall>u. t \<le> u \<and> u < t' \<longrightarrow> \<not> in_hours hol u)"
proof -
  obtain r where r: "nextBusinessHoursInstant t hol = Inr r"
    using first_opening_total [OF assms, of t] by (auto simp: nextBusinessHoursInstant_opening)
  note l = nextBusinessHoursInstant_least [OF r]
  show ?thesis
  proof
    assume "nextBusinessHoursInstant t hol = Inr t'"
    then have "t' = r" using r by simp
    with l show "t \<le> t' \<and> in_hours hol t' \<and> (\<forall>u. t \<le> u \<and> u < t' \<longrightarrow> \<not> in_hours hol u)" by blast
  next
    assume a: "t \<le> t' \<and> in_hours hol t' \<and> (\<forall>u. t \<le> u \<and> u < t' \<longrightarrow> \<not> in_hours hol u)"
    have "t' = r"
    proof (cases t' r rule: linorder_cases)
      case less
      with a l(3) [of t'] show ?thesis by blast
    next
      case greater
      with a l(1,2) show ?thesis by blast
    qed
    with r show "nextBusinessHoursInstant t hol = Inr t'" by simp
  qed
qed

theorem nextBusinessHoursInstant_correct_witness:
  "nextBusinessHoursInstant 200000000 {} = Inr 342000000 \<and> in_hours {} 342000000"
proof -
  have "nextBusinessHoursInstant 200000000 {} = Inr 342000000" by code_simp
  with nextBusinessHoursInstant_correct [OF open_calendar_no_holidays, of 200000000 342000000]
  show ?thesis by blast
qed

text \<open>\<open>addBusinessDays\<close> moves over exactly the requested number of business days and, unless none was
  asked for, ends on one; the day it starts from does not count.\<close>

theorem addBusinessDays_counts:
  assumes "dayIndexOfKey key = Inr i" "0 \<le> n" "addBusinessDays key (Num (of_int n)) hol = Inr key'"
  shows "\<exists>j. key' = dateKeyOf j \<and> i \<le> j \<and> int (card {k \<in> {i<..j}. isBusinessDayIndex k hol}) = n \<and>
    (0 < n \<longrightarrow> isBusinessDayIndex j hol)"
proof -
  from assms obtain j where j: "add_business_days_loop (nat n) i hol = Inr j" and k: "key' = dateKeyOf j"
    by (auto simp: addBusinessDays_def and_then_Inr_iff)
  from add_business_days_count [OF j] k assms(2) show ?thesis by (intro exI [of _ j]) auto
qed

theorem addBusinessDays_counts_witness:
  "\<exists>j. ''2026-01-28'' = dateKeyOf j \<and> 20476 \<le> j \<and>
     int (card {k \<in> {20476<..j}. isBusinessDayIndex k {''2026-01-26''}}) = 2 \<and>
     isBusinessDayIndex j {''2026-01-26''}"
proof -
  have d: "dayIndexOfKey ''2026-01-23'' = Inr 20476" by code_simp
  have a: "addBusinessDays ''2026-01-23'' (Num (of_int 2)) {''2026-01-26''} = Inr ''2026-01-28''"
  proof -
    have "add_business_days_loop (nat 2) 20476 {''2026-01-26''} = Inr 20481" by code_simp
    moreover have "dateKeyOf 20481 = ''2026-01-28''" by code_simp
    ultimately show ?thesis by (simp add: addBusinessDays_def d)
  qed
  show ?thesis using addBusinessDays_counts [OF d _ a] by simp
qed

text \<open>Date keys are faithful to days: every instant from the opening to the closing of a date's
  business hours has that date as its Darwin key, the two are eight and a half hours apart, and two dates
  compare as strings exactly as their opening instants compare.\<close>

theorem date_keys_faithful:
  assumes "businessDayStart key = Inr a" "businessDayEnd key = Inr b" "businessDayStart key' = Inr a'"
  shows "(\<forall>t. a \<le> t \<and> t \<le> b \<longrightarrow> darwinDateKey t = key) \<and> b - a = 510 * MINUTE_MS \<and>
    (js_less key key' \<longleftrightarrow> a < a')"
proof -
  from assms(1,3) obtain d d' where d: "dayIndexOfKey key = Inr d" and d': "dayIndexOfKey key' = Inr d'"
    by (auto simp: businessDayStart_def and_then_Inr_iff)
  have ab: "a = at_local d startMs" "b = at_local d endMs" "a' = at_local d' startMs"
    using business_day_edges [OF d] business_day_edges [OF d'] assms by auto
  have "darwinDateKey t = key" if "a \<le> t" "t \<le> b" for t
  proof -
    have t: "t = at_local d (t - at_local d 0)" by (simp add: at_local_def)
    have "0 \<le> t - at_local d 0" "t - at_local d 0 < DAY_MS"
      using that DAY_MS_pos by (simp_all add: ab at_local_def)
    from darwinDayIndex_at [OF this, of d] t have "darwinDayIndex t = d" by simp
    with dayIndexOfKey_Inr(2) [OF d] show ?thesis by (simp add: darwinDateKey_def dateKeyOf_def)
  qed
  moreover have "js_less key key' \<longleftrightarrow> a < a'"
    using iso_day_less [OF dayIndexOfKey_Inr(1) [OF d] dayIndexOfKey_Inr(1) [OF d']] DAY_MS_pos(1)
    by (simp add: dayIndexOfKey_Inr(2) [OF d] dayIndexOfKey_Inr(2) [OF d'] ab at_local_def)
  moreover have "b - a = 510 * MINUTE_MS"
    by (simp add: ab at_local_def business_bounds MINUTE_MS_def)
  ultimately show ?thesis by blast
qed

theorem date_keys_faithful_witness:
  "darwinDateKey 1772150400000 = ''2026-02-27'' \<and> js_less ''2026-02-27'' ''2026-03-02''"
proof -
  have "dayIndexOfKey ''2026-02-27'' = Inr 20511" "dayIndexOfKey ''2026-03-02'' = Inr 20514" by code_simp+
  then have "businessDayStart ''2026-02-27'' = Inr 1772146800000" "businessDayEnd ''2026-02-27'' = Inr 1772177400000"
    "businessDayStart ''2026-03-02'' = Inr 1772406000000"
    by (simp_all add: business_day_edges at_local_def business_bounds DAY_MS_def DARWIN_OFFSET_MS_def)
  from date_keys_faithful [OF this] show ?thesis by simp
qed

end
