(* ===== verification/Escalation_Types.thy ===== *)
theory Escalation_Types
  imports Business_Time "HOL-Library.AList"
begin

text \<open>
  The shared shapes of the escalation engine: \<open>src/escalation/types.ts\<close>, \<open>errors.ts\<close>, the role
  knowledge of \<open>roles.ts\<close> and the context block of \<open>decisionRows.ts\<close>. Numbers that identify rows and
  people are integers, instants are milliseconds, a row version is a counter (the base64 text of the
  database's row version is only ever compared for equality).
\<close>

section \<open>JSON\<close>

datatype json =
    JNull | JBool bool | JNum js_number | JStr string | JArr "json list" | JObj "(string \<times> json) list"

type_synonym json_object = "(string \<times> json) list"

text \<open>\<open>o.key\<close>, and \<open>{...a, ...b}\<close>.\<close>

definition obj_get :: "json_object \<Rightarrow> string \<Rightarrow> json option" where
  "obj_get obj key = map_of obj key"

definition obj_spread :: "json_object \<Rightarrow> json_object \<Rightarrow> json_object" where
  "obj_spread a b = fold (\<lambda>(k, v). AList.update k v) b a"

text \<open>\<open>[...new Set(xs)]\<close>: the first occurrences, in order.\<close>

definition js_unique :: "'a list \<Rightarrow> 'a list" where
  "js_unique xs = rev (remdups (rev xs))"

lemma set_js_unique [simp]: "set (js_unique xs) = set xs" "distinct (js_unique xs)"
  by (simp_all add: js_unique_def)

text \<open>\<open>new Date(text)\<close> on the strings \<open>toISOString\<close> writes, the only ones the context holds.\<close>


definition parse_iso :: "string \<Rightarrow> instant option" where
  "parse_iso s =
     (case (parse_date_key (take 10 s), drop 10 s) of
        (Some (y, m, d), [t, h1, h2, c1, m1, m2, c2, s1, s2, p, f1, f2, f3, z]) \<Rightarrow>
          if t = CHR ''T'' \<and> c1 = CHR '':'' \<and> c2 = CHR '':'' \<and> p = CHR ''.'' \<and> z = CHR ''Z'' \<and>
             civil_from_day (utc_day y m d) = (y, m, d) then
            (case (number_of [h1, h2] 0, number_of [m1, m2] 0, number_of [s1, s2] 0, number_of [f1, f2, f3] 0) of
               (Some hh, Some mm, Some ss, Some ms) \<Rightarrow>
                 if hh < 24 \<and> mm < 60 \<and> ss < 60
                 then Some (utc_day y m d * DAY_MS + hh * HOUR_MS + mm * MINUTE_MS + ss * 1000 + ms)
                 else None
             | _ \<Rightarrow> None)
          else None
      | _ \<Rightarrow> None)"

definition to_iso :: "instant \<Rightarrow> string" where
  "to_iso t =
     (let d = t div DAY_MS; r = t mod DAY_MS
      in iso_day d @ ''T'' @ dec_digits 2 (r div HOUR_MS) @ '':'' @ dec_digits 2 (r div MINUTE_MS mod 60) @ '':'' @
         dec_digits 2 (r div 1000 mod 60) @ ''.'' @ dec_digits 3 (r mod 1000) @ ''Z'')"

section \<open>Roles\<close>

definition LABELS :: "(string \<times> string) list" where
  "LABELS =
    [ (''accounts'', ''Accounts''), (''accounts_manager'', ''Accounts manager''), (''admin'', ''Admin''),
      (''cfo'', ''CFO''), (''director'', ''Director''), (''facilities'', ''Facilities''),
      (''facilities_manager'', ''Facilities manager''), (''user'', ''User'') ]"

definition normaliseRole :: "string option \<Rightarrow> string" where
  "normaliseRole role = (case role of Some r \<Rightarrow> js_lower (js_trim r) | None \<Rightarrow> '''')"

definition js_upper_char :: "char \<Rightarrow> char" where
  "js_upper_char c = (let n = (of_char c :: nat) in if 97 \<le> n \<and> n \<le> 122 then char_of (n - 32) else c)"

definition roleLabel :: "string option \<Rightarrow> string" where
  "roleLabel role =
     (let key = normaliseRole role
      in if key = '''' then ''Nobody''
         else case map_of LABELS key of
           Some known \<Rightarrow> known
         | None \<Rightarrow>
             (case map (\<lambda>c. if c = CHR ''_'' then CHR '' '' else c) key of
                [] \<Rightarrow> []
              | c # cs \<Rightarrow> js_upper_char c # cs))"

definition managerRoleFor :: "string option \<Rightarrow> string" where
  "managerRoleFor raiserRole =
     (let r = normaliseRole raiserRole
      in if r = ''facilities'' then ''facilities_manager''
         else if r = ''accounts'' then ''accounts_manager''
         else if r = ''facilities_manager'' \<or> r = ''accounts_manager'' then ''cfo''
         else ''director'')"

text \<open>\<open>None\<close> is everything.\<close>

definition teamRolesOf :: "string option \<Rightarrow> string list option" where
  "teamRolesOf role =
     (let r = normaliseRole role
      in if r = ''facilities_manager'' then Some [''facilities_manager'', ''facilities'']
         else if r = ''accounts_manager'' then Some [''accounts_manager'', ''accounts'']
         else if r = ''cfo'' then Some [''cfo'', ''accounts_manager'', ''facilities_manager'', ''accounts'', ''facilities'']
         else if r = ''director'' \<or> r = ''admin'' then None
         else Some [])"

fun team_union :: "string list \<Rightarrow> string list \<Rightarrow> string list option" where
  "team_union [] acc = Some acc"
| "team_union (role # roles) acc =
     (case teamRolesOf (Some role) of
        None \<Rightarrow> None
      | Some team \<Rightarrow> team_union roles (acc @ filter (\<lambda>r. r \<notin> set acc) team))"

definition teamRolesOfAll :: "string list \<Rightarrow> string list option" where
  "teamRolesOfAll roles = team_union roles []"

definition FINANCE_POLICY_PREFIX :: string where
  "FINANCE_POLICY_PREFIX = ''finance.''"

definition seenPolicyPrefixesOf :: "string option \<Rightarrow> string list" where
  "seenPolicyPrefixesOf role = (if normaliseRole role = ''cfo'' then [FINANCE_POLICY_PREFIX] else [])"

definition seenPolicyPrefixesOfAll :: "string list \<Rightarrow> string list" where
  "seenPolicyPrefixesOfAll roles = js_unique (concat (map (\<lambda>r. seenPolicyPrefixesOf (Some r)) roles))"

definition isAbove :: "string \<Rightarrow> string option \<Rightarrow> bool" where
  "isAbove viewerRole targetRole =
     (let target = normaliseRole targetRole
      in if target = '''' then False
         else case teamRolesOf (Some viewerRole) of
           None \<Rightarrow> True
         | Some team \<Rightarrow> normaliseRole (Some viewerRole) \<noteq> target \<and> target \<in> set team)"

section \<open>Rows, policies, people\<close>

datatype esc_kind = Attention | Authority

datatype esc_status = Open | Acknowledged | Resolved | Superseded | Withdrawn

definition LIVE_STATUSES :: "esc_status list" where
  "LIVE_STATUSES = [Open, Acknowledged]"

datatype notification_state = NotifyNone | NotifyPending | NotifySent | NotifyFailed

datatype auto_reescalate = AutoYes | AutoReminder | AutoNudge | AutoNo

datatype raised_by = ByUser | BySystem

datatype ladder_token = RaiserManager | AuthorityRoute

record ladder_entry =
  le_role :: "string option"
  le_token :: "ladder_token option"
  le_userTarget :: bool
  le_slaHours :: "js_number option"

record esc_policy =
  p_active :: bool
  p_autoReescalate :: auto_reescalate
  p_clock :: policy_clock
  p_kind :: esc_kind
  p_ladder :: "ladder_entry list"
  p_policyKey :: string
  p_updatedAt :: "instant option"
  p_updatedBy :: "string option"
  p_urgent :: bool

record esc_row =
  r_acknowledgedAt :: "instant option"
  r_acknowledgedByName :: "string option"
  r_acknowledgedByUserId :: "int option"
  r_buildingId :: "int option"
  r_context :: "json_object option"
  r_createdAt :: instant
  r_dueAt :: "instant option"
  r_escalationId :: int
  r_kind :: esc_kind
  r_lastFollowUpAt :: "instant option"
  r_lastNotificationAttemptAt :: "instant option"
  r_lastNotificationError :: "string option"
  r_lastNotifiedAt :: "instant option"
  r_level :: int
  r_noIndependentTarget :: bool
  r_note :: "string option"
  r_notificationAttempts :: int
  r_notificationState :: notification_state
  r_parentEscalationId :: "int option"
  r_policyKey :: string
  r_raisedByKind :: raised_by
  r_raisedByName :: string
  r_raisedByUserId :: "int option"
  r_reason :: "string option"
  r_resolutionCode :: "string option"
  r_resolutionNote :: "string option"
  r_resolvedAt :: "instant option"
  r_resolvedByName :: "string option"
  r_resolvedByUserId :: "int option"
  r_rowVersion :: nat
  r_status :: esc_status
  r_subjectId :: string
  r_subjectType :: string
  r_summary :: string
  r_targetRole :: "string option"
  r_targetUserId :: "int option"
  r_updatedAt :: instant
  r_urgent :: bool

record directory_user =
  du_email :: "string option"
  du_name :: string
  du_role :: string
  du_userId :: int

record viewer =
  v_name :: string
  v_roles :: "string list"
  v_userId :: "int option"

definition SUMMARY_MAX_CHARS :: nat where "SUMMARY_MAX_CHARS = 400"
definition NOTE_MAX_CHARS :: nat where "NOTE_MAX_CHARS = 2000"
definition SYSTEM_NAME :: string where "SYSTEM_NAME = ''Floorplan''"

definition MANUAL_RESOLUTION_CODES :: "string list" where
  "MANUAL_RESOLUTION_CODES = [''action_taken'', ''no_action_needed'', ''other'']"

datatype esc_error_code =
    AlreadyAcknowledged | AuthorityResolve | BadRequest | ConditionNotMet | Forbidden
  | NoFurtherLevel | NotFound | NotLive | PolicyInactive | ReasonRequired | Stale
  | SubjectNotFound | TargetNotEligible | UnknownPolicy | UnknownSubjectType

text \<open>What an operation may throw: the engine's own error, the database's unique-index violation, a
  range error of the clock, or whatever an adapter or the ledger throws.\<close>

datatype esc_error = Escalation esc_error_code | UniqueViolation | ClockError | OtherError string

definition error_status :: "esc_error_code \<Rightarrow> int" where
  "error_status code =
     (case code of
        AlreadyAcknowledged \<Rightarrow> 409 | AuthorityResolve \<Rightarrow> 422 | BadRequest \<Rightarrow> 400
      | ConditionNotMet \<Rightarrow> 422 | Forbidden \<Rightarrow> 403 | NoFurtherLevel \<Rightarrow> 422 | NotFound \<Rightarrow> 404
      | NotLive \<Rightarrow> 409 | PolicyInactive \<Rightarrow> 422 | ReasonRequired \<Rightarrow> 400 | Stale \<Rightarrow> 409
      | SubjectNotFound \<Rightarrow> 404 | TargetNotEligible \<Rightarrow> 422 | UnknownPolicy \<Rightarrow> 422
      | UnknownSubjectType \<Rightarrow> 422)"

definition isUniqueViolation :: "esc_error \<Rightarrow> bool" where
  "isUniqueViolation e \<longleftrightarrow> e = UniqueViolation"

section \<open>The context of a row\<close>

definition DECISION_PENDING_POLICY :: string where "DECISION_PENDING_POLICY = ''job.decision_pending''"
definition NEXT_STEP_POLICY :: string where "NEXT_STEP_POLICY = ''job.next_step''"

definition isDecisionRow :: "esc_row \<Rightarrow> bool" where
  "isDecisionRow row \<longleftrightarrow> r_policyKey row = DECISION_PENDING_POLICY"

definition isNextStepRow :: "esc_row \<Rightarrow> bool" where
  "isNextStepRow row \<longleftrightarrow> r_policyKey row = NEXT_STEP_POLICY"

fun asObject :: "json option \<Rightarrow> json_object option" where
  "asObject (Some (JObj obj)) = Some obj"
| "asObject _ = None"

fun asDate :: "json \<Rightarrow> instant option" where
  "asDate (JStr s) = parse_iso s"
| "asDate _ = None"

fun asText :: "json option \<Rightarrow> string option" where
  "asText (Some (JStr s)) = Some s"
| "asText _ = None"

fun asInteger :: "json \<Rightarrow> int option" where
  "asInteger (JNum n) = js_integer n"
| "asInteger _ = None"

fun asArray :: "json option \<Rightarrow> json list option" where
  "asArray (Some (JArr xs)) = Some xs"
| "asArray _ = None"

definition context_get :: "esc_row \<Rightarrow> string \<Rightarrow> json option" where
  "context_get row key = Option.bind (r_context row) (\<lambda>obj. obj_get obj key)"

definition remindersOf :: "esc_row \<Rightarrow> instant list" where
  "remindersOf row =
     (case Option.bind (asObject (context_get row ''schedule'')) (\<lambda>schedule. asArray (obj_get schedule ''remindAt'')) of
        None \<Rightarrow> []
      | Some list \<Rightarrow> sort (List.map_filter asDate list))"

definition askedOfIds :: "esc_row \<Rightarrow> int list" where
  "askedOfIds row =
     (case asArray (context_get row ''userTargets'') of
        None \<Rightarrow> []
      | Some list \<Rightarrow> js_unique (List.map_filter asInteger list))"

definition namedTargetIds :: "esc_row \<Rightarrow> int list" where
  "namedTargetIds row =
     (if r_noIndependentTarget row \<or> normaliseRole (r_targetRole row) \<noteq> '''' then [] else askedOfIds row)"

text \<open>The engine's \<open>contextNumbers\<close>: only whole numbers can name a person.\<close>

definition contextNumbers :: "json_object option \<Rightarrow> string \<Rightarrow> int list" where
  "contextNumbers ctx key =
     (case Option.bind ctx (\<lambda>obj. asArray (obj_get obj key)) of
        None \<Rightarrow> []
      | Some list \<Rightarrow> List.map_filter asInteger list)"

record ladder_raiser =
  lr_role :: string
  lr_userId :: "int option"

definition ladderOf :: "json_object option \<Rightarrow> ladder_raiser option" where
  "ladderOf ctx =
     (case asObject (Option.bind ctx (\<lambda>obj. obj_get obj ''ladder'')) of
        None \<Rightarrow> None
      | Some ladder \<Rightarrow>
          (case asText (obj_get ladder ''role'') of
             None \<Rightarrow> None
           | Some role \<Rightarrow>
               if normaliseRole (Some role) = '''' then None
               else Some \<lparr>lr_role = normaliseRole (Some role),
                      lr_userId = Option.bind (obj_get ladder ''userId'') asInteger\<rparr>))"

section \<open>Scheduled reminders\<close>

text \<open>\<open>dueReminder\<close> of \<open>src/escalation/reminders.ts\<close>: the latest scheduled time that has passed since the
  people were last told.\<close>

definition dueReminder :: "esc_row \<Rightarrow> instant \<Rightarrow> instant option" where
  "dueReminder row now =
     (if r_status row \<notin> set LIVE_STATUSES then None
      else if r_parentEscalationId row \<noteq> None then None
      else
        (let since = (case r_lastNotifiedAt row of Some t \<Rightarrow> t | None \<Rightarrow> r_createdAt row);
             due = filter (\<lambda>due_at. due_at > since \<and> due_at \<le> now) (remindersOf row)
         in if due = [] then None else Some (last due)))"

lemma normaliseRole_idem [simp]: "normaliseRole (Some (normaliseRole r)) = normaliseRole r"
  by (simp add: normaliseRole_def js_trim_lower split: option.splits)

lemma normaliseRole_Nil [simp]: "normaliseRole None = []" "normaliseRole (Some []) = []"
  by (simp_all add: normaliseRole_def)

lemma obj_get_spread: "obj_get (obj_spread a b) key = (case map_of (rev b) key of Some v \<Rightarrow> Some v | None \<Rightarrow> obj_get a key)"
proof (induction b arbitrary: a)
  case Nil
  then show ?case by (simp add: obj_spread_def)
next
  case (Cons kv b)
  obtain k v where kv: "kv = (k, v)" by force
  have "obj_get (obj_spread a (kv # b)) key = obj_get (obj_spread (AList.update k v a) b) key"
    by (simp add: obj_spread_def kv)
  also have "\<dots> = (case map_of (rev b) key of Some v \<Rightarrow> Some v | None \<Rightarrow> obj_get (AList.update k v a) key)"
    by (rule Cons.IH)
  finally show ?case
    by (auto simp: kv obj_get_def update_conv' map_add_def split: option.splits)
qed

end
