(* ===== verification/Escalation_Store.thy ===== *)
theory Escalation_Store
  imports Escalation_Types
begin

text \<open>
  The SQL side of the engine, \<open>src/escalation/store.ts\<close>, over an explicit database: the rows of
  \<open>dbo.Escalations\<close> in id order with the unique index on live rows (\<open>migrations/098_escalations.sql\<close>),
  the subjects' own flags (an opaque value the adapters keep), the decision ledger and the emails sent.
  A database call either returns or throws, and leaves a database: \<^verbatim>\<open>db => (error + value) * db\<close>.
\<close>

section \<open>The ledger's rows\<close>

datatype ledger_actor = UserActs (actor_name: string) (actor_role: string) (actor_id: "int option")
  | SystemActs (actor_name: string)

datatype ledger_action = LedgerRaise | LedgerAcknowledge | LedgerResolve | LedgerWithdraw | LedgerAutoResolve | LedgerSupersede

record snapshot =
  sn_dueAt :: "instant option"
  sn_kind :: esc_kind
  sn_level :: int
  sn_noIndependentTarget :: bool
  sn_parentEscalationId :: "int option"
  sn_policyKey :: string
  sn_status :: esc_status
  sn_subject :: "string \<times> string"
  sn_targetRole :: "string option"
  sn_targetUserId :: "int option"
  sn_urgent :: bool

datatype before_image = NoBefore | BeforeRow snapshot | BeforeParent int

record after_image =
  af_row :: snapshot
  af_resolutionCode :: "string option"
  af_supersededBy :: "int option"

record ledger_entry =
  lg_action :: ledger_action
  lg_actor :: ledger_actor
  lg_after :: after_image
  lg_before :: before_image
  lg_buildingId :: "int option"
  lg_computed :: "(bool \<times> nat list) option"
  lg_correlationId :: "string option"
  lg_jobId :: "int option"
  lg_reason :: "string option"
  lg_ruleApplied :: "string option"
  lg_subjectId :: int
  lg_tenantId :: "int option"

section \<open>The database\<close>

datatype mail_kind = MailRaise | MailReminder | MailSupersede | MailFollowUp | MailFyi | MailResolved

record mail =
  ml_to :: "string list"
  ml_kind :: mail_kind
  ml_row :: int

record 'f esc_db =
  db_rows :: "esc_row list"
  db_nextId :: int
  db_nextVersion :: nat
  db_clock :: instant
  db_flags :: 'f
  db_ledger :: "ledger_entry list"
  db_mail :: "mail list"

type_synonym ('f, 'a) act = "'f esc_db \<Rightarrow> (esc_error + 'a) \<times> 'f esc_db"

definition act_return :: "'a \<Rightarrow> ('f, 'a) act" where
  "act_return x db = (Inr x, db)"

definition act_fail :: "esc_error \<Rightarrow> ('f, 'a) act" where
  "act_fail e db = (Inl e, db)"

definition act_then :: "('f, 'a) act \<Rightarrow> ('a \<Rightarrow> ('f, 'b) act) \<Rightarrow> ('f, 'b) act" where
  "act_then m f db = (case m db of (Inl e, db') \<Rightarrow> (Inl e, db') | (Inr x, db') \<Rightarrow> f x db')"

definition act_lift :: "esc_error + 'a \<Rightarrow> ('f, 'a) act" where
  "act_lift r db = (r, db)"

definition act_read :: "('f esc_db \<Rightarrow> 'a) \<Rightarrow> ('f, 'a) act" where
  "act_read f db = (Inr (f db), db)"

text \<open>\<open>inTransaction\<close>: an error rolls everything back.\<close>

definition inTransaction :: "('f, 'a) act \<Rightarrow> ('f, 'a) act" where
  "inTransaction work db = (case work db of (Inl e, _) \<Rightarrow> (Inl e, db) | (Inr x, db') \<Rightarrow> (Inr x, db'))"

section \<open>Reads\<close>

definition is_live :: "esc_row \<Rightarrow> bool" where
  "is_live row \<longleftrightarrow> r_status row \<in> set LIVE_STATUSES"

definition subject_key :: "esc_row \<Rightarrow> string \<times> string \<times> string" where
  "subject_key row = (r_subjectType row, r_subjectId row, r_policyKey row)"

definition getEscalationRow :: "int \<Rightarrow> 'f esc_db \<Rightarrow> esc_row option" where
  "getEscalationRow i db = find (\<lambda>r. r_escalationId r = i) (db_rows db)"

definition findLiveEscalation :: "string \<Rightarrow> string \<Rightarrow> string \<Rightarrow> 'f esc_db \<Rightarrow> esc_row option" where
  "findLiveEscalation ty sid pk db = find (\<lambda>r. subject_key r = (ty, sid, pk) \<and> is_live r) (db_rows db)"

definition listLiveForSubject :: "string \<Rightarrow> string \<Rightarrow> 'f esc_db \<Rightarrow> esc_row list" where
  "listLiveForSubject ty sid db = filter (\<lambda>r. r_subjectType r = ty \<and> r_subjectId r = sid \<and> is_live r) (db_rows db)"

definition listLiveEscalations :: "'f esc_db \<Rightarrow> esc_row list" where
  "listLiveEscalations db = filter is_live (db_rows db)"

definition listChain :: "esc_row \<Rightarrow> 'f esc_db \<Rightarrow> esc_row list" where
  "listChain row db = rev (take 200 (rev (filter (\<lambda>r. subject_key r = subject_key row) (db_rows db))))"

section \<open>Writes\<close>

record new_escalation =
  n_buildingId :: "int option"
  n_context :: "json_object option"
  n_dueAt :: "instant option"
  n_kind :: esc_kind
  n_lastFollowUpAt :: "instant option"
  n_level :: int
  n_noIndependentTarget :: bool
  n_note :: "string option"
  n_notificationState :: notification_state
  n_parentEscalationId :: "int option"
  n_policyKey :: string
  n_raisedByKind :: raised_by
  n_raisedByName :: string
  n_raisedByUserId :: "int option"
  n_reason :: "string option"
  n_subjectId :: string
  n_subjectType :: string
  n_summary :: string
  n_targetRole :: "string option"
  n_targetUserId :: "int option"
  n_urgent :: bool

definition new_row :: "new_escalation \<Rightarrow> int \<Rightarrow> nat \<Rightarrow> instant \<Rightarrow> esc_row" where
  "new_row n i version now =
     \<lparr>r_acknowledgedAt = None, r_acknowledgedByName = None, r_acknowledgedByUserId = None,
      r_buildingId = n_buildingId n, r_context = n_context n, r_createdAt = now, r_dueAt = n_dueAt n,
      r_escalationId = i, r_kind = n_kind n, r_lastFollowUpAt = n_lastFollowUpAt n,
      r_lastNotificationAttemptAt = None, r_lastNotificationError = None, r_lastNotifiedAt = None,
      r_level = n_level n, r_noIndependentTarget = n_noIndependentTarget n, r_note = n_note n,
      r_notificationAttempts = 0, r_notificationState = n_notificationState n,
      r_parentEscalationId = n_parentEscalationId n, r_policyKey = n_policyKey n,
      r_raisedByKind = n_raisedByKind n, r_raisedByName = n_raisedByName n,
      r_raisedByUserId = n_raisedByUserId n, r_reason = n_reason n, r_resolutionCode = None,
      r_resolutionNote = None, r_resolvedAt = None, r_resolvedByName = None, r_resolvedByUserId = None,
      r_rowVersion = version, r_status = Open, r_subjectId = n_subjectId n, r_subjectType = n_subjectType n,
      r_summary = n_summary n, r_targetRole = n_targetRole n, r_targetUserId = n_targetUserId n,
      r_updatedAt = now, r_urgent = n_urgent n\<rparr>"

text \<open>The row goes in as open; the unique index refuses a second live row for its subject and policy.\<close>

definition insertEscalation :: "new_escalation \<Rightarrow> ('f, int) act" where
  "insertEscalation n db =
     (let row = new_row n (db_nextId db) (db_nextVersion db) (db_clock db)
      in if \<exists>r\<in>set (db_rows db). is_live r \<and> subject_key r = subject_key row then (Inl UniqueViolation, db)
         else (Inr (db_nextId db),
               db\<lparr>db_rows := db_rows db @ [row], db_nextId := db_nextId db + 1, db_nextVersion := db_nextVersion db + 1\<rparr>))"

datatype esc_change =
    SetAcknowledgedAt instant | SetAcknowledgedByName string | SetAcknowledgedByUserId "int option"
  | SetDueAt "instant option" | SetResolutionCode string | SetResolutionNote "string option" | SetResolvedAt instant
  | SetResolvedByName string | SetResolvedByUserId "int option" | SetStatus esc_status | SetTargetUserId "int option"

fun apply_change :: "esc_change \<Rightarrow> esc_row \<Rightarrow> esc_row" where
  "apply_change (SetAcknowledgedAt t) r = r\<lparr>r_acknowledgedAt := Some t\<rparr>"
| "apply_change (SetAcknowledgedByName s) r = r\<lparr>r_acknowledgedByName := Some s\<rparr>"
| "apply_change (SetAcknowledgedByUserId i) r = r\<lparr>r_acknowledgedByUserId := i\<rparr>"
| "apply_change (SetDueAt t) r = r\<lparr>r_dueAt := t\<rparr>"
| "apply_change (SetResolutionCode c) r = r\<lparr>r_resolutionCode := Some c\<rparr>"
| "apply_change (SetResolutionNote n) r = r\<lparr>r_resolutionNote := n\<rparr>"
| "apply_change (SetResolvedAt t) r = r\<lparr>r_resolvedAt := Some t\<rparr>"
| "apply_change (SetResolvedByName s) r = r\<lparr>r_resolvedByName := Some s\<rparr>"
| "apply_change (SetResolvedByUserId i) r = r\<lparr>r_resolvedByUserId := i\<rparr>"
| "apply_change (SetStatus st) r = r\<lparr>r_status := st\<rparr>"
| "apply_change (SetTargetUserId i) r = r\<lparr>r_targetUserId := i\<rparr>"

definition replace_row :: "int \<Rightarrow> esc_row \<Rightarrow> 'f esc_db \<Rightarrow> 'f esc_db" where
  "replace_row i row db =
     db\<lparr>db_rows := map (\<lambda>r. if r_escalationId r = i then row else r) (db_rows db),
        db_nextVersion := db_nextVersion db + 1\<rparr>"

definition changed_row :: "esc_change list \<Rightarrow> 'f esc_db \<Rightarrow> esc_row \<Rightarrow> esc_row" where
  "changed_row changes db row =
     (fold apply_change changes row)\<lparr>r_updatedAt := db_clock db, r_rowVersion := db_nextVersion db\<rparr>"

definition updateEscalation :: "int \<Rightarrow> nat \<Rightarrow> esc_change list \<Rightarrow> ('f, bool) act" where
  "updateEscalation i version changes db =
     (if changes = [] then (Inl (OtherError ''updateEscalation needs at least one change''), db)
      else case find (\<lambda>r. r_escalationId r = i \<and> r_rowVersion r = version) (db_rows db) of
        None \<Rightarrow> (Inr False, db)
      | Some row \<Rightarrow>
          (let row' = changed_row changes db row
           in if is_live row' \<and> (\<exists>r\<in>set (db_rows db). r_escalationId r \<noteq> i \<and> is_live r \<and> subject_key r = subject_key row')
              then (Inl UniqueViolation, db)
              else (Inr True, replace_row i row' db)))"

record notification_outcome =
  no_attemptedAt :: instant
  no_error :: "string option"
  no_notifiedAt :: "instant option"
  no_state :: notification_state

definition noted_row :: "notification_outcome \<Rightarrow> int \<Rightarrow> 'f esc_db \<Rightarrow> esc_row \<Rightarrow> esc_row" where
  "noted_row outcome attemptsMade db row =
     row\<lparr>r_notificationState := no_state outcome,
       r_notificationAttempts := r_notificationAttempts row + attemptsMade,
       r_lastNotificationError := map_option (take 500) (no_error outcome),
       r_lastNotificationAttemptAt := Some (no_attemptedAt outcome),
       r_lastNotifiedAt := (case no_notifiedAt outcome of Some t \<Rightarrow> Some t | None \<Rightarrow> r_lastNotifiedAt row),
       r_updatedAt := db_clock db, r_rowVersion := db_nextVersion db\<rparr>"

definition recordNotification :: "int \<Rightarrow> notification_outcome \<Rightarrow> int \<Rightarrow> 'f esc_db \<Rightarrow> 'f esc_db" where
  "recordNotification i outcome attemptsMade db =
     (case getEscalationRow i db of
        None \<Rightarrow> db
      | Some row \<Rightarrow> replace_row i (noted_row outcome attemptsMade db row) db)"

record escalation_times =
  lastCreatedAt :: instant
  lastEndedAt :: "instant option"

fun latest_option :: "instant option \<Rightarrow> instant option \<Rightarrow> instant option" where
  "latest_option None b = b"
| "latest_option a None = a"
| "latest_option (Some a) (Some b) = Some (max a b)"

text \<open>\<open>latestTimesBySubject\<close>, looked up: when a subject and policy were last raised and last ended.\<close>

definition latestTimesBySubject :: "string \<Rightarrow> 'f esc_db \<Rightarrow> string \<times> string \<Rightarrow> escalation_times option" where
  "latestTimesBySubject ty db key =
     (case filter (\<lambda>r. r_subjectType r = ty \<and> (r_subjectId r, r_policyKey r) = key) (db_rows db) of
        [] \<Rightarrow> None
      | r # rs \<Rightarrow>
          Some \<lparr>lastCreatedAt = foldl max (r_createdAt r) (map r_createdAt rs),
                lastEndedAt = foldl latest_option None (map r_resolvedAt (r # rs))\<rparr>)"

section \<open>Running actions\<close>

lemma act_simps [simp]:
  "act_return x db = (Inr x, db)" "act_fail e db = (Inl e, db)" "act_lift r db = (r, db)" "act_read f db = (Inr (f db), db)"
  by (simp_all add: act_return_def act_fail_def act_lift_def act_read_def)

lemma act_then_Inr: "act_then m f db = (Inr y, db'') \<longleftrightarrow> (\<exists>x db'. m db = (Inr x, db') \<and> f x db' = (Inr y, db''))"
  by (auto simp: act_then_def split: prod.splits sum.splits)

lemma act_then_run [simp]:
  "m db = (Inr x, db') \<Longrightarrow> act_then m f db = f x db'" "m db = (Inl e, db') \<Longrightarrow> act_then m f db = (Inl e, db')"
  by (simp_all add: act_then_def)

lemma inTransaction_Inr [simp]: "inTransaction work db = (Inr x, db') \<longleftrightarrow> work db = (Inr x, db')"
  by (auto simp: inTransaction_def split: prod.splits sum.splits)

lemma inTransaction_Inl: "inTransaction work db = (Inl e, db') \<Longrightarrow> db' = db"
  by (auto simp: inTransaction_def split: prod.splits sum.splits)

section \<open>Invariants of the database\<close>

text \<open>Ids and row versions are fresh, and a subject and policy have at most one live row.\<close>

definition ids_fresh :: "'f esc_db \<Rightarrow> bool" where
  "ids_fresh db \<longleftrightarrow>
     distinct (map r_escalationId (db_rows db)) \<and>
     (\<forall>r\<in>set (db_rows db). r_escalationId r < db_nextId db \<and> r_rowVersion r < db_nextVersion db)"

definition one_live :: "'f esc_db \<Rightarrow> bool" where
  "one_live db \<longleftrightarrow>
     (\<forall>r\<in>set (db_rows db). \<forall>s\<in>set (db_rows db).
        is_live r \<and> is_live s \<and> subject_key r = subject_key s \<longrightarrow> r_escalationId r = r_escalationId s)"

text \<open>A status only moves forward: open, acknowledged, closed.\<close>

fun forward :: "esc_status \<Rightarrow> esc_status \<Rightarrow> bool" where
  "forward Open st = True"
| "forward Acknowledged st = (st \<noteq> Open)"
| "forward st st' = (st' = st)"

text \<open>What a transition may never change on a row: all of it but the status, the deadline, the claim, the
  resolution and the bookkeeping of sends.\<close>

definition raised_part :: "esc_row \<Rightarrow> esc_row" where
  "raised_part r =
     r\<lparr>r_acknowledgedAt := None, r_acknowledgedByName := None, r_acknowledgedByUserId := None, r_dueAt := None,
       r_lastNotificationAttemptAt := None, r_lastNotificationError := None, r_lastNotifiedAt := None,
       r_notificationAttempts := 0, r_notificationState := NotifyNone, r_resolutionCode := None,
       r_resolutionNote := None, r_resolvedAt := None, r_resolvedByName := None, r_resolvedByUserId := None,
       r_rowVersion := 0, r_status := Open, r_targetUserId := None, r_updatedAt := 0\<rparr>"

text \<open>All of a row but the bookkeeping of sends.\<close>

definition decided_part :: "esc_row \<Rightarrow> esc_row" where
  "decided_part r =
     r\<lparr>r_lastNotificationAttemptAt := None, r_lastNotificationError := None, r_lastNotifiedAt := None,
       r_notificationAttempts := 0, r_notificationState := NotifyNone, r_rowVersion := 0, r_updatedAt := 0\<rparr>"

definition evolves :: "esc_row \<Rightarrow> esc_row \<Rightarrow> bool" where
  "evolves r r' \<longleftrightarrow> raised_part r' = raised_part r \<and> forward (r_status r) (r_status r') \<and>
     (\<not> is_live r \<longrightarrow> decided_part r' = decided_part r)"

definition history_kept :: "'f esc_db \<Rightarrow> 'f esc_db \<Rightarrow> bool" where
  "history_kept db0 db \<longleftrightarrow> ids_fresh db \<and> (\<forall>r\<in>set (db_rows db0). \<exists>r'\<in>set (db_rows db). evolves r r') \<and>
     (\<exists>more. db_ledger db = db_ledger db0 @ more)"

text \<open>A change the engine makes to a live row: it stays on its way forward.\<close>

definition moves_on :: "esc_row \<Rightarrow> esc_change list \<Rightarrow> bool" where
  "moves_on row changes \<longleftrightarrow> is_live row \<and>
     (r_status row = Open \<and> SetStatus Acknowledged \<in> set changes \<or>
      (\<exists>st\<in>{Resolved, Superseded, Withdrawn}. SetStatus st \<in> set changes)) \<and>
     length (filter (\<lambda>c. case c of SetStatus _ \<Rightarrow> True | _ \<Rightarrow> False) changes) = 1"

text \<open>The writes the engine is made of, and what it means for a property to survive them: the bookkeeping of
  sends, then the changes of rows, then new rows.\<close>

locale bookkeeping_invariant =
  fixes I :: "'f esc_db \<Rightarrow> bool"
  assumes notify_keeps: "I db \<Longrightarrow> I (recordNotification i outcome tries db)"
    and flags_keep: "I db \<Longrightarrow> I (db\<lparr>db_flags := f\<rparr>)"
    and mail_keeps: "I db \<Longrightarrow> I (db\<lparr>db_mail := mails\<rparr>)"

locale update_invariant = bookkeeping_invariant I for I :: "'f esc_db \<Rightarrow> bool" +
  assumes update_keeps: "I db \<Longrightarrow> getEscalationRow i db = Some row \<Longrightarrow> moves_on row changes \<Longrightarrow>
      updateEscalation i (r_rowVersion row) changes db = (Inr ok, db') \<Longrightarrow> I db'"
    and ledger_keeps: "I db \<Longrightarrow> I (db\<lparr>db_ledger := db_ledger db @ [e]\<rparr>)"

locale db_invariant = update_invariant I for I :: "'f esc_db \<Rightarrow> bool" +
  assumes insert_keeps: "I db \<Longrightarrow> insertEscalation n db = (Inr i, db') \<Longrightarrow> I db'"

section \<open>The database's own laws\<close>

lemma apply_change_identity [simp]:
  "raised_part (apply_change c r) = raised_part r" "r_escalationId (apply_change c r) = r_escalationId r"
  "subject_key (apply_change c r) = subject_key r" "r_rowVersion (apply_change c r) = r_rowVersion r"
  by (cases c; simp add: raised_part_def subject_key_def)+

lemma fold_change_identity [simp]:
  "raised_part (fold apply_change cs r) = raised_part r" "r_escalationId (fold apply_change cs r) = r_escalationId r"
  "subject_key (fold apply_change cs r) = subject_key r"
  by (induction cs arbitrary: r) simp_all

lemma changed_row_identity [simp]:
  "raised_part (changed_row cs db r) = raised_part r" "r_escalationId (changed_row cs db r) = r_escalationId r"
  "subject_key (changed_row cs db r) = subject_key r" "r_rowVersion (changed_row cs db r) = db_nextVersion db"
  "r_status (changed_row cs db r) = r_status (fold apply_change cs r)"
  "r_parentEscalationId (changed_row cs db r) = r_parentEscalationId r"
proof -
  have "raised_part (changed_row cs db r) = raised_part (fold apply_change cs r)"
    by (simp add: changed_row_def raised_part_def)
  then show rp: "raised_part (changed_row cs db r) = raised_part r" by simp
  show "r_escalationId (changed_row cs db r) = r_escalationId r" by (simp add: changed_row_def)
  show "r_rowVersion (changed_row cs db r) = db_nextVersion db" by (simp add: changed_row_def)
  show "r_status (changed_row cs db r) = r_status (fold apply_change cs r)" by (simp add: changed_row_def)
  have "subject_key (changed_row cs db r) = subject_key (fold apply_change cs r)"
    by (simp add: changed_row_def subject_key_def)
  then show "subject_key (changed_row cs db r) = subject_key r" by simp
  have "r_parentEscalationId (raised_part (changed_row cs db r)) = r_parentEscalationId (raised_part r)" by (simp only: rp)
  then show "r_parentEscalationId (changed_row cs db r) = r_parentEscalationId r" by (simp add: raised_part_def)
qed

lemma status_unchanged: "(\<forall>c\<in>set cs. \<forall>st. c \<noteq> SetStatus st) \<Longrightarrow> r_status (fold apply_change cs r) = r_status r"
proof (induction cs arbitrary: r)
  case (Cons c cs)
  have "r_status (apply_change c r) = r_status r" using Cons.prems by (cases c) auto
  with Cons show ?case by simp
qed simp

lemma status_after: "SetStatus st \<in> set cs \<Longrightarrow>
    length (filter (\<lambda>c. case c of SetStatus _ \<Rightarrow> True | _ \<Rightarrow> False) cs) = 1 \<Longrightarrow> r_status (fold apply_change cs r) = st"
proof (induction cs arbitrary: r)
  case (Cons c cs)
  show ?case
  proof (cases "\<exists>st'. c = SetStatus st'")
    case True
    then obtain st' where c: "c = SetStatus st'" by blast
    with Cons.prems(2) have "filter (\<lambda>c. case c of SetStatus _ \<Rightarrow> True | _ \<Rightarrow> False) cs = []" by simp
    then have none: "\<forall>c\<in>set cs. \<forall>st. c \<noteq> SetStatus st" by (force simp: filter_empty_conv)
    with Cons.prems(1) c have "st = st'" by auto
    with none c show ?thesis by (simp add: status_unchanged)
  next
    case False
    with Cons show ?thesis by (cases c) auto
  qed
qed simp

lemma moves_on_status:
  assumes "moves_on row changes"
  shows "forward (r_status row) (r_status (fold apply_change changes row))"
    "r_status row \<in> {Open, Acknowledged}"
proof -
  from assms have "r_status row \<in> {Open, Acknowledged}" by (simp add: moves_on_def is_live_def LIVE_STATUSES_def)
  then show "r_status row \<in> {Open, Acknowledged}" .
  with assms status_after [of _ changes row] show "forward (r_status row) (r_status (fold apply_change changes row))"
    by (auto simp: moves_on_def)
qed

lemma getEscalationRow_Some:
  "getEscalationRow i db = Some r \<Longrightarrow> r \<in> set (db_rows db) \<and> r_escalationId r = i"
  by (auto simp: getEscalationRow_def find_Some_iff)

lemma getEscalationRow_mem:
  assumes "ids_fresh db" "r \<in> set (db_rows db)"
  shows "getEscalationRow (r_escalationId r) db = Some r"
proof -
  obtain s where s: "getEscalationRow (r_escalationId r) db = Some s"
    using assms(2) by (cases "getEscalationRow (r_escalationId r) db") (auto simp: getEscalationRow_def find_None_iff)
  from getEscalationRow_Some [OF s] assms have "s = r" by (auto simp: ids_fresh_def distinct_map inj_on_def)
  with s show ?thesis by simp
qed

lemma set_replace_row:
  "set (db_rows (replace_row i row db)) =
     {r \<in> set (db_rows db). r_escalationId r \<noteq> i} \<union> (if \<exists>r\<in>set (db_rows db). r_escalationId r = i then {row} else {})"
  by (auto simp: replace_row_def)

lemma replace_row_ids: "r_escalationId row = i \<Longrightarrow>
    map r_escalationId (db_rows (replace_row i row db)) = map r_escalationId (db_rows db)"
  by (simp add: replace_row_def)

lemma replace_row_fresh:
  assumes "ids_fresh db" "getEscalationRow i db = Some old" "r_escalationId row = i" "r_rowVersion row = db_nextVersion db"
  shows "ids_fresh (replace_row i row db)"
  using assms(1,3,4) getEscalationRow_Some [OF assms(2)]
  by (auto simp: ids_fresh_def replace_row_ids set_replace_row less_Suc_eq) (auto simp: replace_row_def less_Suc_eq)

lemma updateEscalation_Inr:
  assumes "ids_fresh db" "getEscalationRow i db = Some row" "updateEscalation i (r_rowVersion row) changes db = (Inr ok, db')"
  shows "ok" "db' = replace_row i (changed_row changes db row) db"
    "is_live (changed_row changes db row) \<Longrightarrow>
       \<not> (\<exists>r\<in>set (db_rows db). r_escalationId r \<noteq> i \<and> is_live r \<and> subject_key r = subject_key row)"
proof -
  note m = getEscalationRow_Some [OF assms(2)]
  have "find (\<lambda>r. r_escalationId r = i \<and> r_rowVersion r = r_rowVersion row) (db_rows db) = Some row"
  proof -
    obtain s where s: "find (\<lambda>r. r_escalationId r = i \<and> r_rowVersion r = r_rowVersion row) (db_rows db) = Some s"
      using m by (cases "find (\<lambda>r. r_escalationId r = i \<and> r_rowVersion r = r_rowVersion row) (db_rows db)")
        (auto simp: find_None_iff)
    then have "s \<in> set (db_rows db)" "r_escalationId s = i" by (auto simp: find_Some_iff)
    with m assms(1) have "s = row" by (auto simp: ids_fresh_def distinct_map inj_on_def)
    with s show ?thesis by simp
  qed
  with assms(3) show "ok" "db' = replace_row i (changed_row changes db row) db"
    "is_live (changed_row changes db row) \<Longrightarrow>
       \<not> (\<exists>r\<in>set (db_rows db). r_escalationId r \<noteq> i \<and> is_live r \<and> subject_key r = subject_key row)"
    by (auto simp: updateEscalation_def Let_def split: if_splits)
qed

lemma insertEscalation_Inr:
  assumes "insertEscalation n db = (Inr i, db')"
  shows "i = db_nextId db" "db_rows db' = db_rows db @ [new_row n i (db_nextVersion db) (db_clock db)]"
    "db_nextId db' = db_nextId db + 1" "db_nextVersion db' = db_nextVersion db + 1"
    "db_ledger db' = db_ledger db" "db_flags db' = db_flags db" "db_clock db' = db_clock db"
    "\<not> (\<exists>r\<in>set (db_rows db). is_live r \<and> subject_key r = (n_subjectType n, n_subjectId n, n_policyKey n))"
  using assms by (auto simp: insertEscalation_def Let_def subject_key_def new_row_def split: if_splits)

lemma new_row_sel [simp]:
  "r_escalationId (new_row n i v t) = i" "r_rowVersion (new_row n i v t) = v" "r_status (new_row n i v t) = Open"
  "subject_key (new_row n i v t) = (n_subjectType n, n_subjectId n, n_policyKey n)"
  "is_live (new_row n i v t)" "r_parentEscalationId (new_row n i v t) = n_parentEscalationId n"
  "r_kind (new_row n i v t) = n_kind n" "r_level (new_row n i v t) = n_level n"
  by (simp_all add: new_row_def subject_key_def is_live_def LIVE_STATUSES_def)

lemma insert_fresh:
  assumes "ids_fresh db" "insertEscalation n db = (Inr i, db')"
  shows "ids_fresh db'"
  using assms(1) insertEscalation_Inr [OF assms(2)]
  by (auto simp: ids_fresh_def less_Suc_eq)

lemma noted_row_sel [simp]:
  "decided_part (noted_row outcome k db row) = decided_part row" "r_rowVersion (noted_row outcome k db row) = db_nextVersion db"
  "r_escalationId (noted_row outcome k db row) = r_escalationId row"
  by (simp_all add: noted_row_def decided_part_def)

lemma recordNotification_cases [case_names missing noted]:
  obtains "recordNotification i outcome k db = db"
  | row where "getEscalationRow i db = Some row"
      "recordNotification i outcome k db = replace_row i (noted_row outcome k db row) db"
  by (cases "getEscalationRow i db") (auto simp: recordNotification_def)

lemma decided_part_same:
  assumes "decided_part r' = decided_part r"
  shows "raised_part r' = raised_part r" "r_status r' = r_status r" "is_live r' = is_live r" "subject_key r' = subject_key r"
    "r_escalationId r' = r_escalationId r"
proof -
  have "raised_part (decided_part r') = raised_part (decided_part r)" by (simp only: assms)
  then show "raised_part r' = raised_part r" by (simp add: raised_part_def decided_part_def)
  have "r_status (decided_part r') = r_status (decided_part r)" by (simp only: assms)
  then show st: "r_status r' = r_status r" by (simp add: decided_part_def)
  then show "is_live r' = is_live r" by (simp add: is_live_def)
  have "subject_key (decided_part r') = subject_key (decided_part r)" by (simp only: assms)
  then show "subject_key r' = subject_key r" by (simp add: subject_key_def decided_part_def)
  have "r_escalationId (decided_part r') = r_escalationId (decided_part r)" by (simp only: assms)
  then show "r_escalationId r' = r_escalationId r" by (simp add: decided_part_def)
qed

lemma replace_row_other [simp]:
  "db_nextId (replace_row i row db) = db_nextId db" "db_ledger (replace_row i row db) = db_ledger db"
  "db_flags (replace_row i row db) = db_flags db" "db_clock (replace_row i row db) = db_clock db"
  by (simp_all add: replace_row_def)

lemma replaced_mem:
  assumes "ids_fresh db" "getEscalationRow i db = Some row" "r_escalationId row' = i"
  shows "row' \<in> set (db_rows (replace_row i row' db))"
    "s \<in> set (db_rows (replace_row i row' db)) \<Longrightarrow> s = row' \<or> s \<in> set (db_rows db) \<and> r_escalationId s \<noteq> i"
    "s \<in> set (db_rows db) \<Longrightarrow> s = row \<or> s \<in> set (db_rows (replace_row i row' db)) \<and> r_escalationId s \<noteq> i"
proof -
  note m = getEscalationRow_Some [OF assms(2)]
  show "row' \<in> set (db_rows (replace_row i row' db))" using m by (auto simp: set_replace_row)
  show "s \<in> set (db_rows (replace_row i row' db)) \<Longrightarrow> s = row' \<or> s \<in> set (db_rows db) \<and> r_escalationId s \<noteq> i"
    by (auto simp: set_replace_row split: if_splits)
  assume s: "s \<in> set (db_rows db)"
  show "s = row \<or> s \<in> set (db_rows (replace_row i row' db)) \<and> r_escalationId s \<noteq> i"
  proof (cases "r_escalationId s = i")
    case True
    with s m assms(1) have "s = row" by (auto simp: ids_fresh_def distinct_map inj_on_def)
    then show ?thesis ..
  next
    case False
    with s show ?thesis by (auto simp: set_replace_row)
  qed
qed

text \<open>An update, and a record of a send, replace one row by one that evolves from it.\<close>

lemma update_evolves:
  assumes "moves_on row changes"
  shows "evolves row (changed_row changes db row)"
  using moves_on_status [OF assms] assms by (auto simp: evolves_def moves_on_def)

lemma noted_evolves: "evolves row (noted_row outcome k db row)"
proof -
  have d: "decided_part (noted_row outcome k db row) = decided_part row" by simp
  from decided_part_same [OF d] have "forward (r_status row) (r_status (noted_row outcome k db row))"
    by (cases "r_status row") auto
  with decided_part_same [OF d] d show ?thesis by (simp add: evolves_def)
qed

lemma evolves_refl: "evolves r r"
  by (cases "r_status r") (simp_all add: evolves_def)

lemma evolves_trans: "evolves a b \<Longrightarrow> evolves b c \<Longrightarrow> evolves a c"
proof -
  assume ab: "evolves a b" and bc: "evolves b c"
  have "\<not> is_live a \<Longrightarrow> \<not> is_live b" using ab by (auto simp: evolves_def dest: decided_part_same(3))
  moreover have "forward (r_status a) (r_status c)"
    using ab bc by (cases "r_status a"; cases "r_status b"; cases "r_status c") (auto simp: evolves_def)
  ultimately show ?thesis using ab bc by (auto simp: evolves_def)
qed

lemma evolves_same:
  assumes "evolves r r'"
  shows "r_escalationId r' = r_escalationId r" "subject_key r' = subject_key r" "is_live r' \<Longrightarrow> is_live r"
proof -
  have "r_escalationId (raised_part r') = r_escalationId (raised_part r)"
    "subject_key (raised_part r') = subject_key (raised_part r)" using assms by (simp_all add: evolves_def)
  then show "r_escalationId r' = r_escalationId r" "subject_key r' = subject_key r"
    by (simp_all add: raised_part_def subject_key_def)
  show "is_live r' \<Longrightarrow> is_live r" using assms by (auto simp: evolves_def dest: decided_part_same(3))
qed

text \<open>Replacing a row by an evolved one keeps everything.\<close>

definition db_good :: "'f esc_db \<Rightarrow> bool" where
  "db_good db \<longleftrightarrow> ids_fresh db \<and> one_live db"

lemma replaced_origin:
  assumes "ids_fresh db" "getEscalationRow i db = Some row" "evolves row row'"
    and "x \<in> set (db_rows (replace_row i row' db))"
  obtains y where "y \<in> set (db_rows db)" "r_escalationId y = r_escalationId x" "subject_key y = subject_key x"
    "is_live x \<Longrightarrow> is_live y"
proof -
  note m = getEscalationRow_Some [OF assms(2)] and e = evolves_same [OF assms(3)]
  have i: "r_escalationId row' = i" using e(1) m by simp
  from replaced_mem(2) [OF assms(1,2) i assms(4)] consider "x = row'" | "x \<in> set (db_rows db)" by blast
  then show ?thesis
  proof cases
    case 1
    show ?thesis by (rule that [of row]) (use m e 1 in simp_all)
  next
    case 2
    show ?thesis by (rule that [of x]) (use 2 in simp_all)
  qed
qed

lemma replace_good:
  assumes "db_good db" "getEscalationRow i db = Some row" "evolves row row'" "r_rowVersion row' = db_nextVersion db"
  shows "db_good (replace_row i row' db)"
proof -
  note m = getEscalationRow_Some [OF assms(2)]
  have i: "r_escalationId row' = i" using evolves_same(1) [OF assms(3)] m by simp
  have f: "ids_fresh db" and o: "one_live db" using assms(1) by (simp_all add: db_good_def)
  have "one_live (replace_row i row' db)"
    unfolding one_live_def
  proof (intro ballI impI)
    fix r s assume rs: "r \<in> set (db_rows (replace_row i row' db))" "s \<in> set (db_rows (replace_row i row' db))"
      and l: "is_live r \<and> is_live s \<and> subject_key r = subject_key s"
    obtain r0 where r0: "r0 \<in> set (db_rows db)" "r_escalationId r0 = r_escalationId r" "subject_key r0 = subject_key r"
      "is_live r0" using replaced_origin [OF f assms(2,3) rs(1)] l by metis
    obtain s0 where s0: "s0 \<in> set (db_rows db)" "r_escalationId s0 = r_escalationId s" "subject_key s0 = subject_key s"
      "is_live s0" using replaced_origin [OF f assms(2,3) rs(2)] l by metis
    from o r0 s0 l show "r_escalationId r = r_escalationId s" unfolding one_live_def by metis
  qed
  with replace_row_fresh [OF f assms(2) i assms(4)] show ?thesis by (simp add: db_good_def)
qed

lemma replace_history:
  assumes "history_kept db0 db" "getEscalationRow i db = Some row" "evolves row row'" "r_rowVersion row' = db_nextVersion db"
  shows "history_kept db0 (replace_row i row' db)"
proof -
  note m = getEscalationRow_Some [OF assms(2)]
  have i: "r_escalationId row' = i" using evolves_same(1) [OF assms(3)] m by simp
  have f: "ids_fresh db" using assms(1) by (simp add: history_kept_def)
  have "\<exists>r'\<in>set (db_rows (replace_row i row' db)). evolves r r'" if r: "r \<in> set (db_rows db0)" for r
  proof -
    from r assms(1) obtain s where s: "s \<in> set (db_rows db)" "evolves r s" by (auto simp: history_kept_def)
    from replaced_mem(3) [OF f assms(2) i s(1)] show ?thesis
    proof (elim disjE)
      assume "s = row"
      with s(2) assms(3) have "evolves r row'" by (metis evolves_trans)
      with replaced_mem(1) [OF f assms(2) i] show ?thesis by blast
    qed (use s in blast)
  qed
  with replace_row_fresh [OF f assms(2) i assms(4)] assms(1) show ?thesis by (auto simp: history_kept_def)
qed

lemma notify_by_replacing:
  assumes "P db" "\<And>row. getEscalationRow i db = Some row \<Longrightarrow> P (replace_row i (noted_row outcome k db row) db)"
  shows "P (recordNotification i outcome k db)"
  using assms by (cases rule: recordNotification_cases [of i outcome k db]) auto

lemma good_fresh: "db_good db \<Longrightarrow> ids_fresh db"
  by (simp add: db_good_def)

lemma history_fresh: "history_kept db0 db \<Longrightarrow> ids_fresh db"
  by (simp add: history_kept_def)

lemma update_good:
  assumes "db_good db" "getEscalationRow i db = Some row" "moves_on row changes"
    "updateEscalation i (r_rowVersion row) changes db = (Inr ok, db')"
  shows "db_good db'"
  unfolding updateEscalation_Inr(2) [OF good_fresh [OF assms(1)] assms(2,4)]
  by (rule replace_good [OF assms(1,2) update_evolves [OF assms(3)]]) simp

lemma update_history:
  assumes "history_kept db0 db" "getEscalationRow i db = Some row" "moves_on row changes"
    "updateEscalation i (r_rowVersion row) changes db = (Inr ok, db')"
  shows "history_kept db0 db'"
  unfolding updateEscalation_Inr(2) [OF history_fresh [OF assms(1)] assms(2,4)]
  by (rule replace_history [OF assms(1,2) update_evolves [OF assms(3)]]) simp

lemma insert_good:
  assumes "db_good db" "insertEscalation n db = (Inr i, db')"
  shows "db_good db'"
proof -
  note ins = insertEscalation_Inr [OF assms(2)]
  let ?new = "new_row n i (db_nextVersion db) (db_clock db)"
  have f: "ids_fresh db'" by (rule insert_fresh [OF good_fresh [OF assms(1)] assms(2)])
  have "one_live db'"
    unfolding one_live_def
  proof (intro ballI impI)
    fix r s assume rs: "r \<in> set (db_rows db')" "s \<in> set (db_rows db')"
      and l: "is_live r \<and> is_live s \<and> subject_key r = subject_key s"
    have no: "x \<in> set (db_rows db) \<Longrightarrow> is_live x \<Longrightarrow> subject_key x \<noteq> subject_key ?new" for x using ins(8) by auto
    consider "r = ?new" "s = ?new" | "r = ?new" "s \<in> set (db_rows db)" | "r \<in> set (db_rows db)" "s = ?new"
      | "r \<in> set (db_rows db)" "s \<in> set (db_rows db)" using rs ins(2) by auto
    then show "r_escalationId r = r_escalationId s"
    proof cases
      case 4
      with l assms(1) show ?thesis unfolding db_good_def one_live_def by blast
    qed (use l no in metis)+
  qed
  with f show ?thesis by (simp add: db_good_def)
qed

lemma insert_history:
  assumes "history_kept db0 db" "insertEscalation n db = (Inr i, db')"
  shows "history_kept db0 db'"
proof -
  note ins = insertEscalation_Inr [OF assms(2)]
  have "ids_fresh db'" by (rule insert_fresh [OF history_fresh [OF assms(1)] assms(2)])
  with assms(1) ins(2,5) show ?thesis unfolding history_kept_def by fastforce
qed

lemma notify_good:
  assumes "db_good db"
  shows "db_good (recordNotification i outcome tries db)"
proof (rule notify_by_replacing [of "db_good", OF assms])
  fix row assume "getEscalationRow i db = Some row"
  with assms show "db_good (replace_row i (noted_row outcome tries db row) db)"
    by (rule replace_good [OF _ _ noted_evolves]) simp
qed

lemma notify_history:
  assumes "history_kept db0 db"
  shows "history_kept db0 (recordNotification i outcome tries db)"
proof (rule notify_by_replacing [of "history_kept db0", OF assms])
  fix row assume "getEscalationRow i db = Some row"
  with assms show "history_kept db0 (replace_row i (noted_row outcome tries db row) db)"
    by (rule replace_history [OF _ _ noted_evolves]) simp
qed

lemma good_same_rows:
  "db_rows db' = db_rows db \<Longrightarrow> db_nextId db' = db_nextId db \<Longrightarrow> db_nextVersion db' = db_nextVersion db \<Longrightarrow>
     db_good db' = db_good db"
  by (simp only: db_good_def ids_fresh_def one_live_def)

interpretation good: db_invariant db_good
proof
  fix db db' :: "'a esc_db" and n i row changes ok outcome tries f e mails
  assume g: "db_good db"
  show "insertEscalation n db = (Inr i, db') \<Longrightarrow> db_good db'"
    by (rule insert_good [OF g])
  show "getEscalationRow i db = Some row \<Longrightarrow> moves_on row changes \<Longrightarrow>
      updateEscalation i (r_rowVersion row) changes db = (Inr ok, db') \<Longrightarrow> db_good db'"
    by (rule update_good [OF g])
  show "db_good (recordNotification i outcome tries db)"
    by (rule notify_good [OF g])
  show "db_good (db\<lparr>db_flags := f\<rparr>)" "db_good (db\<lparr>db_ledger := db_ledger db @ [e]\<rparr>)" "db_good (db\<lparr>db_mail := mails\<rparr>)"
    using g good_same_rows [of "db\<lparr>db_flags := f\<rparr>" db] good_same_rows [of "db\<lparr>db_ledger := db_ledger db @ [e]\<rparr>" db]
      good_same_rows [of "db\<lparr>db_mail := mails\<rparr>" db]
    by simp_all
qed

interpretation history: db_invariant "history_kept db0" for db0 :: "'f esc_db"
proof
  fix db db' :: "'f esc_db" and n i row changes ok outcome tries f e mails
  assume g: "history_kept db0 db"
  show "insertEscalation n db = (Inr i, db') \<Longrightarrow> history_kept db0 db'"
    by (rule insert_history [OF g])
  show "getEscalationRow i db = Some row \<Longrightarrow> moves_on row changes \<Longrightarrow>
      updateEscalation i (r_rowVersion row) changes db = (Inr ok, db') \<Longrightarrow> history_kept db0 db'"
    by (rule update_history [OF g])
  show "history_kept db0 (recordNotification i outcome tries db)"
    by (rule notify_history [OF g])
  show "history_kept db0 (db\<lparr>db_flags := f\<rparr>)" "history_kept db0 (db\<lparr>db_ledger := db_ledger db @ [e]\<rparr>)"
    "history_kept db0 (db\<lparr>db_mail := mails\<rparr>)"
    using g by (auto simp: history_kept_def ids_fresh_def)
qed

text \<open>Only bookkeeping in between: the same rows but for the record of sends, the same ledger.\<close>

definition told_only :: "'f esc_db \<Rightarrow> 'f esc_db \<Rightarrow> bool" where
  "told_only db0 db \<longleftrightarrow> ids_fresh db \<and> map decided_part (db_rows db) = map decided_part (db_rows db0) \<and>
     db_ledger db = db_ledger db0 \<and> db_nextId db = db_nextId db0"

interpretation told: bookkeeping_invariant "told_only db0" for db0 :: "'f esc_db"
proof
  fix db :: "'f esc_db" and i outcome tries f mails
  assume g: "told_only db0 db"
  then have fresh: "ids_fresh db" by (simp add: told_only_def)
  show "told_only db0 (recordNotification i outcome tries db)"
  proof (rule notify_by_replacing [of "told_only db0", OF g])
    fix row assume row: "getEscalationRow i db = Some row"
    let ?db' = "replace_row i (noted_row outcome tries db row) db"
    note m = getEscalationRow_Some [OF row]
    have "ids_fresh ?db'" by (rule replace_row_fresh [OF fresh row]) (simp_all add: m)
    moreover have "map decided_part (db_rows ?db') = map decided_part (db_rows db)"
    proof -
      have "decided_part (if r_escalationId r = i then noted_row outcome tries db row else r) = decided_part r"
        if "r \<in> set (db_rows db)" for r
      proof (cases "r_escalationId r = i")
        case True
        with that m fresh have "r = row" by (auto simp: ids_fresh_def distinct_map inj_on_def)
        with True show ?thesis by simp
      qed simp
      then show ?thesis by (simp add: replace_row_def)
    qed
    ultimately show "told_only db0 ?db'" using g by (simp add: told_only_def)
  qed
  show "told_only db0 (db\<lparr>db_flags := f\<rparr>)" "told_only db0 (db\<lparr>db_mail := mails\<rparr>)"
    using g by (auto simp: told_only_def ids_fresh_def)
qed

lemma told_only_refl: "ids_fresh db \<Longrightarrow> told_only db db"
  by (simp add: told_only_def)

lemma told_only_lookup:
  assumes "told_only db0 db" "ids_fresh db0" "getEscalationRow i db0 = Some r0"
  obtains r where "getEscalationRow i db = Some r" "decided_part r = decided_part r0"
proof -
  have "decided_part r0 \<in> decided_part ` set (db_rows db0)" using getEscalationRow_Some [OF assms(3)] by blast
  also have "\<dots> = decided_part ` set (db_rows db)" using assms(1) by (metis list.set_map told_only_def)
  finally obtain r where r: "r \<in> set (db_rows db)" "decided_part r = decided_part r0" by auto
  have "r_escalationId r = i"
    using decided_part_same(5) [OF r(2)] getEscalationRow_Some [OF assms(3)] by simp
  with getEscalationRow_mem [OF _ r(1)] assms(1) r(2) that show ?thesis by (auto simp: told_only_def)
qed

text \<open>Changes but no new rows: the same ids.\<close>

definition same_ids :: "'f esc_db \<Rightarrow> 'f esc_db \<Rightarrow> bool" where
  "same_ids db0 db \<longleftrightarrow> ids_fresh db \<and> map r_escalationId (db_rows db) = map r_escalationId (db_rows db0)"

lemma same_ids_replace:
  assumes "same_ids db0 db" "getEscalationRow i db = Some row" "evolves row row'" "r_rowVersion row' = db_nextVersion db"
  shows "same_ids db0 (replace_row i row' db)"
proof -
  have i: "r_escalationId row' = i" using evolves_same(1) [OF assms(3)] getEscalationRow_Some [OF assms(2)] by simp
  have f: "ids_fresh db" using assms(1) by (simp add: same_ids_def)
  from replace_row_fresh [OF f assms(2) i assms(4)] replace_row_ids [OF i, of db] assms(1)
  show ?thesis by (simp add: same_ids_def)
qed

interpretation ids: update_invariant "same_ids db0" for db0 :: "'f esc_db"
proof
  fix db db' :: "'f esc_db" and i row changes ok outcome tries f e mails
  assume g: "same_ids db0 db"
  then have fresh: "ids_fresh db" by (simp add: same_ids_def)
  show "same_ids db0 (recordNotification i outcome tries db)"
    by (rule notify_by_replacing [of "same_ids db0", OF g]) (rule same_ids_replace [OF g _ noted_evolves], simp_all)
  show "same_ids db0 db'" if row: "getEscalationRow i db = Some row" and mv: "moves_on row changes"
    and u: "updateEscalation i (r_rowVersion row) changes db = (Inr ok, db')"
    unfolding updateEscalation_Inr(2) [OF fresh row u]
    by (rule same_ids_replace [OF g row update_evolves [OF mv]]) simp
  show "same_ids db0 (db\<lparr>db_flags := f\<rparr>)" "same_ids db0 (db\<lparr>db_ledger := db_ledger db @ [e]\<rparr>)"
    "same_ids db0 (db\<lparr>db_mail := mails\<rparr>)"
    using g by (auto simp: same_ids_def ids_fresh_def)
qed

lemma history_kept_refl: "ids_fresh db \<Longrightarrow> history_kept db db"
  using evolves_refl by (auto simp: history_kept_def)

end
