(* ===== verification/Ladder.thy ===== *)
theory Ladder
  imports Escalation_Types
begin

text \<open>
  Ladder resolution, \<open>src/escalation/ladder.ts\<close>: who an escalation goes to. The collation of names
  (\<open>localeCompare\<close>) is the host's, so it is a parameter \<open>collate\<close>; nothing shown here but the order of
  the people depends on it.
\<close>

datatype step_kind = StepRole | StepUser

record route_step =
  st_kind :: step_kind
  st_role :: "string option"
  st_userId :: "int option"

datatype ladder_error = EmptyLadder | LadderTargetNotEligible

datatype level_source = SrcRole | SrcRaiserManager | SrcAuthorityRoute | SrcUserTarget | SrcNoIndependentTarget

record expanded_level =
  xl_position :: nat
  xl_role :: "string option"
  xl_slaHours :: "js_number option"
  xl_source :: level_source
  xl_userIds :: "int list"

record expand_input =
  ei_authorityRoute :: "route_step list"
  ei_raiserRole :: "string option"
  ei_userTargets :: "int list"

definition slaOf :: "ladder_entry \<Rightarrow> js_number option" where
  "slaOf entry =
     (case le_slaHours entry of
        Some h \<Rightarrow> if js_finite h \<and> js_num_le (Num 0) h then Some h else None
      | None \<Rightarrow> None)"

text \<open>\<open>push\<close>: a level for the same role as the one before adds nothing.\<close>

definition push_level :: "expanded_level list \<Rightarrow> expanded_level \<Rightarrow> expanded_level list" where
  "push_level levels l =
     (if levels \<noteq> [] \<and> xl_role l \<noteq> None \<and> xl_role (last levels) = xl_role l then levels else levels @ [l])"

definition mk_level :: "string option \<Rightarrow> js_number option \<Rightarrow> level_source \<Rightarrow> int list \<Rightarrow> expanded_level" where
  "mk_level role sla source ids =
     \<lparr>xl_position = 0, xl_role = role, xl_slaHours = sla, xl_source = source, xl_userIds = ids\<rparr>"

definition route_level :: "js_number option \<Rightarrow> route_step \<Rightarrow> expanded_level list" where
  "route_level sla step =
     (if st_kind step = StepUser \<and> st_userId step \<noteq> None
      then [mk_level None sla SrcAuthorityRoute [the (st_userId step)]]
      else if st_kind step = StepRole \<and> normaliseRole (st_role step) \<noteq> ''''
      then [mk_level (Some (normaliseRole (st_role step))) sla SrcAuthorityRoute []]
      else [])"

definition entry_levels :: "expand_input \<Rightarrow> ladder_entry \<Rightarrow> expanded_level list" where
  "entry_levels inp entry =
     (let sla = slaOf entry
      in if le_token entry = Some AuthorityRoute then concat (map (route_level sla) (ei_authorityRoute inp))
         else if le_token entry = Some RaiserManager
         then [mk_level (Some (managerRoleFor (ei_raiserRole inp))) sla SrcRaiserManager []]
         else if le_userTarget entry
         then (if ei_userTargets inp \<noteq> [] then [mk_level None sla SrcUserTarget (ei_userTargets inp)] else [])
         else if normaliseRole (le_role entry) \<noteq> ''''
         then [mk_level (Some (normaliseRole (le_role entry))) sla SrcRole []]
         else [])"

definition number_levels :: "expanded_level list \<Rightarrow> expanded_level list" where
  "number_levels levels = map (\<lambda>(i, l). l\<lparr>xl_position := i + 1\<rparr>) (zip [0..<length levels] levels)"

definition expandLadder :: "ladder_entry list \<Rightarrow> expand_input \<Rightarrow> expanded_level list" where
  "expandLadder ladder inp =
     number_levels (foldl push_level [] (concat (map (entry_levels inp) ladder)))"

definition levelOfRole :: "ladder_entry list \<Rightarrow> string \<Rightarrow> expand_input \<Rightarrow> nat" where
  "levelOfRole ladder role inp =
     (let levels = expandLadder ladder inp; wanted = normaliseRole (Some role)
      in case find (\<lambda>l. xl_role l = Some wanted) levels of
           Some l \<Rightarrow> xl_position l
         | None \<Rightarrow> max 1 (length levels))"

record ladder_person =
  lp_email :: "string option"
  lp_role :: "string option"
  lp_userId :: "int option"

datatype on_no_target = AimDirectors | AimNone

record resolve_input =
  ri_activeUsers :: "directory_user list"
  ri_authorityRoute :: "route_step list"
  ri_excludeUserIds :: "int list"
  ri_fallbackEmails :: "string \<Rightarrow> string list"
  ri_fromLevel :: "nat option"
  ri_kind :: esc_kind
  ri_ladder :: "ladder_entry list"
  ri_namedKeepRaiser :: bool
  ri_onNoTarget :: on_no_target
  ri_preferredUserId :: "int option"
  ri_raiser :: "ladder_person option"
  ri_userTargets :: "int list"

record resolved_target =
  rt_fallbackEmails :: "string list"
  rt_hasNextLevel :: bool
  rt_level :: nat
  rt_levelCount :: nat
  rt_noIndependentTarget :: bool
  rt_role :: "string option"
  rt_skippedLevels :: "nat list"
  rt_slaHours :: "js_number option"
  rt_source :: level_source
  rt_targetUserId :: "int option"
  rt_users :: "directory_user list"

type_synonym collation = "string \<Rightarrow> string \<Rightarrow> rat"

definition byName :: "collation \<Rightarrow> directory_user \<Rightarrow> directory_user \<Rightarrow> rat" where
  "byName collate a b = or_else (collate (du_name a) (du_name b)) (of_int (du_userId a - du_userId b))"

definition sameAddress :: "string option \<Rightarrow> string option \<Rightarrow> bool" where
  "sameAddress a b =
     (let clean = (\<lambda>x. js_lower (js_trim (case x of Some s \<Rightarrow> s | None \<Rightarrow> '''')))
      in clean a \<noteq> '''' \<and> clean a = clean b)"

definition isLadderRaiser :: "resolve_input \<Rightarrow> directory_user \<Rightarrow> bool" where
  "isLadderRaiser inp user =
     (case ri_raiser inp of
        None \<Rightarrow> False
      | Some r \<Rightarrow> lp_userId r = Some (du_userId user) \<or> sameAddress (du_email user) (lp_email r))"

definition prepared_ids :: "resolve_input \<Rightarrow> int set" where
  "prepared_ids inp = (if ri_kind inp = Authority then set (ri_excludeUserIds inp) else {})"

definition ladder_eligible :: "resolve_input \<Rightarrow> level_source \<Rightarrow> directory_user \<Rightarrow> bool" where
  "ladder_eligible inp source user \<longleftrightarrow>
     du_userId user \<notin> prepared_ids inp \<and>
     (ri_namedKeepRaiser inp \<and> source = SrcUserTarget \<or> \<not> isLadderRaiser inp user)"

definition at_level :: "expanded_level \<Rightarrow> directory_user \<Rightarrow> bool" where
  "at_level l user =
     (case xl_role l of
        None \<Rightarrow> du_userId user \<in> set (xl_userIds l)
      | Some role \<Rightarrow> normaliseRole (Some (du_role user)) = role)"

definition level_users :: "collation \<Rightarrow> resolve_input \<Rightarrow> expanded_level \<Rightarrow> directory_user list" where
  "level_users collate inp l =
     sort_by (byName collate)
       (filter (ladder_eligible inp (xl_source l)) (filter (at_level l) (ri_activeUsers inp)))"

definition level_fallback :: "resolve_input \<Rightarrow> expanded_level \<Rightarrow> directory_user list \<Rightarrow> string list" where
  "level_fallback inp l users =
     (case xl_role l of
        Some role \<Rightarrow>
          if users = []
          then filter (\<lambda>address. \<not> sameAddress (Some address) (Option.bind (ri_raiser inp) lp_email)) (ri_fallbackEmails inp role)
          else []
      | None \<Rightarrow> [])"

definition reaches_nobody :: "collation \<Rightarrow> resolve_input \<Rightarrow> expanded_level \<Rightarrow> bool" where
  "reaches_nobody collate inp l \<longleftrightarrow>
     level_users collate inp l = [] \<and> level_fallback inp l (level_users collate inp l) = []"

text \<open>The target at a level somebody is reached on; \<open>count\<close> is the number of levels.\<close>

definition target_at ::
  "collation \<Rightarrow> resolve_input \<Rightarrow> nat \<Rightarrow> nat list \<Rightarrow> expanded_level \<Rightarrow> ladder_error + resolved_target" where
  "target_at collate inp count skipped l =
     (let users = level_users collate inp l;
          picked = (case ri_preferredUserId inp of
             Some p \<Rightarrow>
               if \<exists>u\<in>set users. du_userId u = p then Inr (Some p) else Inl LadderTargetNotEligible
           | None \<Rightarrow>
               if xl_role l = None \<and> length users = 1 then Inr (Some (du_userId (hd users))) else Inr None)
      in and_then picked (\<lambda>targetUserId.
           Inr \<lparr>rt_fallbackEmails = level_fallback inp l users,
             rt_hasNextLevel = xl_position l < count,
             rt_level = xl_position l,
             rt_levelCount = count,
             rt_noIndependentTarget = False,
             rt_role = (case xl_role l of
                Some r \<Rightarrow> Some r
              | None \<Rightarrow> if length users = 1 then Some (normaliseRole (Some (du_role (hd users)))) else None),
             rt_skippedLevels = skipped,
             rt_slaHours = xl_slaHours l,
             rt_source = xl_source l,
             rt_targetUserId = targetUserId,
             rt_users = users\<rparr>))"

text \<open>Rule 3: aim at the directors, who may include nobody but the raiser.\<close>

definition directors_of :: "collation \<Rightarrow> resolve_input \<Rightarrow> directory_user list" where
  "directors_of collate inp =
     sort_by (byName collate)
       (filter (ladder_eligible inp SrcRole)
          (filter (\<lambda>u. normaliseRole (Some (du_role u)) = ''director'') (ri_activeUsers inp)))"

definition directors_target ::
  "collation \<Rightarrow> resolve_input \<Rightarrow> expanded_level list \<Rightarrow> nat list \<Rightarrow> ladder_error + resolved_target option" where
  "directors_target collate inp levels skipped =
     (let top = last levels; directors = directors_of collate inp
      in if (case ri_preferredUserId inp of Some p \<Rightarrow> \<not> (\<exists>u\<in>set directors. du_userId u = p) | None \<Rightarrow> False)
         then Inl LadderTargetNotEligible
         else Inr (Some \<lparr>rt_fallbackEmails = [], rt_hasNextLevel = False, rt_level = xl_position top,
                rt_levelCount = length levels, rt_noIndependentTarget = True, rt_role = Some ''director'',
                rt_skippedLevels = skipped, rt_slaHours = xl_slaHours top, rt_source = SrcNoIndependentTarget,
                rt_targetUserId = ri_preferredUserId inp, rt_users = directors\<rparr>))"

fun resolve_levels ::
  "collation \<Rightarrow> resolve_input \<Rightarrow> nat \<Rightarrow> expanded_level list \<Rightarrow> expanded_level list \<Rightarrow> nat list \<Rightarrow>
     ladder_error + resolved_target option" where
  "resolve_levels collate inp from_level all [] skipped =
     (if ri_onNoTarget inp = AimNone then Inr None else directors_target collate inp all skipped)"
| "resolve_levels collate inp from_level all (l # ls) skipped =
     (if xl_position l < from_level then resolve_levels collate inp from_level all ls skipped
      else if reaches_nobody collate inp l
      then resolve_levels collate inp from_level all ls (skipped @ [xl_position l])
      else and_then (target_at collate inp (length all) skipped l) (\<lambda>t. Inr (Some t)))"

definition ladder_levels :: "resolve_input \<Rightarrow> expanded_level list" where
  "ladder_levels inp =
     expandLadder (ri_ladder inp) \<lparr>ei_authorityRoute = ri_authorityRoute inp,
       ei_raiserRole = Option.bind (ri_raiser inp) lp_role, ei_userTargets = ri_userTargets inp\<rparr>"

definition ri_from :: "resolve_input \<Rightarrow> nat" where
  "ri_from inp = max 1 (case ri_fromLevel inp of Some n \<Rightarrow> n | None \<Rightarrow> 1)"

definition resolveTarget :: "collation \<Rightarrow> resolve_input \<Rightarrow> ladder_error + resolved_target option" where
  "resolveTarget collate inp =
     (let levels = ladder_levels inp
      in if levels = [] then Inl EmptyLadder
         else resolve_levels collate inp (ri_from inp) levels levels [])"

section \<open>The expanded ladder\<close>

lemma length_number_levels [simp]: "length (number_levels ls) = length ls"
  by (simp add: number_levels_def)

lemma number_levels_nth:
  "i < length ls \<Longrightarrow> number_levels ls ! i = (ls ! i)\<lparr>xl_position := i + 1\<rparr>"
  by (simp add: number_levels_def)

definition role_change :: "expanded_level \<Rightarrow> expanded_level \<Rightarrow> bool" where
  "role_change a b \<longleftrightarrow> (xl_role b \<noteq> None \<longrightarrow> xl_role b \<noteq> xl_role a)"

lemma pushed_role_change: "successively role_change (foldl push_level [] ls)"
proof (induction ls rule: rev_induct)
  case (snoc l ls)
  then show ?case by (auto simp: push_level_def successively_append_iff role_change_def)
qed simp

lemma set_push_level: "set (push_level ls l) \<subseteq> insert l (set ls)"
  by (auto simp: push_level_def)

lemma set_pushed: "set (foldl push_level [] ls) \<subseteq> set ls"
proof (induction ls rule: rev_induct)
  case (snoc l ls)
  then show ?case using set_push_level [of "foldl push_level [] ls" l] by auto
qed simp

lemma expandLadder_position: "i < length (expandLadder ladder inp) \<Longrightarrow> xl_position (expandLadder ladder inp ! i) = i + 1"
  by (simp add: expandLadder_def number_levels_nth)

lemma expandLadder_no_repeat:
  assumes "Suc i < length (expandLadder ladder inp)" "xl_role (expandLadder ladder inp ! Suc i) = Some r"
  shows "xl_role (expandLadder ladder inp ! i) \<noteq> Some r"
  using assms pushed_role_change [of "concat (map (entry_levels inp) ladder)"]
  by (auto simp: expandLadder_def number_levels_nth successively_conv_nth role_change_def)

section \<open>Who is reached\<close>

lemma level_users_eligible:
  "u \<in> set (level_users collate inp l) \<longleftrightarrow>
     u \<in> set (ri_activeUsers inp) \<and> at_level l u \<and> ladder_eligible inp (xl_source l) u"
  by (auto simp: level_users_def)

lemma directors_of_eligible:
  "u \<in> set (directors_of collate inp) \<longleftrightarrow>
     u \<in> set (ri_activeUsers inp) \<and> normaliseRole (Some (du_role u)) = ''director'' \<and> ladder_eligible inp SrcRole u"
  by (auto simp: directors_of_def)

lemma target_at_Inr:
  assumes "target_at collate inp count skipped l = Inr t"
  shows "rt_users t = level_users collate inp l" "rt_level t = xl_position l" "rt_source t = xl_source l"
    "rt_skippedLevels t = skipped" "\<not> rt_noIndependentTarget t" "rt_slaHours t = xl_slaHours l"
    "rt_targetUserId t = Some p \<Longrightarrow> \<exists>u\<in>set (rt_users t). du_userId u = p"
    "rt_hasNextLevel t \<longleftrightarrow> xl_position l < count"
  using assms
  by (auto simp: target_at_def Let_def and_then_Inr_iff length_Suc_conv split: option.splits if_splits)

definition considered :: "nat \<Rightarrow> expanded_level list \<Rightarrow> expanded_level list" where
  "considered from_level levels = filter (\<lambda>l. from_level \<le> xl_position l) levels"

lemma considered_Cons:
  "considered from_level (l # ls) = (if from_level \<le> xl_position l then l # considered from_level ls else considered from_level ls)"
  by (simp add: considered_def)

lemma resolve_levels_cases:
  "resolve_levels collate inp from_level all ls skipped =
     (case dropWhile (reaches_nobody collate inp) (considered from_level ls) of
        [] \<Rightarrow> if ri_onNoTarget inp = AimNone then Inr None
             else directors_target collate inp all (skipped @ map xl_position (considered from_level ls))
      | l # _ \<Rightarrow>
          and_then (target_at collate inp (length all)
             (skipped @ map xl_position (takeWhile (reaches_nobody collate inp) (considered from_level ls))) l)
            (\<lambda>t. Inr (Some t)))"
proof (induction ls arbitrary: skipped)
  case Nil
  then show ?case by (simp add: considered_def)
next
  case (Cons l ls)
  consider "xl_position l < from_level" | "from_level \<le> xl_position l" "reaches_nobody collate inp l"
    | "from_level \<le> xl_position l" "\<not> reaches_nobody collate inp l" by linarith
  then show ?case
    by cases (simp_all add: considered_Cons Cons.IH del: dropWhile_eq_Nil_conv split: list.split)
qed

section \<open>What the engine relies on\<close>

lemma resolveTarget_Some:
  assumes "resolveTarget collate inp = Inr (Some t)"
  shows "(\<exists>before l after. considered (ri_from inp) (ladder_levels inp) = before @ l # after \<and>
       (\<forall>b\<in>set before. reaches_nobody collate inp b) \<and> \<not> reaches_nobody collate inp l \<and>
       target_at collate inp (length (ladder_levels inp)) (map xl_position before) l = Inr t) \<or>
    ri_onNoTarget inp = AimDirectors \<and> (\<forall>l\<in>set (considered (ri_from inp) (ladder_levels inp)). reaches_nobody collate inp l) \<and>
       directors_target collate inp (ladder_levels inp) (map xl_position (considered (ri_from inp) (ladder_levels inp))) = Inr (Some t)"
proof -
  let ?c = "considered (ri_from inp) (ladder_levels inp)"
  from assms have r: "resolve_levels collate inp (ri_from inp) (ladder_levels inp) (ladder_levels inp) [] = Inr (Some t)"
    by (auto simp: resolveTarget_def Let_def split: if_splits)
  show ?thesis
  proof (cases "dropWhile (reaches_nobody collate inp) ?c")
    case Nil
    with r have "directors_target collate inp (ladder_levels inp) (map xl_position ?c) = Inr (Some t)"
      "ri_onNoTarget inp \<noteq> AimNone"
      by (auto simp: resolve_levels_cases simp del: dropWhile_eq_Nil_conv split: if_splits)
    with Nil show ?thesis by (cases "ri_onNoTarget inp") (auto simp: dropWhile_eq_Nil_conv)
  next
    case (Cons l after)
    have "?c = takeWhile (reaches_nobody collate inp) ?c @ l # after"
      by (metis Cons takeWhile_dropWhile_id)
    moreover have "\<forall>b\<in>set (takeWhile (reaches_nobody collate inp) ?c). reaches_nobody collate inp b"
      by (auto dest: set_takeWhileD)
    moreover have "\<not> reaches_nobody collate inp l"
      using Cons by (metis hd_dropWhile list.distinct(1) list.sel(1))
    moreover have "target_at collate inp (length (ladder_levels inp))
        (map xl_position (takeWhile (reaches_nobody collate inp) ?c)) l = Inr t"
      using r Cons by (auto simp: resolve_levels_cases and_then_Inr_iff simp del: dropWhile_eq_Nil_conv)
    ultimately show ?thesis by blast
  qed
qed

lemma resolveTarget_users:
  assumes "resolveTarget collate inp = Inr (Some t)" "u \<in> set (rt_users t)"
  shows "u \<in> set (ri_activeUsers inp) \<and> (\<exists>source. ladder_eligible inp source u \<and> (source = rt_source t \<or> source = SrcRole))"
  using resolveTarget_Some [OF assms(1)]
proof (elim disjE exE conjE)
  fix before l after
  assume "target_at collate inp (length (ladder_levels inp)) (map xl_position before) l = Inr t"
  from target_at_Inr(1,3) [OF this] assms(2) show ?thesis by (auto simp: level_users_eligible)
next
  assume "directors_target collate inp (ladder_levels inp)
    (map xl_position (considered (ri_from inp) (ladder_levels inp))) = Inr (Some t)"
  then have "rt_users t = directors_of collate inp" by (auto simp: directors_target_def Let_def split: if_splits)
  with assms(2) show ?thesis by (auto simp: directors_of_eligible)
qed

text \<open>A caller that takes no for an answer is never sent below where it started, and never to the directors
  for want of anybody else.\<close>

lemma resolveTarget_level:
  assumes "resolveTarget collate inp = Inr (Some t)" "ri_onNoTarget inp = AimNone"
  shows "ri_from inp \<le> rt_level t \<and> \<not> rt_noIndependentTarget t"
  using resolveTarget_Some [OF assms(1)]
proof (elim disjE exE conjE)
  fix before l after
  assume c: "considered (ri_from inp) (ladder_levels inp) = before @ l # after"
    and t: "target_at collate inp (length (ladder_levels inp)) (map xl_position before) l = Inr t"
  have "l \<in> set (considered (ri_from inp) (ladder_levels inp))" using c by simp
  then have "ri_from inp \<le> xl_position l" by (simp add: considered_def)
  with target_at_Inr [OF t] show ?thesis by auto
qed (simp add: assms(2))

text \<open>A collation by code units, for runs of the model.\<close>

definition collate_units :: collation where
  "collate_units a b = (if a = b then 0 else if js_less a b then - 1 else 1)"

lemma byName_units: "byName collate_units a b \<le> 0 \<longleftrightarrow> js_less (du_name a) (du_name b) \<or> du_name a = du_name b \<and> du_userId a \<le> du_userId b"
  by (auto simp: byName_def or_else_def collate_units_def)

interpretation by_name: consistent_comparator "byName collate_units"
proof
  fix a b c :: directory_user
  show "byName collate_units a b \<le> 0 \<or> byName collate_units b a \<le> 0"
    using js_less_linear [of "du_name a" "du_name b"] by (auto simp: byName_units)
  assume "byName collate_units a b \<le> 0" "byName collate_units b c \<le> 0"
  then show "byName collate_units a c \<le> 0"
    by (auto simp: byName_units dest: js_less_trans)
qed

lemma level_users_in_name_order:
  "sorted_wrt (\<lambda>a b. byName collate_units a b \<le> 0) (level_users collate_units inp l)"
  unfolding level_users_def by (rule by_name.sorted_sort_by)

definition sample_people :: "directory_user list" where
  "sample_people =
    [ \<lparr>du_email = Some ''fm@x'', du_name = ''Fay'', du_role = ''facilities_manager'', du_userId = 1\<rparr>,
      \<lparr>du_email = Some ''cfo@x'', du_name = ''Cleo'', du_role = ''CFO'', du_userId = 2\<rparr>,
      \<lparr>du_email = Some ''d1@x'', du_name = ''Dee'', du_role = ''director'', du_userId = 3\<rparr>,
      \<lparr>du_email = Some ''d2@x'', du_name = ''Abe'', du_role = ''director'', du_userId = 4\<rparr> ]"

definition role_entry :: "string \<Rightarrow> rat \<Rightarrow> ladder_entry" where
  "role_entry r h = \<lparr>le_role = Some r, le_token = None, le_userTarget = False, le_slaHours = Some (Num h)\<rparr>"

definition sample_input :: "int option \<Rightarrow> resolve_input" where
  "sample_input picked =
     \<lparr>ri_activeUsers = sample_people, ri_authorityRoute = [], ri_excludeUserIds = [2], ri_fallbackEmails = (\<lambda>_. []),
      ri_fromLevel = None, ri_kind = Authority,
      ri_ladder = [role_entry ''facilities_manager'' 4, role_entry ''cfo'' 8, role_entry ''director'' 8],
      ri_namedKeepRaiser = False, ri_onNoTarget = AimDirectors, ri_preferredUserId = picked,
      ri_raiser = Some \<lparr>lp_email = Some ''FM@x '', lp_role = Some ''facilities_manager'', lp_userId = None\<rparr>,
      ri_userTargets = []\<rparr>"

definition sample_target :: resolved_target where
  "sample_target =
     \<lparr>rt_fallbackEmails = [], rt_hasNextLevel = False, rt_level = 3, rt_levelCount = 3, rt_noIndependentTarget = False,
      rt_role = Some ''director'', rt_skippedLevels = [1, 2], rt_slaHours = Some (Num 8), rt_source = SrcRole,
      rt_targetUserId = Some 4, rt_users = [sample_people ! 3, sample_people ! 2]\<rparr>"

lemma sample_resolves: "resolveTarget collate_units (sample_input (Some 4)) = Inr (Some sample_target)"
  by code_simp

text \<open>C21: Independence: every user an escalation is aimed at is an active one; nobody who prepared the subject
  of an authority escalation is among them; and the raiser (by id or by address) is not either, unless the
  caller asked a named level to keep the person its ladder is about. (The mailbox list that stands in for a role
  nobody holds is \<open>rt_fallbackEmails\<close>, and not about users.)\<close>

theorem ladder_independence:
  assumes "resolveTarget collate inp = Inr (Some t)" "u \<in> set (rt_users t)"
  shows "u \<in> set (ri_activeUsers inp) \<and>
    (ri_kind inp = Authority \<longrightarrow> du_userId u \<notin> set (ri_excludeUserIds inp)) \<and>
    (isLadderRaiser inp u \<longrightarrow> ri_namedKeepRaiser inp \<and> rt_source t = SrcUserTarget)"
  using resolveTarget_users [OF assms] by (auto simp: ladder_eligible_def prepared_ids_def)

theorem ladder_independence_witness:
  "sample_people ! 3 \<in> set (ri_activeUsers (sample_input (Some 4))) \<and>
   du_userId (sample_people ! 3) \<notin> set (ri_excludeUserIds (sample_input (Some 4))) \<and>
   \<not> isLadderRaiser (sample_input (Some 4)) (sample_people ! 3)"
proof -
  have "sample_people ! 3 \<in> set (rt_users sample_target)" by (simp add: sample_target_def)
  from ladder_independence [OF sample_resolves this] show ?thesis by (simp add: sample_input_def)
qed

text \<open>The target is the first level, from the starting one up, that reaches anybody: every level before it
  is empty once the raiser and the preparers are left out, those are the skipped levels on record, and the
  people and the SLA are that level's. Only when every level reaches nobody is it the directors, flagged.\<close>

theorem ladder_first_reachable:
  assumes "resolveTarget collate inp = Inr (Some t)"
  shows "if rt_noIndependentTarget t
    then (\<forall>l\<in>set (considered (ri_from inp) (ladder_levels inp)). reaches_nobody collate inp l) \<and>
      rt_role t = Some ''director'' \<and> rt_users t = directors_of collate inp \<and>
      rt_skippedLevels t = map xl_position (considered (ri_from inp) (ladder_levels inp))
    else (\<exists>before l after. considered (ri_from inp) (ladder_levels inp) = before @ l # after \<and>
      (\<forall>b\<in>set before. reaches_nobody collate inp b) \<and> \<not> reaches_nobody collate inp l \<and>
      rt_skippedLevels t = map xl_position before \<and> rt_level t = xl_position l \<and> ri_from inp \<le> rt_level t \<and>
      rt_users t = level_users collate inp l \<and> rt_slaHours t = xl_slaHours l)"
  using resolveTarget_Some [OF assms]
proof (elim disjE exE conjE)
  fix before l after
  assume c: "considered (ri_from inp) (ladder_levels inp) = before @ l # after"
    and b: "\<forall>b\<in>set before. reaches_nobody collate inp b" "\<not> reaches_nobody collate inp l"
    and t: "target_at collate inp (length (ladder_levels inp)) (map xl_position before) l = Inr t"
  have "l \<in> set (considered (ri_from inp) (ladder_levels inp))" using c by simp
  then have "ri_from inp \<le> xl_position l" by (simp add: considered_def)
  with c b target_at_Inr [OF t] show ?thesis by auto
next
  assume "directors_target collate inp (ladder_levels inp)
    (map xl_position (considered (ri_from inp) (ladder_levels inp))) = Inr (Some t)"
    and "\<forall>l\<in>set (considered (ri_from inp) (ladder_levels inp)). reaches_nobody collate inp l"
  then show ?thesis by (auto simp: directors_target_def Let_def split: if_splits)
qed

theorem ladder_first_reachable_witness:
  "\<exists>before l after. considered (ri_from (sample_input (Some 4))) (ladder_levels (sample_input (Some 4))) = before @ l # after \<and>
     rt_skippedLevels sample_target = map xl_position before \<and> rt_level sample_target = xl_position l"
proof -
  have "rt_noIndependentTarget sample_target = False" by (simp add: sample_target_def)
  with ladder_first_reachable [OF sample_resolves] show ?thesis by (simp only: if_False) blast
qed

text \<open>A fresh escalation is never left without a target: unless a person was picked, a ladder with a level
  always resolves, with nowhere to go reported only to a caller that asked for that and only when every
  level reaches nobody; the picked person must be at the level reached.\<close>

theorem ladder_total:
  assumes "ladder_levels inp \<noteq> []"
  shows "(ri_preferredUserId inp = None \<longrightarrow> (\<exists>r. resolveTarget collate inp = Inr r)) \<and>
    (resolveTarget collate inp = Inr None \<longleftrightarrow> ri_onNoTarget inp = AimNone \<and>
       (\<forall>l\<in>set (considered (ri_from inp) (ladder_levels inp)). reaches_nobody collate inp l)) \<and>
    (resolveTarget collate inp \<noteq> Inl EmptyLadder)"
proof -
  have d: "ri_preferredUserId inp = None \<Longrightarrow> \<exists>r. directors_target collate inp ls sk = Inr r" for ls sk
    by (simp add: directors_target_def Let_def)
  have dn: "directors_target collate inp ls sk \<noteq> Inr None \<and> directors_target collate inp ls sk \<noteq> Inl EmptyLadder" for ls sk
    by (simp add: directors_target_def Let_def)
  have tt: "ri_preferredUserId inp = None \<Longrightarrow> \<exists>r. target_at collate inp n sk l = Inr r" for n sk l
    by (auto simp: target_at_def Let_def)
  have tn: "target_at collate inp n sk l \<noteq> Inl EmptyLadder" for n sk l
    by (auto simp: target_at_def Let_def split: option.splits)
  have an: "and_then r (\<lambda>t. Inr (Some t)) = Inl EmptyLadder \<longleftrightarrow> r = Inl EmptyLadder" for r :: "ladder_error + resolved_target"
    by (cases r) auto
  have nobody: "(\<forall>l\<in>set c. reaches_nobody collate inp l) \<longleftrightarrow> dropWhile (reaches_nobody collate inp) c = []" for c
    by (auto simp: dropWhile_eq_Nil_conv)
  show ?thesis
    unfolding resolveTarget_def Let_def resolve_levels_cases nobody
    using assms d dn tt tn
    by (cases "ri_onNoTarget inp"; cases "dropWhile (reaches_nobody collate inp) (considered (ri_from inp) (ladder_levels inp))")
       (auto simp: and_then_Inr_iff an simp del: dropWhile_eq_Nil_conv)
qed

theorem ladder_total_witness:
  "\<exists>r. resolveTarget collate_units (sample_input None) = Inr r"
proof -
  have "ladder_levels (sample_input None) \<noteq> []" by code_simp
  moreover have "ri_preferredUserId (sample_input None) = None" by (simp add: sample_input_def)
  ultimately show ?thesis using ladder_total [of "sample_input None" collate_units] by blast
qed

end
