(* ===== verification/Notifier.thy ===== *)
theory Notifier
  imports Escalation_Store Ladder
begin

text \<open>
  Telling people, \<open>src/escalation/notifier.ts\<close>, with the environment the engine runs in: the adapter
  registry (\<open>adapters/registry.ts\<close>), the policies, the directory, the settings, and the outside world
  (mail, alert channels), all as functions of the record \<open>esc_env\<close>. The wording of the emails is not
  modelled; which email goes to whom, and what is recorded on the row, is.
\<close>

section \<open>The environment\<close>

record subject_summary =
  ss_buildingId :: "int option"
  ss_context :: json_object
  ss_summary :: string

record condition_ref =
  cr_policyKey :: string
  cr_subjectId :: string
  cr_subjectType :: string

record 'f adapter =
  ad_deepLink :: "string \<Rightarrow> esc_row option \<Rightarrow> string"
  ad_isConditionActive :: "condition_ref \<Rightarrow> instant \<Rightarrow> 'f esc_db \<Rightarrow> esc_error + bool"
  ad_ledgerScope :: "esc_row \<Rightarrow> int option \<times> int option"
  ad_loadSummary :: "string \<Rightarrow> 'f esc_db \<Rightarrow> esc_error + subject_summary option"
  ad_onChange :: "esc_row \<Rightarrow> 'f esc_db \<Rightarrow> esc_error + 'f"
  ad_visibleTo :: "viewer \<Rightarrow> condition_ref \<Rightarrow> bool"
  ad_withdrawable :: "esc_row \<Rightarrow> bool option"

datatype notify_event = FollowUp | Raised | Reminder | Supersede

record alert_channel =
  ch_reaches :: "directory_user \<Rightarrow> bool"
  ch_sends :: "directory_user \<Rightarrow> notify_event \<Rightarrow> esc_row \<Rightarrow> bool"

record 'f esc_env =
  env_adapters :: "string \<Rightarrow> 'f adapter option"
  env_policy :: "string \<Rightarrow> instant \<Rightarrow> esc_policy option"
  env_users :: "directory_user list"
  env_holidays :: holidays
  env_fallbackEmails :: "string \<Rightarrow> string list"
  env_collate :: collation
  env_ledgerFails :: "ledger_entry \<Rightarrow> esc_error option"
  env_uuid :: string
  env_missingConfig :: "string list"
  env_egress :: "esc_row \<Rightarrow> string + bool" \<comment> \<open>whether it is about a test record, or the lookup's error\<close>
  env_teamsOn :: bool
  env_mayAlert :: "directory_user \<Rightarrow> bool"
  env_channels :: "alert_channel list"
  env_override :: "string option"
  env_mailFails :: "nat \<Rightarrow> mail \<Rightarrow> string option" \<comment> \<open>the error of try number n\<close>
  env_recordFails :: "esc_row \<Rightarrow> bool" \<comment> \<open>the bookkeeping write of a send fails\<close>

definition getAdapter :: "'f esc_env \<Rightarrow> string \<Rightarrow> 'f adapter option" where
  "getAdapter env ty = env_adapters env ty"

definition requireAdapter :: "'f esc_env \<Rightarrow> string \<Rightarrow> esc_error + 'f adapter" where
  "requireAdapter env ty =
     (case env_adapters env ty of None \<Rightarrow> Inl (Escalation UnknownSubjectType) | Some a \<Rightarrow> Inr a)"

text \<open>\<open>onChange\<close> runs on the engine's connection and keeps the subject's flags.\<close>

definition run_onChange :: "'f adapter \<Rightarrow> esc_row \<Rightarrow> ('f, unit) act" where
  "run_onChange adapter row db =
     (case ad_onChange adapter row db of Inl e \<Rightarrow> (Inl e, db) | Inr f \<Rightarrow> (Inr (), db\<lparr>db_flags := f\<rparr>))"

section \<open>Who to tell\<close>

definition OVERSIGHT_ROLES :: "string list" where
  "OVERSIGHT_ROLES = [''director'', ''admin'']"

definition excludedUserIds :: "esc_row \<Rightarrow> int list" where
  "excludedUserIds row =
     contextNumbers (r_context row) ''excludeUserIds'' @
     (case ladderOf (r_context row) of
        None \<Rightarrow> (case r_raisedByUserId row of Some i \<Rightarrow> [i] | None \<Rightarrow> [])
      | Some ladder \<Rightarrow>
          (case lr_userId ladder of
             Some i \<Rightarrow> if r_targetUserId row \<noteq> Some i then [i] else []
           | None \<Rightarrow> []) @
          (case r_raisedByUserId row of Some i \<Rightarrow> if r_level row \<le> 1 then [i] else [] | None \<Rightarrow> []))"

definition targetUsers :: "esc_row \<Rightarrow> directory_user list \<Rightarrow> directory_user list" where
  "targetUsers row users =
     (let active = filter (\<lambda>u. du_userId u \<notin> set (excludedUserIds row)) users
      in if r_noIndependentTarget row
         then filter (\<lambda>u. normaliseRole (Some (du_role u)) \<in> set OVERSIGHT_ROLES) active
         else case r_targetUserId row of
           Some i \<Rightarrow> filter (\<lambda>u. du_userId u = i) active
         | None \<Rightarrow>
             (let named = namedTargetIds row
              in if named \<noteq> [] then filter (\<lambda>u. du_userId u \<in> set named) active
                 else
                   (let role = normaliseRole (r_targetRole row)
                    in if role = '''' then []
                       else filter (\<lambda>u. normaliseRole (Some (du_role u)) = role) active)))"

definition clean_address :: "string option \<Rightarrow> string option" where
  "clean_address a = (case a of Some s \<Rightarrow> if js_trim s = '''' then None else Some (js_trim s) | None \<Rightarrow> None)"

definition resolveRecipient :: "'f esc_env \<Rightarrow> string option \<Rightarrow> string option" where
  "resolveRecipient env address =
     (case clean_address (env_override env) of Some o' \<Rightarrow> Some o' | None \<Rightarrow> clean_address address)"

fun unique_addresses :: "string list \<Rightarrow> string list \<Rightarrow> string list" where
  "unique_addresses [] seen = []"
| "unique_addresses (a # as) seen =
     (if js_lower a \<in> set seen then unique_addresses as seen else a # unique_addresses as (js_lower a # seen))"

definition uniqueAddresses :: "'f esc_env \<Rightarrow> string option list \<Rightarrow> string list" where
  "uniqueAddresses env addresses = unique_addresses (List.map_filter (resolveRecipient env) addresses) []"

definition truthy :: "string option \<Rightarrow> bool" where
  "truthy s \<longleftrightarrow> s \<noteq> None \<and> s \<noteq> Some ''''"

definition targetAddresses :: "'f esc_env \<Rightarrow> esc_row \<Rightarrow> directory_user list \<Rightarrow> string list" where
  "targetAddresses env row users =
     (let found = map du_email (targetUsers row users)
      in if list_all (\<lambda>a. \<not> truthy a) found \<and> normaliseRole (r_targetRole row) = ''facilities_manager'' \<and> \<not> r_noIndependentTarget row
         then
           (let raiserEmail = Option.bind (find (\<lambda>u. Some (du_userId u) = r_raisedByUserId row) users) (map_option js_lower \<circ> du_email)
            in uniqueAddresses env
                 (map Some (filter (\<lambda>a. Some (js_lower a) \<noteq> raiserEmail) (env_fallbackEmails env ''facilities_manager''))))
         else uniqueAddresses env found)"

section \<open>Sending\<close>

record notify_options =
  nopt_attempts :: nat
  nopt_onlyFailures :: bool
  nopt_now :: instant

record notify_outcome =
  nout_attempts :: int
  nout_error :: "string option"
  nout_recipients :: "string list"
  nout_state :: notification_state

fun event_mail :: "notify_event \<Rightarrow> mail_kind" where
  "event_mail FollowUp = MailFollowUp"
| "event_mail Raised = MailRaise"
| "event_mail Reminder = MailReminder"
| "event_mail Supersede = MailSupersede"

definition isUrgentAlert :: "esc_row \<Rightarrow> bool" where
  "isUrgentAlert row \<longleftrightarrow>
     r_urgent row \<or> r_level row \<ge> 2 \<or> r_kind row = Authority \<and> normaliseRole (r_targetRole row) = ''director''"

definition isAlertEvent :: "notify_event \<Rightarrow> bool" where
  "isAlertEvent event \<longleftrightarrow> event \<in> {Raised, Reminder, Supersede}"

text \<open>Each channel that reaches a target is tried until one sends.\<close>

definition deliverUrgentAlerts :: "'f esc_env \<Rightarrow> directory_user list \<Rightarrow> notify_event \<Rightarrow> esc_row \<Rightarrow> int list" where
  "deliverUrgentAlerts env targets event row =
     map du_userId (filter (\<lambda>u. env_mayAlert env u \<and>
       list_ex (\<lambda>ch. ch_reaches ch u \<and> ch_sends ch u event row) (env_channels env)) targets)"

text \<open>\<open>sendWithRetry\<close> from try number \<open>attempt\<close> with \<open>left\<close> tries after it: the tries made and the last error.\<close>

fun send_tries :: "'f esc_env \<Rightarrow> mail \<Rightarrow> nat \<Rightarrow> nat \<Rightarrow> nat \<times> string option" where
  "send_tries env m try_no 0 = (try_no, env_mailFails env try_no m)"
| "send_tries env m try_no (Suc left) =
     (case env_mailFails env try_no m of
        None \<Rightarrow> (try_no, None)
      | Some _ \<Rightarrow> send_tries env m (try_no + 1) left)"

definition sendWithRetry :: "'f esc_env \<Rightarrow> mail \<Rightarrow> notify_options \<Rightarrow> nat \<times> string option" where
  "sendWithRetry env m opts =
     (case send_tries env m 1 (max 1 (nopt_attempts opts) - 1) of
        (tries, e) \<Rightarrow> (tries, map_option (take 500) e))"

definition log_mail :: "mail \<Rightarrow> 'f esc_db \<Rightarrow> 'f esc_db" where
  "log_mail m db = db\<lparr>db_mail := db_mail db @ [m]\<rparr>"

text \<open>Who was told by an alert, and the addresses the email then goes to.\<close>

definition alerted :: "'f esc_env \<Rightarrow> esc_row \<Rightarrow> notify_event \<Rightarrow> int list" where
  "alerted env row event =
     (if isAlertEvent event \<and> isUrgentAlert row \<and> getAdapter env (r_subjectType row) \<noteq> None \<and>
         r_notificationState row \<noteq> NotifyFailed \<and> env_teamsOn env
      then deliverUrgentAlerts env (targetUsers row (env_users env)) event row else [])"

definition emailed :: "'f esc_env \<Rightarrow> esc_row \<Rightarrow> int list \<Rightarrow> string list" where
  "emailed env row told =
     (if told \<noteq> []
      then uniqueAddresses env (map du_email (filter (\<lambda>u. du_userId u \<notin> set told) (targetUsers row (env_users env))))
      else targetAddresses env row (env_users env))"

fun comma_list :: "string list \<Rightarrow> string" where
  "comma_list [] = []"
| "comma_list [x] = x"
| "comma_list (x # xs) = x @ '', '' @ comma_list xs"

text \<open>What the send comes to; a mail that got through is logged.\<close>

definition send_outcome :: "'f esc_env \<Rightarrow> esc_row \<Rightarrow> notify_event \<Rightarrow> notify_options \<Rightarrow> 'f esc_db \<Rightarrow> notify_outcome \<times> 'f esc_db" where
  "send_outcome env row event opts db =
     (case env_egress env row of
        Inl e \<Rightarrow> (\<lparr>nout_attempts = 0, nout_error = Some (take 500 e), nout_recipients = [], nout_state = NotifyFailed\<rparr>, db)
      | Inr isTest \<Rightarrow>
          if isTest then (\<lparr>nout_attempts = 0, nout_error = Some ''Not sent: test record'', nout_recipients = [], nout_state = NotifyNone\<rparr>, db)
          else if env_missingConfig env \<noteq> []
          then (\<lparr>nout_attempts = 0, nout_error = Some (''Notification settings are missing: '' @ comma_list (env_missingConfig env)), nout_recipients = [], nout_state = NotifyPending\<rparr>, db)
          else
            (let told = alerted env row event;
                 recipients = emailed env row told
             in if recipients = []
                then (\<lparr>nout_attempts = 0, nout_error = (if told \<noteq> [] then None else Some ''No one with an email address is at this level''),
                       nout_recipients = [], nout_state = (if told \<noteq> [] then NotifySent else NotifyNone)\<rparr>, db)
                else
                  (let m = \<lparr>ml_to = recipients, ml_kind = event_mail event, ml_row = r_escalationId row\<rparr>
                   in case sendWithRetry env m opts of (tries, err) \<Rightarrow>
                        (\<lparr>nout_attempts = int tries, nout_error = err, nout_recipients = recipients,
                           nout_state = (if err = None then NotifySent else NotifyFailed)\<rparr>,
                         if err = None then log_mail m db else db))))"

text \<open>\<open>remember\<close>: the outcome on the row, then the subject's own flags once a send is on record. Errors
  are logged and swallowed.\<close>

definition remember :: "'f esc_env \<Rightarrow> esc_row \<Rightarrow> notify_outcome \<Rightarrow> notify_options \<Rightarrow> 'f esc_db \<Rightarrow> 'f esc_db" where
  "remember env row out opts db =
     (if env_recordFails env row then db
      else
        (let db1 = recordNotification (r_escalationId row)
               \<lparr>no_attemptedAt = nopt_now opts, no_error = nout_error out,
                no_notifiedAt = (if nout_state out = NotifySent then Some (nopt_now opts) else None),
                no_state = nout_state out\<rparr>
               (if nopt_onlyFailures opts \<and> nout_state out = NotifySent then 0 else nout_attempts out) db
         in if nout_state out \<noteq> NotifySent then db1
            else case getAdapter env (r_subjectType row) of
              None \<Rightarrow> db1
            | Some adapter \<Rightarrow> snd (run_onChange adapter row db1)))"

definition notifyTargets :: "'f esc_env \<Rightarrow> esc_row \<Rightarrow> notify_event \<Rightarrow> notify_options \<Rightarrow> 'f esc_db \<Rightarrow> notify_outcome \<times> 'f esc_db" where
  "notifyTargets env row event opts db =
     (case send_outcome env row event opts db of (out, db1) \<Rightarrow> (out, remember env row out opts db1))"

definition send_once :: "'f esc_env \<Rightarrow> mail \<Rightarrow> 'f esc_db \<Rightarrow> 'f esc_db" where
  "send_once env m db = (if env_mailFails env 1 m = None then log_mail m db else db)"

definition notifyPreviousLevel :: "'f esc_env \<Rightarrow> esc_row \<Rightarrow> esc_row \<Rightarrow> 'f esc_db \<Rightarrow> 'f esc_db" where
  "notifyPreviousLevel env previous next db =
     (if env_missingConfig env \<noteq> [] then db
      else
        (let already = map js_lower (targetAddresses env next (env_users env));
             recipients = filter (\<lambda>a. js_lower a \<notin> set already) (targetAddresses env previous (env_users env))
         in if recipients = [] \<or> env_egress env next \<noteq> Inr False then db
            else send_once env \<lparr>ml_to = recipients, ml_kind = MailFyi, ml_row = r_escalationId next\<rparr> db))"

definition notifyRaiserResolved :: "'f esc_env \<Rightarrow> esc_row \<Rightarrow> 'f esc_db \<Rightarrow> 'f esc_db" where
  "notifyRaiserResolved env row db =
     (if r_raisedByKind row \<noteq> ByUser \<or> r_raisedByUserId row = None then db
      else if r_resolvedByUserId row \<noteq> None \<and> r_resolvedByUserId row = r_raisedByUserId row then db
      else if env_missingConfig env \<noteq> [] then db
      else
        (let raiser = find (\<lambda>u. Some (du_userId u) = r_raisedByUserId row) (env_users env);
             recipients = uniqueAddresses env [Option.bind raiser du_email]
         in if recipients = [] \<or> env_egress env row \<noteq> Inr False then db
            else send_once env \<lparr>ml_to = recipients, ml_kind = MailResolved, ml_row = r_escalationId row\<rparr> db))"

section \<open>Retrying\<close>

definition MAX_NOTIFICATION_ATTEMPTS :: int where "MAX_NOTIFICATION_ATTEMPTS = 6"
definition RETRY_BASE_MS :: int where "RETRY_BASE_MS = 15 * 60000"
definition RETRY_MAX_MS :: int where "RETRY_MAX_MS = 8 * 60 * 60 * 1000"
definition PENDING_GRACE_MS :: int where "PENDING_GRACE_MS = 5 * 60000"

definition retryDelayMs :: "int \<Rightarrow> int" where
  "retryDelayMs tries = min RETRY_MAX_MS (RETRY_BASE_MS * 2 ^ nat (max 0 (tries - 1)))"

definition isRetryDue :: "esc_row \<Rightarrow> instant \<Rightarrow> bool" where
  "isRetryDue row now =
     (if r_status row \<noteq> Open then False
      else
        (let last = (case r_lastNotificationAttemptAt row of Some t \<Rightarrow> t | None \<Rightarrow> r_createdAt row)
         in case r_notificationState row of
              NotifyPending \<Rightarrow> now - last \<ge> PENDING_GRACE_MS
            | NotifyFailed \<Rightarrow> r_notificationAttempts row < MAX_NOTIFICATION_ATTEMPTS \<and>
                now - last \<ge> retryDelayMs (r_notificationAttempts row)
            | _ \<Rightarrow> False))"

definition eventForRetry :: "esc_row \<Rightarrow> notify_event" where
  "eventForRetry row = (if r_parentEscalationId row = None then Raised else Supersede)"

end
