(* ===== verification/Engine.thy ===== *)
theory Engine
  imports Notifier
begin

text \<open>
  The escalation engine, \<open>src/escalation/engine.ts\<close>: raise, acknowledge, resolve, withdraw, auto-resolve,
  conclude, escalate further, and the variants that run inside the domain's own transaction. Every
  operation is the handler's sequence of database calls; \<open>inTransaction\<close> restores the database on any
  error. Where an operation reads before its transaction begins, what other requests do in between is
  an argument (\<open>meanwhile\<close>), so races are part of the model.
\<close>

section \<open>Shared pieces\<close>

definition SWEEP_ACTOR :: ledger_actor where
  "SWEEP_ACTOR = SystemActs ''escalationSweepTimer''"

fun actorUserId :: "ledger_actor \<Rightarrow> int option" where
  "actorUserId (UserActs _ _ i) = i"
| "actorUserId (SystemActs _) = None"

fun actorName :: "ledger_actor \<Rightarrow> string" where
  "actorName (UserActs n _ _) = n"
| "actorName (SystemActs _) = SYSTEM_NAME"

fun actorKind :: "ledger_actor \<Rightarrow> raised_by" where
  "actorKind (UserActs _ _ _) = ByUser"
| "actorKind (SystemActs _) = BySystem"

definition lockRow :: "int \<Rightarrow> nat option \<Rightarrow> ('f, esc_row) act" where
  "lockRow i expected db =
     (case getEscalationRow i db of
        None \<Rightarrow> (Inl (Escalation NotFound), db)
      | Some row \<Rightarrow>
          if expected \<noteq> None \<and> expected \<noteq> Some (r_rowVersion row) then (Inl (Escalation Stale), db)
          else (Inr row, db))"

definition requireStatus :: "esc_row \<Rightarrow> esc_status list \<Rightarrow> ('f, unit) act" where
  "requireStatus row allowed = (if r_status row \<in> set allowed then act_return () else act_fail (Escalation NotLive))"

definition reload :: "int \<Rightarrow> ('f, esc_row) act" where
  "reload i db = (case getEscalationRow i db of None \<Rightarrow> (Inl (Escalation NotFound), db) | Some row \<Rightarrow> (Inr row, db))"

definition applyChanges :: "esc_row \<Rightarrow> esc_change list \<Rightarrow> ('f, unit) act" where
  "applyChanges locked changes =
     act_then (updateEscalation (r_escalationId locked) (r_rowVersion locked) changes)
       (\<lambda>ok. if ok then act_return () else act_fail (Escalation Stale))"

definition snapshot :: "esc_row \<Rightarrow> snapshot" where
  "snapshot row =
     \<lparr>sn_dueAt = r_dueAt row, sn_kind = r_kind row, sn_level = r_level row,
      sn_noIndependentTarget = r_noIndependentTarget row, sn_parentEscalationId = r_parentEscalationId row,
      sn_policyKey = r_policyKey row, sn_status = r_status row, sn_subject = (r_subjectType row, r_subjectId row),
      sn_targetRole = r_targetRole row, sn_targetUserId = r_targetUserId row, sn_urgent = r_urgent row\<rparr>"

text \<open>\<open>ledgerEntry\<close> with what every entry has; the extras are set by each operation.\<close>

definition ledgerEntry :: "ledger_action \<Rightarrow> ledger_actor \<Rightarrow> esc_row \<Rightarrow> 'f adapter \<Rightarrow> ledger_entry" where
  "ledgerEntry action actor row adapter =
     \<lparr>lg_action = action, lg_actor = actor,
      lg_after = \<lparr>af_row = snapshot row, af_resolutionCode = None, af_supersededBy = None\<rparr>,
      lg_before = NoBefore, lg_buildingId = r_buildingId row, lg_computed = None, lg_correlationId = None,
      lg_jobId = fst (ad_ledgerScope adapter row), lg_reason = None, lg_ruleApplied = None,
      lg_subjectId = r_escalationId row, lg_tenantId = snd (ad_ledgerScope adapter row)\<rparr>"

text \<open>\<open>record\<close> of \<open>src/ledger\<close>: the row is written or the call throws.\<close>

definition ledger_record :: "'f esc_env \<Rightarrow> ledger_entry \<Rightarrow> ('f, unit) act" where
  "ledger_record env e db =
     (case env_ledgerFails env e of
        Some err \<Rightarrow> (Inl err, db)
      | None \<Rightarrow> (Inr (), db\<lparr>db_ledger := db_ledger db @ [e]\<rparr>))"

definition trimNote :: "string option \<Rightarrow> esc_error + string option" where
  "trimNote value =
     (let text = (case value of Some v \<Rightarrow> js_trim v | None \<Rightarrow> '''')
      in if text = '''' then Inr None
         else if length text > NOTE_MAX_CHARS then Inl (Escalation BadRequest)
         else Inr (Some text))"

fun ladderFailure :: "ladder_error \<Rightarrow> esc_error" where
  "ladderFailure LadderTargetNotEligible = Escalation TargetNotEligible"
| "ladderFailure EmptyLadder = Escalation BadRequest"

definition map_error :: "('e \<Rightarrow> 'd) \<Rightarrow> 'e + 'a \<Rightarrow> 'd + 'a" where
  "map_error f r = (case r of Inl e \<Rightarrow> Inl (f e) | Inr x \<Rightarrow> Inr x)"

definition user_email :: "int option \<Rightarrow> directory_user list \<Rightarrow> string option" where
  "user_email i users = Option.bind (find (\<lambda>u. Some (du_userId u) = i) users) du_email"

fun raiserFor :: "ledger_actor \<Rightarrow> directory_user list \<Rightarrow> ladder_person option" where
  "raiserFor (UserActs _ role i) users = Some \<lparr>lp_email = user_email i users, lp_role = Some role, lp_userId = i\<rparr>"
| "raiserFor (SystemActs _) users = None"

definition ladderPerson :: "ladder_raiser \<Rightarrow> directory_user list \<Rightarrow> ladder_person" where
  "ladderPerson ladder users =
     \<lparr>lp_email = user_email (lr_userId ladder) users, lp_role = Some (lr_role ladder), lp_userId = lr_userId ladder\<rparr>"

definition raiserOf :: "esc_row \<Rightarrow> directory_user list \<Rightarrow> ladder_person option" where
  "raiserOf row users =
     (case ladderOf (r_context row) of
        Some ladder \<Rightarrow> Some (ladderPerson ladder users)
      | None \<Rightarrow>
          if r_raisedByKind row \<noteq> ByUser \<or> r_raisedByUserId row = None then None
          else
            (let person = find (\<lambda>u. Some (du_userId u) = r_raisedByUserId row) users
             in Some \<lparr>lp_email = Option.bind person du_email, lp_role = map_option du_role person,
                   lp_userId = r_raisedByUserId row\<rparr>))"

definition clock_result :: "time_error + 'a \<Rightarrow> esc_error + 'a" where
  "clock_result = map_error (\<lambda>_. ClockError)"

definition due_after :: "'f esc_env \<Rightarrow> esc_policy \<Rightarrow> instant \<Rightarrow> js_number option \<Rightarrow> esc_error + instant option" where
  "due_after env policy now sla =
     (case sla of
        None \<Rightarrow> Inr None
      | Some h \<Rightarrow> and_then (clock_result (addClockHours (p_clock policy) now h (env_holidays env))) (\<lambda>t. Inr (Some t)))"

section \<open>Raise\<close>

record raise_input =
  in_actor :: ledger_actor
  in_authorityRoute :: "route_step list"
  in_buildingId :: "int option option" \<comment> \<open>\<open>None\<close> when left out\<close>
  in_context :: json_object
  in_correlationId :: "string option"
  in_dueAt :: "instant option option" \<comment> \<open>\<open>None\<close> when left out\<close>
  in_excludeUserIds :: "int list"
  in_headline :: "string option"
  in_ladderRaiser :: "ladder_raiser option"
  in_note :: "string option"
  in_notify :: notify_options
  in_now :: instant
  in_policyKey :: string
  in_preferredUserId :: "int option"
  in_reason :: "string option"
  in_skipConditionCheck :: bool
  in_startAtRole :: "string option"
  in_subjectId :: string
  in_subjectType :: string
  in_summary :: "string option"
  in_urgent :: "bool option"
  in_userTargets :: "int list"

record raise_result =
  rr_created :: bool
  rr_escalation :: esc_row

text \<open>The source's separator is an em dash between spaces, which is outside the model's characters; a hyphen
  of the same length stands for it.\<close>

definition composeSummary :: "raise_input \<Rightarrow> string \<Rightarrow> string" where
  "composeSummary inp subjectSummary =
     take SUMMARY_MAX_CHARS
       (case in_summary inp of
          Some s \<Rightarrow> s
        | None \<Rightarrow> if truthy (in_headline inp) then subjectSummary @ '' - '' @ the (in_headline inp) else subjectSummary)"

definition num_json :: "int \<Rightarrow> json" where
  "num_json i = JNum (Num (of_int i))"

definition ladder_json :: "ladder_raiser \<Rightarrow> json" where
  "ladder_json l =
     JObj [(''role'', JStr (lr_role l)), (''userId'', case lr_userId l of Some i \<Rightarrow> num_json i | None \<Rightarrow> JNull)]"

definition raise_context :: "raise_input \<Rightarrow> ladder_raiser option \<Rightarrow> json_object \<Rightarrow> json_object" where
  "raise_context inp ladder ctx =
     obj_spread (obj_spread ctx (in_context inp))
       ((if in_excludeUserIds inp \<noteq> [] then [(''excludeUserIds'', JArr (map num_json (in_excludeUserIds inp)))] else []) @
        (if in_userTargets inp \<noteq> [] then [(''userTargets'', JArr (map num_json (in_userTargets inp)))] else []) @
        (case ladder of Some l \<Rightarrow> if lr_role l \<noteq> '''' then [(''ladder'', ladder_json l)] else [] | None \<Rightarrow> []))"

definition raise_ladder :: "raise_input \<Rightarrow> ladder_raiser option" where
  "raise_ladder inp =
     map_option (\<lambda>l. \<lparr>lr_role = normaliseRole (Some (lr_role l)), lr_userId = lr_userId l\<rparr>) (in_ladderRaiser inp)"

definition raise_raiser :: "'f esc_env \<Rightarrow> raise_input \<Rightarrow> ladder_person option" where
  "raise_raiser env inp =
     (case raise_ladder inp of
        Some l \<Rightarrow> Some (ladderPerson l (env_users env))
      | None \<Rightarrow> raiserFor (in_actor inp) (env_users env))"

definition raise_resolve_input :: "'f esc_env \<Rightarrow> esc_policy \<Rightarrow> raise_input \<Rightarrow> resolve_input" where
  "raise_resolve_input env policy inp =
     (let raiser = raise_raiser env inp
      in \<lparr>ri_activeUsers = env_users env, ri_authorityRoute = in_authorityRoute inp,
          ri_excludeUserIds = in_excludeUserIds inp, ri_fallbackEmails = env_fallbackEmails env,
          ri_fromLevel =
            (if truthy (in_startAtRole inp)
             then Some (levelOfRole (p_ladder policy) (the (in_startAtRole inp))
               \<lparr>ei_authorityRoute = in_authorityRoute inp, ei_raiserRole = Option.bind raiser lp_role,
                ei_userTargets = in_userTargets inp\<rparr>)
             else None),
          ri_kind = p_kind policy, ri_ladder = p_ladder policy, ri_namedKeepRaiser = raise_ladder inp \<noteq> None,
          ri_onNoTarget = AimDirectors, ri_preferredUserId = in_preferredUserId inp, ri_raiser = raiser,
          ri_userTargets = in_userTargets inp\<rparr>)"

definition raise_values ::
  "raise_input \<Rightarrow> esc_policy \<Rightarrow> subject_summary \<Rightarrow> resolved_target \<Rightarrow> instant option \<Rightarrow> string option \<Rightarrow> new_escalation" where
  "raise_values inp policy subject target due note_text =
     \<lparr>n_buildingId = (case in_buildingId inp of Some b \<Rightarrow> b | None \<Rightarrow> ss_buildingId subject),
      n_context = Some (raise_context inp (raise_ladder inp) (ss_context subject)),
      n_dueAt = due, n_kind = p_kind policy, n_lastFollowUpAt = None, n_level = int (rt_level target),
      n_noIndependentTarget = rt_noIndependentTarget target, n_note = note_text, n_notificationState = NotifyPending,
      n_parentEscalationId = None, n_policyKey = p_policyKey policy, n_raisedByKind = actorKind (in_actor inp),
      n_raisedByName = actorName (in_actor inp), n_raisedByUserId = actorUserId (in_actor inp),
      n_reason = in_reason inp, n_subjectId = in_subjectId inp, n_subjectType = in_subjectType inp,
      n_summary = composeSummary inp (ss_summary subject), n_targetRole = rt_role target,
      n_targetUserId = rt_targetUserId target,
      n_urgent = (case in_urgent inp of Some u \<Rightarrow> u | None \<Rightarrow> p_urgent policy)\<rparr>"

record 'f raise_plan =
  pl_adapter :: "'f adapter"
  pl_target :: resolved_target
  pl_values :: new_escalation

definition raise_due :: "'f esc_env \<Rightarrow> esc_policy \<Rightarrow> raise_input \<Rightarrow> resolved_target \<Rightarrow> esc_error + instant option" where
  "raise_due env policy inp target =
     (case in_dueAt inp of Some d \<Rightarrow> Inr d | None \<Rightarrow> due_after env policy (in_now inp) (rt_slaHours target))"

text \<open>The part of a raise's plan after the checks: the ladder, the deadline and the values of the row.\<close>

definition plan_target :: "'f esc_env \<Rightarrow> esc_policy \<Rightarrow> raise_input \<Rightarrow> esc_error + resolved_target" where
  "plan_target env policy inp =
     (case resolveTarget (env_collate env) (raise_resolve_input env policy inp) of
        Inl e \<Rightarrow> Inl (ladderFailure e)
      | Inr None \<Rightarrow> Inl (Escalation BadRequest)
      | Inr (Some t) \<Rightarrow> Inr t)"

definition plan_values ::
  "'f esc_env \<Rightarrow> esc_policy \<Rightarrow> raise_input \<Rightarrow> subject_summary \<Rightarrow> resolved_target \<Rightarrow> esc_error + new_escalation" where
  "plan_values env policy inp subject target =
     and_then (raise_due env policy inp target) (\<lambda>due.
       and_then (trimNote (in_note inp)) (\<lambda>text.
         Inr (raise_values inp policy subject target due text)))"

definition condition_of :: "raise_input \<Rightarrow> condition_ref" where
  "condition_of inp = \<lparr>cr_policyKey = in_policyKey inp, cr_subjectId = in_subjectId inp, cr_subjectType = in_subjectType inp\<rparr>"

text \<open>The checks: the policy is there and on, the subject exists, an attention condition holds.\<close>

definition raise_checks ::
  "'f esc_env \<Rightarrow> raise_input \<Rightarrow> 'f esc_db \<Rightarrow> esc_error + (esc_policy \<times> 'f adapter \<times> subject_summary)" where
  "raise_checks env inp db =
     (case env_policy env (in_policyKey inp) (in_now inp) of
        None \<Rightarrow> Inl (Escalation UnknownPolicy)
      | Some policy \<Rightarrow>
          if \<not> p_active policy then Inl (Escalation PolicyInactive)
          else and_then (requireAdapter env (in_subjectType inp)) (\<lambda>adapter.
            and_then (ad_loadSummary adapter (in_subjectId inp) db) (\<lambda>found.
              case found of
                None \<Rightarrow> Inl (Escalation SubjectNotFound)
              | Some subject \<Rightarrow>
                  if p_kind policy = Attention \<and> \<not> in_skipConditionCheck inp
                  then and_then (ad_isConditionActive adapter (condition_of inp) (in_now inp) db) (\<lambda>active.
                    if active then Inr (policy, adapter, subject) else Inl (Escalation ConditionNotMet))
                  else Inr (policy, adapter, subject))))"

definition planRaise :: "'f esc_env \<Rightarrow> raise_input \<Rightarrow> 'f esc_db \<Rightarrow> esc_error + (esc_row + 'f raise_plan)" where
  "planRaise env inp db =
     and_then (raise_checks env inp db) (\<lambda>(policy, adapter, subject).
       case findLiveEscalation (in_subjectType inp) (in_subjectId inp) (in_policyKey inp) db of
         Some existing \<Rightarrow> Inr (Inl existing)
       | None \<Rightarrow>
           and_then (plan_target env policy inp) (\<lambda>target.
             and_then (plan_values env policy inp subject target) (\<lambda>values.
               Inr (Inr \<lparr>pl_adapter = adapter, pl_target = target, pl_values = values\<rparr>))))"

definition raise_entry :: "raise_input \<Rightarrow> 'f raise_plan \<Rightarrow> esc_row \<Rightarrow> ledger_entry" where
  "raise_entry inp plan row =
     (let target = pl_target plan; flagged = rt_noIndependentTarget target
      in (ledgerEntry LedgerRaise (in_actor inp) row (pl_adapter plan))
         \<lparr>lg_computed := (if flagged \<or> rt_skippedLevels target \<noteq> [] then Some (flagged, rt_skippedLevels target) else None),
          lg_correlationId := in_correlationId inp, lg_reason := n_note (pl_values plan),
          lg_ruleApplied := Some (if flagged then ''no_independent_target'' else n_policyKey (pl_values plan))\<rparr>)"

definition writeRaise :: "'f esc_env \<Rightarrow> raise_input \<Rightarrow> 'f raise_plan \<Rightarrow> ('f, esc_row) act" where
  "writeRaise env inp plan =
     act_then (insertEscalation (pl_values plan)) (\<lambda>i.
     act_then (reload i) (\<lambda>inserted.
     act_then (run_onChange (pl_adapter plan) inserted) (\<lambda>_.
     act_then (ledger_record env (raise_entry inp plan inserted)) (\<lambda>_.
     act_return inserted))))"

definition announceRaise :: "'f esc_env \<Rightarrow> raise_input \<Rightarrow> esc_row \<Rightarrow> ('f, esc_row) act" where
  "announceRaise env inp row db = reload (r_escalationId row) (snd (notifyTargets env row Raised (in_notify inp) db))"

definition raise_escalation ::
  "'f esc_env \<Rightarrow> ('f esc_db \<Rightarrow> 'f esc_db) \<Rightarrow> raise_input \<Rightarrow> ('f, raise_result) act" where
  "raise_escalation env meanwhile inp db =
     (case planRaise env inp db of
        Inl e \<Rightarrow> (Inl e, db)
      | Inr (Inl existing) \<Rightarrow> (Inr \<lparr>rr_created = False, rr_escalation = existing\<rparr>, db)
      | Inr (Inr plan) \<Rightarrow>
          (case inTransaction (writeRaise env inp plan) (meanwhile db) of
             (Inr row, db') \<Rightarrow>
               act_then (announceRaise env inp row)
                 (\<lambda>after. act_return \<lparr>rr_created = True, rr_escalation = after\<rparr>) db'
           | (Inl e, db') \<Rightarrow>
               if isUniqueViolation e then
                 (case findLiveEscalation (in_subjectType inp) (in_subjectId inp) (in_policyKey inp) db' of
                    Some winner \<Rightarrow> (Inr \<lparr>rr_created = False, rr_escalation = winner\<rparr>, db')
                  | None \<Rightarrow> (Inl e, db'))
               else (Inl e, db')))"

text \<open>\<open>raiseWithin\<close>: on the caller's open transaction; announcing is a separate call after its commit.\<close>

definition raiseWithin :: "'f esc_env \<Rightarrow> raise_input \<Rightarrow> ('f, raise_result) act" where
  "raiseWithin env inp db =
     (case planRaise env inp db of
        Inl e \<Rightarrow> (Inl e, db)
      | Inr (Inl existing) \<Rightarrow> (Inr \<lparr>rr_created = False, rr_escalation = existing\<rparr>, db)
      | Inr (Inr plan) \<Rightarrow>
          act_then (writeRaise env inp plan)
            (\<lambda>row. act_return \<lparr>rr_created = True, rr_escalation = row\<rparr>) db)"

section \<open>Acknowledge\<close>

record acknowledge_input =
  ak_actor :: ledger_actor
  ak_escalationId :: int
  ak_expectedRowVersion :: "nat option"
  ak_now :: instant

definition or_else_option :: "'a option \<Rightarrow> 'a option \<Rightarrow> 'a option" where
  "or_else_option a b = (case a of Some x \<Rightarrow> Some x | None \<Rightarrow> b)"

text \<open>The writes every transition shares: the change under the lock, the subject's flags, the ledger row.\<close>

definition transition ::
  "'f esc_env \<Rightarrow> 'f adapter \<Rightarrow> esc_row \<Rightarrow> esc_change list \<Rightarrow> (esc_row \<Rightarrow> ledger_entry) \<Rightarrow> ('f, esc_row) act" where
  "transition env adapter row changes entry =
     act_then (applyChanges row changes) (\<lambda>_.
     act_then (reload (r_escalationId row)) (\<lambda>updated.
     act_then (run_onChange adapter updated) (\<lambda>_.
     act_then (ledger_record env (entry updated)) (\<lambda>_.
     act_return updated))))"

definition acknowledge_work :: "'f esc_env \<Rightarrow> acknowledge_input \<Rightarrow> ('f, unit) act" where
  "acknowledge_work env inp =
     act_then (lockRow (ak_escalationId inp) (ak_expectedRowVersion inp)) (\<lambda>row.
       if r_status row = Acknowledged then
         (if r_acknowledgedByUserId row \<noteq> None \<and> r_acknowledgedByUserId row = actorUserId (ak_actor inp)
          then act_return () else act_fail (Escalation AlreadyAcknowledged))
       else
         act_then (requireStatus row [Open]) (\<lambda>_.
           if isDecisionRow row \<or> isNextStepRow row then act_fail (Escalation BadRequest)
           else
             act_then (act_lift (requireAdapter env (r_subjectType row))) (\<lambda>adapter.
             act_then (transition env adapter row
                 [SetAcknowledgedAt (ak_now inp), SetAcknowledgedByName (actorName (ak_actor inp)),
                  SetAcknowledgedByUserId (actorUserId (ak_actor inp)), SetStatus Acknowledged,
                  SetTargetUserId (or_else_option (actorUserId (ak_actor inp)) (r_targetUserId row))]
                 (\<lambda>updated. (ledgerEntry LedgerAcknowledge (ak_actor inp) updated adapter)
                    \<lparr>lg_before := BeforeRow (snapshot row)\<rparr>))
               (\<lambda>_. act_return ()))))"

definition acknowledge :: "'f esc_env \<Rightarrow> acknowledge_input \<Rightarrow> ('f, esc_row) act" where
  "acknowledge env inp = act_then (inTransaction (acknowledge_work env inp)) (\<lambda>_. reload (ak_escalationId inp))"

section \<open>Resolve\<close>

record end_input =
  ed_actor :: ledger_actor
  ed_code :: "string option"
  ed_correlationId :: "string option"
  ed_escalationId :: int
  ed_expectedRowVersion :: "nat option"
  ed_note :: "string option"
  ed_now :: instant

text \<open>The columns every ending sets.\<close>

definition ending :: "ledger_actor \<Rightarrow> string \<Rightarrow> string option \<Rightarrow> instant \<Rightarrow> esc_status \<Rightarrow> esc_change list" where
  "ending actor code text now st =
     [SetResolutionCode code, SetResolutionNote text, SetResolvedAt now, SetResolvedByName (actorName actor),
      SetResolvedByUserId (actorUserId actor), SetStatus st]"

definition end_entry ::
  "ledger_action \<Rightarrow> ledger_actor \<Rightarrow> 'f adapter \<Rightarrow> esc_row \<Rightarrow> string \<Rightarrow> string option \<Rightarrow> string option \<Rightarrow> string option \<Rightarrow>
     esc_row \<Rightarrow> ledger_entry" where
  "end_entry action actor adapter row code rule why correlation updated =
     (ledgerEntry action actor updated adapter)
       \<lparr>lg_after := \<lparr>af_row = snapshot updated, af_resolutionCode = Some code, af_supersededBy = None\<rparr>,
        lg_before := BeforeRow (snapshot row), lg_reason := why, lg_ruleApplied := rule,
        lg_correlationId := correlation\<rparr>"

definition resolve_work :: "'f esc_env \<Rightarrow> end_input \<Rightarrow> string \<Rightarrow> string option \<Rightarrow> ('f, unit) act" where
  "resolve_work env inp code text =
     act_then (lockRow (ed_escalationId inp) (ed_expectedRowVersion inp)) (\<lambda>row.
     act_then (requireStatus row LIVE_STATUSES) (\<lambda>_.
     act_then (act_lift (requireAdapter env (r_subjectType row))) (\<lambda>adapter.
       if isNextStepRow row \<or> r_kind row = Authority then act_fail (Escalation AuthorityResolve)
       else
         act_then (transition env adapter row
             ((if r_acknowledgedAt row = None
               then [SetAcknowledgedAt (ed_now inp), SetAcknowledgedByName (actorName (ed_actor inp)),
                     SetAcknowledgedByUserId (actorUserId (ed_actor inp)),
                     SetTargetUserId (or_else_option (actorUserId (ed_actor inp)) (r_targetUserId row))]
               else []) @ ending (ed_actor inp) code text (ed_now inp) Resolved)
             (end_entry LedgerResolve (ed_actor inp) adapter row code None text None))
           (\<lambda>_. act_return ()))))"

definition resolve :: "'f esc_env \<Rightarrow> end_input \<Rightarrow> ('f, esc_row) act" where
  "resolve env inp =
     (let code = (case ed_code inp of Some c \<Rightarrow> c | None \<Rightarrow> ''action_taken'')
      in if code \<notin> set MANUAL_RESOLUTION_CODES then act_fail (Escalation BadRequest)
         else
           act_then (act_lift (trimNote (ed_note inp))) (\<lambda>text.
           act_then (inTransaction (resolve_work env inp code text)) (\<lambda>_.
           act_then (reload (ed_escalationId inp)) (\<lambda>row.
             \<lambda>db. (Inr row, notifyRaiserResolved env row db)))))"

section \<open>Withdraw\<close>

definition withdrawReason :: "end_input \<Rightarrow> esc_error + string" where
  "withdrawReason inp =
     and_then (trimNote (ed_note inp)) (\<lambda>text. case text of None \<Rightarrow> Inl (Escalation ReasonRequired) | Some t \<Rightarrow> Inr t)"

definition withdrawWork :: "'f esc_env \<Rightarrow> end_input \<Rightarrow> string \<Rightarrow> bool \<Rightarrow> ('f, unit) act" where
  "withdrawWork env inp why endedByDomain =
     act_then (lockRow (ed_escalationId inp) (ed_expectedRowVersion inp)) (\<lambda>row.
       if (isDecisionRow row \<or> isNextStepRow row) \<and> \<not> endedByDomain then act_fail (Escalation BadRequest)
       else if r_status row = Acknowledged \<and> \<not> endedByDomain then act_fail (Escalation NotLive)
       else
         act_then (requireStatus row (if endedByDomain then LIVE_STATUSES else [Open])) (\<lambda>_.
         act_then (act_lift (requireAdapter env (r_subjectType row))) (\<lambda>adapter.
         act_then (transition env adapter row
             (ending (ed_actor inp) ''withdrawn'' (Some why) (ed_now inp) Withdrawn)
             (end_entry LedgerWithdraw (ed_actor inp) adapter row ''withdrawn'' None (Some why) (ed_correlationId inp)))
           (\<lambda>_. act_return ()))))"

definition withdraw :: "'f esc_env \<Rightarrow> end_input \<Rightarrow> ('f, esc_row) act" where
  "withdraw env inp =
     act_then (act_lift (withdrawReason inp)) (\<lambda>why.
     act_then (inTransaction (withdrawWork env inp why False)) (\<lambda>_. reload (ed_escalationId inp)))"

definition withdrawWithin :: "'f esc_env \<Rightarrow> end_input \<Rightarrow> ('f, esc_row) act" where
  "withdrawWithin env inp =
     act_then (act_lift (withdrawReason inp)) (\<lambda>why.
     act_then (withdrawWork env inp why True) (\<lambda>_. reload (ed_escalationId inp)))"

definition RESOLUTION_CODE_MAX_CHARS :: nat where "RESOLUTION_CODE_MAX_CHARS = 32"

definition resolveWithin :: "'f esc_env \<Rightarrow> end_input \<Rightarrow> ('f, esc_row) act" where
  "resolveWithin env inp =
     (let code = js_trim (case ed_code inp of Some c \<Rightarrow> c | None \<Rightarrow> '''')
      in if code = '''' \<or> length code > RESOLUTION_CODE_MAX_CHARS then act_fail (Escalation BadRequest)
         else
           act_then (act_lift (trimNote (ed_note inp))) (\<lambda>text.
           act_then (lockRow (ed_escalationId inp) (ed_expectedRowVersion inp)) (\<lambda>row.
           act_then (requireStatus row LIVE_STATUSES) (\<lambda>_.
           act_then (act_lift (requireAdapter env (r_subjectType row))) (\<lambda>adapter.
           act_then (transition env adapter row (ending (ed_actor inp) code text (ed_now inp) Resolved)
               (end_entry LedgerResolve (ed_actor inp) adapter row code None text (ed_correlationId inp)))
             (\<lambda>_. reload (ed_escalationId inp)))))))"

section \<open>Auto-resolve\<close>

definition CLEARED_NOTE :: string where
  "CLEARED_NOTE = ''The condition that raised this has cleared.''"

definition autoResolve_work :: "'f esc_env \<Rightarrow> end_input \<Rightarrow> ('f, unit) act" where
  "autoResolve_work env inp =
     act_then (lockRow (ed_escalationId inp) (ed_expectedRowVersion inp)) (\<lambda>row.
     act_then (requireStatus row LIVE_STATUSES) (\<lambda>_.
       if r_kind row = Authority then act_fail (Escalation AuthorityResolve)
       else
         act_then (act_lift (requireAdapter env (r_subjectType row))) (\<lambda>adapter.
         act_then (transition env adapter row
             (ending (ed_actor inp) ''condition_cleared'' (Some CLEARED_NOTE) (ed_now inp)
               (if r_status row = Open then Withdrawn else Resolved))
             (end_entry LedgerAutoResolve (ed_actor inp) adapter row ''condition_cleared'' (Some ''condition_cleared'') None None))
           (\<lambda>_. act_return ()))))"

definition autoResolve :: "'f esc_env \<Rightarrow> end_input \<Rightarrow> ('f, esc_row) act" where
  "autoResolve env inp = act_then (inTransaction (autoResolve_work env inp)) (\<lambda>_. reload (ed_escalationId inp))"

section \<open>Conclude: the subject's own decision\<close>

record conclude_input =
  co_actor :: ledger_actor
  co_code :: string
  co_note :: "string option"
  co_now :: instant
  co_policyKeys :: "string list option"
  co_subjectId :: string
  co_subjectType :: string
  co_withdrawOpen :: bool

definition lower_letter :: "char \<Rightarrow> bool" where
  "lower_letter c \<longleftrightarrow> 97 \<le> (of_char c :: nat) \<and> (of_char c :: nat) \<le> 122"

text \<open>The regular expression \<^verbatim>\<open>[a-z][a-z_]{0,31}\<close>, matched to the end.\<close>

definition decision_code :: "string \<Rightarrow> bool" where
  "decision_code s =
     (case s of
        [] \<Rightarrow> False
      | c # cs \<Rightarrow> lower_letter c \<and> length cs \<le> 31 \<and> list_all (\<lambda>x. lower_letter x \<or> x = CHR ''_'') cs)"

definition conclude_work ::
  "'f esc_env \<Rightarrow> conclude_input \<Rightarrow> string option \<Rightarrow> bool \<Rightarrow> int \<Rightarrow> ('f, esc_row option) act" where
  "conclude_work env inp text do_withdraw i =
     act_then (lockRow i None) (\<lambda>row.
       if r_status row \<notin> set LIVE_STATUSES then act_return None
       else
         act_then (act_lift (requireAdapter env (r_subjectType row))) (\<lambda>adapter.
           let st = (if do_withdraw \<and> r_status row = Open then Withdrawn else Resolved)
           in act_then (transition env adapter row (ending (co_actor inp) (co_code inp) text (co_now inp) st)
                (end_entry (if st = Withdrawn then LedgerWithdraw else LedgerResolve) (co_actor inp) adapter row
                   (co_code inp) (Some (co_code inp)) text None))
              (\<lambda>updated. act_return (Some updated))))"

text \<open>One transaction per live row seen; a row someone else ended first is skipped.\<close>

fun conclude_rows ::
  "'f esc_env \<Rightarrow> conclude_input \<Rightarrow> string option \<Rightarrow> esc_row list \<Rightarrow> ('f, esc_row list) act" where
  "conclude_rows env inp text [] db = (Inr [], db)"
| "conclude_rows env inp text (seen # rest) db =
     (let do_withdraw = (co_withdrawOpen inp \<and> r_status seen = Open)
      in if do_withdraw \<and> text = None then (Inl (Escalation ReasonRequired), db)
         else
           (case inTransaction (conclude_work env inp text do_withdraw (r_escalationId seen)) db of
              (Inl e, db') \<Rightarrow> (Inl e, db')
            | (Inr None, db') \<Rightarrow> conclude_rows env inp text rest db'
            | (Inr (Some row), db') \<Rightarrow>
                (let db'' = (if r_status row = Resolved then notifyRaiserResolved env row db' else db')
                 in case conclude_rows env inp text rest db'' of
                      (Inl e, db3) \<Rightarrow> (Inl e, db3)
                    | (Inr ended, db3) \<Rightarrow> (Inr (row # ended), db3))))"

definition concludeForSubject ::
  "'f esc_env \<Rightarrow> ('f esc_db \<Rightarrow> 'f esc_db) \<Rightarrow> conclude_input \<Rightarrow> ('f, esc_row list) act" where
  "concludeForSubject env meanwhile inp =
     (if \<not> decision_code (co_code inp) then act_fail (Escalation BadRequest)
      else
        act_then (act_lift (trimNote (co_note inp))) (\<lambda>text.
        act_then (act_read (\<lambda>db. filter (\<lambda>r. case co_policyKeys inp of None \<Rightarrow> True | Some ks \<Rightarrow> r_policyKey r \<in> set ks)
            (listLiveForSubject (co_subjectType inp) (co_subjectId inp) db))) (\<lambda>seen.
          \<lambda>db. conclude_rows env inp text seen (meanwhile db))))"

section \<open>Escalate further\<close>

datatype supersede_code = CodeEscalated | CodeFollowUp | CodeReminder | CodeSlaBreach

fun supersede_text :: "supersede_code \<Rightarrow> string" where
  "supersede_text CodeEscalated = ''escalated''"
| "supersede_text CodeFollowUp = ''follow_up''"
| "supersede_text CodeReminder = ''reminder''"
| "supersede_text CodeSlaBreach = ''sla_breach''"

datatype further_mode = NextLevel | SameLevel

record further_input =
  fu_actor :: ledger_actor
  fu_authorityRoute :: "route_step list"
  fu_code :: "supersede_code option"
  fu_escalationId :: int
  fu_expectedRowVersion :: "nat option"
  fu_mode :: further_mode
  fu_note :: "string option"
  fu_notify :: notify_options
  fu_now :: instant
  fu_onlyIfOpen :: bool
  fu_preferredUserId :: "int option"

definition further_code :: "further_input \<Rightarrow> supersede_code" where
  "further_code inp =
     (case fu_code inp of Some c \<Rightarrow> c | None \<Rightarrow> if fu_mode inp = SameLevel then CodeReminder else CodeEscalated)"

definition supersedeReason :: "supersede_code \<Rightarrow> further_input \<Rightarrow> resolved_target \<Rightarrow> string" where
  "supersedeReason code inp target =
     (let dest = roleLabel (rt_role target);
          text = (case fu_note inp of Some s \<Rightarrow> js_trim s | None \<Rightarrow> '''')
      in case code of
           CodeSlaBreach \<Rightarrow> ''No one acknowledged it in time, so it moved up to '' @ dest
         | CodeReminder \<Rightarrow> ''Still waiting after its SLA, so '' @ dest @ '' was reminded''
         | CodeFollowUp \<Rightarrow> ''A new email about this arrived, so the clock restarted''
         | CodeEscalated \<Rightarrow> ''Pushed up to '' @ dest @ '' by '' @ actorName (fu_actor inp) @
             (if text \<noteq> '''' then '': '' @ text else ''''))"

definition further_resolve_input ::
  "'f esc_env \<Rightarrow> esc_row \<Rightarrow> esc_policy \<Rightarrow> further_mode \<Rightarrow> route_step list \<Rightarrow> int option \<Rightarrow> resolve_input" where
  "further_resolve_input env row policy mode route preferred =
     \<lparr>ri_activeUsers = env_users env, ri_authorityRoute = route,
      ri_excludeUserIds = contextNumbers (r_context row) ''excludeUserIds'',
      ri_fallbackEmails = env_fallbackEmails env,
      ri_fromLevel = Some (nat (if mode = NextLevel then r_level row + 1 else r_level row)),
      ri_kind = r_kind row, ri_ladder = p_ladder policy,
      ri_namedKeepRaiser = ladderOf (r_context row) \<noteq> None,
      ri_onNoTarget = (if mode = SameLevel \<and> r_noIndependentTarget row then AimDirectors else AimNone),
      ri_preferredUserId = preferred, ri_raiser = raiserOf row (env_users env),
      ri_userTargets = contextNumbers (r_context row) ''userTargets''\<rparr>"

definition resolveFurther ::
  "'f esc_env \<Rightarrow> esc_row \<Rightarrow> esc_policy \<Rightarrow> further_mode \<Rightarrow> route_step list \<Rightarrow> int option \<Rightarrow>
     ladder_error + resolved_target option" where
  "resolveFurther env row policy mode route preferred =
     resolveTarget (env_collate env) (further_resolve_input env row policy mode route preferred)"

text \<open>\<open>nextTarget\<close>, \<open>hasNextLevel\<close>: a ladder failure counts as nobody.\<close>

definition nextTarget :: "'f esc_env \<Rightarrow> esc_row \<Rightarrow> instant \<Rightarrow> resolved_target option" where
  "nextTarget env row now =
     (case env_policy env (r_policyKey row) now of
        None \<Rightarrow> None
      | Some policy \<Rightarrow>
          (case resolveFurther env row policy NextLevel [] None of Inr t \<Rightarrow> t | Inl _ \<Rightarrow> None))"

definition hasNextLevel :: "'f esc_env \<Rightarrow> esc_row \<Rightarrow> instant \<Rightarrow> bool" where
  "hasNextLevel env row now \<longleftrightarrow> nextTarget env row now \<noteq> None"

record further_plan =
  fp_code :: supersede_code
  fp_note :: "string option"
  fp_policy :: esc_policy
  fp_reason :: string
  fp_seen :: esc_row
  fp_target :: resolved_target

text \<open>What is worked out before the transaction, from the row as it was seen.\<close>

definition plan_further :: "'f esc_env \<Rightarrow> further_input \<Rightarrow> 'f esc_db \<Rightarrow> esc_error + (further_plan \<times> 'f adapter)" where
  "plan_further env inp db =
     (case getEscalationRow (fu_escalationId inp) db of
        None \<Rightarrow> Inl (Escalation NotFound)
      | Some seen \<Rightarrow>
          if fu_expectedRowVersion inp \<noteq> None \<and> fu_expectedRowVersion inp \<noteq> Some (r_rowVersion seen)
          then Inl (Escalation Stale)
          else if r_status seen \<notin> set (if fu_onlyIfOpen inp then [Open] else LIVE_STATUSES)
          then Inl (Escalation NotLive)
          else case env_policy env (r_policyKey seen) (fu_now inp) of
            None \<Rightarrow> Inl (Escalation UnknownPolicy)
          | Some policy \<Rightarrow>
              and_then (requireAdapter env (r_subjectType seen)) (\<lambda>adapter.
              and_then (map_error ladderFailure
                  (resolveFurther env seen policy (fu_mode inp) (fu_authorityRoute inp) (fu_preferredUserId inp))) (\<lambda>found.
                case found of
                  None \<Rightarrow> Inl (Escalation NoFurtherLevel)
                | Some target \<Rightarrow>
                    and_then (trimNote (fu_note inp)) (\<lambda>text.
                      Inr (\<lparr>fp_code = further_code inp, fp_note = text, fp_policy = policy,
                             fp_reason = supersedeReason (further_code inp) inp target,
                             fp_seen = seen, fp_target = target\<rparr>, adapter)))))"

definition further_values :: "further_input \<Rightarrow> further_plan \<Rightarrow> esc_row \<Rightarrow> instant option \<Rightarrow> new_escalation" where
  "further_values inp plan locked due =
     (let target = fp_target plan
      in \<lparr>n_buildingId = r_buildingId locked, n_context = r_context locked, n_dueAt = due, n_kind = r_kind locked,
          n_lastFollowUpAt = (if fp_code plan = CodeFollowUp then Some (fu_now inp) else None),
          n_level = int (rt_level target), n_noIndependentTarget = rt_noIndependentTarget target,
          n_note = r_note locked, n_notificationState = NotifyPending,
          n_parentEscalationId = Some (r_escalationId locked), n_policyKey = r_policyKey locked,
          n_raisedByKind = r_raisedByKind locked, n_raisedByName = r_raisedByName locked,
          n_raisedByUserId = r_raisedByUserId locked, n_reason = r_reason locked,
          n_subjectId = r_subjectId locked, n_subjectType = r_subjectType locked, n_summary = r_summary locked,
          n_targetRole = rt_role target, n_targetUserId = rt_targetUserId target, n_urgent = r_urgent locked\<rparr>)"

definition superseded_entry ::
  "'f esc_env \<Rightarrow> further_input \<Rightarrow> further_plan \<Rightarrow> 'f adapter \<Rightarrow> esc_row \<Rightarrow> int \<Rightarrow> esc_row \<Rightarrow> ledger_entry" where
  "superseded_entry env inp plan adapter locked newId row =
     (ledgerEntry LedgerSupersede (fu_actor inp) row adapter)
       \<lparr>lg_after := \<lparr>af_row = snapshot row, af_resolutionCode = Some (supersede_text (fp_code plan)), af_supersededBy = Some newId\<rparr>,
        lg_before := BeforeRow (snapshot locked), lg_correlationId := Some (env_uuid env),
        lg_reason := Some (fp_reason plan), lg_ruleApplied := Some (supersede_text (fp_code plan))\<rparr>"

definition further_entry ::
  "'f esc_env \<Rightarrow> further_input \<Rightarrow> further_plan \<Rightarrow> 'f adapter \<Rightarrow> esc_row \<Rightarrow> esc_row \<Rightarrow> ledger_entry" where
  "further_entry env inp plan adapter locked row =
     (let target = fp_target plan
      in (ledgerEntry LedgerRaise (fu_actor inp) row adapter)
         \<lparr>lg_before := BeforeParent (r_escalationId locked),
          lg_computed := (if rt_noIndependentTarget target \<or> rt_skippedLevels target \<noteq> []
            then Some (rt_noIndependentTarget target, rt_skippedLevels target) else None),
          lg_correlationId := Some (env_uuid env), lg_reason := Some (fp_reason plan),
          lg_ruleApplied := Some (supersede_text (fp_code plan))\<rparr>)"

definition further_work ::
  "'f esc_env \<Rightarrow> further_input \<Rightarrow> further_plan \<Rightarrow> 'f adapter \<Rightarrow> ('f, esc_row \<times> esc_row) act" where
  "further_work env inp plan adapter =
     act_then (lockRow (fu_escalationId inp) (fu_expectedRowVersion inp)) (\<lambda>locked.
       if r_status locked \<noteq> r_status (fp_seen plan) \<or> r_level locked \<noteq> r_level (fp_seen plan)
       then act_fail (Escalation Stale)
       else
         act_then (requireStatus locked (if fu_onlyIfOpen inp then [Open] else LIVE_STATUSES)) (\<lambda>_.
         act_then (applyChanges locked
             (ending (fu_actor inp) (supersede_text (fp_code plan))
               (or_else_option (fp_note plan) (Some (fp_reason plan))) (fu_now inp) Superseded)) (\<lambda>_.
         act_then (act_lift (due_after env (fp_policy plan) (fu_now inp) (rt_slaHours (fp_target plan)))) (\<lambda>due.
         act_then (insertEscalation (further_values inp plan locked due)) (\<lambda>newId.
         act_then (reload (r_escalationId locked)) (\<lambda>old.
         act_then (reload newId) (\<lambda>created.
         act_then (run_onChange adapter created) (\<lambda>_.
         act_then (ledger_record env (superseded_entry env inp plan adapter locked newId old)) (\<lambda>_.
         act_then (ledger_record env (further_entry env inp plan adapter locked created)) (\<lambda>_.
         act_return (created, old)))))))))))"

definition escalateFurther ::
  "'f esc_env \<Rightarrow> ('f esc_db \<Rightarrow> 'f esc_db) \<Rightarrow> further_input \<Rightarrow> ('f, esc_row \<times> esc_row) act" where
  "escalateFurther env meanwhile inp db =
     (case plan_further env inp db of
        Inl e \<Rightarrow> (Inl e, db)
      | Inr (plan, adapter) \<Rightarrow>
          act_then (inTransaction (further_work env inp plan adapter)) (\<lambda>(next, previous).
            let event = (if fp_code plan = CodeFollowUp then FollowUp
                         else if fu_mode inp = SameLevel then Reminder else Supersede)
            in (\<lambda>db1.
              let db2 = snd (notifyTargets env next event (fu_notify inp) db1);
                  db3 = (if fu_mode inp = NextLevel then notifyPreviousLevel env previous next db2 else db2)
              in act_then (reload (r_escalationId next)) (\<lambda>now_next. act_return (now_next, previous)) db3))
            (meanwhile db))"

end
