(* ===== verification/Engine_Laws.thy ===== *)
theory Engine_Laws
  imports Engine
begin

text \<open>
  What holds of the engine's operations: each one is made of the store's five writes, so each keeps
  every invariant of the database those writes keep.
\<close>

section \<open>Every operation is made of the store's writes\<close>

lemma lockRow_Inr: "lockRow i v db = (Inr row, db') \<Longrightarrow> db' = db \<and> getEscalationRow i db = Some row \<and> (v = None \<or> v = Some (r_rowVersion row))"
  by (auto simp: lockRow_def split: option.splits if_splits)

lemma snd_reads [simp]:
  "snd (lockRow i v db) = db" "snd (reload i db) = db" "snd (requireStatus row sts db) = db"
  by (auto simp: lockRow_def reload_def requireStatus_def split: option.splits if_splits)

lemma requireStatus_Inr [simp]: "requireStatus row sts db = (Inr u, db') \<longleftrightarrow> db' = db \<and> r_status row \<in> set sts"
  by (auto simp: requireStatus_def)

lemma reload_Inr [simp]: "reload i db = (Inr row, db') \<longleftrightarrow> db' = db \<and> getEscalationRow i db = Some row"
  by (auto simp: reload_def split: option.splits)

lemma getEscalationRow_id: "getEscalationRow i db = Some row \<Longrightarrow> r_escalationId row = i"
  using getEscalationRow_Some by blast

text \<open>The lists of changes the engine writes.\<close>

lemma moves_on_ending: "is_live row \<Longrightarrow> st \<in> {Resolved, Superseded, Withdrawn} \<Longrightarrow> moves_on row (ending actor code text now st)"
  by (auto simp: moves_on_def ending_def)

lemma moves_on_resolving:
  "is_live row \<Longrightarrow> moves_on row (SetAcknowledgedAt t # SetAcknowledgedByName n # SetAcknowledgedByUserId i #
     SetTargetUserId j # ending actor code text now Resolved)"
  by (auto simp: moves_on_def ending_def)

lemma moves_on_acknowledging:
  "r_status row = Open \<Longrightarrow> moves_on row [SetAcknowledgedAt t, SetAcknowledgedByName n, SetAcknowledgedByUserId i, SetStatus Acknowledged, SetTargetUserId j]"
  by (simp add: moves_on_def is_live_def LIVE_STATUSES_def)

lemma live_iff: "r_status row \<in> set LIVE_STATUSES \<longleftrightarrow> is_live row"
  by (simp add: is_live_def)

lemma open_live: "r_status row = Open \<Longrightarrow> is_live row"
  by (simp add: is_live_def LIVE_STATUSES_def)

text \<open>The database a run of endings leaves.\<close>

lemma snd_conclude_rows:
  "snd (conclude_rows env inp why (seen # rest) db) =
     (if co_withdrawOpen inp \<and> r_status seen = Open \<and> why = None then db
      else case inTransaction (conclude_work env inp why (co_withdrawOpen inp \<and> r_status seen = Open) (r_escalationId seen)) db of
        (Inl e, db') \<Rightarrow> db'
      | (Inr None, db') \<Rightarrow> snd (conclude_rows env inp why rest db')
      | (Inr (Some row), db') \<Rightarrow>
          snd (conclude_rows env inp why rest (if r_status row = Resolved then notifyRaiserResolved env row db' else db')))"
  by (simp add: Let_def del: inTransaction_Inr split: prod.split sum.split option.split)

section \<open>Sequencing, and telling people\<close>

context bookkeeping_invariant
begin

lemma act_then_keeps:
  assumes "I (snd (m db))" "\<And>x db'. m db = (Inr x, db') \<Longrightarrow> I db' \<Longrightarrow> I (snd (f x db'))"
  shows "I (snd (act_then m f db))"
proof -
  obtain r db' where m: "m db = (r, db')" by force
  with assms show ?thesis by (cases r) (auto simp: act_then_def)
qed

lemma inTransaction_keeps: "I db \<Longrightarrow> I (snd (m db)) \<Longrightarrow> I (snd (inTransaction m db))"
  by (auto simp: inTransaction_def split: prod.splits sum.splits)

lemma onChange_act: "I db \<Longrightarrow> I (snd (run_onChange adapter row db))"
  by (auto simp: run_onChange_def flags_keep split: sum.splits)

lemma log_mail_act: "I db \<Longrightarrow> I (log_mail m db)"
  by (simp add: log_mail_def mail_keeps)

lemma send_outcome_act: "I db \<Longrightarrow> I (snd (send_outcome env row event opts db))"
  by (auto simp: send_outcome_def Let_def log_mail_act split: sum.splits prod.splits)

lemma remember_act: "I db \<Longrightarrow> I (remember env row out opts db)"
  by (auto simp: remember_def Let_def notify_keeps onChange_act split: option.splits)

lemma notifyTargets_act: "I db \<Longrightarrow> I (snd (notifyTargets env row event opts db))"
  using send_outcome_act [of db env row event opts]
  by (auto simp: notifyTargets_def remember_act split: prod.splits)

lemma notifyPreviousLevel_act: "I db \<Longrightarrow> I (notifyPreviousLevel env previous next db)"
  by (auto simp: notifyPreviousLevel_def send_once_def Let_def log_mail_act)

lemma notifyRaiserResolved_act: "I db \<Longrightarrow> I (notifyRaiserResolved env row db)"
  by (auto simp: notifyRaiserResolved_def send_once_def Let_def log_mail_act)

end

section \<open>Transitions of a row\<close>

context update_invariant
begin

lemma update_act:
  assumes "I db" "getEscalationRow i db = Some row" "moves_on row changes"
  shows "I (snd (updateEscalation i (r_rowVersion row) changes db))"
proof (cases "updateEscalation i (r_rowVersion row) changes db")
  case (Pair r db')
  show ?thesis
  proof (cases r)
    case (Inl e)
    with Pair have "db' = db" by (auto simp: updateEscalation_def Let_def split: if_splits option.splits)
    with assms(1) Pair show ?thesis by simp
  next
    case (Inr ok)
    with Pair update_keeps [OF assms(1,2,3)] show ?thesis by simp
  qed
qed

lemma applyChanges_act:
  assumes "I db" "getEscalationRow (r_escalationId row) db = Some row" "moves_on row changes"
  shows "I (snd (applyChanges row changes db))"
  unfolding applyChanges_def
  by (intro act_then_keeps update_act assms) simp

lemma ledger_act: "I db \<Longrightarrow> I (snd (ledger_record env e db))"
  by (auto simp: ledger_record_def ledger_keeps split: option.splits)

lemma transition_act:
  assumes "I db" "getEscalationRow (r_escalationId row) db = Some row" "moves_on row changes"
  shows "I (snd (transition env adapter row changes entry db))"
  unfolding transition_def
  by (intro act_then_keeps applyChanges_act onChange_act ledger_act assms) (simp_all)

lemma locked_act:
  assumes "I db" "\<And>row. getEscalationRow i db = Some row \<Longrightarrow> r_escalationId row = i \<Longrightarrow> I (snd (f row db))"
  shows "I (snd (act_then (lockRow i v) f db))"
  by (rule act_then_keeps) (auto simp: assms(1) dest!: lockRow_Inr intro: assms(2) getEscalationRow_id)

lemma acknowledge_work_act: "I db \<Longrightarrow> I (snd (acknowledge_work env inp db))"
  unfolding acknowledge_work_def
  by (rule locked_act)
     (auto intro!: act_then_keeps transition_act moves_on_acknowledging)

lemma resolve_work_act: "I db \<Longrightarrow> I (snd (resolve_work env inp code text db))"
  unfolding resolve_work_def
  by (rule locked_act)
     (auto intro!: act_then_keeps transition_act moves_on_resolving moves_on_ending simp: is_live_def LIVE_STATUSES_def)

lemma withdrawWork_act: "I db \<Longrightarrow> I (snd (withdrawWork env inp why endedByDomain db))"
  unfolding withdrawWork_def
  by (rule locked_act)
     (auto intro!: act_then_keeps transition_act moves_on_ending simp: is_live_def LIVE_STATUSES_def split: if_splits)

lemma autoResolve_work_act: "I db \<Longrightarrow> I (snd (autoResolve_work env inp db))"
  unfolding autoResolve_work_def
  by (rule locked_act)
     (auto intro!: act_then_keeps transition_act moves_on_ending simp: is_live_def LIVE_STATUSES_def)

lemma conclude_work_act: "I db \<Longrightarrow> I (snd (conclude_work env inp text do_withdraw i db))"
  unfolding conclude_work_def
  by (rule locked_act)
     (auto intro!: act_then_keeps transition_act moves_on_ending simp: is_live_def LIVE_STATUSES_def Let_def)

lemma acknowledge_act: "I db \<Longrightarrow> I (snd (acknowledge env inp db))"
  unfolding acknowledge_def by (intro act_then_keeps inTransaction_keeps acknowledge_work_act) simp_all

lemma resolve_act: "I db \<Longrightarrow> I (snd (resolve env inp db))"
  by (auto simp: resolve_def Let_def intro!: act_then_keeps inTransaction_keeps resolve_work_act notifyRaiserResolved_act)

lemma withdraw_act: "I db \<Longrightarrow> I (snd (withdraw env inp db))"
  by (auto simp: withdraw_def intro!: act_then_keeps inTransaction_keeps withdrawWork_act)

lemma withdrawWithin_act: "I db \<Longrightarrow> I (snd (withdrawWithin env inp db))"
  by (auto simp: withdrawWithin_def intro!: act_then_keeps withdrawWork_act)

lemma resolveWithin_act: "I db \<Longrightarrow> I (snd (resolveWithin env inp db))"
  by (auto simp: resolveWithin_def Let_def is_live_def LIVE_STATUSES_def
      intro!: act_then_keeps locked_act transition_act moves_on_ending)

lemma autoResolve_act: "I db \<Longrightarrow> I (snd (autoResolve env inp db))"
  unfolding autoResolve_def by (intro act_then_keeps inTransaction_keeps autoResolve_work_act) simp_all

lemma conclude_rows_act: "I db \<Longrightarrow> I (snd (conclude_rows env inp why rows db))"
proof (induction rows arbitrary: db)
  case Nil
  then show ?case by simp
next
  case (Cons seen rest)
  have "I (snd (inTransaction (conclude_work env inp why (co_withdrawOpen inp \<and> r_status seen = Open) (r_escalationId seen)) db))"
    by (intro inTransaction_keeps conclude_work_act Cons.prems)
  then show ?case
    unfolding snd_conclude_rows using Cons.prems
    by (auto simp del: inTransaction_Inr split: prod.splits sum.splits option.splits
        intro!: Cons.IH notifyRaiserResolved_act)
qed

lemma conclude_act:
  assumes "\<And>d. I d \<Longrightarrow> I (meanwhile d)" "I db"
  shows "I (snd (concludeForSubject env meanwhile inp db))"
proof (cases "decision_code (co_code inp)")
  case True
  have "I (snd (act_then (act_read g) (\<lambda>seen db. conclude_rows env inp why seen (meanwhile db)) d))" if "I d" for g why d
    using that assms(1) by (simp add: act_then_def conclude_rows_act)
  then show ?thesis
    unfolding concludeForSubject_def using True assms(2)
    by (cases "trimNote (co_note inp)") (simp_all add: act_then_def)
qed (simp add: concludeForSubject_def assms(2))

end

section \<open>New rows: raising and superseding\<close>

context db_invariant
begin

lemma insert_act: "I db \<Longrightarrow> I (snd (insertEscalation n db))"
proof -
  assume "I db"
  then show ?thesis
    using insert_keeps [of db n] by (cases "insertEscalation n db"; cases "fst (insertEscalation n db)")
      (auto simp: insertEscalation_def Let_def split: if_splits)
qed

lemma writeRaise_act: "I db \<Longrightarrow> I (snd (writeRaise env inp plan db))"
  unfolding writeRaise_def
  by (intro act_then_keeps insert_act onChange_act ledger_act) simp_all

lemma raiseWithin_act: "I db \<Longrightarrow> I (snd (raiseWithin env inp db))"
  by (auto simp: raiseWithin_def intro!: act_then_keeps writeRaise_act split: sum.splits)

lemma raise_act:
  assumes "\<And>d. I d \<Longrightarrow> I (meanwhile d)" "I db"
  shows "I (snd (raise_escalation env meanwhile inp db))"
proof (cases "planRaise env inp db")
  case (Inl e)
  with assms show ?thesis by (simp add: raise_escalation_def)
next
  case (Inr found)
  show ?thesis
  proof (cases found)
    case (Inl existing)
    with Inr assms show ?thesis by (simp add: raise_escalation_def)
  next
    case plan: (Inr plan)
    let ?t = "inTransaction (writeRaise env inp plan) (meanwhile db)"
    have t: "I (snd ?t)" using assms by (intro inTransaction_keeps writeRaise_act) auto
    obtain r db' where rt: "?t = (r, db')" by force
    with t have i: "I db'" by simp
    show ?thesis
    proof (cases r)
      case (Inl e)
      with i rt Inr plan show ?thesis by (auto simp: raise_escalation_def split: option.splits)
    next
      case row: (Inr row)
      have "I (snd (act_then (announceRaise env inp row) (\<lambda>after. act_return \<lparr>rr_created = True, rr_escalation = after\<rparr>) db'))"
        by (rule act_then_keeps) (simp_all add: announceRaise_def notifyTargets_act [OF i])
      with rt Inr plan row show ?thesis by (simp add: raise_escalation_def del: inTransaction_Inr)
    qed
  qed
qed

lemma further_work_act: "I db \<Longrightarrow> I (snd (further_work env inp plan adapter db))"
  unfolding further_work_def
  by (rule locked_act)
     (auto intro!: act_then_keeps applyChanges_act insert_act onChange_act ledger_act moves_on_ending
           simp: is_live_def LIVE_STATUSES_def split: if_splits)

lemma further_act:
  assumes "\<And>d. I d \<Longrightarrow> I (meanwhile d)" "I db"
  shows "I (snd (escalateFurther env meanwhile inp db))"
proof (cases "plan_further env inp db")
  case (Inl e)
  with assms show ?thesis by (simp add: escalateFurther_def)
next
  case (Inr found)
  obtain plan adapter where p: "found = (plan, adapter)" by force
  have "I (snd (inTransaction (further_work env inp plan adapter) (meanwhile db)))"
    using assms by (intro inTransaction_keeps further_work_act) auto
  then show ?thesis
    unfolding escalateFurther_def Inr p sum.case prod.case
  proof (rule act_then_keeps)
    fix rows db'
    assume "I db'"
    then show "I (snd ((case rows of (next, previous) \<Rightarrow>
      (let event = (if fp_code plan = CodeFollowUp then FollowUp else if fu_mode inp = SameLevel then Reminder else Supersede)
       in (\<lambda>db1.
          let db2 = snd (notifyTargets env next event (fu_notify inp) db1);
              db3 = (if fu_mode inp = NextLevel then notifyPreviousLevel env previous next db2 else db2)
          in act_then (reload (r_escalationId next)) (\<lambda>now_next. act_return (now_next, previous)) db3))) db'))"
      by (cases rows) (auto simp: Let_def intro!: act_then_keeps notifyPreviousLevel_act notifyTargets_act)
  qed
qed

end

end
