(* ===== verification/Notifier_Correct.thy ===== *)
theory Notifier_Correct
  imports Notifier
begin

text \<open>
  Who is told and how often: nobody left out is alerted or emailed as a person, an address is emailed once however it is
  spelled, a send is tried a bounded number of times, and the retries of a failed one back off.
\<close>

section \<open>A small directory and policy, for runs of the model\<close>

definition quiet_adapter :: "unit adapter" where
  "quiet_adapter =
     \<lparr>ad_deepLink = (\<lambda>_ _. ''/jobs''), ad_isConditionActive = (\<lambda>_ _ _. Inr True), ad_ledgerScope = (\<lambda>_. (None, None)),
      ad_loadSummary = (\<lambda>_ _. Inr (Some \<lparr>ss_buildingId = Some 9, ss_context = [], ss_summary = ''Job #12''\<rparr>)),
      ad_onChange = (\<lambda>_ _. Inr ()), ad_visibleTo = (\<lambda>_ _. True), ad_withdrawable = (\<lambda>_. None)\<rparr>"

definition sample_policy :: "string \<Rightarrow> esc_kind \<Rightarrow> esc_policy" where
  "sample_policy key kind =
     \<lparr>p_active = True, p_autoReescalate = AutoYes, p_clock = WallClock, p_kind = kind,
      p_ladder = [role_entry ''facilities_manager'' 4, role_entry ''cfo'' 8, role_entry ''director'' 8],
      p_policyKey = key, p_updatedAt = None, p_updatedBy = None, p_urgent = False\<rparr>"

definition sample_env :: "unit esc_env" where
  "sample_env =
     \<lparr>env_adapters = (\<lambda>ty. if ty = ''job'' then Some quiet_adapter else None),
      env_policy = (\<lambda>key _. if key = ''job.stalled'' then Some (sample_policy key Attention)
        else if key = ''invoice.approval'' then Some (sample_policy key Authority) else None),
      env_users = sample_people, env_holidays = {}, env_fallbackEmails = (\<lambda>_. []), env_collate = collate_units,
      env_ledgerFails = (\<lambda>_. None), env_uuid = ''uuid'', env_missingConfig = [''MAIL''], env_egress = (\<lambda>_. Inr False),
      env_teamsOn = False, env_mayAlert = (\<lambda>_. True), env_channels = [], env_override = None,
      env_mailFails = (\<lambda>_ _. None), env_recordFails = (\<lambda>_. False)\<rparr>"

definition empty_db :: "instant \<Rightarrow> 'f \<Rightarrow> 'f esc_db" where
  "empty_db now flags =
     \<lparr>db_rows = [], db_nextId = 1, db_nextVersion = 0, db_clock = now, db_flags = flags, db_ledger = [], db_mail = []\<rparr>"

definition sample_notify :: notify_options where
  "sample_notify = \<lparr>nopt_attempts = 1, nopt_onlyFailures = False, nopt_now = 0\<rparr>"

section \<open>Addresses\<close>

lemma unique_addresses_subset: "set (unique_addresses as seen) \<subseteq> set as"
  by (induction as seen rule: unique_addresses.induct) (auto split: if_splits)

lemma unique_addresses_keys:
  "distinct (map js_lower (unique_addresses as seen)) \<and> js_lower ` set (unique_addresses as seen) \<inter> set seen = {}"
  by (induction as seen rule: unique_addresses.induct) (auto simp: Let_def)

lemma uniqueAddresses_mem:
  assumes "a \<in> set (uniqueAddresses env as)"
  obtains x where "x \<in> set as" "resolveRecipient env x = Some a"
  using assms unique_addresses_subset [of "List.map_filter (resolveRecipient env) as" "[]"]
  by (auto simp: uniqueAddresses_def map_filter_def)

text \<open>Whom the row's level means, and the addresses that may be told of the row: a person it means who is not left out, or,
  at a facilities manager's level that reaches nobody with an address, one of the list that stands in, which is not the
  raiser's own.\<close>

definition meant_for :: "esc_row \<Rightarrow> directory_user \<Rightarrow> bool" where
  "meant_for row u \<longleftrightarrow>
     (if r_noIndependentTarget row then normaliseRole (Some (du_role u)) \<in> set OVERSIGHT_ROLES
      else case r_targetUserId row of
        Some i \<Rightarrow> du_userId u = i
      | None \<Rightarrow>
          if namedTargetIds row \<noteq> [] then du_userId u \<in> set (namedTargetIds row)
          else normaliseRole (r_targetRole row) \<noteq> '''' \<and> normaliseRole (Some (du_role u)) = normaliseRole (r_targetRole row))"

definition person_told :: "'f esc_env \<Rightarrow> esc_row \<Rightarrow> directory_user \<Rightarrow> bool" where
  "person_told env row u \<longleftrightarrow> u \<in> set (env_users env) \<and> du_userId u \<notin> set (excludedUserIds row) \<and> meant_for row u"

definition raiser_email :: "'f esc_env \<Rightarrow> esc_row \<Rightarrow> string option" where
  "raiser_email env row = Option.bind (find (\<lambda>u. Some (du_userId u) = r_raisedByUserId row) (env_users env)) (map_option js_lower \<circ> du_email)"

definition stands_in :: "'f esc_env \<Rightarrow> esc_row \<Rightarrow> string \<Rightarrow> bool" where
  "stands_in env row x \<longleftrightarrow>
     normaliseRole (r_targetRole row) = ''facilities_manager'' \<and> \<not> r_noIndependentTarget row \<and>
     (\<forall>u. person_told env row u \<longrightarrow> \<not> truthy (du_email u)) \<and>
     x \<in> set (env_fallbackEmails env ''facilities_manager'') \<and> Some (js_lower x) \<noteq> raiser_email env row"

definition may_be_told :: "'f esc_env \<Rightarrow> esc_row \<Rightarrow> string \<Rightarrow> bool" where
  "may_be_told env row a \<longleftrightarrow>
     (\<exists>u. person_told env row u \<and> resolveRecipient env (du_email u) = Some a) \<or>
     (\<exists>x. stands_in env row x \<and> resolveRecipient env (Some x) = Some a)"

lemma targetUsers_person: "u \<in> set (targetUsers row (env_users env)) \<longleftrightarrow> person_told env row u"
  by (auto simp: targetUsers_def person_told_def meant_for_def Let_def split: option.split)

lemma targetAddresses_from:
  assumes "a \<in> set (targetAddresses env row (env_users env))"
  shows "may_be_told env row a"
proof (cases "list_all (\<lambda>a. \<not> truthy a) (map du_email (targetUsers row (env_users env))) \<and>
    normaliseRole (r_targetRole row) = ''facilities_manager'' \<and> \<not> r_noIndependentTarget row")
  case True
  then have "a \<in> set (uniqueAddresses env
      (map Some (filter (\<lambda>a. Some (js_lower a) \<noteq> raiser_email env row) (env_fallbackEmails env ''facilities_manager''))))"
    using assms by (simp add: targetAddresses_def raiser_email_def Let_def)
  then obtain y where "y \<in> set (map Some (filter (\<lambda>a. Some (js_lower a) \<noteq> raiser_email env row)
      (env_fallbackEmails env ''facilities_manager'')))" "resolveRecipient env y = Some a" by (rule uniqueAddresses_mem)
  then obtain x where "x \<in> set (env_fallbackEmails env ''facilities_manager'')" "Some (js_lower x) \<noteq> raiser_email env row"
    "resolveRecipient env (Some x) = Some a" by auto
  with True show ?thesis by (auto simp: may_be_told_def stands_in_def list_all_iff targetUsers_person)
next
  case False
  then have "a \<in> set (uniqueAddresses env (map du_email (targetUsers row (env_users env))))"
    using assms by (simp add: targetAddresses_def Let_def split: if_splits)
  then obtain y where y: "y \<in> set (map du_email (targetUsers row (env_users env)))" "resolveRecipient env y = Some a"
    by (rule uniqueAddresses_mem)
  then obtain u where "person_told env row u" "y = du_email u" by (auto simp: targetUsers_person)
  with y(2) show ?thesis by (auto simp: may_be_told_def)
qed

section \<open>One send\<close>

lemma send_tries_bounds:
  assumes "send_tries env m n left = (tries, err)"
  shows "n \<le> tries \<and> tries \<le> n + left \<and> (\<forall>k. n \<le> k \<and> k < tries \<longrightarrow> env_mailFails env k m \<noteq> None) \<and>
    err = env_mailFails env tries m \<and> (err \<noteq> None \<longrightarrow> tries = n + left)"
  using assms
proof (induction left arbitrary: n)
  case (Suc left)
  show ?case
  proof (cases "env_mailFails env n m")
    case None
    with Suc.prems show ?thesis by auto
  next
    case (Some e)
    with Suc.prems have "send_tries env m (n + 1) left = (tries, err)" by simp
    note ih = Suc.IH [OF this]
    have "\<forall>k. n \<le> k \<and> k < tries \<longrightarrow> env_mailFails env k m \<noteq> None"
    proof (intro allI impI)
      fix k assume k: "n \<le> k \<and> k < tries"
      show "env_mailFails env k m \<noteq> None"
      proof (cases "k = n")
        case False
        with k have "n + 1 \<le> k \<and> k < tries" by linarith
        with ih show ?thesis by blast
      qed (simp add: Some)
    qed
    moreover from ih have "n \<le> tries" "tries \<le> n + Suc left" by linarith+
    moreover from ih have "err = env_mailFails env tries m" by blast
    moreover have "n + 1 + left = n + Suc left" by simp
    then have "err \<noteq> None \<longrightarrow> tries = n + Suc left" using ih by metis
    ultimately show ?thesis by blast
  qed
qed auto

text \<open>A send is tried at least once and at most as often as asked; it stops at the first try that succeeds,
  and reports a failure only when every try failed, with the last error cut to the column's width.\<close>

theorem send_bounded:
  assumes "sendWithRetry env m opts = (tries, err)"
  shows "1 \<le> tries \<and> tries \<le> max 1 (nopt_attempts opts) \<and>
    (\<forall>k. 1 \<le> k \<and> k < tries \<longrightarrow> env_mailFails env k m \<noteq> None) \<and>
    err = map_option (take 500) (env_mailFails env tries m) \<and>
    (err \<noteq> None \<longrightarrow> tries = max 1 (nopt_attempts opts))"
proof -
  obtain e where s: "send_tries env m 1 (max 1 (nopt_attempts opts) - 1) = (tries, e)" and e: "err = map_option (take 500) e"
    using assms by (auto simp: sendWithRetry_def split: prod.splits)
  note b = send_tries_bounds [OF s]
  have "1 + (max 1 (nopt_attempts opts) - 1) = max 1 (nopt_attempts opts)" by simp
  moreover have "err \<noteq> None \<longleftrightarrow> e \<noteq> None" by (simp add: e)
  ultimately show ?thesis using b e by metis
qed

theorem send_bounded_witness:
  "fst (sendWithRetry (sample_env\<lparr>env_mailFails := (\<lambda>n _. if n < 2 then Some ''busy'' else None)\<rparr>)
     \<lparr>ml_to = [''a@x''], ml_kind = MailRaise, ml_row = 1\<rparr> (sample_notify\<lparr>nopt_attempts := 3\<rparr>)) \<le> 3"
proof -
  obtain tries err where s: "sendWithRetry (sample_env\<lparr>env_mailFails := (\<lambda>n _. if n < 2 then Some ''busy'' else None)\<rparr>)
     \<lparr>ml_to = [''a@x''], ml_kind = MailRaise, ml_row = 1\<rparr> (sample_notify\<lparr>nopt_attempts := 3\<rparr>) = (tries, err)" by force
  from send_bounded [OF s] have "tries \<le> max 1 (nopt_attempts (sample_notify\<lparr>nopt_attempts := 3\<rparr>))" by blast
  with s show ?thesis by simp
qed

section \<open>Who is emailed\<close>

lemma remember_mail [simp]: "db_mail (remember env row out opts db) = db_mail db"
proof -
  have "db_mail (recordNotification i o2 n db) = db_mail db" for i o2 n
    by (auto simp: recordNotification_def replace_row_def split: option.splits)
  then show ?thesis
    by (auto simp: remember_def Let_def run_onChange_def split: option.splits sum.splits)
qed

lemma notifyTargets_mail:
  "db_mail (snd (notifyTargets env row event opts db)) = db_mail db \<or>
   (\<exists>m. db_mail (snd (notifyTargets env row event opts db)) = db_mail db @ [m] \<and> ml_to m = emailed env row (alerted env row event))"
proof -
  define told where "told = alerted env row event"
  define m where "m = \<lparr>ml_to = emailed env row told, ml_kind = event_mail event, ml_row = r_escalationId row\<rparr>"
  obtain out db1 where out: "send_outcome env row event opts db = (out, db1)" by force
  then have "db1 = db \<or> db1 = log_mail m db"
    unfolding send_outcome_def Let_def told_def [symmetric] m_def [symmetric]
    by (simp split: if_splits sum.splits prod.splits)
  moreover have "ml_to m = emailed env row told" by (simp add: m_def)
  ultimately show ?thesis
    using out unfolding notifyTargets_def told_def by (auto simp: log_mail_def)
qed

lemma emailed_from:
  assumes "a \<in> set (emailed env row told)"
  shows "may_be_told env row a"
proof (cases "told = []")
  case True
  with assms show ?thesis by (simp add: emailed_def targetAddresses_from)
next
  case False
  with assms obtain y where y: "y \<in> set (map du_email (filter (\<lambda>u. du_userId u \<notin> set told) (targetUsers row (env_users env))))"
    "resolveRecipient env y = Some a" by (auto simp: emailed_def elim: uniqueAddresses_mem)
  then obtain u where "person_told env row u" "y = du_email u" by (auto simp: targetUsers_person)
  with y(2) show ?thesis by (auto simp: may_be_told_def)
qed

lemma alerted_from: "i \<in> set (alerted env row event) \<Longrightarrow> \<exists>u. person_told env row u \<and> du_userId u = i"
  by (auto simp: alerted_def deliverUrgentAlerts_def targetUsers_person split: if_splits)

lemma emailed_once: "distinct (map js_lower (emailed env row told))"
  using unique_addresses_keys by (auto simp: emailed_def targetAddresses_def uniqueAddresses_def Let_def)

text \<open>C33: Who is told of an escalation: everyone alerted, and every address on its email, is an active person the row's
  level means who is not left out of it (\<open>excludedUserIds\<close>: the people its context leaves out, and the raiser, or the
  owner of the ladder); the one other source of addresses is the facilities managers' mailbox list, used only at
  their level, only when it reaches nobody with an address, and never for the raiser's own address (the list is of
  mailboxes, so someone else left out may read one). Every address is rewritten to the override if one is set, and no
  two addresses on an email differ only in case.\<close>

theorem told_people_allowed:
  assumes "db_mail (snd (notifyTargets env row event opts db)) = db_mail db @ [m]"
  shows "list_all (may_be_told env row) (ml_to m) \<and>
    list_all (\<lambda>i. \<exists>u. person_told env row u \<and> du_userId u = i) (alerted env row event) \<and>
    distinct (map js_lower (ml_to m))"
proof -
  from notifyTargets_mail [of env row event opts db] assms have "ml_to m = emailed env row (alerted env row event)" by auto
  then show ?thesis by (simp add: list_all_iff emailed_from emailed_once alerted_from)
qed

definition told_row :: esc_row where
  "told_row = new_row
     \<lparr>n_buildingId = None, n_context = None, n_dueAt = None, n_kind = Attention, n_lastFollowUpAt = None, n_level = 1,
      n_noIndependentTarget = False, n_note = None, n_notificationState = NotifyPending, n_parentEscalationId = None,
      n_policyKey = ''job.stalled'', n_raisedByKind = ByUser, n_raisedByName = ''Dee'', n_raisedByUserId = Some 3,
      n_reason = None, n_subjectId = ''12'', n_subjectType = ''job'', n_summary = ''Job #12'',
      n_targetRole = Some ''director'', n_targetUserId = None, n_urgent = False\<rparr> 1 0 0"

lemma told_sample:
  "db_mail (snd (notifyTargets (sample_env\<lparr>env_missingConfig := []\<rparr>) told_row Raised sample_notify (empty_db 0 ()))) =
     [\<lparr>ml_to = [''d2@x''], ml_kind = MailRaise, ml_row = 1\<rparr>]"
  by code_simp

theorem told_people_allowed_witness: "may_be_told (sample_env\<lparr>env_missingConfig := []\<rparr>) told_row ''d2@x''"
  using told_people_allowed [of "sample_env\<lparr>env_missingConfig := []\<rparr>" told_row Raised sample_notify "empty_db 0 ()"
      "\<lparr>ml_to = [''d2@x''], ml_kind = MailRaise, ml_row = 1\<rparr>"] told_sample
  by (simp add: empty_db_def)

section \<open>Retries\<close>

text \<open>The retries of a failed send back off: the wait doubles with each try from a quarter of an hour to at
  most eight hours, never shrinks, and there are at most six tries; a send that never started is retried after
  five minutes; nothing is retried once the escalation is picked up or closed.\<close>

theorem retry_schedule:
  assumes "1 \<le> tries"
  shows "RETRY_BASE_MS \<le> retryDelayMs tries \<and> retryDelayMs tries \<le> RETRY_MAX_MS \<and>
    retryDelayMs tries \<le> retryDelayMs (tries + 1) \<and>
    (tries \<le> MAX_NOTIFICATION_ATTEMPTS \<longrightarrow> retryDelayMs tries = RETRY_BASE_MS * 2 ^ nat (tries - 1)) \<and>
    (isRetryDue row now \<longrightarrow> r_status row = Open \<and>
      (r_notificationState row = NotifyPending \<or>
       r_notificationState row = NotifyFailed \<and> r_notificationAttempts row < MAX_NOTIFICATION_ATTEMPTS))"
proof -
  have one: "1 \<le> (2 :: int) ^ n" for n by simp
  have suc: "nat tries = Suc (nat (tries - 1))" using assms by simp
  have "tries = 1 \<or> tries = 2 \<or> tries = 3 \<or> tries = 4 \<or> tries = 5 \<or> tries = 6" if "tries \<le> 6" using assms that by linarith
  then have "tries \<le> MAX_NOTIFICATION_ATTEMPTS \<longrightarrow> retryDelayMs tries = RETRY_BASE_MS * 2 ^ nat (tries - 1)"
    by (auto simp: retryDelayMs_def RETRY_BASE_MS_def RETRY_MAX_MS_def MAX_NOTIFICATION_ATTEMPTS_def)
  moreover have "RETRY_BASE_MS \<le> retryDelayMs tries" "retryDelayMs tries \<le> RETRY_MAX_MS"
    using one by (simp_all add: retryDelayMs_def RETRY_BASE_MS_def RETRY_MAX_MS_def)
  moreover have "retryDelayMs tries \<le> retryDelayMs (tries + 1)"
    using assms suc
    by (simp add: retryDelayMs_def RETRY_BASE_MS_def max_def) (rule order_trans [OF min.cobounded2], simp)
  moreover have "isRetryDue row now \<longrightarrow> r_status row = Open \<and> (r_notificationState row = NotifyPending \<or>
       r_notificationState row = NotifyFailed \<and> r_notificationAttempts row < MAX_NOTIFICATION_ATTEMPTS)"
    by (auto simp: isRetryDue_def Let_def split: if_splits notification_state.splits)
  ultimately show ?thesis by blast
qed

theorem retry_schedule_witness: "retryDelayMs 6 = RETRY_MAX_MS"
proof -
  have "retryDelayMs 6 = RETRY_BASE_MS * 2 ^ nat (6 - 1)"
    using retry_schedule [of 6] by (simp add: MAX_NOTIFICATION_ATTEMPTS_def)
  then show ?thesis by (simp add: RETRY_BASE_MS_def RETRY_MAX_MS_def)
qed

end
