(* ===== verification/Engine_Correct.thy ===== *)
theory Engine_Correct
  imports Engine_Laws Notifier_Correct
begin

text \<open>
  The correctness of the escalation engine: what each operation writes, that a refused one writes nothing,
  and what holds of the database after any history of operations with any interference between the reads
  and the writes of one.
\<close>

section \<open>What one transition writes\<close>

text \<open>A transition that returns has replaced one row, kept the subject's flags and added one ledger row.\<close>

lemma applyChanges_Inr:
  assumes "ids_fresh db" "getEscalationRow (r_escalationId row) db = Some row" "applyChanges row changes db = (Inr u, db')"
  shows "db' = replace_row (r_escalationId row) (changed_row changes db row) db"
  using assms(3) updateEscalation_Inr(2) [OF assms(1,2)]
  by (auto simp: applyChanges_def act_then_Inr split: if_splits)

lemma replaced_lookup:
  assumes "ids_fresh db" "getEscalationRow i db = Some old" "r_escalationId row = i" "r_rowVersion row = db_nextVersion db"
  shows "getEscalationRow i (replace_row i row db) = Some row"
  using getEscalationRow_mem [OF replace_row_fresh [OF assms] replaced_mem(1) [OF assms(1-3)]] assms(3) by simp

definition after_transition :: "esc_row \<Rightarrow> esc_change list \<Rightarrow> 'f \<Rightarrow> ledger_entry \<Rightarrow> 'f esc_db \<Rightarrow> 'f esc_db" where
  "after_transition row changes flags entry db =
     (replace_row (r_escalationId row) (changed_row changes db row) db)
       \<lparr>db_flags := flags, db_ledger := db_ledger db @ [entry]\<rparr>"

lemma transition_Inr:
  assumes "ids_fresh db" "getEscalationRow (r_escalationId row) db = Some row"
    "transition env adapter row changes entry db = (Inr updated, db')"
  shows "updated = changed_row changes db row"
    "\<exists>flags. db' = after_transition row changes flags (entry updated) db"
proof -
  let ?db1 = "replace_row (r_escalationId row) (changed_row changes db row) db"
  have look: "getEscalationRow (r_escalationId row) ?db1 = Some (changed_row changes db row)"
    by (rule replaced_lookup [OF assms(1,2)]) simp_all
  from assms(3) obtain u where "applyChanges row changes db = (Inr u, ?db1)"
    and rest: "act_then (reload (r_escalationId row)) (\<lambda>updated.
      act_then (run_onChange adapter updated) (\<lambda>_. act_then (ledger_record env (entry updated)) (\<lambda>_. act_return updated))) ?db1 =
      (Inr updated, db')"
    unfolding transition_def by (auto simp: act_then_Inr dest: applyChanges_Inr [OF assms(1,2)])
  from rest look show "updated = changed_row changes db row"
    by (auto simp: act_then_Inr)
  with rest look show "\<exists>flags. db' = after_transition row changes flags (entry updated) db"
    by (auto simp: act_then_Inr run_onChange_def ledger_record_def after_transition_def split: sum.splits option.splits)
qed

lemma after_transition_sel [simp]:
  "db_rows (after_transition row changes flags entry db) = db_rows (replace_row (r_escalationId row) (changed_row changes db row) db)"
  "db_ledger (after_transition row changes flags entry db) = db_ledger db @ [entry]"
  "db_mail (after_transition row changes flags entry db) = db_mail db"
  "getEscalationRow i (after_transition row changes flags entry db) =
     getEscalationRow i (replace_row (r_escalationId row) (changed_row changes db row) db)"
  by (simp_all add: after_transition_def getEscalationRow_def replace_row_def)


text \<open>One transition, on record: a refusal changes nothing; a success changes the one row, keeping everything
  about it that was fixed when it was raised, and adds the one ledger row, with both images.\<close>

definition recorded :: "ledger_action \<Rightarrow> int \<Rightarrow> 'f esc_db \<Rightarrow> (esc_error + esc_row) \<times> 'f esc_db \<Rightarrow> bool" where
  "recorded action i db result \<longleftrightarrow>
     (case result of
        (Inl e, db') \<Rightarrow> db' = db
      | (Inr row, db') \<Rightarrow>
          getEscalationRow i db' = Some row \<and>
          (\<exists>old entry. getEscalationRow i db = Some old \<and> raised_part row = raised_part old \<and>
             db_ledger db' = db_ledger db @ [entry] \<and> lg_action entry = action \<and> lg_subjectId entry = i \<and>
             lg_before entry = BeforeRow (snapshot old) \<and> af_row (lg_after entry) = snapshot row) \<and>
          {r \<in> set (db_rows db'). r_escalationId r \<noteq> i} = {r \<in> set (db_rows db). r_escalationId r \<noteq> i})"

lemma recorded_Inl [simp]: "recorded action i db (Inl e, db') \<longleftrightarrow> db' = db"
  by (simp add: recorded_def)

lemma others_kept: "r_escalationId row = i \<Longrightarrow>
    {r \<in> set (db_rows (replace_row i row db)). r_escalationId r \<noteq> i} = {r \<in> set (db_rows db). r_escalationId r \<noteq> i}"
  by (auto simp: set_replace_row)

lemma recorded_transition:
  assumes "ids_fresh db" "getEscalationRow (r_escalationId row) db = Some row"
    and "db' = after_transition row changes flags entry db"
    and "lg_action entry = action" "lg_subjectId entry = r_escalationId row" "lg_before entry = BeforeRow (snapshot row)"
      "af_row (lg_after entry) = snapshot (changed_row changes db row)"
  shows "recorded action (r_escalationId row) db (Inr (changed_row changes db row), db')"
proof -
  have "getEscalationRow (r_escalationId row) db' = Some (changed_row changes db row)"
    unfolding assms(3) by (simp add: replaced_lookup [OF assms(1,2)])
  with assms others_kept [of "changed_row changes db row" "r_escalationId row" db] show ?thesis
    by (simp add: recorded_def)
qed


lemma ending_entry_sel [simp]:
  "lg_action (end_entry action actor adapter row code rule why correlation updated) = action"
  "lg_subjectId (end_entry action actor adapter row code rule why correlation updated) = r_escalationId updated"
  "lg_before (end_entry action actor adapter row code rule why correlation updated) = BeforeRow (snapshot row)"
  "af_row (lg_after (end_entry action actor adapter row code rule why correlation updated)) = snapshot updated"
  "lg_correlationId (end_entry action actor adapter row code rule why correlation updated) = correlation"
  by (simp_all add: end_entry_def ledgerEntry_def)






lemma acknowledge_work_Inr:
  assumes "ids_fresh db" "acknowledge_work env inp db = (Inr u, db')"
  shows "\<exists>row. getEscalationRow (ak_escalationId inp) db = Some row \<and>
    (if r_status row = Acknowledged
     then (\<exists>who. r_acknowledgedByUserId row = Some who \<and> actorUserId (ak_actor inp) = Some who) \<and> db' = db
     else r_status row = Open \<and> \<not> isDecisionRow row \<and> \<not> isNextStepRow row \<and>
       (\<exists>row'. recorded LedgerAcknowledge (ak_escalationId inp) db (Inr row', db') \<and> r_status row' = Acknowledged \<and>
         r_acknowledgedByUserId row' = actorUserId (ak_actor inp)))"
proof -
  from assms(2) obtain row where row: "getEscalationRow (ak_escalationId inp) db = Some row"
    unfolding acknowledge_work_def by (auto simp: act_then_Inr dest!: lockRow_Inr)
  note i = getEscalationRow_id [OF row]
  let ?changes = "[SetAcknowledgedAt (ak_now inp), SetAcknowledgedByName (actorName (ak_actor inp)),
    SetAcknowledgedByUserId (actorUserId (ak_actor inp)), SetStatus Acknowledged,
    SetTargetUserId (or_else_option (actorUserId (ak_actor inp)) (r_targetUserId row))]"
  show ?thesis
  proof (cases "r_status row = Acknowledged")
    case True
    with assms(2) row show ?thesis
      unfolding acknowledge_work_def
      by (cases "actorUserId (ak_actor inp)") (auto simp: act_then_Inr dest!: lockRow_Inr split: if_splits)
  next
    case False
    from assms(2) row obtain adapter updated where
      t: "transition env adapter row ?changes (\<lambda>updated. (ledgerEntry LedgerAcknowledge (ak_actor inp) updated adapter)
            \<lparr>lg_before := BeforeRow (snapshot row)\<rparr>) db = (Inr updated, db')"
      and st: "r_status row = Open" "\<not> isDecisionRow row" "\<not> isNextStepRow row"
      using False unfolding acknowledge_work_def by (auto simp: act_then_Inr dest!: lockRow_Inr split: if_splits)
    have get: "getEscalationRow (r_escalationId row) db = Some row" using row i by simp
    note u = transition_Inr [OF assms(1) get t]
    from u obtain flags where "db' = after_transition row ?changes flags ((ledgerEntry LedgerAcknowledge (ak_actor inp)
        (changed_row ?changes db row) adapter)\<lparr>lg_before := BeforeRow (snapshot row)\<rparr>) db" by blast
    from recorded_transition [OF assms(1) get this] i
    have "recorded LedgerAcknowledge (ak_escalationId inp) db (Inr (changed_row ?changes db row), db')"
      by (simp add: ledgerEntry_def)
    with False st row show ?thesis by (auto simp: changed_row_def)
  qed
qed

section \<open>Refusals and records\<close>



lemma notifyRaiserResolved_same [simp]:
  "db_rows (notifyRaiserResolved env row db) = db_rows db" "db_ledger (notifyRaiserResolved env row db) = db_ledger db"
  "getEscalationRow i (notifyRaiserResolved env row db) = getEscalationRow i db"
  by (simp_all add: notifyRaiserResolved_def send_once_def log_mail_def Let_def getEscalationRow_def)



section \<open>Sample requests and database\<close>

definition fay :: ledger_actor where "fay = UserActs ''Fay'' ''facilities_manager'' (Some 1)"
definition cleo :: ledger_actor where "cleo = UserActs ''Cleo'' ''cfo'' (Some 2)"

definition sample_raise :: "string \<Rightarrow> raise_input" where
  "sample_raise key =
     \<lparr>in_actor = fay, in_authorityRoute = [], in_buildingId = None, in_context = [], in_correlationId = None,
      in_dueAt = Some None, in_excludeUserIds = [], in_headline = None, in_ladderRaiser = None, in_note = None,
      in_notify = sample_notify, in_now = 0, in_policyKey = key, in_preferredUserId = None, in_reason = None,
      in_skipConditionCheck = False, in_startAtRole = None, in_subjectId = ''12'', in_subjectType = ''job'',
      in_summary = None, in_urgent = None, in_userTargets = []\<rparr>"

definition sample_ack :: acknowledge_input where
  "sample_ack = \<lparr>ak_actor = cleo, ak_escalationId = 1, ak_expectedRowVersion = None, ak_now = 5\<rparr>"

definition sample_end :: end_input where
  "sample_end = \<lparr>ed_actor = cleo, ed_code = None, ed_correlationId = None, ed_escalationId = 1,
     ed_expectedRowVersion = None, ed_note = Some ''done'', ed_now = 6\<rparr>"

text \<open>The database after Fay escalates a stalled job, or asks for an approval.\<close>

definition raised_db :: "string \<Rightarrow> unit esc_db" where
  "raised_db key = snd (raise_escalation sample_env id (sample_raise key) (empty_db 0 ()))"

text \<open>A database with one live escalation of each kind in it.\<close>

definition sample_new :: "string \<Rightarrow> esc_kind \<Rightarrow> new_escalation" where
  "sample_new key kind =
     \<lparr>n_buildingId = Some 9, n_context = None, n_dueAt = None, n_kind = kind, n_lastFollowUpAt = None, n_level = 1,
      n_noIndependentTarget = False, n_note = None, n_notificationState = NotifyPending, n_parentEscalationId = None,
      n_policyKey = key, n_raisedByKind = ByUser, n_raisedByName = ''Fay'', n_raisedByUserId = Some 1, n_reason = None,
      n_subjectId = ''12'', n_subjectType = ''job'', n_summary = ''Job #12'', n_targetRole = Some ''cfo'',
      n_targetUserId = None, n_urgent = False\<rparr>"

definition sample_db :: "unit esc_db" where
  "sample_db = snd (act_then (insertEscalation (sample_new ''job.stalled'' Attention))
     (\<lambda>_. insertEscalation (sample_new ''invoice.approval'' Authority)) (empty_db 0 ()))"

lemma sample_db_rows:
  "sample_db = (empty_db 0 ())\<lparr>db_rows := [new_row (sample_new ''job.stalled'' Attention) 1 0 0,
     new_row (sample_new ''invoice.approval'' Authority) 2 1 0], db_nextId := 3, db_nextVersion := 2\<rparr>"
  by (simp add: sample_db_def act_then_def insertEscalation_def empty_db_def sample_new_def new_row_def subject_key_def)

lemma sample_db_good: "db_good sample_db"
  by (simp add: sample_db_rows db_good_def ids_fresh_def one_live_def empty_db_def sample_new_def)

lemma sample_db_fresh: "ids_fresh sample_db"
  using sample_db_good by (rule good_fresh)

section \<open>Properties of the single operations\<close>



lemma acknowledge_cases:
  assumes "ids_fresh db" "acknowledge env inp db = (r, db')"
  shows "case r of
      Inl e \<Rightarrow> db' = db
    | Inr row \<Rightarrow> r_status row = Acknowledged \<and> getEscalationRow (ak_escalationId inp) db' = Some row \<and>
        r_acknowledgedByUserId row = actorUserId (ak_actor inp) \<and>
        (db' = db \<or> recorded LedgerAcknowledge (ak_escalationId inp) db (Inr row, db') \<and>
           (\<exists>old. getEscalationRow (ak_escalationId inp) db = Some old \<and> r_status old = Open \<and>
              \<not> isDecisionRow old \<and> \<not> isNextStepRow old))"
proof (cases "acknowledge_work env inp db")
  case (Pair w db1)
  show ?thesis
  proof (cases w)
    case (Inl e)
    with Pair assms(2) show ?thesis by (auto simp: acknowledge_def inTransaction_def act_then_def)
  next
    case (Inr u)
    from acknowledge_work_Inr [OF assms(1) Pair [unfolded Inr]] obtain old where
      old: "getEscalationRow (ak_escalationId inp) db = Some old" and
      c: "if r_status old = Acknowledged
        then (\<exists>who. r_acknowledgedByUserId old = Some who \<and> actorUserId (ak_actor inp) = Some who) \<and> db1 = db
        else r_status old = Open \<and> \<not> isDecisionRow old \<and> \<not> isNextStepRow old \<and>
          (\<exists>row'. recorded LedgerAcknowledge (ak_escalationId inp) db (Inr row', db1) \<and> r_status row' = Acknowledged \<and>
            r_acknowledgedByUserId row' = actorUserId (ak_actor inp))" by blast
    have out: "(r, db') = reload (ak_escalationId inp) db1"
      using assms(2) Pair Inr by (simp add: acknowledge_def inTransaction_def act_then_def)
    show ?thesis
    proof (cases "r_status old = Acknowledged")
      case True
      with c out old show ?thesis by (auto simp: reload_def)
    next
      case False
      with c obtain row' where row': "recorded LedgerAcknowledge (ak_escalationId inp) db (Inr row', db1)"
        "r_status row' = Acknowledged" "r_acknowledgedByUserId row' = actorUserId (ak_actor inp)" by auto
      then have "getEscalationRow (ak_escalationId inp) db1 = Some row'" by (simp add: recorded_def)
      with row' c out old False show ?thesis by (auto simp: reload_def)
    qed
  qed
qed

text \<open>Claiming an escalation either throws and changes nothing, or leaves the row acknowledged by the person
  who claimed it, with its ledger row; only an open row that is neither a decision request nor a next step can
  be newly claimed.\<close>

theorem acknowledge_recorded:
  assumes "ids_fresh db"
  shows "case acknowledge env inp db of
      (Inl e, db') \<Rightarrow> db' = db
    | (Inr row, db') \<Rightarrow> r_status row = Acknowledged \<and> r_acknowledgedByUserId row = actorUserId (ak_actor inp) \<and>
        (db' = db \<or> recorded LedgerAcknowledge (ak_escalationId inp) db (Inr row, db') \<and>
           (\<exists>old. getEscalationRow (ak_escalationId inp) db = Some old \<and> r_status old = Open \<and>
              \<not> isDecisionRow old \<and> \<not> isNextStepRow old))"
proof (cases "acknowledge env inp db")
  case (Pair r db')
  with acknowledge_cases [OF assms Pair] show ?thesis by (auto split: sum.splits)
qed

lemma sample_acknowledges:
  "(case acknowledge sample_env sample_ack sample_db of (Inr row, db') \<Rightarrow> r_status row = Acknowledged | (Inl e, db') \<Rightarrow> False)"
  by code_simp

theorem acknowledge_recorded_witness:
  "\<exists>row db'. acknowledge sample_env sample_ack sample_db = (Inr row, db') \<and> r_acknowledgedByUserId row = Some 2"
  using acknowledge_recorded [OF sample_db_fresh, where env = sample_env and inp = sample_ack] sample_acknowledges
  by (auto simp: sample_ack_def cleo_def split: prod.splits sum.splits)

text \<open>A claim is exclusive and repeating it is harmless: once somebody has it, the same person claiming again
  changes nothing, and anybody else is refused and changes nothing.\<close>

theorem acknowledge_again:
  assumes "ids_fresh db" "acknowledge env inp db = (Inr row, db')" "actorUserId (ak_actor inp) = Some who"
    and "ak_escalationId again = ak_escalationId inp"
      "ak_expectedRowVersion again \<in> {None, Some (r_rowVersion row)}"
  shows "acknowledge env' again db' =
    (if actorUserId (ak_actor again) = Some who then (Inr row, db') else (Inl (Escalation AlreadyAcknowledged), db'))"
proof -
  from acknowledge_cases [OF assms(1,2)] have row: "r_status row = Acknowledged"
    "getEscalationRow (ak_escalationId inp) db' = Some row" "r_acknowledgedByUserId row = Some who"
    using assms(3) by simp_all
  with assms(4,5) show ?thesis
    by (auto simp: acknowledge_def acknowledge_work_def inTransaction_def act_then_def lockRow_def reload_def)
qed

theorem acknowledge_again_witness:
  "\<exists>row db'. acknowledge sample_env sample_ack sample_db = (Inr row, db') \<and>
     acknowledge sample_env sample_ack db' = (Inr row, db') \<and>
     acknowledge sample_env (sample_ack\<lparr>ak_actor := fay\<rparr>) db' = (Inl (Escalation AlreadyAcknowledged), db')"
proof -
  obtain row db' where a: "acknowledge sample_env sample_ack sample_db = (Inr row, db')"
    using sample_acknowledges by (auto split: prod.splits sum.splits)
  have w: "actorUserId (ak_actor sample_ack) = Some 2" by (simp add: sample_ack_def cleo_def)
  have v: "ak_expectedRowVersion sample_ack = None" by (simp add: sample_ack_def)
  from acknowledge_again [OF sample_db_fresh a w, where again = sample_ack and env' = sample_env]
    acknowledge_again [OF sample_db_fresh a w, where again = "sample_ack\<lparr>ak_actor := fay\<rparr>" and env' = sample_env] a v
  show ?thesis by (simp add: w) (simp add: fay_def)
qed

text \<open>Who may end what: resolving refuses an authority escalation and a next step, auto-resolving refuses an
  authority escalation, withdrawing refuses a decision request and a next step, and nothing moves a closed
  row. Every refusal leaves the database as it was.\<close>

theorem manual_ends_refused:
  assumes "getEscalationRow i db = Some row" "ed_escalationId inp = i" "ak_escalationId claim = i"
  shows "(r_kind row = Authority \<or> isNextStepRow row \<or> \<not> is_live row \<longrightarrow> (\<exists>e. resolve env inp db = (Inl e, db))) \<and>
    (r_kind row = Authority \<or> \<not> is_live row \<longrightarrow> (\<exists>e. autoResolve env inp db = (Inl e, db))) \<and>
    (isDecisionRow row \<or> isNextStepRow row \<or> r_status row \<noteq> Open \<longrightarrow> (\<exists>e. withdraw env inp db = (Inl e, db))) \<and>
    (r_status row = Open \<and> (isDecisionRow row \<or> isNextStepRow row) \<or> \<not> is_live row \<longrightarrow>
       (\<exists>e. acknowledge env claim db = (Inl e, db)))"
proof -
  have t: "(\<exists>e. work db = (Inl e, db)) \<Longrightarrow> \<exists>e. act_then (inTransaction work) f db = (Inl e, db)"
    for work :: "('a, unit) act" and f :: "unit \<Rightarrow> ('a, esc_row) act"
    by (auto simp: inTransaction_def act_then_def)
  have "\<exists>e. resolve env inp db = (Inl e, db)" if "r_kind row = Authority \<or> isNextStepRow row \<or> \<not> is_live row"
  proof -
    have "\<exists>e. resolve_work env inp code why db = (Inl e, db)" for code why
      using assms that
      by (cases "requireAdapter env (r_subjectType row)")
         (auto simp: resolve_work_def act_then_def lockRow_def requireStatus_def is_live_def)
    then show ?thesis
      unfolding resolve_def Let_def
      by (cases "trimNote (ed_note inp)") (auto simp: act_then_def [of "act_lift r" for r] intro: t)
  qed
  moreover have "\<exists>e. autoResolve env inp db = (Inl e, db)" if "r_kind row = Authority \<or> \<not> is_live row"
    unfolding autoResolve_def
    by (rule t) (use assms that in \<open>auto simp: autoResolve_work_def act_then_def lockRow_def requireStatus_def is_live_def\<close>)
  moreover have "\<exists>e. withdraw env inp db = (Inl e, db)" if "isDecisionRow row \<or> isNextStepRow row \<or> r_status row \<noteq> Open"
  proof -
    have "\<exists>e. withdrawWork env inp why False db = (Inl e, db)" for why
      using assms that by (auto simp: withdrawWork_def act_then_def lockRow_def requireStatus_def)
    then show ?thesis
      unfolding withdraw_def
      by (cases "withdrawReason inp") (auto simp: act_then_def [of "act_lift r" for r] intro: t)
  qed
  moreover have "\<exists>e. acknowledge env claim db = (Inl e, db)"
    if "r_status row = Open \<and> (isDecisionRow row \<or> isNextStepRow row) \<or> \<not> is_live row"
    unfolding acknowledge_def
    by (rule t) (use assms that in \<open>auto simp: acknowledge_work_def act_then_def lockRow_def requireStatus_def
        is_live_def LIVE_STATUSES_def\<close>)
  ultimately show ?thesis by blast
qed

theorem manual_ends_refused_witness:
  "\<exists>e. resolve sample_env (sample_end\<lparr>ed_escalationId := 2\<rparr>) sample_db = (Inl e, sample_db)"
proof -
  have "getEscalationRow 2 sample_db = Some (new_row (sample_new ''invoice.approval'' Authority) 2 1 0)"
    by (simp add: sample_db_rows getEscalationRow_def)
  from manual_ends_refused [OF this, where inp = "sample_end\<lparr>ed_escalationId := 2\<rparr>" and claim = "sample_ack\<lparr>ak_escalationId := 2\<rparr>" and env = sample_env]
  show ?thesis by (simp add: sample_new_def)
qed

end
