(* ===== verification/Engine_History.thy ===== *)
theory Engine_History
  imports Engine_Correct
begin

text \<open>
  What holds of the escalation engine over whole operations and whole histories: raising, moving up the
  ladder, the subject's own ending, and any sequence of operations with any others in between the reads and
  the writes of one.
\<close>

section \<open>What is told to people changes nothing else\<close>

lemma notified_lookup:
  assumes "ids_fresh db" "getEscalationRow i db = Some row"
  obtains row' where "getEscalationRow i (snd (notifyTargets env r event opts db)) = Some row'"
    "decided_part row' = decided_part row"
  by (rule told_only_lookup [OF told.notifyTargets_act [OF told_only_refl [OF assms(1)]] assms])

lemma snapshot_decided: "decided_part r = decided_part r' \<Longrightarrow> snapshot r = snapshot r'"
proof -
  assume d: "decided_part r = decided_part r'"
  have "snapshot (decided_part x) = snapshot x" for x by (simp add: snapshot_def decided_part_def)
  with d show ?thesis by metis
qed

section \<open>Raising\<close>

definition after_raise :: "new_escalation \<Rightarrow> 'f \<Rightarrow> (esc_row \<Rightarrow> ledger_entry) \<Rightarrow> 'f esc_db \<Rightarrow> 'f esc_db" where
  "after_raise n flags entry db =
     (let row = new_row n (db_nextId db) (db_nextVersion db) (db_clock db)
      in db\<lparr>db_rows := db_rows db @ [row], db_nextId := db_nextId db + 1, db_nextVersion := db_nextVersion db + 1,
           db_flags := flags, db_ledger := db_ledger db @ [entry row]\<rparr>)"

lemma new_row_flag [simp]: "r_noIndependentTarget (new_row n i v t) = n_noIndependentTarget n"
  by (simp add: new_row_def)

lemma new_row_found:
  assumes "ids_fresh db" "insertEscalation n db = (Inr i, db')"
  shows "getEscalationRow i db' = Some (new_row n (db_nextId db) (db_nextVersion db) (db_clock db))"
  using getEscalationRow_mem [OF insert_fresh [OF assms], of "new_row n (db_nextId db) (db_nextVersion db) (db_clock db)"]
    insertEscalation_Inr(1,2) [OF assms(2)] by simp

lemma writeRaise_Inr:
  assumes "ids_fresh db" "writeRaise env inp plan db = (Inr row, db')"
  shows "row = new_row (pl_values plan) (db_nextId db) (db_nextVersion db) (db_clock db)"
    "\<exists>flags. db' = after_raise (pl_values plan) flags (raise_entry inp plan) db"
    "ids_fresh db'" "getEscalationRow (db_nextId db) db' = Some row"
proof -
  let ?n = "pl_values plan" and ?row = "new_row (pl_values plan) (db_nextId db) (db_nextVersion db) (db_clock db)"
  from assms(2) obtain i db1 where ins: "insertEscalation ?n db = (Inr i, db1)"
    and rest: "act_then (reload i) (\<lambda>inserted. act_then (run_onChange (pl_adapter plan) inserted) (\<lambda>_.
      act_then (ledger_record env (raise_entry inp plan inserted)) (\<lambda>_. act_return inserted))) db1 = (Inr row, db')"
    unfolding writeRaise_def by (auto simp: act_then_Inr)
  have found: "getEscalationRow i db1 = Some ?row" by (rule new_row_found [OF assms(1) ins])
  have db1: "db1 = db\<lparr>db_rows := db_rows db @ [?row], db_nextId := db_nextId db + 1, db_nextVersion := db_nextVersion db + 1\<rparr>"
    using ins by (auto simp: insertEscalation_def Let_def split: if_splits)
  from rest found show row: "row = ?row" by (auto simp: act_then_Inr)
  from rest found have d: "\<exists>flags. db' = db1\<lparr>db_flags := flags, db_ledger := db_ledger db1 @ [raise_entry inp plan ?row]\<rparr>"
    by (auto simp: act_then_Inr run_onChange_def ledger_record_def split: sum.splits option.splits)
  then show "\<exists>flags. db' = after_raise (pl_values plan) flags (raise_entry inp plan) db"
    by (auto simp: db1 after_raise_def Let_def)
  from d insert_fresh [OF assms(1) ins] show fresh: "ids_fresh db'" by (auto simp: ids_fresh_def)
  have "?row \<in> set (db_rows db')" using d by (auto simp: db1)
  from getEscalationRow_mem [OF fresh this] row show "getEscalationRow (db_nextId db) db' = Some row" by simp
qed

text \<open>What another request may do between the reads and the writes of one: it keeps the history.\<close>

definition interference :: "('f esc_db \<Rightarrow> 'f esc_db) \<Rightarrow> bool" where
  "interference meanwhile \<longleftrightarrow> (\<forall>d. ids_fresh d \<longrightarrow> history_kept d (meanwhile d))"

lemma interferenceD: "interference meanwhile \<Longrightarrow> ids_fresh d \<Longrightarrow> ids_fresh (meanwhile d)"
  by (simp add: interference_def history_kept_def)

lemma interference_id: "interference id"
  by (simp add: interference_def history_kept_refl)

text \<open>A policy is found by its key.\<close>

definition policies_keyed :: "'f esc_env \<Rightarrow> bool" where
  "policies_keyed env \<longleftrightarrow> (\<forall>key now p. env_policy env key now = Some p \<longrightarrow> p_policyKey p = key)"

text \<open>The row that a raise plans to write is for what was asked.\<close>

definition asked_key :: "raise_input \<Rightarrow> string \<times> string \<times> string" where
  "asked_key inp = (in_subjectType inp, in_subjectId inp, in_policyKey inp)"

lemma findLive_Some: "findLiveEscalation ty sid pk db = Some row \<Longrightarrow>
    row \<in> set (db_rows db) \<and> is_live row \<and> subject_key row = (ty, sid, pk)"
  by (auto simp: findLiveEscalation_def find_Some_iff)

lemma planRaise_Inr:
  assumes "planRaise env inp db = Inr r"
    and "policies_keyed env"
  shows "(case r of
      Inl existing \<Rightarrow> findLiveEscalation (in_subjectType inp) (in_subjectId inp) (in_policyKey inp) db = Some existing
    | Inr plan \<Rightarrow> (n_subjectType (pl_values plan), n_subjectId (pl_values plan), n_policyKey (pl_values plan)) = asked_key inp)"
proof -
  from assms(1) obtain policy adapter subject where c: "raise_checks env inp db = Inr (policy, adapter, subject)"
    and r: "(case findLiveEscalation (in_subjectType inp) (in_subjectId inp) (in_policyKey inp) db of
         Some existing \<Rightarrow> Inr (Inl existing)
       | None \<Rightarrow> and_then (plan_target env policy inp) (\<lambda>target. and_then (plan_values env policy inp subject target)
           (\<lambda>values. Inr (Inr \<lparr>pl_adapter = adapter, pl_target = target, pl_values = values\<rparr>)))) = Inr r"
    by (auto simp: planRaise_def and_then_Inr_iff)
  from c have "env_policy env (in_policyKey inp) (in_now inp) = Some policy"
    by (auto simp: raise_checks_def and_then_Inr_iff split: option.splits if_splits)
  then have key: "p_policyKey policy = in_policyKey inp" using assms(2) by (simp add: policies_keyed_def)
  show ?thesis
  proof (cases "findLiveEscalation (in_subjectType inp) (in_subjectId inp) (in_policyKey inp) db")
    case None
    with r key show ?thesis
      by (auto simp: and_then_Inr_iff plan_values_def raise_values_def asked_key_def split: sum.splits)
  next
    case (Some existing)
    with r show ?thesis by auto
  qed
qed

lemma announced:
  assumes "ids_fresh db" "getEscalationRow (r_escalationId row) db = Some row" "announceRaise env inp row db = (r, db')"
  obtains row' where "r = Inr row'" "decided_part row' = decided_part row" "told_only db db'"
    "getEscalationRow (r_escalationId row) db' = Some row'"
proof -
  let ?db1 = "snd (notifyTargets env row Raised (in_notify inp) db)"
  obtain row' where row': "getEscalationRow (r_escalationId row) ?db1 = Some row'" "decided_part row' = decided_part row"
    by (rule notified_lookup [OF assms(1,2)])
  from assms(3) row'(1) have "r = Inr row'" "db' = ?db1" by (auto simp: announceRaise_def reload_def)
  with row' told.notifyTargets_act [OF told_only_refl [OF assms(1)]] that show ?thesis by blast
qed

text \<open>C20: What raising returns is always live and for what was asked. Either it was created: the database the
  transaction found has gained that one open row and one ledger row holding it, and nothing else about any
  row changed but the record of sends; or an escalation for the same subject and policy was already live,
  here or by the time of the insert, and nothing was written.\<close>

theorem raise_outcome:
  assumes "policies_keyed env" "interference meanwhile" "ids_fresh db"
    and "raise_escalation env meanwhile inp db = (Inr res, db')"
  shows "is_live (rr_escalation res) \<and> subject_key (rr_escalation res) = asked_key inp \<and>
    rr_escalation res \<in> set (db_rows db') \<and>
    (if rr_created res
     then r_status (rr_escalation res) = Open \<and>
       map decided_part (db_rows db') = map decided_part (db_rows (meanwhile db)) @ [decided_part (rr_escalation res)] \<and>
       (\<exists>entry. db_ledger db' = db_ledger (meanwhile db) @ [entry] \<and> lg_action entry = LedgerRaise \<and>
          lg_subjectId entry = r_escalationId (rr_escalation res) \<and> af_row (lg_after entry) = snapshot (rr_escalation res))
     else db' \<in> {db, meanwhile db})"
proof -
  from assms(4) obtain r where p: "planRaise env inp db = Inr r"
    by (auto simp: raise_escalation_def split: sum.splits)
  note planned = planRaise_Inr [OF p assms(1)]
  have fresh: "ids_fresh (meanwhile db)" by (rule interferenceD [OF assms(2,3)])
  show ?thesis
  proof (cases r)
    case (Inl existing)
    with p assms(4) planned show ?thesis
      by (auto simp: raise_escalation_def asked_key_def dest: findLive_Some)
  next
    case plan: (Inr plan)
    show ?thesis
    proof (cases "writeRaise env inp plan (meanwhile db)")
      case (Pair w db1)
      show ?thesis
      proof (cases w)
        case (Inl e)
        with Pair p plan assms(4) show ?thesis
          by (auto simp: raise_escalation_def inTransaction_def asked_key_def split: if_splits option.splits dest!: findLive_Some)
      next
        case (Inr row)
        note w = writeRaise_Inr [OF fresh Pair [unfolded Inr]]
        have id: "r_escalationId row = db_nextId (meanwhile db)" using w(1) by simp
        obtain a db2 where a: "announceRaise env inp row db1 = (a, db2)" by force
        from announced [OF w(3) _ a] w(4) id obtain row' where row': "a = Inr row'" "decided_part row' = decided_part row"
          "told_only db1 db2" "getEscalationRow (r_escalationId row) db2 = Some row'" by auto
        from p plan Pair Inr a row'(1) assms(4) have res: "res = \<lparr>rr_created = True, rr_escalation = row'\<rparr>" "db' = db2"
          by (auto simp: raise_escalation_def inTransaction_def act_then_def)
        note same = decided_part_same [OF row'(2)]
        from w(2) have db1: "db_rows db1 = db_rows (meanwhile db) @ [row]"
          "db_ledger db1 = db_ledger (meanwhile db) @ [raise_entry inp plan row]"
          by (auto simp: after_raise_def Let_def w(1))
        have "row' \<in> set (db_rows db2)" using getEscalationRow_Some [OF row'(4)] by simp
        moreover have "af_row (lg_after (raise_entry inp plan row)) = snapshot row'"
          using snapshot_decided [OF row'(2)] by (simp add: raise_entry_def ledgerEntry_def Let_def)
        moreover have "lg_action (raise_entry inp plan row) = LedgerRaise" "lg_subjectId (raise_entry inp plan row) = r_escalationId row"
          by (simp_all add: raise_entry_def ledgerEntry_def Let_def)
        ultimately show ?thesis
          using res row' same w(1) db1 planned plan by (simp add: told_only_def)
      qed
    qed
  qed
qed

lemma sample_policies_keyed: "policies_keyed sample_env"
  by (simp add: policies_keyed_def sample_env_def sample_policy_def)

lemma empty_db_fresh: "ids_fresh (empty_db now flags)"
  by (simp add: ids_fresh_def empty_db_def)

lemma sample_raises:
  "case raise_escalation sample_env id (sample_raise ''job.stalled'') (empty_db 0 ()) of
     (Inr res, db') \<Rightarrow> rr_created res | (Inl e, db') \<Rightarrow> False"
  by code_simp

theorem raise_outcome_witness:
  "\<exists>res db'. raise_escalation sample_env id (sample_raise ''job.stalled'') (empty_db 0 ()) = (Inr res, db') \<and>
     r_status (rr_escalation res) = Open \<and> map decided_part (db_rows db') = [decided_part (rr_escalation res)]"
proof -
  obtain res db' where r: "raise_escalation sample_env id (sample_raise ''job.stalled'') (empty_db 0 ()) = (Inr res, db')"
    "rr_created res"
    using sample_raises by (auto split: prod.splits sum.splits)
  from raise_outcome [OF sample_policies_keyed interference_id empty_db_fresh r(1)] r show ?thesis
    by (auto simp: empty_db_def)
qed

section \<open>Moving up the ladder\<close>

lemma lockRow_iff: "lockRow i v db = (Inr row, db') \<longleftrightarrow>
    db' = db \<and> getEscalationRow i db = Some row \<and> (v = None \<or> v = Some (r_rowVersion row))"
  by (auto simp: lockRow_def split: option.splits if_splits)

lemma ledger_record_Inr: "ledger_record env e db = (Inr u, db') \<longleftrightarrow> env_ledgerFails env e = None \<and> db' = db\<lparr>db_ledger := db_ledger db @ [e]\<rparr>"
  by (auto simp: ledger_record_def split: option.splits)

lemma run_onChange_Inr: "run_onChange adapter row db = (Inr u, db') \<Longrightarrow> \<exists>flags. db' = db\<lparr>db_flags := flags\<rparr>"
  by (auto simp: run_onChange_def split: sum.splits)

definition superseding :: "further_input \<Rightarrow> further_plan \<Rightarrow> esc_change list" where
  "superseding inp plan = ending (fu_actor inp) (supersede_text (fp_code plan))
     (or_else_option (fp_note plan) (Some (fp_reason plan))) (fu_now inp) Superseded"

lemma superseding_status [simp]: "r_status (fold apply_change (superseding inp plan) row) = Superseded"
  by (simp add: superseding_def ending_def)

lemma further_work_Inr:
  assumes "ids_fresh db" "further_work env inp plan adapter db = (Inr (created, old), db')"
  obtains locked due where "getEscalationRow (fu_escalationId inp) db = Some locked"
    "r_level locked = r_level (fp_seen plan)" "r_status locked \<in> set (if fu_onlyIfOpen inp then [Open] else LIVE_STATUSES)"
    "old = changed_row (superseding inp plan) db locked" "r_parentEscalationId created = Some (fu_escalationId inp)"
    "created = new_row (further_values inp plan locked due) (db_nextId db) (db_nextVersion db + 1) (db_clock db)"
    "db_rows db' = db_rows (replace_row (fu_escalationId inp) old db) @ [created]" "ids_fresh db'"
    "db_ledger db' = db_ledger db @ [superseded_entry env inp plan adapter locked (r_escalationId created) old,
       further_entry env inp plan adapter locked created]"
proof -
  from assms(2) obtain locked db1 due i db2 db3 db4 where
    get: "getEscalationRow (fu_escalationId inp) db = Some locked"
    and st: "r_level locked = r_level (fp_seen plan)" "r_status locked \<in> set (if fu_onlyIfOpen inp then [Open] else LIVE_STATUSES)"
    and upd: "applyChanges locked (superseding inp plan) db = (Inr (), db1)"
    and ins: "insertEscalation (further_values inp plan locked due) db1 = (Inr i, db2)"
    and rest: "getEscalationRow (r_escalationId locked) db2 = Some old" "getEscalationRow i db2 = Some created"
       "run_onChange adapter created db2 = (Inr (), db3)"
       "ledger_record env (superseded_entry env inp plan adapter locked i old) db3 = (Inr (), db4)"
       "ledger_record env (further_entry env inp plan adapter locked created) db4 = (Inr (), db')"
    unfolding further_work_def superseding_def
    by (auto simp: act_then_Inr lockRow_iff split: if_splits)
  have id: "r_escalationId locked = fu_escalationId inp" by (rule getEscalationRow_id [OF get])
  let ?old = "changed_row (superseding inp plan) db locked"
  have look: "getEscalationRow (r_escalationId locked) db = Some locked" using get id by simp
  have db1: "db1 = replace_row (r_escalationId locked) ?old db" by (rule applyChanges_Inr [OF assms(1) look upd])
  have f1: "ids_fresh db1" unfolding db1 by (rule replace_row_fresh [OF assms(1) look]) simp_all
  note i = insertEscalation_Inr [OF ins]
  have f2: "ids_fresh db2" by (rule insert_fresh [OF f1 ins])
  let ?new = "new_row (further_values inp plan locked due) (db_nextId db) (db_nextVersion db + 1) (db_clock db)"
  have new: "getEscalationRow i db2 = Some ?new" using new_row_found [OF f1 ins] by (simp add: db1 replace_row_def)
  have "?old \<in> set (db_rows db2)" using i(2) replaced_mem(1) [OF assms(1) look, of ?old] by (simp add: db1)
  from getEscalationRow_mem [OF f2 this] have old: "getEscalationRow (r_escalationId locked) db2 = Some ?old" by simp
  from rest old new have c: "created = ?new" "old = ?old" by simp_all
  from rest c obtain flags where db': "db' = db2\<lparr>db_flags := flags, db_ledger := db_ledger db2 @
      [superseded_entry env inp plan adapter locked i ?old, further_entry env inp plan adapter locked ?new]\<rparr>"
    by (auto simp: ledger_record_Inr dest!: run_onChange_Inr)
  have idi: "i = r_escalationId created" using i(1) by (simp add: c db1)
  show ?thesis
  proof (rule that)
    show "getEscalationRow (fu_escalationId inp) db = Some locked" using get by simp
    show "r_parentEscalationId created = Some (fu_escalationId inp)" by (simp add: c further_values_def Let_def id)
    show "db_rows db' = db_rows (replace_row (fu_escalationId inp) old db) @ [created]"
      using i(2) by (simp add: db' c db1 id i(1)) (simp add: replace_row_def)
    show "ids_fresh db'" using f2 by (simp add: db' ids_fresh_def)
    show "db_ledger db' = db_ledger db @ [superseded_entry env inp plan adapter locked (r_escalationId created) old,
       further_entry env inp plan adapter locked created]"
      using i(5) idi c by (simp add: db' db1)
  qed (use st c in auto)
qed

lemma plan_further_Inr:
  assumes "plan_further env inp db = Inr (plan, adapter)" "fu_mode inp = NextLevel"
  shows "r_level (fp_seen plan) < int (rt_level (fp_target plan)) \<and> \<not> rt_noIndependentTarget (fp_target plan)"
proof -
  from assms(1) obtain policy target where
    r: "resolveFurther env (fp_seen plan) policy (fu_mode inp) (fu_authorityRoute inp) (fu_preferredUserId inp) = Inr (Some target)"
    and t: "fp_target plan = target"
    by (auto simp: plan_further_def map_error_def and_then_Inr_iff split: option.splits if_splits sum.splits)
  from resolveTarget_level [OF r [unfolded resolveFurther_def]] assms(2)
  have "nat (r_level (fp_seen plan) + 1) \<le> rt_level target \<and> \<not> rt_noIndependentTarget target"
    by (simp add: further_resolve_input_def ri_from_def)
  with t show ?thesis by auto
qed

lemma superseding_moves_on: "is_live row \<Longrightarrow> moves_on row (superseding inp plan)"
  unfolding superseding_def by (rule moves_on_ending) simp_all

text \<open>What the emails after a move up leave: the same rows and ledger.\<close>

lemma further_told:
  assumes "ids_fresh db1" "getEscalationRow (r_escalationId created) db1 = Some created"
    and "(case (created, old) of (next, previous) \<Rightarrow>
            let event = (if fp_code plan = CodeFollowUp then FollowUp else if fu_mode inp = SameLevel then Reminder else Supersede)
            in (\<lambda>db1.
              let db2 = snd (notifyTargets env next event (fu_notify inp) db1);
                  db3 = (if fu_mode inp = NextLevel then notifyPreviousLevel env previous next db2 else db2)
              in act_then (reload (r_escalationId next)) (\<lambda>now_next. act_return (now_next, previous)) db3)) db1 =
         (Inr (next, previous), db')"
  shows "told_only db1 db'" "decided_part next = decided_part created" "previous = old" "next \<in> set (db_rows db')"
proof -
  obtain db3 where told3: "told_only db1 db3" and out: "reload (r_escalationId created) db3 = (Inr next, db')" "previous = old"
  proof -
    from assms(3) have "\<exists>db3. told_only db1 db3 \<and> reload (r_escalationId created) db3 = (Inr next, db') \<and> previous = old"
      by (cases "fu_mode inp")
         (auto simp: Let_def act_then_Inr intro!: told.notifyPreviousLevel_act told.notifyTargets_act told_only_refl [OF assms(1)])
    with that show ?thesis by blast
  qed
  from told_only_lookup [OF told3 assms(1,2)] obtain r where
    "getEscalationRow (r_escalationId created) db3 = Some r" "decided_part r = decided_part created" .
  with out told3 show "told_only db1 db'" "decided_part next = decided_part created" "previous = old" "next \<in> set (db_rows db')"
    using getEscalationRow_Some [of "r_escalationId created" db3 r] by (simp_all add: reload_def)
qed

text \<open>C26: Moving an escalation up supersedes exactly one live row by exactly one open row: the old row keeps
  everything it was raised with, the new one is its child, for the same subject, policy and kind, and, when it
  moved up, strictly higher on the ladder with somebody independent to look at it. The two ledger rows share
  one correlation id, and the first names the second's row.\<close>

theorem further_outcome:
  assumes "interference meanwhile" "ids_fresh db" "escalateFurther env meanwhile inp db = (Inr (next, previous), db')"
  shows "\<exists>old e1 e2. getEscalationRow (fu_escalationId inp) (meanwhile db) = Some old \<and> is_live old \<and>
    (fu_onlyIfOpen inp \<longrightarrow> r_status old = Open) \<and>
    r_status previous = Superseded \<and> raised_part previous = raised_part old \<and>
    r_status next = Open \<and> r_parentEscalationId next = Some (fu_escalationId inp) \<and> subject_key next = subject_key old \<and>
    r_kind next = r_kind old \<and>
    (fu_mode inp = NextLevel \<longrightarrow> r_level old < r_level next \<and> \<not> r_noIndependentTarget next) \<and>
    map decided_part (db_rows db') =
       map decided_part (db_rows (replace_row (fu_escalationId inp) previous (meanwhile db))) @ [decided_part next] \<and>
    db_ledger db' = db_ledger (meanwhile db) @ [e1, e2] \<and> lg_action e1 = LedgerSupersede \<and> lg_action e2 = LedgerRaise \<and>
    lg_correlationId e1 = lg_correlationId e2 \<and> af_supersededBy (lg_after e1) = Some (r_escalationId next) \<and>
    af_row (lg_after e1) = snapshot previous \<and> af_row (lg_after e2) = snapshot next"
proof -
  from assms(3) obtain plan adapter where p: "plan_further env inp db = Inr (plan, adapter)"
    by (auto simp: escalateFurther_def split: sum.splits)
  have fresh: "ids_fresh (meanwhile db)" by (rule interferenceD [OF assms(1,2)])
  from assms(3) p obtain created old1 db1 where
    work: "further_work env inp plan adapter (meanwhile db) = (Inr (created, old1), db1)" and
    rest: "(case (created, old1) of (next, previous) \<Rightarrow>
            let event = (if fp_code plan = CodeFollowUp then FollowUp else if fu_mode inp = SameLevel then Reminder else Supersede)
            in (\<lambda>db1.
              let db2 = snd (notifyTargets env next event (fu_notify inp) db1);
                  db3 = (if fu_mode inp = NextLevel then notifyPreviousLevel env previous next db2 else db2)
              in act_then (reload (r_escalationId next)) (\<lambda>now_next. act_return (now_next, previous)) db3)) db1 =
         (Inr (next, previous), db')"
    unfolding escalateFurther_def by (auto simp: act_then_Inr)
  from further_work_Inr [OF fresh work] obtain locked due where
    w: "getEscalationRow (fu_escalationId inp) (meanwhile db) = Some locked" "r_level locked = r_level (fp_seen plan)"
      "r_status locked \<in> set (if fu_onlyIfOpen inp then [Open] else LIVE_STATUSES)"
      "old1 = changed_row (superseding inp plan) (meanwhile db) locked" "r_parentEscalationId created = Some (fu_escalationId inp)"
      "created = new_row (further_values inp plan locked due) (db_nextId (meanwhile db)) (db_nextVersion (meanwhile db) + 1)
         (db_clock (meanwhile db))"
      "db_rows db1 = db_rows (replace_row (fu_escalationId inp) old1 (meanwhile db)) @ [created]" "ids_fresh db1"
      "db_ledger db1 = db_ledger (meanwhile db) @ [superseded_entry env inp plan adapter locked (r_escalationId created) old1,
         further_entry env inp plan adapter locked created]" .
  have "created \<in> set (db_rows db1)" by (simp add: w(7))
  from getEscalationRow_mem [OF w(8) this] have "getEscalationRow (r_escalationId created) db1 = Some created" .
  note told1 = further_told [OF w(8) this rest]
  note same = decided_part_same [OF told1(2)] and snap = snapshot_decided [OF told1(2)]
  have dec: "r_parentEscalationId next = r_parentEscalationId created \<and> r_kind next = r_kind created \<and>
      r_level next = r_level created \<and> r_noIndependentTarget next = r_noIndependentTarget created"
  proof -
    have "r_parentEscalationId (decided_part x) = r_parentEscalationId x \<and> r_kind (decided_part x) = r_kind x \<and>
        r_level (decided_part x) = r_level x \<and> r_noIndependentTarget (decided_part x) = r_noIndependentTarget x" for x
      by (simp add: decided_part_def)
    with told1(2) show ?thesis by metis
  qed
  have vals: "subject_key created = subject_key locked" "r_kind created = r_kind locked" "r_level created = int (rt_level (fp_target plan))"
      "r_noIndependentTarget created = rt_noIndependentTarget (fp_target plan)" "r_status created = Open"
    by (simp_all add: w(6) further_values_def Let_def subject_key_def [of locked])
  have up: "fu_mode inp = NextLevel \<Longrightarrow> r_level locked < r_level next \<and> \<not> r_noIndependentTarget next"
    using plan_further_Inr [OF p] dec vals w(2) by simp
  have "map decided_part (db_rows db') =
       map decided_part (db_rows (replace_row (fu_escalationId inp) previous (meanwhile db))) @ [decided_part next]"
    using told1(1-3) w(7) by (simp add: told_only_def)
  moreover have "db_ledger db' = db_ledger (meanwhile db) @
       [superseded_entry env inp plan adapter locked (r_escalationId created) old1, further_entry env inp plan adapter locked created]"
    using told1(1) w(9) by (simp add: told_only_def)
  moreover have "is_live locked" "fu_onlyIfOpen inp \<longrightarrow> r_status locked = Open"
    using w(3) by (auto simp: is_live_def LIVE_STATUSES_def split: if_splits)
  moreover have "r_status previous = Superseded" "raised_part previous = raised_part locked"
    using told1(3) w(4) by simp_all
  moreover have "r_status next = Open" "r_parentEscalationId next = Some (fu_escalationId inp)"
    "subject_key next = subject_key locked" "r_kind next = r_kind locked"
    using same dec vals w(5) by simp_all
  ultimately show ?thesis
    using w(1) up snap told1(3) same(5)
    by (intro exI [of _ locked] exI [of _ "superseded_entry env inp plan adapter locked (r_escalationId created) old1"]
        exI [of _ "further_entry env inp plan adapter locked created"])
       (simp add: superseded_entry_def further_entry_def ledgerEntry_def Let_def)
qed

definition sample_further :: further_input where
  "sample_further =
     \<lparr>fu_actor = fay, fu_authorityRoute = [], fu_code = None, fu_escalationId = 1, fu_expectedRowVersion = None,
      fu_mode = NextLevel, fu_note = None, fu_notify = sample_notify, fu_now = 7, fu_onlyIfOpen = False,
      fu_preferredUserId = None\<rparr>"

lemma sample_moves_up:
  "case escalateFurther sample_env id sample_further sample_db of (Inr rows, db') \<Rightarrow> True | (Inl e, db') \<Rightarrow> False"
  by code_simp

theorem further_outcome_witness:
  "\<exists>next previous db'. escalateFurther sample_env id sample_further sample_db = (Inr (next, previous), db') \<and>
     r_status previous = Superseded \<and> r_parentEscalationId next = Some 1 \<and> 1 < r_level next"
proof -
  obtain upper lower db' where e: "escalateFurther sample_env id sample_further sample_db = (Inr (upper, lower), db')"
    using sample_moves_up by (auto split: prod.splits sum.splits)
  have old: "getEscalationRow 1 sample_db = Some (new_row (sample_new ''job.stalled'' Attention) 1 0 0)"
    by (simp add: sample_db_rows getEscalationRow_def)
  have one: "r_level (new_row (sample_new ''job.stalled'' Attention) 1 0 0) = 1" by (simp add: sample_new_def)
  from further_outcome [OF interference_id sample_db_fresh e] e old one show ?thesis
    by (auto simp: sample_further_def)
qed

section \<open>The subject's own ending\<close>

text \<open>Every row a run of endings was given is closed when it returns.\<close>

lemma conclude_work_Inr:
  assumes "ids_fresh db" "conclude_work env inp why w i db = (Inr res, db')"
  shows "\<exists>r. getEscalationRow i db' = Some r \<and> \<not> is_live r"
proof -
  from assms(2) obtain row where row: "getEscalationRow i db = Some row" "r_escalationId row = i"
    unfolding conclude_work_def by (auto simp: act_then_Inr lockRow_iff dest: getEscalationRow_id)
  show ?thesis
  proof (cases "is_live row")
    case False
    with assms(2) row show ?thesis
      by (auto simp: conclude_work_def act_then_Inr lockRow_iff is_live_def split: if_splits)
  next
    case True
    let ?st = "if w \<and> r_status row = Open then Withdrawn else Resolved"
    let ?changes = "ending (co_actor inp) (co_code inp) why (co_now inp) ?st"
    have get: "getEscalationRow (r_escalationId row) db = Some row" using row by simp
    from assms(2) row True obtain adapter entry updated where
      "transition env adapter row ?changes entry db = (Inr updated, db')"
      by (auto simp: conclude_work_def act_then_Inr lockRow_iff live_iff Let_def split: if_splits)
    note t = transition_Inr [OF assms(1) get this]
    then obtain flags where db': "db' = after_transition row ?changes flags (entry updated) db" by blast
    have "getEscalationRow i db' = Some (changed_row ?changes db row)"
      unfolding db' using replaced_lookup [OF assms(1) get, of "changed_row ?changes db row"] row(2) by simp
    moreover have "\<not> is_live (changed_row ?changes db row)"
      by (simp add: is_live_def LIVE_STATUSES_def ending_def)
    ultimately show ?thesis by blast
  qed
qed

lemma history_closed:
  assumes "history_kept db0 db" "ids_fresh db0" "getEscalationRow i db0 = Some r0" "\<not> is_live r0"
  shows "\<exists>r. getEscalationRow i db = Some r \<and> \<not> is_live r"
proof -
  note m = getEscalationRow_Some [OF assms(3)]
  from assms(1) m obtain r where r: "r \<in> set (db_rows db)" "evolves r0 r" by (auto simp: history_kept_def)
  from evolves_same [OF r(2)] assms(4) m have "r_escalationId r = i" "\<not> is_live r" by auto
  with getEscalationRow_mem [OF history_fresh [OF assms(1)] r(1)] show ?thesis by blast
qed

lemma conclude_rows_closed:
  assumes "ids_fresh db" "conclude_rows env inp why rows db = (Inr ended, db')" "seen \<in> set rows"
  shows "\<exists>r. getEscalationRow (r_escalationId seen) db' = Some r \<and> \<not> is_live r"
  using assms
proof (induction rows arbitrary: db ended)
  case (Cons row rest)
  let ?w = "co_withdrawOpen inp \<and> r_status row = Open"
  obtain res db1 where w: "inTransaction (conclude_work env inp why ?w (r_escalationId row)) db = (res, db1)" by force
  from Cons.prems(2) w obtain found where found: "res = Inr found"
    by (cases res) (auto simp: Let_def simp del: inTransaction_Inr split: if_splits)
  with w have work: "conclude_work env inp why ?w (r_escalationId row) db = (Inr found, db1)" by simp
  have h1: "history_kept db db1"
    using history.conclude_work_act [OF history_kept_refl [OF Cons.prems(1)], of env inp why ?w "r_escalationId row"] work by simp
  have "\<exists>db2 ended'. history_kept db1 db2 \<and> conclude_rows env inp why rest db2 = (Inr ended', db')"
  proof -
    have refl: "history_kept db1 db1" by (rule history_kept_refl [OF history_fresh [OF h1]])
    from Cons.prems(2) w found show ?thesis
      using refl history.notifyRaiserResolved_act [OF refl, of env]
      by (auto simp: Let_def simp del: inTransaction_Inr split: if_splits option.splits prod.splits sum.splits)
  qed
  then obtain db2 ended' where rest: "history_kept db1 db2" "conclude_rows env inp why rest db2 = (Inr ended', db')" by blast
  have f2: "ids_fresh db2" by (rule history_fresh [OF rest(1)])
  show ?case
  proof (cases "seen \<in> set rest")
    case True
    from Cons.IH [OF f2 rest(2) True] show ?thesis .
  next
    case False
    with Cons.prems(3) have seen: "seen = row" by simp
    from conclude_work_Inr [OF Cons.prems(1) work] obtain r where
      "getEscalationRow (r_escalationId row) db1 = Some r" "\<not> is_live r" by blast
    from history_closed [OF rest(1) history_fresh [OF h1] this] obtain r2 where
      r2: "getEscalationRow (r_escalationId row) db2 = Some r2" "\<not> is_live r2" by blast
    have "history_kept db2 db'"
      using history.conclude_rows_act [OF history_kept_refl [OF f2], of env inp why rest] rest(2) by simp
    from history_closed [OF this f2 r2] seen show ?thesis by simp
  qed
qed simp

text \<open>C25: The subject's own decision ends everything: when concluding a subject returns, and nothing else ran
  between its reading and its writing, no escalation of that subject under the policies it names is live any
  more, whatever its kind; and no row was added.\<close>

theorem conclude_ends_all:
  assumes "ids_fresh db" "concludeForSubject env id inp db = (Inr ended, db')"
  shows "(\<forall>r\<in>set (db_rows db'). r_subjectType r = co_subjectType inp \<and> r_subjectId r = co_subjectId inp \<and>
      (case co_policyKeys inp of None \<Rightarrow> True | Some keys \<Rightarrow> r_policyKey r \<in> set keys) \<longrightarrow> \<not> is_live r) \<and>
    map r_escalationId (db_rows db') = map r_escalationId (db_rows db)"
proof -
  let ?hit = "\<lambda>r. case co_policyKeys inp of None \<Rightarrow> True | Some keys \<Rightarrow> r_policyKey r \<in> set keys"
  let ?seen = "filter ?hit (listLiveForSubject (co_subjectType inp) (co_subjectId inp) db)"
  from assms(2) obtain why where rows: "conclude_rows env inp why ?seen db = (Inr ended, db')"
    unfolding concludeForSubject_def by (auto simp: act_then_Inr split: if_splits)
  have h: "history_kept db db'"
    using history.conclude_rows_act [OF history_kept_refl [OF assms(1)], of env inp why ?seen] rows by simp
  have "same_ids db db" using assms(1) by (simp add: same_ids_def)
  from ids.conclude_rows_act [OF this, of env inp why ?seen] rows have same: "same_ids db db'" by simp
  have "\<not> is_live r" if r: "r \<in> set (db_rows db')" "r_subjectType r = co_subjectType inp" "r_subjectId r = co_subjectId inp" "?hit r" for r
  proof
    assume live: "is_live r"
    have "r_escalationId r \<in> r_escalationId ` set (db_rows db')" using r(1) by simp
    also have "\<dots> = r_escalationId ` set (db_rows db)" using same by (metis list.set_map same_ids_def)
    finally obtain r0 where r0: "r0 \<in> set (db_rows db)" "r_escalationId r0 = r_escalationId r" by auto
    from h r0(1) obtain r1 where r1: "r1 \<in> set (db_rows db')" "evolves r0 r1" by (auto simp: history_kept_def)
    have "r1 = r" using r1 r(1) r0(2) evolves_same(1) [OF r1(2)] same
      by (auto simp: same_ids_def ids_fresh_def distinct_map inj_on_def)
    with evolves_same [OF r1(2)] live r(2-4) r0(1) have "r0 \<in> set ?seen"
      by (auto simp: listLiveForSubject_def subject_key_def split: option.splits)
    from conclude_rows_closed [OF assms(1) rows this] r0(2) getEscalationRow_mem [OF history_fresh [OF h] r(1)] live
    show False by simp
  qed
  with same show ?thesis by (simp add: same_ids_def)
qed

definition sample_conclude :: conclude_input where
  "sample_conclude = \<lparr>co_actor = cleo, co_code = ''approved'', co_note = None, co_now = 9, co_policyKeys = None,
     co_subjectId = ''12'', co_subjectType = ''job'', co_withdrawOpen = False\<rparr>"

lemma sample_concludes:
  "case concludeForSubject sample_env id sample_conclude sample_db of (Inr ended, db') \<Rightarrow> length ended = 2 | (Inl e, db') \<Rightarrow> False"
  by code_simp

theorem conclude_ends_all_witness:
  "\<exists>ended db'. concludeForSubject sample_env id sample_conclude sample_db = (Inr ended, db') \<and> length ended = 2 \<and>
     map r_escalationId (db_rows db') = [1, 2]"
proof -
  obtain ended db' where c: "concludeForSubject sample_env id sample_conclude sample_db = (Inr ended, db')" "length ended = 2"
    using sample_concludes by (auto split: prod.splits sum.splits)
  from conclude_ends_all [OF sample_db_fresh c(1)] c show ?thesis by (simp add: sample_db_rows)
qed

section \<open>Histories\<close>

text \<open>Everything that changes the engine's tables: its operations, each with its own environment and with what
  ran between its reads and its writes; the retry of a send; the subjects' own flags; the passing of time. The
  variants that run inside a caller's transaction are run as that transaction.\<close>

datatype 'f engine_op =
    OpRaise "'f esc_env" "'f engine_op list" raise_input
  | OpRaiseWithin "'f esc_env" raise_input
  | OpAcknowledge "'f esc_env" acknowledge_input
  | OpResolve "'f esc_env" end_input
  | OpWithdraw "'f esc_env" end_input
  | OpAutoResolve "'f esc_env" end_input
  | OpResolveWithin "'f esc_env" end_input
  | OpWithdrawWithin "'f esc_env" end_input
  | OpConclude "'f esc_env" "'f engine_op list" conclude_input
  | OpFurther "'f esc_env" "'f engine_op list" further_input
  | OpNotify "'f esc_env" esc_row notify_event notify_options
  | OpFlags 'f
  | OpTime instant

fun engine_step :: "'f engine_op \<Rightarrow> 'f esc_db \<Rightarrow> 'f esc_db"
  and engine_run :: "'f engine_op list \<Rightarrow> 'f esc_db \<Rightarrow> 'f esc_db" where
  "engine_step (OpRaise env others inp) = (\<lambda>db. snd (raise_escalation env (engine_run others) inp db))"
| "engine_step (OpRaiseWithin env inp) = (\<lambda>db. snd (inTransaction (raiseWithin env inp) db))"
| "engine_step (OpAcknowledge env inp) = (\<lambda>db. snd (acknowledge env inp db))"
| "engine_step (OpResolve env inp) = (\<lambda>db. snd (resolve env inp db))"
| "engine_step (OpWithdraw env inp) = (\<lambda>db. snd (withdraw env inp db))"
| "engine_step (OpAutoResolve env inp) = (\<lambda>db. snd (autoResolve env inp db))"
| "engine_step (OpResolveWithin env inp) = (\<lambda>db. snd (inTransaction (resolveWithin env inp) db))"
| "engine_step (OpWithdrawWithin env inp) = (\<lambda>db. snd (inTransaction (withdrawWithin env inp) db))"
| "engine_step (OpConclude env others inp) = (\<lambda>db. snd (concludeForSubject env (engine_run others) inp db))"
| "engine_step (OpFurther env others inp) = (\<lambda>db. snd (escalateFurther env (engine_run others) inp db))"
| "engine_step (OpNotify env row event opts) = (\<lambda>db. snd (notifyTargets env row event opts db))"
| "engine_step (OpFlags flags) = (\<lambda>db. db\<lparr>db_flags := flags\<rparr>)"
| "engine_step (OpTime now) = (\<lambda>db. db\<lparr>db_clock := now\<rparr>)"
| "engine_run [] = (\<lambda>db. db)"
| "engine_run (op # ops) = (\<lambda>db. engine_run ops (engine_step op db))"

text \<open>An invariant of the writes that does not depend on the clock is kept by every history.\<close>

locale history_invariant = db_invariant I for I :: "'f esc_db \<Rightarrow> bool" +
  assumes time_keeps: "I db \<Longrightarrow> I (db\<lparr>db_clock := now\<rparr>)"
begin

lemma engine_keeps:
  shows "I db \<Longrightarrow> I (engine_step op db)" and "I db \<Longrightarrow> I (engine_run ops db)"
proof (induction op and ops arbitrary: db and db rule: engine_step_engine_run.induct)
  case (1 env others inp)
  then show ?case by (simp add: raise_act)
next
  case (9 env others inp)
  then show ?case by (simp add: conclude_act)
next
  case (10 env others inp)
  then show ?case by (simp add: further_act)
qed (simp_all add: raiseWithin_act acknowledge_act resolve_act withdraw_act autoResolve_act resolveWithin_act
      withdrawWithin_act notifyTargets_act flags_keep time_keeps inTransaction_keeps)

end

lemma clock_good: "db_good (db\<lparr>db_clock := now\<rparr>) = db_good db"
  by (rule good_same_rows) simp_all

interpretation good_history: history_invariant db_good
  by unfold_locales (simp add: clock_good)

interpretation kept_history: history_invariant "history_kept db0" for db0 :: "'f esc_db"
  by unfold_locales (auto simp: history_kept_def ids_fresh_def)

lemma engine_run_append: "engine_run (ops @ later) db = engine_run later (engine_run ops db)"
  by (induction ops arbitrary: db) simp_all

lemma empty_db_good: "db_good (empty_db now flags)"
  by (simp add: db_good_def ids_fresh_def one_live_def empty_db_def)

lemma at_most_one:
  assumes "distinct (map f xs)" "\<forall>x\<in>set xs. \<forall>y\<in>set xs. P x \<and> P y \<longrightarrow> f x = f y"
  shows "length (filter P xs) \<le> 1"
proof (cases "filter P xs")
  case (Cons x rest)
  show ?thesis
  proof (cases rest)
    case (Cons y rest')
    with \<open>filter P xs = x # rest\<close> have f: "filter P xs = x # y # rest'" by simp
    have "set (filter P xs) = insert x (insert y (set rest'))" by (simp only: f list.set)
    then have "{x \<in> set xs. P x} = insert x (insert y (set rest'))" by simp
    with assms(2) have "f x = f y" by blast
    moreover have "distinct (map f (filter P xs))" using assms(1) by (rule distinct_map_filter)
    ultimately show ?thesis using f by simp
  qed (use Cons in simp)
qed simp

text \<open>C3: At most one live escalation per subject and policy, at every moment of every history: whatever
  operations ran, in whatever order, with whatever others running between the reads and the writes of each, on
  whatever policies, people, failures of the ledger and of the mail.\<close>

theorem one_live_ever:
  "length (filter (\<lambda>r. is_live r \<and> subject_key r = key) (db_rows (engine_run ops (empty_db now flags)))) \<le> 1"
proof -
  have "db_good (engine_run ops (empty_db now flags))"
    by (rule good_history.engine_keeps(2) [OF empty_db_good])
  then have d: "distinct (map r_escalationId (db_rows (engine_run ops (empty_db now flags))))"
    and o: "one_live (engine_run ops (empty_db now flags))"
    by (simp_all add: db_good_def ids_fresh_def)
  show ?thesis
  proof (rule at_most_one [OF d], intro ballI impI)
    fix x y
    assume xy: "x \<in> set (db_rows (engine_run ops (empty_db now flags)))" "y \<in> set (db_rows (engine_run ops (empty_db now flags)))"
      and both: "(is_live x \<and> subject_key x = key) \<and> is_live y \<and> subject_key y = key"
    from both have "is_live x \<and> is_live y \<and> subject_key x = subject_key y" by simp
    with o [unfolded one_live_def] xy show "r_escalationId x = r_escalationId y" by (meson)
  qed
qed

text \<open>C28: History is never rewritten: as operations run, every ledger row stays where it is; every escalation
  stays, with all it was raised with; its status only moves forward; and once it is closed nothing about it
  changes but the record of sends.\<close>

theorem history_append_only:
  assumes "row \<in> set (db_rows (engine_run ops (empty_db now flags)))"
  shows "(\<exists>row'\<in>set (db_rows (engine_run (ops @ later) (empty_db now flags))).
      r_escalationId row' = r_escalationId row \<and> raised_part row' = raised_part row \<and>
      forward (r_status row) (r_status row') \<and> (\<not> is_live row \<longrightarrow> decided_part row' = decided_part row)) \<and>
    (\<exists>added. db_ledger (engine_run (ops @ later) (empty_db now flags)) = db_ledger (engine_run ops (empty_db now flags)) @ added)"
proof -
  let ?db = "engine_run ops (empty_db now flags)"
  have "ids_fresh ?db" by (rule good_fresh [OF good_history.engine_keeps(2) [OF empty_db_good]])
  from kept_history.engine_keeps(2) [OF history_kept_refl [OF this], of later]
  have h: "history_kept ?db (engine_run (ops @ later) (empty_db now flags))" by (simp add: engine_run_append)
  with assms obtain row' where "row' \<in> set (db_rows (engine_run (ops @ later) (empty_db now flags)))" "evolves row row'"
    by (auto simp: history_kept_def)
  moreover have "r_escalationId row' = r_escalationId row" "raised_part row' = raised_part row"
    "forward (r_status row) (r_status row')" "\<not> is_live row \<longrightarrow> decided_part row' = decided_part row"
    using calculation(2) evolves_same(1) [of row row'] by (simp_all add: evolves_def)
  ultimately show ?thesis using h by (auto simp: history_kept_def)
qed

lemma sample_history:
  "map r_escalationId (db_rows (engine_run [OpRaise sample_env [] (sample_raise ''job.stalled'')] (empty_db 0 ()))) = [1]"
  by code_simp

theorem history_append_only_witness:
  "\<exists>row'\<in>set (db_rows (engine_run ([OpRaise sample_env [] (sample_raise ''job.stalled'')] @
      [OpAcknowledge sample_env sample_ack, OpWithdraw sample_env sample_end]) (empty_db 0 ()))). r_escalationId row' = 1"
proof -
  define rows where "rows = db_rows (engine_run [OpRaise sample_env [] (sample_raise ''job.stalled'')] (empty_db 0 ()))"
  have "map r_escalationId rows = [1]" unfolding rows_def by (rule sample_history)
  then obtain row where "row \<in> set rows" "r_escalationId row = 1" by (cases rows) auto
  note this(1) [unfolded rows_def] this(2)
  from history_append_only [OF this(1), of "[OpAcknowledge sample_env sample_ack, OpWithdraw sample_env sample_end]"] this(2)
  show ?thesis by auto
qed

end
