(* ===== verification/Approval_Authority.thy ===== *)
theory Approval_Authority
  imports Prelude
begin

text \<open>
  Approval authority, \<open>src/approvalAuthority.ts\<close>: who may approve a quote, an invoice or a purchase order,
  and the route it escalates along. Role limits may be missing (\<open>undefined\<close>), unlimited (\<open>null\<close>) or a
  number; the amount may be anything JavaScript calls a number.
\<close>

section \<open>Inputs and facts\<close>

datatype money_subject = Quote | Invoice | PurchaseOrder

record role_limit =
  rl_limit :: "js_number option" \<comment> \<open>\<open>None\<close> is \<open>null\<close>: unlimited\<close>
  rl_role :: string

record residence_approver =
  ra_displayName :: string
  ra_email :: "string option"
  ra_from :: "string option"
  ra_relationship :: string
  ra_to :: "string option"
  ra_userId :: int

record identity =
  id_displayName :: "string option"
  id_email :: "string option"
  id_roles :: "string list"
  id_userId :: "int option"

record authority_input =
  au_amount :: js_number
  au_at :: "string option"
  au_attribution :: "identity option"
  au_buildingId :: int
  au_createdBy :: "identity option"
  au_subject :: money_subject

record authority_facts =
  af_directorThreshold :: "js_number option"
  af_isResidence :: bool
  af_limits :: "role_limit list"
  af_residenceApprovers :: "residence_approver list"
  af_residenceDirectorFallback :: bool
  af_today :: string

datatype approver_basis = RoleLimitBasis | DirectorThresholdBasis | ResidenceBasis

text \<open>A step of a route: everyone in a role, or one person.\<close>

datatype approver =
    RoleStep (step_basis: approver_basis) (step_limit: "rat option") (step_role: string)
  | UserStep (step_basis: approver_basis) (step_name: string) (step_userId: int)

record authority_result =
  ar_directorRequired :: bool
  ar_effectiveDirectorThreshold :: "rat option"
  ar_isResidence :: bool
  ar_route :: "approver list"

datatype deny_reason =
  DenyCreator | DenyDirectorRequired | DenyOverLimit | DenyNotEligible | DenyNotResidenceApprover
  | DenyAttributionRequired | DenyAttributionInvalid

datatype approval_basis = OwnAuthority | Attributed | Residence

text \<open>The limit a person or a role has: none with a row, unlimited, or up to an amount.\<close>

datatype limit = NoRow | Unlimited | UpTo rat

record attributed_person =
  ap_displayName :: "string option"
  ap_email :: "string option"
  ap_userId :: "int option"

datatype approval_decision =
    Allowed "attributed_person option" approval_basis
  | Denied limit deny_reason

section \<open>Who may approve what\<close>

definition ROLE_ORDER :: "string list" where
  "ROLE_ORDER = [''facilities'', ''accounts'', ''facilities_manager'', ''accounts_manager'', ''cfo'', ''director'']"

fun SUBJECT_ELIGIBLE_ROLES :: "money_subject \<Rightarrow> string list" where
  "SUBJECT_ELIGIBLE_ROLES Invoice =
     [''accounts'', ''accounts_manager'', ''facilities_manager'', ''cfo'', ''admin'', ''director'']"
| "SUBJECT_ELIGIBLE_ROLES PurchaseOrder = [''facilities_manager'', ''accounts_manager'', ''cfo'', ''admin'', ''director'']"
| "SUBJECT_ELIGIBLE_ROLES Quote =
     [''facilities_manager'', ''accounts'', ''accounts_manager'', ''cfo'', ''admin'', ''director'']"

fun ATTRIBUTED_APPROVAL_ROLES :: "money_subject \<Rightarrow> string list" where
  "ATTRIBUTED_APPROVAL_ROLES Quote = [''facilities'']"
| "ATTRIBUTED_APPROVAL_ROLES _ = []"

definition ADMIN :: string where "ADMIN = ''admin''"
definition DIRECTOR :: string where "DIRECTOR = ''director''"

definition roleKey :: "string \<Rightarrow> string" where
  "roleKey role = js_lower (js_trim role)"

text \<open>A row's limit that is not a number becomes \<open>NaN\<close>, never \<open>null\<close>; \<open>number_of_value\<close> is \<open>Number(..)\<close> of what SQL sent.\<close>

definition toRoleLimits :: "('v \<Rightarrow> js_number) \<Rightarrow> ('v option \<times> string) list \<Rightarrow> role_limit list" where
  "toRoleLimits number_of_value rows =
     map (\<lambda>(v, name). \<lparr>rl_limit = map_option number_of_value v, rl_role = roleKey name\<rparr>) rows"

fun isKnownAmount :: "js_number \<Rightarrow> bool" where
  "isKnownAmount (Num a) = (a \<ge> 0)"
| "isKnownAmount _ = False"

text \<open>The amount as a rational; only read where it is known.\<close>

fun amount_of :: "js_number \<Rightarrow> rat" where
  "amount_of (Num a) = a"
| "amount_of _ = 0"

text \<open>The greatest finite limit of some rows, as the loops keep it.\<close>

fun highest_finite :: "role_limit list \<Rightarrow> rat option \<Rightarrow> rat option" where
  "highest_finite [] best = best"
| "highest_finite (row # rows) best =
     (case rl_limit row of
        Some (Num l) \<Rightarrow> highest_finite rows (case best of None \<Rightarrow> Some l | Some b \<Rightarrow> if l > b then Some l else best)
      | _ \<Rightarrow> highest_finite rows best)"

definition directorThresholdOf :: "authority_facts \<Rightarrow> rat option" where
  "directorThresholdOf facts =
     (case af_directorThreshold facts of
        Some (Num t) \<Rightarrow>
          if t > 0 then Some t else highest_finite (filter (\<lambda>r. roleKey (rl_role r) \<noteq> DIRECTOR) (af_limits facts)) None
      | _ \<Rightarrow> highest_finite (filter (\<lambda>r. roleKey (rl_role r) \<noteq> DIRECTOR) (af_limits facts)) None)"

definition isDirectorRequired :: "rat \<Rightarrow> rat option \<Rightarrow> bool" where
  "isDirectorRequired amount threshold \<longleftrightarrow>
     amount > 0 \<and> (case threshold of None \<Rightarrow> False | Some t \<Rightarrow> amount > t)"

text \<open>A role's row: a \<open>null\<close> row ends the search.\<close>

definition rowLimit :: "string \<Rightarrow> role_limit list \<Rightarrow> limit" where
  "rowLimit role limits =
     (let rows = filter (\<lambda>r. roleKey (rl_role r) = role) limits
      in if \<exists>r\<in>set rows. rl_limit r = None then Unlimited
         else case highest_finite rows None of None \<Rightarrow> NoRow | Some l \<Rightarrow> UpTo l)"

fun covers :: "limit \<Rightarrow> rat \<Rightarrow> bool" where
  "covers Unlimited amount = True"
| "covers (UpTo l) amount = (l \<ge> amount)"
| "covers NoRow amount = False"

definition rolesOf :: "identity \<Rightarrow> string list" where
  "rolesOf identity = map roleKey (id_roles identity)"

definition holdsRole :: "string list \<Rightarrow> string \<Rightarrow> bool" where
  "holdsRole roles role \<longleftrightarrow>
     (if role \<in> set roles then True
      else if role = ADMIN then False
      else if DIRECTOR \<in> set roles then True
      else if role = ''facilities'' then ''facilities_manager'' \<in> set roles
      else role = ''accounts'' \<and> ''accounts_manager'' \<in> set roles)"

text \<open>The highest limit among the candidate roles held, as the loop keeps it; an unlimited one ends it.\<close>

fun held_loop :: "string list \<Rightarrow> string list \<Rightarrow> role_limit list \<Rightarrow> rat option \<Rightarrow> limit" where
  "held_loop roles [] limits best = (case best of None \<Rightarrow> NoRow | Some b \<Rightarrow> UpTo b)"
| "held_loop roles (role # rest) limits best =
     (if \<not> holdsRole roles role then held_loop roles rest limits best
      else case if role = DIRECTOR then Unlimited else rowLimit role limits of
        Unlimited \<Rightarrow> Unlimited
      | NoRow \<Rightarrow> held_loop roles rest limits best
      | UpTo l \<Rightarrow> held_loop roles rest limits (case best of None \<Rightarrow> Some l | Some b \<Rightarrow> if l > b then Some l else best))"

definition heldLimit :: "string list \<Rightarrow> string list \<Rightarrow> role_limit list \<Rightarrow> limit" where
  "heldLimit roles candidates limits = held_loop roles candidates limits None"

fun higherLimit :: "limit \<Rightarrow> limit \<Rightarrow> limit" where
  "higherLimit Unlimited _ = Unlimited"
| "higherLimit _ Unlimited = Unlimited"
| "higherLimit NoRow right = right"
| "higherLimit left NoRow = left"
| "higherLimit (UpTo l) (UpTo r) = UpTo (max l r)"

section \<open>People\<close>

fun emailKey :: "string option \<Rightarrow> string" where
  "emailKey None = ''''"
| "emailKey (Some s) = js_lower (js_trim s)"

definition hasIdentifier :: "identity \<Rightarrow> bool" where
  "hasIdentifier person \<longleftrightarrow> id_userId person \<noteq> None \<or> emailKey (id_email person) \<noteq> ''''"

definition same_person :: "string option \<Rightarrow> int option \<Rightarrow> string option \<Rightarrow> int option \<Rightarrow> bool" where
  "same_person lemail luser remail ruser \<longleftrightarrow>
     (luser \<noteq> None \<and> luser = ruser) \<or> (emailKey lemail \<noteq> '''' \<and> emailKey lemail = emailKey remail)"

definition samePerson :: "identity \<Rightarrow> identity \<Rightarrow> bool" where
  "samePerson l r = same_person (id_email l) (id_userId l) (id_email r) (id_userId r)"

definition isApprover :: "identity \<Rightarrow> residence_approver \<Rightarrow> bool" where
  "isApprover l a = same_person (id_email l) (id_userId l) (ra_email a) (Some (ra_userId a))"

section \<open>Routes\<close>

definition compareText :: "string \<Rightarrow> string \<Rightarrow> rat" where
  "compareText l r = (if l = r then 0 else if js_less l r then - 1 else 1)"

definition directorStep :: "approver_basis \<Rightarrow> approver" where
  "directorStep basis = RoleStep basis None DIRECTOR"

fun index_of :: "'a \<Rightarrow> 'a list \<Rightarrow> nat" where
  "index_of x [] = 0"
| "index_of x (y # ys) = (if x = y then 0 else Suc (index_of x ys))"

text \<open>A role that is not in the order comes after it.\<close>

definition ladderRank :: "string \<Rightarrow> rat" where
  "ladderRank role = of_nat (index_of role ROLE_ORDER)"

definition byLimitThenLadder :: "approver \<Rightarrow> approver \<Rightarrow> rat" where
  "byLimitThenLadder a b =
     (if step_limit a \<noteq> step_limit b then
        (case (step_limit a, step_limit b) of
           (None, _) \<Rightarrow> 1
         | (_, None) \<Rightarrow> - 1
         | (Some l, Some r) \<Rightarrow> l - r)
      else or_else (ladderRank (step_role a) - ladderRank (step_role b)) (compareText (step_role a) (step_role b)))"

fun limit_value :: "limit \<Rightarrow> rat option" where
  "limit_value (UpTo l) = Some l"
| "limit_value _ = None"

definition ladderRoute :: "money_subject \<Rightarrow> rat \<Rightarrow> role_limit list \<Rightarrow> approver list" where
  "ladderRoute subject amount limits =
     sort_by byLimitThenLadder
       (map (\<lambda>role. RoleStep RoleLimitBasis (limit_value (rowLimit role limits)) role)
         (filter (\<lambda>role. role \<noteq> ADMIN \<and> role \<noteq> DIRECTOR \<and> covers (rowLimit role limits) amount)
           (SUBJECT_ELIGIBLE_ROLES subject))) @
     [directorStep RoleLimitBasis]"

definition relationshipRank :: "string \<Rightarrow> rat" where
  "relationshipRank relationship =
     (if relationship = ''occupant'' \<or> relationship = ''property_manager'' then 0
      else if relationship = ''owner'' then 1 else - 1)"

definition is_digit :: "char \<Rightarrow> bool" where
  "is_digit c \<longleftrightarrow> 48 \<le> (of_char c :: nat) \<and> (of_char c :: nat) \<le> 57"

text \<open>\<open>ISO_DAY\<close>: four digits, a hyphen, two digits, a hyphen, two digits.\<close>

fun iso_day_shape :: "string \<Rightarrow> bool" where
  "iso_day_shape [a, b, c, d, h, e, f, k, g, i] =
     (list_all is_digit [a, b, c, d, e, f, g, i] \<and> h = CHR ''-'' \<and> k = CHR ''-'')"
| "iso_day_shape _ = False"

definition isActiveOn :: "residence_approver \<Rightarrow> string \<Rightarrow> bool" where
  "isActiveOn a day =
     (let from_day = (case ra_from a of Some s \<Rightarrow> s | None \<Rightarrow> '''');
          until = (case ra_to a of Some s \<Rightarrow> s | None \<Rightarrow> '''')
      in if from_day \<noteq> '''' \<and> \<not> (iso_day_shape from_day \<and> js_le from_day day) then False
         else until = '''' \<or> (iso_day_shape until \<and> js_le day until))"

definition byRelationshipThenName :: "residence_approver \<Rightarrow> residence_approver \<Rightarrow> rat" where
  "byRelationshipThenName a b =
     or_else (relationshipRank (ra_relationship a) - relationshipRank (ra_relationship b))
       (or_else (compareText (js_lower (ra_displayName a)) (js_lower (ra_displayName b)))
         (or_else (compareText (ra_displayName a) (ra_displayName b)) (of_int (ra_userId a - ra_userId b))))"

definition activeApprovers :: "residence_approver list \<Rightarrow> string \<Rightarrow> residence_approver list" where
  "activeApprovers approvers day =
     (if \<not> iso_day_shape day then []
      else sort_by byRelationshipThenName
        (filter (\<lambda>a. relationshipRank (ra_relationship a) \<ge> 0 \<and> isActiveOn a day) approvers))"

definition residenceRoute :: "authority_facts \<Rightarrow> string \<Rightarrow> approver list" where
  "residenceRoute facts day =
     map (\<lambda>a. UserStep ResidenceBasis (ra_displayName a) (ra_userId a)) (activeApprovers (af_residenceApprovers facts) day) @
     (if af_residenceDirectorFallback facts then [directorStep ResidenceBasis] else [])"

definition day_of :: "authority_input \<Rightarrow> authority_facts \<Rightarrow> string" where
  "day_of inp facts = (case au_at inp of Some d \<Rightarrow> d | None \<Rightarrow> af_today facts)"

definition decideAuthority :: "authority_input \<Rightarrow> authority_facts \<Rightarrow> authority_result" where
  "decideAuthority inp facts =
     (let threshold = directorThresholdOf facts; amount = amount_of (au_amount inp)
      in if \<not> isKnownAmount (au_amount inp) then
           \<lparr>ar_directorRequired = True, ar_effectiveDirectorThreshold = threshold, ar_isResidence = af_isResidence facts,
            ar_route = [directorStep DirectorThresholdBasis]\<rparr>
         else if af_isResidence facts then
           \<lparr>ar_directorRequired = False, ar_effectiveDirectorThreshold = threshold, ar_isResidence = True,
            ar_route = residenceRoute facts (day_of inp facts)\<rparr>
         else
           (let required = isDirectorRequired amount threshold
            in \<lparr>ar_directorRequired = required, ar_effectiveDirectorThreshold = threshold, ar_isResidence = False,
                ar_route = (if required then [directorStep DirectorThresholdBasis]
                            else ladderRoute (au_subject inp) amount (af_limits facts))\<rparr>))"

section \<open>May this person approve it\<close>

text \<open>The checks up to the attribution: a decision, or \<open>None\<close> when it comes down to the person named.\<close>

definition own_decision :: "identity \<Rightarrow> authority_input \<Rightarrow> authority_facts \<Rightarrow> approval_decision option" where
  "own_decision identity inp facts =
     (let roles = rolesOf identity; amount = amount_of (au_amount inp);
          own = heldLimit roles (SUBJECT_ELIGIBLE_ROLES (au_subject inp)) (af_limits facts);
          attributed = heldLimit roles (ATTRIBUTED_APPROVAL_ROLES (au_subject inp)) (af_limits facts);
          deny = Denied (higherLimit own attributed);
          directorOnly = (if DIRECTOR \<in> set roles then Allowed None OwnAuthority else deny DenyDirectorRequired)
      in if au_subject inp = PurchaseOrder \<and> (case au_createdBy inp of Some c \<Rightarrow> samePerson identity c | None \<Rightarrow> False)
         then Some (deny DenyCreator)
         else if \<not> isKnownAmount (au_amount inp) then Some directorOnly
         else if af_isResidence facts then
           Some (if (\<exists>a\<in>set (activeApprovers (af_residenceApprovers facts) (day_of inp facts)). isApprover identity a) \<or>
                    af_residenceDirectorFallback facts \<and> DIRECTOR \<in> set roles
                 then Allowed None Residence else deny DenyNotResidenceApprover)
         else if isDirectorRequired amount (directorThresholdOf facts) then Some directorOnly
         else if covers own amount then Some (Allowed None OwnAuthority)
         else if \<not> covers attributed amount
         then Some (deny (if own = NoRow \<and> attributed = NoRow then DenyNotEligible else DenyOverLimit))
         else None)"

definition held_by :: "identity \<Rightarrow> authority_input \<Rightarrow> authority_facts \<Rightarrow> limit" where
  "held_by identity inp facts =
     higherLimit (heldLimit (rolesOf identity) (SUBJECT_ELIGIBLE_ROLES (au_subject inp)) (af_limits facts))
       (heldLimit (rolesOf identity) (ATTRIBUTED_APPROVAL_ROLES (au_subject inp)) (af_limits facts))"

text \<open>The recursive call is on the person named, with the attribution taken out, so it is at most one deep.\<close>

function canApprove :: "identity \<Rightarrow> authority_input \<Rightarrow> authority_facts \<Rightarrow> approval_decision" where
  "canApprove identity inp facts =
     (case own_decision identity inp facts of
        Some decision \<Rightarrow> decision
      | None \<Rightarrow>
          (case au_attribution inp of
             None \<Rightarrow> Denied (held_by identity inp facts) DenyAttributionRequired
           | Some named \<Rightarrow>
               if \<not> hasIdentifier named \<or> samePerson identity named
               then Denied (held_by identity inp facts) DenyAttributionInvalid
               else (case canApprove named (inp\<lparr>au_attribution := None\<rparr>) facts of
                       Allowed _ OwnAuthority \<Rightarrow>
                         Allowed (Some \<lparr>ap_displayName = id_displayName named, ap_email = id_email named,
                                        ap_userId = id_userId named\<rparr>) Attributed
                     | _ \<Rightarrow> Denied (held_by identity inp facts) DenyAttributionInvalid)))"
  by pat_completeness auto
termination
  by (relation "measure (\<lambda>(identity, inp, facts). if au_attribution inp = None then 0 else 1)") auto

declare canApprove.simps [simp del]


section \<open>What a held limit covers\<close>

lemma covers_highest: "(case highest_finite rows best of None \<Rightarrow> False | Some l \<Rightarrow> amount \<le> l) \<longleftrightarrow>
    (\<exists>b. best = Some b \<and> amount \<le> b) \<or> (\<exists>r\<in>set rows. \<exists>l. rl_limit r = Some (Num l) \<and> amount \<le> l)"
proof (induction rows arbitrary: best)
  case Nil
  then show ?case by (auto split: option.splits)
next
  case (Cons row rows)
  show ?case
  proof (cases "\<exists>l. rl_limit row = Some (Num l)")
    case True
    then obtain l where "rl_limit row = Some (Num l)" by blast
    with Cons.IH show ?thesis by (cases best) auto
  next
    case False
    then have "highest_finite (row # rows) best = highest_finite rows best"
      by (auto split: option.split js_number.split)
    with False Cons.IH [of best] show ?thesis by (simp only:) auto
  qed
qed

lemma covers_rowLimit:
  "covers (rowLimit role limits) amount \<longleftrightarrow>
     (\<exists>r\<in>set limits. roleKey (rl_role r) = role \<and> (rl_limit r = None \<or> (\<exists>l. rl_limit r = Some (Num l) \<and> amount \<le> l)))"
  using covers_highest [where rows = "filter (\<lambda>r. roleKey (rl_role r) = role) limits" and best = None and amount = amount]
  by (auto simp: rowLimit_def Let_def split: option.splits)

lemma covers_held_loop:
  "covers (held_loop roles candidates limits best) amount \<longleftrightarrow>
     (\<exists>b. best = Some b \<and> amount \<le> b) \<or>
     (\<exists>role\<in>set candidates. holdsRole roles role \<and> (role = DIRECTOR \<or> covers (rowLimit role limits) amount))"
proof (induction candidates arbitrary: best)
  case Nil
  then show ?case by (auto split: option.splits)
next
  case (Cons role rest)
  show ?case
  proof (cases "holdsRole roles role")
    case False
    with Cons.IH show ?thesis by simp
  next
    case True
    show ?thesis
    proof (cases "if role = DIRECTOR then Unlimited else rowLimit role limits")
      case NoRow
      then have "role \<noteq> DIRECTOR" "rowLimit role limits = NoRow" by (simp_all split: if_splits)
      with True Cons.IH show ?thesis by simp
    next
      case Unlimited
      then have "role = DIRECTOR \<or> rowLimit role limits = Unlimited" by (simp split: if_splits)
      with True Unlimited show ?thesis by auto
    next
      case (UpTo l)
      then have "role \<noteq> DIRECTOR" "rowLimit role limits = UpTo l" by (simp_all split: if_splits)
      with True Cons.IH [of "case best of None \<Rightarrow> Some l | Some b \<Rightarrow> if l > b then Some l else best"] show ?thesis
        by (cases best) auto
    qed
  qed
qed

lemma covers_heldLimit:
  "covers (heldLimit roles candidates limits) amount \<longleftrightarrow>
     (\<exists>role\<in>set candidates. holdsRole roles role \<and> (role = DIRECTOR \<or> covers (rowLimit role limits) amount))"
  by (simp add: heldLimit_def covers_held_loop)

lemma covers_smaller: "covers held amount \<Longrightarrow> small \<le> amount \<Longrightarrow> covers held small"
  by (cases held) auto

lemma director_eligible: "DIRECTOR \<in> set (SUBJECT_ELIGIBLE_ROLES subject)"
  by (cases subject) (simp_all add: DIRECTOR_def)

lemma holdsRole_director [simp]: "holdsRole roles DIRECTOR \<longleftrightarrow> DIRECTOR \<in> set roles"
  by (auto simp: holdsRole_def DIRECTOR_def)

lemma holdsRole_admin [simp]: "holdsRole roles ADMIN \<longleftrightarrow> ADMIN \<in> set roles"
  by (simp add: holdsRole_def)

section \<open>Properties\<close>

definition creator_of :: "identity \<Rightarrow> authority_input \<Rightarrow> bool" where
  "creator_of identity inp \<longleftrightarrow>
     au_subject inp = PurchaseOrder \<and> (case au_createdBy inp of Some c \<Rightarrow> samePerson identity c | None \<Rightarrow> False)"

lemma ladderRoute_roles:
  "step_role ` set (ladderRoute subject amount limits) =
     {role \<in> set (SUBJECT_ELIGIBLE_ROLES subject). role \<noteq> ADMIN \<and> (role = DIRECTOR \<or> covers (rowLimit role limits) amount)}"
proof -
  have "DIRECTOR \<noteq> ADMIN" by (simp add: DIRECTOR_def ADMIN_def)
  with director_eligible [of subject] show ?thesis
    by (auto simp: ladderRoute_def directorStep_def image_iff)
qed

lemma own_decision_cases:
  assumes "\<not> creator_of identity inp" "\<not> af_isResidence facts"
  shows "own_decision identity inp facts =
    (if \<not> isKnownAmount (au_amount inp) \<or> isDirectorRequired (amount_of (au_amount inp)) (directorThresholdOf facts)
     then Some (if DIRECTOR \<in> set (rolesOf identity) then Allowed None OwnAuthority
                else Denied (held_by identity inp facts) DenyDirectorRequired)
     else if covers (heldLimit (rolesOf identity) (SUBJECT_ELIGIBLE_ROLES (au_subject inp)) (af_limits facts)) (amount_of (au_amount inp))
     then Some (Allowed None OwnAuthority)
     else if \<not> covers (heldLimit (rolesOf identity) (ATTRIBUTED_APPROVAL_ROLES (au_subject inp)) (af_limits facts))
            (amount_of (au_amount inp))
     then Some (Denied (held_by identity inp facts)
       (if heldLimit (rolesOf identity) (SUBJECT_ELIGIBLE_ROLES (au_subject inp)) (af_limits facts) = NoRow \<and>
           heldLimit (rolesOf identity) (ATTRIBUTED_APPROVAL_ROLES (au_subject inp)) (af_limits facts) = NoRow
        then DenyNotEligible else DenyOverLimit))
     else None)"
  using assms by (simp add: own_decision_def creator_of_def held_by_def Let_def)

lemma split_one: "x \<noteq> d \<Longrightarrow> (\<exists>r\<in>E. H r \<and> (r = d \<or> C r)) \<longleftrightarrow>
    (\<exists>r\<in>{r \<in> E. r \<noteq> x \<and> (r = d \<or> C r)}. H r) \<or> (H x \<and> x \<in> E \<and> C x)"
  by auto

text \<open>C23: The route and the decision agree: without an attribution, away from residences, and leaving out an order's
  creator, a person may approve an item exactly when they hold (directly or by implication) a role on the route
  it escalates along, or hold admin with an admin row that covers it; an unlimited row does not get past the
  director gate, and an unknown amount is the director's.\<close>

theorem route_agrees_with_decision:
  assumes "\<not> af_isResidence facts" "au_attribution inp = None" "\<not> creator_of identity inp"
  shows "(\<exists>basis. canApprove identity inp facts = Allowed None basis) \<longleftrightarrow>
    (\<exists>step\<in>set (ar_route (decideAuthority inp facts)). holdsRole (rolesOf identity) (step_role step)) \<or>
    (\<not> ar_directorRequired (decideAuthority inp facts) \<and> ADMIN \<in> set (rolesOf identity) \<and>
     ADMIN \<in> set (SUBJECT_ELIGIBLE_ROLES (au_subject inp)) \<and> covers (rowLimit ADMIN (af_limits facts)) (amount_of (au_amount inp)))"
proof (cases "\<not> isKnownAmount (au_amount inp) \<or> isDirectorRequired (amount_of (au_amount inp)) (directorThresholdOf facts)")
  case True
  then have "ar_route (decideAuthority inp facts) = [directorStep DirectorThresholdBasis]" "ar_directorRequired (decideAuthority inp facts)"
    using assms(1) by (auto simp: decideAuthority_def Let_def)
  moreover have "canApprove identity inp facts =
      (if DIRECTOR \<in> set (rolesOf identity) then Allowed None OwnAuthority
       else Denied (held_by identity inp facts) DenyDirectorRequired)"
    using True by (simp add: canApprove.simps [of identity] own_decision_cases [OF assms(3,1)])
  ultimately show ?thesis by (simp add: directorStep_def)
next
  case False
  then have d: "ar_route (decideAuthority inp facts) = ladderRoute (au_subject inp) (amount_of (au_amount inp)) (af_limits facts)"
    "\<not> ar_directorRequired (decideAuthority inp facts)"
    using assms(1) by (auto simp: decideAuthority_def Let_def)
  have allowed: "(\<exists>basis. canApprove identity inp facts = Allowed None basis) \<longleftrightarrow>
      covers (heldLimit (rolesOf identity) (SUBJECT_ELIGIBLE_ROLES (au_subject inp)) (af_limits facts)) (amount_of (au_amount inp))"
    using False assms(2) by (simp add: canApprove.simps [of identity] own_decision_cases [OF assms(3,1)])
  have step: "(\<exists>step\<in>set route. holdsRole (rolesOf identity) (step_role step)) \<longleftrightarrow>
      (\<exists>role\<in>step_role ` set route. holdsRole (rolesOf identity) role)" for route by auto
  have "ADMIN \<noteq> DIRECTOR" by (simp add: ADMIN_def DIRECTOR_def)
  note one = split_one [OF this, of "set (SUBJECT_ELIGIBLE_ROLES (au_subject inp))" "holdsRole (rolesOf identity)"
      "\<lambda>role. covers (rowLimit role (af_limits facts)) (amount_of (au_amount inp))", unfolded holdsRole_admin]
  show ?thesis
    unfolding allowed covers_heldLimit d(1) step ladderRoute_roles one using d(2) by simp
qed

lemma canApprove_Allowed:
  assumes "canApprove identity inp facts = Allowed person basis"
  shows "(\<exists>d. own_decision identity inp facts = Some d \<and> d = Allowed person basis) \<or>
    own_decision identity inp facts = None \<and> basis = Attributed \<and>
    (\<exists>named p. au_attribution inp = Some named \<and> hasIdentifier named \<and> \<not> samePerson identity named \<and>
       canApprove named (inp\<lparr>au_attribution := None\<rparr>) facts = Allowed p OwnAuthority)"
  using assms canApprove.simps [of identity inp facts]
  by (auto split: option.splits if_splits approval_decision.splits approval_basis.splits)

lemma own_decision_basis: "own_decision identity inp facts = Some (Allowed person basis) \<Longrightarrow> person = None \<and> basis \<noteq> Attributed"
  by (auto simp: own_decision_def Let_def split: if_splits)


lemma attributed_needs:
  assumes "canApprove identity inp facts = Allowed (Some person) basis"
  shows "own_decision identity inp facts = None" "basis = Attributed"
    "\<exists>named p. au_attribution inp = Some named \<and> hasIdentifier named \<and> \<not> samePerson identity named \<and>
       canApprove named (inp\<lparr>au_attribution := None\<rparr>) facts = Allowed p OwnAuthority"
  using canApprove_Allowed [OF assms] by (auto dest: own_decision_basis)

lemma own_decision_None:
  assumes "own_decision identity inp facts = None"
  shows "\<not> creator_of identity inp" "\<not> af_isResidence facts" "isKnownAmount (au_amount inp)"
    "\<not> isDirectorRequired (amount_of (au_amount inp)) (directorThresholdOf facts)"
    "covers (heldLimit (rolesOf identity) (ATTRIBUTED_APPROVAL_ROLES (au_subject inp)) (af_limits facts)) (amount_of (au_amount inp))"
    "\<not> covers (heldLimit (rolesOf identity) (SUBJECT_ELIGIBLE_ROLES (au_subject inp)) (af_limits facts)) (amount_of (au_amount inp))"
  using assms by (auto simp: own_decision_def creator_of_def Let_def split: if_splits option.splits)

text \<open>C34: Attribution is traceable and adds no authority: whoever approves by naming somebody acts on a quote, as
  somebody who holds the facilities role with a row that covers the amount, below the director gate; and the
  person named is somebody else, who could approve the same item on their own authority.\<close>

theorem attribution_adds_no_authority:
  assumes "canApprove identity inp facts = Allowed (Some person) basis"
  shows "basis = Attributed \<and> au_subject inp = Quote \<and> \<not> af_isResidence facts \<and>
    holdsRole (rolesOf identity) ''facilities'' \<and> covers (rowLimit ''facilities'' (af_limits facts)) (amount_of (au_amount inp)) \<and>
    \<not> isDirectorRequired (amount_of (au_amount inp)) (directorThresholdOf facts) \<and>
    (\<exists>named. au_attribution inp = Some named \<and> \<not> samePerson identity named \<and> hasIdentifier named \<and>
       canApprove named (inp\<lparr>au_attribution := None\<rparr>) facts = Allowed None OwnAuthority)"
proof -
  note n = attributed_needs [OF assms] and o1 = own_decision_None [OF attributed_needs(1) [OF assms]]
  from o1(5) have "au_subject inp = Quote" by (cases "au_subject inp") (auto simp: heldLimit_def)
  moreover from o1(5) this have "holdsRole (rolesOf identity) ''facilities''"
    "covers (rowLimit ''facilities'' (af_limits facts)) (amount_of (au_amount inp))"
    unfolding covers_heldLimit by (auto simp: DIRECTOR_def)
  moreover from n(3) obtain named p where named: "au_attribution inp = Some named" "hasIdentifier named" "\<not> samePerson identity named"
    "canApprove named (inp\<lparr>au_attribution := None\<rparr>) facts = Allowed p OwnAuthority" by blast
  from canApprove_Allowed [OF named(4)] have "p = None" by (auto dest: own_decision_basis)
  ultimately show ?thesis using n(2) o1(2,4) named by blast
qed

text \<open>Above the director threshold, and for an amount that is not known, only a director approves, on their own
  authority, whatever limits anybody's row gives and whoever anybody names; and nobody approves the purchase
  order they created.\<close>

theorem director_gate:
  assumes "canApprove identity inp facts = Allowed person basis"
  shows "\<not> creator_of identity inp \<and>
    (\<not> af_isResidence facts \<and>
     (\<not> isKnownAmount (au_amount inp) \<or> isDirectorRequired (amount_of (au_amount inp)) (directorThresholdOf facts)) \<longrightarrow>
       DIRECTOR \<in> set (rolesOf identity) \<and> basis = OwnAuthority)"
  using canApprove_Allowed [OF assms]
proof (elim disjE exE conjE)
  fix d assume d: "own_decision identity inp facts = Some d" "d = Allowed person basis"
  then have "\<not> creator_of identity inp" by (auto simp: own_decision_def creator_of_def Let_def split: if_splits option.splits)
  with d show ?thesis by (auto simp: own_decision_cases split: if_splits)
next
  assume "own_decision identity inp facts = None"
  from own_decision_None [OF this] show ?thesis by blast
qed

lemma below_gate: "\<not> isDirectorRequired amount threshold \<Longrightarrow> small \<le> amount \<Longrightarrow> \<not> isDirectorRequired small threshold"
  by (auto simp: isDirectorRequired_def split: option.splits)

lemma own_authority_smaller:
  assumes "canApprove identity inp facts = Allowed p OwnAuthority" "au_amount inp = Num amount" "0 \<le> small" "small \<le> amount"
    "\<not> af_isResidence facts"
  shows "canApprove identity (inp\<lparr>au_amount := Num small\<rparr>) facts = Allowed None OwnAuthority"
proof -
  let ?small = "inp\<lparr>au_amount := Num small\<rparr>"
  let ?own = "heldLimit (rolesOf identity) (SUBJECT_ELIGIBLE_ROLES (au_subject inp)) (af_limits facts)"
  from assms(1) obtain d where d: "own_decision identity inp facts = Some d" "d = Allowed p OwnAuthority"
    using canApprove_Allowed [OF assms(1)] by auto
  then have nc: "\<not> creator_of identity inp" by (auto simp: own_decision_def creator_of_def Let_def split: if_splits option.splits)
  then have nc': "\<not> creator_of identity ?small" by (simp add: creator_of_def)
  have dir: "DIRECTOR \<in> set (rolesOf identity) \<Longrightarrow> covers ?own a" for a
    unfolding covers_heldLimit by (rule bexI [OF _ director_eligible]) simp
  from d assms(2) have "DIRECTOR \<in> set (rolesOf identity) \<or>
      \<not> isDirectorRequired amount (directorThresholdOf facts) \<and> covers ?own amount"
    by (auto simp: own_decision_cases [OF nc assms(5)] split: if_splits)
  then have "own_decision identity ?small facts = Some (Allowed None OwnAuthority)"
    using dir [of small] below_gate [of amount "directorThresholdOf facts" small] covers_smaller [of ?own amount small] assms(3,4)
    by (auto simp: own_decision_cases [OF nc' assms(5)])
  then show ?thesis by (simp add: canApprove.simps [of identity])
qed

text \<open>Authority is monotone in the amount: whoever may approve an item may approve it for any smaller known
  amount, with the same attribution on the request.\<close>

theorem authority_monotone:
  assumes "canApprove identity inp facts = Allowed person basis" "au_amount inp = Num amount" "0 \<le> small" "small \<le> amount"
  shows "\<exists>person' basis'. canApprove identity (inp\<lparr>au_amount := Num small\<rparr>) facts = Allowed person' basis'"
proof (cases "af_isResidence facts")
  case True
  from canApprove_Allowed [OF assms(1)] True obtain d where "own_decision identity inp facts = Some (Allowed person basis)"
    by (auto dest: own_decision_None)
  with True assms(2-4) have "\<exists>p b. own_decision identity (inp\<lparr>au_amount := Num small\<rparr>) facts = Some (Allowed p b)"
    by (auto simp: own_decision_def day_of_def Let_def split: if_splits)
  then show ?thesis by (auto simp: canApprove.simps [of identity])
next
  case res: False
  show ?thesis
  proof (cases "basis = OwnAuthority")
    case True
    with own_authority_smaller [OF _ assms(2-4) res] assms(1) show ?thesis by blast
  next
    case False
    let ?small = "inp\<lparr>au_amount := Num small\<rparr>"
    from canApprove_Allowed [OF assms(1)] False obtain named p where
      none: "own_decision identity inp facts = None" and
      named: "au_attribution inp = Some named" "hasIdentifier named" "\<not> samePerson identity named"
        "canApprove named (inp\<lparr>au_attribution := None\<rparr>) facts = Allowed p OwnAuthority"
      using res by (auto simp: own_decision_def Let_def split: if_splits)
    note n = own_decision_None [OF none]
    have theirs: "canApprove named (?small\<lparr>au_attribution := None\<rparr>) facts = Allowed None OwnAuthority"
    proof -
      have "?small\<lparr>au_attribution := None\<rparr> = (inp\<lparr>au_attribution := None\<rparr>)\<lparr>au_amount := Num small\<rparr>" by (cases inp) simp
      moreover have "au_amount (inp\<lparr>au_attribution := None\<rparr>) = Num amount" using assms(2) by simp
      note own_authority_smaller [OF named(4) this assms(3,4) res]
      ultimately show ?thesis by (simp only:)
    qed
    have nc: "\<not> creator_of identity ?small" using n(1) by (simp add: creator_of_def)
    have "own_decision identity ?small facts \<in> {None, Some (Allowed None OwnAuthority)}"
      using n assms(2-4) below_gate [OF n(4), of small] covers_smaller [OF n(5), of small]
      by (auto simp: own_decision_cases [OF nc res])
    then show ?thesis
      using named(1-3) theirs by (auto simp: canApprove.simps [of identity])
  qed
qed

section \<open>The order of a route\<close>

lemma compareText_le: "compareText l r \<le> 0 \<longleftrightarrow> js_le l r"
  using js_less_linear [of l r] js_less_trans [of r l r] by (auto simp: compareText_def js_le_def)

lemma byLimitThenLadder_le:
  "byLimitThenLadder a b \<le> 0 \<longleftrightarrow>
     (case (step_limit a, step_limit b) of
        (Some l, Some r) \<Rightarrow> l < r
      | (Some l, None) \<Rightarrow> True
      | (None, _) \<Rightarrow> False) \<or>
     step_limit a = step_limit b \<and>
       (ladderRank (step_role a) < ladderRank (step_role b) \<or>
        ladderRank (step_role a) = ladderRank (step_role b) \<and> js_le (step_role a) (step_role b))"
  using compareText_le [of "step_role a" "step_role b"]
  by (auto simp: byLimitThenLadder_def or_else_def split: option.splits)

interpretation route_order: consistent_comparator byLimitThenLadder
proof
  fix a b c :: approver
  show "byLimitThenLadder a b \<le> 0 \<or> byLimitThenLadder b a \<le> 0"
    using js_le_total [of "step_role a" "step_role b"] unfolding byLimitThenLadder_le
    by (auto split: option.splits)
  assume "byLimitThenLadder a b \<le> 0" "byLimitThenLadder b c \<le> 0"
  then show "byLimitThenLadder a c \<le> 0"
    using js_le_trans [of "step_role a" "step_role b" "step_role c"] unfolding byLimitThenLadder_le
    by (auto split: option.splits)
qed

text \<open>The steps before the director's.\<close>

lemma ladderRoute_levels:
  "ladderRoute subject amount limits = butlast (ladderRoute subject amount limits) @ [directorStep RoleLimitBasis]"
  by (simp add: ladderRoute_def)

lemma ladderRoute_level:
  assumes "step \<in> set (butlast (ladderRoute subject amount limits))"
  shows "step_role step \<in> set (SUBJECT_ELIGIBLE_ROLES subject) \<and> step_role step \<notin> {ADMIN, DIRECTOR} \<and>
    covers (rowLimit (step_role step) limits) amount \<and> (case step_limit step of None \<Rightarrow> True | Some l \<Rightarrow> amount \<le> l)"
proof -
  from assms obtain role where step: "step = RoleStep RoleLimitBasis (limit_value (rowLimit role limits)) role"
    and role: "role \<in> set (SUBJECT_ELIGIBLE_ROLES subject)" "role \<notin> {ADMIN, DIRECTOR}" "covers (rowLimit role limits) amount"
    by (auto simp: ladderRoute_def butlast_append)
  then show ?thesis by (cases "rowLimit role limits") auto
qed

text \<open>A spending item's route is every sufficient level, lowest limit first and unlimited ones last, and then the
  director; each level's limit covers the amount, and neither admin nor the director is among them.\<close>

theorem ladder_route_ordered:
  shows "\<exists>levels. ladderRoute subject amount limits = levels @ [directorStep RoleLimitBasis] \<and>
    sorted_wrt (\<lambda>a b. byLimitThenLadder a b \<le> 0) levels \<and>
    step_role ` set levels =
      {role \<in> set (SUBJECT_ELIGIBLE_ROLES subject). role \<notin> {ADMIN, DIRECTOR} \<and> covers (rowLimit role limits) amount} \<and>
    list_all (\<lambda>step. case step_limit step of None \<Rightarrow> True | Some l \<Rightarrow> amount \<le> l) levels"
proof (intro exI conjI)
  let ?levels = "butlast (ladderRoute subject amount limits)"
  show "ladderRoute subject amount limits = ?levels @ [directorStep RoleLimitBasis]" by (rule ladderRoute_levels)
  show "sorted_wrt (\<lambda>a b. byLimitThenLadder a b \<le> 0) ?levels"
    using route_order.sorted_sort_by by (simp add: ladderRoute_def butlast_append)
  show "step_role ` set ?levels =
      {role \<in> set (SUBJECT_ELIGIBLE_ROLES subject). role \<notin> {ADMIN, DIRECTOR} \<and> covers (rowLimit role limits) amount}"
    by (auto simp: ladderRoute_def butlast_append image_iff)
  show "list_all (\<lambda>step. case step_limit step of None \<Rightarrow> True | Some l \<Rightarrow> amount \<le> l) ?levels"
    using ladderRoute_level by (fastforce simp: list_all_iff)
qed

section \<open>An example\<close>

definition sample_facts :: authority_facts where
  "sample_facts =
     \<lparr>af_directorThreshold = None, af_isResidence = False,
      af_limits = [\<lparr>rl_limit = Some (Num 500), rl_role = ''facilities''\<rparr>, \<lparr>rl_limit = Some (Num 2000), rl_role = '' Facilities_Manager''\<rparr>,
        \<lparr>rl_limit = Some (Num 10000), rl_role = ''cfo''\<rparr>],
      af_residenceApprovers = [], af_residenceDirectorFallback = False, af_today = ''2026-10-13''\<rparr>"

definition sample_identity :: "int \<Rightarrow> string \<Rightarrow> identity" where
  "sample_identity i role = \<lparr>id_displayName = None, id_email = None, id_roles = [role], id_userId = Some i\<rparr>"

definition sample_quote :: "rat \<Rightarrow> authority_input" where
  "sample_quote amount =
     \<lparr>au_amount = Num amount, au_at = None, au_attribution = None, au_buildingId = 1, au_createdBy = None, au_subject = Quote\<rparr>"

theorem route_agrees_with_decision_witness:
  "\<exists>step\<in>set (ar_route (decideAuthority (sample_quote 1500) sample_facts)). holdsRole (rolesOf (sample_identity 7 ''Facilities_Manager'')) (step_role step)"
proof -
  have "canApprove (sample_identity 7 ''Facilities_Manager'') (sample_quote 1500) sample_facts = Allowed None OwnAuthority" by code_simp
  moreover have "ADMIN \<notin> set (rolesOf (sample_identity 7 ''Facilities_Manager''))" by code_simp
  ultimately show ?thesis
    using route_agrees_with_decision [of sample_facts "sample_quote 1500" "sample_identity 7 ''Facilities_Manager''"]
    by (auto simp: sample_facts_def sample_quote_def creator_of_def)
qed

theorem attribution_adds_no_authority_witness:
  "holdsRole (rolesOf (sample_identity 8 ''facilities'')) ''facilities'' \<and>
   canApprove (sample_identity 7 ''facilities_manager'') (sample_quote 400) sample_facts = Allowed None OwnAuthority"
proof -
  have a: "canApprove (sample_identity 8 ''facilities'')
      ((sample_quote 400)\<lparr>au_attribution := Some (sample_identity 7 ''facilities_manager'')\<rparr>) sample_facts =
    Allowed (Some \<lparr>ap_displayName = None, ap_email = None, ap_userId = Some 7\<rparr>) Attributed"
    by code_simp
  from attribution_adds_no_authority [OF a] show ?thesis by (auto simp: sample_quote_def)
qed

theorem director_gate_witness: "DIRECTOR \<in> set (rolesOf (sample_identity 9 ''Director''))"
proof -
  have a: "canApprove (sample_identity 9 ''Director'') (sample_quote 20000) sample_facts = Allowed None OwnAuthority" by code_simp
  have "isDirectorRequired (amount_of (au_amount (sample_quote 20000))) (directorThresholdOf sample_facts)" by code_simp
  with director_gate [OF a] show ?thesis by (simp add: sample_facts_def)
qed

theorem authority_monotone_witness:
  "\<exists>person basis. canApprove (sample_identity 7 ''facilities_manager'') ((sample_quote 1500)\<lparr>au_amount := Num 3\<rparr>) sample_facts = Allowed person basis"
proof -
  have a: "canApprove (sample_identity 7 ''facilities_manager'') (sample_quote 1500) sample_facts = Allowed None OwnAuthority" by code_simp
  from authority_monotone [OF a, of 1500 3] show ?thesis by (simp add: sample_quote_def)
qed

end
