(* ===== verification/Money_Rules.thy ===== *)
theory Money_Rules
  imports Approval_Authority Escalation_Types
begin

text \<open>
  The money rules: \<open>src/moneyRules.ts\<close>, with the kinds of job of \<open>src/jobKinds.ts\<close>, the manager roles of
  \<open>src/attributedApproval.ts\<close>, what an approve click does (\<open>src/approvalOutcome.ts\<close>), what an edit implies
  (\<open>src/edit-effects.ts\<close>) and the parser of amounts (\<open>src/money.ts\<close>). A value of an unknown type is
  \<open>json option\<close>, with \<open>None\<close> for \<open>undefined\<close>. A refusal is its code, its HTTP status and the figures it
  carries; the sentence shown to people is left out. Amounts are exact rationals.
\<close>

section \<open>Job kinds\<close>

definition CONTRACTOR_FLOW_KINDS :: "string list" where
  "CONTRACTOR_FLOW_KINDS = [''facilities'', ''maintenance'']"

definition jobKindOf :: "json option \<Rightarrow> string" where
  "jobKindOf value =
     (case value of Some (JStr s) \<Rightarrow> if js_trim s \<noteq> '''' then js_trim s else ''facilities'' | _ \<Rightarrow> ''facilities'')"

definition runsContractorFlow :: "json option \<Rightarrow> bool" where
  "runsContractorFlow kind \<longleftrightarrow> jobKindOf kind \<in> set CONTRACTOR_FLOW_KINDS"

section \<open>Refusals\<close>

record money_refusal =
  mr_code :: string
  mr_details :: "(rat \<times> rat) option" \<comment> \<open>\<open>{ amount, originalApprovedAmount }\<close>\<close>
  mr_status :: nat

definition refuse :: "string \<Rightarrow> nat \<Rightarrow> money_refusal" where
  "refuse code status = \<lparr>mr_code = code, mr_details = None, mr_status = status\<rparr>"

definition adminJobRefusal :: "json option \<Rightarrow> money_refusal option" where
  "adminJobRefusal kind = (if runsContractorFlow kind then None else Some (refuse ''admin_is_internal'' 422))"

record money_job_input =
  mi_isArchived :: "json option"
  mi_isInternal :: "json option"
  mi_kind :: "json option"
  mi_status :: "json option"

text \<open>\<open>flag === true || flag === 1\<close>.\<close>

definition flag_set :: "json option \<Rightarrow> bool" where
  "flag_set value \<longleftrightarrow> value = Some (JBool True) \<or> value = Some (JNum (Num 1))"

definition jobMoneyRefusal :: "money_job_input \<Rightarrow> bool \<Rightarrow> money_refusal option" where
  "jobMoneyRefusal job outgoingInvoice =
     (case adminJobRefusal (mi_kind job) of
        Some adminJob \<Rightarrow> Some adminJob
      | None \<Rightarrow>
          if flag_set (mi_isInternal job) then Some (refuse ''internal_job'' 422)
          else if mi_status job = Some (JStr ''Done'') \<and> \<not> outgoingInvoice then Some (refuse ''job_done'' 409)
          else if flag_set (mi_isArchived job) then Some (refuse ''job_archived'' 409)
          else None)"

text \<open>\<open>typeof value !== "number" || !Number.isFinite(value) || value <= 0\<close>, negated.\<close>

definition positive_number :: "json \<Rightarrow> bool" where
  "positive_number value = (case value of JNum (Num n) \<Rightarrow> n > 0 | _ \<Rightarrow> False)"

definition amountRefusal :: "json option \<Rightarrow> bool \<Rightarrow> money_refusal option" where
  "amountRefusal value required =
     (case value of
        None \<Rightarrow> if required then Some (refuse ''amount_invalid'' 422) else None
      | Some v \<Rightarrow> if positive_number v then None else Some (refuse ''amount_invalid'' 422))"

definition purchaseOrderCostRefusal :: "json option \<Rightarrow> json option \<Rightarrow> bool \<Rightarrow> money_refusal option" where
  "purchaseOrderCostRefusal estimated cap required =
     (let sent = List.map_filter id [estimated, cap]; bad = list_ex (\<lambda>v. \<not> positive_number v) sent
      in if bad \<or> required \<and> sent = [] then Some (refuse ''amount_invalid'' 422) else None)"

definition purchaseOrderQuoteRefusal :: "bool \<Rightarrow> bool \<Rightarrow> money_refusal option" where
  "purchaseOrderQuoteRefusal hasApprovedQuote isContract =
     (if isContract \<or> hasApprovedQuote then None else Some (refuse ''quote_not_approved'' 422))"

definition nameKey :: "json option \<Rightarrow> string" where
  "nameKey name = (case name of Some (JStr s) \<Rightarrow> js_lower (js_trim s) | _ \<Rightarrow> '''')"

text \<open>\<open>samePerson\<close> of this file: the same person by stored display name.\<close>

definition samePersonName :: "json option \<Rightarrow> json option \<Rightarrow> bool" where
  "samePersonName left right \<longleftrightarrow> nameKey left \<noteq> '''' \<and> nameKey left = nameKey right"

definition creatorRefusal :: "json option \<Rightarrow> string \<Rightarrow> string list \<Rightarrow> money_refusal option" where
  "creatorRefusal createdBy name roles =
     (if list_ex (\<lambda>role. js_lower (js_trim role) = ''director'') roles then None
      else if samePersonName createdBy (Some (JStr name)) then Some (refuse ''creator'' 403)
      else None)"

definition APPROVABLE :: "string list" where
  "APPROVABLE = [''pending'', ''awaiting_approval'']"

definition approvableRefusal :: "json option \<Rightarrow> money_refusal option" where
  "approvableRefusal status =
     (case status of
        Some (JStr s) \<Rightarrow> if s \<in> set APPROVABLE then None else Some (refuse ''not_approvable'' 409)
      | _ \<Rightarrow> Some (refuse ''not_approvable'' 409))"

definition adminRefusal :: "string list \<Rightarrow> bool \<Rightarrow> money_refusal option" where
  "adminRefusal roles isTestRecord =
     (let keys = map (\<lambda>role. js_lower (js_trim role)) roles;
          adminOnly = ''admin'' \<in> set keys \<and> list_all (\<lambda>role. role = ''admin'' \<or> role = ''user'') keys
      in if adminOnly \<and> \<not> isTestRecord then Some (refuse ''admin_test_records_only'' 403) else None)"

definition holdsAdmin :: "string list \<Rightarrow> bool" where
  "holdsAdmin roles = list_ex (\<lambda>role. js_lower (js_trim role) = ''admin'') roles"

definition REJECT_REASON_MAX :: nat where
  "REJECT_REASON_MAX = 500"

definition rejectReason :: "json option \<Rightarrow> string option" where
  "rejectReason value =
     (case value of
        Some (JStr s) \<Rightarrow> if js_trim s = '''' then None else Some (take REJECT_REASON_MAX (js_trim s))
      | _ \<Rightarrow> None)"

definition declineReasonRefusal :: "bool \<Rightarrow> string option \<Rightarrow> money_refusal option" where
  "declineReasonRefusal waitsOnDirector reason =
     (if \<not> waitsOnDirector \<or> reason \<noteq> None then None else Some (refuse ''reason_required'' 422))"

section \<open>Variance within a margin\<close>

record variance_facts =
  vf_capDollars :: rat
  vf_marginPercent :: rat

definition DEFAULT_VARIANCE_FACTS :: variance_facts where
  "DEFAULT_VARIANCE_FACTS = \<lparr>vf_capDollars = 1000, vf_marginPercent = 10\<rparr>"

record variance_request =
  vr_attributedTo :: "identity option"
  vr_directorOverride :: "string option" \<comment> \<open>its \<open>reason\<close>\<close>
  vr_rationale :: "string option"

record variance_input =
  vi_acceptedAmount :: "rat option"
  vi_buildingId :: int
  vi_editor :: identity
  vi_newAmount :: "js_number option"
  vi_originalAmount :: "js_number option"
  vi_request :: variance_request
  vi_subject :: money_subject

record variance_figures =
  vg_allowance :: rat
  vg_deltaAmount :: rat
  vg_deltaPercent :: rat
  vg_newAmount :: rat
  vg_originalAmount :: rat

datatype variance_decision =
    NoVariance
  | WithinTolerance "identity option" variance_figures string
  | DirectorOverride "variance_figures option" money_refusal string
  | VarianceRefused "variance_figures option" money_refusal

definition cents :: "rat \<Rightarrow> int" where
  "cents dollars = js_round (dollars * 100)"

definition NAMEABLE_ROLES :: "string list" where
  "NAMEABLE_ROLES = [''facilities_manager'', ''accounts_manager'', ''cfo'', ''director'']"

definition nameableRoles :: "string list \<Rightarrow> string list" where
  "nameableRoles roles = filter (\<lambda>role. role \<in> set NAMEABLE_ROLES) (map (\<lambda>role. js_lower (js_trim role)) roles)"

definition withoutAdmin :: "identity \<Rightarrow> identity" where
  "withoutAdmin person = person\<lparr>id_roles := filter (\<lambda>role. js_lower (js_trim role) \<noteq> ''admin'') (id_roles person)\<rparr>"

definition email_text :: "string option \<Rightarrow> string" where
  "email_text email = (case email of Some e \<Rightarrow> js_lower (js_trim e) | None \<Rightarrow> '''')"

definition samePersonIdentity :: "identity \<Rightarrow> identity \<Rightarrow> bool" where
  "samePersonIdentity left right \<longleftrightarrow>
     id_userId left \<noteq> None \<and> id_userId left = id_userId right \<or>
     email_text (id_email left) \<noteq> '''' \<and> email_text (id_email left) = email_text (id_email right)"

definition variance_authority :: "money_subject \<Rightarrow> rat \<Rightarrow> int \<Rightarrow> authority_input" where
  "variance_authority subject amount building =
     \<lparr>au_amount = Num amount, au_at = None, au_attribution = None, au_buildingId = building, au_createdBy = None,
      au_subject = subject\<rparr>"

text \<open>The finite limits of the rows of roles other than the director's.\<close>

definition ladder_limits :: "role_limit list \<Rightarrow> rat list" where
  "ladder_limits limits =
     List.map_filter (\<lambda>row. if js_lower (js_trim (rl_role row)) \<noteq> ''director''
       then (case rl_limit row of Some (Num l) \<Rightarrow> Some l | _ \<Rightarrow> None) else None) limits"

definition crossedThreshold :: "rat \<Rightarrow> rat \<Rightarrow> authority_facts \<Rightarrow> (rat \<times> bool) option" where
  "crossedThreshold low high authority =
     (let crosses = (\<lambda>limit. cents low \<le> cents limit \<and> cents high > cents limit);
          crossed = sort_by (\<lambda>a b. a - b) (filter crosses (ladder_limits (af_limits authority)));
          ladder = (case crossed of [] \<Rightarrow> None | l # _ \<Rightarrow> Some (l, False))
      in case ar_effectiveDirectorThreshold (decideAuthority (variance_authority Quote 0 0) authority) of
           Some d \<Rightarrow> if crosses d then Some (d, True) else ladder
         | None \<Rightarrow> ladder)"

definition own_authority :: "approval_decision \<Rightarrow> bool" where
  "own_authority decision = (case decision of Allowed _ OwnAuthority \<Rightarrow> True | _ \<Rightarrow> False)"

definition variance_figures_of :: "variance_facts \<Rightarrow> rat \<Rightarrow> rat \<Rightarrow> variance_figures" where
  "variance_figures_of facts original amount =
     (let deltaCents = cents amount - cents original;
          allowanceCents = min \<lfloor>of_int (cents original) * vf_marginPercent facts / 100\<rfloor> (cents (vf_capDollars facts))
      in \<lparr>vg_allowance = of_int allowanceCents / 100, vg_deltaAmount = of_int deltaCents / 100,
          vg_deltaPercent = of_int (js_round (of_int deltaCents / of_int (cents original) * 10000)) / 100,
          vg_newAmount = amount, vg_originalAmount = original\<rparr>)"

text \<open>The steps of \<open>decideVariance\<close> once the amount is known and has risen past what is covered.\<close>

definition decide_rise :: "variance_input \<Rightarrow> rat \<Rightarrow> rat \<Rightarrow> variance_facts \<Rightarrow> authority_facts \<Rightarrow> variance_decision" where
  "decide_rise inp original amount facts authority =
     (let figures = variance_figures_of facts original amount; editor = vi_editor inp; request = vi_request inp;
          refused = (\<lambda>code. VarianceRefused (Some figures)
            \<lparr>mr_code = code, mr_details = Some (amount, original), mr_status = 422\<rparr>);
          ask = variance_authority (vi_subject inp) amount (vi_buildingId inp);
          rationale = (case vr_rationale request of Some r \<Rightarrow> js_trim r | None \<Rightarrow> '''')
      in if cents amount - cents original >
            min \<lfloor>of_int (cents original) * vf_marginPercent facts / 100\<rfloor> (cents (vf_capDollars facts))
         then refused ''variance_over_margin''
         else case crossedThreshold original amount authority of
           Some (_, director) \<Rightarrow> refused (if director then ''variance_crosses_director'' else ''variance_crosses_limit'')
         | None \<Rightarrow>
             if rationale = '''' then refused ''variance_rationale_required''
             else if nameableRoles (id_roles editor) \<noteq> [] \<and> own_authority (canApprove (withoutAdmin editor) ask authority)
             then WithinTolerance None figures rationale
             else case vr_attributedTo request of
               None \<Rightarrow> refused ''variance_manager_required''
             | Some named \<Rightarrow>
                 if samePersonIdentity editor named \<or>
                    \<not> own_authority (canApprove ((withoutAdmin named)\<lparr>id_roles := nameableRoles (id_roles named)\<rparr>) ask authority)
                 then refused ''variance_manager_invalid''
                 else WithinTolerance (Some named) figures rationale)"

definition decideVariance :: "variance_input \<Rightarrow> rat \<Rightarrow> variance_facts \<Rightarrow> authority_facts \<Rightarrow> variance_decision" where
  "decideVariance inp original facts authority =
     (case vi_newAmount inp of
        Some (Num amount) \<Rightarrow>
          if amount < 0 then VarianceRefused None (refuse ''variance_amount_unknown'' 422)
          else if vi_subject inp = Invoice \<and> cents amount > cents original \<and>
             ''accounts'' \<in> set (id_roles (vi_editor inp)) \<and> nameableRoles (id_roles (vi_editor inp)) = []
          then VarianceRefused None (refuse ''invoice_increase_manager_required'' 422)
          else if cents amount \<le> max (cents original) (cents (case vi_acceptedAmount inp of Some a \<Rightarrow> a | None \<Rightarrow> 0))
          then NoVariance
          else decide_rise inp original amount facts authority
      | _ \<Rightarrow> VarianceRefused None (refuse ''variance_amount_unknown'' 422))"

definition varianceDecision :: "variance_input \<Rightarrow> variance_facts \<Rightarrow> authority_facts \<Rightarrow> variance_decision" where
  "varianceDecision inp facts authority =
     (case vi_originalAmount inp of
        Some (Num original) \<Rightarrow>
          if original \<le> 0 then NoVariance
          else (case decideVariance inp original facts authority of
                  VarianceRefused figures refusal \<Rightarrow>
                    (let reason = (case vr_directorOverride (vi_request inp) of Some r \<Rightarrow> js_trim r | None \<Rightarrow> '''');
                         isDirector = list_ex (\<lambda>role. js_lower (js_trim role) = ''director'') (id_roles (vi_editor inp))
                     in if isDirector \<and> reason \<noteq> '''' then DirectorOverride figures refusal reason
                        else VarianceRefused figures refusal)
                | decided \<Rightarrow> decided)
      | _ \<Rightarrow> NoVariance)"

section \<open>What an approve click does\<close>

datatype approval_refusal_reason = Denial deny_reason | AdminTestRecordsOnly

datatype approval_outcome =
    Approved "attributed_person option" approval_basis "approver list"
  | AwaitingDirector "approver list"
  | AwaitingApproval limit "approver list"
  | ApprovalRefused approval_refusal_reason "approver list"

fun refusalStatus :: "approval_refusal_reason \<Rightarrow> nat" where
  "refusalStatus (Denial DenyAttributionRequired) = 422"
| "refusalStatus (Denial DenyAttributionInvalid) = 422"
| "refusalStatus _ = 403"

definition withoutAdminUnlessTest :: "identity \<Rightarrow> bool \<Rightarrow> identity option" where
  "withoutAdminUnlessTest identity isTest =
     (let roles = id_roles identity; others = filter (\<lambda>role. js_lower (js_trim role) \<noteq> ADMIN) roles
      in if isTest \<or> length others = length roles then Some identity
         else if others = [] then None else Some (identity\<lparr>id_roles := others\<rparr>))"

definition approvalOutcome :: "identity \<Rightarrow> authority_input \<Rightarrow> authority_facts \<Rightarrow> bool \<Rightarrow> approval_outcome" where
  "approvalOutcome identity inp facts isTest =
     (let decided = decideAuthority inp facts; route = ar_route decided
      in case withoutAdminUnlessTest identity isTest of
           None \<Rightarrow> ApprovalRefused AdminTestRecordsOnly route
         | Some actor \<Rightarrow>
             if ar_directorRequired decided then AwaitingDirector route
             else (case canApprove actor inp facts of
                     Allowed person basis \<Rightarrow> Approved person basis route
                   | Denied held reason \<Rightarrow>
                       if reason = DenyOverLimit then AwaitingApproval held route
                       else ApprovalRefused (Denial reason) route))"

section \<open>What an edit implies\<close>

text \<open>A field of a request: absent, or present with a value or \<open>null\<close>.\<close>

type_synonym 'a field = "'a option option"

definition isMaterialChange :: "rat option \<Rightarrow> rat field \<Rightarrow> bool" where
  "isMaterialChange before change = (case change of None \<Rightarrow> False | Some b \<Rightarrow> before \<noteq> b)"

definition payeeChanged :: "int option \<Rightarrow> string option \<Rightarrow> int field \<Rightarrow> string field \<Rightarrow> bool" where
  "payeeChanged beforeId beforeName changeId changeName \<longleftrightarrow>
     (case changeId of None \<Rightarrow> False | Some i \<Rightarrow> i \<noteq> beforeId) \<or>
     (case changeName of None \<Rightarrow> False | Some n \<Rightarrow> n \<noteq> beforeName)"

definition APPROVED_STATUSES :: "string list" where
  "APPROVED_STATUSES = [''approved'', ''director_approved'', ''completed'', ''awaiting_director'']"

record approval_amount_before =
  ab_amount :: "rat option"
  ab_contractorId :: "int option"
  ab_contractorName :: "string option"
  ab_status :: "string option"
  ab_approvedAt :: "instant option"

record approval_amount_effects =
  ae_amountChanged :: bool
  ae_contractorChanged :: bool
  ae_clearApproval :: bool

definition decideApprovalAmountEdit ::
  "approval_amount_before \<Rightarrow> rat field \<Rightarrow> int field \<Rightarrow> string field \<Rightarrow> approval_amount_effects" where
  "decideApprovalAmountEdit before amount contractorId contractorName =
     (let amountChanged = isMaterialChange (ab_amount before) amount;
          contractorChanged = payeeChanged (ab_contractorId before) (ab_contractorName before) contractorId contractorName;
          wasApproved = (case ab_status before of Some s \<Rightarrow> s \<in> set APPROVED_STATUSES | None \<Rightarrow> False) \<or>
                        ab_approvedAt before \<noteq> None
      in \<lparr>ae_amountChanged = amountChanged, ae_contractorChanged = contractorChanged,
          ae_clearApproval = ((amountChanged \<or> contractorChanged) \<and> wasApproved)\<rparr>)"

record order_edit_before =
  ob_contractorId :: "int option"
  ob_contractorName :: "string option"
  ob_costNotToExceed :: "rat option"
  ob_estimatedCost :: "rat option"
  ob_sentAt :: "instant option"
  ob_myobCreatedAt :: "instant option"
  ob_completedAt :: "instant option"

record order_edit_effects =
  oe_estimatedCostChanged :: bool
  oe_costNotToExceedChanged :: bool
  oe_contractorChanged :: bool
  oe_clearSentMarker :: bool
  oe_clearMyobMarker :: bool

definition decidePurchaseOrderEdit ::
  "order_edit_before \<Rightarrow> rat field \<Rightarrow> rat field \<Rightarrow> int field \<Rightarrow> string field \<Rightarrow> order_edit_effects" where
  "decidePurchaseOrderEdit before costNotToExceed estimatedCost contractorId contractorName =
     (let estimatedCostChanged = isMaterialChange (ob_estimatedCost before) estimatedCost;
          costNotToExceedChanged = isMaterialChange (ob_costNotToExceed before) costNotToExceed;
          contractorChanged = payeeChanged (ob_contractorId before) (ob_contractorName before) contractorId contractorName;
          moneyChanged = estimatedCostChanged \<or> costNotToExceedChanged \<or> contractorChanged;
          inFlight = (ob_completedAt before = None)
      in \<lparr>oe_estimatedCostChanged = estimatedCostChanged, oe_costNotToExceedChanged = costNotToExceedChanged,
          oe_contractorChanged = contractorChanged,
          oe_clearSentMarker = (moneyChanged \<and> inFlight \<and> ob_sentAt before \<noteq> None),
          oe_clearMyobMarker = (moneyChanged \<and> inFlight \<and> ob_myobCreatedAt before \<noteq> None)\<rparr>)"

section \<open>Amounts as they are typed\<close>

definition hasAtMostTwoDecimals :: "rat \<Rightarrow> bool" where
  "hasAtMostTwoDecimals n \<longleftrightarrow> \<bar>n * 100 - of_int (js_round (n * 100))\<bar> < 1 / 1000000"

definition all_digits :: "string \<Rightarrow> bool" where
  "all_digits s \<longleftrightarrow> s \<noteq> [] \<and> list_all is_digit s"

text \<open>\<open>\d{1,3}(?:,\d{3})+\<close>.\<close>

definition thousands_groups :: "string \<Rightarrow> bool" where
  "thousands_groups s =
     (case split_on CHR '','' s of
        first # rest \<Rightarrow> all_digits first \<and> length first \<le> 3 \<and> rest \<noteq> [] \<and>
          list_all (\<lambda>group. all_digits group \<and> length group = 3) rest
      | [] \<Rightarrow> False)"

text \<open>\<open>MONEY_PATTERN\<close>: the digits before the point (commas still in) and the digits after it.\<close>

definition MONEY_PATTERN :: "string \<Rightarrow> (string \<times> string) option" where
  "MONEY_PATTERN s =
     (let body = dropWhile js_ws (case s of c # rest \<Rightarrow> if c = CHR ''$'' then rest else s | [] \<Rightarrow> []);
          whole = takeWhile (\<lambda>c. c \<noteq> CHR ''.'') body; rest = dropWhile (\<lambda>c. c \<noteq> CHR ''.'') body; fraction = tl rest
      in if (rest = [] \<or> all_digits fraction \<and> length fraction \<le> 2) \<and>
            (all_digits whole \<or> thousands_groups whole \<or> whole = [] \<and> rest \<noteq> [])
         then Some (whole, fraction) else None)"

definition decimal_value :: "string \<Rightarrow> string \<Rightarrow> rat option" where
  "decimal_value whole fraction =
     (case (number_of (filter (\<lambda>c. c \<noteq> CHR '','') whole) 0, number_of fraction 0) of
        (Some w, Some f) \<Rightarrow> Some (of_int w + of_int f / 10 ^ length fraction)
      | _ \<Rightarrow> None)"

definition parseMoney :: "json option \<Rightarrow> rat option" where
  "parseMoney raw =
     (case raw of
        Some (JNum (Num n)) \<Rightarrow> if n \<ge> 0 \<and> hasAtMostTwoDecimals n then Some n else None
      | Some (JStr s) \<Rightarrow>
          (case MONEY_PATTERN (js_trim s) of
             None \<Rightarrow> None
           | Some (whole, fraction) \<Rightarrow> decimal_value whole fraction)
      | _ \<Rightarrow> None)"

text \<open>\<open>Inl\<close> is the 400 answer.\<close>

definition parseMoneyField :: "json option \<Rightarrow> unit + rat field" where
  "parseMoneyField raw =
     (case raw of
        None \<Rightarrow> Inr None
      | Some JNull \<Rightarrow> Inr (Some None)
      | Some (JStr s) \<Rightarrow>
          if js_trim s = '''' then Inr (Some None)
          else (case parseMoney raw of None \<Rightarrow> Inl () | Some v \<Rightarrow> Inr (Some (Some v)))
      | _ \<Rightarrow> (case parseMoney raw of None \<Rightarrow> Inl () | Some v \<Rightarrow> Inr (Some (Some v))))"

section \<open>The margin\<close>

lemma crossedThreshold_None:
  assumes "crossedThreshold low high authority = None"
  shows "list_all (\<lambda>limit. \<not> (cents low \<le> cents limit \<and> cents limit < cents high)) (ladder_limits (af_limits authority))"
    and "(case directorThresholdOf authority of
            Some d \<Rightarrow> \<not> (cents low \<le> cents d \<and> cents d < cents high) | None \<Rightarrow> True)"
proof -
  have threshold: "ar_effectiveDirectorThreshold (decideAuthority (variance_authority Quote 0 0) authority) =
      directorThresholdOf authority"
    by (simp add: decideAuthority_def variance_authority_def Let_def)
  show "list_all (\<lambda>limit. \<not> (cents low \<le> cents limit \<and> cents limit < cents high)) (ladder_limits (af_limits authority))"
    using assms
    by (auto simp: crossedThreshold_def threshold Let_def list_all_iff filter_empty_conv
        split: option.splits list.splits if_splits dest!: arg_cong[where f = set])
  show "(case directorThresholdOf authority of
            Some d \<Rightarrow> \<not> (cents low \<le> cents d \<and> cents d < cents high) | None \<Rightarrow> True)"
    using assms by (auto simp: crossedThreshold_def threshold Let_def split: option.splits list.splits if_splits)
qed

lemma decide_rise_WithinTolerance:
  assumes "decide_rise inp original amount facts authority = WithinTolerance named figures rationale"
  shows "cents amount - cents original \<le> \<lfloor>of_int (cents original) * vf_marginPercent facts / 100\<rfloor>"
    and "cents amount - cents original \<le> cents (vf_capDollars facts)"
    and "crossedThreshold original amount authority = None"
    and "rationale \<noteq> ''''"
    and "figures = variance_figures_of facts original amount"
    and "(case named of
            None \<Rightarrow> nameableRoles (id_roles (vi_editor inp)) \<noteq> [] \<and>
              own_authority (canApprove (withoutAdmin (vi_editor inp))
                (variance_authority (vi_subject inp) amount (vi_buildingId inp)) authority)
          | Some manager \<Rightarrow> vr_attributedTo (vi_request inp) = Some manager \<and> \<not> samePersonIdentity (vi_editor inp) manager \<and>
              own_authority (canApprove ((withoutAdmin manager)\<lparr>id_roles := nameableRoles (id_roles manager)\<rparr>)
                (variance_authority (vi_subject inp) amount (vi_buildingId inp)) authority))"
  using assms
  by (auto simp: decide_rise_def Let_def split: if_splits option.splits prod.splits)

lemma decideVariance_WithinTolerance:
  assumes "decideVariance inp original facts authority = WithinTolerance named figures rationale"
  obtains amount where "vi_newAmount inp = Some (Num amount)" "cents original < cents amount"
    "decide_rise inp original amount facts authority = WithinTolerance named figures rationale"
  using assms by (auto simp: decideVariance_def split: option.splits js_number.splits if_splits)

lemma varianceDecision_WithinTolerance:
  assumes "varianceDecision inp facts authority = WithinTolerance named figures rationale"
  obtains original amount where "vi_originalAmount inp = Some (Num original)" "0 < original"
    "vi_newAmount inp = Some (Num amount)" "cents original < cents amount"
    "decide_rise inp original amount facts authority = WithinTolerance named figures rationale"
  using assms
  by (auto simp: varianceDecision_def Let_def elim!: decideVariance_WithinTolerance
      split: option.splits js_number.splits if_splits variance_decision.splits)

text \<open>The figures of a variance, its amounts in cents within the margin, and nothing crossed.\<close>

definition within_margin :: "variance_facts \<Rightarrow> authority_facts \<Rightarrow> variance_figures \<Rightarrow> bool" where
  "within_margin facts authority figures \<longleftrightarrow>
     (let original = vg_originalAmount figures; amount = vg_newAmount figures
      in 0 < original \<and> cents original < cents amount \<and>
         cents amount \<le> cents original + cents (vf_capDollars facts) \<and>
         of_int (cents amount - cents original) \<le> of_int (cents original) * vf_marginPercent facts / 100 \<and>
         list_all (\<lambda>limit. \<not> (cents original \<le> cents limit \<and> cents limit < cents amount))
           (ladder_limits (af_limits authority)) \<and>
         (case directorThresholdOf authority of
            Some d \<Rightarrow> \<not> (cents original \<le> cents d \<and> cents d < cents amount) | None \<Rightarrow> True))"

text \<open>Who agreed: the editor, a manager who could approve the total alone, or another manager who could.\<close>

definition agreed_by_manager :: "variance_input \<Rightarrow> rat \<Rightarrow> authority_facts \<Rightarrow> identity option \<Rightarrow> bool" where
  "agreed_by_manager inp amount authority named \<longleftrightarrow>
     (let ask = variance_authority (vi_subject inp) amount (vi_buildingId inp)
      in case named of
           None \<Rightarrow> nameableRoles (id_roles (vi_editor inp)) \<noteq> [] \<and>
             own_authority (canApprove (withoutAdmin (vi_editor inp)) ask authority)
         | Some manager \<Rightarrow> vr_attributedTo (vi_request inp) = Some manager \<and>
             \<not> samePersonIdentity (vi_editor inp) manager \<and>
             own_authority (canApprove ((withoutAdmin manager)\<lparr>id_roles := nameableRoles (id_roles manager)\<rparr>) ask authority))"

lemma within_margin_parts:
  assumes "varianceDecision inp facts authority = WithinTolerance named figures rationale"
  shows "vi_originalAmount inp = Some (Num (vg_originalAmount figures))"
    and "vi_newAmount inp = Some (Num (vg_newAmount figures))"
    and "within_margin facts authority figures"
    and "agreed_by_manager inp (vg_newAmount figures) authority named"
    and "rationale \<noteq> ''''"
proof -
  obtain original amount where a: "vi_originalAmount inp = Some (Num original)" "0 < original"
      "vi_newAmount inp = Some (Num amount)" "cents original < cents amount"
    and rise: "decide_rise inp original amount facts authority = WithinTolerance named figures rationale"
    using assms by (rule varianceDecision_WithinTolerance)
  note d = decide_rise_WithinTolerance [OF rise]
  have figures: "vg_originalAmount figures = original" "vg_newAmount figures = amount"
    by (simp_all add: d(5) variance_figures_of_def Let_def)
  show "vi_originalAmount inp = Some (Num (vg_originalAmount figures))"
    and "vi_newAmount inp = Some (Num (vg_newAmount figures))" and "rationale \<noteq> ''''"
    using a d(4) by (simp_all add: figures)
  have "of_int (cents amount - cents original) \<le> (of_int (cents original) * vf_marginPercent facts / 100 :: rat)"
    using d(1) by (simp add: le_floor_iff)
  then show "within_margin facts authority figures"
    using a d(2) crossedThreshold_None [OF d(3)] by (simp add: within_margin_def figures Let_def)
  show "agreed_by_manager inp (vg_newAmount figures) authority named"
    using d(6) by (simp add: agreed_by_manager_def figures Let_def)
qed

text \<open>C24: An increase is let through within the margin only when, against the amount first approved, it is within
  both the percentage and the cap, the total crosses no approval limit and not the director's threshold, a
  reason was given, and a manager agreed who could approve the whole new total alone and who is not the
  editor, unless the editor is that manager.\<close>

theorem variance_within_margin:
  assumes "varianceDecision inp facts authority = WithinTolerance named figures rationale"
  shows "vi_originalAmount inp = Some (Num (vg_originalAmount figures)) \<and>
    vi_newAmount inp = Some (Num (vg_newAmount figures)) \<and>
    within_margin facts authority figures \<and> agreed_by_manager inp (vg_newAmount figures) authority named \<and>
    rationale \<noteq> ''''"
  by (intro conjI within_margin_parts [OF assms])

text \<open>Somebody in accounts who is no manager, on an invoice above what was approved.\<close>

definition clerk_increase :: "variance_input \<Rightarrow> rat \<Rightarrow> rat \<Rightarrow> bool" where
  "clerk_increase inp original amount \<longleftrightarrow>
     vi_subject inp = Invoice \<and> cents original < cents amount \<and> ''accounts'' \<in> set (id_roles (vi_editor inp)) \<and>
     nameableRoles (id_roles (vi_editor inp)) = []"

lemma decide_rise_not_plain:
  "decide_rise inp original amount facts authority \<noteq> NoVariance"
  "decide_rise inp original amount facts authority \<noteq> DirectorOverride figures refusal reason"
  by (auto simp: decide_rise_def Let_def split: option.splits prod.splits)

lemma decideVariance_known:
  "0 \<le> amount \<Longrightarrow> vi_newAmount inp = Some (Num amount) \<Longrightarrow> decideVariance inp original facts authority = NoVariance \<longleftrightarrow>
     \<not> clerk_increase inp original amount \<and>
     cents amount \<le> max (cents original) (cents (case vi_acceptedAmount inp of Some a \<Rightarrow> a | None \<Rightarrow> 0))"
  by (auto simp: decideVariance_def clerk_increase_def decide_rise_not_plain Let_def)

lemma decideVariance_no_override: "decideVariance inp original facts authority \<noteq> DirectorOverride figures refusal reason"
  by (auto simp: decideVariance_def decide_rise_not_plain split: option.splits js_number.splits)

definition without_override :: "variance_input \<Rightarrow> variance_input" where
  "without_override inp = inp\<lparr>vi_request := (vi_request inp)\<lparr>vr_directorOverride := None\<rparr>\<rparr>"

lemma without_override_simps:
  "vi_acceptedAmount (without_override inp) = vi_acceptedAmount inp" "vi_buildingId (without_override inp) = vi_buildingId inp"
  "vi_editor (without_override inp) = vi_editor inp" "vi_newAmount (without_override inp) = vi_newAmount inp"
  "vi_subject (without_override inp) = vi_subject inp"
  "vr_rationale (vi_request (without_override inp)) = vr_rationale (vi_request inp)"
  "vr_attributedTo (vi_request (without_override inp)) = vr_attributedTo (vi_request inp)"
  by (simp_all add: without_override_def)

lemma decideVariance_without_override:
  "decideVariance (without_override inp) original facts authority = decideVariance inp original facts authority"
  by (simp only: decideVariance_def decide_rise_def without_override_simps Let_def)

lemma variance_override_parts:
  assumes "vi_originalAmount inp = Some (Num original)" "0 < original"
    and "vi_newAmount inp = Some (Num amount)" "0 \<le> amount"
  shows "varianceDecision inp facts authority = NoVariance \<longleftrightarrow>
      \<not> clerk_increase inp original amount \<and>
      cents amount \<le> max (cents original) (cents (case vi_acceptedAmount inp of Some a \<Rightarrow> a | None \<Rightarrow> 0))"
    and "varianceDecision inp facts authority = DirectorOverride figures refusal reason \<longleftrightarrow>
      varianceDecision (without_override inp) facts authority = VarianceRefused figures refusal \<and>
      vr_directorOverride (vi_request inp) \<noteq> None \<and> reason = js_trim (the (vr_directorOverride (vi_request inp))) \<and>
      reason \<noteq> '''' \<and> DIRECTOR \<in> set (rolesOf (vi_editor inp))"
proof -
  note known = decideVariance_known [OF assms(4,3), of original facts authority]
  have director: "list_ex (\<lambda>role. js_lower (js_trim role) = ''director'') (id_roles (vi_editor inp)) \<longleftrightarrow>
      DIRECTOR \<in> set (rolesOf (vi_editor inp))"
    by (auto simp: list_ex_iff rolesOf_def roleKey_def DIRECTOR_def image_iff eq_commute [of "''director''"])
  show "varianceDecision inp facts authority = NoVariance \<longleftrightarrow>
      \<not> clerk_increase inp original amount \<and>
      cents amount \<le> max (cents original) (cents (case vi_acceptedAmount inp of Some a \<Rightarrow> a | None \<Rightarrow> 0))"
    using assms(1,2) unfolding known [symmetric]
    by (cases "decideVariance inp original facts authority") (simp_all add: varianceDecision_def Let_def)
  have plain: "varianceDecision (without_override inp) facts authority = decideVariance inp original facts authority"
    using assms(1,2) decideVariance_without_override [of inp original facts authority]
    by (cases "decideVariance inp original facts authority")
      (simp_all add: varianceDecision_def without_override_def Let_def)
  show "varianceDecision inp facts authority = DirectorOverride figures refusal reason \<longleftrightarrow>
      varianceDecision (without_override inp) facts authority = VarianceRefused figures refusal \<and>
      vr_directorOverride (vi_request inp) \<noteq> None \<and> reason = js_trim (the (vr_directorOverride (vi_request inp))) \<and>
      reason \<noteq> '''' \<and> DIRECTOR \<in> set (rolesOf (vi_editor inp))"
    using assms(1,2) decideVariance_no_override [of inp original facts authority] unfolding plain
    by (cases "decideVariance inp original facts authority"; cases "vr_directorOverride (vi_request inp)")
      (auto simp: varianceDecision_def director Let_def)
qed

text \<open>A known amount passes without a word exactly when it is no more than what was approved or already
  accepted, a clerk's invoice increase apart; and a refusal is overridden only by a director with a reason, who
  overrides exactly what would have been refused.\<close>

theorem variance_override:
  assumes "vi_originalAmount inp = Some (Num original)" "0 < original"
    and "vi_newAmount inp = Some (Num amount)" "0 \<le> amount"
  shows "(varianceDecision inp facts authority = NoVariance \<longleftrightarrow>
      \<not> clerk_increase inp original amount \<and>
      cents amount \<le> max (cents original) (cents (case vi_acceptedAmount inp of Some a \<Rightarrow> a | None \<Rightarrow> 0))) \<and>
    (varianceDecision inp facts authority = DirectorOverride figures refusal reason \<longleftrightarrow>
      varianceDecision (without_override inp) facts authority = VarianceRefused figures refusal \<and>
      vr_directorOverride (vi_request inp) \<noteq> None \<and> reason = js_trim (the (vr_directorOverride (vi_request inp))) \<and>
      reason \<noteq> '''' \<and> DIRECTOR \<in> set (rolesOf (vi_editor inp)))"
  using variance_override_parts [OF assms] by blast

section \<open>Concrete inputs\<close>

definition sample_rise :: "rat \<Rightarrow> string list \<Rightarrow> variance_request \<Rightarrow> variance_input" where
  "sample_rise amount roles request =
     \<lparr>vi_acceptedAmount = None, vi_buildingId = 4, vi_editor = (sample_identity 8 ''facilities'')\<lparr>id_roles := roles\<rparr>,
      vi_newAmount = Some (Num amount), vi_originalAmount = Some (Num 1000), vi_request = request,
      vi_subject = PurchaseOrder\<rparr>"

definition sample_request :: variance_request where
  "sample_request =
     \<lparr>vr_attributedTo = Some (sample_identity 7 ''facilities_manager''), vr_directorOverride = Some ''agreed by phone'',
      vr_rationale = Some '' extra cabling ''\<rparr>"

theorem variance_within_margin_witness:
  "agreed_by_manager (sample_rise 1050 [''facilities''] sample_request) 1050 sample_facts
     (Some (sample_identity 7 ''facilities_manager''))"
proof -
  have a: "varianceDecision (sample_rise 1050 [''facilities''] sample_request) DEFAULT_VARIANCE_FACTS sample_facts =
      WithinTolerance (Some (sample_identity 7 ''facilities_manager''))
        \<lparr>vg_allowance = 100, vg_deltaAmount = 50, vg_deltaPercent = 5, vg_newAmount = 1050, vg_originalAmount = 1000\<rparr>
        ''extra cabling''"
    by code_simp
  show ?thesis using variance_within_margin [OF a] by simp
qed

theorem variance_override_witness:
  "varianceDecision (without_override (sample_rise 1200 [''Director''] sample_request)) DEFAULT_VARIANCE_FACTS sample_facts =
     VarianceRefused (Some \<lparr>vg_allowance = 100, vg_deltaAmount = 200, vg_deltaPercent = 20, vg_newAmount = 1200,
                            vg_originalAmount = 1000\<rparr>)
       \<lparr>mr_code = ''variance_over_margin'', mr_details = Some (1200, 1000), mr_status = 422\<rparr>"
proof -
  let ?inp = "sample_rise 1200 [''Director''] sample_request"
  have inputs: "vi_originalAmount ?inp = Some (Num 1000)" "(0::rat) < 1000" "vi_newAmount ?inp = Some (Num 1200)" "(0::rat) \<le> 1200"
    by (simp_all add: sample_rise_def)
  have a: "varianceDecision ?inp DEFAULT_VARIANCE_FACTS sample_facts =
      DirectorOverride (Some \<lparr>vg_allowance = 100, vg_deltaAmount = 200, vg_deltaPercent = 20, vg_newAmount = 1200,
                              vg_originalAmount = 1000\<rparr>)
        \<lparr>mr_code = ''variance_over_margin'', mr_details = Some (1200, 1000), mr_status = 422\<rparr> ''agreed by phone''"
    by code_simp
  show ?thesis using a variance_override [OF inputs] by blast
qed

text \<open>An amount already accepted needs nothing, except from a clerk: an accounts person who is no manager is refused
  an invoice above what was approved even where a manager accepted that amount before.\<close>

lemma accepted_amount_refused_to_clerk:
  "varianceDecision
     ((sample_rise 1050 [''accounts''] \<lparr>vr_attributedTo = None, vr_directorOverride = None, vr_rationale = None\<rparr>)
        \<lparr>vi_acceptedAmount := Some 1100, vi_subject := Invoice\<rparr>) DEFAULT_VARIANCE_FACTS sample_facts =
     VarianceRefused None (refuse ''invoice_increase_manager_required'' 422)"
  by code_simp

end
