(* ===== verification/Quotes.thy ===== *)
theory Quotes
  imports Money_Rules Job_Guard
begin

text \<open>
  The life of a quote: the handlers of \<open>src/functions/quotes.ts\<close>, the director's decision of
  \<open>src/quote-decisions.ts\<close>, what they read through \<open>src/moneyJob-db.ts\<close>, the refused attempts of
  \<open>src/ledger/refusals.ts\<close> and the role gate of \<open>src/auth.ts\<close>. The tables a handler touches are lists of
  rows; a handler but \<open>validateQuote\<close> runs in one transaction under row locks, so it is one step from database to
  database: a statement that throws in it (\<open>me_fails\<close>) rolls it back, one that throws after its commit
  (\<open>me_replyFails\<close>: reading the quote back) answers 500 with the change made. A handler takes the verified caller and
  its parsed body and returns the HTTP status, with the code of a refusal. Event texts, Planner tasks and the e-mails
  sent after the commit are left out, and so is a quote deleted by somebody else before it is read back.
\<close>

section \<open>Rows\<close>

record quote_row =
  q_id :: int
  q_jobId :: int
  q_number :: "string option"
  q_seq :: int
  q_contractorId :: "int option"
  q_contractorName :: "string option"
  q_amount :: "rat option"
  q_currency :: string
  q_notes :: "string option"
  q_pdf :: "string option"
  q_createdBy :: "string option"
  q_status :: string
  q_approvedAt :: "instant option"
  q_approvedBy :: "string option"
  q_directorApprovedAt :: "instant option"
  q_directorApprovedBy :: "string option"
  q_emailAttemptedAt :: "instant option"
  q_emailSentAt :: "instant option"
  q_emailSentTo :: "string option"
  q_emailSentBy :: "string option"
  q_attributedTo :: "int option"
  q_declaredAt :: "instant option"
  q_answeredAt :: "instant option"
  q_validatedAt :: "instant option"
  q_validatedBy :: "string option"

record money_job =
  j_id :: int
  j_row :: job_row
  j_kind :: "string option"
  j_isInternal :: bool
  j_isArchived :: bool
  j_isContract :: bool
  j_isTest :: bool
  j_buildingId :: "int option"
  j_approvedQuoteId :: "int option"
  j_approvedBy :: "string option"
  j_approvedAt :: "instant option"
  j_modified :: instant

record job_event_row =
  e_jobId :: int
  e_by :: string
  e_type :: string
  e_quoteId :: "int option"

text \<open>A ledger row: a decision, or a refused attempt (\<open>denied\<close>, \<open>sod_blocked\<close>) with what was attempted and
  the code it was refused with.\<close>

record money_ledger =
  l_action :: string
  l_actor :: string
  l_role :: string
  l_attempted :: "string option"
  l_rule :: "string option"
  l_subject :: "string \<times> int" \<comment> \<open>its type and id\<close>
  l_beforeStatus :: "string option"
  l_afterStatus :: "string option"
  l_amount :: "rat option"
  l_approvedAmount :: "rat option"
  l_contractorId :: "int option"
  l_contractorName :: "string option"
  l_attributedTo :: "int option"
  l_reason :: "string option"

record money_db =
  m_quotes :: "quote_row list"
  m_jobs :: "money_job list"
  m_events :: "job_event_row list"
  m_ledger :: "money_ledger list"
  m_paid :: "int list" \<comment> \<open>the quotes payments are recorded against\<close>
  m_nextQuote :: int

section \<open>The caller and the surroundings\<close>

record money_caller =
  c_name :: string
  c_email :: string
  c_roles :: "string list"
  c_userId :: "int option"

record app_user =
  u_id :: int
  u_name :: string
  u_email :: string
  u_role :: "string option"
  u_active :: bool

text \<open>\<open>loadApprovalFacts\<close> of a building, the people, the switch of attributed approvals, whether the attribution
  columns exist yet, the attachments of a job, the document number of a quote of a job with its sequence, and
  what may go wrong: a statement of the transaction, the read after its commit, the statement of that number (from 0)
  of a handler without a transaction, or the row of a refused attempt.\<close>

record money_env =
  me_now :: instant
  me_facts :: "int option \<Rightarrow> authority_facts"
  me_users :: "app_user list"
  me_attributedOn :: bool
  me_attributionColumns :: bool
  me_attachment :: "int \<Rightarrow> string \<Rightarrow> bool"
  me_number :: "int \<Rightarrow> int option \<Rightarrow> int \<Rightarrow> string"
  me_fails :: bool
  me_replyFails :: bool
  me_throwsAt :: "nat option"
  me_refusalDropped :: bool

datatype answer = Answer (answer_status: nat) (answer_code: "string option")

definition AppRole_values :: "string list" where
  "AppRole_values =
    [''accounts'', ''accounts_manager'', ''admin'', ''cfo'', ''director'', ''facilities'', ''facilities_manager'', ''user'']"

definition rolesPassGate :: "string list \<Rightarrow> string list \<Rightarrow> bool" where
  "rolesPassGate roles allowed \<longleftrightarrow>
     ''admin'' \<in> set roles \<or>
     ''user'' \<in> set allowed \<and> roles \<noteq> [] \<or>
     ''director'' \<in> set roles \<and> list_ex (\<lambda>r. r \<noteq> ''admin'') allowed \<or>
     ''cfo'' \<in> set roles \<and> (''accounts_manager'' \<in> set allowed \<or> ''accounts'' \<in> set allowed) \<or>
     ''facilities_manager'' \<in> set roles \<and> ''facilities'' \<in> set allowed \<or>
     ''accounts_manager'' \<in> set roles \<and> ''accounts'' \<in> set allowed \<or>
     list_ex (\<lambda>r. r \<in> set allowed) roles"

definition approveQuote_gate :: "string list" where
  "approveQuote_gate = SUBJECT_ELIGIBLE_ROLES Quote @ ATTRIBUTED_APPROVAL_ROLES Quote"

definition approveQuote_conditional :: "string list" where
  "approveQuote_conditional = [''facilities'']"

definition approveQuoteAsDirector_gate :: "string list" where
  "approveQuoteAsDirector_gate = [''director'']"

definition createQuote_gate :: "string list" where
  "createQuote_gate = [''accounts'', ''facilities'']"

definition manageQuotes_gate :: "string list" where
  "manageQuotes_gate = [''accounts'', ''facilities_manager'']"

definition unapproveQuote_gate :: "string list" where
  "unapproveQuote_gate = [''accounts_manager'']"

text \<open>The roles a conditional role is let past by only while the switch is on.\<close>

definition unlessHeldOff :: "string list \<Rightarrow> bool \<Rightarrow> string \<Rightarrow> bool" where
  "unlessHeldOff conditional enabled role \<longleftrightarrow> role \<notin> set (if enabled then [] else conditional)"

definition ROLE_SENIORITY :: "string list" where
  "ROLE_SENIORITY =
    [''admin'', ''director'', ''cfo'', ''accounts_manager'', ''facilities_manager'', ''accounts'', ''facilities'', ''user'']"

definition primaryRole :: "string list \<Rightarrow> string option" where
  "primaryRole roles =
     (case find (\<lambda>role. role \<in> set roles) ROLE_SENIORITY of
        Some role \<Rightarrow> Some role
      | None \<Rightarrow> (case roles of [] \<Rightarrow> None | r # _ \<Rightarrow> Some r))"

definition actor_role :: "money_caller \<Rightarrow> string" where
  "actor_role caller = (case primaryRole (c_roles caller) of Some r \<Rightarrow> r | None \<Rightarrow> '''')"

section \<open>Reading and writing rows\<close>

definition find_quote :: "money_db \<Rightarrow> int \<Rightarrow> quote_row option" where
  "find_quote db qid = find (\<lambda>q. q_id q = qid) (m_quotes db)"

definition find_job :: "money_db \<Rightarrow> int \<Rightarrow> money_job option" where
  "find_job db jid = find (\<lambda>j. j_id j = jid) (m_jobs db)"

text \<open>\<open>UPDATE .. WHERE\<close>, \<open>INSERT\<close>.\<close>

definition update_quote :: "int \<Rightarrow> (quote_row \<Rightarrow> quote_row) \<Rightarrow> money_db \<Rightarrow> money_db" where
  "update_quote qid f db = db\<lparr>m_quotes := map (\<lambda>q. if q_id q = qid then f q else q) (m_quotes db)\<rparr>"

definition update_jobs :: "(money_job \<Rightarrow> bool) \<Rightarrow> (money_job \<Rightarrow> money_job) \<Rightarrow> money_db \<Rightarrow> money_db" where
  "update_jobs which f db = db\<lparr>m_jobs := map (\<lambda>j. if which j then f j else j) (m_jobs db)\<rparr>"

definition add_event :: "money_caller \<Rightarrow> int \<Rightarrow> string \<Rightarrow> int \<Rightarrow> money_db \<Rightarrow> money_db" where
  "add_event caller jobId kind qid db =
     db\<lparr>m_events := m_events db @ [\<lparr>e_jobId = jobId, e_by = c_name caller, e_type = kind, e_quoteId = Some qid\<rparr>]\<rparr>"

definition add_ledger :: "money_ledger \<Rightarrow> money_db \<Rightarrow> money_db" where
  "add_ledger row db = db\<lparr>m_ledger := m_ledger db @ [row]\<rparr>"

definition touch_job :: "money_env \<Rightarrow> int \<Rightarrow> money_db \<Rightarrow> money_db" where
  "touch_job env jobId db = update_jobs (\<lambda>j. j_id j = jobId) (\<lambda>j. j\<lparr>j_modified := me_now env\<rparr>) db"

text \<open>\<open>Jobs.ApprovedQuoteID\<close> set to a quote, and cleared where it still is that quote.\<close>

definition set_approved :: "money_env \<Rightarrow> money_caller \<Rightarrow> int \<Rightarrow> int \<Rightarrow> money_db \<Rightarrow> money_db" where
  "set_approved env caller jobId qid db =
     update_jobs (\<lambda>j. j_id j = jobId)
       (\<lambda>j. j\<lparr>j_approvedQuoteId := Some qid, j_approvedBy := Some (c_name caller), j_approvedAt := Some (me_now env),
              j_modified := me_now env\<rparr>) db"

definition clear_approved :: "money_env \<Rightarrow> int \<Rightarrow> int \<Rightarrow> money_db \<Rightarrow> money_db" where
  "clear_approved env jobId qid db =
     update_jobs (\<lambda>j. j_id j = jobId \<and> j_approvedQuoteId j = Some qid)
       (\<lambda>j. j\<lparr>j_approvedQuoteId := None, j_approvedBy := None, j_approvedAt := None, j_modified := me_now env\<rparr>) db"

text \<open>\<open>advanceJobStatus\<close> on the job's row: the move, if the machine has one, and its event.\<close>

definition advance_job :: "money_env \<Rightarrow> money_caller \<Rightarrow> job_event \<Rightarrow> int \<Rightarrow> int \<Rightarrow> money_db \<Rightarrow> money_db" where
  "advance_job env caller event jobId qid db =
     (case find_job db jobId of
        None \<Rightarrow> db
      | Some j \<Rightarrow>
          (let (moved, row) = advanceJobStatus event (j_row j);
               db1 = update_jobs (\<lambda>j. j_id j = jobId) (\<lambda>j. j\<lparr>j_row := row, j_modified := me_now env\<rparr>) db
           in if moved then add_event caller jobId ''status_change'' qid db1 else db1))"

fun status_name :: "job_status \<Rightarrow> string" where
  "status_name NEW = ''New''"
| "status_name QUOTE = ''Quote''"
| "status_name AWAITING_APPROVAL = ''Awaiting Approval''"
| "status_name WORK = ''Work''"
| "status_name TENANT = ''Tenant''"
| "status_name DONE = ''Done''"

text \<open>\<open>loadJobForMoney\<close>: the job as the money rules read it, and whether it has an approved quote.\<close>

definition money_job_of :: "money_job \<Rightarrow> money_job_input" where
  "money_job_of j =
     \<lparr>mi_isArchived = Some (JBool (j_isArchived j)), mi_isInternal = Some (JBool (j_isInternal j)),
      mi_kind = Some (JStr (jobKindOf (map_option JStr (j_kind j)))),
      mi_status = Some (JStr (status_name (jobStatus (job_current (j_row j)))))\<rparr>"

definition APPROVED_QUOTE :: "string list" where
  "APPROVED_QUOTE = [''approved'', ''completed'']"

definition job_hasApprovedQuote :: "money_db \<Rightarrow> money_job \<Rightarrow> bool" where
  "job_hasApprovedQuote db j \<longleftrightarrow>
     list_ex (\<lambda>q. j_approvedQuoteId j = Some (q_id q) \<and> q_jobId q = j_id j \<and> q_status q \<in> set APPROVED_QUOTE) (m_quotes db)"

definition job_refusal :: "money_db \<Rightarrow> int \<Rightarrow> money_refusal option" where
  "job_refusal db jobId = (case find_job db jobId of Some j \<Rightarrow> jobMoneyRefusal (money_job_of j) False | None \<Rightarrow> None)"

definition already_approved :: "money_db \<Rightarrow> int \<Rightarrow> money_refusal option" where
  "already_approved db jobId =
     (case find_job db jobId of
        Some j \<Rightarrow> if job_hasApprovedQuote db j then Some (refuse ''quote_already_approved'' 409) else None
      | None \<Rightarrow> None)"

definition job_building :: "money_db \<Rightarrow> int \<Rightarrow> int option" where
  "job_building db jobId = (case find_job db jobId of Some j \<Rightarrow> j_buildingId j | None \<Rightarrow> None)"

definition isTestJob :: "money_db \<Rightarrow> int \<Rightarrow> bool" where
  "isTestJob db jobId = (case find_job db jobId of Some j \<Rightarrow> j_isTest j | None \<Rightarrow> False)"

text \<open>\<open>a ?? b ?? c\<close>: the first that is not null.\<close>

fun first_refusal :: "'a option list \<Rightarrow> 'a option" where
  "first_refusal [] = None"
| "first_refusal (None # rest) = first_refusal rest"
| "first_refusal (Some r # _) = Some r"

section \<open>Ledger rows\<close>

text \<open>\<open>approvedAmount\<close>: a row with an approval stamp was approved at its amount.\<close>

definition approvedAmount :: "quote_row \<Rightarrow> rat option" where
  "approvedAmount q = (if q_approvedAt q \<noteq> None \<or> q_directorApprovedAt q \<noteq> None then q_amount q else None)"

definition decision_row :: "money_caller \<Rightarrow> string \<Rightarrow> quote_row \<Rightarrow> string option \<Rightarrow> string option \<Rightarrow> money_ledger" where
  "decision_row caller action q before after =
     \<lparr>l_action = action, l_actor = c_name caller, l_role = actor_role caller, l_attempted = None, l_rule = None,
      l_subject = (''quote'', q_id q), l_beforeStatus = before, l_afterStatus = after, l_amount = q_amount q, l_approvedAmount = None,
      l_contractorId = q_contractorId q, l_contractorName = q_contractorName q, l_attributedTo = None, l_reason = None\<rparr>"

definition refusal_row :: "money_caller \<Rightarrow> string \<Rightarrow> string \<Rightarrow> string \<Rightarrow> string \<times> int \<Rightarrow> money_ledger" where
  "refusal_row caller action attempted code subject =
     \<lparr>l_action = action, l_actor = c_name caller, l_role = actor_role caller, l_attempted = Some attempted,
      l_rule = Some code, l_subject = subject, l_beforeStatus = None, l_afterStatus = None, l_amount = None,
      l_approvedAmount = None, l_contractorId = None, l_contractorName = None, l_attributedTo = None, l_reason = None\<rparr>"

text \<open>\<open>recordRefusal\<close> after the rollback: no row for a caller without a role, and none when the row cannot be
  written or the caller has had their share of them.\<close>

definition recordRefusal :: "money_env \<Rightarrow> money_caller \<Rightarrow> string \<Rightarrow> string \<Rightarrow> string \<Rightarrow> string \<times> int \<Rightarrow> money_db \<Rightarrow> money_db" where
  "recordRefusal env caller action attempted code subject db =
     (if js_trim (actor_role caller) = '''' \<or> me_refusalDropped env then db
      else add_ledger (refusal_row caller action attempted code subject) db)"

text \<open>The role gate's refusal: ledgered against the quote the body names, if there is one.\<close>

definition recordRoleRefusal :: "money_env \<Rightarrow> money_caller \<Rightarrow> string \<Rightarrow> string \<Rightarrow> json option \<Rightarrow> money_db \<Rightarrow> money_db" where
  "recordRoleRefusal env caller attempted code qid db =
     (case qid of
        Some (JNum (Num n)) \<Rightarrow>
          if is_integer n \<and> n > 0 \<and> find_quote db \<lfloor>n\<rfloor> \<noteq> None
          then recordRefusal env caller ''denied'' attempted code (''quote'', \<lfloor>n\<rfloor>) db else db
      | _ \<Rightarrow> db)"

text \<open>A body's \<open>QuoteID\<close>: not a number is a 400, a number SQL cannot take as an integer fails the query.\<close>

definition quote_id :: "json option \<Rightarrow> nat + int" where
  "quote_id value =
     (case value of
        Some (JNum (Num n)) \<Rightarrow> if is_integer n then Inr \<lfloor>n\<rfloor> else Inl 500
      | Some (JNum _) \<Rightarrow> Inl 500
      | _ \<Rightarrow> Inl 400)"

text \<open>What a transaction comes to: an answer after a rollback, a refusal to ledger after it, or the database it
  leaves.\<close>

datatype quote_result =
    RolledBack nat
  | RefusedAs string string nat \<comment> \<open>the action of the refusal row, the code, the status\<close>
  | Committed money_db

text \<open>\<open>readsBack\<close>: the handler reads the quote back after its commit.\<close>

definition conclude :: "money_env \<Rightarrow> money_caller \<Rightarrow> string \<Rightarrow> string \<times> int \<Rightarrow> bool \<Rightarrow> money_db \<Rightarrow> quote_result \<Rightarrow> answer \<times> money_db" where
  "conclude env caller attempted subject readsBack db result =
     (if me_fails env then (Answer 500 None, db)
      else case result of
        RolledBack status \<Rightarrow> (Answer status None, db)
      | RefusedAs action code status \<Rightarrow>
          (Answer status (Some code), recordRefusal env caller action attempted code subject db)
      | Committed db' \<Rightarrow> (Answer (if readsBack \<and> me_replyFails env then 500 else 200) None, db'))"

section \<open>Approving\<close>

record approve_body =
  pb_QuoteID :: "json option"
  pb_attributedToUserId :: "json option"
  pb_declared :: "json option"

definition loadNamedUser :: "money_env \<Rightarrow> int \<Rightarrow> identity option" where
  "loadNamedUser env uid =
     (case find (\<lambda>u. u_id u = uid \<and> u_active u) (me_users env) of
        None \<Rightarrow> None
      | Some u \<Rightarrow>
          (let role = (case u_role u of Some r \<Rightarrow> js_lower (js_trim r) | None \<Rightarrow> '''')
           in Some \<lparr>id_displayName = Some (u_name u), id_email = (if js_trim (u_email u) = '''' then None else Some (js_trim (u_email u))),
                id_roles = (if role = '''' then [] else [role]), id_userId = Some (u_id u)\<rparr>))"

fun deny_code :: "approval_refusal_reason \<Rightarrow> string" where
  "deny_code AdminTestRecordsOnly = ''admin_test_records_only''"
| "deny_code (Denial DenyCreator) = ''creator''"
| "deny_code (Denial DenyDirectorRequired) = ''director_required''"
| "deny_code (Denial DenyOverLimit) = ''over_limit''"
| "deny_code (Denial DenyNotEligible) = ''not_eligible''"
| "deny_code (Denial DenyNotResidenceApprover) = ''not_residence_approver''"
| "deny_code (Denial DenyAttributionRequired) = ''attribution_required''"
| "deny_code (Denial DenyAttributionInvalid) = ''attribution_invalid''"

definition caller_identity :: "money_caller \<Rightarrow> identity" where
  "caller_identity caller =
     \<lparr>id_displayName = None, id_email = Some (c_email caller), id_roles = c_roles caller, id_userId = c_userId caller\<rparr>"

text \<open>The named manager: with the manager roles only, or without roles when there is no such active user.\<close>

definition named_manager :: "money_env \<Rightarrow> int \<Rightarrow> identity" where
  "named_manager env uid =
     (case loadNamedUser env uid of
        Some named \<Rightarrow> named\<lparr>id_roles := nameableRoles (id_roles named)\<rparr>
      | None \<Rightarrow> \<lparr>id_displayName = None, id_email = None, id_roles = [], id_userId = Some uid\<rparr>)"

definition quote_authority :: "money_env \<Rightarrow> money_db \<Rightarrow> quote_row \<Rightarrow> int option \<Rightarrow> authority_input" where
  "quote_authority env db q named =
     \<lparr>au_amount = (case q_amount q of None \<Rightarrow> NaN | Some a \<Rightarrow> Num a), au_at = None,
      au_attribution = map_option (named_manager env) named,
      au_buildingId = (case job_building db (q_jobId q) of Some b \<Rightarrow> b | None \<Rightarrow> 0), au_createdBy = None,
      au_subject = Quote\<rparr>"

text \<open>The attribution of a quote that lands: set with the approval that rests on it, cleared by any other where
  the columns exist.\<close>

definition stamp_attribution :: "money_env \<Rightarrow> attributed_person option \<Rightarrow> quote_row \<Rightarrow> quote_row" where
  "stamp_attribution env attributedTo q =
     (case attributedTo of
        Some person \<Rightarrow> q\<lparr>q_attributedTo := ap_userId person, q_declaredAt := Some (me_now env), q_answeredAt := None\<rparr>
      | None \<Rightarrow> if me_attributionColumns env then q\<lparr>q_attributedTo := None, q_declaredAt := None, q_answeredAt := None\<rparr> else q)"

definition approval_rule :: "string \<Rightarrow> attributed_person option \<Rightarrow> string" where
  "approval_rule newStatus attributedTo =
     (if attributedTo \<noteq> None then ''attributed''
      else if newStatus = ''awaiting_director'' then ''director_threshold''
      else if newStatus = ''approved'' then ''own_authority'' else ''over_limit'')"

text \<open>What an approve click writes once it is decided where the quote lands.\<close>

definition land_quote ::
  "money_env \<Rightarrow> money_caller \<Rightarrow> string \<Rightarrow> attributed_person option \<Rightarrow> quote_row \<Rightarrow> money_db \<Rightarrow> money_db" where
  "land_quote env caller newStatus attributedTo q db =
     (let qid = q_id q; jobId = q_jobId q;
          db1 = update_quote qid (\<lambda>q. stamp_attribution env attributedTo
            (q\<lparr>q_status := newStatus, q_approvedAt := Some (me_now env), q_approvedBy := Some (c_name caller)\<rparr>)) db;
          db2 = (if newStatus = ''approved'' then set_approved env caller jobId qid db1 else touch_job env jobId db1);
          db3 = add_event caller jobId
            (if newStatus = ''approved'' then ''quote_approved''
             else if newStatus = ''awaiting_director'' then ''quote_awaiting_director'' else ''quote_awaiting_approval'') qid db2;
          db4 = (if newStatus = ''approved'' then advance_job env caller QUOTE_APPROVED jobId qid db3 else db3)
      in add_ledger ((decision_row caller (if attributedTo \<noteq> None then ''quote.approve_attributed'' else ''quote.approve'') q
             (Some (q_status q)) (Some newStatus))
           \<lparr>l_attributedTo := Option.bind attributedTo ap_userId, l_rule := Some (approval_rule newStatus attributedTo)\<rparr>) db4)"

definition approve_state_refusal :: "money_db \<Rightarrow> money_caller \<Rightarrow> quote_row \<Rightarrow> money_refusal option" where
  "approve_state_refusal db caller q =
     first_refusal
       [job_refusal db (q_jobId q), approvableRefusal (Some (JStr (q_status q))),
        creatorRefusal (map_option JStr (q_createdBy q)) (c_name caller) (c_roles caller), already_approved db (q_jobId q)]"

definition approveQuoteInTransaction :: "money_env \<Rightarrow> money_caller \<Rightarrow> int option \<Rightarrow> int \<Rightarrow> money_db \<Rightarrow> quote_result" where
  "approveQuoteInTransaction env caller named qid db =
     (case find_quote db qid of
        None \<Rightarrow> RolledBack 404
      | Some q \<Rightarrow>
          (case approve_state_refusal db caller q of
             Some r \<Rightarrow> RefusedAs (if mr_code r = ''creator'' then ''sod_blocked'' else ''denied'') (mr_code r) (mr_status r)
           | None \<Rightarrow>
               if (case Option.bind named (loadNamedUser env) of
                     Some manager \<Rightarrow> samePersonName (map_option JStr (q_createdBy q)) (map_option JStr (id_displayName manager))
                   | None \<Rightarrow> False)
               then RefusedAs ''denied'' ''attribution_invalid'' 422
               else
                 (case approvalOutcome (caller_identity caller) (quote_authority env db q named)
                         (me_facts env (job_building db (q_jobId q)))
                         (holdsAdmin (c_roles caller) \<and> isTestJob db (q_jobId q)) of
                    ApprovalRefused reason _ \<Rightarrow> RefusedAs ''denied'' (deny_code reason) (refusalStatus reason)
                  | Approved person basis _ \<Rightarrow>
                      Committed (land_quote env caller ''approved'' (if basis = Attributed then person else None) q db)
                  | AwaitingDirector _ \<Rightarrow> Committed (land_quote env caller ''awaiting_director'' None q db)
                  | AwaitingApproval _ _ \<Rightarrow> Committed (land_quote env caller ''awaiting_approval'' None q db))))"

text \<open>\<open>attributedToUserId ?? null\<close> and \<open>declared\<close>: \<open>Inl\<close> is a 400.\<close>

definition named_id :: "approve_body \<Rightarrow> unit + int option" where
  "named_id body =
     (let declared_ok = (case pb_declared body of None \<Rightarrow> True | Some (JBool _) \<Rightarrow> True | _ \<Rightarrow> False)
      in case pb_attributedToUserId body of
           Some (JNum (Num n)) \<Rightarrow> if is_integer n \<and> n > 0 \<and> declared_ok then Inr (Some \<lfloor>n\<rfloor>) else Inl ()
         | None \<Rightarrow> if declared_ok then Inr None else Inl ()
         | Some JNull \<Rightarrow> if declared_ok then Inr None else Inl ()
         | _ \<Rightarrow> Inl ())"

definition approveQuote :: "money_env \<Rightarrow> money_caller \<Rightarrow> approve_body \<Rightarrow> money_db \<Rightarrow> answer \<times> money_db" where
  "approveQuote env caller body db =
     (if \<not> rolesPassGate (c_roles caller) (filter (unlessHeldOff approveQuote_conditional (me_attributedOn env)) approveQuote_gate)
      then (Answer 403 (Some ''role_not_permitted''),
            recordRoleRefusal env caller ''quote.approve'' ''role_not_permitted'' (pb_QuoteID body) db)
      else if quote_id (pb_QuoteID body) = Inl 400 then (Answer 400 None, db)
      else case (quote_id (pb_QuoteID body), named_id body) of
        (_, Inl _) \<Rightarrow> (Answer 400 None, db)
      | (Inl status, _) \<Rightarrow> (Answer status None, db)
      | (Inr qid, Inr uid) \<Rightarrow>
          conclude env caller ''quote.approve'' (''quote'', qid) True db
            (approveQuoteInTransaction env caller
              (if me_attributedOn env \<and> pb_declared body = Some (JBool True) then uid else None) qid db))"

section \<open>The director's decision\<close>

definition approveDirectorQuote :: "money_env \<Rightarrow> money_caller \<Rightarrow> int \<Rightarrow> money_db \<Rightarrow> quote_result" where
  "approveDirectorQuote env caller qid db =
     (case find_quote db qid of
        None \<Rightarrow> RolledBack 404
      | Some q \<Rightarrow>
          if q_status q \<noteq> ''awaiting_director'' then RolledBack 409
          else (case first_refusal [job_refusal db (q_jobId q), already_approved db (q_jobId q)] of
                  Some r \<Rightarrow> RefusedAs ''denied'' (mr_code r) (if mr_status r = 422 then 422 else 409)
                | None \<Rightarrow>
                    Committed (add_ledger (decision_row caller ''quote.director_approve'' q (Some ''awaiting_director'') (Some ''approved''))
                      (add_event caller (q_jobId q) ''quote_director_approved'' qid
                        (set_approved env caller (q_jobId q) qid
                          (update_quote qid (\<lambda>q. q\<lparr>q_status := ''approved'', q_directorApprovedAt := Some (me_now env),
                             q_directorApprovedBy := Some (c_name caller)\<rparr>) db))))))"

text \<open>\<open>money_gate\<close> is the answer of the money-action gate: \<open>None\<close> lets the action through.\<close>

definition directorApproveQuote :: "money_env \<Rightarrow> money_caller \<Rightarrow> nat option \<Rightarrow> json option \<Rightarrow> money_db \<Rightarrow> answer \<times> money_db" where
  "directorApproveQuote env caller money_gate quoteId db =
     (if \<not> rolesPassGate (c_roles caller) approveQuoteAsDirector_gate
      then (Answer 403 (Some ''role_not_permitted''),
            recordRoleRefusal env caller ''quote.director_approve'' ''role_not_permitted'' quoteId db)
      else if ''director'' \<notin> set (c_roles caller)
      then (Answer 403 (Some ''director_role_required''),
            recordRoleRefusal env caller ''quote.director_approve'' ''director_role_required'' quoteId db)
      else case money_gate of
        Some status \<Rightarrow> (Answer status None, db)
      | None \<Rightarrow>
          (case quote_id quoteId of
             Inl status \<Rightarrow> (Answer status None, db)
           | Inr qid \<Rightarrow> conclude env caller ''quote.director_approve'' (''quote'', qid) False db (approveDirectorQuote env caller qid db)))"

section \<open>Turning a quote down\<close>

definition IN_APP_REJECTABLE_STATUSES :: "string list" where
  "IN_APP_REJECTABLE_STATUSES = [''pending'', ''awaiting_director'']"

text \<open>The director a decline recorded by somebody else rests on: an active director, by id.\<close>

definition needsDeclineDirector :: "money_caller \<Rightarrow> bool \<Rightarrow> bool" where
  "needsDeclineDirector caller required \<longleftrightarrow> required \<and> actor_role caller \<noteq> ''director''"

definition declineDirector :: "money_env \<Rightarrow> money_caller \<Rightarrow> bool \<Rightarrow> json option \<Rightarrow> app_user option" where
  "declineDirector env caller required userId =
     (if \<not> required \<or> actor_role caller = ''director'' then None
      else case userId of
        Some (JNum (Num n)) \<Rightarrow>
          if \<not> is_integer n \<or> n < 1 then None
          else find (\<lambda>u. u_id u = \<lfloor>n\<rfloor> \<and> u_active u \<and> u_role u = Some ''director'') (me_users env)
      | _ \<Rightarrow> None)"

definition note_reason :: "string option \<Rightarrow> string option" where
  "note_reason note = (case note of Some n \<Rightarrow> if js_trim n \<noteq> '''' then Some (js_trim n) else None | None \<Rightarrow> None)"

text \<open>\<open>rejectQuote\<close> of \<open>quote-decisions.ts\<close>: \<open>Inr\<close> the row as it was and the database.\<close>

definition rejectQuoteWrite ::
  "money_env \<Rightarrow> money_caller \<Rightarrow> string list \<Rightarrow> string list \<Rightarrow> string option \<Rightarrow> int \<Rightarrow> money_db \<Rightarrow> quote_result + (quote_row \<times> money_db)" where
  "rejectQuoteWrite env caller expectedStatuses reasonRequiredFrom note qid db =
     (case find_quote db qid of
        None \<Rightarrow> Inl (RolledBack 404)
      | Some q \<Rightarrow>
          if q_status q \<notin> set expectedStatuses then Inl (RolledBack 409)
          else (case declineReasonRefusal (q_status q \<in> set reasonRequiredFrom) (note_reason note) of
                  Some r \<Rightarrow> Inl (RefusedAs ''denied'' (mr_code r) 422)
                | None \<Rightarrow>
                    Inr (q, touch_job env (q_jobId q)
                      (add_event caller (q_jobId q) ''quote_rejected'' qid
                        (update_quote qid (\<lambda>q. q\<lparr>q_status := ''rejected''\<rparr>) db)))))"

definition rejectQuoteInTransaction :: "money_env \<Rightarrow> money_caller \<Rightarrow> json option \<Rightarrow> json option \<Rightarrow> int \<Rightarrow> money_db \<Rightarrow> quote_result" where
  "rejectQuoteInTransaction env caller directorId reasonText qid db =
     (let reason = rejectReason reasonText;
          waiting = (case find_quote db qid of Some q \<Rightarrow> q_status q = ''awaiting_director'' | None \<Rightarrow> False);
          director = declineDirector env caller waiting directorId
      in if needsDeclineDirector caller waiting \<and> reason \<noteq> None \<and> director = None
         then RefusedAs ''denied'' ''decline_director_required'' 422
         else case rejectQuoteWrite env caller IN_APP_REJECTABLE_STATUSES [''awaiting_director''] reason qid db of
           Inl r \<Rightarrow> r
         | Inr (q, db1) \<Rightarrow>
             Committed (add_ledger ((decision_row caller
                 (if q_status q = ''awaiting_director'' \<and> actor_role caller = ''director'' then ''quote.director_reject'' else ''quote.reject'')
                 q (Some (q_status q)) (Some ''rejected''))
               \<lparr>l_attributedTo := map_option u_id director, l_reason := reason\<rparr>) db1))"

definition rejectQuote :: "money_env \<Rightarrow> money_caller \<Rightarrow> json option \<Rightarrow> json option \<Rightarrow> json option \<Rightarrow> money_db \<Rightarrow> answer \<times> money_db" where
  "rejectQuote env caller quoteId directorId reasonText db =
     (if \<not> rolesPassGate (c_roles caller) manageQuotes_gate
      then (Answer 403 (Some ''role_not_permitted''), recordRoleRefusal env caller ''quote.reject'' ''role_not_permitted'' quoteId db)
      else case quote_id quoteId of
        Inl status \<Rightarrow> (Answer status None, db)
      | Inr qid \<Rightarrow>
          (let result = rejectQuoteInTransaction env caller directorId reasonText qid db;
               attempted = (case result of
                  RefusedAs _ code _ \<Rightarrow>
                    if code = ''reason_required'' \<and> actor_role caller = ''director'' then ''quote.director_reject'' else ''quote.reject''
                | _ \<Rightarrow> ''quote.reject'')
           in conclude env caller attempted (''quote'', qid) False db result))"

section \<open>Undoing, completing, deleting, validating\<close>

text \<open>The shape these handlers share: the gate, the id, one transaction on the quote found.\<close>

definition quote_handler ::
  "money_env \<Rightarrow> money_caller \<Rightarrow> string list \<Rightarrow> string \<Rightarrow> bool \<Rightarrow> json option \<Rightarrow> (quote_row \<Rightarrow> quote_result) \<Rightarrow> money_db \<Rightarrow> answer \<times> money_db" where
  "quote_handler env caller gate attempted readsBack quoteId work db =
     (if \<not> rolesPassGate (c_roles caller) gate
      then (Answer 403 (Some ''role_not_permitted''), recordRoleRefusal env caller attempted ''role_not_permitted'' quoteId db)
      else case quote_id quoteId of
        Inl status \<Rightarrow> (Answer status None, db)
      | Inr qid \<Rightarrow>
          conclude env caller attempted (''quote'', qid) readsBack db
            (case find_quote db qid of None \<Rightarrow> RolledBack 404 | Some q \<Rightarrow> work q))"

definition unapprove_work :: "money_env \<Rightarrow> money_caller \<Rightarrow> money_db \<Rightarrow> quote_row \<Rightarrow> quote_result" where
  "unapprove_work env caller db q =
     (if q_status q \<noteq> ''approved'' then RolledBack 400
      else if q_id q \<in> set (m_paid db) then RefusedAs ''denied'' ''payment_recorded'' 400
      else Committed (add_ledger ((decision_row caller ''quote.unapprove'' q (Some (q_status q)) (Some ''pending''))
             \<lparr>l_approvedAmount := approvedAmount q\<rparr>)
           (add_event caller (q_jobId q) ''quote_unapproved'' (q_id q)
             (clear_approved env (q_jobId q) (q_id q)
               (update_quote (q_id q) (\<lambda>q. stamp_attribution env None
                  (q\<lparr>q_status := ''pending'', q_approvedAt := None, q_approvedBy := None\<rparr>)) db)))))"

definition unapproveQuote :: "money_env \<Rightarrow> money_caller \<Rightarrow> json option \<Rightarrow> money_db \<Rightarrow> answer \<times> money_db" where
  "unapproveQuote env caller quoteId db =
     quote_handler env caller unapproveQuote_gate ''quote.unapprove'' True quoteId (unapprove_work env caller db) db"

definition complete_work :: "money_env \<Rightarrow> money_caller \<Rightarrow> money_db \<Rightarrow> quote_row \<Rightarrow> quote_result" where
  "complete_work env caller db q =
     (if q_status q \<noteq> ''approved'' then RolledBack 400
      else Committed (add_ledger (decision_row caller ''quote.complete'' q (Some ''approved'') (Some ''completed''))
           (touch_job env (q_jobId q)
             (add_event caller (q_jobId q) ''quote_completed'' (q_id q)
               (update_quote (q_id q) (\<lambda>q. q\<lparr>q_status := ''completed''\<rparr>) db)))))"

definition completeQuote :: "money_env \<Rightarrow> money_caller \<Rightarrow> json option \<Rightarrow> money_db \<Rightarrow> answer \<times> money_db" where
  "completeQuote env caller quoteId db =
     quote_handler env caller manageQuotes_gate ''quote.complete'' True quoteId (complete_work env caller db) db"

definition uncomplete_work :: "money_env \<Rightarrow> money_caller \<Rightarrow> money_db \<Rightarrow> quote_row \<Rightarrow> quote_result" where
  "uncomplete_work env caller db q =
     (if q_status q \<noteq> ''completed'' then RolledBack 400
      else Committed (add_ledger ((decision_row caller ''quote.uncomplete'' q (Some ''completed'') (Some ''approved''))
             \<lparr>l_approvedAmount := approvedAmount q\<rparr>)
           (touch_job env (q_jobId q)
             (add_event caller (q_jobId q) ''comment'' (q_id q)
               (update_quote (q_id q) (\<lambda>q. q\<lparr>q_status := ''approved''\<rparr>) db)))))"

definition uncompleteQuote :: "money_env \<Rightarrow> money_caller \<Rightarrow> json option \<Rightarrow> money_db \<Rightarrow> answer \<times> money_db" where
  "uncompleteQuote env caller quoteId db =
     quote_handler env caller manageQuotes_gate ''quote.uncomplete'' True quoteId (uncomplete_work env caller db) db"

definition delete_work :: "money_caller \<Rightarrow> money_db \<Rightarrow> quote_row \<Rightarrow> quote_result" where
  "delete_work caller db q =
     (if q_status q = ''approved'' \<or> q_status q = ''completed'' then RefusedAs ''denied'' ''approved_quote_protected'' 400
      else Committed (add_ledger ((decision_row caller ''quote.delete'' q (Some (q_status q)) None)
             \<lparr>l_amount := Some 0, l_approvedAmount := approvedAmount q\<rparr>)
           (db\<lparr>m_quotes := filter (\<lambda>r. q_id r \<noteq> q_id q) (m_quotes db)\<rparr>)))"

definition deleteQuote :: "money_env \<Rightarrow> money_caller \<Rightarrow> json option \<Rightarrow> money_db \<Rightarrow> answer \<times> money_db" where
  "deleteQuote env caller quoteId db =
     quote_handler env caller manageQuotes_gate ''quote.delete'' False quoteId (delete_work caller db) db"

text \<open>\<open>validateQuote\<close> is no ledgered decision, and its statements are not one transaction: the database after each of its
  three writes is left as it is when the next statement throws.\<close>

definition validate_stamp :: "money_env \<Rightarrow> money_caller \<Rightarrow> int \<Rightarrow> money_db \<Rightarrow> money_db" where
  "validate_stamp env caller qid =
     update_quote qid (\<lambda>q. q\<lparr>q_validatedAt := Some (me_now env), q_validatedBy := Some (c_name caller)\<rparr>)"

definition validate_stages :: "money_env \<Rightarrow> money_caller \<Rightarrow> int \<Rightarrow> int \<Rightarrow> money_db \<Rightarrow> money_db list" where
  "validate_stages env caller jobId qid db =
     (let db1 = validate_stamp env caller qid db; db2 = add_event caller jobId ''comment'' qid db1
      in [db, db1, db2, touch_job env jobId db2])"

definition validateQuote :: "money_env \<Rightarrow> money_caller \<Rightarrow> json option \<Rightarrow> money_db \<Rightarrow> answer \<times> money_db" where
  "validateQuote env caller quoteId db =
     (if \<not> rolesPassGate (c_roles caller) manageQuotes_gate then (Answer 403 (Some ''role_not_permitted''), db)
      else case quote_id quoteId of
        Inl status \<Rightarrow> (Answer status None, db)
      | Inr qid \<Rightarrow>
          if me_throwsAt env = Some 0 then (Answer 500 None, db)
          else (case find_quote db qid of
                  None \<Rightarrow> (Answer 404 None, db)
                | Some q \<Rightarrow>
                    (let stages = validate_stages env caller (q_jobId q) qid db
                     in case me_throwsAt env of
                          None \<Rightarrow> (Answer 200 None, last stages)
                        | Some k \<Rightarrow> if k \<le> 4 then (Answer 500 None, stages ! (k - 1)) else (Answer 200 None, last stages))))"

section \<open>Adding and editing\<close>

text \<open>The fields of the body, as the columns take them: absent, \<open>null\<close> or a value.\<close>

record upsert_body =
  ub_QuoteID :: "json option"
  ub_JobID :: "json option"
  ub_ContractorID :: "int field"
  ub_ContractorName :: "string field"
  ub_Amount :: "json option"
  ub_Currency :: "string field"
  ub_Notes :: "string field"
  ub_QuotePDFBlobName :: "string field"

definition amount_json :: "rat field \<Rightarrow> json option" where
  "amount_json amount = (case amount of None \<Rightarrow> None | Some None \<Rightarrow> Some JNull | Some (Some a) \<Rightarrow> Some (JNum (Num a)))"

definition field_or :: "'a option \<Rightarrow> 'a field \<Rightarrow> 'a option" where
  "field_or old change = (case change of None \<Rightarrow> old | Some new \<Rightarrow> new)"

definition pdf_refused :: "money_env \<Rightarrow> int \<Rightarrow> string field \<Rightarrow> bool" where
  "pdf_refused env jobId pdf = (case pdf of Some (Some name) \<Rightarrow> \<not> me_attachment env jobId name | _ \<Rightarrow> False)"

text \<open>\<open>ISNULL(MAX(Seq), 0) + 1\<close> over the contractor's quotes, or over the job's quotes without a contractor.\<close>

definition next_seq :: "money_db \<Rightarrow> int \<Rightarrow> int option \<Rightarrow> int" where
  "next_seq db jobId contractorId =
     fold max (map q_seq (filter (\<lambda>q. case contractorId of
         Some c \<Rightarrow> q_contractorId q = Some c
       | None \<Rightarrow> q_jobId q = jobId \<and> q_contractorId q = None) (m_quotes db))) 0 + 1"

definition new_quote :: "money_env \<Rightarrow> money_caller \<Rightarrow> upsert_body \<Rightarrow> rat field \<Rightarrow> int \<Rightarrow> money_db \<Rightarrow> quote_row" where
  "new_quote env caller body amount jobId db =
     (let contractor = field_or None (ub_ContractorID body); seq = next_seq db jobId contractor
      in \<lparr>q_id = m_nextQuote db, q_jobId = jobId, q_number = Some (me_number env jobId contractor seq), q_seq = seq,
          q_contractorId = contractor, q_contractorName = field_or None (ub_ContractorName body),
          q_amount = field_or None amount, q_currency = (case field_or None (ub_Currency body) of Some c \<Rightarrow> c | None \<Rightarrow> ''AUD''),
          q_notes = field_or None (ub_Notes body), q_pdf = field_or None (ub_QuotePDFBlobName body),
          q_createdBy = Some (c_name caller), q_status = ''pending'', q_approvedAt = None, q_approvedBy = None,
          q_directorApprovedAt = None, q_directorApprovedBy = None, q_emailAttemptedAt = None, q_emailSentAt = None,
          q_emailSentTo = None, q_emailSentBy = None, q_attributedTo = None, q_declaredAt = None, q_answeredAt = None,
          q_validatedAt = None, q_validatedBy = None\<rparr>)"

definition create_work :: "money_env \<Rightarrow> money_caller \<Rightarrow> upsert_body \<Rightarrow> rat field \<Rightarrow> int \<Rightarrow> money_db \<Rightarrow> quote_result" where
  "create_work env caller body amount jobId db =
     (if find_job db jobId = None then RolledBack 404
      else case job_refusal db jobId of
        Some r \<Rightarrow> RefusedAs ''denied'' (mr_code r) (mr_status r)
      | None \<Rightarrow>
          (let q = new_quote env caller body amount jobId db
           in Committed (advance_job env caller QUOTE_RECEIVED jobId (q_id q)
                (add_event caller jobId ''quote_added'' (q_id q)
                  (db\<lparr>m_quotes := m_quotes db @ [q], m_nextQuote := m_nextQuote db + 1\<rparr>)))))"

definition edit_quote :: "upsert_body \<Rightarrow> rat field \<Rightarrow> quote_row \<Rightarrow> quote_row" where
  "edit_quote body amount q =
     q\<lparr>q_amount := field_or (q_amount q) amount, q_contractorId := field_or (q_contractorId q) (ub_ContractorID body),
       q_contractorName := field_or (q_contractorName q) (ub_ContractorName body),
       q_currency := (case ub_Currency body of Some (Some c) \<Rightarrow> c | _ \<Rightarrow> q_currency q),
       q_notes := field_or (q_notes q) (ub_Notes body), q_pdf := field_or (q_pdf q) (ub_QuotePDFBlobName body)\<rparr>"

text \<open>An approval torn down by an edit.\<close>

definition reset_quote :: "money_env \<Rightarrow> quote_row \<Rightarrow> quote_row" where
  "reset_quote env q = stamp_attribution env None
     (q\<lparr>q_status := ''pending'', q_approvedAt := None, q_approvedBy := None, q_directorApprovedAt := None,
        q_directorApprovedBy := None, q_emailAttemptedAt := None, q_emailSentAt := None, q_emailSentTo := None,
        q_emailSentBy := None\<rparr>)"

definition edit_work :: "money_env \<Rightarrow> money_caller \<Rightarrow> upsert_body \<Rightarrow> rat field \<Rightarrow> int \<Rightarrow> money_db \<Rightarrow> quote_result" where
  "edit_work env caller body amount qid db =
     (case find_quote db qid of
        None \<Rightarrow> RolledBack 404
      | Some q \<Rightarrow>
          if pdf_refused env (q_jobId q) (ub_QuotePDFBlobName body) then RolledBack 400
          else (case job_refusal db (q_jobId q) of
                  Some r \<Rightarrow> RefusedAs ''denied'' (mr_code r) (mr_status r)
                | None \<Rightarrow>
                    (let effects = decideApprovalAmountEdit
                           \<lparr>ab_amount = q_amount q, ab_contractorId = q_contractorId q, ab_contractorName = q_contractorName q,
                            ab_status = Some (q_status q), ab_approvedAt = q_approvedAt q\<rparr>
                           amount (ub_ContractorID body) (ub_ContractorName body);
                         edited = edit_quote body amount;
                         db1 = add_event caller (q_jobId q) ''quote_edited'' qid (update_quote qid edited db)
                     in if ub_Currency body = Some None then RolledBack 500
                        else if \<not> ae_clearApproval effects then Committed db1
                        else Committed (add_ledger ((decision_row caller ''quote.approval_reset'' (edited q)
                                 (Some (q_status q)) (Some ''pending''))
                               \<lparr>l_approvedAmount := q_amount q,
                                l_rule := Some (if ae_contractorChanged effects then ''payee_changed'' else ''amount_changed'')\<rparr>)
                             (add_event caller (q_jobId q) ''quote_approval_cleared'' qid
                               (clear_approved env (q_jobId q) qid (update_quote qid (reset_quote env) db1)))))))"

text \<open>\<open>buildUpdateSet\<close> finds no field to set.\<close>

definition nothing_sent :: "upsert_body \<Rightarrow> rat field \<Rightarrow> bool" where
  "nothing_sent body amount \<longleftrightarrow>
     amount = None \<and> ub_ContractorID body = None \<and> ub_ContractorName body = None \<and> ub_Currency body = None \<and>
     ub_Notes body = None \<and> ub_QuotePDFBlobName body = None"

definition upsertQuote :: "money_env \<Rightarrow> money_caller \<Rightarrow> upsert_body \<Rightarrow> money_db \<Rightarrow> answer \<times> money_db" where
  "upsertQuote env caller body db =
     (if \<not> rolesPassGate (c_roles caller) createQuote_gate then (Answer 403 (Some ''role_not_permitted''), db)
      else case parseMoneyField (ub_Amount body) of
        Inl _ \<Rightarrow> (Answer 400 None, db)
      | Inr amount \<Rightarrow>
          if ub_QuoteID body = None then
            (if quote_id (ub_JobID body) = Inl 400 then (Answer 400 None, db)
             else case amountRefusal (amount_json amount) True of
               Some r \<Rightarrow> (Answer (mr_status r) (Some (mr_code r)), db)
             | None \<Rightarrow>
                 (case quote_id (ub_JobID body) of
                    Inl status \<Rightarrow> (Answer status None, db)
                  | Inr jobId \<Rightarrow>
                      if pdf_refused env jobId (ub_QuotePDFBlobName body) then (Answer 400 None, db)
                      else conclude env caller ''quote.create'' (''job'', jobId) True db (create_work env caller body amount jobId db)))
          else if quote_id (ub_QuoteID body) = Inl 400 \<or> nothing_sent body amount then (Answer 400 None, db)
          else (case amountRefusal (amount_json amount) False of
                  Some r \<Rightarrow> (Answer (mr_status r) (Some (mr_code r)), db)
                | None \<Rightarrow>
                    (case quote_id (ub_QuoteID body) of
                       Inl status \<Rightarrow> (Answer status None, db)
                     | Inr qid \<Rightarrow> conclude env caller ''quote.edit'' (''quote'', qid) True db (edit_work env caller body amount qid db))))"

end
