(* ===== verification/Quotes_Correct.thy ===== *)
theory Quotes_Correct
  imports Quotes
begin

text \<open>
  What the quote handlers keep. The abstract board of a database is its quotes with their job and whether they
  stand approved, and its jobs with the quote they point at; every handler is a step of the board
  (\<open>board_step\<close>), whose rules keep one approved quote a job. What a committed transaction does is stated once,
  in a locale over the relation it establishes.
\<close>

section \<open>The handlers as one step\<close>

datatype quote_op =
    Upsert upsert_body
  | Approve approve_body
  | DirectorApprove "nat option" "json option"
  | Reject "json option" "json option" "json option"
  | Unapprove "json option"
  | Complete "json option"
  | Uncomplete "json option"
  | Delete "json option"
  | Validate "json option"

fun quote_step :: "money_env \<Rightarrow> money_caller \<Rightarrow> quote_op \<Rightarrow> money_db \<Rightarrow> answer \<times> money_db" where
  "quote_step env caller (Upsert body) db = upsertQuote env caller body db"
| "quote_step env caller (Approve body) db = approveQuote env caller body db"
| "quote_step env caller (DirectorApprove gate qid) db = directorApproveQuote env caller gate qid db"
| "quote_step env caller (Reject qid director reason) db = rejectQuote env caller qid director reason db"
| "quote_step env caller (Unapprove qid) db = unapproveQuote env caller qid db"
| "quote_step env caller (Complete qid) db = completeQuote env caller qid db"
| "quote_step env caller (Uncomplete qid) db = uncompleteQuote env caller qid db"
| "quote_step env caller (Delete qid) db = deleteQuote env caller qid db"
| "quote_step env caller (Validate qid) db = validateQuote env caller qid db"

fun quote_run :: "(money_env \<times> money_caller \<times> quote_op) list \<Rightarrow> money_db \<Rightarrow> money_db" where
  "quote_run [] db = db"
| "quote_run ((env, caller, op) # steps) db = quote_run steps (snd (quote_step env caller op db))"

section \<open>The board\<close>

type_synonym board = "(int \<times> int \<times> bool) list \<times> (int \<times> int option) list \<times> int"

definition approval_view :: "money_db \<Rightarrow> board" where
  "approval_view db =
     (map (\<lambda>q. (q_id q, q_jobId q, q_status q \<in> set APPROVED_QUOTE)) (m_quotes db),
      map (\<lambda>j. (j_id j, j_approvedQuoteId j)) (m_jobs db), m_nextQuote db)"

definition mark :: "int \<Rightarrow> bool \<Rightarrow> (int \<times> int \<times> bool) list \<Rightarrow> (int \<times> int \<times> bool) list" where
  "mark qid approved qs = map (\<lambda>(i, j, a). (i, j, if i = qid then approved else a)) qs"

definition point :: "int \<Rightarrow> int \<Rightarrow> (int \<times> int option) list \<Rightarrow> (int \<times> int option) list" where
  "point jid qid js = map (\<lambda>(j, p). (j, if j = jid then Some qid else p)) js"

definition unless_at :: "int \<Rightarrow> int \<Rightarrow> int \<Rightarrow> int option \<Rightarrow> int option" where
  "unless_at jid qid j p = (if j = jid \<and> p = Some qid then None else p)"

definition unpoint :: "int \<Rightarrow> int \<Rightarrow> (int \<times> int option) list \<Rightarrow> (int \<times> int option) list" where
  "unpoint jid qid js = map (\<lambda>(j, p). (j, unless_at jid qid j p)) js"

inductive board_step :: "board \<Rightarrow> board \<Rightarrow> bool" where
  stays: "board_step b b"
| added: "jid \<in> fst ` set js \<Longrightarrow> board_step (qs, js, n) (qs @ [(n, jid, False)], js, n + 1)"
| deleted: "(qid, jid, False) \<in> set qs \<Longrightarrow> board_step (qs, js, n) (filter (\<lambda>q. fst q \<noteq> qid) qs, js, n)"
| approved: "(qid, jid, False) \<in> set qs \<Longrightarrow> \<forall>(i, j, a)\<in>set qs. j = jid \<longrightarrow> \<not> a \<Longrightarrow>
    board_step (qs, js, n) (mark qid True qs, point jid qid js, n)"
| withdrawn: "(qid, jid, a) \<in> set qs \<Longrightarrow> board_step (qs, js, n) (mark qid False qs, unpoint jid qid js, n)"

text \<open>Ids are unique and below the next one, quotes belong to jobs, and a job points at its approved quote, the only
  one, exactly when it has one.\<close>

definition pointed :: "(int \<times> int \<times> bool) list \<Rightarrow> int \<times> int option \<Rightarrow> bool" where
  "pointed qs job \<longleftrightarrow> {i. (i, fst job, True) \<in> set qs} = set_option (snd job)"

definition board_good :: "board \<Rightarrow> bool" where
  "board_good b \<longleftrightarrow>
     (case b of (qs, js, n) \<Rightarrow>
        distinct (map fst qs) \<and> distinct (map fst js) \<and> (\<forall>(i, j, a)\<in>set qs. i < n \<and> j \<in> fst ` set js) \<and>
        (\<forall>job\<in>set js. pointed qs job))"

lemma set_mark: "set (mark qid b qs) = (\<lambda>(i, j, a). (i, j, if i = qid then b else a)) ` set qs"
  by (simp add: mark_def)

lemma fst_marks [simp]:
  "map fst (mark qid b qs) = map fst qs" "map fst (point jid qid js) = map fst js" "map fst (unpoint jid qid js) = map fst js"
  "fst ` set (point jid qid js) = fst ` set js" "fst ` set (unpoint jid qid js) = fst ` set js"
  by (auto simp: mark_def point_def unpoint_def image_image split_def)

lemma mem_mark: "(i, j, a) \<in> set (mark qid b qs) \<longleftrightarrow> (\<exists>c. (i, j, c) \<in> set qs \<and> a = (if i = qid then b else c))"
  by (auto simp: set_mark image_iff split: prod.splits) 

lemma mem_point: "(j, p) \<in> set (point jid qid js) \<longleftrightarrow> (\<exists>r. (j, r) \<in> set js \<and> p = (if j = jid then Some qid else r))"
  by (induction js) (auto simp: point_def)

lemma mem_unpoint:
  "(j, p) \<in> set (unpoint jid qid js) \<longleftrightarrow> (\<exists>r. (j, r) \<in> set js \<and> p = unless_at jid qid j r)"
  by (induction js) (auto simp: unpoint_def)

lemma unique_job: "distinct (map fst qs) \<Longrightarrow> (qid, j, a) \<in> set qs \<Longrightarrow> (qid, k, b) \<in> set qs \<Longrightarrow> j = k \<and> a = b"
  by (metis eq_key_imp_eq_value prod.inject)

lemma pointed_iff: "pointed qs (j, p) \<longleftrightarrow> {i. (i, j, True) \<in> set qs} = set_option p"
  by (simp add: pointed_def)

lemma board_step_good: "board_step b c \<Longrightarrow> board_good b \<Longrightarrow> board_good c"
proof (induction rule: board_step.induct)
  case (stays b)
  then show ?case .
next
  case (added jid js qs n)
  then show ?case by (auto simp: board_good_def pointed_def)
next
  case (deleted qid jid qs js n)
  then have same: "pointed (filter (\<lambda>q. fst q \<noteq> qid) qs) = pointed qs"
    by (auto simp: board_good_def pointed_def fun_eq_iff dest: unique_job)
  from deleted show ?case
    unfolding board_good_def prod.case same by (auto simp: distinct_map_filter)
next
  case (approved qid jid qs js n)
  have "{i. (i, j, True) \<in> set (mark qid True qs)} = (if j = jid then {qid} else {i. (i, j, True) \<in> set qs})" for j
    using approved by (auto simp: board_good_def mem_mark dest: unique_job)
  then have "pointed (mark qid True qs) (j, if j = jid then Some qid else p)" if "pointed qs (j, p)" for j p
    using that by (simp add: pointed_iff)
  with approved show ?case by (auto simp: board_good_def mem_mark mem_point)
next
  case (withdrawn qid jid a qs js n)
  have marked: "{i. (i, j, True) \<in> set (mark qid False qs)} = {i. (i, j, True) \<in> set qs} - (if j = jid then {qid} else {})" for j
    using withdrawn by (auto simp: board_good_def mem_mark dest: unique_job)
  have "pointed (mark qid False qs) (j, unless_at jid qid j p)" if "pointed qs (j, p)" for j p
    using that withdrawn by (cases p) (auto simp: pointed_iff marked unless_at_def)
  with withdrawn show ?case by (auto simp: board_good_def mem_mark mem_unpoint)
qed

section \<open>Writes on the board\<close>

definition board_quotes :: "money_db \<Rightarrow> (int \<times> int \<times> bool) list" where
  "board_quotes db = map (\<lambda>q. (q_id q, q_jobId q, q_status q \<in> set APPROVED_QUOTE)) (m_quotes db)"

definition board_jobs :: "money_db \<Rightarrow> (int \<times> int option) list" where
  "board_jobs db = map (\<lambda>j. (j_id j, j_approvedQuoteId j)) (m_jobs db)"

lemma approval_view_eq: "approval_view db = (board_quotes db, board_jobs db, m_nextQuote db)"
  by (simp add: approval_view_def board_quotes_def board_jobs_def)

text \<open>The rows other than the quotes and the pointers of the jobs.\<close>

lemma quotes_other [simp]:
  "m_quotes (add_event caller jid kind qid db) = m_quotes db" "m_quotes (add_ledger row db) = m_quotes db"
  "m_quotes (update_jobs which g db) = m_quotes db" "m_quotes (touch_job env jid db) = m_quotes db"
  "m_quotes (set_approved env caller jid qid db) = m_quotes db" "m_quotes (clear_approved env jid qid db) = m_quotes db"
  "m_quotes (advance_job env caller event jid qid db) = m_quotes db"
  by (auto simp: add_event_def add_ledger_def update_jobs_def touch_job_def set_approved_def clear_approved_def
      advance_job_def Let_def split: option.splits prod.splits)

lemma next_other [simp]:
  "m_nextQuote (add_event caller jid kind qid db) = m_nextQuote db" "m_nextQuote (add_ledger row db) = m_nextQuote db"
  "m_nextQuote (update_jobs which g db) = m_nextQuote db" "m_nextQuote (touch_job env jid db) = m_nextQuote db"
  "m_nextQuote (set_approved env caller jid qid db) = m_nextQuote db"
  "m_nextQuote (clear_approved env jid qid db) = m_nextQuote db" "m_nextQuote (update_quote qid f db) = m_nextQuote db"
  "m_nextQuote (advance_job env caller event jid qid db) = m_nextQuote db"
  by (auto simp: add_event_def add_ledger_def update_jobs_def touch_job_def set_approved_def clear_approved_def
      update_quote_def advance_job_def Let_def split: option.splits prod.splits)

lemma ledger_other [simp]:
  "m_ledger (add_event caller jid kind qid db) = m_ledger db" "m_ledger (add_ledger row db) = m_ledger db @ [row]"
  "m_ledger (update_jobs which g db) = m_ledger db" "m_ledger (touch_job env jid db) = m_ledger db"
  "m_ledger (set_approved env caller jid qid db) = m_ledger db"
  "m_ledger (clear_approved env jid qid db) = m_ledger db" "m_ledger (update_quote qid f db) = m_ledger db"
  "m_ledger (advance_job env caller event jid qid db) = m_ledger db"
  by (auto simp: add_event_def add_ledger_def update_jobs_def touch_job_def set_approved_def clear_approved_def
      update_quote_def advance_job_def Let_def split: option.splits prod.splits)

lemma board_quotes_other [simp]:
  "board_quotes (add_event caller jid kind qid db) = board_quotes db" "board_quotes (add_ledger row db) = board_quotes db"
  "board_quotes (touch_job env jid db) = board_quotes db" "board_quotes (set_approved env caller jid qid db) = board_quotes db"
  "board_quotes (clear_approved env jid qid db) = board_quotes db"
  "board_quotes (advance_job env caller event jid qid db) = board_quotes db"
  by (simp_all add: board_quotes_def)

lemma board_jobs_update: "(\<And>j. j_id (g j) = j_id j \<and> j_approvedQuoteId (g j) = j_approvedQuoteId j) \<Longrightarrow>
    board_jobs (update_jobs which g db) = board_jobs db"
  by (simp add: board_jobs_def update_jobs_def)

lemma board_jobs_other [simp]:
  "board_jobs (add_event caller jid kind qid db) = board_jobs db" "board_jobs (add_ledger row db) = board_jobs db"
  "board_jobs (touch_job env jid db) = board_jobs db" "board_jobs (update_quote qid f db) = board_jobs db"
  by (simp_all add: touch_job_def board_jobs_update) (simp_all add: board_jobs_def add_event_def add_ledger_def update_quote_def)

lemma board_jobs_advance [simp]: "board_jobs (advance_job env caller event jid qid db) = board_jobs db"
  by (simp add: advance_job_def board_jobs_update Let_def split: option.splits prod.splits)

lemma board_jobs_pointers [simp]:
  "board_jobs (set_approved env caller jid qid db) = point jid qid (board_jobs db)"
  "board_jobs (clear_approved env jid qid db) = unpoint jid qid (board_jobs db)"
  by (auto simp: board_jobs_def set_approved_def clear_approved_def update_jobs_def point_def unpoint_def unless_at_def)

lemma board_quotes_update:
  assumes "\<And>q. q_id (f q) = q_id q \<and> q_jobId (f q) = q_jobId q \<and> q_status (f q) = s"
  shows "board_quotes (update_quote qid f db) = mark qid (s \<in> set APPROVED_QUOTE) (board_quotes db)"
  using assms by (simp add: board_quotes_def update_quote_def mark_def)

lemma find_quote_Some: "find_quote db qid = Some q \<Longrightarrow> q \<in> set (m_quotes db) \<and> q_id q = qid"
  by (auto simp: find_quote_def find_Some_iff)

lemma find_quote_board: "find_quote db qid = Some q \<Longrightarrow> (qid, q_jobId q, q_status q \<in> set APPROVED_QUOTE) \<in> set (board_quotes db)"
  using find_quote_Some [of db qid q] by (auto simp: board_quotes_def)

lemma mark_same:
  "board_good (qs, js, n) \<Longrightarrow> (qid, j, a) \<in> set qs \<Longrightarrow> mark qid a qs = qs"
  unfolding mark_def by (rule map_idI) (auto simp: board_good_def split: if_splits dest: unique_job)

text \<open>A status that leaves the class of the quote leaves the board.\<close>

lemma board_same_status:
  assumes "board_good (approval_view db)" "find_quote db qid = Some q"
    and "\<And>q. q_id (f q) = q_id q \<and> q_jobId (f q) = q_jobId q \<and> q_status (f q) = s"
    and "q_status q \<in> set APPROVED_QUOTE \<longleftrightarrow> s \<in> set APPROVED_QUOTE"
  shows "board_quotes (update_quote qid f db) = board_quotes db"
  using assms find_quote_board [OF assms(2)]
  by (simp add: board_quotes_update approval_view_eq) (metis mark_same)

lemma board_kept_status:
  assumes "\<And>q. q_id (f q) = q_id q \<and> q_jobId (f q) = q_jobId q \<and> q_status (f q) = q_status q"
  shows "board_quotes (update_quote qid f db) = board_quotes db"
  using assms by (simp add: board_quotes_def update_quote_def)

lemma stamp_simps [simp]:
  "q_id (stamp_attribution env person q) = q_id q" "q_jobId (stamp_attribution env person q) = q_jobId q"
  "q_status (stamp_attribution env person q) = q_status q" "q_amount (stamp_attribution env person q) = q_amount q"
  "q_contractorId (stamp_attribution env person q) = q_contractorId q"
  "q_contractorName (stamp_attribution env person q) = q_contractorName q"
  by (auto simp: stamp_attribution_def split: option.splits)

lemma reset_simps [simp]:
  "q_id (reset_quote env q) = q_id q" "q_jobId (reset_quote env q) = q_jobId q" "q_status (reset_quote env q) = ''pending''"
  "q_id (edit_quote body amount q) = q_id q" "q_jobId (edit_quote body amount q) = q_jobId q"
  "q_status (edit_quote body amount q) = q_status q"
  by (simp_all add: reset_quote_def edit_quote_def)

lemma not_approved [simp]:
  "''pending'' \<notin> set APPROVED_QUOTE" "''rejected'' \<notin> set APPROVED_QUOTE" "''awaiting_director'' \<notin> set APPROVED_QUOTE"
  "''awaiting_approval'' \<notin> set APPROVED_QUOTE" "''approved'' \<in> set APPROVED_QUOTE" "''completed'' \<in> set APPROVED_QUOTE"
  by (simp_all add: APPROVED_QUOTE_def)

section \<open>Every transaction is a step of the board\<close>

lemma first_refusal_None: "first_refusal rs = None \<longleftrightarrow> list_all (\<lambda>r. r = None) rs"
  by (induction rs rule: first_refusal.induct) simp_all

text \<open>A job that is not said to have an approved quote has none.\<close>

lemma already_approved_None:
  assumes "board_good (approval_view db)" "already_approved db jid = None" "(i, jid, a) \<in> set (board_quotes db)"
  shows "\<not> a"
proof
  assume "a"
  have "jid \<in> fst ` set (board_jobs db)"
    using assms(1,3) by (auto simp: board_good_def approval_view_eq)
  then obtain j where j: "j \<in> set (m_jobs db)" "j_id j = jid" by (auto simp: board_jobs_def)
  then obtain k where k: "find_job db jid = Some k"
    by (cases "find_job db jid") (auto simp: find_job_def find_None_iff)
  then have k_in: "(jid, j_approvedQuoteId k) \<in> set (board_jobs db)" "j_id k = jid"
    by (auto simp: find_job_def find_Some_iff board_jobs_def)
  obtain q where q: "q \<in> set (m_quotes db)" "q_id q = i" "q_jobId q = jid" "q_status q \<in> set APPROVED_QUOTE"
    using assms(3) \<open>a\<close> by (auto simp: board_quotes_def)
  have "pointed (board_quotes db) (jid, j_approvedQuoteId k)"
    using assms(1) k_in by (auto simp: board_good_def approval_view_eq)
  moreover have "(i, jid, True) \<in> set (board_quotes db)" using assms(3) \<open>a\<close> by simp
  ultimately have "j_approvedQuoteId k = Some i" by (auto simp: pointed_iff)
  then have "job_hasApprovedQuote db k"
    using q k_in by (auto simp: job_hasApprovedQuote_def list_ex_iff)
  with assms(2) k show False by (simp add: already_approved_def)
qed

lemma board_approve:
  assumes "board_good (approval_view db)" "find_quote db qid = Some q" "q_status q \<notin> set APPROVED_QUOTE"
    and "already_approved db (q_jobId q) = None"
  shows "board_step (approval_view db)
    (mark qid True (board_quotes db), point (q_jobId q) qid (board_jobs db), m_nextQuote db)"
  unfolding approval_view_eq
  by (rule board_step.approved) (use assms find_quote_board [OF assms(2)] in \<open>auto dest: already_approved_None\<close>)

lemma land_quote_step:
  assumes "board_good (approval_view db)" "find_quote db qid = Some q" "q_status q \<notin> set APPROVED_QUOTE"
    and "already_approved db (q_jobId q) = None" "s = ''approved'' \<or> s \<notin> set APPROVED_QUOTE"
  shows "board_step (approval_view db) (approval_view (land_quote env caller s person q db))"
proof (cases "s = ''approved''")
  case True
  then show ?thesis
    using board_approve [OF assms(1-4)] find_quote_Some [OF assms(2)]
    by (simp add: land_quote_def Let_def approval_view_eq board_quotes_update [where s = "''approved''"])
next
  case False
  with assms find_quote_Some [OF assms(2)] show ?thesis
    by (simp add: land_quote_def Let_def approval_view_eq board_same_status [where s = s] board_step.stays)
qed

lemma approve_state_refusal_None:
  assumes "approve_state_refusal db caller q = None"
  shows "job_refusal db (q_jobId q) = None" "q_status q \<in> set APPROVABLE" "already_approved db (q_jobId q) = None"
    "creatorRefusal (map_option JStr (q_createdBy q)) (c_name caller) (c_roles caller) = None"
  using assms by (auto simp: approve_state_refusal_def first_refusal_None approvableRefusal_def split: if_splits)

lemma approvable_not_approved: "s \<in> set APPROVABLE \<Longrightarrow> s \<notin> set APPROVED_QUOTE"
  by (auto simp: APPROVABLE_def APPROVED_QUOTE_def)

lemma approve_committed:
  assumes "approveQuoteInTransaction env caller named qid db = Committed db'"
  obtains q s person where "find_quote db qid = Some q" "approve_state_refusal db caller q = None"
    "db' = land_quote env caller s person q db" "s = ''approved'' \<or> s \<notin> set APPROVED_QUOTE"
  using assms
  by (auto simp: approveQuoteInTransaction_def split: option.splits if_splits approval_outcome.splits)

lemma approve_step:
  assumes "approveQuoteInTransaction env caller named qid db = Committed db'" "board_good (approval_view db)"
  shows "board_step (approval_view db) (approval_view db')"
  using assms approve_committed [OF assms(1)] land_quote_step
  by (metis approvable_not_approved approve_state_refusal_None)

lemma director_step:
  assumes "approveDirectorQuote env caller qid db = Committed db'" "board_good (approval_view db)"
  shows "board_step (approval_view db) (approval_view db')"
proof -
  obtain q where q: "find_quote db qid = Some q" "q_status q = ''awaiting_director''"
      "already_approved db (q_jobId q) = None"
    and db': "approval_view db' = (mark qid True (board_quotes db), point (q_jobId q) qid (board_jobs db), m_nextQuote db)"
    using assms(1)
    by (auto simp: approveDirectorQuote_def first_refusal_None approval_view_eq
        board_quotes_update [where s = "''approved''"] split: option.splits if_splits)
  show ?thesis unfolding db' by (rule board_approve) (use q assms(2) in simp_all)
qed

lemma reject_step:
  assumes "rejectQuoteInTransaction env caller directorId reasonText qid db = Committed db'" "board_good (approval_view db)"
  shows "board_step (approval_view db) (approval_view db')"
proof -
  obtain q where q: "find_quote db qid = Some q" "q_status q \<in> set IN_APP_REJECTABLE_STATUSES"
    and db': "approval_view db' =
      (board_quotes (update_quote qid (\<lambda>q. q\<lparr>q_status := ''rejected''\<rparr>) db), board_jobs db, m_nextQuote db)"
    using assms(1)
    by (auto simp: rejectQuoteInTransaction_def rejectQuoteWrite_def approval_view_eq Let_def
        split: option.splits if_splits sum.splits)
  have "q_status q \<notin> set APPROVED_QUOTE"
    using q(2) by (auto simp: IN_APP_REJECTABLE_STATUSES_def APPROVED_QUOTE_def)
  then show ?thesis
    using q assms(2) unfolding db' by (simp add: board_same_status [where s = "''rejected''"] approval_view_eq board_step.stays)
qed

lemma unapprove_step:
  assumes "unapprove_work env caller db q = Committed db'" "find_quote db qid = Some q"
  shows "board_step (approval_view db) (approval_view db')"
proof -
  have db': "approval_view db' = (mark qid False (board_quotes db), unpoint (q_jobId q) qid (board_jobs db), m_nextQuote db)"
    using assms(1) find_quote_Some [OF assms(2)]
    by (auto simp: unapprove_work_def approval_view_eq board_quotes_update [where s = "''pending''"] split: if_splits)
  show ?thesis unfolding db' unfolding approval_view_eq
    by (rule board_step.withdrawn) (rule find_quote_board [OF assms(2)])
qed

lemma complete_step:
  assumes "complete_work env caller db q = Committed db' \<or> uncomplete_work env caller db q = Committed db'"
    and "find_quote db qid = Some q" "board_good (approval_view db)"
  shows "approval_view db' = approval_view db"
  using assms find_quote_Some [OF assms(2)]
  by (auto simp: complete_work_def uncomplete_work_def approval_view_eq board_same_status [where s = "''completed''"]
      board_same_status [where s = "''approved''"] split: if_splits)

lemma delete_step:
  assumes "delete_work caller db q = Committed db'" "find_quote db qid = Some q"
  shows "board_step (approval_view db) (approval_view db')"
proof -
  have db': "approval_view db' = (filter (\<lambda>q. fst q \<noteq> qid) (board_quotes db), board_jobs db, m_nextQuote db)"
    using assms(1) find_quote_Some [OF assms(2)]
    by (auto simp: delete_work_def approval_view_eq board_quotes_def board_jobs_def add_ledger_def filter_map o_def split: if_splits)
  have "q_status q \<notin> set APPROVED_QUOTE"
    using assms(1) by (auto simp: delete_work_def APPROVED_QUOTE_def split: if_splits)
  then show ?thesis unfolding db' unfolding approval_view_eq
    using find_quote_board [OF assms(2)] by (intro board_step.deleted [of qid "q_jobId q"]) simp
qed

lemma create_step:
  assumes "create_work env caller body amount jid db = Committed db'"
  shows "board_step (approval_view db) (approval_view db')"
proof -
  have db': "approval_view db' = (board_quotes db @ [(m_nextQuote db, jid, False)], board_jobs db, m_nextQuote db + 1)"
    and job: "find_job db jid \<noteq> None"
    using assms
    by (auto simp: create_work_def Let_def approval_view_eq board_quotes_def new_quote_def APPROVED_QUOTE_def
        split: option.splits if_splits) (simp add: board_jobs_def)+
  have "jid \<in> fst ` set (board_jobs db)"
    using job by (force simp: find_job_def find_Some_iff board_jobs_def)
  then show ?thesis unfolding db' unfolding approval_view_eq by (rule board_step.added)
qed

lemma edit_step:
  assumes "edit_work env caller body amount qid db = Committed db'"
  shows "board_step (approval_view db) (approval_view db')"
proof -
  let ?edited = "update_quote qid (edit_quote body amount) db"
  have edited: "board_quotes ?edited = board_quotes db" by (simp add: board_kept_status)
  obtain q where q: "find_quote db qid = Some q"
    and db': "approval_view db' = approval_view db \<or>
      approval_view db' = (mark qid False (board_quotes db), unpoint (q_jobId q) qid (board_jobs db), m_nextQuote db)"
    using assms edited
    by (auto simp: edit_work_def Let_def approval_view_eq board_quotes_update [where s = "''pending''"]
        split: option.splits if_splits)
  show ?thesis
    using db' board_step.stays board_step.withdrawn [OF find_quote_board [OF q]] unfolding approval_view_eq by metis
qed

section \<open>What every transaction keeps, every handler keeps\<close>

text \<open>A relation between the database before and after: reflexive, not minding the row of a refused attempt, and
  established by every transaction that commits, the two approvals apart.\<close>

locale committed_quietly =
  fixes keeps :: "money_db \<Rightarrow> money_db \<Rightarrow> bool"
  assumes same: "keeps db db"
    and refusal: "keeps db (add_ledger (refusal_row caller action attempted code subject) db)"
    and reject: "rejectQuoteInTransaction env caller directorId reasonText qid db = Committed db' \<Longrightarrow> keeps db db'"
    and unapprove: "find_quote db qid = Some q \<Longrightarrow> unapprove_work env caller db q = Committed db' \<Longrightarrow> keeps db db'"
    and complete: "find_quote db qid = Some q \<Longrightarrow> complete_work env caller db q = Committed db' \<Longrightarrow> keeps db db'"
    and uncomplete: "find_quote db qid = Some q \<Longrightarrow> uncomplete_work env caller db q = Committed db' \<Longrightarrow> keeps db db'"
    and delete: "find_quote db qid = Some q \<Longrightarrow> delete_work caller db q = Committed db' \<Longrightarrow> keeps db db'"
    and create: "create_work env caller body amount jid db = Committed db' \<Longrightarrow> keeps db db'"
    and edit: "edit_work env caller body amount qid db = Committed db' \<Longrightarrow> keeps db db'"
    and validated: "db' \<in> set (validate_stages env caller jid qid db) \<Longrightarrow> keeps db db'"
begin

lemma recordRefusal_keeps: "keeps db (recordRefusal env caller action attempted code subject db)"
  by (simp add: recordRefusal_def same refusal)

lemma recordRoleRefusal_keeps: "keeps db (recordRoleRefusal env caller attempted code qid db)"
  by (auto simp: recordRoleRefusal_def same recordRefusal_keeps split: option.splits json.splits js_number.splits)

lemma conclude_keeps:
  "(\<And>db'. result = Committed db' \<Longrightarrow> keeps db db') \<Longrightarrow> keeps db (snd (conclude env caller attempted subject readsBack db result))"
  by (cases result) (simp_all add: conclude_def same recordRefusal_keeps)

lemma handler_keeps:
  assumes "\<And>qid q db'. find_quote db qid = Some q \<Longrightarrow> work q = Committed db' \<Longrightarrow> keeps db db'"
  shows "keeps db (snd (quote_handler env caller gate attempted readsBack quoteId work db))"
proof -
  have "keeps db (snd (conclude env caller attempted (''quote'', qid) readsBack db
      (case find_quote db qid of None \<Rightarrow> RolledBack 404 | Some q \<Rightarrow> work q)))" for qid
    by (rule conclude_keeps) (auto split: option.splits intro: assms)
  then show ?thesis
    by (simp add: quote_handler_def same recordRoleRefusal_keeps split: sum.splits)
qed

lemma upsert_keeps: "keeps db (snd (upsertQuote env caller body db))"
  by (auto simp: upsertQuote_def same recordRoleRefusal_keeps split: sum.splits option.splits
      intro!: conclude_keeps intro: create edit)

lemma rejectQuote_keeps: "keeps db (snd (rejectQuote env caller quoteId directorId reasonText db))"
  by (auto simp: rejectQuote_def same recordRoleRefusal_keeps Let_def split: sum.splits intro!: conclude_keeps intro: reject)

lemma validateQuote_keeps: "keeps db (snd (validateQuote env caller quoteId db))"
proof -
  have "keeps db (last (validate_stages env caller jid qid db))" for jid qid
    by (rule validated, rule last_in_set) (simp add: validate_stages_def Let_def)
  moreover have "k \<le> 4 \<Longrightarrow> keeps db (validate_stages env caller jid qid db ! (k - Suc 0))" for jid qid k
    by (rule validated, rule nth_mem) (simp add: validate_stages_def Let_def)
  ultimately show ?thesis
    unfolding validateQuote_def Let_def by (auto simp: same split: sum.splits option.splits)
qed

lemma quiet_step_keeps:
  assumes "\<And>body. op \<noteq> Approve body" "\<And>gate qid. op \<noteq> DirectorApprove gate qid"
  shows "keeps db (snd (quote_step env caller op db))"
  using assms
  by (cases op)
    (auto simp: upsert_keeps rejectQuote_keeps validateQuote_keeps unapproveQuote_def completeQuote_def uncompleteQuote_def
      deleteQuote_def intro!: handler_keeps intro: unapprove complete uncomplete delete)

end

locale committed = committed_quietly +
  assumes approve: "approveQuoteInTransaction env caller named qid db = Committed db' \<Longrightarrow> keeps db db'"
    and director: "''director'' \<in> set (c_roles caller) \<Longrightarrow> approveDirectorQuote env caller qid db = Committed db' \<Longrightarrow> keeps db db'"
begin

lemma approveQuote_keeps: "keeps db (snd (approveQuote env caller body db))"
  by (auto simp: approveQuote_def same recordRoleRefusal_keeps split: sum.splits intro!: conclude_keeps intro: approve)

lemma directorApproveQuote_keeps: "keeps db (snd (directorApproveQuote env caller gate quoteId db))"
  by (auto simp: directorApproveQuote_def same recordRoleRefusal_keeps split: sum.splits option.splits
      intro!: conclude_keeps intro: director)

lemma quote_step_keeps: "keeps db (snd (quote_step env caller op db))"
proof (cases "\<exists>body gate qid. op = Approve body \<or> op = DirectorApprove gate qid")
  case True
  then show ?thesis by (auto simp: approveQuote_keeps directorApproveQuote_keeps)
next
  case False
  then show ?thesis by (auto intro: quiet_step_keeps)
qed

end

interpretation board: committed "\<lambda>db db'. board_good (approval_view db) \<longrightarrow> board_step (approval_view db) (approval_view db')"
proof unfold_locales
  show "board_good (approval_view db) \<longrightarrow> board_step (approval_view db) (approval_view db)" for db
    by (simp add: board_step.stays)
  show "board_good (approval_view db) \<longrightarrow> board_step (approval_view db)
      (approval_view (add_ledger (refusal_row caller action attempted code subject) db))" for caller action attempted code subject db
    by (simp add: approval_view_eq board_step.stays)
  show "board_good (approval_view db) \<longrightarrow> board_step (approval_view db) (approval_view db')"
    if "db' \<in> set (validate_stages env caller jid qid db)" for db db' env caller jid qid
    using that by (auto simp: validate_stages_def validate_stamp_def Let_def approval_view_eq board_kept_status board_step.stays)
qed (use approve_step director_step reject_step unapprove_step complete_step delete_step create_step edit_step board_step.stays
  in metis)+

lemma board_run: "board_good (approval_view db) \<Longrightarrow> board_good (approval_view (quote_run steps db))"
proof (induction steps db rule: quote_run.induct)
  case (2 env caller op steps db)
  then show ?case using board.quote_step_keeps [of db env caller op] board_step_good by auto
qed simp

text \<open>The quotes of a job that stand approved.\<close>

definition approved_on :: "money_db \<Rightarrow> int \<Rightarrow> int set" where
  "approved_on db jid = set (map q_id (filter (\<lambda>q. q_jobId q = jid \<and> q_status q \<in> set APPROVED_QUOTE) (m_quotes db)))"

lemma approved_on_board: "approved_on db jid = {i. (i, jid, True) \<in> set (board_quotes db)}"
  by (auto simp: approved_on_def board_quotes_def)

lemma board_good_pointers:
  "board_good (approval_view db) \<Longrightarrow>
     distinct (map q_id (m_quotes db)) \<and> list_all (\<lambda>j. approved_on db (j_id j) = set_option (j_approvedQuoteId j)) (m_jobs db)"
  by (auto simp: board_good_def approval_view_eq board_jobs_def pointed_iff approved_on_board list_all_iff)
    (simp add: board_quotes_def o_def)

text \<open>C27: Every handler, whatever it is sent and whoever calls it, is a step of the approval board: it leaves it, adds
  an unapproved quote to a job, removes an unapproved one, approves a quote of a job that has none approved and
  points the job at it, or withdraws an approval and the pointer to it.\<close>

theorem quotes_refine_board:
  assumes "board_good (approval_view db)"
  shows "board_step (approval_view db) (approval_view (snd (quote_step env caller op db)))"
  using board.quote_step_keeps [of db env caller op] assms by blast

text \<open>C5: Over any history of the handlers, a job's approved quote is unique and is the quote the job points at; a job
  that points at none has none.\<close>

theorem one_approved_quote:
  assumes "board_good (approval_view db)"
  shows "distinct (map q_id (m_quotes (quote_run steps db))) \<and>
    list_all (\<lambda>j. approved_on (quote_run steps db) (j_id j) = set_option (j_approvedQuoteId j)) (m_jobs (quote_run steps db))"
  by (rule board_good_pointers [OF board_run [OF assms]])

section \<open>By whose authority\<close>

text \<open>The same quote, for the same amount to the same payee.\<close>

definition same_terms :: "quote_row \<Rightarrow> quote_row \<Rightarrow> bool" where
  "same_terms q r \<longleftrightarrow> q_id q = q_id r \<and> q_jobId q = q_jobId r \<and> q_amount q = q_amount r \<and>
     q_contractorId q = q_contractorId r \<and> q_contractorName q = q_contractorName r"

text \<open>The manager an approve click names, where attributed approvals are on and it is declared.\<close>

definition click_named :: "money_env \<Rightarrow> approve_body \<Rightarrow> int option" where
  "click_named env body =
     (if me_attributedOn env \<and> pb_declared body = Some (JBool True) then
        (case named_id body of Inr uid \<Rightarrow> uid | Inl _ \<Rightarrow> None) else None)"

definition click_authority :: "money_env \<Rightarrow> money_caller \<Rightarrow> int option \<Rightarrow> money_db \<Rightarrow> quote_row \<Rightarrow> bool" where
  "click_authority env caller named db q \<longleftrightarrow>
     (let ask = quote_authority env db q named; facts = me_facts env (job_building db (q_jobId q))
      in \<not> ar_directorRequired (decideAuthority ask facts) \<and> job_refusal db (q_jobId q) = None \<and>
         creatorRefusal (map_option JStr (q_createdBy q)) (c_name caller) (c_roles caller) = None \<and>
         (case withoutAdminUnlessTest (caller_identity caller) (holdsAdmin (c_roles caller) \<and> isTestJob db (q_jobId q)) of
            None \<Rightarrow> False
          | Some actor \<Rightarrow> (case canApprove actor ask facts of Allowed _ _ \<Rightarrow> True | Denied _ _ \<Rightarrow> False)))"

text \<open>The step approves the quote by right: a click within the caller's authority, or the director's approval of a
  quote that waits on one, let through by the money gate.\<close>

definition approves_by_right :: "money_env \<Rightarrow> money_caller \<Rightarrow> quote_op \<Rightarrow> money_db \<Rightarrow> quote_row \<Rightarrow> bool" where
  "approves_by_right env caller op db q \<longleftrightarrow>
     (case op of
        Approve body \<Rightarrow> q_status q \<in> set APPROVABLE \<and> click_authority env caller (click_named env body) db q
      | DirectorApprove gate _ \<Rightarrow> q_status q = ''awaiting_director'' \<and> gate = None \<and> ''director'' \<in> set (c_roles caller) \<and>
          job_refusal db (q_jobId q) = None
      | _ \<Rightarrow> False)"

definition standing_from :: "(quote_row \<Rightarrow> bool) \<Rightarrow> money_db \<Rightarrow> money_db \<Rightarrow> bool" where
  "standing_from by_right db db' \<longleftrightarrow>
     list_all (\<lambda>r. q_status r \<in> set APPROVED_QUOTE \<longrightarrow>
       list_ex (\<lambda>q. same_terms q r \<and> (q_status q \<in> set APPROVED_QUOTE \<or> by_right q)) (m_quotes db)) (m_quotes db')"

lemma standing_from_same: "m_quotes db' = m_quotes db \<Longrightarrow> standing_from by_right db db'"
  by (auto simp: standing_from_def list_all_iff list_ex_iff same_terms_def)

lemma standing_from_update:
  assumes "m_quotes db' = m_quotes (update_quote qid f db)"
    and "\<And>q. q \<in> set (m_quotes db) \<Longrightarrow> q_id q = qid \<Longrightarrow> q_status (f q) \<in> set APPROVED_QUOTE \<Longrightarrow>
      same_terms q (f q) \<and> (q_status q \<in> set APPROVED_QUOTE \<or> by_right q)"
  shows "standing_from by_right db db'"
  using assms by (fastforce simp: standing_from_def list_all_iff list_ex_iff same_terms_def update_quote_def)

lemma find_unique:
  "board_good (approval_view db) \<Longrightarrow> find_quote db qid = Some q \<Longrightarrow> r \<in> set (m_quotes db) \<Longrightarrow> q_id r = qid \<Longrightarrow> r = q"
  by (auto dest!: board_good_pointers find_quote_Some simp: distinct_map inj_on_def)

lemma update_quote_same: "m_quotes db = m_quotes db' \<Longrightarrow> m_quotes (update_quote qid f db) = m_quotes (update_quote qid f db')"
  by (simp add: update_quote_def)

lemma update_quote_twice:
  "(\<And>q. q_id (f q) = q_id q) \<Longrightarrow> m_quotes (update_quote qid g (update_quote qid f db)) = m_quotes (update_quote qid (g \<circ> f) db)"
  by (simp add: update_quote_def)

text \<open>An edit that does not tear the approval of an approved quote down keeps its terms.\<close>

lemma edit_keeps_terms:
  assumes "q_status q \<in> set APPROVED_QUOTE"
    and "\<not> ae_clearApproval (decideApprovalAmountEdit
           \<lparr>ab_amount = q_amount q, ab_contractorId = q_contractorId q, ab_contractorName = q_contractorName q,
            ab_status = Some (q_status q), ab_approvedAt = q_approvedAt q\<rparr>
           amount (ub_ContractorID body) (ub_ContractorName body))"
  shows "same_terms q (edit_quote body amount q)"
  using assms
  by (auto simp: decideApprovalAmountEdit_def Let_def isMaterialChange_def payeeChanged_def same_terms_def edit_quote_def
      field_or_def APPROVED_QUOTE_def APPROVED_STATUSES_def split: option.splits)

lemma edit_standing:
  assumes "edit_work env caller body amount qid db = Committed db'" "board_good (approval_view db)"
  shows "standing_from by_right db db'"
proof -
  obtain q where q: "find_quote db qid = Some q" using assms(1) by (auto simp: edit_work_def split: option.splits)
  let ?clear = "ae_clearApproval (decideApprovalAmountEdit
    \<lparr>ab_amount = q_amount q, ab_contractorId = q_contractorId q, ab_contractorName = q_contractorName q,
     ab_status = Some (q_status q), ab_approvedAt = q_approvedAt q\<rparr> amount (ub_ContractorID body) (ub_ContractorName body))"
  have db': "m_quotes db' = m_quotes (update_quote qid
      (if ?clear then reset_quote env \<circ> edit_quote body amount else edit_quote body amount) db)"
    using assms(1) q
    by (auto simp: edit_work_def Let_def update_quote_def split: option.splits if_splits)
  show ?thesis
    by (rule standing_from_update [OF db']) (use find_unique [OF assms(2) q] edit_keeps_terms in \<open>auto split: if_splits\<close>)
qed

lemma status_standing:
  assumes "m_quotes db' = m_quotes (update_quote qid (\<lambda>q. q\<lparr>q_status := s\<rparr>) db)" "board_good (approval_view db)"
    and "find_quote db qid = Some q" "q_status q \<in> set APPROVED_QUOTE"
  shows "standing_from by_right db db'"
  by (rule standing_from_update [OF assms(1)]) (use find_unique [OF assms(2,3)] assms(4) in \<open>auto simp: same_terms_def\<close>)

interpretation quiet: committed_quietly "\<lambda>db db'. board_good (approval_view db) \<longrightarrow> standing_from (\<lambda>_. False) db db'"
proof unfold_locales
  fix env :: money_env and caller :: money_caller and db db' :: money_db and q and qid :: int and body amount jid
  show "board_good (approval_view db) \<longrightarrow> standing_from (\<lambda>_. False) db db'"
    if "rejectQuoteInTransaction env caller directorId reasonText qid db = Committed db'" for directorId reasonText
    using that
    by (auto simp: rejectQuoteInTransaction_def rejectQuoteWrite_def Let_def
        split: option.splits if_splits sum.splits intro!: standing_from_update [of _ qid "\<lambda>q. q\<lparr>q_status := ''rejected''\<rparr>"])
  show "board_good (approval_view db) \<longrightarrow> standing_from (\<lambda>_. False) db db'"
    if "unapprove_work env caller db q = Committed db'"
    using that
    by (auto simp: unapprove_work_def split: if_splits
        intro!: standing_from_update [of _ "q_id q" "\<lambda>q. stamp_attribution env None
          (q\<lparr>q_status := ''pending'', q_approvedAt := None, q_approvedBy := None\<rparr>)"])
  show "board_good (approval_view db) \<longrightarrow> standing_from (\<lambda>_. False) db db'"
    if "find_quote db qid = Some q" "complete_work env caller db q = Committed db'"
    using that find_quote_Some [of db qid q] status_standing [of db' qid "''completed''" db q]
    by (auto simp: complete_work_def split: if_splits)
  show "board_good (approval_view db) \<longrightarrow> standing_from (\<lambda>_. False) db db'"
    if "find_quote db qid = Some q" "uncomplete_work env caller db q = Committed db'"
    using that find_quote_Some [of db qid q] status_standing [of db' qid "''approved''" db q]
    by (auto simp: uncomplete_work_def split: if_splits)
  show "board_good (approval_view db) \<longrightarrow> standing_from (\<lambda>_. False) db db'" if "delete_work caller db q = Committed db'"
    using that standing_from_same [of db db "\<lambda>_. False"]
    by (auto simp: delete_work_def standing_from_def list_all_iff split: if_splits)
  show "board_good (approval_view db) \<longrightarrow> standing_from (\<lambda>_. False) db db'"
    if "create_work env caller body amount jid db = Committed db'"
    using that standing_from_same [of db db "\<lambda>_. False"]
    by (auto simp: create_work_def standing_from_def list_all_iff new_quote_def Let_def split: option.splits if_splits)
  show "board_good (approval_view db) \<longrightarrow> standing_from (\<lambda>_. False) db db'" if "db' \<in> set (validate_stages env caller jid qid db)"
  proof -
    from that consider "db' = db" | "m_quotes db' = m_quotes (validate_stamp env caller qid db)"
      by (auto simp: validate_stages_def Let_def)
    then show ?thesis
    proof cases
      case 2
      then show ?thesis unfolding validate_stamp_def by (auto intro!: standing_from_update simp: same_terms_def)
    qed (simp add: standing_from_same)
  qed
qed (auto intro: standing_from_same edit_standing)

lemma standing_from_weaken:
  "standing_from by_right db db' \<Longrightarrow> (\<And>q. by_right q \<Longrightarrow> right q) \<Longrightarrow> standing_from right db db'"
  by (fastforce simp: standing_from_def list_all_iff list_ex_iff)

lemma land_quote_quotes:
  "m_quotes (land_quote env caller s person q db) = m_quotes (update_quote (q_id q) (\<lambda>q. stamp_attribution env person
     (q\<lparr>q_status := s, q_approvedAt := Some (me_now env), q_approvedBy := Some (c_name caller)\<rparr>)) db)"
  by (simp add: land_quote_def Let_def)

lemma approvalOutcome_Approved:
  assumes "approvalOutcome identity ask facts isTest = Approved person basis route"
  shows "\<not> ar_directorRequired (decideAuthority ask facts) \<and>
    (case withoutAdminUnlessTest identity isTest of None \<Rightarrow> False | Some actor \<Rightarrow> canApprove actor ask facts = Allowed person basis)"
  using assms by (auto simp: approvalOutcome_def Let_def split: option.splits if_splits approval_decision.splits)

text \<open>What an approve click that commits had: the caller's authority, where the quote ends up approved.\<close>

lemma approve_by_right:
  assumes "approveQuoteInTransaction env caller named qid db = Committed db'"
  shows "\<exists>q s person. find_quote db qid = Some q \<and> db' = land_quote env caller s person q db \<and>
    (s = ''approved'' \<or> s \<notin> set APPROVED_QUOTE) \<and> q_status q \<in> set APPROVABLE \<and>
    (s = ''approved'' \<longrightarrow> click_authority env caller named db q)"
proof -
  obtain q where q: "find_quote db qid = Some q" "approve_state_refusal db caller q = None"
    using assms by (auto elim: approve_committed)
  note fine = approve_state_refusal_None [OF q(2)]
  let ?outcome = "approvalOutcome (caller_identity caller) (quote_authority env db q named)
    (me_facts env (job_building db (q_jobId q))) (holdsAdmin (c_roles caller) \<and> isTestJob db (q_jobId q))"
  have landed: "\<exists>s person. db' = land_quote env caller s person q db \<and> (s = ''approved'' \<or> s \<notin> set APPROVED_QUOTE) \<and>
      (s = ''approved'' \<longrightarrow> (\<exists>p basis route. ?outcome = Approved p basis route))"
    using assms q not_approved
    by (cases ?outcome) (auto simp: approveQuoteInTransaction_def split: option.splits if_splits)
  moreover have "click_authority env caller named db q" if "?outcome = Approved p basis route" for p basis route
    using approvalOutcome_Approved [OF that] fine by (auto simp: click_authority_def Let_def split: option.splits)
  ultimately show ?thesis using q(1) fine(2) by blast
qed

lemma approve_standing:
  assumes "approveQuoteInTransaction env caller (click_named env body) qid db = Committed db'" "board_good (approval_view db)"
  shows "standing_from (approves_by_right env caller (Approve body) db) db db'"
proof -
  obtain q s person where q: "find_quote db qid = Some q" "db' = land_quote env caller s person q db"
      "s = ''approved'' \<or> s \<notin> set APPROVED_QUOTE" "q_status q \<in> set APPROVABLE"
      "s = ''approved'' \<Longrightarrow> click_authority env caller (click_named env body) db q"
    using approve_by_right [OF assms(1)] by blast
  have quotes: "m_quotes db' = m_quotes (update_quote qid (\<lambda>q. stamp_attribution env person
      (q\<lparr>q_status := s, q_approvedAt := Some (me_now env), q_approvedBy := Some (c_name caller)\<rparr>)) db)"
    using q(2) find_quote_Some [OF q(1)] by (simp add: land_quote_quotes)
  show ?thesis
    by (rule standing_from_update [OF quotes])
      (use q find_unique [OF assms(2) q(1)] in \<open>auto simp: same_terms_def approves_by_right_def\<close>)
qed

lemma director_standing:
  assumes "approveDirectorQuote env caller qid db = Committed db'" "board_good (approval_view db)"
    and "''director'' \<in> set (c_roles caller)"
  shows "standing_from (approves_by_right env caller (DirectorApprove None quoteId) db) db db'"
proof -
  obtain q where q: "find_quote db qid = Some q" "q_status q = ''awaiting_director''" "job_refusal db (q_jobId q) = None"
    and quotes: "m_quotes db' = m_quotes (update_quote qid (\<lambda>q. q\<lparr>q_status := ''approved'',
        q_directorApprovedAt := Some (me_now env), q_directorApprovedBy := Some (c_name caller)\<rparr>) db)"
    using assms(1) by (auto simp: approveDirectorQuote_def first_refusal_None split: option.splits if_splits)
  show ?thesis
    by (rule standing_from_update [OF quotes])
      (use q assms(3) find_unique [OF assms(2) q(1)] in \<open>auto simp: same_terms_def approves_by_right_def\<close>)
qed

lemma conclude_standing:
  assumes "\<And>db'. result = Committed db' \<Longrightarrow> standing_from by_right db db'"
  shows "standing_from by_right db (snd (conclude env caller attempted subject readsBack db result))"
  using assms
  by (cases result) (auto simp: conclude_def recordRefusal_def intro!: standing_from_same)

lemma role_refusal_quotes: "m_quotes (recordRoleRefusal env caller attempted code qid db) = m_quotes db"
  by (auto simp: recordRoleRefusal_def recordRefusal_def split: option.splits json.splits js_number.splits)

text \<open>C1: No quote comes to stand approved, and none that stands approved comes to be for another amount, payee or job,
  but by right: by a click within the caller's authority for that very amount (on their own or on a named
  manager's) that needs no director and is not the creator's own, or by a director who passed the money gate on
  a quote that waits on one.\<close>

theorem approvals_by_right:
  assumes "board_good (approval_view db)"
  shows "standing_from (approves_by_right env caller op db) db (snd (quote_step env caller op db))"
proof (cases op)
  case (Approve body)
  have named: "(if me_attributedOn env \<and> pb_declared body = Some (JBool True) then uid else None) = click_named env body"
    if "named_id body = Inr uid" for uid
    using that by (simp add: click_named_def)
  show ?thesis
    unfolding Approve quote_step.simps approveQuote_def
    by (auto simp: named split: sum.splits intro!: conclude_standing intro: standing_from_same role_refusal_quotes approve_standing assms)
next
  case (DirectorApprove gate quoteId)
  show ?thesis
    unfolding DirectorApprove quote_step.simps directorApproveQuote_def
    by (auto split: sum.splits option.splits
        intro!: conclude_standing intro: standing_from_same role_refusal_quotes director_standing assms)
qed (rule standing_from_weaken [of "\<lambda>_. False"]; use quiet.quiet_step_keeps [of op db env caller] assms in force)+

section \<open>The ledger\<close>

definition APPROVING :: "string list" where
  "APPROVING = [''quote.approve'', ''quote.approve_attributed'', ''quote.director_approve'']"

text \<open>The ledger row that approved this quote on these terms.\<close>

definition approving_row :: "quote_row \<Rightarrow> money_ledger \<Rightarrow> bool" where
  "approving_row q row \<longleftrightarrow>
     l_subject row = (''quote'', q_id q) \<and> l_action row \<in> set APPROVING \<and> l_afterStatus row = Some ''approved'' \<and>
     l_amount row = q_amount q \<and> l_contractorId row = q_contractorId q \<and> l_contractorName row = q_contractorName q"

definition ledger_backs :: "money_db \<Rightarrow> bool" where
  "ledger_backs db \<longleftrightarrow>
     list_all (\<lambda>q. q_status q \<in> set APPROVED_QUOTE \<longrightarrow> list_ex (approving_row q) (m_ledger db)) (m_quotes db)"

definition ledger_grows :: "money_db \<Rightarrow> money_db \<Rightarrow> bool" where
  "ledger_grows db db' \<longleftrightarrow> take (length (m_ledger db)) (m_ledger db') = m_ledger db"

lemma approving_row_terms: "same_terms q r \<Longrightarrow> approving_row q = approving_row r"
  by (auto simp: same_terms_def approving_row_def fun_eq_iff)

lemma ledger_backs_kept:
  assumes "ledger_backs db" "standing_from (\<lambda>_. False) db db'" "ledger_grows db db'"
  shows "ledger_backs db'"
proof -
  have more: "set (m_ledger db) \<subseteq> set (m_ledger db')" using assms(3) by (metis ledger_grows_def set_take_subset)
  have "\<exists>row\<in>set (m_ledger db'). approving_row r row"
    if r: "r \<in> set (m_quotes db')" "q_status r \<in> set APPROVED_QUOTE" for r
  proof -
    obtain q where q: "q \<in> set (m_quotes db)" "same_terms q r" "q_status q \<in> set APPROVED_QUOTE"
      using assms(2) r by (auto simp: standing_from_def list_all_iff list_ex_iff)
    then obtain row where "row \<in> set (m_ledger db)" "approving_row q row"
      using assms(1) by (auto simp: ledger_backs_def list_all_iff list_ex_iff)
    then show ?thesis using more approving_row_terms [OF q(2)] by auto
  qed
  then show ?thesis by (simp add: ledger_backs_def list_all_iff list_ex_iff)
qed

lemma ledger_backs_added:
  assumes "ledger_backs db" "standing_from (\<lambda>q. q_id q = qid) db db'" "m_ledger db' = m_ledger db @ [row]"
    and "\<And>q. q \<in> set (m_quotes db) \<Longrightarrow> q_id q = qid \<Longrightarrow> approving_row q row"
  shows "ledger_backs db'"
  using assms approving_row_terms unfolding ledger_backs_def standing_from_def list_all_iff list_ex_iff
  by (metis Un_iff list.set_intros(1) set_append)

definition keeps_ledger :: "money_db \<Rightarrow> money_db \<Rightarrow> bool" where
  "keeps_ledger db db' \<longleftrightarrow> ledger_grows db db' \<and>
     (board_good (approval_view db) \<and> ledger_backs db \<longrightarrow> ledger_backs db')"

text \<open>The transactions that do not approve keep the ledger and, as their standing quotes are the old ones, its backing.\<close>

lemma keeps_ledger_quiet:
  "ledger_grows db db' \<Longrightarrow> (board_good (approval_view db) \<longrightarrow> standing_from (\<lambda>_. False) db db') \<Longrightarrow> keeps_ledger db db'"
  by (auto simp: keeps_ledger_def intro: ledger_backs_kept)

lemma land_quote_ledger:
  "m_ledger (land_quote env caller s person q db) = m_ledger db @
     [(decision_row caller (if person \<noteq> None then ''quote.approve_attributed'' else ''quote.approve'') q (Some (q_status q)) (Some s))
        \<lparr>l_attributedTo := Option.bind person ap_userId, l_rule := Some (approval_rule s person)\<rparr>]"
  by (simp add: land_quote_def Let_def)

lemma approve_keeps_ledger:
  assumes "approveQuoteInTransaction env caller named qid db = Committed db'"
  shows "keeps_ledger db db'"
proof -
  obtain q s person where q: "find_quote db qid = Some q" "db' = land_quote env caller s person q db"
      "s = ''approved'' \<or> s \<notin> set APPROVED_QUOTE"
    using approve_by_right [OF assms] by blast
  have id: "q_id q = qid" using find_quote_Some [OF q(1)] by simp
  have row: "\<exists>row. m_ledger db' = m_ledger db @ [row] \<and> (s = ''approved'' \<longrightarrow> approving_row q row)"
    by (auto simp: q(2) land_quote_ledger approving_row_def decision_row_def APPROVING_def)
  have standing: "standing_from (\<lambda>q. s = ''approved'' \<and> q_id q = qid) db db'"
    by (rule standing_from_update [where qid = qid and f = "\<lambda>q. stamp_attribution env person
          (q\<lparr>q_status := s, q_approvedAt := Some (me_now env), q_approvedBy := Some (c_name caller)\<rparr>)"])
      (use q id in \<open>auto simp: land_quote_quotes same_terms_def\<close>)
  show ?thesis
  proof (cases "s = ''approved''")
    case True
    with row standing show ?thesis
      by (auto simp: keeps_ledger_def ledger_grows_def intro!: ledger_backs_added [of db qid db']
          dest: find_unique [OF _ q(1)])
  next
    case False
    with row standing show ?thesis by (auto simp: ledger_grows_def intro!: keeps_ledger_quiet)
  qed
qed

lemma director_keeps_ledger:
  assumes "approveDirectorQuote env caller qid db = Committed db'"
  shows "keeps_ledger db db'"
proof -
  obtain q where q: "find_quote db qid = Some q"
    and quotes: "m_quotes db' = m_quotes (update_quote qid (\<lambda>q. q\<lparr>q_status := ''approved'',
        q_directorApprovedAt := Some (me_now env), q_directorApprovedBy := Some (c_name caller)\<rparr>) db)"
    and ledger: "m_ledger db' = m_ledger db @
        [decision_row caller ''quote.director_approve'' q (Some ''awaiting_director'') (Some ''approved'')]"
    using assms by (auto simp: approveDirectorQuote_def first_refusal_None split: option.splits if_splits)
  have standing: "standing_from (\<lambda>q. q_id q = qid) db db'"
    by (rule standing_from_update [OF quotes]) (auto simp: same_terms_def)
  have row: "approving_row q (decision_row caller ''quote.director_approve'' q (Some ''awaiting_director'') (Some ''approved''))"
    by (simp add: approving_row_def decision_row_def APPROVING_def)
  show ?thesis
    using standing ledger row
    by (auto simp: keeps_ledger_def ledger_grows_def intro!: ledger_backs_added [of db qid db'] dest: find_unique [OF _ q])
qed

interpretation ledger: committed keeps_ledger
proof unfold_locales
  fix env :: money_env and caller :: money_caller and db db' :: money_db and q and qid :: int and body amount jid
  show "keeps_ledger db db'"
    if "rejectQuoteInTransaction env caller directorId reasonText qid db = Committed db'" for directorId reasonText
    by (rule keeps_ledger_quiet [OF _ quiet.reject [OF that]])
      (use that in \<open>auto simp: rejectQuoteInTransaction_def rejectQuoteWrite_def ledger_grows_def Let_def
        split: option.splits if_splits sum.splits\<close>)
  show "keeps_ledger db db'" if a: "find_quote db qid = Some q" and b: "unapprove_work env caller db q = Committed db'"
    by (rule keeps_ledger_quiet [OF _ quiet.unapprove [OF a b]])
      (use b in \<open>auto simp: unapprove_work_def ledger_grows_def split: if_splits\<close>)
  show "keeps_ledger db db'" if a: "find_quote db qid = Some q" and b: "complete_work env caller db q = Committed db'"
    by (rule keeps_ledger_quiet [OF _ quiet.complete [OF a b]])
      (use b in \<open>auto simp: complete_work_def ledger_grows_def split: if_splits\<close>)
  show "keeps_ledger db db'" if a: "find_quote db qid = Some q" and b: "uncomplete_work env caller db q = Committed db'"
    by (rule keeps_ledger_quiet [OF _ quiet.uncomplete [OF a b]])
      (use b in \<open>auto simp: uncomplete_work_def ledger_grows_def split: if_splits\<close>)
  show "keeps_ledger db db'" if a: "find_quote db qid = Some q" and b: "delete_work caller db q = Committed db'"
    by (rule keeps_ledger_quiet [OF _ quiet.delete [OF a b]])
      (use b in \<open>auto simp: delete_work_def ledger_grows_def split: if_splits\<close>)
  show "keeps_ledger db db'" if "create_work env caller body amount jid db = Committed db'"
    by (rule keeps_ledger_quiet [OF _ quiet.create [OF that]])
      (use that in \<open>auto simp: create_work_def ledger_grows_def Let_def split: option.splits if_splits\<close>)
  show "keeps_ledger db db'" if "edit_work env caller body amount qid db = Committed db'"
    by (rule keeps_ledger_quiet [OF _ quiet.edit [OF that]])
      (use that in \<open>auto simp: edit_work_def ledger_grows_def Let_def split: option.splits if_splits\<close>)
  show "keeps_ledger db db'" if "db' \<in> set (validate_stages env caller jid qid db)"
    by (rule keeps_ledger_quiet [OF _ quiet.validated [OF that]])
      (use that in \<open>auto simp: validate_stages_def validate_stamp_def Let_def ledger_grows_def\<close>)
  show "keeps_ledger db db" for db
    by (rule keeps_ledger_quiet [OF _ quiet.same]) (simp add: ledger_grows_def)
  show "keeps_ledger db (add_ledger (refusal_row caller action attempted code subject) db)" for db action attempted code subject
    by (rule keeps_ledger_quiet [OF _ quiet.refusal]) (simp add: ledger_grows_def)
qed (auto intro: approve_keeps_ledger director_keeps_ledger)

lemma ledger_run:
  "board_good (approval_view db) \<Longrightarrow> ledger_backs db \<Longrightarrow>
     ledger_backs (quote_run steps db) \<and> ledger_grows db (quote_run steps db)"
proof (induction steps db rule: quote_run.induct)
  case (1 db)
  then show ?case by (simp add: ledger_grows_def)
next
  case (2 env caller op steps db)
  have step: "keeps_ledger db (snd (quote_step env caller op db))" by (rule ledger.quote_step_keeps)
  have good: "board_good (approval_view (snd (quote_step env caller op db)))"
    using board.quote_step_keeps [of db env caller op] board_step_good 2 by auto
  from step 2 good have "ledger_backs (quote_run steps (snd (quote_step env caller op db))) \<and>
      ledger_grows (snd (quote_step env caller op db)) (quote_run steps (snd (quote_step env caller op db)))"
    by (simp add: keeps_ledger_def)
  moreover have "ledger_grows db (snd (quote_step env caller op db))" using step by (simp add: keeps_ledger_def)
  ultimately show ?case
    by (auto simp: ledger_grows_def) (metis append_take_drop_id append_assoc append_eq_conv_conj)
qed

text \<open>C11: Whatever the history, every quote that stands approved is backed by a ledger row that approved it for the
  amount and the payee it has now, and the rows the ledger had are still its first rows.\<close>

theorem standing_approvals_in_ledger:
  assumes "board_good (approval_view db)" "ledger_backs db"
  shows "ledger_backs (quote_run steps db) \<and> ledger_grows db (quote_run steps db)"
  by (rule ledger_run [OF assms])

section \<open>Concrete inputs\<close>

definition sample_money_env :: money_env where
  "sample_money_env =
     \<lparr>me_now = 1000, me_facts = (\<lambda>_. sample_facts), me_users = [], me_attributedOn = False, me_attributionColumns = True,
      me_attachment = (\<lambda>_ _. False), me_number = (\<lambda>_ _ _. ''261013-QT-5-ACM-1''), me_fails = False, me_replyFails = False, me_throwsAt = None, me_refusalDropped = False\<rparr>"

definition sample_caller :: "string \<Rightarrow> string \<Rightarrow> money_caller" where
  "sample_caller name role = \<lparr>c_name = name, c_email = name, c_roles = [role], c_userId = None\<rparr>"

definition sample_quote_row :: "int \<Rightarrow> rat \<Rightarrow> string \<Rightarrow> quote_row" where
  "sample_quote_row n amount status =
     \<lparr>q_id = n, q_jobId = 5, q_number = None, q_seq = n, q_contractorId = Some 9, q_contractorName = Some ''ACME'',
      q_amount = Some amount, q_currency = ''AUD'', q_notes = None, q_pdf = None, q_createdBy = Some ''Fay'', q_status = status,
      q_approvedAt = None, q_approvedBy = None, q_directorApprovedAt = None, q_directorApprovedBy = None,
      q_emailAttemptedAt = None, q_emailSentAt = None, q_emailSentTo = None, q_emailSentBy = None, q_attributedTo = None,
      q_declaredAt = None, q_answeredAt = None, q_validatedAt = None, q_validatedBy = None\<rparr>"

definition sample_job :: "job_status \<Rightarrow> money_job" where
  "sample_job status =
     \<lparr>j_id = 5, j_row = \<lparr>job_current = \<lparr>jobStatus = status, awaitingRole = FACILITIES\<rparr>, job_preBlock = None\<rparr>,
      j_kind = None, j_isInternal = False, j_isArchived = False, j_isContract = False, j_isTest = False, j_buildingId = Some 4,
      j_approvedQuoteId = None, j_approvedBy = None, j_approvedAt = None, j_modified = 0\<rparr>"

definition sample_money_db :: money_db where
  "sample_money_db =
     \<lparr>m_quotes = [sample_quote_row 1 1500 ''pending'', sample_quote_row 2 1800 ''pending''],
      m_jobs = [sample_job AWAITING_APPROVAL], m_events = [], m_ledger = [], m_paid = [], m_nextQuote = 3\<rparr>"

definition sample_approve :: "rat \<Rightarrow> quote_op" where
  "sample_approve n = Approve \<lparr>pb_QuoteID = Some (JNum (Num n)), pb_attributedToUserId = None, pb_declared = None\<rparr>"

text \<open>Of two quotes the first is approved by a manager.\<close>

definition sample_steps :: "(money_env \<times> money_caller \<times> quote_op) list" where
  "sample_steps = [(sample_money_env, sample_caller ''Cleo'' ''facilities_manager'', sample_approve 1)]"

definition sample_approved_db :: money_db where
  "sample_approved_db =
     \<lparr>m_quotes = [(sample_quote_row 1 1500 ''approved'')\<lparr>q_approvedAt := Some 1000, q_approvedBy := Some ''Cleo''\<rparr>,
        sample_quote_row 2 1800 ''pending''],
      m_jobs = [(sample_job WORK)\<lparr>j_approvedQuoteId := Some 1, j_approvedBy := Some ''Cleo'', j_approvedAt := Some 1000,
        j_modified := 1000\<rparr>],
      m_events = [\<lparr>e_jobId = 5, e_by = ''Cleo'', e_type = ''quote_approved'', e_quoteId = Some 1\<rparr>,
        \<lparr>e_jobId = 5, e_by = ''Cleo'', e_type = ''status_change'', e_quoteId = Some 1\<rparr>],
      m_ledger = [\<lparr>l_action = ''quote.approve'', l_actor = ''Cleo'', l_role = ''facilities_manager'', l_attempted = None,
        l_rule = Some ''own_authority'', l_subject = (''quote'', 1), l_beforeStatus = Some ''pending'',
        l_afterStatus = Some ''approved'', l_amount = Some 1500, l_approvedAmount = None, l_contractorId = Some 9,
        l_contractorName = Some ''ACME'', l_attributedTo = None, l_reason = None\<rparr>],
      m_paid = [], m_nextQuote = 3\<rparr>"

lemma sample_run: "quote_run sample_steps sample_money_db = sample_approved_db"
  by code_simp

lemma sample_board: "board_good (approval_view sample_money_db)"
  by (simp add: board_good_def approval_view_def sample_money_db_def sample_quote_row_def sample_job_def pointed_def APPROVED_QUOTE_def)

theorem quotes_refine_board_witness:
  "board_step (approval_view sample_money_db)
     (approval_view (snd (quote_step sample_money_env (sample_caller ''Cleo'' ''facilities_manager'') (sample_approve 1) sample_money_db)))"
  by (rule quotes_refine_board [OF sample_board])

theorem one_approved_quote_witness:
  "approved_on (quote_run sample_steps sample_money_db) 5 = {1}"
  using one_approved_quote [OF sample_board, of sample_steps]
  by (simp add: sample_run list_all_iff) (simp add: sample_approved_db_def sample_job_def)

theorem approvals_by_right_witness:
  "standing_from (approves_by_right sample_money_env (sample_caller ''Fay'' ''facilities'') (sample_approve 1) sample_money_db)
     sample_money_db (snd (quote_step sample_money_env (sample_caller ''Fay'' ''facilities'') (sample_approve 1) sample_money_db))"
  by (rule approvals_by_right [OF sample_board])

theorem standing_approvals_in_ledger_witness:
  "ledger_backs sample_approved_db \<and> map q_status (m_quotes sample_approved_db) = [''approved'', ''pending'']"
proof -
  have "ledger_backs sample_money_db"
    by (simp add: ledger_backs_def sample_money_db_def sample_quote_row_def APPROVED_QUOTE_def)
  then have "ledger_backs (quote_run sample_steps sample_money_db)"
    using standing_approvals_in_ledger [OF sample_board] by blast
  then show ?thesis by (simp add: sample_run) (simp add: sample_approved_db_def sample_quote_row_def)
qed

text \<open>A director's stamp outlives the approval it belongs to: withdrawing an approval leaves it on the quote, an edit of
  a quote that is not approved leaves it too, and the row of the deletion then names as approved an amount that
  nobody approved.\<close>

definition director_db :: money_db where
  "director_db = sample_money_db\<lparr>m_quotes := [sample_quote_row 1 20000 ''awaiting_director'']\<rparr>"

definition sample_amount :: "rat \<Rightarrow> quote_op" where
  "sample_amount amount = Upsert
     \<lparr>ub_QuoteID = Some (JNum (Num 1)), ub_JobID = None, ub_ContractorID = None, ub_ContractorName = None,
      ub_Amount = Some (JNum (Num amount)), ub_Currency = None, ub_Notes = None, ub_QuotePDFBlobName = None\<rparr>"

definition withdrawn_steps :: "(money_env \<times> money_caller \<times> quote_op) list" where
  "withdrawn_steps =
     [(sample_money_env, sample_caller ''Dee'' ''director'', DirectorApprove None (Some (JNum (Num 1)))),
      (sample_money_env, sample_caller ''Abe'' ''accounts_manager'', Unapprove (Some (JNum (Num 1)))),
      (sample_money_env, sample_caller ''Fay'' ''facilities'', sample_amount 30000),
      (sample_money_env, sample_caller ''Cleo'' ''facilities_manager'', Delete (Some (JNum (Num 1))))]"

lemma withdrawn_stamp_reported:
  "map (\<lambda>row. (l_action row, l_afterStatus row, l_approvedAmount row)) (m_ledger (quote_run withdrawn_steps director_db)) =
     [(''quote.director_approve'', Some ''approved'', None), (''quote.unapprove'', Some ''pending'', Some 20000),
      (''quote.delete'', None, Some 30000)]"
  by code_simp

end
