(* ===== verification/Iso_Dates.thy ===== *)
theory Iso_Dates
  imports Calendar
begin

text \<open>
  The calendar dates of lease arithmetic, \<open>src/darwinDate.ts\<close>: ISO dates are strings, compared as text,
  and \<open>None\<close> stands for the \<open>Error\<close> that \<open>parseIso\<close> throws on a text that is not a date. The
  clock of \<open>todayInDarwin\<close> is left to the callers, which pass the day.
\<close>

section \<open>Printing numbers\<close>

text \<open>\<open>String(n)\<close> and \<open>padStart(width, "0")\<close>.\<close>

fun nat_text :: "nat \<Rightarrow> string" where
  "nat_text n = (if n < 10 then [] else nat_text (n div 10)) @ [char_of (48 + n mod 10)]"

declare nat_text.simps [simp del]

definition int_text :: "int \<Rightarrow> string" where
  "int_text n = (if n < 0 then CHR ''-'' # nat_text (nat (- n)) else nat_text (nat n))"

definition pad_start :: "nat \<Rightarrow> string \<Rightarrow> string" where
  "pad_start width s = replicate (width - length s) (CHR ''0'') @ s"

section \<open>Dates\<close>

definition daysInMonth :: "int \<Rightarrow> int \<Rightarrow> int" where
  "daysInMonth year month = snd (snd (civil_from_day (utc_day year (month + 1) 0)))"

definition formatIso :: "int \<Rightarrow> int \<Rightarrow> int \<Rightarrow> string" where
  "formatIso year month day =
     pad_start 4 (int_text year) @ ''-'' @ pad_start 2 (int_text month) @ ''-'' @ pad_start 2 (int_text day)"

definition parseIso :: "string \<Rightarrow> (int \<times> int \<times> int) option" where
  "parseIso date = parse_date_key (take 10 date)"

text \<open>The functions take a date apart by its parts, which a text that is not a date does not have.\<close>

fun real_parts :: "(int \<times> int \<times> int) option \<Rightarrow> bool" where
  "real_parts None = False"
| "real_parts (Some (year, month, day)) = (month \<ge> 1 \<and> month \<le> 12 \<and> day \<ge> 1 \<and> day \<le> daysInMonth year month)"

definition isIsoDate :: "string \<Rightarrow> bool" where
  "isIsoDate value = real_parts (parse_date_key value)"

fun civil_text :: "int \<times> int \<times> int \<Rightarrow> string" where
  "civil_text (y, m, d) = formatIso y m d"

fun add_days :: "int \<Rightarrow> (int \<times> int \<times> int) option \<Rightarrow> string option" where
  "add_days days None = None"
| "add_days days (Some (year, month, day)) = Some (civil_text (civil_from_day (utc_day year month day + days)))"

definition addDaysIso :: "string \<Rightarrow> int \<Rightarrow> string option" where
  "addDaysIso date days = add_days days (parseIso date)"

text \<open>Whole months from the date itself, a day past the end of the target month falling to its last.\<close>

definition shift_month :: "int \<Rightarrow> int \<Rightarrow> int \<Rightarrow> int \<times> int" where
  "shift_month year month months = (let total = year * 12 + (month - 1) + months; y = total div 12 in (y, total - y * 12 + 1))"

fun clamped_text :: "int \<Rightarrow> int \<times> int \<Rightarrow> string" where
  "clamped_text day (y, m) = formatIso y m (min day (daysInMonth y m))"

fun add_months :: "int \<Rightarrow> (int \<times> int \<times> int) option \<Rightarrow> string option" where
  "add_months months None = None"
| "add_months months (Some (year, month, day)) = Some (clamped_text day (shift_month year month months))"

definition addMonthsClamped :: "string \<Rightarrow> int \<Rightarrow> string option" where
  "addMonthsClamped date months = add_months months (parseIso date)"

fun days_between :: "(int \<times> int \<times> int) option \<Rightarrow> (int \<times> int \<times> int) option \<Rightarrow> int option" where
  "days_between (Some (y, m, d)) (Some (y', m', d')) = Some (utc_day y' m' d' - utc_day y m d)"
| "days_between _ _ = None"

definition daysBetweenIso :: "string \<Rightarrow> string \<Rightarrow> int option" where
  "daysBetweenIso fromIso toIso = days_between (parseIso fromIso) (parseIso toIso)"

section \<open>Reading what was written\<close>

lemma length_pad_start: "length s \<le> k \<Longrightarrow> length (pad_start k s) = k"
  by (simp add: pad_start_def)

lemma nat_text_pad: "n < 10 ^ k \<Longrightarrow> 0 < k \<Longrightarrow> pad_start k (nat_text n) = dec_digits k (int n) \<and> length (nat_text n) \<le> k"
proof (induction n arbitrary: k rule: nat_text.induct)
  case (1 n)
  obtain j where k: "k = Suc j" using 1(3) by (cases k) auto
  have zero: "char_of (48 :: nat) = CHR ''0''" by code_simp
  have last: "char_of (48 + nat (int n mod 10)) = char_of (48 + n mod 10)"
    by (simp add: nat_mod_distrib)
  have div: "int n div 10 = int (n div 10)" by (simp add: zdiv_int)
  show ?case
  proof (cases "n < 10")
    case True
    then have z: "n div 10 = 0" by simp
    have zeros: "dec_digits j 0 = replicate j (CHR ''0'')" for j
      by (induction j) (simp_all add: replicate_append_same zero)
    show ?thesis using True by (subst (1 2) nat_text.simps) (simp add: k pad_start_def last div z zeros)
  next
    case False
    then have j: "0 < j" using 1(2) k by (cases j) auto
    have b: "n div 10 < 10 ^ j" using 1(2) k by (simp add: div_less_iff_less_mult)
    from 1(1) [OF False b j] have IH: "pad_start j (nat_text (n div 10)) = dec_digits j (int (n div 10))"
      "length (nat_text (n div 10)) \<le> j" by auto
    with False show ?thesis
      by (subst (1 2) nat_text.simps) (simp add: k pad_start_def last div)
  qed
qed

lemma int_text_pad: "0 \<le> n \<Longrightarrow> n < 10 ^ k \<Longrightarrow> 0 < k \<Longrightarrow> pad_start k (int_text n) = dec_digits k n"
  using nat_text_pad [of "nat n" k] by (simp add: int_text_def nat_less_iff)

lemma formatIso_digits:
  assumes "0 \<le> y" "y \<le> 9999" "0 \<le> m" "m < 100" "0 \<le> d" "d < 100"
  shows "formatIso y m d = dec_digits 4 y @ ''-'' @ dec_digits 2 m @ ''-'' @ dec_digits 2 d"
  using assms by (simp add: formatIso_def int_text_pad)

lemma daysInMonth_valid:
  assumes "1 \<le> m" "m \<le> 12" "y \<notin> {0..99}"
  shows "daysInMonth y m = days_in_month (leap_year y) m"
proof -
  have v: "valid_civil y m (days_in_month (leap_year y) m)"
    using assms by (cases m rule: month_cases) (auto simp: valid_civil_def days_in_month_def month_start_def)
  have "utc_day y (m + 1) 0 = utc_day y m (days_in_month (leap_year y) m)"
  proof (cases "m = 12")
    case True
    have "utc_day y 13 0 = day_from_year (y + 1) - 1"
      using assms(3) by (auto simp: utc_day_def Let_def month_start_def)
    moreover have "utc_day y 12 (days_in_month (leap_year y) 12) = day_from_year y + days_in_year y - 1"
      using assms(3) by (auto simp: utc_day_def Let_def month_start_def days_in_month_def days_in_year_def)
    ultimately show ?thesis using True day_from_year_Suc [of y] by simp
  next
    case False
    then have "(m + 1 - 1) div 12 = 0" "(m + 1 - 1) mod 12 = m" "(m - 1) div 12 = 0" "(m - 1) mod 12 = m - 1"
      using assms(1,2) by simp_all
    with assms(3) show ?thesis by (auto simp: utc_day_def Let_def days_in_month_def)
  qed
  then show ?thesis using civil_utc_day [OF v assms(3)] by (simp add: daysInMonth_def)
qed

text \<open>In the years 100 to 9999 the text of a day is the day: reading, writing and counting agree.\<close>

lemma formatIso_day:
  assumes "civil_from_day D = (y, m, d)" "day_range D"
  shows "formatIso y m d = iso_day D"
  using civil_small [OF assms(1)] day_range_civil [OF assms(1)] assms
  by (simp add: iso_day_eq formatIso_digits)

lemma length_iso_day: "day_range D \<Longrightarrow> length (iso_day D) = 10"
  by (cases "civil_from_day D") (simp add: iso_day_eq)

lemma parseIso_day: "day_range D \<Longrightarrow> parseIso (iso_day D) = Some (civil_from_day D)"
  by (simp add: parseIso_def length_iso_day parse_iso_day)

lemma utc_day_of_day:
  assumes "civil_from_day D = (y, m, d)" "day_range D"
  shows "utc_day y m d = D"
  using utc_day_civil [OF assms(1)] day_range_civil [OF assms(1)] assms(2) by simp

lemma isIsoDate_day: "day_range D \<Longrightarrow> isIsoDate (iso_day D)"
proof -
  assume D: "day_range D"
  obtain y m d where c: "civil_from_day D = (y, m, d)" by (cases "civil_from_day D")
  have "y \<notin> {0..99}" using day_range_civil [OF c] D by simp
  moreover have "valid_civil y m d" using civil_from_day_valid [OF c] by blast
  moreover have "parse_date_key (iso_day D) = Some (y, m, d)" using parse_iso_day [OF D] c by simp
  ultimately show ?thesis by (simp add: isIsoDate_def daysInMonth_valid valid_civil_def)
qed

lemma addDaysIso_day: "day_range D \<Longrightarrow> day_range (D + n) \<Longrightarrow> addDaysIso (iso_day D) n = Some (iso_day (D + n))"
  by (cases "civil_from_day D"; cases "civil_from_day (D + n)")
     (simp add: addDaysIso_def parseIso_day utc_day_of_day formatIso_day)

lemma daysBetweenIso_day: "day_range D \<Longrightarrow> day_range E \<Longrightarrow> daysBetweenIso (iso_day D) (iso_day E) = Some (E - D)"
  by (cases "civil_from_day D"; cases "civil_from_day E") (simp add: daysBetweenIso_def parseIso_day utc_day_of_day)

lemma js_le_iso_day: "day_range D \<Longrightarrow> day_range E \<Longrightarrow> js_le (iso_day D) (iso_day E) \<longleftrightarrow> D \<le> E"
  by (simp add: js_le_def iso_day_less not_less)

end
