(* ===== verification/Rent_Schedule.thy ===== *)
theory Rent_Schedule
  imports Iso_Dates Escalation_Types
begin

text \<open>
  The rent schedule of a tenancy, \<open>src/scheduledRateStepLogic.ts\<close>: the rows (steps) a schedule is made
  of, what the validator lets through, the engine that computes the rent of every row, the row in force
  on a day, and the edits of a schedule. Amounts are exact rationals rounded to the cent where the code
  rounds; an absent or \<open>undefined\<close> field is \<open>None\<close>. Dates are ISO texts, on which \<open>localeCompare\<close> is
  the order of the texts.
\<close>

section \<open>The rows\<close>

datatype method_kind = MCpi | MCommencement | MFixed | MMarket | MOther

datatype step_resolution = Applied | Waived

record ratchet_exemption =
  rx_at :: string
  rx_byName :: string
  rx_reason :: string

record rate_step =
  rs_id :: string
  rs_ahacBase :: "rat option"
  rs_baseRent :: "rat option"
  rs_sqm :: "rat option"
  rs_from :: string
  rs_to :: "string option"
  rs_method :: "method_kind option"
  rs_cpiValue :: "rat option"
  rs_cpiValuePrev :: "rat option"
  rs_ratePercent :: rat
  rs_note :: "string option"
  rs_flagComment :: "string option"
  rs_reviewId :: "string option"
  rs_resolution :: "step_resolution option"
  rs_exempt :: "ratchet_exemption option"

definition r2 :: "rat \<Rightarrow> rat" where
  "r2 n = of_int (js_round (n * 100)) / 100"

definition r4 :: "rat \<Rightarrow> rat" where
  "r4 n = of_int (js_round (n * 10000)) / 10000"

datatype pending_reason = AwaitingReview | CpiIndexMissing | EarlierReviewPending | RateNotSet

record schedule_terms =
  st_cpiCap :: "rat option"
  st_cpiFloor :: "rat option"
  st_ratchet :: bool
  st_liveFrom :: "string option"

record schedule_row =
  sr_ahacAnnual :: "rat option"
  sr_annual :: rat
  sr_appliedPercent :: "rat option"
  sr_areaMissing :: bool
  sr_capApplied :: bool
  sr_cpiBaseline :: "rat option"
  sr_factor :: "rat option"
  sr_floorApplied :: bool
  sr_monthly :: rat
  sr_pending :: bool
  sr_pendingReason :: "pending_reason option"
  sr_ratchetApplied :: bool
  sr_rawPercent :: "rat option"
  sr_sqm :: rat
  sr_sqmRate :: rat
  sr_step :: rate_step

datatype current_rent = CurBase | CurNotStarted string | CurPending | CurRow schedule_row

section \<open>The engine\<close>

text \<open>\<open>a.effectiveFrom.localeCompare(b.effectiveFrom)\<close>, and the stable sort by it.\<close>

definition by_date :: "rate_step \<Rightarrow> rate_step \<Rightarrow> rat" where
  "by_date a b = (if js_less (rs_from a) (rs_from b) then -1 else if rs_from a = rs_from b then 0 else 1)"

definition sortSteps :: "rate_step list \<Rightarrow> rate_step list" where
  "sortSteps steps = sort_by by_date steps"

definition ownValueMissing :: "rate_step \<Rightarrow> pending_reason option" where
  "ownValueMissing step =
     (if rs_method step = Some MCpi \<and> rs_cpiValue step = None then Some CpiIndexMissing
      else if (rs_method step = Some MMarket \<or> rs_method step = Some MOther) \<and> rs_ratePercent step = 0 then Some RateNotSet
      else None)"

definition stepPendingReason :: "rate_step \<Rightarrow> string option \<Rightarrow> pending_reason option" where
  "stepPendingReason step workflowLiveFrom =
     (if rs_resolution step \<noteq> None then None
      else (case workflowLiveFrom of
              Some live \<Rightarrow>
                if rs_method step \<noteq> Some MCommencement \<and> js_le live (rs_from step) then Some AwaitingReview
                else ownValueMissing step
            | None \<Rightarrow> ownValueMissing step))"

definition reviewFactor :: "rate_step \<Rightarrow> rat option \<Rightarrow> rat" where
  "reviewFactor step cpiBaseline =
     (case (rs_method step, rs_cpiValue step, cpiBaseline) of
        (Some MCpi, Some v, Some b) \<Rightarrow> v / b
      | _ \<Rightarrow> 1 + rs_ratePercent step / 100)"

record review_outcome =
  ro_capApplied :: bool
  ro_factor :: rat
  ro_floorApplied :: bool
  ro_ratchetApplied :: bool
  ro_rawFactor :: "rat option"

text \<open>The index ratio held between the floor and the cap on CPI rows, then the ratchet.\<close>

definition floor_factor :: "rat option \<Rightarrow> rat \<Rightarrow> rat \<times> bool" where
  "floor_factor percent factor =
     (case percent of
        Some f \<Rightarrow> if factor < 1 + f / 100 then (1 + f / 100, True) else (factor, False)
      | None \<Rightarrow> (factor, False))"

definition cap_factor :: "rat option \<Rightarrow> rat \<Rightarrow> rat \<times> bool" where
  "cap_factor percent factor =
     (case percent of
        Some c \<Rightarrow> if factor > 1 + c / 100 then (1 + c / 100, True) else (factor, False)
      | None \<Rightarrow> (factor, False))"

definition reviewOutcome :: "rate_step \<Rightarrow> rat option \<Rightarrow> schedule_terms \<Rightarrow> review_outcome" where
  "reviewOutcome step cpiBaseline terms =
     (if rs_resolution step = Some Waived then
        \<lparr>ro_capApplied = False, ro_factor = 1, ro_floorApplied = False, ro_ratchetApplied = False,
         ro_rawFactor = (if ownValueMissing step = None then Some (reviewFactor step cpiBaseline) else None)\<rparr>
      else
        (let rawFactor = reviewFactor step cpiBaseline;
             isCpi = (rs_method step = Some MCpi);
             (f1, floored) = (if isCpi then floor_factor (st_cpiFloor terms) rawFactor else (rawFactor, False));
             (f2, capped) = (if isCpi then cap_factor (st_cpiCap terms) f1 else (f1, False));
             held = (st_ratchet terms \<and> f2 < 1 \<and> rs_exempt step = None)
         in \<lparr>ro_capApplied = capped, ro_factor = (if held then 1 else f2), ro_floorApplied = floored,
             ro_ratchetApplied = held, ro_rawFactor = Some rawFactor\<rparr>))"

definition percentOf :: "rat option \<Rightarrow> rat option" where
  "percentOf factor = map_option (\<lambda>f. r4 ((f - 1) * 100)) factor"

text \<open>The running state of the loop of \<open>computeScheduleRows\<close>.\<close>

record engine_state =
  en_annual :: rat
  en_area :: "rat option"
  en_rate :: "rat option"
  en_ahac :: "rat option"
  en_ahacRate :: "rat option"
  en_prevCpi :: "rat option"
  en_cascade :: bool

definition engine_start :: "rat \<Rightarrow> engine_state" where
  "engine_start fallbackAnnual =
     \<lparr>en_annual = fallbackAnnual, en_area = None, en_rate = None, en_ahac = None, en_ahacRate = None,
      en_prevCpi = None, en_cascade = False\<rparr>"

definition emit :: "engine_state \<Rightarrow> rate_step \<Rightarrow> pending_reason option \<Rightarrow> rat \<Rightarrow> rat option \<Rightarrow> review_outcome option \<Rightarrow> schedule_row" where
  "emit st step pendingReason shownArea cpiBaseline outcome =
     (let pending = (pendingReason \<noteq> None); settled = (if pending then None else outcome)
      in \<lparr>sr_ahacAnnual = (if pending then None else map_option r2 (en_ahac st)),
          sr_annual = (if pending then 0 else r2 (en_annual st)),
          sr_appliedPercent = (case settled of Some o' \<Rightarrow> percentOf (Some (ro_factor o')) | None \<Rightarrow> None),
          sr_areaMissing = (shownArea \<le> 0),
          sr_capApplied = (case settled of Some o' \<Rightarrow> ro_capApplied o' | None \<Rightarrow> False),
          sr_cpiBaseline = cpiBaseline,
          sr_factor = map_option ro_factor settled,
          sr_floorApplied = (case settled of Some o' \<Rightarrow> ro_floorApplied o' | None \<Rightarrow> False),
          sr_monthly = (if pending then 0 else r2 (en_annual st / 12)),
          sr_pending = pending,
          sr_pendingReason = pendingReason,
          sr_ratchetApplied = (case settled of Some o' \<Rightarrow> ro_ratchetApplied o' | None \<Rightarrow> False),
          sr_rawPercent = (case settled of Some o' \<Rightarrow> percentOf (ro_rawFactor o') | None \<Rightarrow> None),
          sr_sqm = shownArea,
          sr_sqmRate = (if pending \<or> shownArea \<le> 0 then 0 else r2 (en_annual st / shownArea)),
          sr_step = step\<rparr>)"

definition explicit_area :: "rate_step \<Rightarrow> rat option" where
  "explicit_area step = (case rs_sqm step of Some a \<Rightarrow> if a > 0 then Some a else None | None \<Rightarrow> None)"

text \<open>\<open>a ?? b\<close>.\<close>

definition or_default :: "'a option \<Rightarrow> 'a option \<Rightarrow> 'a option" where
  "or_default a b = (case a of Some x \<Rightarrow> Some x | None \<Rightarrow> b)"

definition divided :: "rat option \<Rightarrow> rat option \<Rightarrow> rat option" where
  "divided a b = (case (a, b) of (Some x, Some y) \<Rightarrow> Some (x / y) | _ \<Rightarrow> None)"

definition commence_row :: "engine_state \<Rightarrow> rate_step \<Rightarrow> engine_state" where
  "commence_row st step =
     (let annual = (case rs_baseRent step of Some b \<Rightarrow> b | None \<Rightarrow> en_annual st);
          ahac = or_default (rs_ahacBase step) (en_ahac st);
          area = or_default (explicit_area step) (en_area st)
      in \<lparr>en_annual = annual, en_area = area, en_rate = divided (Some annual) area, en_ahac = ahac,
          en_ahacRate = divided ahac area, en_prevCpi = or_default (rs_cpiValue step) (en_prevCpi st), en_cascade = False\<rparr>)"

definition review_row :: "engine_state \<Rightarrow> rate_step \<Rightarrow> rat \<Rightarrow> engine_state" where
  "review_row st step factor =
     (let prevCpi = or_default (rs_cpiValue step) (en_prevCpi st)
      in (case (en_area st, en_rate st) of
            (Some area0, Some rate0) \<Rightarrow>
              (let rate = rate0 * factor;
                   area = (case explicit_area step of Some a \<Rightarrow> a | None \<Rightarrow> area0);
                   ahacRate = map_option (\<lambda>r. r * factor) (en_ahacRate st)
               in st\<lparr>en_annual := rate * area, en_area := Some area, en_rate := Some rate,
                     en_ahac := (case ahacRate of Some r \<Rightarrow> Some (r * area) | None \<Rightarrow> en_ahac st),
                     en_ahacRate := ahacRate, en_prevCpi := prevCpi\<rparr>)
          | _ \<Rightarrow>
              (let annual = en_annual st * factor; ahac = map_option (\<lambda>a. a * factor) (en_ahac st)
               in (case explicit_area step of
                     Some a \<Rightarrow>
                       st\<lparr>en_annual := annual, en_ahac := ahac, en_area := Some a, en_rate := Some (annual / a),
                         en_ahacRate := divided ahac (Some a), en_prevCpi := prevCpi\<rparr>
                   | None \<Rightarrow> st\<lparr>en_annual := annual, en_ahac := ahac, en_prevCpi := prevCpi\<rparr>))))"

definition shown_area :: "rat option \<Rightarrow> rat \<Rightarrow> rat" where
  "shown_area area fallbackArea = (case area of Some a \<Rightarrow> a | None \<Rightarrow> fallbackArea)"

definition schedule_step :: "schedule_terms \<Rightarrow> rat \<Rightarrow> engine_state \<Rightarrow> rate_step \<Rightarrow> engine_state \<times> schedule_row" where
  "schedule_step terms fallbackArea st step =
     (let explicitArea = explicit_area step; cpiBaseline = or_default (rs_cpiValuePrev step) (en_prevCpi st)
      in if rs_method step = Some MCommencement then
           (let st' = commence_row st step
            in (st', emit st' step None (shown_area (en_area st') fallbackArea) cpiBaseline None))
         else
           (let ownReason = stepPendingReason step (st_liveFrom terms);
                cascade = (ownReason \<noteq> None \<or> en_cascade st)
            in if cascade then
                 (let st' = st\<lparr>en_cascade := True\<rparr>
                  in (st', emit st' step (or_default ownReason (Some EarlierReviewPending))
                             (shown_area (or_default explicitArea (en_area st)) fallbackArea) cpiBaseline None))
               else
                 (let outcome = reviewOutcome step cpiBaseline terms; st' = review_row st step (ro_factor outcome)
                  in (st', emit st' step None (shown_area (en_area st') fallbackArea) cpiBaseline (Some outcome)))))"

fun engine_rows :: "schedule_terms \<Rightarrow> rat \<Rightarrow> engine_state \<Rightarrow> rate_step list \<Rightarrow> schedule_row list" where
  "engine_rows terms fallbackArea st [] = []"
| "engine_rows terms fallbackArea st (step # steps) =
     (case schedule_step terms fallbackArea st step of (st', row) \<Rightarrow> row # engine_rows terms fallbackArea st' steps)"

definition computeScheduleRows :: "rate_step list \<Rightarrow> rat \<Rightarrow> rat \<Rightarrow> schedule_terms \<Rightarrow> schedule_row list" where
  "computeScheduleRows steps fallbackAnnual fallbackSqm terms =
     engine_rows terms (if fallbackSqm > 0 then fallbackSqm else 0) (engine_start fallbackAnnual) (sortSteps steps)"

section \<open>The row in force on a day\<close>

fun current_row :: "string \<Rightarrow> schedule_row option \<Rightarrow> schedule_row list \<Rightarrow> schedule_row option" where
  "current_row today current [] = current"
| "current_row today current (row # rows) =
     (if js_less today (rs_from (sr_step row)) then current
      else current_row today (if sr_pending row then current else Some row) rows)"

definition resolveCurrentRent :: "schedule_row list \<Rightarrow> rat \<Rightarrow> string \<Rightarrow> current_rent" where
  "resolveCurrentRent rows fallbackAnnual today =
     (case current_row today None rows of
        Some row \<Rightarrow> CurRow row
      | None \<Rightarrow>
          (case rows of
             [] \<Rightarrow> CurBase
           | first # _ \<Rightarrow>
               if rs_method (sr_step first) \<noteq> Some MCommencement \<and> fallbackAnnual > 0 then CurBase
               else if js_less today (rs_from (sr_step first)) then CurNotStarted (rs_from (sr_step first))
               else CurPending))"

definition resolveScheduleAnnual :: "rate_step list \<Rightarrow> rat \<Rightarrow> rat \<Rightarrow> string \<Rightarrow> schedule_terms \<Rightarrow> rat \<times> string option" where
  "resolveScheduleAnnual steps fallbackAnnual sqm today terms =
     (if steps = [] then (fallbackAnnual, None)
      else (case resolveCurrentRent (computeScheduleRows steps fallbackAnnual sqm terms) fallbackAnnual today of
              CurRow row \<Rightarrow> (sr_annual row, None)
            | CurBase \<Rightarrow> (r2 fallbackAnnual, None)
            | CurNotStarted startsOn \<Rightarrow> (0, Some startsOn)
            | CurPending \<Rightarrow> (0, None)))"

section \<open>Editing a schedule\<close>

text \<open>\<open>if (text)\<close>: neither absent nor empty.\<close>

definition text_set :: "string option \<Rightarrow> bool" where
  "text_set t \<longleftrightarrow> t \<noteq> None \<and> t \<noteq> Some ''''"

text \<open>The \<open>Map\<close> of \<open>normaliseLegacyEnds\<close>: the rows whose stored end is the day before the next row's start.\<close>

fun closed_ends :: "rate_step list \<Rightarrow> (string \<times> string) list" where
  "closed_ends (a # b # rest) =
     (let tail_ends = closed_ends (b # rest)
      in if text_set (rs_to a) \<and> isIsoDate (the (rs_to a)) \<and> addDaysIso (the (rs_to a)) 1 = Some (rs_from b)
         then (rs_id a, rs_from b) # tail_ends else tail_ends)"
| "closed_ends _ = []"

text \<open>A later \<open>set\<close> of the same key wins.\<close>

definition normaliseLegacyEnds :: "rate_step list \<Rightarrow> rate_step list" where
  "normaliseLegacyEnds steps =
     (let closedAt = map_of (rev (closed_ends (sortSteps steps)))
      in map (\<lambda>step. case closedAt (rs_id step) of
                        Some ends \<Rightarrow> if ends \<noteq> '''' then step\<lparr>rs_to := Some ends\<rparr> else step
                      | None \<Rightarrow> step) steps)"

definition closeOpenPredecessor :: "rate_step list \<Rightarrow> rate_step \<Rightarrow> (rate_step \<times> rate_step) option \<times> rate_step list" where
  "closeOpenPredecessor existing incoming =
     (if \<exists>s\<in>set existing. rs_id s = rs_id incoming then (None, existing)
      else
        (let earlier = filter (\<lambda>s. js_less (rs_from s) (rs_from incoming)) (sortSteps existing)
         in if earlier = [] \<or> text_set (rs_to (last earlier)) then (None, existing)
            else
              (let predecessor = last earlier; after = predecessor\<lparr>rs_to := Some (rs_from incoming)\<rparr>
               in (Some (predecessor, after), map (\<lambda>s. if rs_id s = rs_id predecessor then after else s) existing))))"

definition kept_fields :: "rate_step \<Rightarrow> rate_step \<Rightarrow> rate_step" where
  "kept_fields prev incoming =
     incoming\<lparr>rs_sqm := or_default (rs_sqm incoming) (rs_sqm prev),
       rs_flagComment := or_default (rs_flagComment incoming) (rs_flagComment prev),
       rs_reviewId := or_default (rs_reviewId incoming) (rs_reviewId prev),
       rs_resolution := or_default (rs_resolution incoming) (rs_resolution prev)\<rparr>"

text \<open>\<open>findIndex\<close> and the write at the index it finds: only the first row with the id is replaced.\<close>

fun replace_first :: "('a \<Rightarrow> bool) \<Rightarrow> ('a \<Rightarrow> 'a) \<Rightarrow> 'a list \<Rightarrow> 'a list" where
  "replace_first p f [] = []"
| "replace_first p f (x # xs) = (if p x then f x # xs else x # replace_first p f xs)"

definition upsertStep :: "rate_step list \<Rightarrow> rate_step \<Rightarrow> rate_step list" where
  "upsertStep existing incoming =
     (if \<exists>s\<in>set existing. rs_id s = rs_id incoming
      then replace_first (\<lambda>s. rs_id s = rs_id incoming) (\<lambda>prev. kept_fields prev incoming) existing
      else existing @ [incoming])"

fun remove_first :: "('a \<Rightarrow> bool) \<Rightarrow> 'a list \<Rightarrow> 'a list" where
  "remove_first p [] = []"
| "remove_first p (x # xs) = (if p x then xs else x # remove_first p xs)"

text \<open>\<open>None\<close> for \<open>NOT_FOUND\<close>.\<close>

definition deleteStep :: "rate_step list \<Rightarrow> string \<Rightarrow> rate_step list option" where
  "deleteStep existing sid =
     (if \<exists>s\<in>set existing. rs_id s = sid then Some (remove_first (\<lambda>s. rs_id s = sid) existing) else None)"

section \<open>What a change changed\<close>

datatype step_field =
    FFrom | FTo | FMethod | FRatePercent | FBaseRent | FAhacBase | FSqm | FCpiValue | FCpiValuePrev | FNote | FFlagComment
  | FReviewId | FResolution | FExempt

datatype field_value = VText string | VNum rat | VMethod method_kind | VResolution step_resolution | VExempt ratchet_exemption

definition DIFF_FIELDS :: "step_field list" where
  "DIFF_FIELDS = [FFrom, FTo, FMethod, FRatePercent, FBaseRent, FAhacBase, FSqm, FCpiValue, FCpiValuePrev, FNote, FFlagComment,
     FReviewId, FResolution, FExempt]"

fun get_field :: "step_field \<Rightarrow> rate_step \<Rightarrow> field_value option" where
  "get_field FFrom s = Some (VText (rs_from s))"
| "get_field FTo s = map_option VText (rs_to s)"
| "get_field FMethod s = map_option VMethod (rs_method s)"
| "get_field FRatePercent s = Some (VNum (rs_ratePercent s))"
| "get_field FBaseRent s = map_option VNum (rs_baseRent s)"
| "get_field FAhacBase s = map_option VNum (rs_ahacBase s)"
| "get_field FSqm s = map_option VNum (rs_sqm s)"
| "get_field FCpiValue s = map_option VNum (rs_cpiValue s)"
| "get_field FCpiValuePrev s = map_option VNum (rs_cpiValuePrev s)"
| "get_field FNote s = map_option VText (rs_note s)"
| "get_field FFlagComment s = map_option VText (rs_flagComment s)"
| "get_field FReviewId s = map_option VText (rs_reviewId s)"
| "get_field FResolution s = map_option VResolution (rs_resolution s)"
| "get_field FExempt s = map_option VExempt (rs_exempt s)"

type_synonym step_diff = "(step_field \<times> field_value option \<times> field_value option) list"

definition diffSteps :: "rate_step \<Rightarrow> rate_step \<Rightarrow> step_diff option" where
  "diffSteps prev upd =
     (let diff = map (\<lambda>f. (f, get_field f prev, get_field f upd))
                   (filter (\<lambda>f. get_field f prev \<noteq> get_field f upd) DIFF_FIELDS)
      in if diff \<noteq> [] then Some diff else None)"

section \<open>What the validator lets through\<close>

datatype step_error =
    NotAnObject | UnknownKey string | BadField string | EndsNotAfterStart | OnCommencement string

definition uuid_char :: "char \<Rightarrow> bool" where
  "uuid_char c =
     (let n = (of_char c :: nat) in 48 \<le> n \<and> n \<le> 57 \<or> 65 \<le> n \<and> n \<le> 70 \<or> 97 \<le> n \<and> n \<le> 102 \<or> c = CHR ''-'')"

definition isUuidShaped :: "json \<Rightarrow> bool" where
  "isUuidShaped v = (case v of JStr s \<Rightarrow> length s = 36 \<and> list_all uuid_char s | _ \<Rightarrow> False)"

definition NOTE_MAX_LEN :: nat where "NOTE_MAX_LEN = 300"
definition RATE_MIN :: rat where "RATE_MIN = -100"
definition RATE_MAX :: rat where "RATE_MAX = 100"
definition REVIEW_ID_MAX_LEN :: nat where "REVIEW_ID_MAX_LEN = 40"
definition EXEMPTION_NAME_MAX :: nat where "EXEMPTION_NAME_MAX = 200"
definition EXEMPTION_AT_MAX :: nat where "EXEMPTION_AT_MAX = 40"
definition EXEMPTION_REASON_MAX :: nat where "EXEMPTION_REASON_MAX = 2000"

definition METHOD_KINDS :: "(string \<times> method_kind) list" where
  "METHOD_KINDS = [(''cpi'', MCpi), (''commencement'', MCommencement), (''fixed'', MFixed), (''market'', MMarket), (''other'', MOther)]"

definition RESOLUTIONS :: "(string \<times> step_resolution) list" where
  "RESOLUTIONS = [(''applied'', Applied), (''waived'', Waived)]"

definition STEP_KEYS :: "string list" where
  "STEP_KEYS = [''id'', ''ahacBasePerAnnum'', ''baseRentPerAnnum'', ''sqm'', ''effectiveFrom'', ''effectiveTo'', ''methodKind'',
     ''cpiValue'', ''cpiValuePrev'', ''ratePercent'', ''note'', ''flagComment'', ''reviewId'', ''resolution'', ''ratchetExempt'']"

text \<open>The readings of a field: its value where it has the type asked for.\<close>

definition text_of :: "json option \<Rightarrow> string option" where
  "text_of v = (case v of Some (JStr s) \<Rightarrow> Some s | _ \<Rightarrow> None)"

definition number_in :: "json option \<Rightarrow> rat option" where
  "number_in v = (case v of Some (JNum (Num n)) \<Rightarrow> Some n | _ \<Rightarrow> None)"

definition method_in :: "json option \<Rightarrow> method_kind option" where
  "method_in v = Option.bind (text_of v) (map_of METHOD_KINDS)"

definition resolution_in :: "json option \<Rightarrow> step_resolution option" where
  "resolution_in v = Option.bind (text_of v) (map_of RESOLUTIONS)"

text \<open>A trimmed text of at most \<open>limit\<close> characters that is not blank.\<close>

definition short_text :: "nat \<Rightarrow> json option \<Rightarrow> string option" where
  "short_text limit v =
     (case text_of v of
        Some s \<Rightarrow> if js_trim s \<noteq> '''' \<and> length (js_trim s) \<le> limit then Some (js_trim s) else None
      | None \<Rightarrow> None)"

text \<open>Whether \<open>Date.parse\<close> reads a text is left to the engine of the language outside the ISO format: \<open>parses\<close>.\<close>

definition validateRatchetExemption :: "(string \<Rightarrow> bool) \<Rightarrow> json \<Rightarrow> step_error + ratchet_exemption" where
  "validateRatchetExemption parses raw =
     (case raw of
        JObj obj \<Rightarrow>
          (case find (\<lambda>k. k \<noteq> ''byName'' \<and> k \<noteq> ''at'' \<and> k \<noteq> ''reason'') (map fst obj) of
             Some k \<Rightarrow> Inl (UnknownKey k)
           | None \<Rightarrow>
               (case short_text EXEMPTION_NAME_MAX (obj_get obj ''byName'') of
                  None \<Rightarrow> Inl (BadField ''byName'')
                | Some byName \<Rightarrow>
                    (case short_text EXEMPTION_AT_MAX (obj_get obj ''at'') of
                       None \<Rightarrow> Inl (BadField ''at'')
                     | Some when \<Rightarrow>
                         if \<not> parses when then Inl (BadField ''at'')
                         else (case short_text EXEMPTION_REASON_MAX (obj_get obj ''reason'') of
                                 None \<Rightarrow> Inl (BadField ''reason'')
                               | Some reason \<Rightarrow> Inr \<lparr>rx_at = when, rx_byName = byName, rx_reason = reason\<rparr>))))
      | _ \<Rightarrow> Inl (BadField ''ratchetExempt''))"

text \<open>The checks of \<open>validateStep\<close> in their order; the first that fails is the answer.\<close>

fun first_failure :: "(bool \<times> 'e) list \<Rightarrow> 'e option" where
  "first_failure [] = None"
| "first_failure ((ok, e) # checks) = (if ok then first_failure checks else Some e)"

definition absent_or :: "json option \<Rightarrow> bool \<Rightarrow> bool" where
  "absent_or v ok \<longleftrightarrow> v = None \<or> ok"

definition holds_in :: "(rat \<Rightarrow> bool) \<Rightarrow> json option \<Rightarrow> bool" where
  "holds_in p v = (case number_in v of Some n \<Rightarrow> p n | None \<Rightarrow> False)"

definition text_within :: "nat \<Rightarrow> json option \<Rightarrow> bool" where
  "text_within limit v = (case text_of v of Some s \<Rightarrow> length s \<le> limit | None \<Rightarrow> False)"

definition iso_in :: "json option \<Rightarrow> bool" where
  "iso_in v = (case text_of v of Some s \<Rightarrow> isIsoDate s | None \<Rightarrow> False)"

definition step_checks :: "json_object \<Rightarrow> (bool \<times> step_error) list" where
  "step_checks raw =
     (let g = obj_get raw; commencement = (method_in (g ''methodKind'') = Some MCommencement)
      in [(absent_or (g ''id'') (g ''id'' = Some (JStr '''') \<or> isUuidShaped (the (g ''id''))), BadField ''id''),
          (iso_in (g ''effectiveFrom''), BadField ''effectiveFrom''),
          (absent_or (g ''effectiveTo'') (iso_in (g ''effectiveTo'')), BadField ''effectiveTo''),
          (absent_or (g ''effectiveTo'') (js_less (the (text_of (g ''effectiveFrom''))) (the (text_of (g ''effectiveTo'')))), EndsNotAfterStart),
          (absent_or (g ''ahacBasePerAnnum'') (holds_in (\<lambda>n. n \<ge> 0) (g ''ahacBasePerAnnum'')), BadField ''ahacBasePerAnnum''),
          (absent_or (g ''baseRentPerAnnum'') (holds_in (\<lambda>n. n \<ge> 0) (g ''baseRentPerAnnum'')), BadField ''baseRentPerAnnum''),
          (absent_or (g ''sqm'') (holds_in (\<lambda>n. n \<ge> 0) (g ''sqm'')), BadField ''sqm''),
          (absent_or (g ''methodKind'') (method_in (g ''methodKind'') \<noteq> None), BadField ''methodKind''),
          (absent_or (g ''cpiValue'') (holds_in (\<lambda>n. n > 0) (g ''cpiValue'')), BadField ''cpiValue''),
          (absent_or (g ''cpiValuePrev'') (holds_in (\<lambda>n. n > 0) (g ''cpiValuePrev'')), BadField ''cpiValuePrev''),
          (holds_in (\<lambda>n. RATE_MIN \<le> n \<and> n \<le> RATE_MAX) (g ''ratePercent''), BadField ''ratePercent''),
          (absent_or (g ''note'') (text_within NOTE_MAX_LEN (g ''note'')), BadField ''note''),
          (absent_or (g ''flagComment'') (text_within NOTE_MAX_LEN (g ''flagComment'')), BadField ''flagComment''),
          (absent_or (g ''reviewId'')
             (text_within REVIEW_ID_MAX_LEN (g ''reviewId'') \<and> js_trim (the (text_of (g ''reviewId''))) \<noteq> ''''), BadField ''reviewId''),
          (absent_or (g ''resolution'') (resolution_in (g ''resolution'') \<noteq> None), BadField ''resolution''),
          (absent_or (g ''resolution'') (\<not> commencement), OnCommencement ''resolution''),
          (absent_or (g ''ratchetExempt'') (\<not> commencement), OnCommencement ''ratchetExempt'')])"

definition normalised :: "string \<Rightarrow> json_object \<Rightarrow> ratchet_exemption option \<Rightarrow> rate_step" where
  "normalised newId raw exemption =
     (let g = obj_get raw
      in \<lparr>rs_id = (case text_of (g ''id'') of Some s \<Rightarrow> if s \<noteq> '''' then s else newId | None \<Rightarrow> newId),
          rs_ahacBase = number_in (g ''ahacBasePerAnnum''), rs_baseRent = number_in (g ''baseRentPerAnnum''), rs_sqm = number_in (g ''sqm''),
          rs_from = the (text_of (g ''effectiveFrom'')), rs_to = text_of (g ''effectiveTo''), rs_method = method_in (g ''methodKind''),
          rs_cpiValue = number_in (g ''cpiValue''), rs_cpiValuePrev = number_in (g ''cpiValuePrev''),
          rs_ratePercent = the (number_in (g ''ratePercent'')), rs_note = text_of (g ''note''), rs_flagComment = text_of (g ''flagComment''),
          rs_reviewId = text_of (g ''reviewId''), rs_resolution = resolution_in (g ''resolution''), rs_exempt = exemption\<rparr>)"

definition validateStep :: "(string \<Rightarrow> bool) \<Rightarrow> string \<Rightarrow> json \<Rightarrow> step_error + rate_step" where
  "validateStep parses newId raw =
     (case raw of
        JObj obj \<Rightarrow>
          (case find (\<lambda>k. k \<notin> set STEP_KEYS) (map fst obj) of
             Some k \<Rightarrow> Inl (UnknownKey k)
           | None \<Rightarrow>
               (case first_failure (step_checks obj) of
                  Some e \<Rightarrow> Inl e
                | None \<Rightarrow>
                    (case obj_get obj ''ratchetExempt'' of
                       None \<Rightarrow> Inr (normalised newId obj None)
                     | Some x \<Rightarrow>
                         (case validateRatchetExemption parses x of
                            Inl e \<Rightarrow> Inl e
                          | Inr exemption \<Rightarrow> Inr (normalised newId obj (Some exemption))))))
      | _ \<Rightarrow> Inl NotAnObject)"

definition positive_id :: "json option \<Rightarrow> bool" where
  "positive_id v = holds_in (\<lambda>n. is_integer n \<and> n > 0) v"

definition validateUpsertStepEnvelope :: "(string \<Rightarrow> bool) \<Rightarrow> string \<Rightarrow> json \<Rightarrow> step_error + rat \<times> rat \<times> rate_step" where
  "validateUpsertStepEnvelope parses newId body =
     (case body of
        JObj obj \<Rightarrow>
          if \<not> positive_id (obj_get obj ''TenantId'') then Inl (BadField ''TenantId'')
          else if \<not> positive_id (obj_get obj ''BuildingId'') then Inl (BadField ''BuildingId'')
          else (case obj_get obj ''step'' of
                  None \<Rightarrow> Inl NotAnObject
                | Some step \<Rightarrow>
                    (case validateStep parses newId step of
                       Inl e \<Rightarrow> Inl e
                     | Inr s \<Rightarrow> Inr (the (number_in (obj_get obj ''TenantId'')), the (number_in (obj_get obj ''BuildingId'')), s)))
      | _ \<Rightarrow> Inl NotAnObject)"

definition validateDeleteStepEnvelope :: "json \<Rightarrow> step_error + rat \<times> rat \<times> string" where
  "validateDeleteStepEnvelope body =
     (case body of
        JObj obj \<Rightarrow>
          if \<not> positive_id (obj_get obj ''TenantId'') then Inl (BadField ''TenantId'')
          else if \<not> positive_id (obj_get obj ''BuildingId'') then Inl (BadField ''BuildingId'')
          else if \<not> (case obj_get obj ''stepId'' of Some v \<Rightarrow> isUuidShaped v | None \<Rightarrow> False) then Inl (BadField ''stepId'')
          else Inr (the (number_in (obj_get obj ''TenantId'')), the (number_in (obj_get obj ''BuildingId'')), the (text_of (obj_get obj ''stepId'')))
      | _ \<Rightarrow> Inl NotAnObject)"

end
