(* ===== verification/Rent_Schedule_Correct.thy ===== *)
theory Rent_Schedule_Correct
  imports Rent_Schedule
begin

text \<open>
  What holds of the rent schedule: the engine's state at every row and its invariant, which rows wait and
  why, the lease's ratchet, cap and floor on every row, the rent of a row in closed form, and the steps
  the validator lets through.
\<close>

section \<open>Sorting\<close>

lemma js_less_asym: "js_less a b \<Longrightarrow> \<not> js_less b a"
  using js_less_trans js_less_irrefl by blast

lemma js_le_refl [simp]: "js_le a a"
  by (simp add: js_le_def)

lemma js_le_antisym: "js_le a b \<Longrightarrow> js_le b a \<Longrightarrow> a = b"
  using js_less_linear by (auto simp: js_le_def)

lemma by_date_le: "by_date a b \<le> 0 \<longleftrightarrow> js_le (rs_from a) (rs_from b)"
proof -
  consider "js_less (rs_from a) (rs_from b)" | "rs_from a = rs_from b" | "js_less (rs_from b) (rs_from a)"
    using js_less_linear by blast
  then show ?thesis using js_less_asym by cases (auto simp: by_date_def js_le_def)
qed

interpretation dates: consistent_comparator by_date
proof unfold_locales
  show "by_date x y \<le> 0 \<or> by_date y x \<le> 0" for x y using js_le_total by (simp add: by_date_le)
  show "by_date x z \<le> 0" if "by_date x y \<le> 0" "by_date y z \<le> 0" for x y z
    using that js_le_trans by (simp add: by_date_le)
qed

lemma set_sortSteps [simp]: "set (sortSteps xs) = set xs"
  by (simp add: sortSteps_def)

lemma length_sortSteps [simp]: "length (sortSteps xs) = length xs"
  by (simp add: sortSteps_def)

lemma sortSteps_Nil [simp]: "sortSteps [] = []" "sortSteps xs = [] \<longleftrightarrow> xs = []"
  by (simp_all add: sortSteps_def)

lemma sorted_sortSteps: "sorted_wrt (\<lambda>a b. js_le (rs_from a) (rs_from b)) (sortSteps xs)"
  using dates.sorted_sort_by [of xs] by (simp add: sortSteps_def by_date_le)

section \<open>The state at a row\<close>

definition state_at :: "schedule_terms \<Rightarrow> rat \<Rightarrow> engine_state \<Rightarrow> rate_step list \<Rightarrow> nat \<Rightarrow> engine_state" where
  "state_at terms fa st steps i = fold (\<lambda>step s. fst (schedule_step terms fa s step)) (take i steps) st"

lemma state_at_0 [simp]: "state_at terms fa st steps 0 = st"
  by (simp add: state_at_def)

lemma state_at_Suc: "i < length steps \<Longrightarrow>
    state_at terms fa st steps (Suc i) = fst (schedule_step terms fa (state_at terms fa st steps i) (steps ! i))"
  by (simp add: state_at_def take_Suc_conv_app_nth)

lemma length_engine_rows [simp]: "length (engine_rows terms fa st steps) = length steps"
  by (induction steps arbitrary: st) (simp_all split: prod.splits)

lemma engine_rows_nth:
  "i < length steps \<Longrightarrow> engine_rows terms fa st steps ! i = snd (schedule_step terms fa (state_at terms fa st steps i) (steps ! i))"
proof (induction steps arbitrary: st i)
  case Nil
  then show ?case by simp
next
  case (Cons step steps)
  then show ?case by (cases i) (auto simp: state_at_def split: prod.splits)
qed

lemma computeScheduleRows_nth:
  assumes "i < length steps"
  shows "computeScheduleRows steps annual sqm terms ! i =
    snd (schedule_step terms (if sqm > 0 then sqm else 0) (state_at terms (if sqm > 0 then sqm else 0) (engine_start annual) (sortSteps steps) i)
      (sortSteps steps ! i))"
  using assms by (simp add: computeScheduleRows_def engine_rows_nth)

lemma length_computeScheduleRows [simp]: "length (computeScheduleRows steps annual sqm terms) = length steps"
  by (simp add: computeScheduleRows_def)

text \<open>One step of the engine, row and state by the three kinds of row.\<close>

definition row_waits :: "schedule_terms \<Rightarrow> engine_state \<Rightarrow> rate_step \<Rightarrow> bool" where
  "row_waits terms st step \<longleftrightarrow>
     rs_method step \<noteq> Some MCommencement \<and> (stepPendingReason step (st_liveFrom terms) \<noteq> None \<or> en_cascade st)"

lemma schedule_step_row:
  "sr_step (snd (schedule_step terms fa st step)) = step"
  "sr_pending (snd (schedule_step terms fa st step)) \<longleftrightarrow> row_waits terms st step"
  by (auto simp: schedule_step_def Let_def emit_def row_waits_def or_default_def split: option.splits)

lemma schedule_step_cascade:
  "en_cascade (fst (schedule_step terms fa st step)) \<longleftrightarrow> row_waits terms st step"
  by (auto simp: schedule_step_def Let_def row_waits_def commence_row_def review_row_def split: option.splits)

lemma schedule_step_waiting:
  assumes "row_waits terms st step"
  shows "fst (schedule_step terms fa st step) = st\<lparr>en_cascade := True\<rparr>"
    and "sr_pendingReason (snd (schedule_step terms fa st step)) =
      or_default (stepPendingReason step (st_liveFrom terms)) (Some EarlierReviewPending)"
    and "sr_annual (snd (schedule_step terms fa st step)) = 0"
  using assms by (auto simp: schedule_step_def Let_def row_waits_def emit_def or_default_def split: option.splits)

lemma schedule_step_commencement:
  assumes "rs_method step = Some MCommencement"
  shows "fst (schedule_step terms fa st step) = commence_row st step"
    and "snd (schedule_step terms fa st step) =
      emit (commence_row st step) step None (shown_area (en_area (commence_row st step)) fa)
        (or_default (rs_cpiValuePrev step) (en_prevCpi st)) None"
  using assms by (simp_all add: schedule_step_def Let_def)

lemma schedule_step_review:
  assumes "rs_method step \<noteq> Some MCommencement" "\<not> row_waits terms st step"
  defines "baseline \<equiv> or_default (rs_cpiValuePrev step) (en_prevCpi st)"
  defines "outcome \<equiv> reviewOutcome step baseline terms"
  shows "fst (schedule_step terms fa st step) = review_row st step (ro_factor outcome)"
    and "snd (schedule_step terms fa st step) =
      emit (review_row st step (ro_factor outcome)) step None
        (shown_area (en_area (review_row st step (ro_factor outcome))) fa) baseline (Some outcome)"
  using assms by (auto simp: schedule_step_def Let_def row_waits_def)

lemma emit_settled [simp]:
  "sr_annual (emit st step None a b outcome) = r2 (en_annual st)"
  "sr_factor (emit st step None a b outcome) = map_option ro_factor outcome"
  "sr_sqm (emit st step reason a b outcome) = a"
  by (simp_all add: emit_def Let_def)

lemma schedule_step_annual:
  "\<not> row_waits terms st step \<Longrightarrow>
    sr_annual (snd (schedule_step terms fa st step)) = r2 (en_annual (fst (schedule_step terms fa st step)))"
  by (cases "rs_method step = Some MCommencement") (simp_all add: schedule_step_commencement schedule_step_review)

section \<open>What the validator lets through\<close>

definition nonneg :: "rat option \<Rightarrow> bool" where
  "nonneg a = (case a of Some x \<Rightarrow> x \<ge> 0 | None \<Rightarrow> True)"

definition positive :: "rat option \<Rightarrow> bool" where
  "positive a = (case a of Some x \<Rightarrow> x > 0 | None \<Rightarrow> True)"

definition valid_step :: "rate_step \<Rightarrow> bool" where
  "valid_step s \<longleftrightarrow>
     isIsoDate (rs_from s) \<and> (case rs_to s of Some e \<Rightarrow> isIsoDate e \<and> js_less (rs_from s) e | None \<Rightarrow> True) \<and>
     nonneg (rs_ahacBase s) \<and> nonneg (rs_baseRent s) \<and> nonneg (rs_sqm s) \<and> positive (rs_cpiValue s) \<and> positive (rs_cpiValuePrev s) \<and>
     -100 \<le> rs_ratePercent s \<and> rs_ratePercent s \<le> 100 \<and>
     (rs_method s = Some MCommencement \<longrightarrow> rs_resolution s = None \<and> rs_exempt s = None)"

section \<open>The invariant of the engine\<close>

text \<open>The rent is never negative, and once an area is known the rent is the rate times the area.\<close>

definition engine_ok :: "engine_state \<Rightarrow> bool" where
  "engine_ok st \<longleftrightarrow> 0 \<le> en_annual st \<and> positive (en_prevCpi st) \<and>
     (case en_area st of None \<Rightarrow> en_rate st = None
      | Some a \<Rightarrow> a > 0 \<and> (\<exists>r\<ge>0. en_rate st = Some r \<and> en_annual st = r * a))"

lemma explicit_area_pos: "explicit_area step = Some a \<Longrightarrow> a > 0"
  by (auto simp: explicit_area_def split: option.splits if_splits)

lemma positive_or_default: "positive a \<Longrightarrow> positive b \<Longrightarrow> positive (or_default a b)"
  by (auto simp: or_default_def split: option.splits)

lemma commence_row_ok:
  assumes "engine_ok st" "valid_step step"
  shows "engine_ok (commence_row st step)"
proof -
  have pos: "area > 0" if "or_default (explicit_area step) (en_area st) = Some area" for area
    using that assms(1) explicit_area_pos [of step] by (auto simp: or_default_def engine_ok_def split: option.splits)
  have "0 \<le> (case rs_baseRent step of Some b \<Rightarrow> b | None \<Rightarrow> en_annual st)"
    using assms by (auto simp: valid_step_def nonneg_def engine_ok_def split: option.splits)
  moreover have "positive (or_default (rs_cpiValue step) (en_prevCpi st))"
    using assms by (simp add: valid_step_def engine_ok_def positive_or_default)
  ultimately show ?thesis
    using pos by (auto simp: engine_ok_def commence_row_def Let_def divided_def split: option.splits)
qed

lemma review_row_ok:
  assumes "engine_ok st" "valid_step step" "0 \<le> factor"
  shows "engine_ok (review_row st step factor)"
proof -
  have "positive (or_default (rs_cpiValue step) (en_prevCpi st))"
    using assms by (simp add: valid_step_def engine_ok_def positive_or_default)
  with assms(1,3) explicit_area_pos [of step] show ?thesis
    by (cases "en_area st"; cases "explicit_area step") (auto simp: engine_ok_def review_row_def Let_def)
qed

text \<open>A review's factor is never negative, and within the lease's cap and floor on a CPI row.\<close>

lemma reviewFactor_nonneg:
  assumes "valid_step step" "positive baseline"
  shows "0 \<le> reviewFactor step baseline"
proof -
  have "0 \<le> 1 + rs_ratePercent step / 100" using assms(1) by (simp add: valid_step_def field_simps)
  moreover have "0 \<le> v / b" if "rs_cpiValue step = Some v" "baseline = Some b" for v b
    using that assms by (simp add: valid_step_def positive_def)
  ultimately show ?thesis by (auto simp: reviewFactor_def split: option.splits method_kind.splits)
qed

definition cap_ok :: "schedule_terms \<Rightarrow> bool" where
  "cap_ok terms = (case st_cpiCap terms of Some c \<Rightarrow> -100 \<le> c | None \<Rightarrow> True)"

lemma reviewOutcome_factor:
  assumes "rs_resolution step \<noteq> Some Waived"
  shows "ro_factor (reviewOutcome step baseline terms) =
    (let f = reviewFactor step baseline;
         g = (if rs_method step = Some MCpi then fst (cap_factor (st_cpiCap terms) (fst (floor_factor (st_cpiFloor terms) f))) else f)
     in if st_ratchet terms \<and> g < 1 \<and> rs_exempt step = None then 1 else g)"
  using assms by (auto simp: reviewOutcome_def Let_def split: prod.splits)

lemma reviewOutcome_waived: "rs_resolution step = Some Waived \<Longrightarrow> ro_factor (reviewOutcome step baseline terms) = 1"
  by (simp add: reviewOutcome_def)

lemma outcome_nonneg:
  assumes "valid_step step" "positive baseline" "cap_ok terms"
  shows "0 \<le> ro_factor (reviewOutcome step baseline terms)"
proof (cases "rs_resolution step = Some Waived")
  case True
  then show ?thesis by (simp add: reviewOutcome_waived)
next
  case False
  have f: "0 \<le> reviewFactor step baseline" by (rule reviewFactor_nonneg [OF assms(1,2)])
  then have fl: "0 \<le> fst (floor_factor (st_cpiFloor terms) (reviewFactor step baseline))"
    by (auto simp: floor_factor_def split: option.splits)
  then have "0 \<le> fst (cap_factor (st_cpiCap terms) (fst (floor_factor (st_cpiFloor terms) (reviewFactor step baseline))))"
    using assms(3) by (auto simp: cap_factor_def cap_ok_def field_simps split: option.splits)
  with f False show ?thesis by (simp add: reviewOutcome_factor Let_def)
qed

lemma outcome_ratchet:
  assumes "st_ratchet terms" "rs_exempt step = None"
  shows "1 \<le> ro_factor (reviewOutcome step baseline terms)"
  by (cases "rs_resolution step = Some Waived") (use assms in \<open>auto simp: reviewOutcome_waived reviewOutcome_factor Let_def\<close>)

lemma schedule_step_ok:
  assumes "engine_ok st" "valid_step step" "cap_ok terms"
  shows "engine_ok (fst (schedule_step terms fa st step))"
proof -
  have b: "positive (or_default (rs_cpiValuePrev step) (en_prevCpi st))"
    using assms(1,2) by (simp add: valid_step_def engine_ok_def positive_or_default)
  consider "rs_method step = Some MCommencement" | "row_waits terms st step"
    | "rs_method step \<noteq> Some MCommencement" "\<not> row_waits terms st step" by blast
  then show ?thesis
  proof cases
    case 1
    with assms show ?thesis by (simp add: schedule_step_commencement commence_row_ok)
  next
    case 2
    with assms show ?thesis by (auto simp: schedule_step_waiting engine_ok_def split: option.splits)
  next
    case 3
    with assms b show ?thesis by (simp add: schedule_step_review review_row_ok outcome_nonneg)
  qed
qed

lemma state_at_ok:
  assumes "engine_ok st" "\<And>s. s \<in> set steps \<Longrightarrow> valid_step s" "cap_ok terms" "i \<le> length steps"
  shows "engine_ok (state_at terms fa st steps i)"
  using assms(4)
proof (induction i)
  case 0
  with assms(1) show ?case by simp
next
  case (Suc i)
  then have "engine_ok (state_at terms fa st steps i)" "steps ! i \<in> set steps" by simp_all
  with Suc.prems assms show ?case by (simp add: state_at_Suc schedule_step_ok)
qed

lemma engine_start_ok: "0 \<le> annual \<Longrightarrow> engine_ok (engine_start annual)"
  by (simp add: engine_ok_def engine_start_def positive_def)

section \<open>The ratchet, the cap and the floor\<close>

lemma r2_mono: "x \<le> y \<Longrightarrow> r2 x \<le> r2 y"
proof -
  assume "x \<le> y"
  then have "js_round (x * 100) \<le> js_round (y * 100)" by (simp add: js_round_def floor_mono)
  then show ?thesis by (simp add: r2_def divide_right_mono)
qed

lemma review_row_grows:
  assumes "engine_ok st" "1 \<le> factor" "explicit_area step = None"
  shows "en_annual st \<le> en_annual (review_row st step factor)"
proof -
  have m: "0 \<le> x \<Longrightarrow> x \<le> x * factor" for x using assms(2) mult_left_mono [of 1 factor x] by simp
  show ?thesis
  proof (cases "en_area st")
    case None
    with assms m show ?thesis by (auto simp: engine_ok_def review_row_def Let_def)
  next
    case (Some a)
    with assms(1) obtain r where r: "0 \<le> r" "en_rate st = Some r" "en_annual st = r * a" "0 < a"
      by (auto simp: engine_ok_def)
    have "r * a \<le> r * factor * a" using m [OF r(1)] r(4) by (simp add: mult_right_mono)
    with Some r assms(3) show ?thesis by (simp add: review_row_def Let_def)
  qed
qed

text \<open>C7: On a lease with a ratchet the rent of a review row is never below the rent of the row before it, unless a
  director exempted that row or the row changes the area. Rows that wait have no rent.\<close>

theorem ratchet_holds_rent:
  assumes valid: "\<And>s. s \<in> set steps \<Longrightarrow> valid_step s" and "0 \<le> annual" "st_ratchet terms" "cap_ok terms"
    and rows: "rows = computeScheduleRows steps annual sqm terms" "Suc i < length rows"
    and settled: "\<not> sr_pending (rows ! i)" "\<not> sr_pending (rows ! Suc i)"
    and review: "rs_method (sr_step (rows ! Suc i)) \<noteq> Some MCommencement" "rs_exempt (sr_step (rows ! Suc i)) = None"
      "explicit_area (sr_step (rows ! Suc i)) = None"
  shows "sr_annual (rows ! i) \<le> sr_annual (rows ! Suc i)"
proof -
  define xs fa where "xs = sortSteps steps" and "fa = (if sqm > 0 then sqm else 0)"
  define st where "st j = state_at terms fa (engine_start annual) xs j" for j
  have l: "i < length xs" "Suc i < length xs" using rows by (simp_all add: xs_def)
  have row: "rows ! j = snd (schedule_step terms fa (st j) (xs ! j))" if "j < length xs" for j
    using that rows(1) by (simp add: computeScheduleRows_nth xs_def fa_def st_def)
  have ok: "engine_ok (st (Suc i))"
    unfolding st_def using valid l assms(2,4) by (intro state_at_ok) (auto simp: xs_def engine_start_ok)
  have next_state: "st (Suc i) = fst (schedule_step terms fa (st i) (xs ! i))"
    using l by (simp add: st_def state_at_Suc)
  have step: "sr_step (rows ! Suc i) = xs ! Suc i" using row [OF l(2)] by (simp add: schedule_step_row)
  have w: "\<not> row_waits terms (st i) (xs ! i)" "\<not> row_waits terms (st (Suc i)) (xs ! Suc i)"
    using settled row l by (simp_all add: schedule_step_row)
  have "en_annual (st (Suc i)) \<le> en_annual (fst (schedule_step terms fa (st (Suc i)) (xs ! Suc i)))"
    using review step w ok assms(3) by (simp add: schedule_step_review review_row_grows outcome_ratchet)
  with w l show ?thesis by (simp add: row schedule_step_annual next_state r2_mono)
qed

text \<open>On a CPI row the factor applied stays between the lease's floor and cap; only the ratchet lifts it
  above the cap, and then to exactly no change.\<close>

theorem cpi_factor_bounds:
  assumes "rs_method step = Some MCpi" "rs_resolution step \<noteq> Some Waived"
    and "st_cpiFloor terms = Some f" "st_cpiCap terms = Some c" "f \<le> c"
  shows "1 + f / 100 \<le> ro_factor (reviewOutcome step baseline terms) \<and>
    (ro_factor (reviewOutcome step baseline terms) \<le> 1 + c / 100 \<or>
     ro_factor (reviewOutcome step baseline terms) = 1 \<and> ro_ratchetApplied (reviewOutcome step baseline terms)) \<and>
    (1 + f / 100 \<le> reviewFactor step baseline \<and> reviewFactor step baseline \<le> 1 + c / 100 \<and>
       \<not> ro_ratchetApplied (reviewOutcome step baseline terms) \<longrightarrow>
     ro_factor (reviewOutcome step baseline terms) = reviewFactor step baseline)"
proof -
  have "1 + f / 100 \<le> 1 + c / 100" using assms(5) by (simp add: divide_right_mono)
  with assms(1-4) show ?thesis
    by (auto simp: reviewOutcome_def Let_def floor_factor_def cap_factor_def)
qed

section \<open>Which rows wait\<close>

lemma since_step:
  "(\<exists>j\<le>Suc i. P j \<and> (\<forall>k\<in>{j..Suc i}. R k)) \<longleftrightarrow> R (Suc i) \<and> (P (Suc i) \<or> (\<exists>j\<le>i. P j \<and> (\<forall>k\<in>{j..i}. R k)))"
proof -
  have last: "(\<exists>j\<le>Suc i. X j) \<longleftrightarrow> X (Suc i) \<or> (\<exists>j\<le>i. X j)" for X by (auto simp: le_Suc_eq)
  have all: "(\<forall>k\<in>{j..Suc i}. R k) \<longleftrightarrow> R (Suc i) \<and> (\<forall>k\<in>{j..i}. R k)" if "j \<le> i" for j
    using that by (simp add: atLeastAtMostSuc_conv)
  have "(\<exists>j\<le>i. P j \<and> (\<forall>k\<in>{j..Suc i}. R k)) \<longleftrightarrow> (\<exists>j\<le>i. P j \<and> R (Suc i) \<and> (\<forall>k\<in>{j..i}. R k))"
    using all by metis
  then show ?thesis unfolding last by auto
qed

text \<open>A row has no rent exactly when a review row at or before it, since the last commencement row, is waiting on
  its own account; it then says its own reason, or that an earlier review is pending.\<close>

theorem waiting_rows:
  assumes "rows = computeScheduleRows steps annual sqm terms" "xs = sortSteps steps" "i < length rows"
  shows "(sr_pending (rows ! i) \<longleftrightarrow>
      (\<exists>j\<le>i. stepPendingReason (xs ! j) (st_liveFrom terms) \<noteq> None \<and> (\<forall>k\<in>{j..i}. rs_method (xs ! k) \<noteq> Some MCommencement))) \<and>
    sr_pendingReason (rows ! i) =
      (if sr_pending (rows ! i)
       then or_default (stepPendingReason (xs ! i) (st_liveFrom terms)) (Some EarlierReviewPending) else None)"
proof -
  define fa where "fa = (if sqm > 0 then sqm else 0)"
  define st where "st j = state_at terms fa (engine_start annual) xs j" for j
  have l: "i < length xs" using assms by simp
  have row: "rows ! j = snd (schedule_step terms fa (st j) (xs ! j))" if "j < length xs" for j
    using that assms by (simp add: computeScheduleRows_nth fa_def st_def)
  let ?own = "\<lambda>j. stepPendingReason (xs ! j) (st_liveFrom terms) \<noteq> None"
  let ?review = "\<lambda>j. rs_method (xs ! j) \<noteq> Some MCommencement"
  have waits: "row_waits terms (st i) (xs ! i) \<longleftrightarrow> (\<exists>j\<le>i. ?own j \<and> (\<forall>k\<in>{j..i}. ?review k))" if "i < length xs" for i
    using that
  proof (induction i)
    case 0
    then show ?case by (auto simp: row_waits_def st_def engine_start_def)
  next
    case (Suc i)
    from Suc have "en_cascade (st (Suc i)) \<longleftrightarrow> (\<exists>j\<le>i. ?own j \<and> (\<forall>k\<in>{j..i}. ?review k))"
      by (simp add: st_def state_at_Suc schedule_step_cascade)
    then show ?case unfolding since_step by (simp add: row_waits_def)
  qed
  have "sr_pendingReason (rows ! i) = None" if "\<not> row_waits terms (st i) (xs ! i)"
    using that row [OF l]
    by (cases "rs_method (xs ! i) = Some MCommencement") (simp_all add: schedule_step_commencement schedule_step_review emit_def Let_def)
  with waits [OF l] row [OF l] show ?thesis by (simp add: schedule_step_row schedule_step_waiting)
qed

section \<open>The rent in closed form\<close>

text \<open>One review row carries the rate on by its factor and charges it over its own area.\<close>

lemma rate_carried:
  assumes "en_area st = Some s" "en_rate st = Some r" "rs_method step \<noteq> Some MCommencement" "\<not> row_waits terms st step"
    and "st' = fst (schedule_step terms fa st step)" "row = snd (schedule_step terms fa st step)"
  shows "en_area st' = Some (sr_sqm row) \<and> en_rate st' = Some (r * the (sr_factor row)) \<and>
    en_annual st' = r * the (sr_factor row) * sr_sqm row"
  using assms by (simp add: schedule_step_review review_row_def Let_def shown_area_def)

lemma prod_one_more: "c \<le> j \<Longrightarrow> (\<Prod>k\<in>{c<..Suc j}. f k) = (\<Prod>k\<in>{c<..j}. f k) * (f (Suc j) :: rat)"
  by (simp add: atLeastSucAtMost_greaterThanAtMost [symmetric])

text \<open>C10: From a commencement row that fixes a starting rent and an area, the rent of every later row up to the next
  commencement is the starting rent times the factors of the reviews since, at the area of the row, rounded
  once: no rounding is carried from row to row.\<close>

theorem rent_closed_form:
  assumes rows: "rows = computeScheduleRows steps annual sqm terms" "c \<le> i" "i < length rows"
    and start: "sr_step (rows ! c) = comm" "rs_method comm = Some MCommencement" "rs_baseRent comm = Some b" "explicit_area comm = Some a"
    and since: "\<And>k. k \<in> {c<..i} \<Longrightarrow> rs_method (sr_step (rows ! k)) \<noteq> Some MCommencement \<and> \<not> sr_pending (rows ! k)"
  shows "sr_annual (rows ! i) = r2 (b * (\<Prod>k\<in>{c<..i}. the (sr_factor (rows ! k))) * (sr_sqm (rows ! i) / a))"
proof -
  define xs fa where "xs = sortSteps steps" and "fa = (if sqm > 0 then sqm else 0)"
  define st where "st j = state_at terms fa (engine_start annual) xs j" for j
  have l: "i < length xs" using rows by (simp add: xs_def)
  have row: "rows ! j = snd (schedule_step terms fa (st j) (xs ! j))" if "j < length xs" for j
    using that rows(1) by (simp add: computeScheduleRows_nth xs_def fa_def st_def)
  have step: "sr_step (rows ! j) = xs ! j" if "j < length xs" for j using row [OF that] by (simp add: schedule_step_row)
  have next_state: "st (Suc j) = fst (schedule_step terms fa (st j) (xs ! j))" if "j < length xs" for j
    using that by (simp add: st_def state_at_Suc)
  have apos: "0 < a" using start(4) by (rule explicit_area_pos)
  have lc: "c < length xs" using l rows(2) by simp
  have base: "en_area (st (Suc c)) = Some a" "en_rate (st (Suc c)) = Some (b / a)" "en_annual (st (Suc c)) = b" "sr_sqm (rows ! c) = a"
    using start row [OF lc] step [OF lc] next_state [OF lc]
    by (simp_all add: schedule_step_commencement commence_row_def Let_def or_default_def divided_def shown_area_def)
  have "j \<le> i \<Longrightarrow> c \<le> j \<Longrightarrow> en_area (st (Suc j)) = Some (sr_sqm (rows ! j)) \<and>
      en_rate (st (Suc j)) = Some (b / a * (\<Prod>k\<in>{c<..j}. the (sr_factor (rows ! k)))) \<and>
      en_annual (st (Suc j)) = b / a * (\<Prod>k\<in>{c<..j}. the (sr_factor (rows ! k))) * sr_sqm (rows ! j)" for j
  proof (induction j)
    case 0
    then have "c = 0" by simp
    with base apos show ?case by simp
  next
    case (Suc j)
    then have lj: "Suc j < length xs" using l by simp
    show ?case
    proof (cases "c = Suc j")
      case True
      with base apos show ?thesis by simp
    next
      case False
      with Suc.prems have c: "c \<le> j" by simp
      with Suc have IH: "en_area (st (Suc j)) = Some (sr_sqm (rows ! j))"
        "en_rate (st (Suc j)) = Some (b / a * (\<Prod>k\<in>{c<..j}. the (sr_factor (rows ! k))))" by simp_all
      have review: "rs_method (xs ! Suc j) \<noteq> Some MCommencement" "\<not> row_waits terms (st (Suc j)) (xs ! Suc j)"
        using since [of "Suc j"] c Suc.prems(1) row [OF lj] step [OF lj] by (simp_all add: schedule_step_row)
      show ?thesis
        using rate_carried [OF IH review next_state [OF lj] row [OF lj]] c by (simp add: prod_one_more mult.assoc)
    qed
  qed
  from this [of i] rows(2) have "en_annual (st (Suc i)) = b / a * (\<Prod>k\<in>{c<..i}. the (sr_factor (rows ! k))) * sr_sqm (rows ! i)" by simp
  moreover have "\<not> row_waits terms (st i) (xs ! i)"
  proof (cases "c = i")
    case True
    with start step [OF l] show ?thesis by (simp add: row_waits_def)
  next
    case False
    with since [of i] rows(2) row [OF l] show ?thesis by (simp add: schedule_step_row)
  qed
  ultimately show ?thesis
    using row [OF l] next_state [OF l] by (simp add: schedule_step_annual)
qed

section \<open>Validation\<close>

lemma first_failure_Cons: "first_failure ((ok, e) # checks) = None \<longleftrightarrow> ok \<and> first_failure checks = None"
  by simp

definition known_keys :: "json_object \<Rightarrow> bool" where
  "known_keys obj \<longleftrightarrow> find (\<lambda>k. k \<notin> set STEP_KEYS) (map fst obj) = None"

definition exemption_in :: "(string \<Rightarrow> bool) \<Rightarrow> json_object \<Rightarrow> ratchet_exemption option \<Rightarrow> bool" where
  "exemption_in parses obj x \<longleftrightarrow>
     (case obj_get obj ''ratchetExempt'' of
        None \<Rightarrow> x = None
      | Some v \<Rightarrow> (case x of None \<Rightarrow> False | Some e \<Rightarrow> validateRatchetExemption parses v = Inr e))"

lemma validateStepI:
  assumes "known_keys obj" "first_failure (step_checks obj) = None" "exemption_in parses obj x"
  shows "validateStep parses newId (JObj obj) = Inr (normalised newId obj x)"
  using assms by (auto simp: validateStep_def known_keys_def exemption_in_def split: option.splits)

lemma validateStepE:
  assumes "validateStep parses newId raw = Inr s"
  obtains obj x where "raw = JObj obj" "known_keys obj" "first_failure (step_checks obj) = None" "exemption_in parses obj x"
    "s = normalised newId obj x"
proof -
  obtain obj where raw: "raw = JObj obj" using assms by (cases raw) (simp_all add: validateStep_def)
  have known: "known_keys obj"
    using assms by (cases "find (\<lambda>k. k \<notin> set STEP_KEYS) (map fst obj)") (simp_all add: validateStep_def raw known_keys_def)
  have checks: "first_failure (step_checks obj) = None"
    using assms known by (cases "first_failure (step_checks obj)") (simp_all add: validateStep_def raw known_keys_def)
  show thesis
  proof (cases "obj_get obj ''ratchetExempt''")
    case None
    with assms known checks have "s = normalised newId obj None" by (simp add: validateStep_def raw known_keys_def)
    with None show thesis using that raw known checks by (simp add: exemption_in_def)
  next
    case (Some v)
    with assms known checks obtain e where "validateRatchetExemption parses v = Inr e" "s = normalised newId obj (Some e)"
      by (cases "validateRatchetExemption parses v") (simp_all add: validateStep_def raw known_keys_def)
    with Some show thesis by (intro that [OF raw known checks, of "Some e"]) (simp_all add: exemption_in_def)
  qed
qed

lemma step_checks_iff:
  "first_failure (step_checks raw) = None \<longleftrightarrow>
     (absent_or (obj_get raw ''id'') (obj_get raw ''id'' = Some (JStr '''') \<or> isUuidShaped (the (obj_get raw ''id'')))) \<and>
     (iso_in (obj_get raw ''effectiveFrom'')) \<and>
     (absent_or (obj_get raw ''effectiveTo'') (iso_in (obj_get raw ''effectiveTo''))) \<and>
     (absent_or (obj_get raw ''effectiveTo'') (js_less (the (text_of (obj_get raw ''effectiveFrom''))) (the (text_of (obj_get raw ''effectiveTo''))))) \<and>
     (absent_or (obj_get raw ''ahacBasePerAnnum'') (holds_in (\<lambda>n. n \<ge> 0) (obj_get raw ''ahacBasePerAnnum''))) \<and>
     (absent_or (obj_get raw ''baseRentPerAnnum'') (holds_in (\<lambda>n. n \<ge> 0) (obj_get raw ''baseRentPerAnnum''))) \<and>
     (absent_or (obj_get raw ''sqm'') (holds_in (\<lambda>n. n \<ge> 0) (obj_get raw ''sqm''))) \<and>
     (absent_or (obj_get raw ''methodKind'') (method_in (obj_get raw ''methodKind'') \<noteq> None)) \<and>
     (absent_or (obj_get raw ''cpiValue'') (holds_in (\<lambda>n. n > 0) (obj_get raw ''cpiValue''))) \<and>
     (absent_or (obj_get raw ''cpiValuePrev'') (holds_in (\<lambda>n. n > 0) (obj_get raw ''cpiValuePrev''))) \<and>
     (holds_in (\<lambda>n. RATE_MIN \<le> n \<and> n \<le> RATE_MAX) (obj_get raw ''ratePercent'')) \<and>
     (absent_or (obj_get raw ''note'') (text_within NOTE_MAX_LEN (obj_get raw ''note''))) \<and>
     (absent_or (obj_get raw ''flagComment'') (text_within NOTE_MAX_LEN (obj_get raw ''flagComment''))) \<and>
     (absent_or (obj_get raw ''reviewId'') (text_within REVIEW_ID_MAX_LEN (obj_get raw ''reviewId'') \<and> js_trim (the (text_of (obj_get raw ''reviewId''))) \<noteq> '''')) \<and>
     (absent_or (obj_get raw ''resolution'') (resolution_in (obj_get raw ''resolution'') \<noteq> None)) \<and>
     (absent_or (obj_get raw ''resolution'') (\<not> (method_in (obj_get raw ''methodKind'') = Some MCommencement))) \<and>
     (absent_or (obj_get raw ''ratchetExempt'') (\<not> (method_in (obj_get raw ''methodKind'') = Some MCommencement)))"
  unfolding step_checks_def Let_def first_failure_Cons by simp

lemma holds_in_number: "absent_or v (holds_in p v) \<Longrightarrow> number_in v = Some n \<Longrightarrow> p n"
  by (auto simp: absent_or_def holds_in_def number_in_def split: option.splits)

lemma iso_in_text: "iso_in v \<Longrightarrow> \<exists>s. text_of v = Some s \<and> isIsoDate s"
  by (auto simp: iso_in_def split: option.splits)

lemma number_in_absent: "number_in None = None" "text_of None = None" "resolution_in None = None"
  by (simp_all add: number_in_def text_of_def resolution_in_def)

lemma normalised_valid:
  assumes "first_failure (step_checks obj) = None" "exemption_in parses obj x"
  shows "valid_step (normalised newId obj x)"
proof -
  let ?g = "obj_get obj"
  from assms(1) have c: "iso_in (?g ''effectiveFrom'')" "absent_or (?g ''effectiveTo'') (iso_in (?g ''effectiveTo''))"
    "absent_or (?g ''effectiveTo'') (js_less (the (text_of (?g ''effectiveFrom''))) (the (text_of (?g ''effectiveTo''))))"
    "absent_or (?g ''ahacBasePerAnnum'') (holds_in (\<lambda>n. n \<ge> 0) (?g ''ahacBasePerAnnum''))"
    "absent_or (?g ''baseRentPerAnnum'') (holds_in (\<lambda>n. n \<ge> 0) (?g ''baseRentPerAnnum''))"
    "absent_or (?g ''sqm'') (holds_in (\<lambda>n. n \<ge> 0) (?g ''sqm''))"
    "absent_or (?g ''cpiValue'') (holds_in (\<lambda>n. n > 0) (?g ''cpiValue''))"
    "absent_or (?g ''cpiValuePrev'') (holds_in (\<lambda>n. n > 0) (?g ''cpiValuePrev''))"
    "holds_in (\<lambda>n. RATE_MIN \<le> n \<and> n \<le> RATE_MAX) (?g ''ratePercent'')"
    "absent_or (?g ''resolution'') (method_in (?g ''methodKind'') \<noteq> Some MCommencement)"
    "absent_or (?g ''ratchetExempt'') (method_in (?g ''methodKind'') \<noteq> Some MCommencement)"
    unfolding step_checks_iff by blast+
  have rate: "-100 \<le> the (number_in (?g ''ratePercent'')) \<and> the (number_in (?g ''ratePercent'')) \<le> 100"
    using c(9) by (auto simp: holds_in_def RATE_MIN_def RATE_MAX_def split: option.splits)
  have ends: "case text_of (?g ''effectiveTo'') of None \<Rightarrow> True
      | Some e \<Rightarrow> isIsoDate e \<and> js_less (the (text_of (?g ''effectiveFrom''))) e"
    using c(2,3) by (auto simp: absent_or_def iso_in_def number_in_absent split: option.splits)
  have exempt: "?g ''ratchetExempt'' = None \<Longrightarrow> x = None"
    using assms(2) by (auto simp: exemption_in_def split: option.splits)
  show ?thesis
    using iso_in_text [OF c(1)] rate ends exempt c(10,11) holds_in_number [OF c(4)] holds_in_number [OF c(5)] holds_in_number [OF c(6)]
      holds_in_number [OF c(7)] holds_in_number [OF c(8)]
    by (auto simp: valid_step_def normalised_def Let_def nonneg_def positive_def absent_or_def number_in_absent split: option.splits)
qed

section \<open>Storing a step and reading it again\<close>

text \<open>The object \<open>JSON.stringify\<close> writes for a step, the absent fields left out.\<close>

definition opt_field :: "string \<Rightarrow> ('a \<Rightarrow> json) \<Rightarrow> 'a option \<Rightarrow> json_object" where
  "opt_field key to_json v = (case v of None \<Rightarrow> [] | Some x \<Rightarrow> [(key, to_json x)])"

definition key_of :: "(string \<times> 'a) list \<Rightarrow> 'a \<Rightarrow> string" where
  "key_of table v = (case find (\<lambda>(k, w). w = v) table of Some (k, w) \<Rightarrow> k | None \<Rightarrow> '''')"

definition exemption_json :: "ratchet_exemption \<Rightarrow> json" where
  "exemption_json e = JObj [(''at'', JStr (rx_at e)), (''byName'', JStr (rx_byName e)), (''reason'', JStr (rx_reason e))]"

definition step_object :: "rate_step \<Rightarrow> json_object" where
  "step_object s =
     [(''effectiveFrom'', JStr (rs_from s)), (''id'', JStr (rs_id s)), (''ratePercent'', JNum (Num (rs_ratePercent s)))] @
     opt_field ''ahacBasePerAnnum'' (\<lambda>n. JNum (Num n)) (rs_ahacBase s) @ opt_field ''baseRentPerAnnum'' (\<lambda>n. JNum (Num n)) (rs_baseRent s) @
     opt_field ''sqm'' (\<lambda>n. JNum (Num n)) (rs_sqm s) @ opt_field ''effectiveTo'' JStr (rs_to s) @
     opt_field ''methodKind'' (\<lambda>m. JStr (key_of METHOD_KINDS m)) (rs_method s) @ opt_field ''cpiValue'' (\<lambda>n. JNum (Num n)) (rs_cpiValue s) @
     opt_field ''cpiValuePrev'' (\<lambda>n. JNum (Num n)) (rs_cpiValuePrev s) @ opt_field ''note'' JStr (rs_note s) @
     opt_field ''flagComment'' JStr (rs_flagComment s) @ opt_field ''reviewId'' JStr (rs_reviewId s) @
     opt_field ''resolution'' (\<lambda>r. JStr (key_of RESOLUTIONS r)) (rs_resolution s) @ opt_field ''ratchetExempt'' exemption_json (rs_exempt s)"

lemma obj_get_opt_field: "obj_get (opt_field k f v @ rest) key =
    (if k = key then (case v of None \<Rightarrow> obj_get rest key | Some x \<Rightarrow> Some (f x)) else obj_get rest key)"
  by (auto simp: obj_get_def opt_field_def split: option.splits)

lemma obj_get_opt_last: "obj_get (opt_field k f v) key = (if k = key then map_option f v else None)"
  by (auto simp: obj_get_def opt_field_def split: option.splits)

lemma obj_get_Cons: "obj_get ((k, v) # rest) key = (if k = key then Some v else obj_get rest key)"
  by (simp add: obj_get_def)

lemma step_object_get:
  "obj_get (step_object s) ''effectiveFrom'' = Some (JStr (rs_from s))"
  "obj_get (step_object s) ''id'' = Some (JStr (rs_id s))"
  "obj_get (step_object s) ''ratePercent'' = Some (JNum (Num (rs_ratePercent s)))"
  "obj_get (step_object s) ''ahacBasePerAnnum'' = map_option (\<lambda>n. JNum (Num n)) (rs_ahacBase s)"
  "obj_get (step_object s) ''baseRentPerAnnum'' = map_option (\<lambda>n. JNum (Num n)) (rs_baseRent s)"
  "obj_get (step_object s) ''sqm'' = map_option (\<lambda>n. JNum (Num n)) (rs_sqm s)"
  "obj_get (step_object s) ''effectiveTo'' = map_option JStr (rs_to s)"
  "obj_get (step_object s) ''methodKind'' = map_option (\<lambda>m. JStr (key_of METHOD_KINDS m)) (rs_method s)"
  "obj_get (step_object s) ''cpiValue'' = map_option (\<lambda>n. JNum (Num n)) (rs_cpiValue s)"
  "obj_get (step_object s) ''cpiValuePrev'' = map_option (\<lambda>n. JNum (Num n)) (rs_cpiValuePrev s)"
  "obj_get (step_object s) ''note'' = map_option JStr (rs_note s)"
  "obj_get (step_object s) ''flagComment'' = map_option JStr (rs_flagComment s)"
  "obj_get (step_object s) ''reviewId'' = map_option JStr (rs_reviewId s)"
  "obj_get (step_object s) ''resolution'' = map_option (\<lambda>r. JStr (key_of RESOLUTIONS r)) (rs_resolution s)"
  "obj_get (step_object s) ''ratchetExempt'' = map_option exemption_json (rs_exempt s)"
  by (simp_all add: step_object_def obj_get_Cons obj_get_opt_field obj_get_opt_last split: option.splits)

lemma known_step_object: "known_keys (step_object s)"
proof -
  have "k \<in> set STEP_KEYS" if "k \<in> fst ` set (step_object s)" for k
    using that by (auto simp: step_object_def opt_field_def STEP_KEYS_def split: option.splits)
  then show ?thesis by (force simp: known_keys_def find_None_iff)
qed

lemma method_in_key: "method_in (Some (JStr (key_of METHOD_KINDS m))) = Some m"
  by (cases m) (simp_all add: method_in_def text_of_def key_of_def METHOD_KINDS_def)

lemma resolution_in_key: "resolution_in (Some (JStr (key_of RESOLUTIONS r))) = Some r"
  by (cases r) (simp_all add: resolution_in_def text_of_def key_of_def RESOLUTIONS_def)

lemma read_back_number: "number_in (map_option (\<lambda>n. JNum (Num n)) a) = a" "number_in (Some (JNum (Num q))) = Some q"
  by (cases a) (simp_all add: number_in_def)

lemma read_back_text: "text_of (map_option JStr t) = t" "text_of (Some (JStr u)) = Some u"
  by (cases t) (simp_all add: text_of_def)

lemma read_back_method: "method_in (map_option (\<lambda>m. JStr (key_of METHOD_KINDS m)) m) = m"
  by (cases m) (simp_all only: option.map method_in_key, simp add: method_in_def text_of_def)

lemma read_back_resolution: "resolution_in (map_option (\<lambda>r. JStr (key_of RESOLUTIONS r)) r) = r"
  by (cases r) (simp_all only: option.map resolution_in_key, simp add: resolution_in_def text_of_def)

lemmas read_back = read_back_number read_back_text read_back_method read_back_resolution

lemma short_text_again: "short_text limit v = Some s \<Longrightarrow> short_text limit (Some (JStr s)) = Some s"
  by (auto simp: short_text_def text_of_def split: option.splits json.splits if_splits)

lemma exemption_again:
  assumes "validateRatchetExemption parses v = Inr e"
  shows "validateRatchetExemption parses (exemption_json e) = Inr e"
proof -
  from assms obtain obj where "v = JObj obj"
      and "short_text EXEMPTION_NAME_MAX (obj_get obj ''byName'') = Some (rx_byName e)"
      and "short_text EXEMPTION_AT_MAX (obj_get obj ''at'') = Some (rx_at e)" "parses (rx_at e)"
      and "short_text EXEMPTION_REASON_MAX (obj_get obj ''reason'') = Some (rx_reason e)"
    by (auto simp: validateRatchetExemption_def split: json.splits option.splits if_splits)
  from this(2,3,5) [THEN short_text_again] this(4) show ?thesis
    by (simp add: validateRatchetExemption_def exemption_json_def obj_get_def)
qed

text \<open>A check on a field carries over to the stored field.\<close>

lemma carried_number: "absent_or v (holds_in p v) \<Longrightarrow>
    absent_or (map_option (\<lambda>n. JNum (Num n)) (number_in v)) (holds_in p (map_option (\<lambda>n. JNum (Num n)) (number_in v)))"
  by (auto simp: absent_or_def holds_in_def number_in_def split: option.splits json.splits)

lemma carried_text: "absent_or v (text_within k v) \<Longrightarrow>
    absent_or (map_option JStr (text_of v)) (text_within k (map_option JStr (text_of v)))"
  by (auto simp: absent_or_def text_within_def read_back number_in_absent split: option.splits)

lemma carried_iso: "absent_or v (iso_in v) \<Longrightarrow>
    absent_or (map_option JStr (text_of v)) (iso_in (map_option JStr (text_of v)))"
  by (auto simp: absent_or_def iso_in_def read_back number_in_absent split: option.splits)

lemma absent_or_True: "absent_or v True"
  by (simp add: absent_or_def)

lemma stored_checks:
  assumes c: "first_failure (step_checks obj) = None" and e: "exemption_in parses obj x" and u: "isUuidShaped (JStr newId)"
  defines "s \<equiv> normalised newId obj x"
  shows "first_failure (step_checks (step_object s)) = None \<and> rs_id s \<noteq> ''''"
proof -
  let ?g = "obj_get obj"
  note checks = c [unfolded step_checks_iff]
  have k_id: "absent_or (?g ''id'') (?g ''id'' = Some (JStr '''') \<or> isUuidShaped (the (?g ''id'')))" using checks by blast
  have k_from: "iso_in (?g ''effectiveFrom'')" using checks by blast
  have k_rate: "holds_in (\<lambda>n. RATE_MIN \<le> n \<and> n \<le> RATE_MAX) (?g ''ratePercent'')" using checks by blast
  have k_ends: "absent_or (?g ''effectiveTo'') (js_less (the (text_of (?g ''effectiveFrom''))) (the (text_of (?g ''effectiveTo''))))"
    using checks by blast
  have k_rid: "absent_or (?g ''reviewId'')
      (text_within REVIEW_ID_MAX_LEN (?g ''reviewId'') \<and> js_trim (the (text_of (?g ''reviewId''))) \<noteq> '''')" using checks by blast
  have k_comm: "absent_or (?g ''resolution'') (method_in (?g ''methodKind'') \<noteq> Some MCommencement)"
    "absent_or (?g ''ratchetExempt'') (method_in (?g ''methodKind'') \<noteq> Some MCommencement)" using checks by blast+
  have id: "isUuidShaped (JStr (rs_id s)) \<and> rs_id s \<noteq> ''''"
    using k_id u by (auto simp: s_def normalised_def Let_def absent_or_def text_of_def isUuidShaped_def split: option.splits json.splits)
  have f: "rs_ahacBase s = number_in (?g ''ahacBasePerAnnum'')" "rs_baseRent s = number_in (?g ''baseRentPerAnnum'')"
    "rs_sqm s = number_in (?g ''sqm'')" "rs_to s = text_of (?g ''effectiveTo'')" "rs_cpiValue s = number_in (?g ''cpiValue'')"
    "rs_cpiValuePrev s = number_in (?g ''cpiValuePrev'')" "rs_note s = text_of (?g ''note'')"
    "rs_flagComment s = text_of (?g ''flagComment'')" "rs_reviewId s = text_of (?g ''reviewId'')"
    "rs_method s = method_in (?g ''methodKind'')" "rs_resolution s = resolution_in (?g ''resolution'')" "rs_exempt s = x"
    "rs_from s = the (text_of (?g ''effectiveFrom''))" "rs_ratePercent s = the (number_in (?g ''ratePercent''))"
    by (simp_all add: s_def normalised_def Let_def)
  have starts: "iso_in (Some (JStr (rs_from s)))" and rate: "holds_in (\<lambda>n. RATE_MIN \<le> n \<and> n \<le> RATE_MAX) (Some (JNum (Num (rs_ratePercent s))))"
    using k_from k_rate by (auto simp: f iso_in_def holds_in_def read_back split: option.splits)
  have ends: "absent_or (map_option JStr (rs_to s)) (js_less (rs_from s) (the (rs_to s)))"
    using k_ends by (auto simp: f absent_or_def number_in_absent)
  have rid: "absent_or (map_option JStr (rs_reviewId s))
      (text_within REVIEW_ID_MAX_LEN (map_option JStr (rs_reviewId s)) \<and> js_trim (the (rs_reviewId s)) \<noteq> '''')"
    using k_rid by (auto simp: f absent_or_def text_within_def read_back number_in_absent split: option.splits)
  have kinds: "absent_or (map_option (\<lambda>m. JStr (key_of METHOD_KINDS m)) (rs_method s)) (rs_method s \<noteq> None)"
    "absent_or (map_option (\<lambda>r. JStr (key_of RESOLUTIONS r)) (rs_resolution s)) (rs_resolution s \<noteq> None)"
    by (auto simp: absent_or_def)
  have comm: "absent_or (map_option (\<lambda>r. JStr (key_of RESOLUTIONS r)) (rs_resolution s)) (rs_method s \<noteq> Some MCommencement)"
    "absent_or (map_option exemption_json (rs_exempt s)) (rs_method s \<noteq> Some MCommencement)"
    using k_comm e by (auto simp: f absent_or_def number_in_absent exemption_in_def split: option.splits)
  show ?thesis
    using id starts rate ends rid kinds comm checks
    by (simp add: step_checks_iff step_object_get read_back absent_or_True f(1-3,5-8) carried_number carried_text
        carried_iso [of "?g ''effectiveTo''", folded f(4)])
qed

text \<open>C36: What the validator lets through is well formed, and what is stored of it is accepted again and reads back as
  the same step, whatever id would be made for a new one.\<close>

theorem validated_steps_stable:
  assumes "validateStep parses newId raw = Inr s" "isUuidShaped (JStr newId)"
  shows "valid_step s \<and> validateStep parses other (JObj (step_object s)) = Inr s"
proof -
  from assms(1) obtain obj x where raw: "known_keys obj" "first_failure (step_checks obj) = None" "exemption_in parses obj x"
    "s = normalised newId obj x" by (rule validateStepE)
  have checks: "first_failure (step_checks (step_object s)) = None" "rs_id s \<noteq> ''''"
    using stored_checks [OF raw(2,3) assms(2)] raw(4) by simp_all
  have x: "rs_exempt s = x" using raw(4) by (simp add: normalised_def Let_def)
  have "exemption_in parses (step_object s) x"
    using raw(3) x by (auto simp: exemption_in_def step_object_get exemption_again split: option.splits)
  moreover have "normalised other (step_object s) x = s"
    using checks(2) x by (simp add: normalised_def Let_def step_object_get read_back)
  ultimately show ?thesis
    using validateStepI [OF known_step_object checks(1), of parses x other] normalised_valid [OF raw(2,3)] raw(4) by simp
qed

section \<open>A schedule with a ratchet\<close>

definition plain_step :: "string \<Rightarrow> string \<Rightarrow> method_kind \<Rightarrow> rat \<Rightarrow> rate_step" where
  "plain_step sid effective kind percent =
     \<lparr>rs_id = sid, rs_ahacBase = None, rs_baseRent = None, rs_sqm = None, rs_from = effective, rs_to = None, rs_method = Some kind,
      rs_cpiValue = None, rs_cpiValuePrev = None, rs_ratePercent = percent, rs_note = None, rs_flagComment = None, rs_reviewId = None,
      rs_resolution = None, rs_exempt = None\<rparr>"

definition sample_steps :: "rate_step list" where
  "sample_steps =
     [plain_step ''b'' ''2025-07-01'' MFixed 3,
      (plain_step ''a'' ''2024-07-01'' MCommencement 0)\<lparr>rs_baseRent := Some 100000, rs_sqm := Some 200\<rparr>,
      (plain_step ''c'' ''2026-07-01'' MCpi 0)\<lparr>rs_cpiValue := Some 98, rs_cpiValuePrev := Some 100\<rparr>,
      plain_step ''d'' ''2027-07-01'' MMarket 0, plain_step ''e'' ''2028-07-01'' MFixed 3]"

definition sample_terms :: schedule_terms where
  "sample_terms = \<lparr>st_cpiCap = Some 5, st_cpiFloor = None, st_ratchet = True, st_liveFrom = None\<rparr>"

definition sample_rows :: "schedule_row list" where
  "sample_rows = computeScheduleRows sample_steps 0 0 sample_terms"

lemma sample_computed:
  "map sr_annual sample_rows = [100000, 103000, 103000, 0, 0] \<and>
   map sr_pending sample_rows = [False, False, False, True, True] \<and>
   map sr_sqm sample_rows = [200, 200, 200, 200, 200] \<and>
   map sr_factor sample_rows = [None, Some (103 / 100), Some 1, None, None] \<and>
   map (\<lambda>r. rs_id (sr_step r)) sample_rows = [''a'', ''b'', ''c'', ''d'', ''e'']"
  by code_simp

lemma sample_nth:
  "sr_step (sample_rows ! 0) = (plain_step ''a'' ''2024-07-01'' MCommencement 0)\<lparr>rs_baseRent := Some 100000, rs_sqm := Some 200\<rparr> \<and>
   sr_step (sample_rows ! 1) = plain_step ''b'' ''2025-07-01'' MFixed 3 \<and>
   sr_step (sample_rows ! 2) = (plain_step ''c'' ''2026-07-01'' MCpi 0)\<lparr>rs_cpiValue := Some 98, rs_cpiValuePrev := Some 100\<rparr>"
  by code_simp

lemma sample_valid: "list_all valid_step sample_steps"
  by code_simp

theorem ratchet_holds_rent_witness:
  "sr_annual (sample_rows ! 1) \<le> sr_annual (sample_rows ! Suc 1) \<and> sr_ratchetApplied (sample_rows ! Suc 1)"
proof -
  have "sr_annual (sample_rows ! 1) \<le> sr_annual (sample_rows ! Suc 1)"
  proof (rule ratchet_holds_rent [of sample_steps 0 sample_terms sample_rows 0])
    show "valid_step s" if "s \<in> set sample_steps" for s using that sample_valid by (simp add: list_all_iff)
    show "cap_ok sample_terms" by code_simp
    show "st_ratchet sample_terms" by code_simp
    show "Suc 1 < length sample_rows" by code_simp
    show "\<not> sr_pending (sample_rows ! 1)" "\<not> sr_pending (sample_rows ! Suc 1)" by code_simp+
    show "rs_method (sr_step (sample_rows ! Suc 1)) \<noteq> Some MCommencement" by code_simp
    show "rs_exempt (sr_step (sample_rows ! Suc 1)) = None" by code_simp
    show "explicit_area (sr_step (sample_rows ! Suc 1)) = None" by code_simp
  qed (simp_all add: sample_rows_def)
  moreover have "sr_ratchetApplied (sample_rows ! Suc 1)" by code_simp
  ultimately show ?thesis by simp
qed

theorem cpi_factor_bounds_witness:
  "ro_factor (reviewOutcome ((plain_step ''c'' ''2026-07-01'' MCpi 0)\<lparr>rs_cpiValue := Some 110\<rparr>) (Some 100)
     (sample_terms\<lparr>st_cpiFloor := Some 2\<rparr>)) = 1 + 5 / 100"
proof -
  have "ro_ratchetApplied (reviewOutcome ((plain_step ''c'' ''2026-07-01'' MCpi 0)\<lparr>rs_cpiValue := Some 110\<rparr>) (Some 100)
      (sample_terms\<lparr>st_cpiFloor := Some 2\<rparr>)) = False"
    "1 + 5 / 100 \<le> ro_factor (reviewOutcome ((plain_step ''c'' ''2026-07-01'' MCpi 0)\<lparr>rs_cpiValue := Some 110\<rparr>) (Some 100)
      (sample_terms\<lparr>st_cpiFloor := Some 2\<rparr>))"
    by code_simp+
  then show ?thesis
    using cpi_factor_bounds [of "(plain_step ''c'' ''2026-07-01'' MCpi 0)\<lparr>rs_cpiValue := Some 110\<rparr>"
        "sample_terms\<lparr>st_cpiFloor := Some 2\<rparr>" 2 5 "Some 100"]
    by (simp add: plain_step_def sample_terms_def)
qed

theorem waiting_rows_witness:
  "sr_pending (sample_rows ! 4) \<and> sr_pendingReason (sample_rows ! 4) = Some EarlierReviewPending"
proof -
  have "4 < length sample_rows" "sr_pending (sample_rows ! 4)"
    "or_default (stepPendingReason (sortSteps sample_steps ! 4) (st_liveFrom sample_terms)) (Some EarlierReviewPending) = Some EarlierReviewPending"
    by code_simp+
  then show ?thesis using waiting_rows [OF sample_rows_def refl, of 4] by simp
qed

theorem rent_closed_form_witness:
  "sr_annual (sample_rows ! 2) = r2 (100000 * (\<Prod>k\<in>{0<..2}. the (sr_factor (sample_rows ! k))) * (sr_sqm (sample_rows ! 2) / 200)) \<and>
   sr_annual (sample_rows ! 2) = 103000"
proof -
  have "sr_annual (sample_rows ! 2) = r2 (100000 * (\<Prod>k\<in>{0<..2}. the (sr_factor (sample_rows ! k))) * (sr_sqm (sample_rows ! 2) / 200))"
  proof (rule rent_closed_form [of sample_rows sample_steps 0 0 sample_terms 0 2])
    show "sample_rows = computeScheduleRows sample_steps 0 0 sample_terms" by (rule sample_rows_def)
    show "2 < length sample_rows" by code_simp
    show "rs_method (sr_step (sample_rows ! k)) \<noteq> Some MCommencement \<and> \<not> sr_pending (sample_rows ! k)" if "k \<in> {0<..2}" for k
    proof -
      have "rs_method (sr_step (sample_rows ! 1)) \<noteq> Some MCommencement \<and> \<not> sr_pending (sample_rows ! 1)"
        "rs_method (sr_step (sample_rows ! 2)) \<noteq> Some MCommencement \<and> \<not> sr_pending (sample_rows ! 2)"
        by code_simp+
      moreover from that have "k = 1 \<or> k = 2" by auto
      ultimately show ?thesis by blast
    qed
  qed (auto simp: sample_nth plain_step_def explicit_area_def)
  moreover have "sr_annual (sample_rows ! 2) = 103000" by code_simp
  ultimately show ?thesis by blast
qed

definition sample_body :: json where
  "sample_body =
     JObj [(''effectiveFrom'', JStr ''2026-07-01''), (''methodKind'', JStr ''cpi''), (''ratePercent'', JNum (Num 0)),
       (''ratchetExempt'', JObj [(''byName'', JStr '' Director ''), (''at'', JStr ''2026-06-01''), (''reason'', JStr ''agreed'')])]"

definition sample_id :: string where "sample_id = ''0123456789abcdef0123456789abcdef0123''"

theorem validated_steps_stable_witness:
  "valid_step (projr (validateStep (\<lambda>t. True) sample_id sample_body)) \<and>
   map_option rx_byName (rs_exempt (projr (validateStep (\<lambda>t. True) sample_id sample_body))) = Some ''Director''"
proof -
  have "isl (validateStep (\<lambda>t. True) sample_id sample_body) = False" "isUuidShaped (JStr sample_id)"
    "map_option rx_byName (rs_exempt (projr (validateStep (\<lambda>t. True) sample_id sample_body))) = Some ''Director''"
    by code_simp+
  moreover from this(1) have "validateStep (\<lambda>t. True) sample_id sample_body =
      Inr (projr (validateStep (\<lambda>t. True) sample_id sample_body))" by (metis sum.collapse(2))
  ultimately show ?thesis using validated_steps_stable by blast
qed

end
