(* ===== verification/Rent_Step_Plan.thy ===== *)
theory Rent_Step_Plan
  imports Rent_Schedule_Correct
begin

text \<open>
  Where a rent review lands on the schedule, \<open>src/rentReview/stepPlan.ts\<close>: the row a review settles, the
  schedule with it written, the ways of writing a rent and the search for the exact rate, what a write
  changed, and taking a write back. The engine is the one of \<open>Rent_Schedule\<close>; the bisection runs on exact
  rationals with the bounds of the code.
\<close>

section \<open>The row a review settles\<close>

record schedule_context =
  sc_fallbackAnnual :: rat
  sc_fallbackSqm :: rat
  sc_lease :: schedule_terms
  sc_steps :: "rate_step list"

record review_target =
  rt_method :: method_kind
  rt_newStepId :: string
  rt_reviewId :: string
  rt_scheduledFor :: string
  rt_stepId :: "string option"

datatype review_row_result = RowPlaced rate_step "rate_step option" | RowSettled rate_step

definition on_date :: "review_target \<Rightarrow> rate_step \<Rightarrow> bool" where
  "on_date target step \<longleftrightarrow> rs_from step = rt_scheduledFor target \<and> rs_method step \<noteq> Some MCommencement"

definition added_row :: "rate_step list \<Rightarrow> review_target \<Rightarrow> rate_step" where
  "added_row steps target =
     \<lparr>rs_id = rt_newStepId target, rs_ahacBase = None, rs_baseRent = None, rs_sqm = None, rs_from = rt_scheduledFor target,
      rs_to = map_option rs_from (find (\<lambda>step. js_less (rt_scheduledFor target) (rs_from step)) (sortSteps steps)),
      rs_method = Some (rt_method target), rs_cpiValue = None, rs_cpiValuePrev = None, rs_ratePercent = 0, rs_note = None,
      rs_flagComment = None, rs_reviewId = None, rs_resolution = None, rs_exempt = None\<rparr>"

definition reviewRow :: "rate_step list \<Rightarrow> review_target \<Rightarrow> review_row_result" where
  "reviewRow steps target =
     (let linked = (if text_set (rt_stepId target)
                    then find (\<lambda>step. Some (rs_id step) = rt_stepId target \<and> on_date target step) steps else None);
          existing = or_default linked (find (on_date target) steps)
      in (case existing of
            Some e \<Rightarrow> if rs_resolution e \<noteq> None \<and> rs_reviewId e \<noteq> Some (rt_reviewId target) then RowSettled e else RowPlaced e (Some e)
          | None \<Rightarrow> RowPlaced (added_row steps target) None))"

section \<open>The schedule with a row written\<close>

definition placeStep :: "rate_step list \<Rightarrow> rate_step \<Rightarrow> (rate_step \<times> rate_step) option \<times> rate_step list" where
  "placeStep steps step =
     (case closeOpenPredecessor steps step of
        (ended, withClosed) \<Rightarrow> (ended, normaliseLegacyEnds (upsertStep withClosed step)))"

record simulation =
  si_closed :: "(rate_step \<times> rate_step) option"
  si_steps :: "rate_step list"
  si_row :: "schedule_row option"
  si_rows :: "schedule_row list"

definition simulate :: "schedule_context \<Rightarrow> rate_step \<Rightarrow> simulation" where
  "simulate ctx step =
     (case placeStep (sc_steps ctx) step of
        (ended, steps) \<Rightarrow>
          (let rows = computeScheduleRows steps (sc_fallbackAnnual ctx) (sc_fallbackSqm ctx) (sc_lease ctx)
           in \<lparr>si_closed = ended, si_steps = steps, si_row = find (\<lambda>row. rs_id (sr_step row) = rs_id step) rows, si_rows = rows\<rparr>))"

definition waivedStep :: "rate_step \<Rightarrow> string \<Rightarrow> rate_step" where
  "waivedStep base reviewId = base\<lparr>rs_resolution := Some Waived, rs_reviewId := Some reviewId\<rparr>"

record applied_value =
  av_cpiValue :: "rat option"
  av_cpiValuePrev :: "rat option"
  av_method :: method_kind
  av_ratePercent :: rat

definition appliedStep :: "rate_step \<Rightarrow> string \<Rightarrow> applied_value \<Rightarrow> rate_step" where
  "appliedStep base reviewId v =
     base\<lparr>rs_cpiValue := av_cpiValue v, rs_cpiValuePrev := av_cpiValuePrev v, rs_method := Some (av_method v),
       rs_ratePercent := av_ratePercent v, rs_resolution := Some Applied, rs_reviewId := Some reviewId\<rparr>"

section \<open>The exact rate\<close>

definition RATE_LIMIT :: rat where "RATE_LIMIT = 100"
definition SEARCH_STEPS :: nat where "SEARCH_STEPS = 200"

text \<open>\<open>None\<close> is \<open>NaN\<close>, which every comparison refuses.\<close>

definition annualAt :: "schedule_context \<Rightarrow> (rat \<Rightarrow> rate_step) \<Rightarrow> rat \<Rightarrow> rat option" where
  "annualAt ctx mk rate =
     (case si_row (simulate ctx (mk rate)) of
        Some row \<Rightarrow> if sr_pending row then None else Some (sr_annual row)
      | None \<Rightarrow> None)"

definition is_below :: "rat option \<Rightarrow> rat \<Rightarrow> bool" where
  "is_below v target = (case v of Some a \<Rightarrow> a < target | None \<Rightarrow> False)"

definition is_above :: "rat option \<Rightarrow> rat \<Rightarrow> bool" where
  "is_above v target = (case v of Some a \<Rightarrow> a > target | None \<Rightarrow> False)"

fun widen :: "nat \<Rightarrow> (rat \<Rightarrow> bool) \<Rightarrow> (rat \<Rightarrow> rat) \<Rightarrow> rat \<Rightarrow> rat \<Rightarrow> rat" where
  "widen 0 found place width x = x"
| "widen (Suc n) found place width x = (if found x then x else widen n found place (width * 2) (place (width * 2)))"

fun bisect :: "nat \<Rightarrow> (rat \<Rightarrow> rat option) \<Rightarrow> rat \<Rightarrow> rat \<Rightarrow> rat \<Rightarrow> rat option" where
  "bisect 0 f target lo hi = None"
| "bisect (Suc n) f target lo hi =
     (let mid = (lo + hi) / 2
      in (case f mid of
            None \<Rightarrow> None
          | Some v \<Rightarrow>
              if v = target then (if \<bar>mid\<bar> \<le> RATE_LIMIT then Some mid else None)
              else (let lo' = (if v < target then mid else lo); hi' = (if v < target then hi else mid)
                    in if hi' - lo' < 1 / 10 ^ 15 then None else bisect n f target lo' hi')))"

definition exactRate :: "schedule_context \<Rightarrow> (rat \<Rightarrow> rate_step) \<Rightarrow> rat \<Rightarrow> rat \<Rightarrow> rat option" where
  "exactRate ctx mk currentAnnual target =
     (let f = annualAt ctx mk
      in if \<not> currentAnnual > 0 then None
         else
           (let start = (target / currentAnnual - 1) * 100
            in if \<bar>start\<bar> \<le> RATE_LIMIT \<and> f start = Some target then Some start
               else
                 (let width = (1 / 50 / currentAnnual) * 100;
                      lo = widen 40 (\<lambda>x. is_below (f x) target) (\<lambda>w. start - w) width (start - width);
                      hi = widen 40 (\<lambda>x. is_above (f x) target) (\<lambda>w. start + w) width (start + width)
                  in if \<not> is_below (f lo) target \<or> \<not> is_above (f hi) target then None
                     else bisect SEARCH_STEPS f target lo hi)))"

section \<open>The ways of writing a rent\<close>

datatype representation = Natural | MethodRate | OtherRate

record represent_input =
  ri_base :: rate_step
  ri_context :: schedule_context
  ri_currentAnnual :: rat
  ri_cpi :: "(rat \<times> rat) option" \<comment> \<open>\<open>{ current, previous }\<close>\<close>
  ri_departs :: bool
  ri_method :: method_kind \<comment> \<open>\<open>"cpi" | "fixed" | "other"\<close>\<close>
  ri_naturalRate :: rat
  ri_exempt :: "ratchet_exemption option"
  ri_reviewId :: string
  ri_target :: rat

record represented =
  rp_representation :: representation
  rp_row :: schedule_row
  rp_simulation :: simulation
  rp_step :: rate_step

definition with_exemption :: "ratchet_exemption option \<Rightarrow> rate_step \<Rightarrow> rate_step" where
  "with_exemption exemption step = (case exemption of Some e \<Rightarrow> step\<lparr>rs_exempt := Some e\<rparr> | None \<Rightarrow> step)"

definition accept_step :: "represent_input \<Rightarrow> rate_step \<Rightarrow> representation \<Rightarrow> represented option" where
  "accept_step inp candidate rep =
     (let step = with_exemption (ri_exempt inp) candidate; sim = simulate (ri_context inp) step
      in (case si_row sim of
            Some row \<Rightarrow>
              if \<not> sr_pending row \<and> sr_annual row = ri_target inp
              then Some \<lparr>rp_representation = rep, rp_row = row, rp_simulation = sim, rp_step = step\<rparr> else None
          | None \<Rightarrow> None))"

definition rated_step :: "represent_input \<Rightarrow> (rat \<times> rat) option \<Rightarrow> method_kind \<Rightarrow> rat \<Rightarrow> rate_step" where
  "rated_step inp pair kind rate =
     appliedStep (ri_base inp) (ri_reviewId inp)
       \<lparr>av_cpiValue = map_option fst pair, av_cpiValuePrev = map_option snd pair, av_method = kind, av_ratePercent = rate\<rparr>"

text \<open>The row at the exact rate of a method, where there is one.\<close>

definition at_exact_rate :: "represent_input \<Rightarrow> (rat \<Rightarrow> rate_step) \<Rightarrow> representation \<Rightarrow> represented option" where
  "at_exact_rate inp mk rep =
     (let exempted = (\<lambda>rate. with_exemption (ri_exempt inp) (mk rate))
      in (case exactRate (ri_context inp) exempted (ri_currentAnnual inp) (ri_target inp) of
            None \<Rightarrow> None
          | Some rate \<Rightarrow> accept_step inp (exempted rate) rep))"

definition representStep :: "represent_input \<Rightarrow> represented option" where
  "representStep inp =
     (let natural =
            (if ri_method inp = MCpi \<and> ri_cpi inp \<noteq> None \<and> \<not> ri_departs inp
             then accept_step inp (rated_step inp (ri_cpi inp) MCpi (ri_naturalRate inp)) Natural
             else if ri_method inp = MFixed
             then or_default (accept_step inp (rated_step inp None MFixed (ri_naturalRate inp)) Natural)
                    (at_exact_rate inp (rated_step inp None MFixed) MethodRate)
             else None)
      in or_default natural (at_exact_rate inp (rated_step inp (ri_cpi inp) MOther) OtherRate))"

definition rentPerAnnumIsCache :: "rate_step list \<Rightarrow> bool" where
  "rentPerAnnumIsCache steps =
     (case sortSteps steps of
        first # _ \<Rightarrow> rs_method first = Some MCommencement \<and> rs_baseRent first \<noteq> None
      | [] \<Rightarrow> False)"

section \<open>What a write changed\<close>

record step_change =
  ch_after :: rate_step
  ch_before :: "rate_step option"

definition changed_rows :: "rate_step list \<Rightarrow> rate_step list \<Rightarrow> step_change list" where
  "changed_rows before after =
     List.map_filter
       (\<lambda>step. case find (\<lambda>c. rs_id c = rs_id step) before of
                 None \<Rightarrow> Some \<lparr>ch_after = step, ch_before = None\<rparr>
               | Some prior \<Rightarrow> if diffSteps prior step \<noteq> None then Some \<lparr>ch_after = step, ch_before = Some prior\<rparr> else None)
       after"

definition stepChanges :: "rate_step list \<Rightarrow> rate_step list \<Rightarrow> string \<Rightarrow> step_change list" where
  "stepChanges before after reviewStepId =
     sort_by (\<lambda>a b. (if rs_id (ch_after b) = reviewStepId then 1 else 0) - (if rs_id (ch_after a) = reviewStepId then 1 else 0))
       (changed_rows before after)"

section \<open>Taking a write back\<close>

datatype change_kind = ChAdded | ChDeleted | ChUpdated

record logged_change =
  lc_kind :: change_kind
  lc_diff :: "step_diff option"
  lc_snapshot :: rate_step
  lc_stepId :: string

fun read_text :: "field_value option \<Rightarrow> string option" where
  "read_text (Some (VText t)) = Some t" | "read_text _ = None"
fun read_number :: "field_value option \<Rightarrow> rat option" where
  "read_number (Some (VNum n)) = Some n" | "read_number _ = None"
fun read_method :: "field_value option \<Rightarrow> method_kind option" where
  "read_method (Some (VMethod m)) = Some m" | "read_method _ = None"
fun read_resolution :: "field_value option \<Rightarrow> step_resolution option" where
  "read_resolution (Some (VResolution r)) = Some r" | "read_resolution _ = None"
fun read_exempt :: "field_value option \<Rightarrow> ratchet_exemption option" where
  "read_exempt (Some (VExempt e)) = Some e" | "read_exempt _ = None"

text \<open>\<open>prior[field] = from\<close>, or its removal; the two required fields are never absent in a diff.\<close>

fun set_field :: "step_field \<Rightarrow> field_value option \<Rightarrow> rate_step \<Rightarrow> rate_step" where
  "set_field FFrom v s = (case read_text v of Some t \<Rightarrow> s\<lparr>rs_from := t\<rparr> | None \<Rightarrow> s)"
| "set_field FTo v s = s\<lparr>rs_to := read_text v\<rparr>"
| "set_field FMethod v s = s\<lparr>rs_method := read_method v\<rparr>"
| "set_field FRatePercent v s = (case read_number v of Some n \<Rightarrow> s\<lparr>rs_ratePercent := n\<rparr> | None \<Rightarrow> s)"
| "set_field FBaseRent v s = s\<lparr>rs_baseRent := read_number v\<rparr>"
| "set_field FAhacBase v s = s\<lparr>rs_ahacBase := read_number v\<rparr>"
| "set_field FSqm v s = s\<lparr>rs_sqm := read_number v\<rparr>"
| "set_field FCpiValue v s = s\<lparr>rs_cpiValue := read_number v\<rparr>"
| "set_field FCpiValuePrev v s = s\<lparr>rs_cpiValuePrev := read_number v\<rparr>"
| "set_field FNote v s = s\<lparr>rs_note := read_text v\<rparr>"
| "set_field FFlagComment v s = s\<lparr>rs_flagComment := read_text v\<rparr>"
| "set_field FReviewId v s = s\<lparr>rs_reviewId := read_text v\<rparr>"
| "set_field FResolution v s = s\<lparr>rs_resolution := read_resolution v\<rparr>"
| "set_field FExempt v s = s\<lparr>rs_exempt := read_exempt v\<rparr>"

definition priorStep :: "logged_change \<Rightarrow> rate_step" where
  "priorStep change =
     fold (\<lambda>(field, old, upd). set_field field old) (case lc_diff change of Some d \<Rightarrow> d | None \<Rightarrow> []) (lc_snapshot change)"

record restored_step =
  re_after :: "rate_step option"
  re_before :: rate_step
  re_stepId :: string

datatype undo_result = Undone "restored_step list" "rate_step list" | ChangedSince string

fun undo_from :: "rate_step list \<Rightarrow> restored_step list \<Rightarrow> logged_change list \<Rightarrow> undo_result" where
  "undo_from steps restored [] = Undone restored steps"
| "undo_from steps restored (change # changes) =
     (let sid = lc_stepId change
      in (case find (\<lambda>s. rs_id s = sid) steps of
            None \<Rightarrow> ChangedSince sid
          | Some current \<Rightarrow>
              if current \<noteq> lc_snapshot change then ChangedSince sid
              else (case lc_kind change of
                      ChAdded \<Rightarrow>
                        undo_from (filter (\<lambda>s. rs_id s \<noteq> sid) steps)
                          (restored @ [\<lparr>re_after = None, re_before = current, re_stepId = sid\<rparr>]) changes
                    | ChUpdated \<Rightarrow>
                        (let prior = priorStep change
                         in undo_from (map (\<lambda>s. if rs_id s = sid then prior else s) steps)
                              (restored @ [\<lparr>re_after = Some prior, re_before = current, re_stepId = sid\<rparr>]) changes)
                    | ChDeleted \<Rightarrow> ChangedSince sid)))"

definition undoChanges :: "rate_step list \<Rightarrow> logged_change list \<Rightarrow> undo_result" where
  "undoChanges steps changes = undo_from steps [] (rev changes)"

end
