(* ===== verification/Rent_Step_Plan_Correct.thy ===== *)
theory Rent_Step_Plan_Correct
  imports Rent_Step_Plan
begin

text \<open>
  What holds of writing a rent review on the schedule: a write keeps the other rows and can be taken back
  exactly, the rent that is written is the rent that was asked for, and the search for the rate is bounded
  and complete for a rent the first guess reaches.
\<close>

section \<open>Fields and differences\<close>

lemma inj_values: "inj VText" "inj VNum" "inj VMethod" "inj VResolution" "inj VExempt"
  by (simp_all add: inj_def)

lemmas map_values_eq [simp] = inj_values [THEN option.inj_map, THEN inj_eq]

lemma step_eqI: "rs_id p = rs_id q \<Longrightarrow> (\<And>f. get_field f p = get_field f q) \<Longrightarrow> p = q"
proof -
  assume id: "rs_id p = rs_id q" and eq: "\<And>f. get_field f p = get_field f q"
  note e = eq [of FFrom] eq [of FTo] eq [of FMethod] eq [of FRatePercent] eq [of FBaseRent] eq [of FAhacBase] eq [of FSqm]
    eq [of FCpiValue] eq [of FCpiValuePrev] eq [of FNote] eq [of FFlagComment] eq [of FReviewId] eq [of FResolution] eq [of FExempt]
  show "p = q" using id e by simp
qed

lemma DIFF_FIELDS_all [simp]: "f \<in> set DIFF_FIELDS" "distinct DIFF_FIELDS"
  by (cases f) (simp_all add: DIFF_FIELDS_def)

lemma diffSteps_None: "rs_id p = rs_id q \<Longrightarrow> diffSteps p q = None \<longleftrightarrow> p = q"
proof
  assume "rs_id p = rs_id q" "diffSteps p q = None"
  then show "p = q" by (intro step_eqI) (auto simp: diffSteps_def Let_def filter_empty_conv split: if_splits)
qed (simp add: diffSteps_def)

lemma read_values:
  "read_text (map_option VText a) = a" "read_number (map_option VNum n) = n" "read_method (map_option VMethod m) = m"
  "read_resolution (map_option VResolution r) = r" "read_exempt (map_option VExempt e) = e"
  by (cases a; cases n; cases m; cases r; cases e; simp)+

lemma set_field_id [simp]: "rs_id (set_field f v s) = rs_id s"
  by (cases f) (auto split: option.splits)

lemma get_set_same: "get_field f (set_field f (get_field f p) s) = get_field f p"
  by (cases f) (simp_all add: read_values)

lemma get_set_other: "f \<noteq> g \<Longrightarrow> get_field g (set_field f v s) = get_field g s"
  by (cases f; cases g) (auto split: option.splits)

lemma restore_fields:
  assumes "distinct fs"
  shows "get_field g (fold (\<lambda>(field, old, upd). set_field field old) (map (\<lambda>f. (f, get_field f p, get_field f q)) fs) s) =
    (if g \<in> set fs then get_field g p else get_field g s)"
  using assms by (induction fs arbitrary: s) (auto simp: get_set_same get_set_other)

lemma restore_id: "rs_id (fold (\<lambda>(field, old, upd). set_field field old) d s) = rs_id s"
  by (induction d arbitrary: s) auto

definition log_entry :: "step_change \<Rightarrow> logged_change" where
  "log_entry ch =
     \<lparr>lc_kind = (case ch_before ch of None \<Rightarrow> ChAdded | Some _ \<Rightarrow> ChUpdated),
      lc_diff = (case ch_before ch of None \<Rightarrow> None | Some b \<Rightarrow> diffSteps b (ch_after ch)),
      lc_snapshot = ch_after ch, lc_stepId = rs_id (ch_after ch)\<rparr>"

lemma priorStep_logged:
  assumes "rs_id b = rs_id a"
  shows "priorStep (log_entry \<lparr>ch_after = a, ch_before = Some b\<rparr>) = b"
proof (rule step_eqI)
  let ?fs = "filter (\<lambda>f. get_field f b \<noteq> get_field f a) DIFF_FIELDS"
  have d: "(case diffSteps b a of Some d \<Rightarrow> d | None \<Rightarrow> []) = map (\<lambda>f. (f, get_field f b, get_field f a)) ?fs"
    by (simp add: diffSteps_def Let_def)
  show "rs_id (priorStep (log_entry \<lparr>ch_after = a, ch_before = Some b\<rparr>)) = rs_id b"
    using assms by (simp add: priorStep_def log_entry_def restore_id)
  show "get_field f (priorStep (log_entry \<lparr>ch_after = a, ch_before = Some b\<rparr>)) = get_field f b" for f
    by (simp add: priorStep_def log_entry_def d restore_fields)
qed

section \<open>Undoing is restoring row by row\<close>

definition row_with :: "rate_step list \<Rightarrow> string \<Rightarrow> rate_step option" where
  "row_with steps sid = find (\<lambda>c. rs_id c = sid) steps"

text \<open>The rows with those in \<open>S\<close> already taken back to \<open>before\<close>.\<close>

definition taken_back :: "rate_step list \<Rightarrow> string set \<Rightarrow> rate_step list \<Rightarrow> rate_step list" where
  "taken_back before S after = List.map_filter (\<lambda>s. if rs_id s \<in> S then row_with before (rs_id s) else Some s) after"

lemma row_with_Some: "row_with steps sid = Some s \<Longrightarrow> s \<in> set steps \<and> rs_id s = sid"
  by (auto simp: row_with_def find_Some_iff)

lemma taken_back_simps:
  "taken_back before S [] = []"
  "taken_back before S (s # after) =
     (case (if rs_id s \<in> S then row_with before (rs_id s) else Some s) of
        None \<Rightarrow> taken_back before S after | Some r \<Rightarrow> r # taken_back before S after)"
  by (simp_all add: taken_back_def List.map_filter_def split: option.splits)

lemma ids_taken_back: "rs_id ` set (taken_back before S after) \<subseteq> rs_id ` set after"
  by (induction after) (auto simp: taken_back_simps split: option.splits if_splits dest: row_with_Some)

lemma find_taken_back:
  assumes "distinct (map rs_id after)" "a \<in> set after" "rs_id a \<notin> S"
  shows "find (\<lambda>s. rs_id s = rs_id a) (taken_back before S after) = Some a"
  using assms(1,2)
proof (induction after)
  case (Cons s after)
  show ?case
  proof (cases "s = a")
    case True
    with assms(3) show ?thesis by (simp add: taken_back_simps)
  next
    case False
    with Cons.prems have "a \<in> set after" "rs_id s \<noteq> rs_id a" by auto
    with Cons show ?thesis by (auto simp: taken_back_simps split: option.splits dest: row_with_Some)
  qed
qed simp

lemma taken_back_added:
  assumes "distinct (map rs_id after)" "a \<in> set after" "rs_id a \<notin> S" "row_with before (rs_id a) = None"
  shows "filter (\<lambda>s. rs_id s \<noteq> rs_id a) (taken_back before S after) = taken_back before (insert (rs_id a) S) after"
  using assms(1)
  by (induction after) (use assms(3,4) in \<open>auto simp: taken_back_simps split: option.splits dest: row_with_Some\<close>)

lemma taken_back_updated:
  assumes "rs_id a \<notin> S" "row_with before (rs_id a) = Some b"
  shows "map (\<lambda>s. if rs_id s = rs_id a then b else s) (taken_back before S after) = taken_back before (insert (rs_id a) S) after"
  by (induction after) (use assms row_with_Some [of before] in \<open>auto simp: taken_back_simps split: option.splits dest: row_with_Some\<close>)

definition sound_change :: "rate_step list \<Rightarrow> rate_step list \<Rightarrow> step_change \<Rightarrow> bool" where
  "sound_change before after ch \<longleftrightarrow> ch_after ch \<in> set after \<and> ch_before ch = row_with before (rs_id (ch_after ch))"

lemma undo_from_taken_back:
  assumes "distinct (map rs_id after)" "\<And>ch. ch \<in> set chs \<Longrightarrow> sound_change before after ch"
    and "distinct (map (\<lambda>ch. rs_id (ch_after ch)) chs)" "\<And>ch. ch \<in> set chs \<Longrightarrow> rs_id (ch_after ch) \<notin> S"
  shows "\<exists>r. undo_from (taken_back before S after) restored (map log_entry chs) =
    Undone r (taken_back before (S \<union> (\<lambda>ch. rs_id (ch_after ch)) ` set chs) after)"
  using assms(2-)
proof (induction chs arbitrary: S restored)
  case Nil
  then show ?case by simp
next
  case (Cons ch chs)
  let ?a = "ch_after ch"
  from Cons.prems(1) [of ch] have s: "?a \<in> set after" "ch_before ch = row_with before (rs_id ?a)" by (simp_all add: sound_change_def)
  from Cons.prems(3) [of ch] have n: "rs_id ?a \<notin> S" by simp
  note found = find_taken_back [OF assms(1) s(1) n]
  have IH: "\<exists>r. undo_from (taken_back before (insert (rs_id ?a) S) after) r0 (map log_entry chs) =
      Undone r (taken_back before (insert (rs_id ?a) S \<union> (\<lambda>ch. rs_id (ch_after ch)) ` set chs) after)" for r0
    using Cons.prems by (intro Cons.IH) (auto simp: image_iff eq_commute)
  show ?case
  proof (cases "ch_before ch")
    case None
    have l: "lc_stepId (log_entry ch) = rs_id ?a" "lc_snapshot (log_entry ch) = ?a" "lc_kind (log_entry ch) = ChAdded"
      using None by (simp_all add: log_entry_def)
    have "row_with before (rs_id ?a) = None" using s(2) None by simp
    note gone = taken_back_added [OF assms(1) s(1) n this]
    show ?thesis using IH by (simp add: Let_def l found gone)
  next
    case (Some b)
    then have b1: "row_with before (rs_id ?a) = Some b" using s(2) by simp
    with row_with_Some [OF this] have b: "row_with before (rs_id ?a) = Some b" "rs_id b = rs_id ?a" by simp_all
    have p: "priorStep (log_entry ch) = b" using priorStep_logged [OF b(2)] Some by (cases ch) simp
    have l: "lc_stepId (log_entry ch) = rs_id ?a" "lc_snapshot (log_entry ch) = ?a" "lc_kind (log_entry ch) = ChUpdated"
      using Some by (simp_all add: log_entry_def)
    show ?thesis using IH by (simp add: Let_def l found p taken_back_updated [OF n b(1)])
  qed
qed

section \<open>A write and its undoing\<close>

lemma set_map_filter: "y \<in> set (List.map_filter f xs) \<longleftrightarrow> (\<exists>x\<in>set xs. f x = Some y)"
  by (force simp: List.map_filter_def)

lemma set_changed_rows:
  "ch \<in> set (changed_rows before after) \<longleftrightarrow> ch_after ch \<in> set after \<and>
     (case row_with before (rs_id (ch_after ch)) of
        None \<Rightarrow> ch_before ch = None
      | Some prior \<Rightarrow> diffSteps prior (ch_after ch) \<noteq> None \<and> ch_before ch = Some prior)"
  unfolding changed_rows_def set_map_filter row_with_def
  by (cases ch) (auto split: option.splits if_splits intro!: bexI [of _ "ch_after ch"])

lemma ids_changed_rows:
  "map (\<lambda>ch. rs_id (ch_after ch)) (changed_rows before after) =
     map rs_id (filter (\<lambda>s. case row_with before (rs_id s) of None \<Rightarrow> True | Some prior \<Rightarrow> diffSteps prior s \<noteq> None) after)"
proof (induction after)
  case (Cons s after)
  have "changed_rows before (s # after) =
      (case row_with before (rs_id s) of
         None \<Rightarrow> [\<lparr>ch_after = s, ch_before = None\<rparr>]
       | Some prior \<Rightarrow> if diffSteps prior s \<noteq> None then [\<lparr>ch_after = s, ch_before = Some prior\<rparr>] else []) @ changed_rows before after"
    by (simp add: changed_rows_def List.map_filter_def row_with_def split: option.splits)
  with Cons show ?case by (simp split: option.splits)
qed (simp add: changed_rows_def List.map_filter_def)

lemma distinct_changed_rows: "distinct (map rs_id after) \<Longrightarrow> distinct (map (\<lambda>ch. rs_id (ch_after ch)) (changed_rows before after))"
  unfolding ids_changed_rows by (rule distinct_map_filter)

lemma distinct_map_insert_by: "distinct (map f (insert_by cmp x xs)) \<longleftrightarrow> f x \<notin> f ` set xs \<and> distinct (map f xs)"
  by (induction xs) auto

lemma distinct_map_sort_by: "distinct (map f (sort_by cmp xs)) \<longleftrightarrow> distinct (map f xs)"
  by (induction xs) (auto simp: distinct_map_insert_by)

lemma row_with_nth:
  assumes "distinct (map rs_id before)" "b \<in> set before"
  shows "row_with before (rs_id b) = Some b"
  using assms by (induction before) (auto simp: row_with_def)

lemma taken_back_all:
  assumes "map rs_id after = map rs_id before @ added" "distinct (map rs_id after)"
    and "\<And>s. s \<in> set after \<Longrightarrow> rs_id s \<in> S \<or> row_with before (rs_id s) = Some s"
  shows "taken_back before S after = before"
proof -
  obtain kept extra where split: "after = kept @ extra" "map rs_id kept = map rs_id before" "map rs_id extra = added"
    using assms(1) by (auto simp: map_eq_append_conv)
  have db: "distinct (map rs_id before)" using assms(1,2) by simp
  have none: "taken_back before S extra = []"
  proof -
    have "row_with before (rs_id s) = None \<and> rs_id s \<in> S" if "s \<in> set extra" for s
    proof -
      have "rs_id s \<in> set added" using that split(3) by auto
      then have "rs_id s \<notin> rs_id ` set before" using assms(1,2) by auto
      then have "row_with before (rs_id s) = None" 
        using row_with_Some [of before "rs_id s"] by (metis image_iff not_None_eq)
      with assms(3) [of s] that split(1) show ?thesis by auto
    qed
    then show ?thesis by (induction extra) (auto simp: taken_back_simps)
  qed
  have each: "(if rs_id s \<in> S then row_with before (rs_id s) else Some s) = Some b"
    if "s \<in> set after" "b \<in> set before" "rs_id s = rs_id b" for s b
    using assms(3) [OF that(1)] row_with_nth [OF db that(2)] that(3) by auto
  have kept: "taken_back before S xs = ys" if "map rs_id xs = map rs_id ys" "set xs \<subseteq> set after" "set ys \<subseteq> set before" for xs ys
    using that
  proof (induction xs arbitrary: ys)
    case (Cons x xs)
    then obtain y ys' where y: "ys = y # ys'" "rs_id x = rs_id y" "map rs_id xs = map rs_id ys'" by auto
    with each [of x y] Cons show ?case by (simp add: taken_back_simps)
  qed (simp add: taken_back_simps)
  have "taken_back before S (kept @ extra) = taken_back before S kept @ taken_back before S extra"
    by (simp add: taken_back_def List.map_filter_def)
  with none kept [of kept before] split show ?thesis by simp
qed

text \<open>Whatever was written, as long as no row was renamed or removed, undoing what it changed gives the rows back.\<close>

lemma undo_stepChanges:
  assumes "map rs_id after = map rs_id before @ added" "distinct (map rs_id after)"
  shows "\<exists>r. undoChanges after (map log_entry (stepChanges before after sid)) = Undone r before"
proof -
  let ?chs = "stepChanges before after sid"
  have set: "set (rev ?chs) = set (changed_rows before after)" by (simp add: stepChanges_def)
  have d: "distinct (map (\<lambda>ch. rs_id (ch_after ch)) (rev ?chs))"
    using distinct_changed_rows [OF assms(2), of before] by (simp add: stepChanges_def distinct_map_sort_by rev_map [symmetric])
  have sound: "sound_change before after ch" if "ch \<in> set (rev ?chs)" for ch
    using that unfolding set set_changed_rows by (auto simp: sound_change_def split: option.splits)
  let ?S = "(\<lambda>ch. rs_id (ch_after ch)) ` set (rev ?chs)"
  have all: "taken_back before ?S after = before"
  proof (rule taken_back_all [OF assms])
    fix s assume s: "s \<in> set after"
    show "rs_id s \<in> ?S \<or> row_with before (rs_id s) = Some s"
    proof (cases "row_with before (rs_id s)")
      case None
      then have "\<lparr>ch_after = s, ch_before = None\<rparr> \<in> set (changed_rows before after)" using s by (simp add: set_changed_rows)
      then show ?thesis unfolding set by force
    next
      case (Some p)
      show ?thesis
      proof (cases "diffSteps p s = None")
        case True
        with Some row_with_Some [OF Some] show ?thesis by (simp add: diffSteps_None)
      next
        case False
        then have "\<lparr>ch_after = s, ch_before = Some p\<rparr> \<in> set (changed_rows before after)"
          using s Some by (simp add: set_changed_rows)
        then show ?thesis unfolding set by force
      qed
    qed
  qed
  have start: "taken_back before {} after = after"
    by (induction after) (simp_all add: taken_back_simps)
  from undo_from_taken_back [OF assms(2) sound d, of "{}" "[]"] start all
  show ?thesis by (simp add: undoChanges_def rev_map)
qed

lemma ids_normalise [simp]: "map rs_id (normaliseLegacyEnds steps) = map rs_id steps"
  by (auto simp: normaliseLegacyEnds_def Let_def split: option.splits)

lemma ids_closeOpen [simp]: "map rs_id (snd (closeOpenPredecessor existing incoming)) = map rs_id existing"
  by (auto simp: closeOpenPredecessor_def Let_def)

lemma ids_replace_first:
  "(\<And>x. p x \<Longrightarrow> rs_id (f x) = rs_id x) \<Longrightarrow> map rs_id (replace_first p f xs) = map rs_id xs"
  by (induction xs) auto

lemma ids_upsert: "map rs_id (upsertStep existing incoming) =
    map rs_id existing @ (if rs_id incoming \<in> rs_id ` set existing then [] else [rs_id incoming])"
proof -
  have r: "map rs_id (replace_first (\<lambda>s. rs_id s = rs_id incoming) (\<lambda>prev. kept_fields prev incoming) existing) = map rs_id existing"
    by (intro ids_replace_first) (simp add: kept_fields_def)
  have "(\<exists>s\<in>set existing. rs_id s = rs_id incoming) \<longleftrightarrow> rs_id incoming \<in> rs_id ` set existing" by (metis image_iff)
  with r show ?thesis by (simp add: upsertStep_def)
qed

lemma ids_placeStep: "map rs_id (snd (placeStep steps step)) =
    map rs_id steps @ (if rs_id step \<in> rs_id ` set steps then [] else [rs_id step])"
proof -
  obtain ended closed_rows where c: "closeOpenPredecessor steps step = (ended, closed_rows)" by fastforce
  with ids_closeOpen [of steps step] have ids: "map rs_id closed_rows = map rs_id steps" by simp
  then have "rs_id ` set closed_rows = rs_id ` set steps" by (metis list.set_map)
  with c ids show ?thesis by (simp add: placeStep_def ids_upsert)
qed

text \<open>C8: Taking back a review's write from its change log gives the schedule exactly as it was, row for row, whether the
  write added a row, changed one, closed the row before it or normalised an old end along the way.\<close>

theorem write_taken_back:
  assumes "distinct (map rs_id steps)" "snd (placeStep steps step) = written"
  shows "\<exists>restored. undoChanges written (map log_entry (stepChanges steps written (rs_id step))) = Undone restored steps"
proof (rule undo_stepChanges)
  show "map rs_id written = map rs_id steps @ (if rs_id step \<in> rs_id ` set steps then [] else [rs_id step])"
    using assms(2) ids_placeStep [of steps step] by simp
  with assms(1) show "distinct (map rs_id written)" by auto
qed

section \<open>The search for the rate\<close>

lemma exactRate_sound:
  assumes "exactRate ctx mk currentAnnual target = Some rate"
  shows "annualAt ctx mk rate = Some target \<and> \<bar>rate\<bar> \<le> 100"
proof -
  have b: "bisect n f target lo hi = Some rate \<Longrightarrow> f rate = Some target \<and> \<bar>rate\<bar> \<le> 100" for n lo hi and f :: "rat \<Rightarrow> rat option"
  proof (induction n arbitrary: lo hi)
    case (Suc n)
    from Suc.prems obtain v where v: "f ((lo + hi) / 2) = Some v" by (auto simp: Let_def split: option.splits)
    with Suc show ?case by (cases "v = target") (auto simp: Let_def RATE_LIMIT_def split: if_splits)
  qed simp
  from assms b show ?thesis
    by (auto simp: exactRate_def Let_def RATE_LIMIT_def split: if_splits)
qed

text \<open>A rent is a whole number of cents \<open>T\<close> exactly on a half-open interval of rates of length \<open>1 / K\<close>.\<close>

definition linear_rent :: "rat \<Rightarrow> rat \<Rightarrow> rat" where
  "linear_rent K rate = r2 (K * (1 + rate / 100))"

lemma linear_rent_cents:
  assumes "0 < K"
  shows "linear_rent K rate < of_int T / 100 \<longleftrightarrow> rate < (of_int T - 1 / 2) / K - 100"
    and "of_int T / 100 < linear_rent K rate \<longleftrightarrow> (of_int T + 1 / 2) / K - 100 \<le> rate"
proof -
  have e: "linear_rent K rate = of_int \<lfloor>K * (100 + rate) + 1 / 2\<rfloor> / 100"
    by (simp add: linear_rent_def r2_def js_round_def algebra_simps)
  have "linear_rent K rate < of_int T / 100 \<longleftrightarrow> K * (100 + rate) + 1 / 2 < of_int T"
    unfolding e by (simp add: divide_less_cancel floor_less_iff)
  also have "\<dots> \<longleftrightarrow> rate < (of_int T - 1 / 2) / K - 100"
    using assms by (simp add: field_simps)
  finally show "linear_rent K rate < of_int T / 100 \<longleftrightarrow> rate < (of_int T - 1 / 2) / K - 100" .
  have "of_int T / 100 < linear_rent K rate \<longleftrightarrow> of_int (T + 1) \<le> K * (100 + rate) + 1 / 2"
    unfolding e by (simp add: divide_less_cancel less_floor_iff)
  also have "\<dots> \<longleftrightarrow> (of_int T + 1 / 2) / K - 100 \<le> rate"
    using assms by (simp add: field_simps)
  finally show "of_int T / 100 < linear_rent K rate \<longleftrightarrow> (of_int T + 1 / 2) / K - 100 \<le> rate" .
qed

lemma bisect_finds:
  assumes "0 < K" "K < 10 ^ 15" "1 \<le> T" "of_int T + 1 / 2 \<le> 200 * K" "\<And>r. f r = Some (linear_rent K r)"
    and "linear_rent K lo < of_int T / 100" "of_int T / 100 < linear_rent K hi" "(hi - lo) * K < 2 ^ n"
  shows "\<exists>r. bisect n f (of_int T / 100) lo hi = Some r"
  using assms(6-8)
proof (induction n arbitrary: lo hi)
  case 0
  then have "lo < (of_int T - 1 / 2) / K - 100" "(of_int T + 1 / 2) / K - 100 \<le> hi"
    using linear_rent_cents [OF assms(1)] by simp_all
  then have "1 / K < hi - lo" by (simp add: diff_divide_distrib add_divide_distrib)
  with 0 assms(1) show ?case by (simp add: field_simps)
next
  case (Suc n)
  let ?mid = "(lo + hi) / 2"
  show ?case
  proof (cases "linear_rent K ?mid = of_int T / 100")
    case True
    with linear_rent_cents [OF assms(1), where rate = "?mid" and T = T]
    have "(of_int T - 1 / 2) / K - 100 \<le> ?mid" "?mid < (of_int T + 1 / 2) / K - 100" by auto
    moreover have "0 \<le> (of_int T - 1 / 2) / K" using assms(1,3) by simp
    moreover have "(of_int T + 1 / 2) / K \<le> 200" using assms(1,4) by (simp add: field_simps)
    ultimately have "\<bar>?mid\<bar> \<le> 100" by linarith
    with True assms(5) have "bisect (Suc n) f (of_int T / 100) lo hi = Some ?mid" by (simp add: RATE_LIMIT_def Let_def)
    then show ?thesis by blast
  next
    case False
    define lo' hi' where "lo' = (if linear_rent K ?mid < of_int T / 100 then ?mid else lo)"
      and "hi' = (if linear_rent K ?mid < of_int T / 100 then hi else ?mid)"
    have in': "linear_rent K lo' < of_int T / 100" "of_int T / 100 < linear_rent K hi'"
      using False Suc.prems by (auto simp: lo'_def hi'_def)
    then have "lo' < (of_int T - 1 / 2) / K - 100" "(of_int T + 1 / 2) / K - 100 \<le> hi'"
      using linear_rent_cents [OF assms(1)] by simp_all
    then have "1 / K < hi' - lo'" by (simp add: diff_divide_distrib add_divide_distrib)
    moreover have "1 / 10 ^ 15 < 1 / K" using assms(1,2) by (simp add: field_simps)
    ultimately have wide: "\<not> hi' - lo' < 1 / 10 ^ 15" by linarith
    have "hi' - lo' = (hi - lo) / 2" by (simp add: lo'_def hi'_def field_simps)
    then have "(hi' - lo') * K = (hi - lo) * K / 2" by simp
    then have "(hi' - lo') * K < 2 ^ n" using Suc.prems(3) unfolding power_Suc by linarith
    from Suc.IH [OF in' this] False wide assms(5) show ?thesis
      by (simp add: Let_def lo'_def hi'_def)
  qed
qed

lemma widen_reaches:
  assumes "found (place (width * 2 ^ k))" "k \<le> n"
  shows "found (widen n found place width (place width))"
  using assms
proof (induction n arbitrary: width k)
  case 0
  then show ?case by simp
next
  case (Suc n)
  show ?case
  proof (cases k)
    case 0
    with Suc.prems show ?thesis by simp
  next
    case (Suc j)
    with Suc.prems have "found (place (width * 2 * 2 ^ j))" "j \<le> n" by (simp_all add: mult.assoc)
    from Suc.IH [OF this] show ?thesis by simp
  qed
qed

lemma widen_bound:
  assumes "0 \<le> width"
  shows "\<exists>k\<le>n. widen n found place width (place width) = place (width * 2 ^ k)"
proof (induction n arbitrary: width)
  case 0
  then show ?case by simp
next
  case (Suc n)
  from Suc [of "width * 2"] obtain k where "k \<le> n" "widen n found place (width * 2) (place (width * 2)) = place (width * 2 * 2 ^ k)" by blast
  then show ?case by (cases "found (place width)") (auto intro: exI [of _ 0] exI [of _ "Suc k"] simp: mult.assoc)
qed

lemma r2_bounds: "x - 1 / 200 < r2 x" "r2 x \<le> x + 1 / 200"
proof -
  have "of_int \<lfloor>x * 100 + 1 / 2\<rfloor> \<le> x * 100 + 1 / 2" "x * 100 + 1 / 2 < of_int \<lfloor>x * 100 + 1 / 2\<rfloor> + 1"
    by (rule of_int_floor_le) linarith
  then show "x - 1 / 200 < r2 x" "r2 x \<le> x + 1 / 200" by (simp_all add: r2_def js_round_def field_simps)
qed

lemma r2_positive: "0 < r2 x \<Longrightarrow> 1 / 100 \<le> r2 x"
proof -
  assume "0 < r2 x"
  then have "0 < js_round (x * 100)" by (simp add: r2_def zero_less_divide_iff)
  then have "(1 :: rat) \<le> of_int (js_round (x * 100))" by simp
  then show ?thesis by (simp add: r2_def)
qed

text \<open>On a row whose rent follows its rate, the search finds a rate for every whole number of cents of a rent that does
  not more than double the one before: the widening finds both ends within its bound and the bisection ends within its.\<close>

theorem exactRate_found:
  assumes rent: "\<And>r. annualAt ctx mk r = Some (linear_rent K r)"
    and K: "0 < K" "K < 10 ^ 15" "currentAnnual = r2 K" "0 < currentAnnual"
    and T: "target = of_int T / 100" "1 \<le> T" "of_int T + 1 / 2 \<le> 200 * K"
  shows "\<exists>rate. exactRate ctx mk currentAnnual target = Some rate \<and> \<bar>rate\<bar> \<le> 100 \<and> annualAt ctx mk rate = Some target"
proof -
  define c start width where "c = currentAnnual" and "start = (target / currentAnnual - 1) * 100" and "width = (1 / 50 / currentAnnual) * 100"
  have c: "1 / 100 \<le> c" using r2_positive K(3,4) by (simp add: c_def)
  have cK: "K - 1 / 200 < c" "c \<le> K + 1 / 200" using r2_bounds [of K] K(3) by (simp_all add: c_def)
  have width: "width = 2 / c" by (simp add: width_def c_def)
  have start: "start = of_int T / c - 100" using c by (simp add: start_def c_def T(1) field_simps)
  have K2: "c \<le> 2 * K" using c cK by linarith
  then have half: "1 / (2 * K) \<le> 1 / c" using c K(1) by (simp add: field_simps)
  have drift: "\<bar>of_int T / c - of_int T / K\<bar> \<le> 1 / c"
  proof -
    have "of_int T / c - of_int T / K = of_int T * (K - c) / (c * K)"
      using c K(1) by (simp add: field_simps)
    then have "\<bar>of_int T / c - of_int T / K\<bar> = of_int T * \<bar>K - c\<bar> / (c * K)"
      using c K(1) T(2) by (simp add: abs_mult)
    also have "\<bar>K - c\<bar> \<le> 1 / 200" using cK by linarith
    then have "of_int T * \<bar>K - c\<bar> / (c * K) \<le> (200 * K) * (1 / 200) / (c * K)"
      using c K(1) T(2,3) by (intro divide_right_mono mult_mono) auto
    also have "\<dots> = 1 / c" using c K(1) by simp
    finally show ?thesis .
  qed
  define lo hi where "lo = widen 40 (\<lambda>x. is_below (annualAt ctx mk x) target) (\<lambda>w. start - w) width (start - width)"
    and "hi = widen 40 (\<lambda>x. is_above (annualAt ctx mk x) target) (\<lambda>w. start + w) width (start + width)"
  have four: "width * 2 ^ 1 = 4 * (1 / c)" "0 < 1 / c" using c by (simp_all add: width)
  have halves: "(of_int T - 1 / 2) / K = of_int T / K - 1 / (2 * K)" "(of_int T + 1 / 2) / K = of_int T / K + 1 / (2 * K)"
    by (simp_all add: diff_divide_distrib add_divide_distrib)
  have "linear_rent K (start - width * 2 ^ 1) < target"
    unfolding T(1) linear_rent_cents(1) [OF K(1)] start four halves using drift half four(2) by linarith
  then have lo: "linear_rent K lo < target"
    unfolding lo_def using widen_reaches [of "\<lambda>x. is_below (annualAt ctx mk x) target" "\<lambda>w. start - w" width 1 40]
    by (simp add: is_below_def rent)
  have "target < linear_rent K (start + width * 2 ^ 1)"
    unfolding T(1) linear_rent_cents(2) [OF K(1)] start four halves using drift half four(2) by linarith
  then have hi: "target < linear_rent K hi"
    unfolding hi_def using widen_reaches [of "\<lambda>x. is_above (annualAt ctx mk x) target" "\<lambda>w. start + w" width 1 40]
    by (simp add: is_above_def rent)
  have w0: "0 \<le> width" using c by (simp add: width)
  obtain i j where ij: "i \<le> 40" "lo = start - width * 2 ^ i" "j \<le> 40" "hi = start + width * 2 ^ j"
    using widen_bound [OF w0, of 40 "\<lambda>x. is_below (annualAt ctx mk x) target" "\<lambda>w. start - w"]
      widen_bound [OF w0, of 40 "\<lambda>x. is_above (annualAt ctx mk x) target" "\<lambda>w. start + w"] by (auto simp: lo_def hi_def)
  have "(hi - lo) * K = (2 ^ i + 2 ^ j) * (2 * K / c)" unfolding ij(2,4) width by (simp add: algebra_simps add_divide_distrib)
  also have "\<dots> \<le> (2 ^ 40 + 2 ^ 40) * 4"
  proof (intro mult_mono add_mono)
    show "2 * K / c \<le> 4" using c cK by (simp add: field_simps)
    show "(2 :: rat) ^ i \<le> 2 ^ 40" by (rule power_increasing [OF ij(1)]) simp
    show "(2 :: rat) ^ j \<le> 2 ^ 40" by (rule power_increasing [OF ij(3)]) simp
  qed (use c K(1) in simp_all)
  also have "\<dots> < (2 :: rat) ^ 200" by simp
  finally have "(hi - lo) * K < 2 ^ 200" .
  from bisect_finds [OF K(1,2) T(2,3) rent, of lo hi 200] lo hi this T(1)
  obtain r where "bisect 200 (annualAt ctx mk) target lo hi = Some r" by auto
  with lo hi have "exactRate ctx mk currentAnnual target \<noteq> None"
    using K(4) by (simp add: exactRate_def Let_def rent is_below_def is_above_def SEARCH_STEPS_def start_def lo_def hi_def width_def)
  with exactRate_sound show ?thesis by blast
qed

section \<open>Two ways of writing the same row\<close>

text \<open>The steps agree on everything but the value of the row \<open>sid\<close>, which is that of \<open>s\<close> and of \<open>s'\<close>.\<close>

definition core :: "rate_step \<Rightarrow> method_kind option \<times> rat option \<times> rat option \<times> rat \<times> step_resolution option \<times> ratchet_exemption option" where
  "core s = (rs_method s, rs_cpiValue s, rs_cpiValuePrev s, rs_ratePercent s, rs_resolution s, rs_exempt s)"

definition same_place :: "rate_step \<Rightarrow> rate_step \<Rightarrow> bool" where
  "same_place x y \<longleftrightarrow> rs_id x = rs_id y \<and> rs_from x = rs_from y \<and> rs_to x = rs_to y \<and> rs_sqm x = rs_sqm y"

definition twin :: "rate_step \<Rightarrow> rate_step \<Rightarrow> rate_step \<Rightarrow> rate_step \<Rightarrow> bool" where
  "twin s s' x y \<longleftrightarrow> same_place x y \<and> (if rs_id x = rs_id s then core x = core s \<and> core y = core s' else x = y)"

lemma twin_insert_by:
  assumes "list_all2 (twin s s') xs ys" "twin s s' x y"
  shows "list_all2 (twin s s') (insert_by by_date x xs) (insert_by by_date y ys)"
proof -
  have cmp: "by_date x a = by_date y b" if "twin s s' a b" for a b
    using that assms(2) by (simp add: by_date_def twin_def same_place_def)
  show ?thesis using assms(1) by (induction rule: list_all2_induct) (simp_all add: assms(2) cmp)
qed

lemma twin_sortSteps: "list_all2 (twin s s') xs ys \<Longrightarrow> list_all2 (twin s s') (sortSteps xs) (sortSteps ys)"
  unfolding sortSteps_def by (induction rule: list_all2_induct) (simp_all add: twin_insert_by)

lemma twin_closed_ends: "list_all2 (twin s s') xs ys \<Longrightarrow> closed_ends xs = closed_ends ys"
proof (induction xs arbitrary: ys rule: closed_ends.induct)
  case (1 a b rest)
  then obtain a' b' rest' where ys: "ys = a' # b' # rest'" "twin s s' a a'" "list_all2 (twin s s') (b # rest) (b' # rest')"
    by (auto simp: list_all2_Cons1)
  with 1 have "closed_ends (b # rest) = closed_ends (b' # rest')" by simp
  moreover have "rs_from b = rs_from b'" "rs_to a = rs_to a'" "rs_id a = rs_id a'"
    using ys by (auto simp: twin_def same_place_def)
  ultimately show ?case using ys by (simp add: Let_def)
qed (auto simp: list_all2_Cons1)

lemma twin_normalise:
  assumes "list_all2 (twin s s') xs ys"
  shows "list_all2 (twin s s') (normaliseLegacyEnds xs) (normaliseLegacyEnds ys)"
  using assms
  by (auto simp: normaliseLegacyEnds_def Let_def twin_closed_ends [OF twin_sortSteps [OF assms]] list.rel_map
      twin_def same_place_def core_def split: option.splits if_splits elim!: list_all2_mono)

lemma twin_same: "rs_id x \<noteq> rs_id s \<Longrightarrow> twin s s' x x"
  by (simp add: twin_def same_place_def)

lemma twin_refl: "(\<And>x. x \<in> set xs \<Longrightarrow> rs_id x \<noteq> rs_id s) \<Longrightarrow> list_all2 (twin s s') xs xs"
  by (intro list.rel_refl_strong) (simp add: twin_def same_place_def)

lemma twin_replace:
  assumes "distinct (map rs_id xs)" "rs_id s \<in> rs_id ` set xs" "\<And>x. x \<in> set xs \<Longrightarrow> rs_id x = rs_id s \<Longrightarrow> twin s s' (f x) (g x)"
  shows "list_all2 (twin s s') (replace_first (\<lambda>x. rs_id x = rs_id s) f xs) (replace_first (\<lambda>x. rs_id x = rs_id s) g xs)"
  using assms
proof (induction xs)
  case Nil
  then show ?case by simp
next
  case (Cons x xs)
  have nx: "rs_id x \<notin> rs_id ` set xs" and dx: "distinct (map rs_id xs)" using Cons.prems(1) by simp_all
  show ?case
  proof (cases "rs_id x = rs_id s")
    case True
    with nx have "rs_id y \<noteq> rs_id s" if "y \<in> set xs" for y using that by (metis image_eqI)
    then have "list_all2 (twin s s') xs xs" by (rule twin_refl)
    with True Cons.prems(3) [of x] show ?thesis by simp
  next
    case False
    then have "rs_id s \<in> rs_id ` set xs" using Cons.prems(2) by auto
    with dx have "list_all2 (twin s s') (replace_first (\<lambda>x. rs_id x = rs_id s) f xs) (replace_first (\<lambda>x. rs_id x = rs_id s) g xs)"
      using Cons.IH Cons.prems(3) by simp
    with False show ?thesis by (simp add: twin_same)
  qed
qed

lemma twin_placeStep:
  assumes "distinct (map rs_id steps)" "same_place s s'" "rs_flagComment s = rs_flagComment s'"
    and "rs_reviewId s \<noteq> None" "rs_resolution s \<noteq> None" "rs_resolution s' \<noteq> None"
  shows "list_all2 (twin s s') (snd (placeStep steps s)) (snd (placeStep steps s'))"
proof -
  have id: "rs_id s' = rs_id s" "rs_from s' = rs_from s" "rs_sqm s' = rs_sqm s" "rs_to s' = rs_to s" using assms(2) by (simp_all add: same_place_def)
  have "closeOpenPredecessor steps s' = closeOpenPredecessor steps s" by (simp add: closeOpenPredecessor_def Let_def id)
  then obtain ended rows where c: "closeOpenPredecessor steps s = (ended, rows)" "closeOpenPredecessor steps s' = (ended, rows)"
    by (metis surj_pair)
  have d: "distinct (map rs_id rows)" using assms(1) ids_closeOpen [of steps s] c by simp
  have "list_all2 (twin s s') (upsertStep rows s) (upsertStep rows s')"
  proof (cases "rs_id s \<in> rs_id ` set rows")
    case True
    then have ex: "\<exists>r\<in>set rows. rs_id r = rs_id s" by (metis image_iff)
    have "list_all2 (twin s s') (replace_first (\<lambda>x. rs_id x = rs_id s) (\<lambda>prev. kept_fields prev s) rows)
        (replace_first (\<lambda>x. rs_id x = rs_id s) (\<lambda>prev. kept_fields prev s') rows)"
      using assms(5,6) id
      by (intro twin_replace [OF d True])
         (auto simp: twin_def same_place_def kept_fields_def core_def or_default_def split: option.splits)
    with ex show ?thesis by (simp add: upsertStep_def id)
  next
    case False
    then have no: "\<not> (\<exists>r\<in>set rows. rs_id r = rs_id s)" by (metis image_iff)
    have "list_all2 (twin s s') rows rows"
      using no by (intro twin_refl) auto
    with no show ?thesis using id by (simp add: upsertStep_def list_all2_appendI twin_def same_place_def)
  qed
  with c show ?thesis by (simp add: placeStep_def twin_normalise)
qed

text \<open>The state of the engine before the row is the same whichever way the row is written.\<close>

lemma engine_rows_Cons: "engine_rows terms fa st (x # xs) =
    snd (schedule_step terms fa st x) # engine_rows terms fa (fst (schedule_step terms fa st x)) xs"
  by (simp split: prod.splits)

text \<open>The state of the engine before the row \<open>sid\<close>, and the row as it stands in the schedule.\<close>

fun before_row :: "schedule_terms \<Rightarrow> rat \<Rightarrow> string \<Rightarrow> engine_state \<Rightarrow> rate_step list \<Rightarrow> (engine_state \<times> rate_step) option" where
  "before_row terms fa sid st [] = None"
| "before_row terms fa sid st (x # xs) =
     (if rs_id x = sid then Some (st, x) else before_row terms fa sid (fst (schedule_step terms fa st x)) xs)"

lemma find_before_row:
  "find (\<lambda>row. rs_id (sr_step row) = sid) (engine_rows terms fa st xs) =
     map_option (\<lambda>(st, x). snd (schedule_step terms fa st x)) (before_row terms fa sid st xs)"
  by (induction xs arbitrary: st) (simp_all add: engine_rows_Cons schedule_step_row del: engine_rows.simps(2))

lemma twin_before_row:
  assumes "list_all2 (twin s s') xs ys" "rs_id s = rs_id s'"
  shows "rel_option (\<lambda>(st, x) (st', y). st = st' \<and> twin s s' x y \<and> rs_id x = rs_id s)
    (before_row terms fa (rs_id s) st0 xs) (before_row terms fa (rs_id s') st0 ys)"
  using assms(1)
proof (induction arbitrary: st0 rule: list_all2_induct)
  case (Cons x xs y ys)
  have id: "rs_id y = rs_id x" using Cons.hyps(1) by (simp add: twin_def same_place_def)
  show ?case
  proof (cases "rs_id x = rs_id s")
    case True
    with id assms(2) Cons.hyps(1) show ?thesis by simp
  next
    case False
    then have e: "y = x" using Cons.hyps(1) by (simp add: twin_def)
    have "rs_id x \<noteq> rs_id s'" using False assms(2) by simp
    with Cons.IH [of "fst (schedule_step terms fa st0 x)"] False show ?thesis by (simp only: e before_row.simps if_False)
  qed
qed simp

lemma review_row_linear: "en_annual (review_row st step f) = en_annual (review_row st step 1) * f"
  by (auto simp: review_row_def Let_def split: option.splits)

lemma review_row_place: "rs_sqm x = rs_sqm y \<Longrightarrow> en_annual (review_row st x f) = en_annual (review_row st y f)"
  by (auto simp: review_row_def Let_def explicit_area_def split: option.splits)

definition placed_row :: "schedule_context \<Rightarrow> rate_step \<Rightarrow> (engine_state \<times> rate_step) option" where
  "placed_row ctx s =
     before_row (sc_lease ctx) (if sc_fallbackSqm ctx > 0 then sc_fallbackSqm ctx else 0) (rs_id s) (engine_start (sc_fallbackAnnual ctx))
       (sortSteps (snd (placeStep (sc_steps ctx) s)))"

lemma simulate_row:
  "si_row (simulate ctx s) =
     map_option (\<lambda>(st, x). snd (schedule_step (sc_lease ctx) (if sc_fallbackSqm ctx > 0 then sc_fallbackSqm ctx else 0) st x)) (placed_row ctx s)"
  by (simp add: simulate_def computeScheduleRows_def Let_def find_before_row placed_row_def split: prod.splits)

lemma two_writings:
  assumes "distinct (map rs_id (sc_steps ctx))" "same_place s s'" "rs_flagComment s = rs_flagComment s'"
    and "rs_reviewId s \<noteq> None" "rs_resolution s \<noteq> None" "rs_resolution s' \<noteq> None"
    and "placed_row ctx s = Some (st, x)"
  shows "\<exists>y. placed_row ctx s' = Some (st, y) \<and> twin s s' x y \<and> rs_id x = rs_id s"
proof -
  have "list_all2 (twin s s') (sortSteps (snd (placeStep (sc_steps ctx) s))) (sortSteps (snd (placeStep (sc_steps ctx) s')))"
    using assms(1-6) by (intro twin_sortSteps twin_placeStep)
  moreover have "rs_id s = rs_id s'" using assms(2) by (simp add: same_place_def)
  ultimately have "rel_option (\<lambda>(st, x) (st', y). st = st' \<and> twin s s' x y \<and> rs_id x = rs_id s) (placed_row ctx s) (placed_row ctx s')"
    unfolding placed_row_def by (rule twin_before_row)
  then show ?thesis unfolding assms(7) by (cases "placed_row ctx s'") auto
qed

lemma settled_row:
  assumes "rs_resolution x \<noteq> None" "rs_method x \<noteq> Some MCommencement"
  shows "sr_pending (snd (schedule_step terms fa st x)) \<longleftrightarrow> en_cascade st"
    and "\<not> en_cascade st \<Longrightarrow> sr_annual (snd (schedule_step terms fa st x)) =
      r2 (en_annual (review_row st x (ro_factor (reviewOutcome x (or_default (rs_cpiValuePrev x) (en_prevCpi st)) terms))))"
proof -
  have own: "stepPendingReason x live = None" for live using assms(1) by (simp add: stepPendingReason_def)
  then show "sr_pending (snd (schedule_step terms fa st x)) \<longleftrightarrow> en_cascade st"
    using assms(2) by (simp add: schedule_step_row row_waits_def)
  show "\<not> en_cascade st \<Longrightarrow> sr_annual (snd (schedule_step terms fa st x)) =
      r2 (en_annual (review_row st x (ro_factor (reviewOutcome x (or_default (rs_cpiValuePrev x) (en_prevCpi st)) terms))))"
    using assms(2) own by (simp add: schedule_step_review row_waits_def)
qed

text \<open>Where the row waived has the rent \<open>currentAnnual\<close>, the row written as \<open>other\<close> has its share of the same exact rent.\<close>

lemma annualAt_linear:
  assumes "distinct (map rs_id (sc_steps ctx))" "rs_method (ri_base inp) \<noteq> Some MCommencement" "ri_context inp = ctx"
    and before: "si_row (simulate ctx (waivedStep (ri_base inp) (ri_reviewId inp))) = Some row" "\<not> sr_pending row"
    and free: "st_ratchet (sc_lease ctx) \<Longrightarrow> ri_exempt inp \<noteq> None"
  shows "\<exists>K. sr_annual row = r2 K \<and>
    (\<forall>rate. annualAt ctx (\<lambda>rate. with_exemption (ri_exempt inp) (rated_step inp (ri_cpi inp) MOther rate)) rate = Some (linear_rent K rate))"
proof -
  let ?w = "waivedStep (ri_base inp) (ri_reviewId inp)"
  let ?m = "\<lambda>rate. with_exemption (ri_exempt inp) (rated_step inp (ri_cpi inp) MOther rate)"
  obtain st x where w: "placed_row ctx ?w = Some (st, x)" using before(1) by (auto simp: simulate_row)
  have place: "same_place ?w (?m rate)" "rs_flagComment ?w = rs_flagComment (?m rate)" "rs_resolution (?m rate) = Some Applied"
    "rs_method (?m rate) = Some MOther" "rs_ratePercent (?m rate) = rate" "ri_exempt inp \<noteq> None \<Longrightarrow> rs_exempt (?m rate) \<noteq> None" for rate
    by (auto simp: waivedStep_def rated_step_def appliedStep_def with_exemption_def same_place_def split: option.splits)
  have wv: "rs_reviewId ?w \<noteq> None" "rs_resolution ?w = Some Waived" "rs_method ?w = rs_method (ri_base inp)"
    by (simp_all add: waivedStep_def)
  have two: "\<exists>y. placed_row ctx (?m rate) = Some (st, y) \<and> twin ?w (?m rate) x y \<and> rs_id x = rs_id ?w" for rate
    using two_writings [OF assms(1) place(1,2) _ _ _ w] wv place(3) by simp
  have x: "core x = core ?w" using two [of 0] by (auto simp: twin_def)
  then have xs: "rs_resolution x = Some Waived" "rs_method x \<noteq> Some MCommencement"
    using assms(2) wv by (simp_all add: core_def)
  define K where "K = en_annual (review_row st x 1)"
  have cascade: "\<not> en_cascade st"
    using before w settled_row(1) [of x] xs by (auto simp: simulate_row)
  have "sr_annual row = r2 K"
    using before w settled_row(2) [of x st] xs cascade by (auto simp: simulate_row K_def reviewOutcome_waived)
  moreover have "annualAt ctx ?m rate = Some (linear_rent K rate)" for rate
  proof -
    obtain y where y: "placed_row ctx (?m rate) = Some (st, y)" "twin ?w (?m rate) x y" "rs_id x = rs_id ?w" using two by blast
    then have cy: "core y = core (?m rate)" "rs_sqm y = rs_sqm x" by (auto simp: twin_def same_place_def)
    then have ys: "rs_resolution y = Some Applied" "rs_method y = Some MOther" "rs_ratePercent y = rate" "rs_exempt y = rs_exempt (?m rate)"
      using place by (auto simp: core_def)
    have f: "ro_factor (reviewOutcome y b (sc_lease ctx)) = 1 + rate / 100" for b
      using ys free place(6) [of rate] by (auto simp: reviewOutcome_factor Let_def reviewFactor_def)
    have "en_annual (review_row st y (1 + rate / 100)) = K * (1 + rate / 100)"
      using review_row_linear [of st y] review_row_place [OF cy(2), of st 1] by (simp add: K_def)
    with ys y(1) cascade settled_row [of y] f show ?thesis
      by (simp add: annualAt_def simulate_row linear_rent_def)
  qed
  ultimately show ?thesis by blast
qed

lemma or_default_cases:
  "or_default a b = None \<longleftrightarrow> a = None \<and> b = None" "or_default a b = Some r \<Longrightarrow> a = Some r \<or> b = Some r"
  by (auto simp: or_default_def split: option.splits)

lemma accept_step_Some:
  assumes "accept_step inp s rep = Some r"
  shows "rp_step r = with_exemption (ri_exempt inp) s \<and> rp_simulation r = simulate (ri_context inp) (rp_step r) \<and>
    si_row (rp_simulation r) = Some (rp_row r) \<and> sr_annual (rp_row r) = ri_target inp \<and> \<not> sr_pending (rp_row r) \<and> rp_representation r = rep"
  using assms by (auto simp: accept_step_def Let_def split: option.splits if_splits)

lemma with_exemption_twice [simp]: "with_exemption e (with_exemption e s) = with_exemption e s"
  by (simp add: with_exemption_def split: option.splits)

lemma representStep_cases:
  assumes "representStep inp = Some r"
  shows "(ri_method inp = MCpi \<and> ri_cpi inp \<noteq> None \<and> \<not> ri_departs inp \<and>
      accept_step inp (rated_step inp (ri_cpi inp) MCpi (ri_naturalRate inp)) Natural = Some r) \<or>
    (ri_method inp = MFixed \<and> (\<exists>rate rep. accept_step inp (with_exemption (ri_exempt inp) (rated_step inp None MFixed rate)) rep = Some r)) \<or>
    (\<exists>rate. accept_step inp (with_exemption (ri_exempt inp) (rated_step inp (ri_cpi inp) MOther rate)) OtherRate = Some r)"
proof -
  have bare: "accept_step inp (with_exemption (ri_exempt inp) s) rep = accept_step inp s rep" for s rep
    by (simp add: accept_step_def)
  have exact: "\<exists>rate. accept_step inp (with_exemption (ri_exempt inp) (mk rate)) rep = Some r" if "at_exact_rate inp mk rep = Some r" for mk rep
    using that by (auto simp: at_exact_rate_def Let_def split: option.splits)
  from assms show ?thesis
    unfolding representStep_def Let_def
    by (auto dest!: or_default_cases(2) exact simp: bare split: if_splits)
qed

text \<open>C37: A way of writing a rent is only taken when the schedule then says exactly that rent on the review's row, settled as
  applied by this review on its date; a CPI review that departs from the lease is never written as a CPI row, and a row is
  exempt from the ratchet only when the review carries the exemption or the row already did.\<close>

theorem represented_exactly:
  assumes "representStep inp = Some r"
  shows "sr_annual (rp_row r) = ri_target inp \<and> \<not> sr_pending (rp_row r) \<and>
    si_row (simulate (ri_context inp) (rp_step r)) = Some (rp_row r) \<and>
    rs_resolution (rp_step r) = Some Applied \<and> rs_reviewId (rp_step r) = Some (ri_reviewId inp) \<and>
    rs_id (rp_step r) = rs_id (ri_base inp) \<and> rs_from (rp_step r) = rs_from (ri_base inp) \<and>
    (rs_method (rp_step r) = Some MCpi \<longrightarrow> ri_method inp = MCpi \<and> \<not> ri_departs inp) \<and>
    (rs_exempt (rp_step r) = or_default (ri_exempt inp) (rs_exempt (ri_base inp)))"
  using representStep_cases [OF assms]
  by (elim disjE conjE exE)
     (auto dest!: accept_step_Some simp: rated_step_def appliedStep_def with_exemption_def or_default_def split: option.splits)

text \<open>C9: Whatever rent a director or a calculation settles on, short of doubling the rent, can be written on the review's
  row to the cent, with no earlier review pending and no ratchet in the way: the engine's own figure is then that rent.\<close>

theorem rent_writable:
  assumes "distinct (map rs_id (sc_steps (ri_context inp)))" "rs_method (ri_base inp) \<noteq> Some MCommencement"
    and "si_row (simulate (ri_context inp) (waivedStep (ri_base inp) (ri_reviewId inp))) = Some row" "\<not> sr_pending row"
    and "st_ratchet (sc_lease (ri_context inp)) \<Longrightarrow> ri_exempt inp \<noteq> None"
    and "ri_currentAnnual inp = sr_annual row" "0 < sr_annual row" "sr_annual row \<le> 10 ^ 14"
    and "ri_target inp = of_int cents / 100" "1 \<le> cents" "of_int cents + 2 \<le> 200 * sr_annual row"
  shows "\<exists>r. representStep inp = Some r \<and> sr_annual (rp_row r) = ri_target inp \<and> \<not> sr_pending (rp_row r)"
proof -
  let ?m = "\<lambda>rate. with_exemption (ri_exempt inp) (rated_step inp (ri_cpi inp) MOther rate)"
  obtain K where K: "sr_annual row = r2 K" "\<And>rate. annualAt (ri_context inp) ?m rate = Some (linear_rent K rate)"
    using annualAt_linear [OF assms(1,2) refl assms(3-5)] by blast
  have "K - 1 / 200 < sr_annual row" "sr_annual row \<le> K + 1 / 200" "1 / 100 \<le> sr_annual row"
    using r2_bounds [of K] r2_positive assms(7) K(1) by simp_all
  moreover from assms(8) have "sr_annual row + 1 < 10 ^ 15" by simp
  ultimately have "0 < K" "K < 10 ^ 15" "of_int cents + 1 / 2 \<le> 200 * K" using assms(11) by linarith+
  then obtain rate where rate: "exactRate (ri_context inp) ?m (ri_currentAnnual inp) (ri_target inp) = Some rate"
    "annualAt (ri_context inp) ?m rate = Some (ri_target inp)"
    using exactRate_found [OF K(2), of "ri_currentAnnual inp" "ri_target inp" cents] assms(6,7,9,10) K(1) by auto
  have "at_exact_rate inp (rated_step inp (ri_cpi inp) MOther) OtherRate \<noteq> None"
    using rate by (auto simp: at_exact_rate_def Let_def accept_step_def annualAt_def split: option.splits if_splits)
  then have "representStep inp \<noteq> None" by (simp add: representStep_def Let_def or_default_cases(1))
  then obtain r where r: "representStep inp = Some r" by blast
  from representStep_cases [OF this] have "\<exists>s rep. accept_step inp s rep = Some r" by blast
  with r show ?thesis by (auto dest: accept_step_Some)
qed

section \<open>A review on the sample schedule\<close>

definition sample_review :: "review_target" where
  "sample_review =
     \<lparr>rt_method = MFixed, rt_newStepId = ''n'', rt_reviewId = ''r1'', rt_scheduledFor = ''2026-01-01'', rt_stepId = None\<rparr>"

definition sample_context :: schedule_context where
  "sample_context = \<lparr>sc_fallbackAnnual = 0, sc_fallbackSqm = 0, sc_lease = sample_terms, sc_steps = take 2 sample_steps\<rparr>"

text \<open>The base of a review on the row \<open>b\<close>, and the row another review would add.\<close>

definition sample_base :: rate_step where
  "sample_base = plain_step ''b'' ''2025-07-01'' MFixed 3"

definition sample_added :: rate_step where
  "sample_added = added_row (sc_steps sample_context) sample_review"

definition sample_input :: represent_input where
  "sample_input =
     \<lparr>ri_base = sample_base, ri_context = sample_context, ri_currentAnnual = 100000, ri_cpi = None, ri_departs = False,
      ri_method = MFixed, ri_naturalRate = 4, ri_exempt = Some \<lparr>rx_at = ''2026-01-01'', rx_byName = ''Director'', rx_reason = ''agreed''\<rparr>,
      ri_reviewId = ''r1'', ri_target = of_int 10400000 / 100\<rparr>"

theorem write_taken_back_witness:
  "\<exists>restored. undoChanges (snd (placeStep sample_steps sample_added))
     (map log_entry (stepChanges sample_steps (snd (placeStep sample_steps sample_added)) (rs_id sample_added))) = Undone restored sample_steps"
proof (rule write_taken_back)
  show "distinct (map rs_id sample_steps)" by code_simp
qed simp

lemma sample_accepted:
  "accept_step sample_input (rated_step sample_input None MFixed (ri_naturalRate sample_input)) Natural \<noteq> None"
  by code_simp

theorem represented_exactly_witness:
  "map_option (\<lambda>r. sr_annual (rp_row r)) (representStep sample_input) = Some 104000"
proof -
  have i: "ri_target sample_input = 104000" "ri_method sample_input = MFixed" by (simp_all add: sample_input_def)
  with sample_accepted obtain r where "representStep sample_input = Some r"
    by (auto simp: representStep_def or_default_def)
  with represented_exactly [of sample_input r] i(1) show ?thesis by simp
qed

definition sample_held :: schedule_row where
  "sample_held = the (si_row (simulate sample_context (waivedStep sample_base ''r1'')))"

definition sample_override :: represent_input where
  "sample_override = sample_input\<lparr>ri_target := of_int 9876543 / 100\<rparr>"

lemma sample_held_row: "si_row (simulate sample_context (waivedStep sample_base ''r1'')) = Some sample_held"
proof -
  have "si_row (simulate sample_context (waivedStep sample_base ''r1'')) \<noteq> None" by code_simp
  then show ?thesis by (auto simp: sample_held_def)
qed

theorem rent_writable_witness:
  "map_option (\<lambda>r. sr_annual (rp_row r)) (representStep sample_override) = Some (of_int 9876543 / 100)"
proof -
  have held: "sr_pending sample_held = False" "sr_annual sample_held = 100000" "distinct (map rs_id (sc_steps sample_context))"
      "rs_method sample_base = Some MFixed"
    by code_simp+
  have inp: "ri_base sample_override = sample_base" "ri_context sample_override = sample_context" "ri_reviewId sample_override = ''r1''"
      "ri_exempt sample_override \<noteq> None" "ri_currentAnnual sample_override = 100000" "ri_target sample_override = of_int 9876543 / 100"
    by (simp_all add: sample_override_def sample_input_def)
  have "\<exists>r. representStep sample_override = Some r \<and> sr_annual (rp_row r) = ri_target sample_override \<and> \<not> sr_pending (rp_row r)"
    by (rule rent_writable [where row = sample_held and cents = 9876543]) (simp_all add: inp held sample_held_row)
  with inp(6) show ?thesis by auto
qed

end
