(* ===== verification/Month_Dates.thy ===== *)
theory Month_Dates
  imports Iso_Dates
begin

text \<open>
  Months as a line: month \<open>k\<close> of the calendar is month \<open>k mod 12 + 1\<close> of year \<open>k div 12\<close>, and the date a
  number of months from a day is a day of the month that many further on. What \<open>addMonthsClamped\<close>
  answers on real dates, and that dates in later months are later.
\<close>

definition month_first :: "int \<Rightarrow> int" where
  "month_first k = day_from_year (k div 12) + month_start (leap_year (k div 12)) (k mod 12 + 1)"

definition month_length :: "int \<Rightarrow> int" where
  "month_length k = days_in_month (leap_year (k div 12)) (k mod 12 + 1)"

text \<open>The day \<open>d\<close> of month \<open>k\<close>, the last day of the month when it has no such day.\<close>

definition month_date :: "int \<Rightarrow> int \<Rightarrow> int" where
  "month_date k d = month_first k + min d (month_length k) - 1"

definition month_index :: "int \<Rightarrow> int" where
  "month_index D = (case civil_from_day D of (y, m, d) \<Rightarrow> y * 12 + (m - 1))"

definition month_day :: "int \<Rightarrow> int" where
  "month_day D = (case civil_from_day D of (y, m, d) \<Rightarrow> d)"

lemma month_number: "1 \<le> k mod 12 + (1 :: int)" "k mod 12 + (1 :: int) \<le> 12"
  by simp_all

lemma month_length_bounds: "28 \<le> month_length k" "month_length k \<le> 31"
  unfolding month_length_def
  by (cases "k mod 12 + 1" rule: month_cases; simp add: days_in_month_def month_start_def)+

lemma month_first_Suc: "month_first (k + 1) = month_first k + month_length k"
proof (cases "k mod 12 = 11")
  case True
  then have k: "(k + 1) div 12 = k div 12 + 1" "(k + 1) mod 12 = 0" by presburger+
  have "month_first (k + 1) = day_from_year (k div 12 + 1)"
    unfolding month_first_def k by (simp add: month_start_def)
  moreover have "month_first k + month_length k = day_from_year (k div 12) + month_start (leap_year (k div 12)) 13"
    unfolding month_first_def month_length_def days_in_month_def True by simp
  moreover have "month_start (leap_year (k div 12)) 13 = days_in_year (k div 12)" by (simp add: month_start_def days_in_year_def)
  ultimately show ?thesis by (simp only: day_from_year_Suc)
next
  case False
  define q r where "q = k div 12" and "r = k mod 12"
  have r: "0 \<le> r" "r < 12" by (simp_all add: r_def)
  with False have "r + 1 < 12" by (simp add: r_def)
  moreover have "k + 1 = (r + 1) + q * 12" by (simp add: q_def r_def)
  ultimately have "(k + 1) div 12 = q" "(k + 1) mod 12 = r + 1"
    using r by (simp_all only: div_mult_self1 mod_mult_self1 div_pos_pos_trivial mod_pos_pos_trivial)
  then have "(k + 1) div 12 = k div 12" "(k + 1) mod 12 = k mod 12 + 1" by (simp_all add: q_def r_def)
  then show ?thesis by (simp add: month_first_def month_length_def days_in_month_def)
qed

lemma month_first_later: "month_first k + month_length k + 28 * int n \<le> month_first (k + 1 + int n)"
proof (induction n)
  case 0
  show ?case by (simp add: month_first_Suc)
next
  case (Suc n)
  have "month_first (k + 1 + int (Suc n)) = month_first (k + 1 + int n) + month_length (k + 1 + int n)"
    using month_first_Suc [of "k + 1 + int n"] by (simp add: algebra_simps)
  with Suc month_length_bounds(1) [of "k + 1 + int n"] show ?case by simp
qed

lemma month_first_less: "k < k' \<Longrightarrow> month_first k + month_length k \<le> month_first k'"
  using month_first_later [of k "nat (k' - k - 1)"] by simp

lemma month_date_less: "k < k' \<Longrightarrow> 1 \<le> d' \<Longrightarrow> month_date k d < month_date k' d'"
  using month_first_less [of k k'] month_length_bounds [of k'] by (simp add: month_date_def)

lemma month_date_mono: "d \<le> d' \<Longrightarrow> month_date k d \<le> month_date k d'"
  using min.mono [of d d' "month_length k" "month_length k"] by (simp add: month_date_def)

lemma month_date_le: "1 \<le> d \<Longrightarrow> month_date k d \<le> month_date k' d \<longleftrightarrow> k \<le> k'"
  using month_date_less [of k' k d d] month_date_less [of k k' d d] by (cases k k' rule: linorder_cases) auto

lemma civil_month_date:
  assumes "1 \<le> d"
  shows "civil_from_day (month_date k d) = (k div 12, k mod 12 + 1, min d (month_length k))"
proof -
  have "valid_civil (k div 12) (k mod 12 + 1) (min d (month_length k))"
    using assms month_length_bounds [of k] by (simp add: valid_civil_def month_length_def)
  from civil_from_day_of_civil [OF this] show ?thesis by (simp add: month_date_def month_first_def)
qed

lemma month_index_date [simp]: "1 \<le> d \<Longrightarrow> month_index (month_date k d) = k"
  by (simp add: month_index_def civil_month_date)

lemma month_day_date: "1 \<le> d \<Longrightarrow> month_day (month_date k d) = min d (month_length k)"
  by (simp add: month_day_def civil_month_date)

lemma month_day_bounds: "1 \<le> month_day D" "month_day D \<le> 31"
  using civil_small by (cases "civil_from_day D"; simp add: month_day_def)+

lemma month_date_self: "month_date (month_index D) (month_day D) = D"
proof -
  obtain y m d where c: "civil_from_day D = (y, m, d)" by (cases "civil_from_day D")
  with civil_from_day_valid [OF c] have v: "valid_civil y m d" "D = day_from_year y + month_start (leap_year y) m + d - 1" by auto
  then have "(y * 12 + (m - 1)) div 12 = y" "(y * 12 + (m - 1)) mod 12 = m - 1" by (auto simp: valid_civil_def)
  with v c show ?thesis by (simp add: month_date_def month_first_def month_length_def month_index_def month_day_def valid_civil_def)
qed

lemma day_range_month: "day_range D \<longleftrightarrow> 1200 \<le> month_index D \<and> month_index D < 120000"
proof -
  obtain y m d where c: "civil_from_day D = (y, m, d)" by (cases "civil_from_day D")
  then show ?thesis using day_range_civil [OF c] civil_small [OF c] by (auto simp: month_index_def)
qed

lemma day_range_month_date: "1 \<le> d \<Longrightarrow> day_range (month_date k d) \<longleftrightarrow> 1200 \<le> k \<and> k < 120000"
  by (simp add: day_range_month)

text \<open>Adding months on real dates.\<close>

lemma addMonthsClamped_day:
  assumes "day_range D" "1200 \<le> month_index D + n" "month_index D + n < 120000"
  shows "addMonthsClamped (iso_day D) n = Some (iso_day (month_date (month_index D + n) (month_day D)))"
proof -
  obtain y m d where c: "civil_from_day D = (y, m, d)" by (cases "civil_from_day D")
  define k where "k = month_index D + n"
  have k: "k = y * 12 + (m - 1) + n" "month_day D = d" using c by (simp_all add: k_def month_index_def month_day_def)
  have d: "1 \<le> d" using civil_small [OF c] by simp
  have "k div 12 \<notin> {0..99}" using assms(2) by (auto simp: k_def [symmetric])
  then have "daysInMonth (k div 12) (k mod 12 + 1) = month_length k"
    by (simp add: daysInMonth_valid month_length_def)
  moreover have "shift_month y m n = (k div 12, k mod 12 + 1)"
    unfolding shift_month_def Let_def k(1) by (simp add: minus_div_mult_eq_mod)
  ultimately have "addMonthsClamped (iso_day D) n = Some (formatIso (k div 12) (k mod 12 + 1) (min d (month_length k)))"
    using assms(1) c by (simp add: addMonthsClamped_def parseIso_day)
  moreover have "day_range (month_date k d)" using assms d by (simp add: day_range_month_date k_def)
  ultimately show ?thesis using formatIso_day [OF civil_month_date [OF d]] k by (simp add: k_def)
qed

end
