(* ===== verification/Review_Dates.thy ===== *)
theory Review_Dates
  imports Rent_Schedule_Correct Month_Dates Business_Time
begin

text \<open>
  When the next rent review is due (\<open>src/nextReviewDate.ts\<close>) and which CPI quarters a review is worked
  from (\<open>src/rentReview/cpi.ts\<close>). A function of dates that throws on a text that is not a date has the
  outer \<open>None\<close> for the error; the answer \<open>null\<close> is the inner one. The warning of a bad setting is not
  modelled.
\<close>

section \<open>The next review\<close>

definition reviewWorkflowLiveFrom :: "string option \<Rightarrow> string option" where
  "reviewWorkflowLiveFrom raw =
     (let value = (case raw of Some r \<Rightarrow> js_trim r | None \<Rightarrow> '''')
      in if value = '''' then None else if isIsoDate value then Some value else None)"

definition DEFAULT_INTERVAL_MONTHS :: int where "DEFAULT_INTERVAL_MONTHS = 12"
definition MAX_ANNIVERSARIES :: nat where "MAX_ANNIVERSARIES = 2400"

record next_review_input =
  nr_commencement :: "string option"
  nr_last :: "string option"
  nr_resolved :: "string list"
  nr_interval :: "int option"
  nr_steps :: "rate_step list"
  nr_stored :: "string option"
  nr_today :: string
  nr_liveFrom :: "string option"

definition isSettled :: "rate_step \<Rightarrow> next_review_input \<Rightarrow> bool" where
  "isSettled step inp =
     (if rs_resolution step \<noteq> None then True
      else if rs_from step \<in> set (nr_resolved inp) then True
      else if stepPendingReason step None \<noteq> None then False
      else (case nr_liveFrom inp of
              None \<Rightarrow> js_le (rs_from step) (nr_today inp)
            | Some live \<Rightarrow> js_less (rs_from step) live))"

definition later_of :: "string option \<Rightarrow> string option \<Rightarrow> string option" where
  "later_of best date =
     (case date of
        None \<Rightarrow> best
      | Some d \<Rightarrow> (case best of None \<Rightarrow> Some d | Some b \<Rightarrow> if js_less b d then Some d else best))"

definition latest_date :: "string option list \<Rightarrow> string option" where
  "latest_date dates = foldl later_of None dates"

fun anniversary_loop :: "nat \<Rightarrow> int \<Rightarrow> string \<Rightarrow> int \<Rightarrow> string \<Rightarrow> string option option" where
  "anniversary_loop 0 n anchor intervalMonths after = Some None"
| "anniversary_loop (Suc k) n anchor intervalMonths after =
     (case addMonthsClamped anchor (n * intervalMonths) of
        None \<Rightarrow> None
      | Some candidate \<Rightarrow>
          if js_less after candidate then Some (Some candidate)
          else anniversary_loop k (n + 1) anchor intervalMonths after)"

definition nextAnniversary :: "string \<Rightarrow> int \<Rightarrow> string \<Rightarrow> string option option" where
  "nextAnniversary anchor intervalMonths after = anniversary_loop MAX_ANNIVERSARIES 1 anchor intervalMonths after"

text \<open>The parts of \<open>deriveNextReviewDate\<close>: the review rows, the first one open, the anchor, and the date to count from.\<close>

definition review_steps :: "next_review_input \<Rightarrow> rate_step list" where
  "review_steps inp = filter (\<lambda>step. rs_method step \<noteq> Some MCommencement) (sortSteps (nr_steps inp))"

definition open_review :: "next_review_input \<Rightarrow> rate_step option" where
  "open_review inp =
     find (\<lambda>step. (case nr_last inp of None \<Rightarrow> True | Some l \<Rightarrow> js_less l (rs_from step)) \<and> \<not> isSettled step inp) (review_steps inp)"

definition last_option :: "'a list \<Rightarrow> 'a option" where
  "last_option xs = (if xs = [] then None else Some (last xs))"

definition review_anchor :: "next_review_input \<Rightarrow> string option" where
  "review_anchor inp =
     (let steps = sortSteps (nr_steps inp);
          commenced = last_option (filter (\<lambda>step. rs_method step = Some MCommencement) steps)
      in or_default (map_option rs_from commenced)
           (or_default (nr_commencement inp) (case steps of s # _ \<Rightarrow> Some (rs_from s) | [] \<Rightarrow> None)))"

definition review_interval :: "next_review_input \<Rightarrow> int" where
  "review_interval inp = (case nr_interval inp of Some n \<Rightarrow> if n > 0 then n else DEFAULT_INTERVAL_MONTHS | None \<Rightarrow> DEFAULT_INTERVAL_MONTHS)"

definition settled_through :: "string \<Rightarrow> next_review_input \<Rightarrow> string" where
  "settled_through anchor inp =
     (case latest_date ([Some anchor, nr_last inp] @ map (\<lambda>s. Some (rs_from s)) (filter (\<lambda>s. isSettled s inp) (review_steps inp)) @
             map Some (nr_resolved inp)) of
        Some d \<Rightarrow> d
      | None \<Rightarrow> anchor)"

definition deriveNextReviewDate :: "next_review_input \<Rightarrow> string option option" where
  "deriveNextReviewDate inp =
     (case open_review inp of
        Some step \<Rightarrow> Some (Some (rs_from step))
      | None \<Rightarrow>
          (case review_anchor inp of
             None \<Rightarrow> Some None
           | Some anchor \<Rightarrow>
               if nr_steps inp = [] \<and> nr_stored inp \<noteq> None then Some None
               else nextAnniversary anchor (review_interval inp) (settled_through anchor inp)))"

definition parseResolvedReviewDates :: "string option \<Rightarrow> string list" where
  "parseResolvedReviewDates raw =
     (case raw of
        None \<Rightarrow> []
      | Some r \<Rightarrow>
          if js_trim r = '''' then []
          else filter (\<lambda>d. length d = 10) (map (\<lambda>d. take 10 (js_trim d)) (split_on (CHR '','') r)))"

section \<open>The CPI quarters\<close>

datatype cpi_rule = QuarterBeforeReview | LatestPublished

definition CPI_RELEASE_LAG_DAYS :: int where "CPI_RELEASE_LAG_DAYS = 30"

definition QUARTER_END_MONTH_DAY :: "string list" where
  "QUARTER_END_MONTH_DAY = [''03-31'', ''06-30'', ''09-30'', ''12-31'']"

text \<open>A quarter is a year and 1 to 4, written \<open>YYYY-Qn\<close>.\<close>

definition parsePeriod :: "string \<Rightarrow> (int \<times> int) option" where
  "parsePeriod period =
     (if length period = 7 \<and> take 2 (drop 4 period) = ''-Q'' then
        (case (number_of (take 4 period) 0, number_of (drop 6 period) 0) of
           (Some year, Some q) \<Rightarrow> if 1 \<le> q \<and> q \<le> 4 then Some (year, q) else None
         | _ \<Rightarrow> None)
      else None)"

definition formatPeriod :: "int \<Rightarrow> int \<Rightarrow> string" where
  "formatPeriod year q = pad_start 4 (int_text year) @ ''-Q'' @ int_text q"

definition shiftQuarters :: "string \<Rightarrow> int \<Rightarrow> string option" where
  "shiftQuarters period delta =
     (case parsePeriod period of
        None \<Rightarrow> None
      | Some (year, q) \<Rightarrow>
          (let index = year * 4 + (q - 1) + delta; shiftedYear = index div 4
           in Some (formatPeriod shiftedYear (index - shiftedYear * 4 + 1))))"

definition quarterEnd :: "string \<Rightarrow> string option" where
  "quarterEnd period =
     (case parsePeriod period of
        None \<Rightarrow> None
      | Some (year, q) \<Rightarrow> Some (pad_start 4 (int_text year) @ ''-'' @ QUARTER_END_MONTH_DAY ! nat (q - 1)))"

text \<open>The quarter of an ISO date; on a text without the digits the code goes on to throw in \<open>parsePeriod\<close>.\<close>

definition quarterOf :: "string \<Rightarrow> string option" where
  "quarterOf isoDate =
     (case (number_of (take 4 isoDate) 0, number_of (take 2 (drop 5 isoDate)) 0) of
        (Some year, Some month) \<Rightarrow> Some (formatPeriod year ((month - 1) div 3 + 1))
      | _ \<Rightarrow> None)"

definition referenceQuarter :: "string \<Rightarrow> string option" where
  "referenceQuarter reviewDate = Option.bind (quarterOf reviewDate) (\<lambda>q. shiftQuarters q (-1))"

definition expectedRelease :: "string \<Rightarrow> string option" where
  "expectedRelease period = Option.bind (quarterEnd period) (\<lambda>e. addDaysIso e CPI_RELEASE_LAG_DAYS)"

text \<open>\<open>while (expectedRelease(quarter) >= reviewDate) quarter = shiftQuarters(quarter, -1)\<close>; \<open>None\<close>
  also stands for a loop that does not end.\<close>

partial_function (option) published_before :: "string \<Rightarrow> string \<Rightarrow> string option" where
  "published_before quarter reviewDate =
     (case expectedRelease quarter of
        None \<Rightarrow> None
      | Some release \<Rightarrow>
          if js_le reviewDate release
          then (case shiftQuarters quarter (-1) of None \<Rightarrow> None | Some earlier \<Rightarrow> published_before earlier reviewDate)
          else Some quarter)"

declare published_before.simps [code]

definition referenceQuarterFor :: "cpi_rule \<Rightarrow> string \<Rightarrow> string option" where
  "referenceQuarterFor rule reviewDate =
     (case referenceQuarter reviewDate of
        None \<Rightarrow> None
      | Some quarter \<Rightarrow> if rule \<noteq> LatestPublished then Some quarter else published_before quarter reviewDate)"

definition previousQuarter :: "string \<Rightarrow> rat option \<Rightarrow> string option" where
  "previousQuarter reference intervalMonths =
     (let months = (case intervalMonths of Some n \<Rightarrow> if n > 0 then n else 12 | None \<Rightarrow> 12)
      in shiftQuarters reference (- max 1 (js_round (months / 3))))"

record cpi_index_row =
  ci_value :: rat
  ci_period :: string
  ci_base :: "string option"

record cpi_suggestion =
  cs_expectedRelease :: "string option"
  cs_previousQuarter :: string
  cs_referenceQuarter :: string
  cs_region :: string
  cs_rule :: cpi_rule
  cs_values :: "(rat \<times> rat \<times> string) option"

definition comparable_values :: "cpi_index_row option \<Rightarrow> cpi_index_row option \<Rightarrow> (rat \<times> rat \<times> string) option" where
  "comparable_values current earlier =
     (case (current, earlier) of
        (Some c, Some e) \<Rightarrow>
          (case ci_base c of
             Some b \<Rightarrow> if ci_base e = Some b then Some (ci_value c, ci_value e, b) else None
           | None \<Rightarrow> None)
      | _ \<Rightarrow> None)"

definition buildCpiSuggestion :: "rat option \<Rightarrow> string \<Rightarrow> string \<Rightarrow> cpi_index_row list \<Rightarrow> cpi_rule \<Rightarrow> cpi_suggestion option" where
  "buildCpiSuggestion intervalMonths region reviewDate rows rule =
     (case referenceQuarterFor rule reviewDate of
        None \<Rightarrow> None
      | Some reference \<Rightarrow>
          (case previousQuarter reference intervalMonths of
             None \<Rightarrow> None
           | Some previous \<Rightarrow>
               (let current = find (\<lambda>row. ci_period row = reference) rows; earlier = find (\<lambda>row. ci_period row = previous) rows
                in (case (if current = None then map_option Some (expectedRelease reference) else Some None) of
                      None \<Rightarrow> None
                    | Some release \<Rightarrow>
                        Some \<lparr>cs_expectedRelease = release, cs_previousQuarter = previous, cs_referenceQuarter = reference,
                          cs_region = region, cs_rule = rule, cs_values = comparable_values current earlier\<rparr>))))"

end
