(* ===== verification/Review_Dates_Correct.thy ===== *)
theory Review_Dates_Correct
  imports Review_Dates
begin

text \<open>
  What holds of the review dates: the next review is the earliest one open, else the first anniversary after
  everything settled, which the bounded search always finds; and the CPI quarter a review is worked from is
  the latest one ended, or published, before it.
\<close>

section \<open>The next review\<close>

lemma later_of_ge:
  assumes "later_of best date = Some m"
  shows "best = Some b \<Longrightarrow> js_le b m" "date = Some d \<Longrightarrow> js_le d m"
  using assms by (auto simp: later_of_def js_le_def js_less_asym split: option.splits if_splits)

lemma later_of_None: "later_of best date = None \<longleftrightarrow> best = None \<and> date = None"
  by (auto simp: later_of_def split: option.splits)

lemma foldl_later_ge:
  assumes "foldl later_of best dates = Some m"
  shows "(best = Some b \<longrightarrow> js_le b m) \<and> (Some d \<in> set dates \<longrightarrow> js_le d m)"
  using assms
proof (induction dates arbitrary: best b)
  case (Cons x xs)
  have step: "later_of best x = Some c \<Longrightarrow> js_le c m" for c using Cons by simp
  show ?case
  proof (intro conjI impI)
    assume "best = Some b"
    then obtain c where "later_of best x = Some c" using later_of_None by (cases "later_of best x") auto
    with step later_of_ge(1) \<open>best = Some b\<close> show "js_le b m" using js_le_trans by blast
  next
    assume "Some d \<in> set (x # xs)"
    then consider "x = Some d" | "Some d \<in> set xs" by auto
    then show "js_le d m"
    proof cases
      case 1
      then obtain c where "later_of best x = Some c" using later_of_None by (cases "later_of best x") auto
      with step later_of_ge(2) 1 show ?thesis using js_le_trans by blast
    next
      case 2
      with Cons show ?thesis by simp
    qed
  qed
qed simp

lemma foldl_later_Some: "\<exists>c. foldl later_of (Some b) xs = Some c"
proof (induction xs arbitrary: b)
  case (Cons x xs)
  obtain c where "later_of (Some b) x = Some c" using later_of_None [of "Some b" x] by (cases "later_of (Some b) x") auto
  with Cons show ?case by simp
qed simp

lemma foldl_later_mem: "foldl later_of best dates = Some m \<Longrightarrow> best = Some m \<or> Some m \<in> set dates"
proof (induction dates arbitrary: best)
  case (Cons x xs)
  have "later_of best x = best \<or> later_of best x = x" by (simp add: later_of_def split: option.split)
  with Cons.IH [of "later_of best x"] Cons.prems show ?case by auto
qed simp

text \<open>The rows that are reviews, the ones still open, the day the anniversaries are counted from (the latest commencement
  row, else the commencement of the lease, else the first row), how many months apart they are, and the dates the next
  one has to come after.\<close>

definition row_of_review :: "next_review_input \<Rightarrow> rate_step \<Rightarrow> bool" where
  "row_of_review inp s \<longleftrightarrow> s \<in> set (nr_steps inp) \<and> rs_method s \<noteq> Some MCommencement"

definition open_row :: "next_review_input \<Rightarrow> rate_step \<Rightarrow> bool" where
  "open_row inp s \<longleftrightarrow>
     row_of_review inp s \<and> (case nr_last inp of None \<Rightarrow> True | Some l \<Rightarrow> js_less l (rs_from s)) \<and> \<not> isSettled s inp"

definition commencement_row :: "next_review_input \<Rightarrow> rate_step \<Rightarrow> bool" where
  "commencement_row inp s \<longleftrightarrow> s \<in> set (nr_steps inp) \<and> rs_method s = Some MCommencement"

definition counted_from :: "next_review_input \<Rightarrow> string \<Rightarrow> bool" where
  "counted_from inp anchor \<longleftrightarrow>
     (if \<exists>s. commencement_row inp s
      then (\<exists>s. commencement_row inp s \<and> rs_from s = anchor) \<and> (\<forall>s. commencement_row inp s \<longrightarrow> js_le (rs_from s) anchor)
      else case nr_commencement inp of
        Some c \<Rightarrow> anchor = c
      | None \<Rightarrow> anchor \<in> rs_from ` set (nr_steps inp) \<and> (\<forall>s\<in>set (nr_steps inp). js_le anchor (rs_from s)))"

definition months_apart :: "next_review_input \<Rightarrow> int" where
  "months_apart inp = (case nr_interval inp of None \<Rightarrow> 12 | Some n \<Rightarrow> if n > 0 then n else 12)"

definition to_come_after :: "next_review_input \<Rightarrow> string \<Rightarrow> string \<Rightarrow> bool" where
  "to_come_after inp anchor x \<longleftrightarrow>
     x = anchor \<or> nr_last inp = Some x \<or> (\<exists>s. row_of_review inp s \<and> isSettled s inp \<and> rs_from s = x) \<or> x \<in> set (nr_resolved inp)"

lemma set_review_steps: "s \<in> set (review_steps inp) \<longleftrightarrow> row_of_review inp s"
  by (auto simp: review_steps_def row_of_review_def)

lemma settled_through_latest:
  "to_come_after inp anchor (settled_through anchor inp)"
  "to_come_after inp anchor x \<Longrightarrow> js_le x (settled_through anchor inp)"
proof -
  let ?dates = "[Some anchor, nr_last inp] @ map (\<lambda>s. Some (rs_from s)) (filter (\<lambda>s. isSettled s inp) (review_steps inp)) @
      map Some (nr_resolved inp)"
  have mem: "Some y \<in> set ?dates \<longleftrightarrow> to_come_after inp anchor y" for y
    by (auto simp: to_come_after_def set_review_steps)
  have "latest_date ?dates \<noteq> None"
    using foldl_later_Some [of anchor "tl ?dates"] by (simp add: latest_date_def later_of_def del: foldl_append)
  then have "latest_date ?dates = Some (settled_through anchor inp)"
    unfolding settled_through_def by (cases "latest_date ?dates") simp_all
  then have last_one: "foldl later_of None ?dates = Some (settled_through anchor inp)" by (simp only: latest_date_def)
  from foldl_later_mem [OF this] mem show "to_come_after inp anchor (settled_through anchor inp)" by blast
  show "to_come_after inp anchor x \<Longrightarrow> js_le x (settled_through anchor inp)"
    using foldl_later_ge [OF last_one] mem by blast
qed

lemma anniversary_loop_first:
  assumes "anniversary_loop k n anchor iv after = Some (Some d)"
  shows "\<exists>m. n \<le> m \<and> m < n + int k \<and> addMonthsClamped anchor (m * iv) = Some d \<and> js_less after d \<and>
    (\<forall>j. n \<le> j \<and> j < m \<longrightarrow> (\<exists>c. addMonthsClamped anchor (j * iv) = Some c \<and> js_le c after))"
  using assms
proof (induction k arbitrary: n)
  case (Suc k)
  then obtain c where c: "addMonthsClamped anchor (n * iv) = Some c" by (auto split: option.splits)
  show ?case
  proof (cases "js_less after c")
    case True
    with Suc.prems c show ?thesis by (intro exI [of _ n]) auto
  next
    case False
    with Suc.prems c have "anniversary_loop k (n + 1) anchor iv after = Some (Some d)" by simp
    from Suc.IH [OF this] obtain m where m: "n + 1 \<le> m" "m < n + 1 + int k" "addMonthsClamped anchor (m * iv) = Some d" "js_less after d"
      and earlier: "\<And>j. n + 1 \<le> j \<Longrightarrow> j < m \<Longrightarrow> \<exists>c. addMonthsClamped anchor (j * iv) = Some c \<and> js_le c after" by blast
    have "\<exists>c. addMonthsClamped anchor (j * iv) = Some c \<and> js_le c after" if "n \<le> j" "j < m" for j
      using earlier [of j] that c False by (cases "j = n") (auto simp: js_le_def)
    with m show ?thesis by (intro exI [of _ m]) auto
  qed
qed simp

lemma sorted_last: "sorted_wrt R xs \<Longrightarrow> y \<in> set xs \<Longrightarrow> R y (last xs) \<or> y = last xs"
  by (induction xs) (auto split: if_splits)

lemma review_anchor_counted:
  assumes "review_anchor inp = Some anchor"
  shows "counted_from inp anchor"
proof -
  define cs where "cs = filter (\<lambda>step. rs_method step = Some MCommencement) (sortSteps (nr_steps inp))"
  have mem: "s \<in> set cs \<longleftrightarrow> commencement_row inp s" for s by (auto simp: cs_def commencement_row_def)
  have sorted: "sorted_wrt (\<lambda>a b. js_le (rs_from a) (rs_from b)) cs"
    unfolding cs_def by (rule sorted_wrt_filter [OF sorted_sortSteps])
  show ?thesis
  proof (cases "cs = []")
    case False
    then have "anchor = rs_from (last cs)" using assms by (simp add: review_anchor_def last_option_def cs_def Let_def or_default_def)
    moreover have "commencement_row inp (last cs)" using False mem last_in_set by blast
    moreover have "js_le (rs_from s) (rs_from (last cs))" if "commencement_row inp s" for s
    proof -
      from sorted_last [OF sorted, of s] that mem have "js_le (rs_from s) (rs_from (last cs)) \<or> s = last cs" by blast
      then show ?thesis by (auto simp: js_le_def)
    qed
    ultimately show ?thesis by (auto simp: counted_from_def)
  next
    case True
    with mem have none: "\<not> commencement_row inp s" for s by simp
    from True assms have a: "or_default (nr_commencement inp) (case sortSteps (nr_steps inp) of s # _ \<Rightarrow> Some (rs_from s) | [] \<Rightarrow> None) = Some anchor"
      by (simp add: review_anchor_def last_option_def cs_def [symmetric] Let_def or_default_def)
    show ?thesis
    proof (cases "nr_commencement inp")
      case None
      with a obtain s rest where s: "sortSteps (nr_steps inp) = s # rest" "anchor = rs_from s"
        by (auto simp: or_default_def split: list.splits)
      have "set (nr_steps inp) = insert s (set rest)" using set_sortSteps [of "nr_steps inp"] s(1) by simp
      then show ?thesis using none None s sorted_sortSteps [of "nr_steps inp"] by (auto simp: counted_from_def js_le_def)
    qed (use a none in \<open>simp add: counted_from_def or_default_def\<close>)
  qed
qed

lemma find_sorted_first:
  assumes "sorted_wrt R xs" "find P xs = Some x" "y \<in> set xs" "P y" "R x x"
  shows "R x y"
  using assms by (induction xs) (auto split: if_splits)

lemma review_steps_sorted: "sorted_wrt (\<lambda>a b. js_le (rs_from a) (rs_from b)) (review_steps inp)"
  unfolding review_steps_def using dates.sorted_sort_by by (simp add: by_date_le sortSteps_def sorted_wrt_filter)

text \<open>C38: The next review comes after the last one. It is the earliest review row after that one that nothing has settled;
  when there is none it is the first anniversary (a whole number of review intervals, the tenancy's own or twelve
  months, after the latest commencement, month ends clamped) that comes after that commencement, the last review,
  every settled review row and every resolved review: each anniversary before it is no later than one of those.\<close>

theorem next_review_due:
  assumes "deriveNextReviewDate inp = Some (Some d)"
  shows "(case nr_last inp of Some l \<Rightarrow> js_less l d | None \<Rightarrow> True) \<and>
    ((\<exists>s. open_row inp s \<and> d = rs_from s \<and> (\<forall>s'. open_row inp s' \<longrightarrow> js_le d (rs_from s'))) \<or>
     (\<forall>s. \<not> open_row inp s) \<and>
     (\<exists>anchor n. counted_from inp anchor \<and> 1 \<le> n \<and> addMonthsClamped anchor (n * months_apart inp) = Some d \<and>
        (\<forall>x. to_come_after inp anchor x \<longrightarrow> js_less x d) \<and>
        (\<forall>j. 1 \<le> j \<and> j < n \<longrightarrow>
           (\<exists>c x. addMonthsClamped anchor (j * months_apart inp) = Some c \<and> to_come_after inp anchor x \<and> js_le c x))))"
proof (cases "open_review inp")
  case (Some step)
  define P where "P s \<longleftrightarrow> (case nr_last inp of None \<Rightarrow> True | Some l \<Rightarrow> js_less l (rs_from s)) \<and> \<not> isSettled s inp" for s
  have P: "open_row inp s \<longleftrightarrow> s \<in> set (review_steps inp) \<and> P s" for s by (simp add: open_row_def P_def set_review_steps)
  from Some assms have d: "d = rs_from step" by (simp add: deriveNextReviewDate_def)
  from Some have f: "find P (review_steps inp) = Some step" by (simp add: open_review_def P_def [abs_def])
  then have m: "step \<in> set (review_steps inp)" "P step" by (auto simp: find_Some_iff)
  have "js_le d (rs_from s)" if "open_row inp s" for s
    using find_sorted_first [OF review_steps_sorted f] that d P by simp
  with m d P have "\<exists>s. open_row inp s \<and> d = rs_from s \<and> (\<forall>s'. open_row inp s' \<longrightarrow> js_le d (rs_from s'))" by blast
  moreover have "case nr_last inp of Some l \<Rightarrow> js_less l d | None \<Rightarrow> True" using m(2) d by (simp add: P_def split: option.splits)
  ultimately show ?thesis by blast
next
  case None
  with assms obtain anchor where a: "review_anchor inp = Some anchor"
    and n: "nextAnniversary anchor (review_interval inp) (settled_through anchor inp) = Some (Some d)"
    by (auto simp: deriveNextReviewDate_def split: option.splits if_splits)
  have iv: "review_interval inp = months_apart inp"
    by (simp add: review_interval_def months_apart_def DEFAULT_INTERVAL_MONTHS_def split: option.split)
  from anniversary_loop_first [OF n [unfolded nextAnniversary_def iv]] obtain m where m: "1 \<le> m"
    "addMonthsClamped anchor (m * months_apart inp) = Some d" "js_less (settled_through anchor inp) d"
    and earlier: "\<And>j. 1 \<le> j \<Longrightarrow> j < m \<Longrightarrow>
      \<exists>c. addMonthsClamped anchor (j * months_apart inp) = Some c \<and> js_le c (settled_through anchor inp)" by blast
  have after: "js_less x d" if "to_come_after inp anchor x" for x
    using settled_through_latest(2) [OF that] m(3) js_le_less_trans by blast
  moreover have "case nr_last inp of Some l \<Rightarrow> js_less l d | None \<Rightarrow> True"
    using after by (simp add: to_come_after_def split: option.split)
  moreover have "\<not> open_row inp s" for s
    using None by (auto simp: open_review_def find_None_iff open_row_def set_review_steps [symmetric])
  ultimately show ?thesis
    using review_anchor_counted [OF a] m(1, 2) earlier settled_through_latest(1) [of inp anchor] by blast
qed

text \<open>The anniversaries of a day, and the first one after another day.\<close>

definition anniversary :: "int \<Rightarrow> int \<Rightarrow> int \<Rightarrow> int" where
  "anniversary D iv n = month_date (month_index D + n * iv) (month_day D)"

lemma anniversary_loop_finds:
  assumes "day_range D" "day_range A" "1 \<le> iv" "month_index D + hit * iv < 120000" "A < anniversary D iv hit"
    and "\<And>j. n \<le> j \<Longrightarrow> j < hit \<Longrightarrow> anniversary D iv j \<le> A" "1 \<le> n" "n \<le> hit" "hit < n + int k"
  shows "anniversary_loop k n (iso_day D) iv (iso_day A) = Some (Some (iso_day (anniversary D iv hit)))"
  using assms(6-9)
proof (induction k arbitrary: n)
  case (Suc k)
  have "n * iv \<le> hit * iv" using Suc.prems(3) assms(3) by (simp add: mult_right_mono)
  moreover have "0 \<le> n * iv" using Suc.prems(2) assms(3) by simp
  ultimately have r: "1200 \<le> month_index D + n * iv" "month_index D + n * iv < 120000"
    using assms(1,4) unfolding day_range_month by linarith+
  then have d: "day_range (anniversary D iv n)" unfolding anniversary_def using day_range_month_date month_day_bounds by blast
  have c: "addMonthsClamped (iso_day D) (n * iv) = Some (iso_day (anniversary D iv n))"
    unfolding anniversary_def by (rule addMonthsClamped_day [OF assms(1) r])
  show ?case
  proof (cases "n = hit")
    case True
    with c d assms(2,5) show ?thesis by (simp add: iso_day_less)
  next
    case False
    with Suc.prems have "anniversary D iv n \<le> A" "n + 1 \<le> hit" by simp_all
    moreover have "anniversary_loop k (n + 1) (iso_day D) iv (iso_day A) = Some (Some (iso_day (anniversary D iv hit)))"
      using Suc.IH [of "n + 1"] Suc.prems calculation(2) by simp
    ultimately show ?thesis using c d assms(2) by (simp add: iso_day_less)
  qed
qed simp

text \<open>Within two hundred years of the lease's anchor the bounded search for the next anniversary ends, with the first
  one after the day asked for.\<close>

theorem next_anniversary_found:
  assumes "day_range D" "day_range A" "1 \<le> iv" "month_index A < month_index D + int MAX_ANNIVERSARIES"
    and "max (month_index D) (month_index A) + iv < 119999"
  shows "\<exists>n\<ge>1. nextAnniversary (iso_day D) iv (iso_day A) = Some (Some (iso_day (anniversary D iv n))) \<and>
    A < anniversary D iv n \<and> (\<forall>j\<in>{1..<n}. anniversary D iv j \<le> A)"
proof -
  define first where "first = (LEAST n. A < anniversary D iv (int n + 1))"
  define bound where "bound = nat (max 0 (month_index A - month_index D))"
  have past: "A < anniversary D iv n" if "month_index A < month_index D + n * iv" for n
    using month_date_less [OF that] month_day_bounds month_date_self [of A] unfolding anniversary_def by metis
  have "1 * (int bound + 1) \<le> iv * (int bound + 1)" using assms(3) by (intro mult_right_mono) simp_all
  then have "month_index A < month_index D + (int bound + 1) * iv" by (simp add: bound_def algebra_simps)
  then have found: "A < anniversary D iv (int bound + 1)" by (rule past)
  then have first: "A < anniversary D iv (int first + 1)" "first \<le> bound"
    unfolding first_def by (rule LeastI, rule Least_le)
  have before: "anniversary D iv j \<le> A" if "1 \<le> j" "j < int first + 1" for j
    using not_less_Least [of "nat (j - 1)" "\<lambda>n. A < anniversary D iv (int n + 1)"] that by (simp add: first_def not_less)
  have "month_index D + (int first + 1) * iv < 120000"
  proof (cases first)
    case 0
    with assms(5) show ?thesis by simp
  next
    case (Suc j)
    with before [of "int first"] have "anniversary D iv (int first) \<le> A" by simp
    with past [of "int first"] have "month_index D + int first * iv \<le> month_index A" by (metis not_less)
    with assms(5) show ?thesis by (simp add: algebra_simps)
  qed
  moreover have "int first + 1 < 1 + int MAX_ANNIVERSARIES"
    using first(2) assms(4) by (auto simp: bound_def MAX_ANNIVERSARIES_def)
  ultimately have "nextAnniversary (iso_day D) iv (iso_day A) = Some (Some (iso_day (anniversary D iv (int first + 1))))"
    unfolding nextAnniversary_def using anniversary_loop_finds [OF assms(1-3) _ first(1), of 1] before by simp
  with first(1) before show ?thesis by (intro exI [of _ "int first + 1"]) auto
qed

section \<open>The CPI quarters\<close>

text \<open>Quarter \<open>k\<close> is quarter \<open>k mod 4 + 1\<close> of year \<open>k div 4\<close>; its text and its last day.\<close>

definition quarter_text :: "int \<Rightarrow> string" where
  "quarter_text k = formatPeriod (k div 4) (k mod 4 + 1)"

definition quarter_last :: "int \<Rightarrow> int" where
  "quarter_last k = month_date (3 * k + 2) 31"

lemma quarter_number: "k mod 4 = 0 \<or> k mod 4 = 1 \<or> k mod 4 = 2 \<or> k mod 4 = (3 :: int)"
  by presburger

lemma int_text_quarter: "int_text (k mod 4 + 1) = dec_digits 1 (k mod 4 + 1)"
proof -
  have "pad_start 1 (int_text (k mod 4 + 1)) = dec_digits 1 (k mod 4 + 1)" by (rule int_text_pad) auto
  moreover have "int_text (k mod 4 + 1) \<noteq> []"
    using quarter_number [of k] by (auto simp: int_text_def nat_text.simps)
  ultimately show ?thesis by (cases "int_text (k mod 4 + 1)") (simp_all add: pad_start_def)
qed

lemma parse_quarter:
  assumes "0 \<le> k" "k < 40000"
  shows "parsePeriod (quarter_text k) = Some (k div 4, k mod 4 + 1)"
proof -
  have y: "0 \<le> k div 4" "k div 4 \<le> 9999" using assms by presburger+
  have p: "pad_start 4 (int_text (k div 4)) = dec_digits 4 (k div 4)" using y by (simp add: int_text_pad)
  have n: "number_of (dec_digits 4 (k div 4)) 0 = Some (k div 4)" "number_of (dec_digits 1 (k mod 4 + 1)) 0 = Some (k mod 4 + 1)"
    using number_of_dec_digits [of "k div 4" 4] number_of_dec_digits [of "k mod 4 + 1" 1] y by auto
  show ?thesis
    unfolding parsePeriod_def quarter_text_def formatPeriod_def p int_text_quarter
    using n by (simp del: number_of.simps dec_digits.simps) 
qed

lemma shift_quarter: "0 \<le> k \<Longrightarrow> k < 40000 \<Longrightarrow> shiftQuarters (quarter_text k) n = Some (quarter_text (k + n))"
  unfolding shiftQuarters_def
  by (simp add: parse_quarter Let_def minus_div_mult_eq_mod) (simp add: quarter_text_def algebra_simps minus_div_mult_eq_mod)

lemma quarter_last_first: "quarter_last k = month_first (3 * k + 3) - 1"
  using month_first_Suc [of "3 * k + 2"] month_length_bounds [of "3 * k + 2"]
  by (simp add: quarter_last_def month_date_def algebra_simps)

lemma quarter_last_Suc: "quarter_last k + 84 \<le> quarter_last (k + 1)"
  using month_first_later [of "3 * k + 3" 2] month_length_bounds(1) [of "3 * k + 3"] by (simp add: quarter_last_first algebra_simps)

lemma day_range_quarter: "400 \<le> k \<Longrightarrow> k < 40000 \<Longrightarrow> day_range (quarter_last k)"
  by (simp add: quarter_last_def day_range_month_date)

lemma quarterEnd_text:
  assumes "400 \<le> k" "k < 40000"
  shows "quarterEnd (quarter_text k) = Some (iso_day (quarter_last k))"
proof -
  have k: "(3 * k + 2) div 12 = k div 4" "(3 * k + 2) mod 12 = 3 * (k mod 4) + 2" by presburger+
  have y: "0 \<le> k div 4" "k div 4 \<le> 9999" using assms by presburger+
  have c: "civil_from_day (quarter_last k) = (k div 4, 3 * (k mod 4) + 3, month_length (3 * k + 2))"
    using civil_month_date [of 31 "3 * k + 2"] month_length_bounds(2) [of "3 * k + 2"] k by (simp add: quarter_last_def min_absorb2)
  have "QUARTER_END_MONTH_DAY ! nat (k mod 4) = dec_digits 2 (3 * (k mod 4) + 3) @ ''-'' @ dec_digits 2 (month_length (3 * k + 2))"
    using quarter_number [of k]
    by (elim disjE) (simp_all add: QUARTER_END_MONTH_DAY_def month_length_def days_in_month_def month_start_def k, code_simp+)
  then show ?thesis
    using assms day_range_quarter [OF assms] y
    by (simp add: quarterEnd_def parse_quarter iso_day_eq [OF c] int_text_pad)
qed

lemma release_text:
  assumes "400 \<le> k" "k < 39996"
  shows "expectedRelease (quarter_text k) = Some (iso_day (quarter_last k + 30)) \<and> day_range (quarter_last k + 30)"
proof -
  have "quarter_last k + 30 \<le> quarter_last (k + 1)" using quarter_last_Suc [of k] by simp
  moreover have "day_range (quarter_last k)" "day_range (quarter_last (k + 1))" using assms by (simp_all add: day_range_quarter)
  ultimately have "day_range (quarter_last k + 30)" by (simp add: day_range_def)
  with assms show ?thesis
    by (simp add: expectedRelease_def quarterEnd_text addDaysIso_day day_range_quarter CPI_RELEASE_LAG_DAYS_def)
qed

lemma quarter_of_day:
  assumes "day_range D"
  shows "quarterOf (iso_day D) = Some (quarter_text (month_index D div 3)) \<and>
    quarter_last (month_index D div 3 - 1) < D \<and> D \<le> quarter_last (month_index D div 3)"
proof -
  obtain y m d where c: "civil_from_day D = (y, m, d)" by (cases "civil_from_day D")
  define k where "k = month_index D"
  have k: "k = y * 12 + (m - 1)" using c by (simp add: k_def month_index_def)
  have b: "1 \<le> m" "m \<le> 12" "1 \<le> d" "d \<le> 31" using civil_small [OF c] by simp_all
  have y: "0 \<le> y" "y \<le> 9999" using day_range_civil [OF c] assms by simp_all
  have q: "k div 3 div 4 = y" "k div 3 mod 4 = (m - 1) div 3" unfolding k using b by presburger+
  have s: "iso_day D = dec_digits 4 y @ ''-'' @ dec_digits 2 m @ ''-'' @ dec_digits 2 d" by (rule iso_day_eq [OF c assms])
  have n: "number_of (dec_digits 4 y) 0 = Some y" "number_of (dec_digits 2 m) 0 = Some m"
    using number_of_dec_digits [of y 4] number_of_dec_digits [of m 2] y b by auto
  have t: "take 4 (iso_day D) = dec_digits 4 y" "take 2 (drop 5 (iso_day D)) = dec_digits 2 m"
    unfolding s by (simp_all del: dec_digits.simps)
  have "quarterOf (iso_day D) = Some (quarter_text (k div 3))"
    unfolding quarterOf_def t n by (simp add: quarter_text_def q)
  moreover have "month_first (3 * (k div 3)) \<le> month_first k"
  proof (cases "3 * (k div 3) = k")
    case False
    then have "3 * (k div 3) < k" by presburger
    from month_first_less [OF this] month_length_bounds(1) [of "3 * (k div 3)"] show ?thesis by simp
  qed simp
  moreover have "k < 3 * (k div 3) + 3" by presburger
  from month_first_less [OF this] have "month_first k + month_length k \<le> month_first (3 * (k div 3) + 3)" .
  moreover have "month_first k \<le> D" "D < month_first k + month_length k"
    using month_date_self [of D] month_day_bounds [of D] month_length_bounds [of k] by (auto simp: month_date_def k_def)
  moreover have "3 * (k div 3 - 1) + 3 = 3 * (k div 3)" by simp
  ultimately show ?thesis by (simp add: quarter_last_first k_def)
qed

text \<open>C39: A CPI review is worked from the last quarter to end before its date, or under the lease's other rule from the
  last one ABS is expected to have published before it; the search back through the quarters ends.\<close>

theorem reference_quarter_latest:
  assumes "day_range D" "1209 \<le> month_index D" "month_index D < 119980"
  shows "\<exists>k. referenceQuarterFor rule (iso_day D) = Some (quarter_text k) \<and>
    (if rule = LatestPublished then quarter_last k + CPI_RELEASE_LAG_DAYS < D \<and> D \<le> quarter_last (k + 1) + CPI_RELEASE_LAG_DAYS
     else quarter_last k < D \<and> D \<le> quarter_last (k + 1))"
proof -
  define k where "k = month_index D div 3 - 1"
  have k: "401 < k" "k < 39995" using assms(2,3) unfolding k_def by presburger+
  note q = quarter_of_day [OF assms(1)]
  have ref: "referenceQuarter (iso_day D) = Some (quarter_text k)"
    using q k by (simp add: referenceQuarter_def shift_quarter k_def)
  have D: "quarter_last k < D" "D \<le> quarter_last (k + 1)" using q by (simp_all add: k_def)
  have le: "js_le (iso_day D) (iso_day (quarter_last j + 30)) \<longleftrightarrow> D \<le> quarter_last j + 30" if "400 \<le> j" "j < 39996" for j
    using release_text [OF that] assms(1) by (simp add: js_le_iso_day)
  have early: "quarter_last (k - 1) + 30 < D" using quarter_last_Suc [of "k - 1"] D by simp
  have "published_before (quarter_text k) (iso_day D) = Some (quarter_text (if D \<le> quarter_last k + 30 then k - 1 else k))"
    using k early release_text [of k] release_text [of "k - 1"] le [of k] le [of "k - 1"] shift_quarter [of k "-1"]
    by (subst published_before.simps) (simp add: published_before.simps [of "quarter_text (k - 1)"])
  with ref D early quarter_last_Suc [of k] show ?thesis
    by (intro exI [of _ "if rule = LatestPublished \<and> D \<le> quarter_last k + 30 then k - 1 else k"])
       (auto simp: referenceQuarterFor_def CPI_RELEASE_LAG_DAYS_def)
qed

section \<open>Some dates\<close>

definition sample_next :: next_review_input where
  "sample_next =
     \<lparr>nr_commencement = None, nr_last = Some ''2025-07-01'', nr_resolved = [], nr_interval = None, nr_steps = sample_steps, nr_stored = None,
      nr_today = ''2026-01-01'', nr_liveFrom = None\<rparr>"

theorem next_review_due_witness:
  "deriveNextReviewDate sample_next = Some (Some ''2026-07-01'') \<and> js_less ''2025-07-01'' ''2026-07-01''"
proof -
  have due_then: "deriveNextReviewDate sample_next = Some (Some ''2026-07-01'')" by code_simp
  with next_review_due [OF this] show ?thesis by (simp add: sample_next_def)
qed

theorem next_anniversary_found_witness:
  "\<exists>n\<ge>1. nextAnniversary ''2024-01-31'' 1 ''2024-03-01'' = Some (Some (iso_day (anniversary 19753 1 n))) \<and> 19783 < anniversary 19753 1 n"
proof -
  have d: "iso_day 19753 = ''2024-01-31''" "iso_day 19783 = ''2024-03-01''" "day_range 19753" "day_range 19783"
      "month_index 19753 = 24288" "month_index 19783 = 24290"
    by code_simp+
  have "\<exists>n\<ge>1. nextAnniversary (iso_day 19753) 1 (iso_day 19783) = Some (Some (iso_day (anniversary 19753 1 n))) \<and>
      19783 < anniversary 19753 1 n \<and> (\<forall>j\<in>{1..<n}. anniversary 19753 1 j \<le> 19783)"
    by (rule next_anniversary_found) (simp_all add: d MAX_ANNIVERSARIES_def)
  then show ?thesis unfolding d by blast
qed

theorem reference_quarter_latest_witness:
  "\<exists>k. referenceQuarterFor LatestPublished ''2026-04-15'' = Some (quarter_text k) \<and> quarter_last k + CPI_RELEASE_LAG_DAYS < 20558"
proof -
  have d: "iso_day 20558 = ''2026-04-15''" "day_range 20558" "month_index 20558 = 24315" by code_simp+
  show ?thesis using reference_quarter_latest [OF d(2), of LatestPublished] unfolding d by auto
qed

end
