(* ===== verification/Schedule_Charges.thy ===== *)
theory Schedule_Charges
  imports Rent_Schedule_Correct Month_Dates
begin

text \<open>
  What a tenancy is charged under its schedule, \<open>src/scheduleCharges.ts\<close>: the rows of the schedule say what
  the lease asks, a ratified relief is laid over them, and the timeline is cut wherever the row in force,
  a relief, or a car park group or fee changes. The dates of reliefs and markers are real ISO dates (the
  reader lets no other through), so the helpers \<open>day_after\<close> and \<open>days_from\<close> leave out the error
  \<open>addDaysIso\<close> and \<open>daysBetweenIso\<close> throw on other texts. What a relief was asked for is display only.
\<close>

section \<open>The data\<close>

datatype relief_kind = RkAmount | RkFixedRent | RkPercent
datatype charge_scope = ScopeAhac | ScopeCarparks | ScopeMiscFees | ScopeRent

definition CHARGE_SCOPES :: "charge_scope list" where
  "CHARGE_SCOPES = [ScopeRent, ScopeAhac, ScopeCarparks, ScopeMiscFees]"

record rent_relief =
  rr_from :: string
  rr_id :: string
  rr_kind :: relief_kind
  rr_scope :: "charge_scope list"
  rr_to :: string
  rr_value :: rat

record charges =
  ck_ahac :: "rat option"
  ck_carparks :: "rat option"
  ck_miscFees :: "rat option"
  ck_rent :: "rat option"

record charge_period =
  cp_charged :: charges
  cp_from :: "string option"
  cp_lease :: charges
  cp_reliefIds :: "string list"
  cp_stepId :: "string option"
  cp_to :: "string option"

record pending_marker =
  pm_from :: "string option"
  pm_kind :: string
  pm_requestId :: string
  pm_summary :: string
  pm_to :: "string option"

record dated_charge =
  dc_annual :: rat
  dc_from :: string
  dc_to :: "string option"

record row_ancillaries =
  ra_carparks :: "rat option"
  ra_miscFees :: "rat option"
  ra_dated :: "(dated_charge list \<times> dated_charge list) option" \<comment> \<open>\<open>{ carparks, miscFees }\<close>\<close>

record charged_row =
  cr_pendingChanges :: "pending_marker list"
  cr_periods :: "charge_period list"
  cr_stepId :: string

record charge_schedule =
  tl_periods :: "charge_period list"
  tl_rows :: "charged_row list"

record charge_input =
  ct_ancillaries :: "row_ancillaries option list"
  ct_fallbackAnnual :: rat
  ct_pending :: "pending_marker list"
  ct_reliefs :: "rent_relief list"

text \<open>\<open>charges[SCOPE_KEY[scope]]\<close>, read and written.\<close>

fun get_charge :: "charge_scope \<Rightarrow> charges \<Rightarrow> rat option" where
  "get_charge ScopeAhac c = ck_ahac c"
| "get_charge ScopeCarparks c = ck_carparks c"
| "get_charge ScopeMiscFees c = ck_miscFees c"
| "get_charge ScopeRent c = ck_rent c"

fun set_charge :: "charge_scope \<Rightarrow> rat option \<Rightarrow> charges \<Rightarrow> charges" where
  "set_charge ScopeAhac v c = c\<lparr>ck_ahac := v\<rparr>"
| "set_charge ScopeCarparks v c = c\<lparr>ck_carparks := v\<rparr>"
| "set_charge ScopeMiscFees v c = c\<lparr>ck_miscFees := v\<rparr>"
| "set_charge ScopeRent v c = c\<lparr>ck_rent := v\<rparr>"

section \<open>One relief\<close>

definition day_after :: "string \<Rightarrow> string" where
  "day_after date = (case addDaysIso date 1 of Some d \<Rightarrow> d | None \<Rightarrow> date)"

definition reliefEnd :: "rent_relief \<Rightarrow> string" where
  "reliefEnd relief = day_after (rr_to relief)"

definition text_order :: "string \<Rightarrow> string \<Rightarrow> rat" where
  "text_order a b = (if js_less a b then -1 else if a = b then 0 else 1)"

definition byStart :: "rent_relief \<Rightarrow> rent_relief \<Rightarrow> rat" where
  "byStart a b = or_else (text_order (rr_from a) (rr_from b)) (text_order (rr_id a) (rr_id b))"

definition relieve :: "rat option \<Rightarrow> rent_relief \<Rightarrow> charge_scope \<Rightarrow> rat option" where
  "relieve amount relief scope =
     (case amount of
        None \<Rightarrow> None
      | Some a \<Rightarrow>
          if rr_kind relief = RkPercent then Some (r2 (a * (100 - rr_value relief) / 100))
          else if scope \<noteq> ScopeRent then Some a
          else if rr_kind relief = RkAmount then Some (r2 (max 0 (a - rr_value relief)))
          else Some (r2 (min a (rr_value relief))))"

section \<open>The spans of the schedule\<close>

record span =
  sp_dated :: "(dated_charge list \<times> dated_charge list) option"
  sp_from :: "string option"
  sp_lease :: charges
  sp_stepId :: "string option"
  sp_to :: "string option"

definition baseCharges :: "rat \<Rightarrow> charges" where
  "baseCharges fallbackAnnual = \<lparr>ck_ahac = None, ck_carparks = None, ck_miscFees = None, ck_rent = Some (r2 fallbackAnnual)\<rparr>"

definition base_span :: "rat \<Rightarrow> string option \<Rightarrow> span" where
  "base_span fallbackAnnual to =
     \<lparr>sp_dated = None, sp_from = None, sp_lease = baseCharges fallbackAnnual, sp_stepId = None, sp_to = to\<rparr>"

definition row_date :: "schedule_row \<Rightarrow> string" where
  "row_date row = rs_from (sr_step row)"

definition row_span :: "row_ancillaries option \<Rightarrow> schedule_row \<Rightarrow> string option \<Rightarrow> span" where
  "row_span ancillaries row to =
     \<lparr>sp_dated = Option.bind ancillaries ra_dated, sp_from = Some (row_date row),
      sp_lease = \<lparr>ck_ahac = sr_ahacAnnual row, ck_carparks = Option.bind ancillaries ra_carparks,
        ck_miscFees = Option.bind ancillaries ra_miscFees, ck_rent = Some (sr_annual row)\<rparr>,
      sp_stepId = Some (rs_id (sr_step row)), sp_to = to\<rparr>"

definition first_date :: "(nat \<times> schedule_row) list \<Rightarrow> string option" where
  "first_date settled = (case settled of (i, row) # _ \<Rightarrow> Some (row_date row) | [] \<Rightarrow> None)"

definition ancillary_at :: "row_ancillaries option list \<Rightarrow> nat \<Rightarrow> row_ancillaries option" where
  "ancillary_at ancillaries i = (if i < length ancillaries then ancillaries ! i else None)"

text \<open>A row another one dated the same day replaces is never in force.\<close>

fun settled_spans :: "row_ancillaries option list \<Rightarrow> (nat \<times> schedule_row) list \<Rightarrow> span list" where
  "settled_spans ancillaries [] = []"
| "settled_spans ancillaries ((i, row) # rest) =
     (let to = first_date rest
      in (if (case to of Some t \<Rightarrow> js_le t (row_date row) | None \<Rightarrow> False) then []
          else [row_span (ancillary_at ancillaries i) row to]) @ settled_spans ancillaries rest)"

definition settled_rows :: "schedule_row list \<Rightarrow> (nat \<times> schedule_row) list" where
  "settled_rows rows = filter (\<lambda>(i, row). \<not> sr_pending row) (enumerate 0 rows)"

definition leaseSpans :: "schedule_row list \<Rightarrow> charge_input \<Rightarrow> span list" where
  "leaseSpans rows inp =
     (case rows of
        [] \<Rightarrow> [base_span (ct_fallbackAnnual inp) None]
      | first # _ \<Rightarrow>
          (let settled = settled_rows rows
           in (if rs_method (sr_step first) \<noteq> Some MCommencement \<and> ct_fallbackAnnual inp > 0
               then [base_span (ct_fallbackAnnual inp) (first_date settled)] else []) @
              settled_spans (ct_ancillaries inp) settled))"

section \<open>The periods\<close>

fun datedOn_from :: "rat option \<Rightarrow> dated_charge list \<Rightarrow> string \<Rightarrow> rat option" where
  "datedOn_from acc [] day = acc"
| "datedOn_from acc (charge # rest) day =
     datedOn_from
       (if js_le (dc_from charge) day \<and> (case dc_to charge of None \<Rightarrow> True | Some t \<Rightarrow> js_less day t)
        then Some (r2 ((case acc of Some n \<Rightarrow> n | None \<Rightarrow> 0) + dc_annual charge)) else acc) rest day"

definition datedOn :: "dated_charge list \<Rightarrow> string \<Rightarrow> rat option" where
  "datedOn charges day = datedOn_from None charges day"

definition leaseOn :: "span \<Rightarrow> string option \<Rightarrow> charges" where
  "leaseOn sp from_day =
     (case (sp_dated sp, from_day) of
        (Some (carparks, fees), Some day) \<Rightarrow> (sp_lease sp)\<lparr>ck_carparks := datedOn carparks day, ck_miscFees := datedOn fees day\<rparr>
      | _ \<Rightarrow> sp_lease sp)"

definition datedCuts :: "span \<Rightarrow> string list" where
  "datedCuts sp =
     (case sp_dated sp of
        None \<Rightarrow> []
      | Some (carparks, fees) \<Rightarrow>
          concat (map (\<lambda>c. case dc_to c of None \<Rightarrow> [dc_from c] | Some t \<Rightarrow> [dc_from c, t]) (carparks @ fees)))"

definition covers_scope :: "rent_relief list \<Rightarrow> charge_scope \<Rightarrow> rent_relief option" where
  "covers_scope active scope = find (\<lambda>relief. scope \<in> set (rr_scope relief)) active"

definition active_reliefs :: "string option \<Rightarrow> rent_relief list \<Rightarrow> rent_relief list" where
  "active_reliefs from_day reliefs =
     (case from_day of
        None \<Rightarrow> []
      | Some day \<Rightarrow> filter (\<lambda>relief. js_le (rr_from relief) day \<and> js_less day (reliefEnd relief)) reliefs)"

definition relieved_charges :: "charges \<Rightarrow> rent_relief list \<Rightarrow> charges" where
  "relieved_charges lease active =
     fold (\<lambda>scope c. case covers_scope active scope of
                       None \<Rightarrow> c
                     | Some relief \<Rightarrow> set_charge scope (relieve (get_charge scope lease) relief scope) c) CHARGE_SCOPES lease"

definition periodOf :: "span \<Rightarrow> string option \<Rightarrow> string option \<Rightarrow> rent_relief list \<Rightarrow> charge_period" where
  "periodOf sp from_day to reliefs =
     (let active = active_reliefs from_day reliefs; lease = leaseOn sp from_day;
          applied = List.map_filter (\<lambda>scope. map_option rr_id (covers_scope active scope)) CHARGE_SCOPES
      in \<lparr>cp_charged = relieved_charges lease active, cp_from = from_day, cp_lease = lease,
          cp_reliefIds = map rr_id (filter (\<lambda>relief. rr_id relief \<in> set applied) active),
          cp_stepId = sp_stepId sp, cp_to = to\<rparr>)"

fun periods_between :: "span \<Rightarrow> rent_relief list \<Rightarrow> string option list \<Rightarrow> charge_period list" where
  "periods_between sp reliefs (a # b # rest) = periodOf sp a b reliefs # periods_between sp reliefs (b # rest)"
| "periods_between sp reliefs _ = []"

definition span_cuts :: "span \<Rightarrow> rent_relief list \<Rightarrow> string list" where
  "span_cuts sp reliefs =
     filter (\<lambda>cut. (case sp_from sp of None \<Rightarrow> True | Some f \<Rightarrow> js_less f cut) \<and> (case sp_to sp of None \<Rightarrow> True | Some t \<Rightarrow> js_less cut t))
       (sort_by text_order (js_unique (concat (map (\<lambda>relief. [rr_from relief, reliefEnd relief]) reliefs) @ datedCuts sp)))"

definition span_periods :: "rent_relief list \<Rightarrow> span \<Rightarrow> charge_period list" where
  "span_periods reliefs sp = periods_between sp reliefs ([sp_from sp] @ map Some (span_cuts sp reliefs) @ [sp_to sp])"

definition touches :: "pending_marker \<Rightarrow> string \<Rightarrow> string option \<Rightarrow> bool" where
  "touches marker from_day to =
     (case pm_from marker of
        None \<Rightarrow> False
      | Some f \<Rightarrow>
          (case to of None \<Rightarrow> True | Some t \<Rightarrow> js_less f t) \<and>
          js_less from_day (day_after (case pm_to marker of Some t \<Rightarrow> t | None \<Rightarrow> f)))"

fun charged_rows :: "pending_marker list \<Rightarrow> charge_period list \<Rightarrow> schedule_row list \<Rightarrow> charged_row list" where
  "charged_rows pending periods [] = []"
| "charged_rows pending periods (row # rest) =
     \<lparr>cr_pendingChanges = filter (\<lambda>m. touches m (row_date row) (case rest of r # _ \<Rightarrow> Some (row_date r) | [] \<Rightarrow> None)) pending,
      cr_periods = filter (\<lambda>p. cp_stepId p = Some (rs_id (sr_step row))) periods,
      cr_stepId = rs_id (sr_step row)\<rparr> # charged_rows pending periods rest"

definition computeCharges :: "schedule_row list \<Rightarrow> charge_input \<Rightarrow> charge_schedule" where
  "computeCharges rows inp =
     (let reliefs = sort_by byStart (ct_reliefs inp); periods = concat (map (span_periods reliefs) (leaseSpans rows inp))
      in \<lparr>tl_periods = periods, tl_rows = charged_rows (ct_pending inp) periods rows\<rparr>)"

definition in_period :: "string \<Rightarrow> charge_period \<Rightarrow> bool" where
  "in_period day p \<longleftrightarrow>
     (case cp_from p of None \<Rightarrow> True | Some f \<Rightarrow> js_le f day) \<and> (case cp_to p of None \<Rightarrow> True | Some t \<Rightarrow> js_less day t)"

definition chargedOn :: "charge_schedule \<Rightarrow> string \<Rightarrow> charge_period option" where
  "chargedOn schedule day = find (in_period day) (tl_periods schedule)"

section \<open>Amounts over a stretch of days\<close>

definition days_from :: "string \<Rightarrow> string \<Rightarrow> int" where
  "days_from a b = (case daysBetweenIso a b of Some n \<Rightarrow> n | None \<Rightarrow> 0)"

record charge_slice =
  sl_charged :: charges
  sl_days :: int
  sl_from :: string
  sl_lease :: charges
  sl_reliefIds :: "string list"
  sl_stepId :: "string option"
  sl_to :: string

record charge_totals =
  ct_charged :: charges
  ct_lease :: charges
  ct_slices :: "charge_slice list"

definition emptyCharges :: charges where
  "emptyCharges = \<lparr>ck_ahac = None, ck_carparks = None, ck_miscFees = None, ck_rent = None\<rparr>"

definition part_of_year :: "int \<Rightarrow> rat \<Rightarrow> rat" where
  "part_of_year days value = r2 (value * of_int days / 365)"

definition proRata :: "charges \<Rightarrow> int \<Rightarrow> charges" where
  "proRata c days =
     \<lparr>ck_ahac = map_option (part_of_year days) (ck_ahac c), ck_carparks = map_option (part_of_year days) (ck_carparks c),
      ck_miscFees = map_option (part_of_year days) (ck_miscFees c), ck_rent = map_option (part_of_year days) (ck_rent c)\<rparr>"

definition add_part :: "rat option \<Rightarrow> rat option \<Rightarrow> rat option" where
  "add_part acc value =
     (case value of None \<Rightarrow> acc | Some v \<Rightarrow> Some (r2 ((case acc of Some n \<Rightarrow> n | None \<Rightarrow> 0) + v)))"

definition add_charges :: "charges \<Rightarrow> charges \<Rightarrow> charges" where
  "add_charges acc part =
     \<lparr>ck_ahac = add_part (ck_ahac acc) (ck_ahac part), ck_carparks = add_part (ck_carparks acc) (ck_carparks part),
      ck_miscFees = add_part (ck_miscFees acc) (ck_miscFees part), ck_rent = add_part (ck_rent acc) (ck_rent part)\<rparr>"

definition slice_of :: "charge_period \<Rightarrow> string \<Rightarrow> string \<Rightarrow> charge_slice option" where
  "slice_of p from_day to_day =
     (let start = (case cp_from p of None \<Rightarrow> from_day | Some f \<Rightarrow> if js_less f from_day then from_day else f);
          ends = (case cp_to p of None \<Rightarrow> to_day | Some t \<Rightarrow> if js_less to_day t then to_day else t)
      in if js_le ends start then None
         else (let days = days_from start ends
               in Some \<lparr>sl_charged = proRata (cp_charged p) days, sl_days = days, sl_from = start, sl_lease = proRata (cp_lease p) days,
                    sl_reliefIds = cp_reliefIds p, sl_stepId = cp_stepId p, sl_to = ends\<rparr>))"

definition chargesOver :: "charge_schedule \<Rightarrow> string \<Rightarrow> string \<Rightarrow> charge_totals" where
  "chargesOver schedule from_day to_day =
     (let slices = List.map_filter (\<lambda>p. slice_of p from_day to_day) (tl_periods schedule)
      in \<lparr>ct_charged = foldl add_charges emptyCharges (map sl_charged slices),
          ct_lease = foldl add_charges emptyCharges (map sl_lease slices), ct_slices = slices\<rparr>)"

text \<open>What one relief gives up over its own days: per charge, and the whole of it.\<close>

definition forgone_charge :: "charges \<Rightarrow> charges \<Rightarrow> charge_scope \<Rightarrow> rat option" where
  "forgone_charge without with_it scope =
     (case (get_charge scope without, get_charge scope with_it) of
        (None, None) \<Rightarrow> None
      | (before, after) \<Rightarrow> Some (r2 ((case before of Some b \<Rightarrow> b | None \<Rightarrow> 0) - (case after of Some a \<Rightarrow> a | None \<Rightarrow> 0))))"

definition reliefForgone :: "schedule_row list \<Rightarrow> charge_input \<Rightarrow> rent_relief \<Rightarrow> charges \<times> rat" where
  "reliefForgone rows inp relief =
     (let others = filter (\<lambda>r. rr_id r \<noteq> rr_id relief) (ct_reliefs inp); ends = reliefEnd relief;
          without = ct_charged (chargesOver (computeCharges rows (inp\<lparr>ct_pending := [], ct_reliefs := others\<rparr>)) (rr_from relief) ends);
          with_it = ct_charged (chargesOver (computeCharges rows (inp\<lparr>ct_pending := [], ct_reliefs := others @ [relief]\<rparr>)) (rr_from relief) ends);
          part = forgone_charge without with_it
      in (\<lparr>ck_ahac = part ScopeAhac, ck_carparks = part ScopeCarparks, ck_miscFees = part ScopeMiscFees, ck_rent = part ScopeRent\<rparr>,
          foldl (\<lambda>acc scope. case part scope of None \<Rightarrow> acc | Some v \<Rightarrow> r2 (acc + v)) 0 CHARGE_SCOPES))"

section \<open>Reading and checking a relief\<close>

definition RELIEF_MAX_MONTHS :: int where "RELIEF_MAX_MONTHS = 60"
definition RELIEF_AMOUNT_MAX :: rat where "RELIEF_AMOUNT_MAX = 10 ^ 10"

definition RELIEF_KINDS :: "(string \<times> relief_kind) list" where
  "RELIEF_KINDS = [(''percent'', RkPercent), (''amount'', RkAmount), (''fixed_rent'', RkFixedRent)]"

definition SCOPE_NAMES :: "(string \<times> charge_scope) list" where
  "SCOPE_NAMES = [(''rent'', ScopeRent), (''ahac'', ScopeAhac), (''carparks'', ScopeCarparks), (''misc_fees'', ScopeMiscFees)]"

datatype relief_error =
    ReliefNotObject | ReliefHasNo string | ReliefFrom | ReliefTo | ReliefToBeforeFrom | ReliefTooLong | ReliefKind | ReliefScope
  | ReliefScopeTwice | ReliefValue | ReliefPercent | ReliefRentOnly | ReliefAmount | ReliefFixedRent

definition scope_in :: "json \<Rightarrow> charge_scope option" where
  "scope_in v = (case v of JStr s \<Rightarrow> map_of SCOPE_NAMES s | _ \<Rightarrow> None)"

definition scopes_in :: "json option \<Rightarrow> charge_scope list option" where
  "scopes_in v = (case v of Some (JArr list) \<Rightarrow> if list = [] then None else those (map scope_in list) | _ \<Rightarrow> None)"

text \<open>The checks on the value, once the shape is known.\<close>

definition relief_value_error :: "relief_kind \<Rightarrow> charge_scope list \<Rightarrow> rat \<Rightarrow> relief_error option" where
  "relief_value_error kind scopes value =
     (if kind = RkPercent then (if \<not> (value > 0 \<and> value \<le> 100) then Some ReliefPercent else None)
      else if scopes \<noteq> [ScopeRent] then Some ReliefRentOnly
      else if kind = RkAmount \<and> \<not> (value > 0 \<and> value < RELIEF_AMOUNT_MAX) then Some ReliefAmount
      else if kind = RkFixedRent \<and> \<not> (value \<ge> 0 \<and> value < RELIEF_AMOUNT_MAX) then Some ReliefFixedRent
      else None)"

text \<open>The relief asked for; its id is given when it is ratified.\<close>

definition validateReliefShape :: "string \<Rightarrow> json \<Rightarrow> relief_error + rent_relief" where
  "validateReliefShape newId raw =
     (case raw of
        JObj obj \<Rightarrow>
          (let g = obj_get obj
           in (case find (\<lambda>k. k \<notin> {''from'', ''kind'', ''scope'', ''to'', ''value''}) (map fst obj) of
                 Some k \<Rightarrow> Inl (ReliefHasNo k)
               | None \<Rightarrow>
                   if \<not> iso_in (g ''from'') then Inl ReliefFrom
                   else if \<not> iso_in (g ''to'') then Inl ReliefTo
                   else
                     (let from_day = the (text_of (g ''from'')); to = the (text_of (g ''to''))
                      in if js_less to from_day then Inl ReliefToBeforeFrom
                         else if js_le (the (addMonthsClamped from_day RELIEF_MAX_MONTHS)) to then Inl ReliefTooLong
                         else (case Option.bind (text_of (g ''kind'')) (map_of RELIEF_KINDS) of
                                 None \<Rightarrow> Inl ReliefKind
                               | Some kind \<Rightarrow>
                                   (case scopes_in (g ''scope'') of
                                      None \<Rightarrow> Inl ReliefScope
                                    | Some asked \<Rightarrow>
                                        (let scopes = filter (\<lambda>s. s \<in> set asked) CHARGE_SCOPES
                                         in if length scopes \<noteq> length asked then Inl ReliefScopeTwice
                                            else (case number_in (g ''value'') of
                                                    None \<Rightarrow> Inl ReliefValue
                                                  | Some value \<Rightarrow>
                                                      (case relief_value_error kind scopes value of
                                                         Some e \<Rightarrow> Inl e
                                                       | None \<Rightarrow>
                                                           Inr \<lparr>rr_from = from_day, rr_id = newId, rr_kind = kind, rr_scope = scopes, rr_to = to,
                                                              rr_value = (if kind = RkPercent then value else r2 value)\<rparr>))))))))
      | _ \<Rightarrow> Inl ReliefNotObject)"

definition reliefsOverlap :: "rent_relief \<Rightarrow> rent_relief \<Rightarrow> bool" where
  "reliefsOverlap a b \<longleftrightarrow>
     js_le (rr_from a) (rr_to b) \<and> js_le (rr_from b) (rr_to a) \<and> (\<exists>s\<in>set (rr_scope a). s \<in> set (rr_scope b))"

definition relief_id_shape :: "string \<Rightarrow> bool" where
  "relief_id_shape s \<longleftrightarrow>
     1 \<le> length s \<and> length s \<le> 40 \<and>
     list_all (\<lambda>c. let n = (of_char c :: nat)
                    in 48 \<le> n \<and> n \<le> 57 \<or> 65 \<le> n \<and> n \<le> 90 \<or> 97 \<le> n \<and> n \<le> 122 \<or> c = CHR ''_'' \<or> c = CHR ''-'') s"

text \<open>The entries of the stored list that are reliefs; the list is the parsed JSON, \<open>None\<close> when it does not parse.\<close>

definition parse_relief :: "json \<Rightarrow> rent_relief option" where
  "parse_relief entry =
     (case entry of
        JObj obj \<Rightarrow>
          (case obj_get obj ''id'' of
             Some (JStr i) \<Rightarrow>
               if relief_id_shape i
               then (case validateReliefShape i
                            (JObj (List.map_filter (\<lambda>k. map_option (Pair k) (obj_get obj k)) [''from'', ''kind'', ''scope'', ''to'', ''value''])) of
                       Inr relief \<Rightarrow> Some relief
                     | Inl _ \<Rightarrow> None)
               else None
           | _ \<Rightarrow> None)
      | _ \<Rightarrow> None)"

definition parseReliefs :: "json option \<Rightarrow> rent_relief list" where
  "parseReliefs parsed = (case parsed of Some (JArr entries) \<Rightarrow> List.map_filter parse_relief entries | _ \<Rightarrow> [])"

end
