(* ===== verification/Schedule_Charges_Correct.thy ===== *)
theory Schedule_Charges_Correct
  imports Schedule_Charges
begin

text \<open>
  What holds of the charges: on every day the lease figure is the rent the schedule says is in force, and
  a ratified relief never takes a charge below nothing or above what the lease asks.
\<close>

section \<open>The timeline and the rent in force\<close>

definition in_span :: "string \<Rightarrow> string option \<Rightarrow> string option \<Rightarrow> bool" where
  "in_span d f t \<longleftrightarrow> (case f of None \<Rightarrow> True | Some x \<Rightarrow> js_le x d) \<and> (case t of None \<Rightarrow> True | Some x \<Rightarrow> js_less d x)"

lemma in_period_span: "in_period d p \<longleftrightarrow> in_span d (cp_from p) (cp_to p)"
  by (simp add: in_period_def in_span_def)

lemma not_js_less: "\<not> js_less a b \<longleftrightarrow> js_le b a"
  by (simp add: js_le_def)

lemma js_less_le: "js_less a b \<Longrightarrow> js_le a b"
  by (simp add: js_le_def js_less_asym)

lemma in_enumerate: "(a, b) \<in> set (enumerate n xs) \<Longrightarrow> b \<in> set xs"
  by (auto simp: enumerate_eq_zip dest: set_zip_rightD)

lemma periods_between_shape:
  "p \<in> set (periods_between sp reliefs bounds) \<Longrightarrow>
     \<exists>f t. p = periodOf sp f t reliefs \<and> f \<in> set (butlast bounds) \<and> t \<in> set (tl bounds)"
proof (induction sp reliefs bounds rule: periods_between.induct)
  case (1 sp reliefs a b rest)
  then consider "p = periodOf sp a b reliefs" | "p \<in> set (periods_between sp reliefs (b # rest))" by auto
  then show ?case using 1 by cases fastforce+
qed auto

lemma periods_between_cover:
  "in_span d f t \<Longrightarrow> \<exists>p\<in>set (periods_between sp reliefs (f # map Some cuts @ [t])). in_period d p"
proof (induction cuts arbitrary: f)
  case Nil
  then show ?case by (simp add: in_period_span periodOf_def Let_def)
next
  case (Cons c cuts)
  show ?case
  proof (cases "js_less d c")
    case True
    with Cons.prems have "in_period d (periodOf sp f (Some c) reliefs)"
      by (simp add: in_period_span in_span_def periodOf_def Let_def)
    then show ?thesis by (cases cuts) auto
  next
    case False
    then have "in_span d (Some c) t" using Cons.prems by (simp add: in_span_def not_js_less)
    from Cons.IH [OF this] show ?thesis by (cases cuts) auto
  qed
qed

lemma span_periods_day:
  "(\<exists>p\<in>set (span_periods reliefs sp). in_period d p) \<longleftrightarrow> in_span d (sp_from sp) (sp_to sp)"
  "p \<in> set (span_periods reliefs sp) \<Longrightarrow> cp_stepId p = sp_stepId sp \<and> cp_lease p = leaseOn sp (cp_from p)"
proof -
  let ?f = "sp_from sp" and ?t = "sp_to sp" and ?cuts = "span_cuts sp reliefs"
  have cut: "(case ?f of None \<Rightarrow> True | Some x \<Rightarrow> js_less x c) \<and> (case ?t of None \<Rightarrow> True | Some x \<Rightarrow> js_less c x)" if "c \<in> set ?cuts" for c
    using that by (simp add: span_cuts_def)
  have shape: "\<exists>f t. p = periodOf sp f t reliefs \<and> (f = ?f \<or> f \<in> Some ` set ?cuts) \<and> (t = ?t \<or> t \<in> Some ` set ?cuts)"
    if "p \<in> set (span_periods reliefs sp)" for p
    using periods_between_shape [OF that [unfolded span_periods_def]] by (auto simp: butlast_append)
  have "in_span d ?f ?t" if "p \<in> set (span_periods reliefs sp)" "in_period d p" for p
  proof -
    from shape [OF that(1)] obtain f t where p: "p = periodOf sp f t reliefs"
      "f = ?f \<or> f \<in> Some ` set ?cuts" "t = ?t \<or> t \<in> Some ` set ?cuts" by blast
    with that(2) have d: "in_span d f t" by (simp add: in_period_span periodOf_def Let_def)
    have "case ?f of None \<Rightarrow> True | Some x \<Rightarrow> js_le x d"
    proof (cases ?f)
      case (Some x)
      with p(2) d have "js_le x d \<or> (\<exists>c\<in>set ?cuts. js_le c d)" by (auto simp: in_span_def)
      then show ?thesis using Some cut js_less_le_trans js_less_le by fastforce
    qed simp
    moreover have "case ?t of None \<Rightarrow> True | Some x \<Rightarrow> js_less d x"
    proof (cases ?t)
      case (Some x)
      with p(3) d have "js_less d x \<or> (\<exists>c\<in>set ?cuts. js_less d c)" by (auto simp: in_span_def)
      then show ?thesis using Some cut js_less_trans by fastforce
    qed simp
    ultimately show ?thesis by (simp add: in_span_def)
  qed
  then show "(\<exists>p\<in>set (span_periods reliefs sp). in_period d p) \<longleftrightarrow> in_span d ?f ?t"
    using periods_between_cover [of d ?f ?t sp reliefs ?cuts] by (auto simp: span_periods_def)
  show "p \<in> set (span_periods reliefs sp) \<Longrightarrow> cp_stepId p = sp_stepId sp \<and> cp_lease p = leaseOn sp (cp_from p)"
    using shape by (fastforce simp: periodOf_def Let_def)
qed

text \<open>The last settled row dated on or before a day.\<close>

fun last_from :: "string \<Rightarrow> (nat \<times> schedule_row) list \<Rightarrow> schedule_row option" where
  "last_from d [] = None"
| "last_from d ((i, row) # rest) =
     (case last_from d rest of Some r \<Rightarrow> Some r | None \<Rightarrow> if js_le (row_date row) d then Some row else None)"

abbreviation rows_sorted :: "(nat \<times> schedule_row) list \<Rightarrow> bool" where
  "rows_sorted \<equiv> sorted_wrt (\<lambda>a b. js_le (row_date (snd a)) (row_date (snd b)))"

lemma last_from_None: "last_from d xs = None \<longleftrightarrow> (\<forall>x\<in>set xs. js_less d (row_date (snd x)))"
  by (induction d xs rule: last_from.induct) (auto simp: js_le_def split: option.splits if_splits)

lemma last_from_first:
  assumes "rows_sorted xs"
  shows "last_from d xs = None \<longleftrightarrow> (case first_date xs of None \<Rightarrow> True | Some t \<Rightarrow> js_less d t)"
  using assms js_less_le_trans unfolding last_from_None
  by (cases xs) (auto simp: first_date_def)

lemma settled_span_of_day:
  assumes "rows_sorted xs"
  shows "(\<exists>row. last_from d xs = Some row) \<longleftrightarrow> (\<exists>sp\<in>set (settled_spans anc xs). in_span d (sp_from sp) (sp_to sp))"
    and "sp \<in> set (settled_spans anc xs) \<Longrightarrow> in_span d (sp_from sp) (sp_to sp) \<Longrightarrow>
      \<exists>row. last_from d xs = Some row \<and> sp_stepId sp = Some (rs_id (sr_step row)) \<and> ck_rent (sp_lease sp) = Some (sr_annual row)"
proof -
  have "((\<exists>row. last_from d xs = Some row) \<longleftrightarrow> (\<exists>sp\<in>set (settled_spans anc xs). in_span d (sp_from sp) (sp_to sp))) \<and>
    (\<forall>sp\<in>set (settled_spans anc xs). in_span d (sp_from sp) (sp_to sp) \<longrightarrow>
      (\<exists>row. last_from d xs = Some row \<and> sp_stepId sp = Some (rs_id (sr_step row)) \<and> ck_rent (sp_lease sp) = Some (sr_annual row)))"
    using assms
  proof (induction xs)
    case (Cons x xs)
    obtain i row where x: "x = (i, row)" by (cases x)
    from Cons have s: "rows_sorted xs" by simp
    note first = last_from_first [OF s, of d]
    let ?to = "first_date xs" and ?sp = "row_span (ancillary_at anc i) row (first_date xs)"
    have own: "in_span d (sp_from ?sp) (sp_to ?sp) \<longleftrightarrow> last_from d xs = None \<and> js_le (row_date row) d"
      unfolding first by (auto simp: row_span_def in_span_def)
    have kept: "\<not> (case ?to of Some t \<Rightarrow> js_le t (row_date row) | None \<Rightarrow> False)" if "last_from d xs = None" "js_le (row_date row) d"
      using that js_le_less_trans [OF that(2)] js_less_asym unfolding first by (auto simp: js_le_def split: option.splits)
    have lease: "sp_stepId ?sp = Some (rs_id (sr_step row))" "ck_rent (sp_lease ?sp) = Some (sr_annual row)"
      by (simp_all add: row_span_def)
    from Cons.IH [OF s] own kept lease show ?case
      by (cases "last_from d xs") (auto simp: x Let_def)
  qed simp
  then show "(\<exists>row. last_from d xs = Some row) \<longleftrightarrow> (\<exists>sp\<in>set (settled_spans anc xs). in_span d (sp_from sp) (sp_to sp))"
    "sp \<in> set (settled_spans anc xs) \<Longrightarrow> in_span d (sp_from sp) (sp_to sp) \<Longrightarrow>
      \<exists>row. last_from d xs = Some row \<and> sp_stepId sp = Some (rs_id (sr_step row)) \<and> ck_rent (sp_lease sp) = Some (sr_annual row)"
    by blast+
qed

lemma current_row_last:
  assumes "sorted_wrt (\<lambda>a b. js_le (row_date a) (row_date b)) rows"
  shows "current_row d c rows = (case last_from d (filter (\<lambda>(i, row). \<not> sr_pending row) (enumerate n rows)) of Some r \<Rightarrow> Some r | None \<Rightarrow> c)"
  using assms
proof (induction rows arbitrary: n c)
  case (Cons row rows)
  show ?case
  proof (cases "js_less d (row_date row)")
    case True
    then have "\<forall>r\<in>set (row # rows). js_less d (row_date r)" using Cons.prems js_less_le_trans by auto
    then have "last_from d (filter (\<lambda>(i, row). \<not> sr_pending row) (enumerate n (row # rows))) = None"
      unfolding last_from_None by (auto dest: in_enumerate)
    with True show ?thesis by (simp add: row_date_def)
  next
    case False
    moreover have "current_row d (if sr_pending row then c else Some row) rows =
        (case last_from d (filter (\<lambda>(i, row). \<not> sr_pending row) (enumerate (Suc n) rows)) of
           Some r \<Rightarrow> Some r | None \<Rightarrow> if sr_pending row then c else Some row)"
      using Cons by simp
    ultimately show ?thesis by (auto simp: row_date_def js_le_def split: option.splits)
  qed
qed simp

lemma map_step_rows: "map sr_step (computeScheduleRows steps annual sqm terms) = sortSteps steps"
proof -
  have "map sr_step (engine_rows terms fa st xs) = xs" for fa st xs
  proof (induction xs arbitrary: st)
    case (Cons x xs)
    then show ?case using schedule_step_row(1) [of terms fa st x] by (cases "schedule_step terms fa st x") simp
  qed simp
  then show ?thesis by (simp add: computeScheduleRows_def)
qed

lemma computed_rows_sorted:
  "sorted_wrt (\<lambda>a b. js_le (row_date a) (row_date b)) (computeScheduleRows steps annual sqm terms)"
proof -
  have "sorted_wrt (\<lambda>a b. js_le (rs_from a) (rs_from b)) (sortSteps steps)"
    using dates.sorted_sort_by by (simp add: by_date_le sortSteps_def)
  then have "sorted_wrt (\<lambda>a b. js_le (rs_from a) (rs_from b)) (map sr_step (computeScheduleRows steps annual sqm terms))"
    by (simp add: map_step_rows)
  then show ?thesis by (simp add: sorted_wrt_map row_date_def)
qed

lemma settled_sorted:
  assumes "sorted_wrt (\<lambda>a b. js_le (row_date a) (row_date b)) rows"
  shows "rows_sorted (settled_rows rows)"
proof -
  have "rows_sorted (enumerate n rows)" for n
    using assms by (induction rows arbitrary: n) (auto dest: in_enumerate)
  then show ?thesis by (simp add: settled_rows_def sorted_wrt_filter)
qed

text \<open>The base rent is in force before the first settled row of a schedule that opens with a review row.\<close>

definition opens_on_base :: "schedule_row list \<Rightarrow> rat \<Rightarrow> bool" where
  "opens_on_base rows fallbackAnnual \<longleftrightarrow>
     (case rows of [] \<Rightarrow> True | first # _ \<Rightarrow> rs_method (sr_step first) \<noteq> Some MCommencement \<and> fallbackAnnual > 0)"

lemma leaseSpans_base:
  "set (leaseSpans rows inp) =
     (if opens_on_base rows (ct_fallbackAnnual inp) then {base_span (ct_fallbackAnnual inp) (first_date (settled_rows rows))} else {}) \<union>
     set (settled_spans (ct_ancillaries inp) (settled_rows rows))"
  by (cases rows) (auto simp: leaseSpans_def opens_on_base_def Let_def settled_rows_def first_date_def)

lemma resolveCurrentRent_last:
  assumes "sorted_wrt (\<lambda>a b. js_le (row_date a) (row_date b)) rows"
  shows "last_from d (settled_rows rows) = Some row \<Longrightarrow> resolveCurrentRent rows annual d = CurRow row"
    and "last_from d (settled_rows rows) = None \<Longrightarrow> (resolveCurrentRent rows annual d = CurBase \<longleftrightarrow> opens_on_base rows annual)"
    and "last_from d (settled_rows rows) = None \<Longrightarrow> resolveCurrentRent rows annual d \<noteq> CurRow row"
  using current_row_last [OF assms, of d None 0]
  by (auto simp: resolveCurrentRent_def settled_rows_def opens_on_base_def split: list.splits)

lemma find_some: "find P xs = Some x \<Longrightarrow> x \<in> set xs \<and> P x"
  by (auto simp: find_Some_iff)

text \<open>C15: On every day the timeline charges from what the schedule says is in force then: the row's rent, the base rent,
  or nothing before the schedule starts or while its rent is unknown.\<close>

theorem timeline_says_current_rent:
  assumes "rows = computeScheduleRows steps annual sqm terms" "ct_fallbackAnnual inp = annual"
  shows "map_option (\<lambda>p. (cp_stepId p, ck_rent (cp_lease p))) (chargedOn (computeCharges rows inp) day) =
    (case resolveCurrentRent rows annual day of
       CurRow row \<Rightarrow> Some (Some (rs_id (sr_step row)), Some (sr_annual row))
     | CurBase \<Rightarrow> Some (None, Some (r2 annual))
     | _ \<Rightarrow> None)"
proof -
  define S where "S = settled_rows rows"
  have sorted: "sorted_wrt (\<lambda>a b. js_le (row_date a) (row_date b)) rows" using assms(1) computed_rows_sorted by simp
  then have s: "rows_sorted S" unfolding S_def by (rule settled_sorted)
  note row = settled_span_of_day [OF s, where d = day and anc = "ct_ancillaries inp"] and first = last_from_first [OF s, of day]
  let ?periods = "tl_periods (computeCharges rows inp)"
  let ?base = "base_span annual (first_date S)"
  have day: "(\<exists>p\<in>set ?periods. in_period day p) \<longleftrightarrow> (\<exists>sp\<in>set (leaseSpans rows inp). in_span day (sp_from sp) (sp_to sp))"
    using span_periods_day(1) by (fastforce simp: computeCharges_def Let_def)
  have lease: "\<exists>sp\<in>set (leaseSpans rows inp). in_span day (sp_from sp) (sp_to sp) \<and> cp_stepId p = sp_stepId sp \<and> ck_rent (cp_lease p) = ck_rent (sp_lease sp)"
    if "p \<in> set ?periods" "in_period day p" for p
  proof -
    from that(1) obtain sp where sp: "sp \<in> set (leaseSpans rows inp)" "p \<in> set (span_periods (sort_by byStart (ct_reliefs inp)) sp)"
      by (auto simp: computeCharges_def Let_def)
    moreover have "ck_rent (leaseOn sp (cp_from p)) = ck_rent (sp_lease sp)" by (auto simp: leaseOn_def split: option.splits)
    ultimately show ?thesis using span_periods_day(1) [where sp = sp and d = day] span_periods_day(2) [OF sp(2)] that(2) by auto
  qed
  have base: "in_span day (sp_from ?base) (sp_to ?base) \<longleftrightarrow> last_from day S = None"
    unfolding first by (auto simp: base_span_def in_span_def)
  have spans: "set (leaseSpans rows inp) = (if opens_on_base rows annual then {?base} else {}) \<union> set (settled_spans (ct_ancillaries inp) S)"
    using leaseSpans_base [of rows inp] assms(2) by (simp add: S_def)
  note res = resolveCurrentRent_last [OF sorted, where d = day and annual = annual, folded S_def]
  show ?thesis
  proof (cases "last_from day S")
    case (Some r)
    then have "\<exists>p\<in>set ?periods. in_period day p" using row(1) unfolding day spans by blast
    then obtain p where p: "chargedOn (computeCharges rows inp) day = Some p"
      unfolding chargedOn_def by (cases "find (in_period day) ?periods") (auto simp: find_None_iff)
    then have "p \<in> set ?periods" "in_period day p" by (auto simp: chargedOn_def dest: find_some)
    from lease [OF this] Some base spans row(2) have "cp_stepId p = Some (rs_id (sr_step r)) \<and> ck_rent (cp_lease p) = Some (sr_annual r)"
      by (auto split: if_splits)
    with p res(1) [OF Some] show ?thesis by simp
  next
    case None
    have none: "\<not> in_span day (sp_from sp) (sp_to sp)" if "sp \<in> set (settled_spans (ct_ancillaries inp) S)" for sp
      using row(1) None that by auto
    show ?thesis
    proof (cases "opens_on_base rows annual")
      case True
      with None base have "\<exists>p\<in>set ?periods. in_period day p" unfolding day spans by auto
      then obtain p where p: "chargedOn (computeCharges rows inp) day = Some p"
        unfolding chargedOn_def by (cases "find (in_period day) ?periods") (auto simp: find_None_iff)
      then have "p \<in> set ?periods" "in_period day p" by (auto simp: chargedOn_def dest: find_some)
      from lease [OF this] none have "cp_stepId p = None \<and> ck_rent (cp_lease p) = Some (r2 annual)"
        unfolding spans using True by (auto simp: base_span_def baseCharges_def)
      with p res(2) [OF None] True show ?thesis by simp
    next
      case False
      then have "\<not> (\<exists>p\<in>set ?periods. in_period day p)" using none unfolding day spans by auto
      then have "chargedOn (computeCharges rows inp) day = None" by (auto simp: chargedOn_def find_None_iff)
      with res(2,3) [OF None] False show ?thesis by (auto split: current_rent.split)
    qed
  qed
qed

section \<open>What a relief leaves\<close>

definition to_the_cent :: "rat \<Rightarrow> bool" where
  "to_the_cent a \<longleftrightarrow> 0 \<le> a \<and> r2 a = a"

definition sound_relief :: "rent_relief \<Rightarrow> bool" where
  "sound_relief r \<longleftrightarrow> 0 \<le> rr_value r \<and> (rr_kind r = RkPercent \<longrightarrow> rr_value r \<le> 100)"

lemma r2_r2 [simp]: "r2 (r2 x) = r2 x"
  by (simp add: r2_def)

lemma r2_nonneg: "0 \<le> x \<Longrightarrow> 0 \<le> r2 x"
  using r2_mono [of 0 x] by (simp add: r2_def js_round_def)

lemma to_the_cent_r2: "0 \<le> x \<Longrightarrow> to_the_cent (r2 x)"
  by (simp add: to_the_cent_def r2_nonneg)

lemma relieve_bounds:
  assumes "to_the_cent a" "sound_relief r"
  shows "\<exists>v. relieve (Some a) r scope = Some v \<and> 0 \<le> v \<and> v \<le> a"
proof -
  have le: "0 \<le> x \<Longrightarrow> x \<le> a \<Longrightarrow> 0 \<le> r2 x \<and> r2 x \<le> a" for x
    using r2_nonneg r2_mono [of x a] assms(1) by (simp add: to_the_cent_def)
  have a: "0 \<le> a" and v: "0 \<le> rr_value r" using assms by (simp_all add: to_the_cent_def sound_relief_def)
  have "a * (100 - rr_value r) / 100 \<le> a * 100 / 100" using a v by (intro divide_right_mono mult_left_mono) simp_all
  then have "rr_kind r = RkPercent \<Longrightarrow> 0 \<le> r2 (a * (100 - rr_value r) / 100) \<and> r2 (a * (100 - rr_value r) / 100) \<le> a"
    using assms(2) a by (intro le) (simp_all add: sound_relief_def)
  moreover have "0 \<le> r2 (max 0 (a - rr_value r)) \<and> r2 (max 0 (a - rr_value r)) \<le> a"
    using a v by (intro le) simp_all
  moreover have "0 \<le> r2 (min a (rr_value r)) \<and> r2 (min a (rr_value r)) \<le> a"
    using a v by (intro le) simp_all
  ultimately show ?thesis using a by (simp add: relieve_def)
qed

lemma get_relieved:
  "get_charge scope (relieved_charges lease active) =
    (case covers_scope active scope of None \<Rightarrow> get_charge scope lease | Some r \<Rightarrow> relieve (get_charge scope lease) r scope)"
  by (cases scope) (simp_all add: relieved_charges_def CHARGE_SCOPES_def split: option.split)

definition charges_sound :: "charges \<Rightarrow> bool" where
  "charges_sound c \<longleftrightarrow> (\<forall>scope v. get_charge scope c = Some v \<longrightarrow> to_the_cent v)"

definition ancillaries_sound :: "row_ancillaries option \<Rightarrow> bool" where
  "ancillaries_sound a \<longleftrightarrow>
     (case a of
        None \<Rightarrow> True
      | Some r \<Rightarrow>
          (\<forall>v. ra_carparks r = Some v \<or> ra_miscFees r = Some v \<longrightarrow> to_the_cent v) \<and>
          (\<forall>cs fs. ra_dated r = Some (cs, fs) \<longrightarrow> (\<forall>c\<in>set (cs @ fs). 0 \<le> dc_annual c)))"

lemma charges_soundI:
  assumes "\<And>v. ck_ahac c = Some v \<Longrightarrow> to_the_cent v" "\<And>v. ck_carparks c = Some v \<Longrightarrow> to_the_cent v"
    and "\<And>v. ck_miscFees c = Some v \<Longrightarrow> to_the_cent v" "\<And>v. ck_rent c = Some v \<Longrightarrow> to_the_cent v"
  shows "charges_sound c"
  unfolding charges_sound_def
proof (intro allI impI)
  fix scope v assume "get_charge scope c = Some v"
  with assms show "to_the_cent v" by (cases scope) simp_all
qed

lemma datedOn_sound:
  assumes "\<forall>c\<in>set cs. 0 \<le> dc_annual c" "datedOn cs day = Some v"
  shows "to_the_cent v"
proof -
  have "(\<forall>x. acc = Some x \<longrightarrow> to_the_cent x) \<Longrightarrow> datedOn_from acc cs day = Some v \<Longrightarrow> to_the_cent v" for acc
    using assms(1)
  proof (induction cs arbitrary: acc)
    case (Cons c cs)
    have "0 \<le> (case acc of Some n \<Rightarrow> n | None \<Rightarrow> 0) + dc_annual c"
      using Cons.prems by (auto simp: to_the_cent_def split: option.splits)
    then have "to_the_cent (r2 ((case acc of Some n \<Rightarrow> n | None \<Rightarrow> 0) + dc_annual c))" by (rule to_the_cent_r2)
    with Cons show ?case by (auto split: if_splits)
  qed simp
  from this [of None] assms(2) show ?thesis by (simp add: datedOn_def)
qed

text \<open>The after-hours air-conditioning follows the rent: never negative.\<close>

definition ahac_ok :: "engine_state \<Rightarrow> bool" where
  "ahac_ok st \<longleftrightarrow> nonneg (en_ahac st) \<and> nonneg (en_ahacRate st)"

lemma ahac_step:
  assumes "engine_ok st" "ahac_ok st" "valid_step step" "cap_ok terms"
  shows "ahac_ok (fst (schedule_step terms fa st step))"
proof (cases "rs_method step = Some MCommencement")
  case True
  have pos: "area > 0" if "or_default (explicit_area step) (en_area st) = Some area" for area
    using that assms(1) explicit_area_pos [of step] by (auto simp: or_default_def engine_ok_def split: option.splits)
  have "nonneg (or_default (rs_ahacBase step) (en_ahac st))"
    using assms by (auto simp: valid_step_def or_default_def ahac_ok_def split: option.splits)
  with True pos show ?thesis
    by (auto simp: schedule_step_commencement commence_row_def Let_def ahac_ok_def nonneg_def divided_def split: option.splits)
next
  case False
  have f: "0 \<le> ro_factor (reviewOutcome step (or_default (rs_cpiValuePrev step) (en_prevCpi st)) terms)"
    using assms by (intro outcome_nonneg positive_or_default) (simp_all add: valid_step_def engine_ok_def)
  show ?thesis
  proof (cases "row_waits terms st step")
    case True
    with False assms(2) show ?thesis by (simp add: schedule_step_waiting ahac_ok_def)
  next
    case waits: False
    from explicit_area_pos [of step] assms(1,2) f False waits show ?thesis
      by (auto simp: schedule_step_review review_row_def Let_def ahac_ok_def engine_ok_def nonneg_def divided_def split: option.splits)
  qed
qed

definition row_sound :: "schedule_row \<Rightarrow> bool" where
  "row_sound row \<longleftrightarrow> to_the_cent (sr_annual row) \<and> (\<forall>v. sr_ahacAnnual row = Some v \<longrightarrow> to_the_cent v)"

lemma to_the_cent_0 [simp]: "to_the_cent 0"
  using to_the_cent_r2 [of 0] by (simp add: r2_def js_round_def to_the_cent_def)

lemma emit_sound:
  assumes "engine_ok st" "ahac_ok st"
  shows "row_sound (emit st step reason area baseline outcome)"
proof -
  have "to_the_cent (r2 (en_annual st))" using assms(1) by (simp add: engine_ok_def to_the_cent_r2)
  moreover have "en_ahac st = Some a \<Longrightarrow> to_the_cent (r2 a)" for a
    using assms(2) by (simp add: ahac_ok_def nonneg_def to_the_cent_r2)
  ultimately show ?thesis by (auto simp: row_sound_def emit_def Let_def)
qed

lemma schedule_step_emits:
  "\<exists>reason area baseline outcome. snd (schedule_step terms fa st step) = emit (fst (schedule_step terms fa st step)) step reason area baseline outcome"
  by (auto simp: schedule_step_def Let_def)

lemma computed_rows_sound:
  assumes "\<And>s. s \<in> set steps \<Longrightarrow> valid_step s" "0 \<le> annual" "cap_ok terms" "row \<in> set (computeScheduleRows steps annual sqm terms)"
  shows "row_sound row"
proof -
  define fa where "fa = (if sqm > 0 then sqm else 0)"
  let ?xs = "sortSteps steps"
  define st where "st i = state_at terms fa (engine_start annual) ?xs i" for i
  have valid: "s \<in> set ?xs \<Longrightarrow> valid_step s" for s using assms(1) by (simp add: sortSteps_def)
  have ok: "i \<le> length ?xs \<Longrightarrow> engine_ok (st i)" for i
    unfolding st_def using assms(2,3) valid by (intro state_at_ok) (auto simp: engine_start_ok)
  have ahac: "i \<le> length ?xs \<Longrightarrow> ahac_ok (st i)" for i
  proof (induction i)
    case 0
    show ?case by (simp add: st_def ahac_ok_def engine_start_def nonneg_def)
  next
    case (Suc i)
    then have "i < length ?xs" by simp
    from nth_mem [OF this] have "valid_step (?xs ! i)" by (rule valid)
    moreover from Suc have "engine_ok (st i)" "ahac_ok (st i)" using ok by simp_all
    ultimately have "ahac_ok (fst (schedule_step terms fa (st i) (?xs ! i)))" using ahac_step assms(3) by blast
    then show ?case using Suc.prems by (simp add: st_def state_at_Suc)
  qed
  from assms(4) obtain i where i: "i < length ?xs" "row = computeScheduleRows steps annual sqm terms ! i"
    by (auto simp: in_set_conv_nth sortSteps_def)
  then have "row = snd (schedule_step terms fa (st i) (?xs ! i))" by (simp add: computeScheduleRows_nth st_def fa_def sortSteps_def)
  moreover have "st (Suc i) = fst (schedule_step terms fa (st i) (?xs ! i))" using i by (simp add: st_def state_at_Suc)
  ultimately show ?thesis
    using schedule_step_emits [of terms fa "st i" "?xs ! i"] ok [of "Suc i"] ahac [of "Suc i"] i(1) by (auto intro: emit_sound)
qed

lemma leaseOn_sound:
  assumes "charges_sound (sp_lease sp)" "\<And>cs fs. sp_dated sp = Some (cs, fs) \<Longrightarrow> \<forall>c\<in>set (cs @ fs). 0 \<le> dc_annual c"
  shows "charges_sound (leaseOn sp day)"
proof (rule charges_soundI)
  have lease: "get_charge scope (sp_lease sp) = Some v \<Longrightarrow> to_the_cent v" for scope v
    using assms(1) by (auto simp: charges_sound_def)
  from lease [of ScopeAhac] show "ck_ahac (leaseOn sp day) = Some v \<Longrightarrow> to_the_cent v" for v
    by (auto simp: leaseOn_def split: option.splits)
  from lease [of ScopeRent] show "ck_rent (leaseOn sp day) = Some v \<Longrightarrow> to_the_cent v" for v
    by (auto simp: leaseOn_def split: option.splits)
  have dated: "datedOn cs d = Some v \<Longrightarrow> to_the_cent v" "datedOn fs d = Some v \<Longrightarrow> to_the_cent v"
    if "sp_dated sp = Some (cs, fs)" for cs fs d v
    using assms(2) [OF that] by (auto intro: datedOn_sound)
  from lease [of ScopeCarparks] show "ck_carparks (leaseOn sp day) = Some v \<Longrightarrow> to_the_cent v" for v
    by (auto simp: leaseOn_def dest: dated split: option.splits)
  from lease [of ScopeMiscFees] show "ck_miscFees (leaseOn sp day) = Some v \<Longrightarrow> to_the_cent v" for v
    by (auto simp: leaseOn_def dest: dated split: option.splits)
qed

lemma row_span_sound:
  assumes "row_sound row" "ancillaries_sound anc"
  shows "charges_sound (leaseOn (row_span anc row to) day)"
proof (rule leaseOn_sound)
  show "charges_sound (sp_lease (row_span anc row to))"
    using assms by (intro charges_soundI) (auto simp: row_span_def row_sound_def ancillaries_sound_def split: option.splits)
  show "\<forall>c\<in>set (cs @ fs). 0 \<le> dc_annual c" if "sp_dated (row_span anc row to) = Some (cs, fs)" for cs fs
    using assms(2) that by (cases anc) (auto simp: row_span_def ancillaries_sound_def)
qed

lemma settled_spans_rows:
  "sp \<in> set (settled_spans anc xs) \<Longrightarrow> \<exists>i row to. (i, row) \<in> set xs \<and> sp = row_span (ancillary_at anc i) row to"
  by (induction anc xs rule: settled_spans.induct) (auto simp: Let_def split: if_splits)

text \<open>C13: Whatever reliefs are ratified, no charge of any period goes below nothing or above what the lease asks for that
  charge, and a relief never invents or removes a charge.\<close>

theorem charged_within_lease:
  assumes steps: "\<And>s. s \<in> set steps \<Longrightarrow> valid_step s" "0 \<le> annual" "cap_ok terms" "rows = computeScheduleRows steps annual sqm terms"
    and inp: "0 \<le> ct_fallbackAnnual inp" "list_all ancillaries_sound (ct_ancillaries inp)" "list_all sound_relief (ct_reliefs inp)"
    and p: "p \<in> set (tl_periods (computeCharges rows inp))"
  shows "case (get_charge scope (cp_lease p), get_charge scope (cp_charged p)) of
      (Some asked, Some charged) \<Rightarrow> 0 \<le> charged \<and> charged \<le> asked
    | (None, None) \<Rightarrow> True
    | _ \<Rightarrow> False"
proof -
  let ?reliefs = "sort_by byStart (ct_reliefs inp)"
  from p obtain sp where sp: "sp \<in> set (leaseSpans rows inp)" "p \<in> set (span_periods ?reliefs sp)"
    by (auto simp: computeCharges_def Let_def)
  obtain f t where pf: "p = periodOf sp f t ?reliefs" using periods_between_shape sp(2) unfolding span_periods_def by blast
  have "charges_sound (leaseOn sp f)"
  proof (cases "sp = base_span (ct_fallbackAnnual inp) (first_date (settled_rows rows))")
    case True
    have "charges_sound (baseCharges (ct_fallbackAnnual inp))"
      using inp(1) by (intro charges_soundI) (auto simp: baseCharges_def to_the_cent_r2)
    with True show ?thesis by (simp add: leaseOn_def base_span_def)
  next
    case False
    with sp(1) have "sp \<in> set (settled_spans (ct_ancillaries inp) (settled_rows rows))"
      by (auto simp: leaseSpans_base split: if_splits)
    from settled_spans_rows [OF this] obtain i row to where r: "(i, row) \<in> set (settled_rows rows)"
      "sp = row_span (ancillary_at (ct_ancillaries inp) i) row to" by blast
    from r(1) have "row \<in> set rows" by (auto simp: settled_rows_def dest: in_enumerate)
    then have "row_sound row" using computed_rows_sound [OF steps(1-3)] steps(4) by blast
    moreover have "ancillaries_sound (ancillary_at (ct_ancillaries inp) i)"
      using inp(2) by (auto simp: ancillary_at_def list_all_length ancillaries_sound_def)
    ultimately show ?thesis unfolding r(2) by (rule row_span_sound)
  qed
  then have cent: "get_charge scope (cp_lease p) = Some a \<Longrightarrow> to_the_cent a" for a
    by (auto simp: pf periodOf_def Let_def charges_sound_def)
  have charged: "cp_charged p = relieved_charges (cp_lease p) (active_reliefs f ?reliefs)" by (simp add: pf periodOf_def Let_def)
  have sound: "sound_relief r" if "covers_scope (active_reliefs f ?reliefs) scope = Some r" for r
    using that inp(3) by (auto simp: covers_scope_def active_reliefs_def list_all_iff dest!: find_some split: option.splits)
  show ?thesis
  proof (cases "get_charge scope (cp_lease p)")
    case None
    then show ?thesis unfolding charged get_relieved by (simp add: relieve_def split: option.split)
  next
    case (Some a)
    from relieve_bounds [OF cent [OF Some]] sound have "\<exists>v. get_charge scope (cp_charged p) = Some v \<and> 0 \<le> v \<and> v \<le> a"
      using cent [OF Some] unfolding charged get_relieved Some
      by (cases "covers_scope (active_reliefs f ?reliefs) scope") (simp_all add: to_the_cent_def)
    with Some show ?thesis by auto
  qed
qed

section \<open>The reliefs the reader lets through\<close>

lemma valid_relief_sound:
  assumes "validateReliefShape newId raw = Inr r"
  shows "sound_relief r \<and> isIsoDate (rr_from r) \<and> isIsoDate (rr_to r) \<and> js_le (rr_from r) (rr_to r) \<and> rr_scope r \<noteq> []"
proof (cases raw)
  case (JObj obj)
  let ?g = "obj_get obj"
  have iso: "iso_in v \<Longrightarrow> isIsoDate (the (text_of v))" for v by (auto simp: iso_in_def split: option.splits)
  have asked: "scopes_in v = Some asked \<Longrightarrow> asked \<noteq> []" for v asked
    by (auto simp: scopes_in_def neq_Nil_conv split: option.splits json.splits if_splits)
  from assms have "\<exists>kind asked value. iso_in (?g ''from'') \<and> iso_in (?g ''to'') \<and>
      \<not> js_less (the (text_of (?g ''to''))) (the (text_of (?g ''from''))) \<and> scopes_in (?g ''scope'') = Some asked \<and>
      length (filter (\<lambda>s. s \<in> set asked) CHARGE_SCOPES) = length asked \<and>
      relief_value_error kind (filter (\<lambda>s. s \<in> set asked) CHARGE_SCOPES) value = None \<and>
      r = \<lparr>rr_from = the (text_of (?g ''from'')), rr_id = newId, rr_kind = kind, rr_scope = filter (\<lambda>s. s \<in> set asked) CHARGE_SCOPES,
        rr_to = the (text_of (?g ''to'')), rr_value = (if kind = RkPercent then value else r2 value)\<rparr>"
    unfolding validateReliefShape_def JObj by (simp add: Let_def split: option.split_asm if_split_asm) blast+
  then obtain kind asked "value" where c: "iso_in (?g ''from'')" "iso_in (?g ''to'')"
      "js_le (the (text_of (?g ''from''))) (the (text_of (?g ''to'')))" "scopes_in (?g ''scope'') = Some asked"
      "length (filter (\<lambda>s. s \<in> set asked) CHARGE_SCOPES) = length asked"
      "relief_value_error kind (filter (\<lambda>s. s \<in> set asked) CHARGE_SCOPES) value = None"
      "r = \<lparr>rr_from = the (text_of (?g ''from'')), rr_id = newId, rr_kind = kind, rr_scope = filter (\<lambda>s. s \<in> set asked) CHARGE_SCOPES,
        rr_to = the (text_of (?g ''to'')), rr_value = (if kind = RkPercent then value else r2 value)\<rparr>"
    unfolding not_js_less by blast
  have "0 \<le> value \<and> (kind = RkPercent \<longrightarrow> value \<le> 100)"
    using c(6) by (cases kind) (simp_all add: relief_value_error_def split: if_split_asm)
  then have "sound_relief r" using r2_nonneg [of "value"] by (simp add: sound_relief_def c(7))
  moreover have "filter (\<lambda>s. s \<in> set asked) CHARGE_SCOPES \<noteq> []" using c(5) asked [OF c(4)] by (metis length_0_conv)
  ultimately show ?thesis using c(1-3) iso by (simp add: c(7))
qed (use assms in \<open>simp_all add: validateReliefShape_def\<close>)

lemma parse_relief_valid: "parse_relief entry = Some r \<Longrightarrow> \<exists>newId raw. validateReliefShape newId raw = Inr r"
  unfolding parse_relief_def by (simp del: map_filter_simps split: json.split_asm option.split_asm if_split_asm sum.split_asm) blast

lemma parsed_reliefs_sound:
  assumes "r \<in> set (parseReliefs parsed)"
  shows "sound_relief r"
proof -
  from assms obtain entries where "r \<in> set (List.map_filter parse_relief entries)"
    unfolding parseReliefs_def by (auto split: json.split_asm option.split_asm)
  then obtain entry where "parse_relief entry = Some r" by (auto simp: map_filter_def)
  then show ?thesis using parse_relief_valid valid_relief_sound by blast
qed

section \<open>A relief on the sample schedule\<close>

definition sample_relief :: rent_relief where
  "sample_relief =
     \<lparr>rr_from = ''2025-08-01'', rr_id = ''q1'', rr_kind = RkPercent, rr_scope = [ScopeRent], rr_to = ''2025-12-31'', rr_value = 50\<rparr>"

definition sample_charging :: charge_input where
  "sample_charging = \<lparr>ct_ancillaries = [], ct_fallbackAnnual = 0, ct_pending = [], ct_reliefs = [sample_relief]\<rparr>"

theorem timeline_says_current_rent_witness:
  "map_option (\<lambda>p. (cp_stepId p, ck_rent (cp_lease p))) (chargedOn (computeCharges sample_rows sample_charging) ''2025-09-01'') =
    Some (Some ''b'', Some 103000)"
proof -
  have "(case resolveCurrentRent sample_rows 0 ''2025-09-01'' of CurRow row \<Rightarrow> (rs_id (sr_step row), sr_annual row) | _ \<Rightarrow> ('''', 0)) = (''b'', 103000)"
    by code_simp
  then show ?thesis
    using timeline_says_current_rent [OF sample_rows_def, of sample_charging "''2025-09-01''"]
    by (auto simp: sample_charging_def split: current_rent.splits)
qed

text \<open>One row, relieved by half for five months.\<close>

definition let_steps :: "rate_step list" where
  "let_steps = [(plain_step ''a'' ''2024-07-01'' MCommencement 0)\<lparr>rs_baseRent := Some 100000\<rparr>]"

definition let_rows :: "schedule_row list" where
  "let_rows = computeScheduleRows let_steps 0 0 sample_terms"

definition let_period :: charge_period where
  "let_period = periodOf (hd (leaseSpans let_rows sample_charging)) (Some ''2025-08-01'') (Some ''2026-01-01'') [sample_relief]"

lemma let_relieved: "(ck_rent (cp_lease let_period), ck_rent (cp_charged let_period)) = (Some 100000, Some 50000)"
  by code_simp

lemma let_period_charged: "let_period \<in> set (tl_periods (computeCharges let_rows sample_charging))"
proof -
  let ?sp = "hd (leaseSpans let_rows sample_charging)"
  have sp: "length (leaseSpans let_rows sample_charging) = 1" "span_cuts ?sp [sample_relief] = [''2025-08-01'', ''2026-01-01'']"
    by code_simp+
  have "let_period \<in> set (span_periods [sample_relief] ?sp)" by (simp add: span_periods_def sp(2) let_period_def)
  moreover have "?sp \<in> set (leaseSpans let_rows sample_charging)" using sp(1) by (cases "leaseSpans let_rows sample_charging") simp_all
  moreover have "sort_by byStart (ct_reliefs sample_charging) = [sample_relief]" by (simp add: sample_charging_def)
  ultimately show ?thesis by (auto simp: computeCharges_def Let_def)
qed

theorem charged_within_lease_witness:
  "case (get_charge ScopeRent (cp_lease let_period), get_charge ScopeRent (cp_charged let_period)) of
      (Some asked, Some charged) \<Rightarrow> 0 \<le> charged \<and> charged \<le> asked
    | (None, None) \<Rightarrow> True
    | _ \<Rightarrow> False"
proof (rule charged_within_lease [OF _ _ _ let_rows_def _ _ _ let_period_charged])
  have "list_all valid_step let_steps" by code_simp
  then show "valid_step s" if "s \<in> set let_steps" for s using that by (simp add: list_all_iff)
  show "cap_ok sample_terms" by code_simp
  show "list_all sound_relief (ct_reliefs sample_charging)" by code_simp
qed (simp_all add: sample_charging_def)

end
