(* ===== verification/Ancillary_Charges.thy ===== *)
theory Ancillary_Charges
  imports Schedule_Charges
begin

text \<open>
  The charges that follow the rent: the car park groups and miscellaneous fees of a tenancy (their halves of
  \<open>src/scheduledRateStepLogic.ts\<close>, with the categories of \<open>src/chargeCategories.ts\<close>) and what the schedule
  makes of them (\<open>src/rentReview/cascade.ts\<close>). A rate step of a group and one of a fee are one record: the
  new amount is \<open>newMonthlyRate\<close> on a group and \<open>newAmount\<close> on a fee. The reading of the stored JSON is not
  modelled; a store is the list it holds. A division by an index of 0 is 0 here; the validators let none in.
\<close>

section \<open>Groups and fees\<close>

record ancillary_step =
  as_id :: string
  as_from :: string
  as_method :: "method_kind option"
  as_newAmount :: "rat option"
  as_cpiValue :: "rat option"
  as_cpiValuePrev :: "rat option"
  as_ratePercent :: "rat option"
  as_note :: "string option"

record carpark_group =
  kg_id :: string
  kg_label :: string
  kg_carparkIds :: "string list"
  kg_baseMonthlyRate :: rat
  kg_commencedAt :: string
  kg_rateSteps :: "ancillary_step list option"

datatype fee_frequency = FeeMonthly | FeeQuarterly | FeeAnnual

record misc_fee =
  mf_id :: string
  mf_title :: string
  mf_frequency :: fee_frequency
  mf_baseAmount :: rat
  mf_commencedAt :: string
  mf_endsAt :: "string option"
  mf_note :: "string option"
  mf_category :: "string option"
  mf_rateSteps :: "ancillary_step list option"

definition FEE_CATEGORY_VALUES :: "string list" where
  "FEE_CATEGORY_VALUES = [''licenceFee'', ''carBayRent'', ''afterHoursAc'', ''electricity'', ''cleaning'', ''outgoings'', ''promotionFund'', ''other'']"

definition isFeeCategory :: "json option \<Rightarrow> bool" where
  "isFeeCategory v = (case text_of v of Some s \<Rightarrow> s \<in> set FEE_CATEGORY_VALUES | None \<Rightarrow> False)"

section \<open>What the validators let through\<close>

datatype item_error = ItemError step_error | RateStepError nat step_error

text \<open>\<open>ISO_DATE_RE\<close>: the shape of a date, not whether it is one.\<close>

definition date_shaped :: "json option \<Rightarrow> bool" where
  "date_shaped v = (case text_of v of Some s \<Rightarrow> parse_date_key s \<noteq> None | None \<Rightarrow> False)"

definition rate_step_keys :: "string \<Rightarrow> string list" where
  "rate_step_keys amountKey = [''id'', ''effectiveFrom'', ''methodKind'', amountKey, ''cpiValue'', ''cpiValuePrev'', ''ratePercent'', ''note'']"

definition is_uuid :: "json option \<Rightarrow> bool" where
  "is_uuid v = (case v of Some j \<Rightarrow> isUuidShaped j | None \<Rightarrow> False)"

definition rate_step_checks :: "string \<Rightarrow> json_object \<Rightarrow> (bool \<times> step_error) list" where
  "rate_step_checks amountKey obj =
     (let g = obj_get obj
      in [(is_uuid (g ''id''), BadField ''id''),
          (date_shaped (g ''effectiveFrom''), BadField ''effectiveFrom''),
          (absent_or (g ''methodKind'') (method_in (g ''methodKind'') \<noteq> None), BadField ''methodKind''),
          (absent_or (g amountKey) (holds_in (\<lambda>n. n \<ge> 0) (g amountKey)), BadField amountKey),
          (absent_or (g ''cpiValue'') (holds_in (\<lambda>n. n > 0) (g ''cpiValue'')), BadField ''cpiValue''),
          (absent_or (g ''cpiValuePrev'') (holds_in (\<lambda>n. n > 0) (g ''cpiValuePrev'')), BadField ''cpiValuePrev''),
          (absent_or (g ''ratePercent'') (number_in (g ''ratePercent'') \<noteq> None), BadField ''ratePercent''),
          (absent_or (g ''note'') (text_of (g ''note'') \<noteq> None), BadField ''note'')])"

definition rate_step_of :: "string \<Rightarrow> json_object \<Rightarrow> ancillary_step" where
  "rate_step_of amountKey obj =
     (let g = obj_get obj
      in \<lparr>as_id = the (text_of (g ''id'')), as_from = the (text_of (g ''effectiveFrom'')), as_method = method_in (g ''methodKind''),
          as_newAmount = number_in (g amountKey), as_cpiValue = number_in (g ''cpiValue''), as_cpiValuePrev = number_in (g ''cpiValuePrev''),
          as_ratePercent = number_in (g ''ratePercent''), as_note = map_option js_trim (text_of (g ''note''))\<rparr>)"

definition validateRateStep :: "string \<Rightarrow> json \<Rightarrow> step_error + ancillary_step" where
  "validateRateStep amountKey raw =
     (case raw of
        JObj obj \<Rightarrow>
          (case find (\<lambda>k. k \<notin> set (rate_step_keys amountKey)) (map fst obj) of
             Some k \<Rightarrow> Inl (UnknownKey k)
           | None \<Rightarrow> (case first_failure (rate_step_checks amountKey obj) of Some e \<Rightarrow> Inl e | None \<Rightarrow> Inr (rate_step_of amountKey obj)))
      | _ \<Rightarrow> Inl NotAnObject)"

definition validateCarparkRateStep :: "json \<Rightarrow> step_error + ancillary_step" where
  "validateCarparkRateStep = validateRateStep ''newMonthlyRate''"

definition validateMiscFeeRateStep :: "json \<Rightarrow> step_error + ancillary_step" where
  "validateMiscFeeRateStep = validateRateStep ''newAmount''"

fun validate_rate_steps :: "(json \<Rightarrow> step_error + ancillary_step) \<Rightarrow> nat \<Rightarrow> json list \<Rightarrow> item_error + ancillary_step list" where
  "validate_rate_steps check i [] = Inr []"
| "validate_rate_steps check i (raw # rest) =
     (case check raw of
        Inl e \<Rightarrow> Inl (RateStepError i e)
      | Inr step \<Rightarrow> and_then (validate_rate_steps check (i + 1) rest) (\<lambda>steps. Inr (step # steps)))"

text \<open>\<open>rateSteps\<close>, absent or a list of steps that each pass.\<close>

definition rate_steps_in :: "(json \<Rightarrow> step_error + ancillary_step) \<Rightarrow> json option \<Rightarrow> item_error + ancillary_step list option" where
  "rate_steps_in check v =
     (case v of
        None \<Rightarrow> Inr None
      | Some (JArr list) \<Rightarrow> and_then (validate_rate_steps check 0 list) (\<lambda>steps. Inr (Some steps))
      | Some _ \<Rightarrow> Inl (ItemError (BadField ''rateSteps'')))"

definition LABEL_MAX :: nat where "LABEL_MAX = 200"
definition CARPARK_IDS_MAX :: nat where "CARPARK_IDS_MAX = 100"

definition not_blank :: "json option \<Rightarrow> bool" where
  "not_blank v = (case text_of v of Some s \<Rightarrow> js_trim s \<noteq> '''' | None \<Rightarrow> False)"

definition texts_of :: "json option \<Rightarrow> string list" where
  "texts_of v = (case v of Some (JArr list) \<Rightarrow> List.map_filter (\<lambda>j. text_of (Some j)) list | _ \<Rightarrow> [])"

definition list_in :: "(json list \<Rightarrow> bool) \<Rightarrow> json option \<Rightarrow> bool" where
  "list_in p v = (case v of Some (JArr list) \<Rightarrow> p list | _ \<Rightarrow> False)"

definition GROUP_KEYS :: "string list" where
  "GROUP_KEYS = [''id'', ''label'', ''carparkIds'', ''baseMonthlyRate'', ''commencedAt'', ''rateSteps'']"

definition group_checks :: "json_object \<Rightarrow> (bool \<times> step_error) list" where
  "group_checks obj =
     (let g = obj_get obj
      in [(is_uuid (g ''id''), BadField ''id''),
          (not_blank (g ''label''), BadField ''label''),
          (text_within LABEL_MAX (g ''label''), BadField ''label''),
          (list_in (\<lambda>l. l \<noteq> []) (g ''carparkIds''), BadField ''carparkIds''),
          (list_in (\<lambda>l. length l \<le> CARPARK_IDS_MAX) (g ''carparkIds''), BadField ''carparkIds''),
          (list_in (list_all (\<lambda>j. not_blank (Some j))) (g ''carparkIds''), BadField ''carparkIds''),
          (holds_in (\<lambda>n. n \<ge> 0) (g ''baseMonthlyRate''), BadField ''baseMonthlyRate''),
          (date_shaped (g ''commencedAt''), BadField ''commencedAt'')])"

definition validateCarparkScheduleGroup :: "json \<Rightarrow> item_error + carpark_group" where
  "validateCarparkScheduleGroup raw =
     (case raw of
        JObj obj \<Rightarrow>
          (let g = obj_get obj
           in (case find (\<lambda>k. k \<notin> set GROUP_KEYS) (map fst obj) of
                 Some k \<Rightarrow> Inl (ItemError (UnknownKey k))
               | None \<Rightarrow>
                   (case first_failure (group_checks obj) of
                      Some e \<Rightarrow> Inl (ItemError e)
                    | None \<Rightarrow>
                        and_then (rate_steps_in validateCarparkRateStep (g ''rateSteps''))
                          (\<lambda>steps. Inr \<lparr>kg_id = the (text_of (g ''id'')), kg_label = js_trim (the (text_of (g ''label''))),
                             kg_carparkIds = texts_of (g ''carparkIds''), kg_baseMonthlyRate = the (number_in (g ''baseMonthlyRate'')),
                             kg_commencedAt = the (text_of (g ''commencedAt'')), kg_rateSteps = steps\<rparr>))))
      | _ \<Rightarrow> Inl (ItemError NotAnObject))"

definition VALID_FREQUENCIES :: "(string \<times> fee_frequency) list" where
  "VALID_FREQUENCIES = [(''monthly'', FeeMonthly), (''quarterly'', FeeQuarterly), (''annual'', FeeAnnual)]"

definition frequency_in :: "json option \<Rightarrow> fee_frequency option" where
  "frequency_in v = Option.bind (text_of v) (map_of VALID_FREQUENCIES)"

definition FEE_KEYS :: "string list" where
  "FEE_KEYS = [''id'', ''title'', ''frequency'', ''baseAmount'', ''commencedAt'', ''endsAt'', ''note'', ''category'', ''rateSteps'']"

definition fee_checks :: "json_object \<Rightarrow> (bool \<times> step_error) list" where
  "fee_checks obj =
     (let g = obj_get obj
      in [(is_uuid (g ''id''), BadField ''id''),
          (not_blank (g ''title''), BadField ''title''),
          (text_within 200 (g ''title''), BadField ''title''),
          (frequency_in (g ''frequency'') \<noteq> None, BadField ''frequency''),
          (holds_in (\<lambda>n. n \<ge> 0) (g ''baseAmount''), BadField ''baseAmount''),
          (date_shaped (g ''commencedAt''), BadField ''commencedAt''),
          (absent_or (g ''endsAt'') (date_shaped (g ''endsAt'')), BadField ''endsAt''),
          (absent_or (g ''note'') (text_of (g ''note'') \<noteq> None), BadField ''note''),
          (absent_or (g ''category'') (g ''category'' = Some JNull \<or> isFeeCategory (g ''category'')), BadField ''category'')])"

definition validateMiscFee :: "json \<Rightarrow> item_error + misc_fee" where
  "validateMiscFee raw =
     (case raw of
        JObj obj \<Rightarrow>
          (let g = obj_get obj
           in (case find (\<lambda>k. k \<notin> set FEE_KEYS) (map fst obj) of
                 Some k \<Rightarrow> Inl (ItemError (UnknownKey k))
               | None \<Rightarrow>
                   (case first_failure (fee_checks obj) of
                      Some e \<Rightarrow> Inl (ItemError e)
                    | None \<Rightarrow>
                        and_then (rate_steps_in validateMiscFeeRateStep (g ''rateSteps''))
                          (\<lambda>steps. Inr \<lparr>mf_id = the (text_of (g ''id'')), mf_title = js_trim (the (text_of (g ''title''))),
                             mf_frequency = the (frequency_in (g ''frequency'')), mf_baseAmount = the (number_in (g ''baseAmount'')),
                             mf_commencedAt = the (text_of (g ''commencedAt'')), mf_endsAt = text_of (g ''endsAt''),
                             mf_note = map_option js_trim (text_of (g ''note'')),
                             mf_category = (if isFeeCategory (g ''category'') then text_of (g ''category'') else None),
                             mf_rateSteps = steps\<rparr>))))
      | _ \<Rightarrow> Inl (ItemError NotAnObject))"

text \<open>The envelopes: the tenancy, the building, and the item or its id.\<close>

definition item_envelope :: "(json \<Rightarrow> item_error + 'a) \<Rightarrow> string \<Rightarrow> json \<Rightarrow> item_error + rat \<times> rat \<times> 'a" where
  "item_envelope validate key body =
     (case body of
        JObj obj \<Rightarrow>
          if \<not> positive_id (obj_get obj ''TenantId'') then Inl (ItemError (BadField ''TenantId''))
          else if \<not> positive_id (obj_get obj ''BuildingId'') then Inl (ItemError (BadField ''BuildingId''))
          else (case obj_get obj key of
                  None \<Rightarrow> Inl (ItemError NotAnObject)
                | Some raw \<Rightarrow>
                    and_then (validate raw)
                      (\<lambda>item. Inr (the (number_in (obj_get obj ''TenantId'')), the (number_in (obj_get obj ''BuildingId'')), item)))
      | _ \<Rightarrow> Inl (ItemError NotAnObject))"

definition uuid_text :: "string \<Rightarrow> json \<Rightarrow> item_error + string" where
  "uuid_text key v = (case v of JStr s \<Rightarrow> if isUuidShaped v then Inr s else Inl (ItemError (BadField key)) | _ \<Rightarrow> Inl (ItemError (BadField key)))"

definition validateUpsertGroupEnvelope :: "json \<Rightarrow> item_error + rat \<times> rat \<times> carpark_group" where
  "validateUpsertGroupEnvelope = item_envelope validateCarparkScheduleGroup ''group''"

definition validateUpsertFeeEnvelope :: "json \<Rightarrow> item_error + rat \<times> rat \<times> misc_fee" where
  "validateUpsertFeeEnvelope = item_envelope validateMiscFee ''fee''"

text \<open>An absent id is refused like any other text that is not one.\<close>

definition id_envelope :: "string \<Rightarrow> json \<Rightarrow> item_error + rat \<times> rat \<times> string" where
  "id_envelope key body =
     (case body of
        JObj obj \<Rightarrow>
          if \<not> positive_id (obj_get obj ''TenantId'') then Inl (ItemError (BadField ''TenantId''))
          else if \<not> positive_id (obj_get obj ''BuildingId'') then Inl (ItemError (BadField ''BuildingId''))
          else and_then (uuid_text key (case obj_get obj key of Some v \<Rightarrow> v | None \<Rightarrow> JNull))
                 (\<lambda>i. Inr (the (number_in (obj_get obj ''TenantId'')), the (number_in (obj_get obj ''BuildingId'')), i))
      | _ \<Rightarrow> Inl (ItemError NotAnObject))"

definition validateDeleteGroupEnvelope :: "json \<Rightarrow> item_error + rat \<times> rat \<times> string" where
  "validateDeleteGroupEnvelope = id_envelope ''groupId''"

definition validateDeleteFeeEnvelope :: "json \<Rightarrow> item_error + rat \<times> rat \<times> string" where
  "validateDeleteFeeEnvelope = id_envelope ''feeId''"

section \<open>The stores\<close>

text \<open>Absent rate steps keep the stored ones; an empty list clears them. Deleting answers \<open>None\<close> for \<open>NOT_FOUND\<close>.\<close>

definition merge_group :: "carpark_group \<Rightarrow> carpark_group \<Rightarrow> carpark_group" where
  "merge_group stored incoming = incoming\<lparr>kg_rateSteps := or_default (kg_rateSteps incoming) (kg_rateSteps stored)\<rparr>"

definition upsertGroup :: "carpark_group list \<Rightarrow> carpark_group \<Rightarrow> carpark_group list" where
  "upsertGroup existing incoming =
     (if \<exists>g\<in>set existing. kg_id g = kg_id incoming
      then replace_first (\<lambda>g. kg_id g = kg_id incoming) (\<lambda>g. merge_group g incoming) existing
      else existing @ [incoming])"

definition deleteGroup :: "carpark_group list \<Rightarrow> string \<Rightarrow> carpark_group list option" where
  "deleteGroup existing i =
     (if \<exists>g\<in>set existing. kg_id g = i then Some (remove_first (\<lambda>g. kg_id g = i) existing) else None)"

definition merge_fee :: "misc_fee \<Rightarrow> misc_fee \<Rightarrow> misc_fee" where
  "merge_fee stored incoming = incoming\<lparr>mf_rateSteps := or_default (mf_rateSteps incoming) (mf_rateSteps stored)\<rparr>"

definition upsertMiscFee :: "misc_fee list \<Rightarrow> misc_fee \<Rightarrow> misc_fee list" where
  "upsertMiscFee existing incoming =
     (if \<exists>f\<in>set existing. mf_id f = mf_id incoming
      then replace_first (\<lambda>f. mf_id f = mf_id incoming) (\<lambda>f. merge_fee f incoming) existing
      else existing @ [incoming])"

definition deleteMiscFee :: "misc_fee list \<Rightarrow> string \<Rightarrow> misc_fee list option" where
  "deleteMiscFee existing i =
     (if \<exists>f\<in>set existing. mf_id f = i then Some (remove_first (\<lambda>f. mf_id f = i) existing) else None)"

text \<open>The canonical JSON texts of two fees are equal exactly when their fields are.\<close>

definition onlyCategoryChanged :: "misc_fee option \<Rightarrow> misc_fee \<Rightarrow> bool" where
  "onlyCategoryChanged before after =
     (case before of
        None \<Rightarrow> False
      | Some b \<Rightarrow> mf_category b \<noteq> mf_category after \<and> b\<lparr>mf_category := None\<rparr> = after\<lparr>mf_category := None\<rparr>)"

section \<open>Stores of items with an id\<close>

datatype 'a item_edit = Upserted 'a | Deleted string

definition edit_with :: "('a list \<Rightarrow> 'a \<Rightarrow> 'a list) \<Rightarrow> ('a list \<Rightarrow> string \<Rightarrow> 'a list option) \<Rightarrow> 'a list \<Rightarrow> 'a item_edit \<Rightarrow> 'a list" where
  "edit_with upsert remove xs e =
     (case e of Upserted x \<Rightarrow> upsert xs x | Deleted i \<Rightarrow> (case remove xs i of Some ys \<Rightarrow> ys | None \<Rightarrow> xs))"

definition map_edit_with :: "('a \<Rightarrow> string) \<Rightarrow> ('a \<Rightarrow> 'a \<Rightarrow> 'a) \<Rightarrow> (string \<Rightarrow> 'a option) \<Rightarrow> 'a item_edit \<Rightarrow> string \<Rightarrow> 'a option" where
  "map_edit_with key merge m e =
     (case e of
        Upserted x \<Rightarrow> m(key x \<mapsto> (case m (key x) of Some y \<Rightarrow> merge y x | None \<Rightarrow> x))
      | Deleted i \<Rightarrow> m(i := None))"

definition contents_by :: "('a \<Rightarrow> string) \<Rightarrow> 'a list \<Rightarrow> string \<Rightarrow> 'a option" where
  "contents_by key xs i = find (\<lambda>y. key y = i) xs"

locale keyed_store =
  fixes key :: "'a \<Rightarrow> string" and upsert :: "'a list \<Rightarrow> 'a \<Rightarrow> 'a list" and remove :: "'a list \<Rightarrow> string \<Rightarrow> 'a list option"
    and merge :: "'a \<Rightarrow> 'a \<Rightarrow> 'a"
  assumes find_upsert: "find (\<lambda>y. key y = i) (upsert xs x) =
      (if i = key x then Some (case find (\<lambda>y. key y = i) xs of Some y \<Rightarrow> merge y x | None \<Rightarrow> x) else find (\<lambda>y. key y = i) xs)"
    and distinct_upsert: "distinct (map key xs) \<Longrightarrow> distinct (map key (upsert xs x))"
    and remove_None: "remove xs i = None \<longleftrightarrow> find (\<lambda>y. key y = i) xs = None"
    and find_remove: "remove xs i = Some ys \<Longrightarrow> distinct (map key xs) \<Longrightarrow>
      find (\<lambda>y. key y = j) ys = (if j = i then None else find (\<lambda>y. key y = j) xs)"
    and distinct_remove: "remove xs i = Some ys \<Longrightarrow> distinct (map key xs) \<Longrightarrow> distinct (map key ys)"
begin

lemma distinct_edit: "distinct (map key xs) \<Longrightarrow> distinct (map key (edit_with upsert remove xs e))"
  by (auto simp: edit_with_def distinct_upsert dest: distinct_remove split: item_edit.splits option.splits)

lemma contents_edit: "distinct (map key xs) \<Longrightarrow> contents_by key (edit_with upsert remove xs e) = map_edit_with key merge (contents_by key xs) e"
proof (cases e)
  case (Upserted x)
  then show ?thesis by (auto simp: fun_eq_iff contents_by_def edit_with_def map_edit_with_def find_upsert)
next
  case (Deleted i)
  assume d: "distinct (map key xs)"
  show ?thesis
  proof (cases "remove xs i")
    case None
    then show ?thesis using Deleted remove_None [of xs i] by (auto simp: fun_eq_iff contents_by_def edit_with_def map_edit_with_def)
  next
    case (Some ys)
    then show ?thesis using Deleted find_remove [OF Some d] by (auto simp: fun_eq_iff contents_by_def edit_with_def map_edit_with_def)
  qed
qed

lemma edits_refine:
  "distinct (map key xs) \<Longrightarrow>
   contents_by key (foldl (edit_with upsert remove) xs es) = foldl (map_edit_with key merge) (contents_by key xs) es \<and> distinct (map key (foldl (edit_with upsert remove) xs es))"
  by (induction es arbitrary: xs) (simp_all add: contents_edit distinct_edit)

end

text \<open>A list written at the first item with the id and appended to otherwise is such a store.\<close>

lemma find_replace_first:
  assumes "\<And>y. key (f y) = k"
  shows "find (\<lambda>y. key y = i) (replace_first (\<lambda>y. key y = k) f xs) =
    (if i = k then map_option f (find (\<lambda>y. key y = k) xs) else find (\<lambda>y. key y = i) xs)"
  using assms by (induction xs) auto

lemma keys_replace_first:
  assumes "\<And>y. key (f y) = k"
  shows "map key (replace_first (\<lambda>y. key y = k) f xs) = map key xs"
  using assms by (induction xs) auto

lemma find_key_append: "find (\<lambda>y. key y = i) (xs @ [x]) =
    (case find (\<lambda>y. key y = i) xs of Some y \<Rightarrow> Some y | None \<Rightarrow> if key x = i then Some x else None)"
  by (induction xs) auto

lemma find_key_None: "find (\<lambda>y. key y = i) xs = None \<longleftrightarrow> i \<notin> key ` set xs"
  by (auto simp: find_None_iff)

lemma remove_first_filter:
  "distinct (map key xs) \<Longrightarrow> remove_first (\<lambda>y. key y = i) xs = filter (\<lambda>y. key y \<noteq> i) xs"
  by (induction xs) (auto intro!: sym [OF filter_True] simp: image_iff)

lemma find_key_filter: "find (\<lambda>y. key y = j) (filter (\<lambda>y. key y \<noteq> i) xs) = (if j = i then None else find (\<lambda>y. key y = j) xs)"
  by (induction xs) auto

lemma keyed_store_list:
  fixes key :: "'a \<Rightarrow> string"
  assumes merge: "\<And>y x. key (merge y x) = key x"
    and upsert: "\<And>xs x. upsert xs x =
      (if \<exists>y\<in>set xs. key y = key x then replace_first (\<lambda>y. key y = key x) (\<lambda>y. merge y x) xs else xs @ [x])"
    and remove: "\<And>xs i. remove xs i = (if \<exists>y\<in>set xs. key y = i then Some (remove_first (\<lambda>y. key y = i) xs) else None)"
  shows "keyed_store key upsert remove merge"
proof
  fix i :: string and j :: string and xs ys :: "'a list" and x :: 'a
  have none: "find (\<lambda>y. key y = key x) xs = None \<longleftrightarrow> \<not> (\<exists>y\<in>set xs. key y = key x)"
    by (auto simp: find_None_iff)
  show "find (\<lambda>y. key y = i) (upsert xs x) =
      (if i = key x then Some (case find (\<lambda>y. key y = i) xs of Some y \<Rightarrow> merge y x | None \<Rightarrow> x) else find (\<lambda>y. key y = i) xs)"
    using none by (cases "find (\<lambda>y. key y = key x) xs") (auto simp: upsert find_replace_first merge find_key_append split: option.splits)
  show "distinct (map key xs) \<Longrightarrow> distinct (map key (upsert xs x))"
    using none by (auto simp: upsert keys_replace_first merge)
  show "remove xs i = None \<longleftrightarrow> find (\<lambda>y. key y = i) xs = None" by (auto simp: remove find_key_None)
  show "remove xs i = Some ys \<Longrightarrow> distinct (map key xs) \<Longrightarrow>
      find (\<lambda>y. key y = j) ys = (if j = i then None else find (\<lambda>y. key y = j) xs)"
    by (auto simp: remove remove_first_filter find_key_filter split: if_splits)
  show "remove xs i = Some ys \<Longrightarrow> distinct (map key xs) \<Longrightarrow> distinct (map key ys)"
    by (auto simp: remove remove_first_filter distinct_map_filter split: if_splits)
qed

interpretation rent_steps: keyed_store rs_id upsertStep deleteStep kept_fields
  by (rule keyed_store_list) (simp_all add: kept_fields_def upsertStep_def deleteStep_def)

interpretation groups: keyed_store kg_id upsertGroup deleteGroup merge_group
  by (rule keyed_store_list) (simp_all add: merge_group_def upsertGroup_def deleteGroup_def)

interpretation fees: keyed_store mf_id upsertMiscFee deleteMiscFee merge_fee
  by (rule keyed_store_list) (simp_all add: merge_fee_def upsertMiscFee_def deleteMiscFee_def)

end
