(* ===== verification/Review_Cascade.thy ===== *)
theory Review_Cascade
  imports Ancillary_Charges
begin

text \<open>
  What the schedule makes of the charges that follow the rent (\<open>src/rentReview/cascade.ts\<close>): the running
  amount of a car park group or a fee through the rows, the totals of every row, and the receipt a rent
  review shows. The sentences of the notes are constructors with the figures they print.
\<close>

section \<open>Running amounts\<close>

definition PERIODS_PER_YEAR :: "fee_frequency \<Rightarrow> rat" where
  "PERIODS_PER_YEAR frequency = (case frequency of FeeAnnual \<Rightarrow> 1 | FeeMonthly \<Rightarrow> 12 | FeeQuarterly \<Rightarrow> 4)"

text \<open>The override dated in the row's period, the latest first.\<close>

definition overrideFor :: "schedule_row \<Rightarrow> ancillary_step list option \<Rightarrow> ancillary_step option" where
  "overrideFor row overrides =
     (let step = sr_step row
      in (case sort_by (\<lambda>a b. text_order (as_from b) (as_from a))
                 (filter (\<lambda>s. js_le (rs_from step) (as_from s) \<and> (case rs_to step of None \<Rightarrow> True | Some t \<Rightarrow> js_less (as_from s) t))
                    (case overrides of Some l \<Rightarrow> l | None \<Rightarrow> [])) of
            s # _ \<Rightarrow> Some s
          | [] \<Rightarrow> None))"

definition activeInPeriod :: "schedule_row \<Rightarrow> string \<Rightarrow> bool" where
  "activeInPeriod row startsOn \<longleftrightarrow>
     js_le startsOn (rs_from (sr_step row)) \<or> (case rs_to (sr_step row) of None \<Rightarrow> False | Some t \<Rightarrow> js_less startsOn t)"

definition is_review_row :: "schedule_row \<Rightarrow> bool" where
  "is_review_row row \<longleftrightarrow> rs_method (sr_step row) \<noteq> Some MCommencement"

text \<open>The index pair of an override with its own CPI rule.\<close>

definition own_cpi :: "schedule_row \<Rightarrow> ancillary_step \<Rightarrow> (rat \<times> rat) option" where
  "own_cpi row step =
     (case (as_method step, as_cpiValue step, or_default (as_cpiValuePrev step) (sr_cpiBaseline row)) of
        (Some MCpi, Some v, Some b) \<Rightarrow> Some (v, b)
      | _ \<Rightarrow> None)"

definition row_factor :: "schedule_row \<Rightarrow> rat" where
  "row_factor row = (case sr_factor row of Some f \<Rightarrow> f | None \<Rightarrow> 1)"

definition follow_rent :: "schedule_row \<Rightarrow> rat \<Rightarrow> rat" where
  "follow_rent row running = (if is_review_row row then running * row_factor row else running)"

definition carpark_row :: "carpark_group \<Rightarrow> schedule_row \<Rightarrow> rat \<Rightarrow> rat" where
  "carpark_row grp row running =
     (case overrideFor row (kg_rateSteps grp) of
        None \<Rightarrow> follow_rent row running
      | Some step \<Rightarrow>
          (case as_newAmount step of
             Some n \<Rightarrow> n
           | None \<Rightarrow>
               (case own_cpi row step of
                  Some (v, b) \<Rightarrow> r2 (running * (v / b))
                | None \<Rightarrow>
                    (case as_ratePercent step of
                       Some p \<Rightarrow> r2 (running * (1 + p / 100))
                     | None \<Rightarrow> follow_rent row running))))"

fun carpark_from :: "carpark_group \<Rightarrow> rat option \<Rightarrow> schedule_row list \<Rightarrow> rat option" where
  "carpark_from grp running [] = running"
| "carpark_from grp None (row # rows) =
     carpark_from grp (if activeInPeriod row (kg_commencedAt grp) then Some (kg_baseMonthlyRate grp) else None) rows"
| "carpark_from grp (Some r) (row # rows) = carpark_from grp (Some (carpark_row grp row r)) rows"

definition carparkRunning :: "schedule_row list \<Rightarrow> carpark_group \<Rightarrow> rat option" where
  "carparkRunning rows grp = carpark_from grp None rows"

definition fee_row :: "misc_fee \<Rightarrow> schedule_row \<Rightarrow> rat \<Rightarrow> rat" where
  "fee_row fee row running =
     (if sr_pending row then running
      else (case overrideFor row (mf_rateSteps fee) of
              Some step \<Rightarrow>
                (case as_newAmount step of
                   Some n \<Rightarrow> n
                 | None \<Rightarrow>
                     (case own_cpi row step of
                        Some (v, b) \<Rightarrow> running * (v / b)
                      | None \<Rightarrow> (case as_ratePercent step of Some p \<Rightarrow> running * (1 + p / 100) | None \<Rightarrow> running)))
            | None \<Rightarrow>
                (case sr_factor row of
                   Some f \<Rightarrow> if is_review_row row then running * f else running
                 | None \<Rightarrow> running)))"

definition fee_ended :: "misc_fee \<Rightarrow> string \<Rightarrow> bool" where
  "fee_ended fee day = (case mf_endsAt fee of None \<Rightarrow> False | Some e \<Rightarrow> e \<noteq> '''' \<and> js_less e day)"

fun fee_from :: "misc_fee \<Rightarrow> rat option \<Rightarrow> schedule_row list \<Rightarrow> rat option" where
  "fee_from fee running [] = running"
| "fee_from fee running (row # rows) =
     (if running = None \<and> \<not> activeInPeriod row (mf_commencedAt fee) then fee_from fee None rows
      else if fee_ended fee (rs_from (sr_step row)) then None
      else fee_from fee (Some (case running of None \<Rightarrow> mf_baseAmount fee | Some r \<Rightarrow> fee_row fee row r)) rows)"

definition miscFeeRunning :: "schedule_row list \<Rightarrow> misc_fee \<Rightarrow> rat option" where
  "miscFeeRunning rows fee = fee_from fee None rows"

section \<open>The totals of every row\<close>

definition carpark_annual :: "schedule_row list \<Rightarrow> carpark_group \<Rightarrow> rat option" where
  "carpark_annual through grp =
     (case carparkRunning through grp of
        None \<Rightarrow> None
      | Some monthly \<Rightarrow> if monthly > 0 then Some (r2 (r2 monthly * 12)) else None)"

definition fee_annual :: "schedule_row list \<Rightarrow> misc_fee \<Rightarrow> rat option" where
  "fee_annual through fee = map_option (\<lambda>amount. r2 (amount * PERIODS_PER_YEAR (mf_frequency fee))) (miscFeeRunning through fee)"

definition add_annual :: "rat option \<Rightarrow> rat \<Rightarrow> rat option" where
  "add_annual acc annual = Some (r2 ((case acc of Some n \<Rightarrow> n | None \<Rightarrow> 0) + annual))"

definition ancillaries_through :: "schedule_row list \<Rightarrow> carpark_group list \<Rightarrow> misc_fee list \<Rightarrow> row_ancillaries" where
  "ancillaries_through through groups fees =
     \<lparr>ra_carparks = foldl add_annual None (List.map_filter (carpark_annual through) groups),
      ra_miscFees = foldl add_annual None (List.map_filter (fee_annual through) fees),
      ra_dated = Some
        (List.map_filter (\<lambda>g. map_option (\<lambda>a. \<lparr>dc_annual = a, dc_from = kg_commencedAt g, dc_to = None\<rparr>) (carpark_annual through g)) groups,
         List.map_filter
           (\<lambda>f. map_option (\<lambda>a. \<lparr>dc_annual = a, dc_from = mf_commencedAt f,
                                  dc_to = (if text_set (mf_endsAt f) then map_option day_after (mf_endsAt f) else None)\<rparr>)
                  (fee_annual through f)) fees)\<rparr>"

definition ancillariesByRow :: "schedule_row list \<Rightarrow> carpark_group list \<Rightarrow> misc_fee list \<Rightarrow> row_ancillaries list" where
  "ancillariesByRow rows groups fees = map (\<lambda>i. ancillaries_through (take (i + 1) rows) groups fees) [0..<length rows]"

section \<open>The receipt\<close>

datatype cascade_kind = CascadeAhac | CascadeCarpark | CascadeMiscFee

datatype bounds_note = AboveCap rat | BelowFloor rat

datatype cascade_note =
    OwnAmount rat | OwnCpi rat rat rat "bounds_note option" | OwnRate rat "bounds_note option" | StaysAsItIs

record cascade_row =
  ca_appliedPercent :: "rat option"
  ca_currentAnnual :: rat
  ca_kind :: cascade_kind
  ca_label :: string
  ca_newAnnual :: rat
  ca_note :: "cascade_note option"

record cascade_input =
  cx_ahacAfter :: "rat option"
  cx_ahacBefore :: "rat option"
  cx_bounds :: "(rat option \<times> rat option) option" \<comment> \<open>\<open>{ capPercent, floorPercent }\<close>\<close>
  cx_groups :: "carpark_group list"
  cx_fees :: "misc_fee list"
  cx_reviewRow :: schedule_row
  cx_rowsBefore :: "schedule_row list"
  cx_rowsThrough :: "schedule_row list"

definition below_floor :: "rat \<Rightarrow> (rat option \<times> rat option) option \<Rightarrow> bounds_note option" where
  "below_floor percent bounds =
     (case Option.bind bounds snd of Some f \<Rightarrow> if percent < f then Some (BelowFloor f) else None | None \<Rightarrow> None)"

definition boundsNote :: "rat \<Rightarrow> (rat option \<times> rat option) option \<Rightarrow> bounds_note option" where
  "boundsNote percent bounds =
     (case Option.bind bounds fst of
        Some c \<Rightarrow> if percent > c then Some (AboveCap c) else below_floor percent bounds
      | None \<Rightarrow> below_floor percent bounds)"

definition noteFor :: "ancillary_step option \<Rightarrow> cascade_input \<Rightarrow> cascade_kind \<Rightarrow> cascade_note option" where
  "noteFor rateStep inp kind =
     (case rateStep of
        None \<Rightarrow> None
      | Some step \<Rightarrow>
          (case as_newAmount step of
             Some n \<Rightarrow> Some (OwnAmount n)
           | None \<Rightarrow>
               (case own_cpi (cx_reviewRow inp) step of
                  Some (v, b) \<Rightarrow> (let percent = (v / b - 1) * 100 in Some (OwnCpi v b percent (boundsNote percent (cx_bounds inp))))
                | None \<Rightarrow>
                    (case as_ratePercent step of
                       Some p \<Rightarrow> Some (OwnRate p (boundsNote p (cx_bounds inp)))
                     | None \<Rightarrow> if kind = CascadeCarpark then None else Some StaysAsItIs))))"

definition cascadeRow :: "cascade_kind \<Rightarrow> string \<Rightarrow> rat \<Rightarrow> rat \<Rightarrow> rat \<Rightarrow> rat \<Rightarrow> cascade_note option \<Rightarrow> cascade_row" where
  "cascadeRow kind label after afterAnnual before beforeAnnual note =
     \<lparr>ca_appliedPercent = (if before > 0 then Some (r4 ((after / before - 1) * 100)) else None), ca_currentAnnual = r2 beforeAnnual,
      ca_kind = kind, ca_label = label, ca_newAnnual = r2 afterAnnual, ca_note = note\<rparr>"

definition ahac_cascade :: "cascade_input \<Rightarrow> cascade_row list" where
  "ahac_cascade inp =
     (case cx_ahacBefore inp of
        Some before \<Rightarrow>
          if before > 0
          then (let after = (case cx_ahacAfter inp of Some a \<Rightarrow> a | None \<Rightarrow> before)
                in [cascadeRow CascadeAhac ''After-hours air-conditioning'' after after before before None])
          else []
      | None \<Rightarrow> [])"

definition carpark_cascade :: "cascade_input \<Rightarrow> carpark_group \<Rightarrow> cascade_row option" where
  "carpark_cascade inp grp =
     (case carparkRunning (cx_rowsBefore inp) grp of
        None \<Rightarrow> None
      | Some before \<Rightarrow>
          (let after = (case carparkRunning (cx_rowsThrough inp) grp of Some a \<Rightarrow> a | None \<Rightarrow> before);
               step = overrideFor (cx_reviewRow inp) (kg_rateSteps grp)
           in Some (cascadeRow CascadeCarpark (kg_label grp) after (r2 after * 12) before (r2 before * 12)
                      (noteFor step inp CascadeCarpark))))"

definition fee_cascade :: "cascade_input \<Rightarrow> misc_fee \<Rightarrow> cascade_row option" where
  "fee_cascade inp fee =
     (if fee_ended fee (rs_from (sr_step (cx_reviewRow inp))) then None
      else (case miscFeeRunning (cx_rowsBefore inp) fee of
              None \<Rightarrow> None
            | Some before \<Rightarrow>
                (let after = (case miscFeeRunning (cx_rowsThrough inp) fee of Some a \<Rightarrow> a | None \<Rightarrow> before);
                     step = overrideFor (cx_reviewRow inp) (mf_rateSteps fee); perYear = PERIODS_PER_YEAR (mf_frequency fee)
                 in Some (cascadeRow CascadeMiscFee (mf_title fee) after (after * perYear) before (before * perYear)
                            (noteFor step inp CascadeMiscFee)))))"

definition computeCascade :: "cascade_input \<Rightarrow> cascade_row list" where
  "computeCascade inp =
     ahac_cascade inp @ List.map_filter (carpark_cascade inp) (cx_groups inp) @ List.map_filter (fee_cascade inp) (cx_fees inp)"

end
