(* ===== verification/Review_Receipt.thy ===== *)
theory Review_Receipt
  imports Review_Cascade Rent_Step_Plan Review_Dates
begin

text \<open>
  What a rent review owes and shows: the arrears (\<open>src/rentReview/arrears.ts\<close>), the review as it will be
  written (\<open>src/rentReview/written.ts\<close>) and the calculation (\<open>src/rentReviewCalc.ts\<close>). A basis is its JSON
  object; the stored calculation is the record the JSON holds, and its reading is not modelled. The
  sentences of refusals are left out; a refusal is its code. \<open>None\<close> stands for the error the date functions
  throw on a text that is not a date.
\<close>

section \<open>Arrears\<close>

datatype charge_kind = KindRent | KindCascade cascade_kind

record arrears_change =
  ac_after :: rat
  ac_before :: rat
  ac_kind :: charge_kind
  ac_label :: string

record arrears_part =
  ap_amount :: rat
  ap_kind :: charge_kind
  ap_label :: string

record arrears_line =
  al_amount :: rat
  al_from :: string
  al_lines :: "arrears_part list"
  al_months :: rat
  al_reliefIds :: "string list" \<comment> \<open>\<open>[]\<close> for an absent field\<close>
  al_to :: string

fun SCOPE_OF :: "charge_kind \<Rightarrow> charge_scope" where
  "SCOPE_OF KindRent = ScopeRent"
| "SCOPE_OF (KindCascade CascadeAhac) = ScopeAhac"
| "SCOPE_OF (KindCascade CascadeCarpark) = ScopeCarparks"
| "SCOPE_OF (KindCascade CascadeMiscFee) = ScopeMiscFees"

definition covering_reliefs :: "charge_scope \<Rightarrow> string \<Rightarrow> string \<Rightarrow> rent_relief list \<Rightarrow> rent_relief list" where
  "covering_reliefs scope from_day to_day reliefs =
     sort_by byStart (filter (\<lambda>r. scope \<in> set (rr_scope r) \<and> js_less (rr_from r) to_day \<and> js_less from_day (reliefEnd r)) reliefs)"

definition relieved_value :: "rent_relief option \<Rightarrow> charge_scope \<Rightarrow> rat \<Rightarrow> rat" where
  "relieved_value relief scope v = (case relief of None \<Rightarrow> v | Some r \<Rightarrow> the (relieve (Some v) r scope))"

definition relief_on :: "rent_relief list \<Rightarrow> string \<Rightarrow> rent_relief option" where
  "relief_on covering day = find (\<lambda>r. js_le (rr_from r) day \<and> js_less day (reliefEnd r)) covering"

definition relief_cuts :: "string \<Rightarrow> string \<Rightarrow> rent_relief list \<Rightarrow> string list" where
  "relief_cuts from_day to_day covering =
     sort_by text_order
       (filter (\<lambda>cut. js_less from_day cut \<and> js_less cut to_day) (js_unique (concat (map (\<lambda>r. [rr_from r, reliefEnd r]) covering))))"

text \<open>The stretches between two bounds, with the ids of the reliefs that lowered one.\<close>

definition stretch_amount :: "arrears_change \<Rightarrow> rent_relief option \<Rightarrow> string \<Rightarrow> string \<Rightarrow> rat" where
  "stretch_amount change relief start ends =
     (let scope = SCOPE_OF (ac_kind change)
      in r2 (r2 (relieved_value relief scope (ac_after change) - relieved_value relief scope (ac_before change)) *
             of_int (days_from start ends) / 365))"

definition lowered_by :: "arrears_change \<Rightarrow> rent_relief option \<Rightarrow> string list" where
  "lowered_by change relief =
     (case relief of
        None \<Rightarrow> []
      | Some r \<Rightarrow> if relieved_value relief (SCOPE_OF (ac_kind change)) (ac_after change) \<noteq> ac_after change then [rr_id r] else [])"

fun relieved_stretches :: "arrears_change \<Rightarrow> rent_relief list \<Rightarrow> rat \<times> string list \<Rightarrow> string list \<Rightarrow> rat \<times> string list" where
  "relieved_stretches change covering (amount, used) (a # b # bounds) =
     (let relief = relief_on covering a
      in relieved_stretches change covering (r2 (amount + stretch_amount change relief a b), used @ lowered_by change relief) (b # bounds))"
| "relieved_stretches change covering acc bounds = acc"

definition relievedPart :: "arrears_change \<Rightarrow> string \<Rightarrow> string \<Rightarrow> rent_relief list \<Rightarrow> (rat \<times> string list) option" where
  "relievedPart change from_day to_day reliefs =
     (let covering = covering_reliefs (SCOPE_OF (ac_kind change)) from_day to_day reliefs
      in if covering = [] then None
         else Some (relieved_stretches change covering (0, []) ([from_day] @ relief_cuts from_day to_day covering @ [to_day])))"

definition plain_part :: "arrears_change \<Rightarrow> int \<Rightarrow> rat" where
  "plain_part change days = r2 (r2 (ac_after change - ac_before change) * of_int days / 365)"

definition arrears_part_of :: "string \<Rightarrow> string \<Rightarrow> rent_relief list \<Rightarrow> arrears_change \<Rightarrow> arrears_part list \<times> string list" where
  "arrears_part_of from_day to_day reliefs change =
     (let part = (\<lambda>amount. \<lparr>ap_amount = amount, ap_kind = ac_kind change, ap_label = ac_label change\<rparr>)
      in if r2 (ac_after change - ac_before change) = 0 then ([], [])
         else (case relievedPart change from_day to_day reliefs of
                 None \<Rightarrow> ([part (plain_part change (days_from from_day to_day))], [])
               | Some (amount, used) \<Rightarrow> (if amount \<noteq> 0 then [part amount] else [], used)))"

definition arrearsFor :: "string \<Rightarrow> string \<Rightarrow> arrears_change list \<Rightarrow> rent_relief list \<Rightarrow> arrears_line option" where
  "arrearsFor from_day to_day changes reliefs =
     (let days = days_from from_day to_day; parts = map (arrears_part_of from_day to_day reliefs) changes; parts_shown = concat (map fst parts)
      in if days \<le> 0 then None
         else if parts_shown = [] then None
         else Some \<lparr>al_amount = r2 (\<Sum>l\<leftarrow>parts_shown. ap_amount l), al_from = from_day, al_lines = parts_shown,
                al_months = r2 (of_int days * 12 / 365), al_reliefIds = sort_by text_order (js_unique (concat (map snd parts))), al_to = to_day\<rparr>)"

definition rent_change :: "rat \<Rightarrow> rat \<Rightarrow> arrears_change" where
  "rent_change currentAnnual newAnnual = \<lparr>ac_after = newAnnual, ac_before = currentAnnual, ac_kind = KindRent, ac_label = ''Rent''\<rparr>"

definition computeArrears :: "string \<Rightarrow> string \<Rightarrow> rat \<Rightarrow> rat \<Rightarrow> arrears_line option" where
  "computeArrears from_day to_day currentAnnual newAnnual = arrearsFor from_day to_day [rent_change currentAnnual newAnnual] []"

definition reviewChanges :: "rat \<Rightarrow> rat \<Rightarrow> cascade_row list \<Rightarrow> arrears_change list" where
  "reviewChanges currentAnnual newAnnual cascade =
     rent_change currentAnnual newAnnual #
     map (\<lambda>row. \<lparr>ac_after = ca_newAnnual row, ac_before = ca_currentAnnual row, ac_kind = KindCascade (ca_kind row), ac_label = ca_label row\<rparr>) cascade"

section \<open>The review as it will be written\<close>

datatype calc_method = CalcCpi | CalcFixed | CalcOther

fun method_kind_of :: "calc_method \<Rightarrow> method_kind" where
  "method_kind_of CalcCpi = MCpi"
| "method_kind_of CalcFixed = MFixed"
| "method_kind_of CalcOther = MOther"

record written_input =
  wi_base :: rate_step
  wi_before :: simulation
  wi_bounds :: "(rat option \<times> rat option) option"
  wi_groups :: "carpark_group list"
  wi_context :: schedule_context
  wi_cpi :: "(rat \<times> rat) option"
  wi_currentAnnual :: rat
  wi_departs :: bool
  wi_method :: calc_method
  wi_fees :: "misc_fee list"
  wi_naturalRate :: rat
  wi_exempt :: "ratchet_exemption option"
  wi_reliefs :: "rent_relief list"
  wi_reviewId :: string
  wi_scheduledFor :: string
  wi_target :: rat
  wi_today :: string

record written_review =
  wr_arrears :: "arrears_line option"
  wr_cascade :: "cascade_row list"
  wr_representation :: representation
  wr_row :: schedule_row
  wr_simulation :: simulation
  wr_step :: rate_step

definition represent_of :: "written_input \<Rightarrow> represent_input" where
  "represent_of inp =
     \<lparr>ri_base = wi_base inp, ri_context = wi_context inp, ri_currentAnnual = wi_currentAnnual inp, ri_cpi = wi_cpi inp,
      ri_departs = wi_departs inp, ri_method = method_kind_of (wi_method inp), ri_naturalRate = wi_naturalRate inp,
      ri_exempt = wi_exempt inp, ri_reviewId = wi_reviewId inp, ri_target = wi_target inp\<rparr>"

text \<open>The rows before the written one, which is the first with its id.\<close>

definition rows_before :: "represented \<Rightarrow> schedule_row list" where
  "rows_before rep = takeWhile (\<lambda>r. rs_id (sr_step r) \<noteq> rs_id (sr_step (rp_row rep))) (si_rows (rp_simulation rep))"

definition cascade_of :: "written_input \<Rightarrow> represented \<Rightarrow> cascade_input" where
  "cascade_of inp rep =
     \<lparr>cx_ahacAfter = sr_ahacAnnual (rp_row rep), cx_ahacBefore = Option.bind (si_row (wi_before inp)) sr_ahacAnnual,
      cx_bounds = wi_bounds inp, cx_groups = wi_groups inp, cx_fees = wi_fees inp, cx_reviewRow = rp_row rep,
      cx_rowsBefore = rows_before rep, cx_rowsThrough = rows_before rep @ [rp_row rep]\<rparr>"

definition writtenReview :: "written_input \<Rightarrow> written_review option" where
  "writtenReview inp =
     (case representStep (represent_of inp) of
        None \<Rightarrow> None
      | Some rep \<Rightarrow>
          (let cascade = computeCascade (cascade_of inp rep)
           in Some \<lparr>wr_arrears = arrearsFor (wi_scheduledFor inp) (wi_today inp)
                      (reviewChanges (wi_currentAnnual inp) (wi_target inp) cascade) (wi_reliefs inp),
                wr_cascade = cascade, wr_representation = rp_representation rep, wr_row = rp_row rep,
                wr_simulation = rp_simulation rep, wr_step = rp_step rep\<rparr>))"

definition ancillaryAnnual :: "cascade_row list \<Rightarrow> rat" where
  "ancillaryAnnual cascade = r2 (\<Sum>row\<leftarrow>cascade. ca_newAnnual row)"

record ancillary_change =
  an_current :: rat
  an_increase :: rat
  an_new :: rat

definition ancillaryChange :: "cascade_row list \<Rightarrow> ancillary_change" where
  "ancillaryChange cascade =
     (let current = r2 (\<Sum>row\<leftarrow>cascade. ca_currentAnnual row); after = ancillaryAnnual cascade
      in \<lparr>an_current = current, an_increase = r2 (after - current), an_new = after\<rparr>)"

end
