(* ===== verification/Review_Calc.thy ===== *)
theory Review_Calc
  imports Review_Receipt
begin

text \<open>
  The rent review calculation, \<open>src/rentReviewCalc.ts\<close>: the bounds on a factor, the sanity band, the review
  worked out, and what a stored calculation says. See \<open>Review_Receipt\<close> for the conventions.
\<close>

section \<open>The data\<close>

record calc_cpi =
  cc_current :: rat
  cc_previous :: rat
  cc_previousQuarter :: string
  cc_ratio :: rat
  cc_rawPercent :: rat
  cc_referenceBase :: string
  cc_referenceQuarter :: string
  cc_region :: string

datatype clamp = ClampCap | ClampFloor

record calc_bounds =
  cb_capPercent :: "rat option"
  cb_clampedBy :: "clamp option"
  cb_floorPercent :: "rat option"
  cb_ratchet :: bool
  cb_ratcheted :: bool

record sanity_band =
  sb_inBand :: bool
  sb_maxPercent :: rat
  sb_minPercent :: rat

record calc_override =
  co_ancillaryDifferenceAnnual :: "rat option"
  co_appliedPercent :: "rat option"
  co_arrears :: "arrears_line option"
  co_cascade :: "cascade_row list option"
  co_differenceAnnual :: rat
  co_newAnnual :: rat
  co_perMonth :: "rat option"
  co_perSqm :: "rat option"
  co_reason :: string

datatype override_check = CheckNotSignedOff | CheckOutOfBand | CheckRatchet

record calc_person =
  pe_name :: string
  pe_userId :: "int option"

record stored_override =
  so_at :: string
  so_by :: calc_person
  so_check :: override_check
  so_reason :: string

datatype lease_terms_result = OnLeaseTerms rat rat rat | LeaseTermsUnavailable
  \<comment> \<open>\<open>{ ancillaryAnnual, appliedPercent, newAnnual }\<close>\<close>

record review_calc =
  cl_appliedPercent :: rat
  cl_arrears :: "arrears_line option"
  cl_bounds :: "calc_bounds option"
  cl_cascade :: "cascade_row list"
  cl_computedAt :: string
  cl_computedBy :: calc_person
  cl_cpi :: "calc_cpi option"
  cl_currentAnnual :: rat
  cl_departures :: "string list option"
  cl_directorOverrides :: "stored_override list"
  cl_fixedPercent :: "rat option"
  cl_leaseTerms :: "lease_terms_result option"
  cl_manual :: "(string \<times> rat) option"
  cl_method :: calc_method
  cl_newAnnual :: rat
  cl_override :: "calc_override option"
  cl_perMonth :: rat
  cl_perSqm :: "rat option"
  cl_ratchetOverrideNeeded :: bool
  cl_sanity :: "sanity_band option"
  cl_scheduleVersion :: int

definition r6 :: "rat \<Rightarrow> rat" where
  "r6 n = of_int (js_round (n * 1000000)) / 1000000"

section \<open>The sanity band\<close>

definition DEFAULT_SANITY :: "rat \<times> rat" where "DEFAULT_SANITY = (-5, 15)"

text \<open>The settings as \<open>Number\<close> reads them, \<open>NaN\<close> when blank; the band is the least and the most percent.\<close>

definition read_percent :: "js_number \<Rightarrow> rat \<Rightarrow> rat" where
  "read_percent raw fallback = (case raw of Num n \<Rightarrow> if n \<ge> -100 \<and> n \<le> 100 then n else fallback | _ \<Rightarrow> fallback)"

definition sanityBandFromEnv :: "js_number \<Rightarrow> js_number \<Rightarrow> rat \<times> rat" where
  "sanityBandFromEnv rawMin rawMax =
     (let minPercent = read_percent rawMin (fst DEFAULT_SANITY); maxPercent = read_percent rawMax (snd DEFAULT_SANITY)
      in if minPercent \<le> maxPercent then (minPercent, maxPercent) else DEFAULT_SANITY)"

definition sanityOf :: "rat \<Rightarrow> rat \<times> rat \<Rightarrow> sanity_band" where
  "sanityOf appliedPercent band =
     \<lparr>sb_inBand = (appliedPercent \<ge> fst band \<and> appliedPercent \<le> snd band), sb_maxPercent = snd band, sb_minPercent = fst band\<rparr>"

section \<open>The pieces\<close>

definition boundFactor :: "rat \<Rightarrow> rat option \<Rightarrow> rat option \<Rightarrow> bool \<Rightarrow> clamp option \<times> rat \<times> bool" where
  "boundFactor ratio capPercent floorPercent ratchet =
     (let (f1, floored) = floor_factor floorPercent ratio; (f2, capped) = cap_factor capPercent f1;
          clampedBy = (if capped then Some ClampCap else if floored then Some ClampFloor else None)
      in if ratchet \<and> f2 < 1 then (clampedBy, 1, True) else (clampedBy, f2, False))"

datatype calc_refusal =
    BasisIncomplete | CpiBaseMismatch | EarlierReviewUnsettled | ManualRequired | NoCurrentRent | NotRepresentable | LeaseRatchet | StepSettled

definition provisionalRatchetExemption :: "string \<Rightarrow> ratchet_exemption" where
  "provisionalRatchetExemption at_time =
     \<lparr>rx_at = at_time, rx_byName = ''awaiting a director'',
      rx_reason = ''Below the lease's ratchet: awaiting a director's override for this review''\<rparr>"

definition unrepresentableRent :: "rat \<Rightarrow> rat \<Rightarrow> bool \<Rightarrow> calc_refusal" where
  "unrepresentableRent newAnnual currentAnnual leaseRatchet =
     (if newAnnual < currentAnnual \<and> leaseRatchet then LeaseRatchet else NotRepresentable)"

datatype calc_result =
    CalcDone review_calc
  | CalcIndexPending string "string list" string string string \<comment> \<open>expected, missing, previous and reference quarter, region\<close>
  | CalcRefused calc_refusal

record calc_input =
  kn_basis :: json_object
  kn_groups :: "carpark_group list"
  kn_computedAt :: string
  kn_computedBy :: calc_person
  kn_cpiRows :: "cpi_index_row list"
  kn_departures :: "string list"
  kn_fallbackAnnual :: rat
  kn_fallbackSqm :: rat
  kn_lease :: schedule_terms
  kn_manual :: "(string \<times> js_number) option"
  kn_method :: calc_method
  kn_fees :: "misc_fee list"
  kn_newStepId :: string
  kn_reliefs :: "rent_relief list"
  kn_reviewId :: string
  kn_sanity :: "rat \<times> rat"
  kn_scheduledFor :: string
  kn_scheduleVersion :: int
  kn_stepId :: "string option"
  kn_steps :: "rate_step list"
  kn_today :: string

record factor_plan =
  fp_bounds :: calc_bounds
  fp_cpi :: "calc_cpi option"
  fp_factor :: rat
  fp_fixedPercent :: "rat option"
  fp_natural :: rate_step

datatype factor_result = FactorPlanned factor_plan | FactorStopped calc_result

definition js_upper_latin :: "char \<Rightarrow> char" where
  "js_upper_latin c =
     (let n = (of_char c :: nat) in if (97 \<le> n \<and> n \<le> 122) \<or> (224 \<le> n \<and> n \<le> 254 \<and> n \<noteq> 247) then char_of (n - 32) else c)"

definition region_in :: "json_object \<Rightarrow> string option" where
  "region_in basis = map_option (map js_upper_latin) (text_of (obj_get basis ''region''))"

definition cpi_rule_named :: "string option \<Rightarrow> cpi_rule" where
  "cpi_rule_named v = (if v = Some ''latest_published_before_review'' then LatestPublished else QuarterBeforeReview)"

definition ratchet_in :: "json_object \<Rightarrow> bool" where
  "ratchet_in basis = (obj_get basis ''ratchet'' = Some (JBool True))"

definition latest_text :: "string list \<Rightarrow> string" where
  "latest_text xs = (if xs = [] then '''' else last (sort_by text_order xs))"

text \<open>When a quarter's index is not out: what is missing and when the last of it is expected.\<close>

definition index_pending :: "string \<Rightarrow> string \<Rightarrow> string \<Rightarrow> cpi_index_row option \<Rightarrow> cpi_index_row option \<Rightarrow> factor_result option" where
  "index_pending region reference previous current earlier =
     (let missing = (if current = None then [reference] else []) @ (if earlier = None then [previous] else [])
      in map_option (\<lambda>releases. FactorStopped (CalcIndexPending (latest_text releases) missing previous reference region))
           (those (map expectedRelease missing)))"

definition cpi_plan :: "calc_input \<Rightarrow> rate_step \<Rightarrow> string \<Rightarrow> string \<Rightarrow> string \<Rightarrow> string \<Rightarrow> cpi_index_row \<Rightarrow> cpi_index_row \<Rightarrow> factor_plan" where
  "cpi_plan inp base region reference previous indexBase current earlier =
     (let capPercent = number_in (obj_get (kn_basis inp) ''capPercent''); floorPercent = number_in (obj_get (kn_basis inp) ''floorPercent'');
          ratchet = ratchet_in (kn_basis inp); ratio = ci_value current / ci_value earlier;
          (clampedBy, factor, ratcheted) = boundFactor ratio capPercent floorPercent ratchet
      in \<lparr>fp_bounds = \<lparr>cb_capPercent = capPercent, cb_clampedBy = clampedBy, cb_floorPercent = floorPercent, cb_ratchet = ratchet,
            cb_ratcheted = ratcheted\<rparr>,
          fp_cpi = Some \<lparr>cc_current = ci_value current, cc_previous = ci_value earlier, cc_previousQuarter = previous, cc_ratio = r6 ratio,
            cc_rawPercent = r4 ((ratio - 1) * 100), cc_referenceBase = indexBase, cc_referenceQuarter = reference, cc_region = region\<rparr>,
          fp_factor = factor, fp_fixedPercent = None,
          fp_natural = appliedStep base (kn_reviewId inp)
            \<lparr>av_cpiValue = Some (ci_value current), av_cpiValuePrev = Some (ci_value earlier), av_method = MCpi,
             av_ratePercent = r4 ((factor - 1) * 100)\<rparr>\<rparr>)"

text \<open>The index pair, when both quarters are out on one known base.\<close>

definition cpi_pair :: "cpi_index_row \<Rightarrow> cpi_index_row \<Rightarrow> string option" where
  "cpi_pair current earlier =
     (case ci_base current of
        Some b \<Rightarrow> if ci_base earlier = Some b \<and> ci_value current > 0 \<and> ci_value earlier > 0 then Some b else None
      | None \<Rightarrow> None)"

definition cpiFactor :: "calc_input \<Rightarrow> rate_step \<Rightarrow> factor_result option" where
  "cpiFactor inp base =
     (case region_in (kn_basis inp) of
        None \<Rightarrow> Some (FactorStopped (CalcRefused BasisIncomplete))
      | Some region \<Rightarrow>
          if region \<noteq> ''AUS'' \<and> region \<noteq> ''DARWIN'' then Some (FactorStopped (CalcRefused BasisIncomplete))
          else (case referenceQuarterFor (cpi_rule_named (text_of (obj_get (kn_basis inp) ''referenceQuarterRule''))) (kn_scheduledFor inp) of
                  None \<Rightarrow> None
                | Some reference \<Rightarrow>
                    (case previousQuarter reference (number_in (obj_get (kn_basis inp) ''intervalMonths'')) of
                       None \<Rightarrow> None
                     | Some previous \<Rightarrow>
                         (let current = find (\<lambda>row. ci_period row = reference) (kn_cpiRows inp);
                              earlier = find (\<lambda>row. ci_period row = previous) (kn_cpiRows inp)
                          in (case (current, earlier) of
                                (Some c, Some e) \<Rightarrow>
                                  (case cpi_pair c e of
                                     None \<Rightarrow> Some (FactorStopped (CalcRefused CpiBaseMismatch))
                                   | Some indexBase \<Rightarrow> Some (FactorPlanned (cpi_plan inp base region reference previous indexBase c e)))
                              | _ \<Rightarrow> index_pending region reference previous current earlier)))))"

definition fixedFactor :: "calc_input \<Rightarrow> rate_step \<Rightarrow> factor_result" where
  "fixedFactor inp base =
     (case number_in (obj_get (kn_basis inp) ''fixedPercent'') of
        None \<Rightarrow> FactorStopped (CalcRefused BasisIncomplete)
      | Some fixedPercent \<Rightarrow>
          (let ratchet = ratchet_in (kn_basis inp); (clampedBy, factor, ratcheted) = boundFactor (1 + fixedPercent / 100) None None ratchet
           in FactorPlanned
                \<lparr>fp_bounds = \<lparr>cb_capPercent = None, cb_clampedBy = None, cb_floorPercent = None, cb_ratchet = ratchet, cb_ratcheted = ratcheted\<rparr>,
                 fp_cpi = None, fp_factor = factor, fp_fixedPercent = Some fixedPercent,
                 fp_natural = appliedStep base (kn_reviewId inp)
                   \<lparr>av_cpiValue = None, av_cpiValuePrev = None, av_method = MFixed, av_ratePercent = fixedPercent\<rparr>\<rparr>))"

section \<open>The review worked out\<close>

definition EXPLANATION_MAX_CHARS :: nat where "EXPLANATION_MAX_CHARS = 2000"

definition calc_context :: "calc_input \<Rightarrow> schedule_context" where
  "calc_context inp =
     \<lparr>sc_fallbackAnnual = kn_fallbackAnnual inp, sc_fallbackSqm = kn_fallbackSqm inp, sc_lease = kn_lease inp, sc_steps = kn_steps inp\<rparr>"

definition calc_target :: "calc_input \<Rightarrow> review_target" where
  "calc_target inp =
     \<lparr>rt_method = method_kind_of (kn_method inp), rt_newStepId = kn_newStepId inp, rt_reviewId = kn_reviewId inp,
      rt_scheduledFor = kn_scheduledFor inp, rt_stepId = kn_stepId inp\<rparr>"

text \<open>The new rent keyed by hand, with its explanation.\<close>

definition manual_rent :: "(string \<times> js_number) option \<Rightarrow> (string \<times> rat) option" where
  "manual_rent keyed =
     (case keyed of
        Some (explanation, Num n) \<Rightarrow>
          if n > 0 \<and> js_trim explanation \<noteq> '''' \<and> length (js_trim explanation) \<le> EXPLANATION_MAX_CHARS
          then Some (js_trim explanation, r2 n) else None
      | _ \<Rightarrow> None)"

text \<open>The rent of a plan: the engine's own figure where it agrees with the plan's factor.\<close>

definition planned_rent :: "schedule_context \<Rightarrow> factor_plan \<Rightarrow> rat \<Rightarrow> rat" where
  "planned_rent ctx plan currentAnnual =
     (case si_row (simulate ctx (fp_natural plan)) of
        Some row \<Rightarrow>
          (case sr_factor row of
             Some f \<Rightarrow> if \<not> sr_pending row \<and> \<bar>f - fp_factor plan\<bar> < 1 / 10 ^ 12 then sr_annual row else r2 (currentAnnual * fp_factor plan)
           | None \<Rightarrow> r2 (currentAnnual * fp_factor plan))
      | None \<Rightarrow> r2 (currentAnnual * fp_factor plan))"

definition calc_written_input :: "calc_input \<Rightarrow> rate_step \<Rightarrow> simulation \<Rightarrow> rat \<Rightarrow> factor_plan option \<Rightarrow> rat \<Rightarrow> rat \<Rightarrow> written_input" where
  "calc_written_input inp base before currentAnnual plan newAnnual appliedPercent =
     \<lparr>wi_base = base, wi_before = before,
      wi_bounds = map_option (\<lambda>p. (cb_capPercent (fp_bounds p), cb_floorPercent (fp_bounds p))) plan,
      wi_groups = kn_groups inp, wi_context = calc_context inp,
      wi_cpi = Option.bind plan (\<lambda>p. map_option (\<lambda>c. (cc_current c, cc_previous c)) (fp_cpi p)),
      wi_currentAnnual = currentAnnual, wi_departs = (kn_departures inp \<noteq> []), wi_method = kn_method inp, wi_fees = kn_fees inp,
      wi_naturalRate = (if kn_method inp = CalcFixed
                        then (case Option.bind plan fp_fixedPercent of Some p \<Rightarrow> p | None \<Rightarrow> 0) else appliedPercent),
      wi_exempt = (if st_ratchet (kn_lease inp) \<and> newAnnual < currentAnnual then Some (provisionalRatchetExemption (kn_computedAt inp)) else None),
      wi_reliefs = kn_reliefs inp, wi_reviewId = kn_reviewId inp, wi_scheduledFor = kn_scheduledFor inp, wi_target = newAnnual,
      wi_today = kn_today inp\<rparr>"

definition finish_calc ::
  "calc_input \<Rightarrow> rate_step \<Rightarrow> simulation \<Rightarrow> schedule_row \<Rightarrow> factor_plan option \<Rightarrow> (string \<times> rat) option \<Rightarrow> rat \<Rightarrow> rat \<Rightarrow> calc_result" where
  "finish_calc inp base before row plan manual factor newAnnual =
     (let currentAnnual = sr_annual row; area = (if sr_areaMissing row then 0 else sr_sqm row);
          appliedPercent = (if kn_method inp = CalcOther then r4 ((newAnnual / currentAnnual - 1) * 100) else r4 ((factor - 1) * 100))
      in (case writtenReview (calc_written_input inp base before currentAnnual plan newAnnual appliedPercent) of
            None \<Rightarrow> CalcRefused (unrepresentableRent newAnnual currentAnnual False)
          | Some written \<Rightarrow>
              CalcDone
                \<lparr>cl_appliedPercent = appliedPercent, cl_arrears = wr_arrears written, cl_bounds = map_option fp_bounds plan,
                 cl_cascade = wr_cascade written, cl_computedAt = kn_computedAt inp, cl_computedBy = kn_computedBy inp,
                 cl_cpi = Option.bind plan fp_cpi, cl_currentAnnual = currentAnnual, cl_departures = Some (kn_departures inp),
                 cl_directorOverrides = [], cl_fixedPercent = Option.bind plan fp_fixedPercent, cl_leaseTerms = None, cl_manual = manual,
                 cl_method = kn_method inp, cl_newAnnual = newAnnual, cl_override = None, cl_perMonth = r2 (newAnnual / 12),
                 cl_perSqm = (if area > 0 then Some (r2 (newAnnual / area)) else None),
                 cl_ratchetOverrideNeeded = (st_ratchet (kn_lease inp) \<and> newAnnual < currentAnnual),
                 cl_sanity = Some (sanityOf appliedPercent (kn_sanity inp)), cl_scheduleVersion = kn_scheduleVersion inp\<rparr>))"

definition work_out :: "calc_input \<Rightarrow> rate_step \<Rightarrow> simulation \<Rightarrow> schedule_row \<Rightarrow> calc_result option" where
  "work_out inp base before row =
     (if kn_method inp = CalcOther then
        Some (case manual_rent (kn_manual inp) of
                None \<Rightarrow> CalcRefused ManualRequired
              | Some (explanation, newAnnual) \<Rightarrow>
                  finish_calc inp base before row None (Some (explanation, newAnnual)) (newAnnual / sr_annual row) newAnnual)
      else (case (if kn_method inp = CalcCpi then cpiFactor inp base else Some (fixedFactor inp base)) of
              None \<Rightarrow> None
            | Some (FactorStopped result) \<Rightarrow> Some result
            | Some (FactorPlanned plan) \<Rightarrow>
                Some (finish_calc inp base before row (Some plan) None (fp_factor plan) (planned_rent (calc_context inp) plan (sr_annual row)))))"

definition calculateReview :: "calc_input \<Rightarrow> calc_result option" where
  "calculateReview inp =
     (case reviewRow (kn_steps inp) (calc_target inp) of
        RowSettled e \<Rightarrow> Some (CalcRefused StepSettled)
      | RowPlaced base existing \<Rightarrow>
          (let before = simulate (calc_context inp) (waivedStep base (kn_reviewId inp))
           in (case si_row before of
                 None \<Rightarrow> Some (CalcRefused EarlierReviewUnsettled)
               | Some row \<Rightarrow>
                   if sr_pending row then Some (CalcRefused EarlierReviewUnsettled)
                   else if \<not> sr_annual row > 0 then Some (CalcRefused NoCurrentRent)
                   else work_out inp base before row)))"

section \<open>Reading a stored calculation\<close>

definition chosenFigures :: "review_calc \<Rightarrow> rat \<times> rat \<times> rat" where
  "chosenFigures c =
     (case cl_override c of
        None \<Rightarrow> (cl_appliedPercent c, cl_currentAnnual c, cl_newAnnual c)
      | Some ov \<Rightarrow>
          ((case co_appliedPercent ov of Some p \<Rightarrow> p | None \<Rightarrow> r4 ((co_newAnnual ov / cl_currentAnnual c - 1) * 100)),
           cl_currentAnnual c, co_newAnnual ov))"

definition chosen_percent :: "review_calc \<Rightarrow> rat" where "chosen_percent c = fst (chosenFigures c)"
definition chosen_annual :: "review_calc \<Rightarrow> rat" where "chosen_annual c = snd (snd (chosenFigures c))"

definition isReduction :: "review_calc \<Rightarrow> bool" where
  "isReduction c \<longleftrightarrow> chosen_annual c < cl_currentAnnual c"

datatype approval_reason = ReasonOverride | ReasonOutOfBand | ReasonManual | ReasonDeparts | ReasonReduction | ReasonRatchet

definition approvalReasonsOf :: "review_calc \<Rightarrow> approval_reason list" where
  "approvalReasonsOf c =
     (if cl_override c \<noteq> None then [ReasonOverride] else []) @
     (case cl_sanity c of Some s \<Rightarrow> if \<not> sb_inBand s then [ReasonOutOfBand] else [] | None \<Rightarrow> []) @
     (if cl_method c = CalcOther then [ReasonManual] else []) @
     (case cl_departures c of Some (d # ds) \<Rightarrow> [ReasonDeparts] | _ \<Rightarrow> []) @
     (if isReduction c then [ReasonReduction] else []) @
     (if cl_ratchetOverrideNeeded c then [ReasonRatchet] else [])"

definition appliedCascade :: "review_calc option \<Rightarrow> cascade_row list" where
  "appliedCascade calc =
     (case calc of
        None \<Rightarrow> []
      | Some c \<Rightarrow> (case Option.bind (cl_override c) co_cascade of Some rows \<Rightarrow> rows | None \<Rightarrow> cl_cascade c))"

section \<open>Is it the lease?\<close>

record lease_terms =
  ls_cpiCapPercent :: "rat option"
  ls_cpiFloorPercent :: "rat option"
  ls_cpiReferenceRule :: "string option"
  ls_cpiRegion :: "string option"
  ls_fixedPercent :: "rat option"
  ls_reviewIntervalMonths :: "rat option"
  ls_reviewRatchet :: bool

definition sameNumber :: "rat option \<Rightarrow> rat option \<Rightarrow> bool" where
  "sameNumber a b =
     (case a of
        None \<Rightarrow> b = None
      | Some x \<Rightarrow> (case b of Some y \<Rightarrow> \<bar>x - y\<bar> < 1 / 10 ^ 9 | None \<Rightarrow> False))"

definition lease_region :: "lease_terms \<Rightarrow> string option" where
  "lease_region lease =
     (case ls_cpiRegion lease of
        None \<Rightarrow> None
      | Some r \<Rightarrow> (let t = map js_upper_latin (js_trim r) in if t = '''' then None else Some t))"

definition json_number :: "rat option \<Rightarrow> json" where
  "json_number v = (case v of Some n \<Rightarrow> JNum (Num n) | None \<Rightarrow> JNull)"

definition leaseBasis :: "calc_method \<Rightarrow> lease_terms \<Rightarrow> string \<Rightarrow> json_object" where
  "leaseBasis method lease reviewDate =
     (let common = [(''intervalMonths'', JNum (Num (case ls_reviewIntervalMonths lease of Some n \<Rightarrow> n | None \<Rightarrow> 12))),
                    (''method'', JStr (if method = CalcFixed then ''fixed'' else ''cpi'')), (''ratchet'', JBool (ls_reviewRatchet lease)),
                    (''reviewDate'', JStr reviewDate)]
      in if method = CalcFixed then common @ [(''fixedPercent'', json_number (ls_fixedPercent lease))]
         else common @
           [(''capPercent'', json_number (ls_cpiCapPercent lease)), (''floorPercent'', json_number (ls_cpiFloorPercent lease)),
            (''referenceQuarterRule'',
               JStr (if cpi_rule_named (ls_cpiReferenceRule lease) = LatestPublished then ''latest_published_before_review''
                     else ''quarter_before_review_date'')),
            (''region'', (case lease_region lease of Some r \<Rightarrow> JStr r | None \<Rightarrow> JNull))])"

definition leaseDepartures :: "calc_method \<Rightarrow> json_object \<Rightarrow> lease_terms \<Rightarrow> string list" where
  "leaseDepartures method basis lease =
     (let g = obj_get basis; twelve = (\<lambda>v. or_default v (Some 12))
      in (if ratchet_in basis \<noteq> ls_reviewRatchet lease then [''ratchet''] else []) @
         (if method = CalcCpi then
            (if \<not> sameNumber (number_in (g ''capPercent'')) (ls_cpiCapPercent lease) then [''capPercent''] else []) @
            (if \<not> sameNumber (number_in (g ''floorPercent'')) (ls_cpiFloorPercent lease) then [''floorPercent''] else []) @
            (if region_in basis \<noteq> lease_region lease then [''region''] else []) @
            (if \<not> sameNumber (twelve (number_in (g ''intervalMonths''))) (twelve (ls_reviewIntervalMonths lease)) then [''intervalMonths''] else []) @
            (if cpi_rule_named (text_of (g ''referenceQuarterRule'')) \<noteq> cpi_rule_named (ls_cpiReferenceRule lease)
             then [''referenceQuarterRule''] else [])
          else []) @
         (if method = CalcFixed \<and> \<not> sameNumber (number_in (g ''fixedPercent'')) (ls_fixedPercent lease) then [''fixedPercent''] else []))"

section \<open>A stored calculation on the schedule as it stands\<close>

record review_schedule =
  vs_groups :: "carpark_group list"
  vs_context :: schedule_context
  vs_fees :: "misc_fee list"
  vs_reliefs :: "rent_relief list"

record stored_target =
  sg_calc :: review_calc
  sg_departs :: bool
  sg_newStepId :: string
  sg_exempt :: "ratchet_exemption option"
  sg_reviewId :: string
  sg_schedule :: review_schedule
  sg_scheduledFor :: string
  sg_stepId :: "string option"
  sg_target :: rat
  sg_today :: string

datatype from_calc = Written written_review "rate_step option" | CalcStale | CalcStepSettled | Unrepresentable

definition stored_review_target :: "stored_target \<Rightarrow> review_target" where
  "stored_review_target inp =
     \<lparr>rt_method = method_kind_of (cl_method (sg_calc inp)), rt_newStepId = sg_newStepId inp, rt_reviewId = sg_reviewId inp,
      rt_scheduledFor = sg_scheduledFor inp, rt_stepId = sg_stepId inp\<rparr>"

definition stored_written_input :: "stored_target \<Rightarrow> rate_step \<Rightarrow> simulation \<Rightarrow> written_input" where
  "stored_written_input inp base before =
     (let calc = sg_calc inp; schedule = sg_schedule inp
      in \<lparr>wi_base = base, wi_before = before, wi_bounds = map_option (\<lambda>b. (cb_capPercent b, cb_floorPercent b)) (cl_bounds calc),
          wi_groups = vs_groups schedule, wi_context = vs_context schedule,
          wi_cpi = map_option (\<lambda>c. (cc_current c, cc_previous c)) (cl_cpi calc), wi_currentAnnual = cl_currentAnnual calc,
          wi_departs = sg_departs inp, wi_method = cl_method calc, wi_fees = vs_fees schedule,
          wi_naturalRate = (if cl_method calc = CalcFixed then (case cl_fixedPercent calc of Some p \<Rightarrow> p | None \<Rightarrow> 0) else cl_appliedPercent calc),
          wi_exempt = sg_exempt inp, wi_reliefs = vs_reliefs schedule, wi_reviewId = sg_reviewId inp,
          wi_scheduledFor = sg_scheduledFor inp, wi_target = sg_target inp, wi_today = sg_today inp\<rparr>)"

definition writtenFromCalc :: "stored_target \<Rightarrow> from_calc" where
  "writtenFromCalc inp =
     (case reviewRow (sc_steps (vs_context (sg_schedule inp))) (stored_review_target inp) of
        RowSettled e \<Rightarrow> CalcStepSettled
      | RowPlaced base existing \<Rightarrow>
          (let before = simulate (vs_context (sg_schedule inp)) (waivedStep base (sg_reviewId inp))
           in (case si_row before of
                 None \<Rightarrow> CalcStale
               | Some row \<Rightarrow>
                   if sr_pending row \<or> sr_annual row \<noteq> cl_currentAnnual (sg_calc inp) then CalcStale
                   else (case writtenReview (stored_written_input inp base before) of
                           None \<Rightarrow> Unrepresentable
                         | Some written \<Rightarrow> Written written existing))))"

end
