(* ===== verification/Review_Cascade_Correct.thy ===== *)
theory Review_Cascade_Correct
  imports Review_Cascade Schedule_Charges_Correct
begin

text \<open>
  What holds of the charges that follow the rent: what the validators let through never gives an amount below
  nothing, the stores are the maps from ids they stand for, a review's receipt adds up to what the charge timeline
  charges from its row, and a charge without a rule of its own moves by the rent's percentage.
\<close>

section \<open>Validated items\<close>

definition sound_rate_step :: "ancillary_step \<Rightarrow> bool" where
  "sound_rate_step s \<longleftrightarrow>
     nonneg (as_newAmount s) \<and> positive (as_cpiValue s) \<and> positive (as_cpiValuePrev s)"

definition sound_steps :: "ancillary_step list option \<Rightarrow> bool" where
  "sound_steps steps \<longleftrightarrow> (\<forall>l. steps = Some l \<longrightarrow> list_all sound_rate_step l)"

lemma first_failure_None: "first_failure checks = None \<longleftrightarrow> list_all fst checks"
  by (induction checks rule: first_failure.induct) auto

lemma validateRateStep_sound:
  assumes "validateRateStep key raw = Inr s"
  shows "sound_rate_step s"
proof -
  from assms obtain obj where obj: "raw = JObj obj" "first_failure (rate_step_checks key obj) = None" "s = rate_step_of key obj"
    by (auto simp: validateRateStep_def split: json.splits option.splits)
  then have "list_all fst (rate_step_checks key obj)" by (simp only: first_failure_None)
  with obj(3) show ?thesis
    by (auto simp: rate_step_checks_def rate_step_of_def Let_def sound_rate_step_def nonneg_def positive_def
        absent_or_def holds_in_def number_in_absent split: option.splits)
qed

lemma validate_rate_steps_sound:
  "(\<And>raw s. check raw = Inr s \<Longrightarrow> sound_rate_step s) \<Longrightarrow> validate_rate_steps check i raws = Inr steps \<Longrightarrow> list_all sound_rate_step steps"
  by (induction check i raws arbitrary: steps rule: validate_rate_steps.induct) (auto simp: and_then_Inr_iff split: sum.splits)

lemma rate_steps_in_sound:
  "(\<And>raw s. check raw = Inr s \<Longrightarrow> sound_rate_step s) \<Longrightarrow> rate_steps_in check v = Inr steps \<Longrightarrow> sound_steps steps"
  using validate_rate_steps_sound [of check]
  by (auto simp: rate_steps_in_def sound_steps_def and_then_Inr_iff split: option.splits json.splits)

definition sound_group :: "carpark_group \<Rightarrow> bool" where
  "sound_group g \<longleftrightarrow> 0 \<le> kg_baseMonthlyRate g \<and> sound_steps (kg_rateSteps g)"

definition sound_fee :: "misc_fee \<Rightarrow> bool" where
  "sound_fee f \<longleftrightarrow> 0 \<le> mf_baseAmount f \<and> sound_steps (mf_rateSteps f)"

lemma validated_group_sound:
  assumes "validateCarparkScheduleGroup raw = Inr g"
  shows "sound_group g"
proof -
  from assms obtain obj steps where obj: "raw = JObj obj" "first_failure (group_checks obj) = None"
    "rate_steps_in validateCarparkRateStep (obj_get obj ''rateSteps'') = Inr steps"
    and g: "kg_baseMonthlyRate g = the (number_in (obj_get obj ''baseMonthlyRate''))" "kg_rateSteps g = steps"
    by (auto simp: validateCarparkScheduleGroup_def Let_def and_then_Inr_iff split: json.splits option.splits)
  have "sound_steps steps"
    using obj(3) by (rule rate_steps_in_sound [rotated]) (simp add: validateCarparkRateStep_def validateRateStep_sound)
  moreover have "holds_in (\<lambda>n. n \<ge> 0) (obj_get obj ''baseMonthlyRate'')"
    using obj(2) [unfolded first_failure_None] by (simp add: group_checks_def Let_def)
  ultimately show ?thesis by (simp add: sound_group_def g holds_in_def split: option.splits)
qed

lemma validated_fee_sound:
  assumes "validateMiscFee raw = Inr f"
  shows "sound_fee f"
proof -
  from assms obtain obj steps where obj: "raw = JObj obj" "first_failure (fee_checks obj) = None"
    "rate_steps_in validateMiscFeeRateStep (obj_get obj ''rateSteps'') = Inr steps"
    and f: "mf_baseAmount f = the (number_in (obj_get obj ''baseAmount''))" "mf_rateSteps f = steps"
    by (auto simp: validateMiscFee_def Let_def and_then_Inr_iff split: json.splits option.splits)
  have "sound_steps steps"
    using obj(3) by (rule rate_steps_in_sound [rotated]) (simp add: validateMiscFeeRateStep_def validateRateStep_sound)
  moreover have "holds_in (\<lambda>n. n \<ge> 0) (obj_get obj ''baseAmount'')"
    using obj(2) [unfolded first_failure_None] by (simp add: fee_checks_def Let_def)
  ultimately show ?thesis by (simp add: sound_fee_def f holds_in_def split: option.splits)
qed

section \<open>Amounts are never negative\<close>

text \<open>What the validators do not ask for: an override's own percentage takes no more than everything away.\<close>

definition percents_ok :: "ancillary_step list option \<Rightarrow> bool" where
  "percents_ok steps \<longleftrightarrow> (\<forall>l s p. steps = Some l \<longrightarrow> s \<in> set l \<longrightarrow> as_ratePercent s = Some p \<longrightarrow> -100 \<le> p)"

definition factor_sound :: "schedule_row \<Rightarrow> bool" where
  "factor_sound row \<longleftrightarrow> nonneg (sr_factor row) \<and> positive (sr_cpiBaseline row)"

lemma schedule_step_factor:
  assumes "engine_ok st" "valid_step step" "cap_ok terms"
  shows "factor_sound (snd (schedule_step terms fa st step))"
proof -
  have b: "positive (or_default (rs_cpiValuePrev step) (en_prevCpi st))"
    using assms by (simp add: valid_step_def engine_ok_def positive_or_default)
  with outcome_nonneg [OF assms(2) b assms(3)] show ?thesis
    by (auto simp: schedule_step_def Let_def emit_def factor_sound_def nonneg_def split: option.splits)
qed

lemma computed_row_step:
  assumes "\<And>s. s \<in> set steps \<Longrightarrow> valid_step s" "0 \<le> annual" "cap_ok terms" "row \<in> set (computeScheduleRows steps annual sqm terms)"
  shows "\<exists>st step fa. engine_ok st \<and> step \<in> set steps \<and> row = snd (schedule_step terms fa st step)"
proof -
  define fa where "fa = (if sqm > 0 then sqm else 0)"
  let ?xs = "sortSteps steps"
  define st where "st i = state_at terms fa (engine_start annual) ?xs i" for i
  have valid: "s \<in> set ?xs \<Longrightarrow> valid_step s" for s using assms(1) by (simp add: sortSteps_def)
  from assms(4) obtain i where i: "i < length ?xs" "row = computeScheduleRows steps annual sqm terms ! i"
    by (auto simp: in_set_conv_nth sortSteps_def)
  then have "row = snd (schedule_step terms fa (st i) (?xs ! i))" by (simp add: computeScheduleRows_nth st_def fa_def sortSteps_def)
  moreover have "engine_ok (st i)" unfolding st_def using assms(2,3) valid i(1) by (intro state_at_ok) (auto simp: engine_start_ok)
  moreover have "?xs ! i \<in> set steps" using nth_mem [OF i(1)] by (simp add: sortSteps_def)
  ultimately show ?thesis by blast
qed

lemma computed_factor_sound:
  assumes "\<And>s. s \<in> set steps \<Longrightarrow> valid_step s" "0 \<le> annual" "cap_ok terms" "row \<in> set (computeScheduleRows steps annual sqm terms)"
  shows "factor_sound row"
  using computed_row_step [OF assms] schedule_step_factor assms(1,3) by blast

lemma overrideFor_mem: "overrideFor row steps = Some s \<Longrightarrow> \<exists>l. steps = Some l \<and> s \<in> set l"
proof -
  assume a: "overrideFor row steps = Some s"
  let ?P = "\<lambda>s. js_le (rs_from (sr_step row)) (as_from s) \<and> (case rs_to (sr_step row) of None \<Rightarrow> True | Some t \<Rightarrow> js_less (as_from s) t)"
  obtain l where l: "steps = Some l" using a by (cases steps) (auto simp: overrideFor_def Let_def)
  then obtain rest where "sort_by (\<lambda>a b. text_order (as_from b) (as_from a)) (filter ?P l) = s # rest"
    using a by (auto simp: overrideFor_def Let_def split: list.splits)
  then have "s \<in> set (sort_by (\<lambda>a b. text_order (as_from b) (as_from a)) (filter ?P l))" by simp
  then show ?thesis using l by (simp only: set_sort_by set_filter) simp
qed

lemma override_sound:
  assumes "overrideFor row steps = Some s" "sound_steps steps" "percents_ok steps" "factor_sound row"
  shows "nonneg (as_newAmount s)" "own_cpi row s = Some (v, b) \<Longrightarrow> 0 \<le> v / b" "as_ratePercent s = Some p \<Longrightarrow> 0 \<le> 1 + p / 100"
proof -
  from overrideFor_mem [OF assms(1)] assms(2) have s: "sound_rate_step s" by (auto simp: sound_steps_def list_all_iff)
  then show "nonneg (as_newAmount s)" by (simp add: sound_rate_step_def)
  have "positive (or_default (as_cpiValuePrev s) (sr_cpiBaseline row))"
    using s assms(4) by (simp add: sound_rate_step_def factor_sound_def positive_or_default)
  then show "own_cpi row s = Some (v, b) \<Longrightarrow> 0 \<le> v / b"
    using s by (auto simp: own_cpi_def sound_rate_step_def positive_def split: option.splits method_kind.splits)
  show "as_ratePercent s = Some p \<Longrightarrow> 0 \<le> 1 + p / 100"
    using overrideFor_mem [OF assms(1)] assms(3) by (force simp: percents_ok_def field_simps)
qed

lemma follow_rent_nonneg: "factor_sound row \<Longrightarrow> 0 \<le> r \<Longrightarrow> 0 \<le> follow_rent row r"
  by (auto simp: follow_rent_def row_factor_def factor_sound_def nonneg_def split: option.splits)

lemma carpark_row_nonneg:
  assumes "sound_group g" "percents_ok (kg_rateSteps g)" "factor_sound row" "0 \<le> r"
  shows "0 \<le> carpark_row g row r"
proof (cases "overrideFor row (kg_rateSteps g)")
  case None
  then show ?thesis using assms by (simp add: carpark_row_def follow_rent_nonneg)
next
  case (Some s)
  note o = override_sound [OF Some _ assms(2,3)]
  show ?thesis using assms o follow_rent_nonneg [OF assms(3,4)]
    by (auto simp: carpark_row_def Some sound_group_def nonneg_def simp del: times_divide_eq_right intro!: r2_nonneg mult_nonneg_nonneg
        split: option.splits)
qed

lemma fee_row_nonneg:
  assumes "sound_fee f" "percents_ok (mf_rateSteps f)" "factor_sound row" "0 \<le> r"
  shows "0 \<le> fee_row f row r"
proof (cases "overrideFor row (mf_rateSteps f)")
  case None
  then show ?thesis using assms by (auto simp: fee_row_def factor_sound_def nonneg_def split: option.splits)
next
  case (Some s)
  note o = override_sound [OF Some _ assms(2,3)]
  show ?thesis using assms o
    by (auto simp: fee_row_def Some sound_fee_def nonneg_def simp del: times_divide_eq_right intro!: mult_nonneg_nonneg split: option.splits)
qed

lemma carpark_from_nonneg:
  "sound_group g \<Longrightarrow> percents_ok (kg_rateSteps g) \<Longrightarrow> list_all factor_sound rows \<Longrightarrow> nonneg running \<Longrightarrow>
   nonneg (carpark_from g running rows)"
  by (induction g running rows rule: carpark_from.induct) (auto simp: nonneg_def carpark_row_nonneg sound_group_def split: if_splits)

lemma fee_from_nonneg:
  "sound_fee f \<Longrightarrow> percents_ok (mf_rateSteps f) \<Longrightarrow> list_all factor_sound rows \<Longrightarrow> nonneg running \<Longrightarrow> nonneg (fee_from f running rows)"
  by (induction f running rows rule: fee_from.induct) (auto simp: nonneg_def fee_row_nonneg sound_fee_def split: if_splits option.splits)

section \<open>Sums in cents\<close>

definition in_cents :: "rat \<Rightarrow> bool" where
  "in_cents x \<longleftrightarrow> r2 x = x"

lemma in_cents_iff: "in_cents x \<longleftrightarrow> (\<exists>k. x = of_int k / 100)"
proof
  assume "in_cents x"
  then show "\<exists>k. x = of_int k / 100" unfolding in_cents_def r2_def by metis
next
  assume "\<exists>k. x = of_int k / 100"
  then obtain k where k: "x = of_int k / 100" by blast
  have "x * 100 = of_int k" by (simp add: k)
  then show "in_cents x" by (simp add: in_cents_def r2_def k)
qed

lemma in_cents_add: "in_cents a \<Longrightarrow> in_cents b \<Longrightarrow> in_cents (a + b)"
  unfolding in_cents_iff by (metis add_divide_distrib of_int_add)

lemma in_cents_0 [simp]: "in_cents 0"
  unfolding in_cents_iff by (rule exI [of _ 0]) simp

lemma in_cents_r2 [simp]: "in_cents (r2 x)"
  by (simp add: in_cents_def)

lemma in_cents_sum: "list_all in_cents xs \<Longrightarrow> in_cents (sum_list xs)"
  by (induction xs) (auto intro: in_cents_add)

text \<open>An absent total is nothing owed.\<close>

definition owed :: "rat option \<Rightarrow> rat" where
  "owed t = (case t of Some n \<Rightarrow> n | None \<Rightarrow> 0)"

lemma owed_simps [simp]: "owed None = 0" "owed (Some n) = n"
  by (simp_all add: owed_def)

lemma foldl_add_annual:
  "list_all in_cents xs \<Longrightarrow> in_cents (owed acc) \<Longrightarrow> owed (foldl add_annual acc xs) = owed acc + sum_list xs"
proof (induction xs arbitrary: acc)
  case (Cons x xs)
  have "add_annual acc x = Some (owed acc + x)"
    using Cons.prems in_cents_add [of "owed acc" x] by (simp add: add_annual_def owed_def in_cents_def)
  with Cons show ?case by (simp add: in_cents_add)
qed simp

lemma annual_total: "list_all in_cents xs \<Longrightarrow> owed (foldl add_annual None xs) = sum_list xs"
  by (simp add: foldl_add_annual)

lemma sum_map_filter: "sum_list (List.map_filter f xs) = sum_list (map (\<lambda>x. owed (f x)) xs)"
  by (induction xs) (simp_all split: option.splits)

lemma carpark_annual_cents: "list_all in_cents (List.map_filter (carpark_annual rows) gs)"
  by (induction gs) (auto simp: carpark_annual_def split: option.splits)

lemma fee_annual_cents: "list_all in_cents (List.map_filter (fee_annual rows) fs)"
  by (induction fs) (auto simp: fee_annual_def split: option.splits)

lemma ancillary_totals:
  "owed (ra_carparks (ancillaries_through rows gs fs)) = (\<Sum>g\<leftarrow>gs. owed (carpark_annual rows g))"
  "owed (ra_miscFees (ancillaries_through rows gs fs)) = (\<Sum>f\<leftarrow>fs. owed (fee_annual rows f))"
  by (simp_all add: ancillaries_through_def annual_total carpark_annual_cents fee_annual_cents sum_map_filter)

section \<open>One row more\<close>

lemma carpark_from_append: "carpark_from g running (xs @ ys) = carpark_from g (carpark_from g running xs) ys"
  by (induction g running xs rule: carpark_from.induct) auto

lemma carpark_running_started: "carparkRunning before g = Some r \<Longrightarrow> carparkRunning (before @ [row]) g = Some (carpark_row g row r)"
  by (simp add: carparkRunning_def carpark_from_append)

lemma fee_from_started:
  "fee_from f running xs = Some r \<Longrightarrow>
   fee_from f running (xs @ [row]) = (if fee_ended f (rs_from (sr_step row)) then None else Some (fee_row f row r))"
  by (induction f running xs rule: fee_from.induct) (auto split: if_splits)

lemma fee_running_started:
  "miscFeeRunning before f = Some r \<Longrightarrow>
   miscFeeRunning (before @ [row]) f = (if fee_ended f (rs_from (sr_step row)) then None else Some (fee_row f row r))"
  by (simp add: miscFeeRunning_def fee_from_started)

section \<open>The receipt and the timeline\<close>

lemma ancillariesByRow_nth: "i < length rows \<Longrightarrow> ancillariesByRow rows gs fs ! i = ancillaries_through (take (i + 1) rows) gs fs"
  by (simp add: ancillariesByRow_def)

lemma filter_map_filter:
  "(\<And>x y. f x = Some y \<Longrightarrow> P y = b) \<Longrightarrow> filter P (List.map_filter f xs) = (if b then List.map_filter f xs else [])"
  by (induction xs) (auto split: option.splits)

lemma cascade_kinds:
  "r \<in> set (ahac_cascade inp) \<Longrightarrow> ca_kind r = CascadeAhac"
  "carpark_cascade inp g = Some r \<Longrightarrow> ca_kind r = CascadeCarpark"
  "fee_cascade inp f = Some r \<Longrightarrow> ca_kind r = CascadeMiscFee"
  by (auto simp: ahac_cascade_def carpark_cascade_def fee_cascade_def cascadeRow_def Let_def split: option.splits if_splits)

lemma cascade_of_kind:
  "filter (\<lambda>r. ca_kind r = CascadeCarpark) (computeCascade inp) = List.map_filter (carpark_cascade inp) (cx_groups inp)"
  "filter (\<lambda>r. ca_kind r = CascadeMiscFee) (computeCascade inp) = List.map_filter (fee_cascade inp) (cx_fees inp)"
proof -
  have a: "filter (\<lambda>r. ca_kind r = k) (ahac_cascade inp) = []" if "k \<noteq> CascadeAhac" for k
    using that cascade_kinds(1) [of _ inp] by (auto simp: filter_empty_conv)
  have g: "filter (\<lambda>r. ca_kind r = k) (List.map_filter (carpark_cascade inp) gs) =
      (if k = CascadeCarpark then List.map_filter (carpark_cascade inp) gs else [])" for k gs
    using cascade_kinds(2) by (intro filter_map_filter) auto
  have f: "filter (\<lambda>r. ca_kind r = k) (List.map_filter (fee_cascade inp) fs) =
      (if k = CascadeMiscFee then List.map_filter (fee_cascade inp) fs else [])" for k fs
    using cascade_kinds(3) by (intro filter_map_filter) auto
  show "filter (\<lambda>r. ca_kind r = CascadeCarpark) (computeCascade inp) = List.map_filter (carpark_cascade inp) (cx_groups inp)"
    "filter (\<lambda>r. ca_kind r = CascadeMiscFee) (computeCascade inp) = List.map_filter (fee_cascade inp) (cx_fees inp)"
    by (simp_all add: computeCascade_def a g f)
qed

text \<open>Item by item: what the receipt shows before and after, and what the timeline charges.\<close>

lemma r2_0 [simp]: "r2 0 = 0"
  using to_the_cent_0 by (simp add: to_the_cent_def)

lemma carpark_item:
  assumes inp: "cx_rowsThrough inp = cx_rowsBefore inp @ [cx_reviewRow inp]"
    and ok: "sound_group g" "percents_ok (kg_rateSteps g)" "list_all factor_sound (cx_rowsThrough inp)"
  shows "owed (map_option ca_newAnnual (carpark_cascade inp g)) +
      (if carparkRunning (cx_rowsBefore inp) g = None then owed (carpark_annual (cx_rowsThrough inp) g) else 0) =
      owed (carpark_annual (cx_rowsThrough inp) g)"
    and "owed (map_option ca_currentAnnual (carpark_cascade inp g)) = owed (carpark_annual (cx_rowsBefore inp) g)"
proof -
  have "nonneg (carparkRunning rows g)" if "list_all factor_sound rows" for rows
    unfolding carparkRunning_def using ok(1,2) that by (intro carpark_from_nonneg) (simp_all add: nonneg_def)
  from this [OF ok(3)] this [of "cx_rowsBefore inp"] ok(3)
  have n: "carparkRunning (cx_rowsThrough inp) g = Some a \<Longrightarrow> 0 \<le> a" "carparkRunning (cx_rowsBefore inp) g = Some a \<Longrightarrow> 0 \<le> a" for a
    by (simp_all add: nonneg_def inp)
  have shown: "owed (if a > 0 then Some (r2 (r2 a * 12)) else None) = r2 (r2 a * 12)" if "0 \<le> a" for a
    using that by (cases "a = 0") auto
  note d = carpark_cascade_def carpark_annual_def cascadeRow_def
  show "owed (map_option ca_currentAnnual (carpark_cascade inp g)) = owed (carpark_annual (cx_rowsBefore inp) g)"
    using n(2) by (cases "carparkRunning (cx_rowsBefore inp) g") (simp_all add: d Let_def shown)
  show "owed (map_option ca_newAnnual (carpark_cascade inp g)) +
      (if carparkRunning (cx_rowsBefore inp) g = None then owed (carpark_annual (cx_rowsThrough inp) g) else 0) =
      owed (carpark_annual (cx_rowsThrough inp) g)"
    using n(1) by (cases "carparkRunning (cx_rowsBefore inp) g") (auto simp: d Let_def shown inp carpark_running_started)
qed

lemma fee_item:
  assumes inp: "cx_rowsThrough inp = cx_rowsBefore inp @ [cx_reviewRow inp]"
  shows "owed (map_option ca_newAnnual (fee_cascade inp f)) +
      (if miscFeeRunning (cx_rowsBefore inp) f = None then owed (fee_annual (cx_rowsThrough inp) f) else 0) =
      owed (fee_annual (cx_rowsThrough inp) f)"
  by (cases "miscFeeRunning (cx_rowsBefore inp) f")
     (auto simp: fee_cascade_def fee_annual_def cascadeRow_def Let_def inp fee_running_started)

lemma sum_cascade: "(\<Sum>r\<leftarrow>List.map_filter c xs. h r) = (\<Sum>x\<leftarrow>xs. owed (map_option h (c x)))"
  by (induction xs) (simp_all split: option.splits)

lemma sum_new_items: "(\<Sum>x\<leftarrow>filter p xs. h x) = (\<Sum>x\<leftarrow>xs. if p x then h x else (0 :: rat))"
  by (induction xs) auto

text \<open>C16: A rent review's receipt is the charge timeline. The car parks and fees it shows, with those that only start in
  the review's own period, add up to what the schedule charges from the review's row, and the car parks it shows before
  the review to what is charged on the row before it. The groups are validated ones whose overrides take off no more
  than all of it (\<open>percents_ok\<close>, which the validators leave to whoever keys them).\<close>

theorem receipt_is_timeline:
  assumes inp: "cx_rowsThrough inp = cx_rowsBefore inp @ [cx_reviewRow inp]" "cx_rowsBefore inp \<noteq> []"
    and rows: "cx_rowsThrough inp = take k (computeScheduleRows steps annual sqm terms)" "cap_ok terms" "0 \<le> annual"
    and steps: "\<And>s. s \<in> set steps \<Longrightarrow> valid_step s"
    and groups: "\<And>g. g \<in> set (cx_groups inp) \<Longrightarrow> (\<exists>raw. validateCarparkScheduleGroup raw = Inr g) \<and> percents_ok (kg_rateSteps g)"
    and totals: "totals = ancillariesByRow (cx_rowsThrough inp) (cx_groups inp) (cx_fees inp)"
  shows "(\<Sum>r\<leftarrow>filter (\<lambda>r. ca_kind r = CascadeCarpark) (computeCascade inp). ca_newAnnual r) +
      (\<Sum>g\<leftarrow>filter (\<lambda>g. carparkRunning (cx_rowsBefore inp) g = None) (cx_groups inp). owed (carpark_annual (cx_rowsThrough inp) g)) =
      owed (ra_carparks (last totals)) \<and>
    (\<Sum>r\<leftarrow>filter (\<lambda>r. ca_kind r = CascadeMiscFee) (computeCascade inp). ca_newAnnual r) +
      (\<Sum>f\<leftarrow>filter (\<lambda>f. miscFeeRunning (cx_rowsBefore inp) f = None) (cx_fees inp). owed (fee_annual (cx_rowsThrough inp) f)) =
      owed (ra_miscFees (last totals)) \<and>
    (\<Sum>r\<leftarrow>filter (\<lambda>r. ca_kind r = CascadeCarpark) (computeCascade inp). ca_currentAnnual r) =
      owed (ra_carparks (last (butlast totals)))"
proof -
  let ?n = "length (cx_rowsBefore inp)"
  have len: "length totals = ?n + 1" by (simp add: totals inp(1) ancillariesByRow_def)
  then have "last totals = totals ! ?n" by (cases "totals = []") (simp_all add: last_conv_nth)
  moreover have "length (butlast totals) = ?n" using len by simp
  with inp(2) have "butlast totals \<noteq> []" "last (butlast totals) = totals ! (?n - 1)"
    by (metis length_0_conv, metis last_conv_nth length_0_conv diff_less length_greater_0_conv nth_butlast zero_less_one)
  ultimately have ends: "last totals = ancillaries_through (cx_rowsThrough inp) (cx_groups inp) (cx_fees inp)"
    "last (butlast totals) = ancillaries_through (cx_rowsBefore inp) (cx_groups inp) (cx_fees inp)"
    using inp(2) by (simp_all add: totals inp(1) ancillariesByRow_nth)
  have "list_all factor_sound (cx_rowsThrough inp)"
    using computed_factor_sound [OF steps rows(3,2)] rows(1) by (auto simp: list_all_iff dest: in_set_takeD)
  then have "g \<in> set (cx_groups inp) \<Longrightarrow> sound_group g \<and> percents_ok (kg_rateSteps g) \<and> list_all factor_sound (cx_rowsThrough inp)" for g
    using groups validated_group_sound by blast
  note g = carpark_item [OF inp(1) conjunct1 [OF this] conjunct1 [OF conjunct2 [OF this]] conjunct2 [OF conjunct2 [OF this]]]
  have "(\<Sum>g\<leftarrow>cx_groups inp. owed (map_option ca_newAnnual (carpark_cascade inp g))) +
      (\<Sum>g\<leftarrow>cx_groups inp. if carparkRunning (cx_rowsBefore inp) g = None then owed (carpark_annual (cx_rowsThrough inp) g) else 0) =
      (\<Sum>g\<leftarrow>cx_groups inp. owed (carpark_annual (cx_rowsThrough inp) g))"
    unfolding sum_list_addf [symmetric] using g(1) by (intro arg_cong [where f = sum_list] map_cong) auto
  moreover have "(\<Sum>f\<leftarrow>cx_fees inp. owed (map_option ca_newAnnual (fee_cascade inp f))) +
      (\<Sum>f\<leftarrow>cx_fees inp. if miscFeeRunning (cx_rowsBefore inp) f = None then owed (fee_annual (cx_rowsThrough inp) f) else 0) =
      (\<Sum>f\<leftarrow>cx_fees inp. owed (fee_annual (cx_rowsThrough inp) f))"
    unfolding sum_list_addf [symmetric] using fee_item [OF inp(1)] by (intro arg_cong [where f = sum_list] map_cong) auto
  moreover have "(\<Sum>g\<leftarrow>cx_groups inp. owed (map_option ca_currentAnnual (carpark_cascade inp g))) =
      (\<Sum>g\<leftarrow>cx_groups inp. owed (carpark_annual (cx_rowsBefore inp) g))"
    using g(2) by (intro arg_cong [where f = sum_list] map_cong) auto
  ultimately show ?thesis
    by (simp only: cascade_of_kind sum_cascade sum_new_items ends ancillary_totals simp_thms)
qed

text \<open>A charge of the receipt that has no rule of its own moves by exactly the percentage of the rent.\<close>

theorem charges_follow_rent:
  assumes inp: "cx_rowsThrough inp = cx_rowsBefore inp @ [cx_reviewRow inp]"
    and row: "is_review_row (cx_reviewRow inp)" "sr_factor (cx_reviewRow inp) = Some f" "\<not> sr_pending (cx_reviewRow inp)"
    and r: "r \<in> set (computeCascade inp)" "ca_kind r \<noteq> CascadeAhac" "ca_note r = None" "ca_appliedPercent r \<noteq> None"
  shows "ca_appliedPercent r = percentOf (Some f)"
proof -
  from r(1,2) cascade_kinds(1) [of r inp] consider
    g where "carpark_cascade inp g = Some r" | fe where "fee_cascade inp fe = Some r"
    by (auto simp: computeCascade_def List.map_filter_def)
  then show ?thesis
  proof cases
    case c: 1
    then obtain b where b: "carparkRunning (cx_rowsBefore inp) g = Some b" by (auto simp: carpark_cascade_def split: option.splits)
    note started = carpark_running_started [OF b, of "cx_reviewRow inp"]
    from c r(3) have "carpark_row g (cx_reviewRow inp) b = b * f"
      by (auto simp: carpark_cascade_def b Let_def cascadeRow_def noteFor_def carpark_row_def follow_rent_def row_factor_def row
          split: option.splits)
    with c r(4) show ?thesis
      by (auto simp: carpark_cascade_def b Let_def cascadeRow_def inp started percentOf_def split: if_splits)
  next
    case c: 2
    then obtain b where b: "miscFeeRunning (cx_rowsBefore inp) fe = Some b" "\<not> fee_ended fe (rs_from (sr_step (cx_reviewRow inp)))"
      by (auto simp: fee_cascade_def split: option.splits if_splits)
    note started = fee_running_started [OF b(1), of "cx_reviewRow inp"]
    from c r(3) have "fee_row fe (cx_reviewRow inp) b = b * f"
      by (auto simp: fee_cascade_def b Let_def cascadeRow_def noteFor_def fee_row_def row split: option.splits)
    with c r(4) show ?thesis
      by (auto simp: fee_cascade_def b Let_def cascadeRow_def inp started percentOf_def split: if_splits)
  qed
qed

text \<open>C40: On every row of a schedule the total of the car parks is an amount in cents and never below nothing, whatever
  the groups' rate steps say, and so is the total of the validated fees provided none of their overrides takes off more
  than all of it (\<open>percents_ok\<close>). The validators do not ask for that: \<open>fee_below_nothing\<close> is a validated fee whose
  total is negative.\<close>

theorem validated_items_charge_soundly:
  assumes "\<And>s. s \<in> set steps \<Longrightarrow> valid_step s" "0 \<le> annual" "cap_ok terms"
    and fees: "\<And>f. f \<in> set fees \<Longrightarrow> \<exists>raw. validateMiscFee raw = Inr f"
  shows "list_all (\<lambda>a. case ra_carparks a of Some v \<Rightarrow> to_the_cent v | None \<Rightarrow> True)
      (ancillariesByRow (computeScheduleRows steps annual sqm terms) groups fees) \<and>
    (list_all (\<lambda>f. percents_ok (mf_rateSteps f)) fees \<longrightarrow>
      list_all ancillaries_sound (map Some (ancillariesByRow (computeScheduleRows steps annual sqm terms) groups fees)))"
proof -
  have total: "foldl add_annual acc xs = Some v \<Longrightarrow> list_all to_the_cent xs \<Longrightarrow> \<forall>a. acc = Some a \<longrightarrow> to_the_cent a \<Longrightarrow> to_the_cent v" for acc xs v
  proof (induction xs arbitrary: acc)
    case (Cons x xs)
    have "to_the_cent (the (add_annual acc x))"
      using Cons.prems by (auto simp: add_annual_def to_the_cent_def intro!: r2_nonneg split: option.splits)
    with Cons show ?case by (auto simp: add_annual_def)
  qed simp
  have g: "to_the_cent a" if "carpark_annual rows g = Some a" for rows g a
    using that by (auto simp: carpark_annual_def intro!: to_the_cent_r2 r2_nonneg split: option.splits if_splits)
  have "list_all to_the_cent (List.map_filter (carpark_annual rows) groups)" for rows
    using g by (auto simp: list_all_iff List.map_filter_def)
  note carparks = total [OF _ this, of None]
  have "ancillaries_sound (Some (ancillaries_through (take i (computeScheduleRows steps annual sqm terms)) groups fees))"
    if ok: "list_all (\<lambda>f. percents_ok (mf_rateSteps f)) fees" for i
  proof -
    let ?rows = "take i (computeScheduleRows steps annual sqm terms)"
    have rows: "list_all factor_sound ?rows"
      using computed_factor_sound [OF assms(1-3)] by (auto simp: list_all_iff dest: in_set_takeD)
    have f: "to_the_cent a" if "fee_annual ?rows f = Some a" "f \<in> set fees" for f a
    proof -
      have "nonneg (miscFeeRunning ?rows f)"
        unfolding miscFeeRunning_def using rows fees [OF that(2)] ok that(2) validated_fee_sound
        by (intro fee_from_nonneg) (auto simp: nonneg_def list_all_iff)
      then show ?thesis using that(1)
        by (auto simp: fee_annual_def nonneg_def PERIODS_PER_YEAR_def intro!: to_the_cent_r2 split: fee_frequency.splits)
    qed
    then have "list_all to_the_cent (List.map_filter (fee_annual ?rows) fees)" by (auto simp: list_all_iff List.map_filter_def)
    from total [OF _ this, of None] carparks [of ?rows] f g [of ?rows] show ?thesis
      by (auto simp: ancillaries_sound_def ancillaries_through_def List.map_filter_def to_the_cent_def)
  qed
  with carparks show ?thesis by (auto simp: ancillariesByRow_def list_all_iff ancillaries_through_def split: option.split)
qed

section \<open>A group and a fee on the sample schedule\<close>

text \<open>Whatever sequence of saves and deletes a tenancy's car park groups and fees go through, each store is the map
  from ids to items the sequence means: a save writes its item (keeping the stored rate steps where it says nothing of
  them), a delete takes one away, no other item moves and no id is ever held twice.\<close>

theorem item_stores_refine_maps:
  assumes "distinct (map kg_id gs)" "distinct (map mf_id fs)"
  shows "contents_by kg_id (foldl (edit_with upsertGroup deleteGroup) gs group_edits) = foldl (map_edit_with kg_id merge_group) (contents_by kg_id gs) group_edits \<and>
    distinct (map kg_id (foldl (edit_with upsertGroup deleteGroup) gs group_edits)) \<and>
    contents_by mf_id (foldl (edit_with upsertMiscFee deleteMiscFee) fs fee_edits) = foldl (map_edit_with mf_id merge_fee) (contents_by mf_id fs) fee_edits \<and>
    distinct (map mf_id (foldl (edit_with upsertMiscFee deleteMiscFee) fs fee_edits))"
  using groups.edits_refine [OF assms(1)] fees.edits_refine [OF assms(2)] by simp

definition uuid_a :: string where "uuid_a = replicate 36 (CHR ''a'')"

definition bays_json :: json where
  "bays_json = JObj
     [(''id'', JStr uuid_a), (''label'', JStr '' Bays ''), (''carparkIds'', JArr [JStr ''7'']), (''baseMonthlyRate'', JNum (Num 100)),
      (''commencedAt'', JStr ''2024-07-01'')]"

definition bays :: carpark_group where
  "bays = \<lparr>kg_id = uuid_a, kg_label = ''Bays'', kg_carparkIds = [''7''], kg_baseMonthlyRate = 100, kg_commencedAt = ''2024-07-01'',
     kg_rateSteps = None\<rparr>"

definition cleaning_json :: json where
  "cleaning_json = JObj
     [(''id'', JStr uuid_a), (''title'', JStr ''Cleaning''), (''frequency'', JStr ''quarterly''), (''baseAmount'', JNum (Num 250)),
      (''commencedAt'', JStr ''2024-07-01''), (''category'', JStr ''cleaning'')]"

definition cleaning :: misc_fee where
  "cleaning = \<lparr>mf_id = uuid_a, mf_title = ''Cleaning'', mf_frequency = FeeQuarterly, mf_baseAmount = 250, mf_commencedAt = ''2024-07-01'',
     mf_endsAt = None, mf_note = None, mf_category = Some ''cleaning'', mf_rateSteps = None\<rparr>"

lemma bays_valid: "validateCarparkScheduleGroup bays_json = Inr bays" by code_simp
lemma cleaning_valid: "validateMiscFee cleaning_json = Inr cleaning" by code_simp

lemma sample_items:
  "g \<in> set [bays] \<Longrightarrow> (\<exists>raw. validateCarparkScheduleGroup raw = Inr g) \<and> percents_ok (kg_rateSteps g)"
  "f \<in> set [cleaning] \<Longrightarrow> (\<exists>raw. validateMiscFee raw = Inr f) \<and> percents_ok (mf_rateSteps f)"
  using bays_valid cleaning_valid by (auto simp: percents_ok_def bays_def cleaning_def)

lemma sample_steps_valid: "s \<in> set sample_steps \<Longrightarrow> valid_step s"
proof -
  have "list_all valid_step sample_steps" by code_simp
  then show "s \<in> set sample_steps \<Longrightarrow> valid_step s" by (simp add: list_all_iff)
qed

definition sample_cascade :: cascade_input where
  "sample_cascade =
     \<lparr>cx_ahacAfter = None, cx_ahacBefore = None, cx_bounds = None, cx_groups = [bays], cx_fees = [cleaning],
      cx_reviewRow = sample_rows ! 1, cx_rowsBefore = take 1 sample_rows, cx_rowsThrough = take 2 sample_rows\<rparr>"

theorem item_stores_refine_maps_witness:
  "contents_by kg_id (foldl (edit_with upsertGroup deleteGroup) [bays] [Upserted (bays\<lparr>kg_label := ''North''\<rparr>), Deleted ''x'']) =
    foldl (map_edit_with kg_id merge_group) (contents_by kg_id [bays]) [Upserted (bays\<lparr>kg_label := ''North''\<rparr>), Deleted ''x'']"
  using item_stores_refine_maps [of "[bays]" "[]" "[Upserted (bays\<lparr>kg_label := ''North''\<rparr>), Deleted ''x'']" "[]"] by simp

theorem validated_items_charge_soundly_witness:
  "list_all ancillaries_sound (map Some (ancillariesByRow (computeScheduleRows sample_steps 0 0 sample_terms) [bays] [cleaning]))"
proof -
  have "cap_ok sample_terms" by code_simp
  moreover have "list_all (\<lambda>f. percents_ok (mf_rateSteps f)) [cleaning]" using sample_items(2) by simp
  ultimately show ?thesis
    using validated_items_charge_soundly [of sample_steps 0 sample_terms "[cleaning]" 0 "[bays]"] sample_steps_valid sample_items(2) by simp
qed

text \<open>A fee with an override of minus 150 percent passes the validator, and is charged at half its amount below nothing.\<close>

definition refunded_json :: json where
  "refunded_json = JObj
     [(''id'', JStr uuid_a), (''title'', JStr ''Cleaning''), (''frequency'', JStr ''annual''), (''baseAmount'', JNum (Num 100)),
      (''commencedAt'', JStr ''2024-07-01''),
      (''rateSteps'', JArr [JObj [(''id'', JStr uuid_a), (''effectiveFrom'', JStr ''2025-07-01''), (''ratePercent'', JNum (Num (-150)))]])]"

lemma fee_below_nothing:
  "case validateMiscFee refunded_json of
     Inl e \<Rightarrow> False
   | Inr fee \<Rightarrow> map ra_miscFees (take 2 (ancillariesByRow (computeScheduleRows sample_steps 0 0 sample_terms) [] [fee])) = [Some 100, Some (-50)]"
  by code_simp

lemma sample_cut: "cx_rowsThrough sample_cascade = cx_rowsBefore sample_cascade @ [cx_reviewRow sample_cascade]"
  "cx_rowsBefore sample_cascade \<noteq> []"
proof -
  have "1 < length sample_rows" by code_simp
  then show "cx_rowsThrough sample_cascade = cx_rowsBefore sample_cascade @ [cx_reviewRow sample_cascade]"
    "cx_rowsBefore sample_cascade \<noteq> []"
    by (auto simp: sample_cascade_def take_Suc_conv_app_nth numeral_2_eq_2)
qed

theorem receipt_is_timeline_witness:
  "(\<Sum>r\<leftarrow>filter (\<lambda>r. ca_kind r = CascadeCarpark) (computeCascade sample_cascade). ca_currentAnnual r) =
    owed (ra_carparks (last (butlast (ancillariesByRow (take 2 sample_rows) [bays] [cleaning]))))"
proof -
  note t = receipt_is_timeline [OF sample_cut, of 2 sample_steps 0 0 sample_terms, OF _ _ _ sample_steps_valid _ refl]
  have "cap_ok sample_terms" by code_simp
  then show ?thesis using t sample_items(1) by (simp add: sample_cascade_def sample_rows_def)
qed

theorem charges_follow_rent_witness:
  "ca_appliedPercent (hd (computeCascade sample_cascade)) = percentOf (sr_factor (sample_rows ! 1))"
proof -
  have f: "sr_factor (sample_rows ! 1) = Some (103 / 100)" "is_review_row (sample_rows ! 1)" "\<not> sr_pending (sample_rows ! 1)" by code_simp+
  have r: "ca_kind (hd (computeCascade sample_cascade)) \<noteq> CascadeAhac" "ca_note (hd (computeCascade sample_cascade)) = None"
    "ca_appliedPercent (hd (computeCascade sample_cascade)) \<noteq> None" "computeCascade sample_cascade \<noteq> []" by code_simp+
  have "cx_reviewRow sample_cascade = sample_rows ! 1" by (simp add: sample_cascade_def)
  with charges_follow_rent [OF sample_cut(1), of "103 / 100" "hd (computeCascade sample_cascade)"] f r show ?thesis by simp
qed

end
