(* ===== verification/Review_Calc_Correct.thy ===== *)
theory Review_Calc_Correct
  imports Review_Calc Rent_Step_Plan_Correct Review_Cascade_Correct
begin

text \<open>
  What holds of a rent review's calculation: what a person is shown is what the schedule will say, a review on the
  lease's own terms is written the natural way at the engine's own figure, a review that nobody else has to approve is
  inside every bound, and the arrears are the days' share of the change.
\<close>

section \<open>A calculation that is done\<close>

definition plan_of :: "calc_input \<Rightarrow> rate_step \<Rightarrow> factor_result option" where
  "plan_of inp base = (if kn_method inp = CalcCpi then cpiFactor inp base else Some (fixedFactor inp base))"

definition before_review :: "calc_input \<Rightarrow> rate_step \<Rightarrow> simulation" where
  "before_review inp base = simulate (calc_context inp) (waivedStep base (kn_reviewId inp))"

text \<open>What a done calculation rests on.\<close>

definition done_on :: "calc_input \<Rightarrow> review_calc \<Rightarrow> rate_step \<Rightarrow> rate_step option \<Rightarrow> schedule_row \<Rightarrow> factor_plan option \<Rightarrow> written_review \<Rightarrow> bool" where
  "done_on inp c base existing row plan w \<longleftrightarrow>
     reviewRow (kn_steps inp) (calc_target inp) = RowPlaced base existing \<and>
     si_row (before_review inp base) = Some row \<and> \<not> sr_pending row \<and> 0 < sr_annual row \<and> cl_currentAnnual c = sr_annual row \<and>
     (case plan of
        None \<Rightarrow> kn_method inp = CalcOther \<and> cl_appliedPercent c = r4 ((cl_newAnnual c / sr_annual row - 1) * 100)
      | Some p \<Rightarrow> kn_method inp \<noteq> CalcOther \<and> plan_of inp base = Some (FactorPlanned p) \<and>
          cl_newAnnual c = planned_rent (calc_context inp) p (sr_annual row) \<and> cl_appliedPercent c = r4 ((fp_factor p - 1) * 100)) \<and>
     cl_bounds c = map_option fp_bounds plan \<and> cl_cpi c = Option.bind plan fp_cpi \<and> cl_fixedPercent c = Option.bind plan fp_fixedPercent \<and>
     cl_method c = kn_method inp \<and> cl_departures c = Some (kn_departures inp) \<and> cl_override c = None \<and>
     cl_sanity c = Some (sanityOf (cl_appliedPercent c) (kn_sanity inp)) \<and>
     cl_ratchetOverrideNeeded c = (st_ratchet (kn_lease inp) \<and> cl_newAnnual c < sr_annual row) \<and>
     writtenReview (calc_written_input inp base (before_review inp base) (sr_annual row) plan (cl_newAnnual c) (cl_appliedPercent c)) = Some w \<and>
     cl_cascade c = wr_cascade w \<and> cl_arrears c = wr_arrears w"

lemma finish_calc_done:
  assumes "finish_calc inp base before row plan manual factor newAnnual = CalcDone c"
  shows "\<exists>w. writtenReview (calc_written_input inp base before (sr_annual row) plan (cl_newAnnual c) (cl_appliedPercent c)) = Some w \<and>
    cl_newAnnual c = newAnnual \<and> cl_currentAnnual c = sr_annual row \<and> cl_cascade c = wr_cascade w \<and> cl_arrears c = wr_arrears w \<and>
    cl_appliedPercent c = (if kn_method inp = CalcOther then r4 ((newAnnual / sr_annual row - 1) * 100) else r4 ((factor - 1) * 100)) \<and>
    cl_bounds c = map_option fp_bounds plan \<and> cl_cpi c = Option.bind plan fp_cpi \<and> cl_fixedPercent c = Option.bind plan fp_fixedPercent \<and>
    cl_method c = kn_method inp \<and> cl_departures c = Some (kn_departures inp) \<and> cl_override c = None \<and>
    cl_sanity c = Some (sanityOf (cl_appliedPercent c) (kn_sanity inp)) \<and>
    cl_ratchetOverrideNeeded c = (st_ratchet (kn_lease inp) \<and> newAnnual < sr_annual row)"
  using assms unfolding finish_calc_def Let_def by (auto split: option.splits)

lemma calc_done_on:
  assumes "calculateReview inp = Some (CalcDone c)"
  shows "\<exists>base existing row plan w. done_on inp c base existing row plan w"
proof -
  from assms obtain base existing row where
    at: "reviewRow (kn_steps inp) (calc_target inp) = RowPlaced base existing" "si_row (before_review inp base) = Some row"
      "\<not> sr_pending row" "0 < sr_annual row" and out: "work_out inp base (before_review inp base) row = Some (CalcDone c)"
    by (auto simp: calculateReview_def Let_def before_review_def split: review_row_result.splits option.splits if_splits)
  show ?thesis
  proof (cases "kn_method inp = CalcOther")
    case True
    with out obtain manual newAnnual where
      "finish_calc inp base (before_review inp base) row None manual (newAnnual / sr_annual row) newAnnual = CalcDone c"
      by (auto simp: work_out_def split: option.splits)
    from finish_calc_done [OF this] at True have "\<exists>w. done_on inp c base existing row None w" unfolding done_on_def by auto
    then show ?thesis by blast
  next
    case False
    with out obtain p where p: "plan_of inp base = Some (FactorPlanned p)"
      and "finish_calc inp base (before_review inp base) row (Some p) None (fp_factor p) (planned_rent (calc_context inp) p (sr_annual row)) = CalcDone c"
      by (auto simp: work_out_def plan_of_def cpiFactor_def fixedFactor_def index_pending_def Let_def
          split: option.splits factor_result.splits if_splits prod.splits)
    from finish_calc_done [OF this(2)] at p False have "\<exists>w. done_on inp c base existing row (Some p) w" unfolding done_on_def by auto
    then show ?thesis by blast
  qed
qed

section \<open>What is shown is what is written\<close>

text \<open>A stored calculation checked against the schedule it was worked out on.\<close>

definition recheck :: "calc_input \<Rightarrow> review_calc \<Rightarrow> stored_target" where
  "recheck inp c =
     \<lparr>sg_calc = c, sg_departs = (kn_departures inp \<noteq> []), sg_newStepId = kn_newStepId inp,
      sg_exempt = (if cl_ratchetOverrideNeeded c then Some (provisionalRatchetExemption (kn_computedAt inp)) else None),
      sg_reviewId = kn_reviewId inp,
      sg_schedule = \<lparr>vs_groups = kn_groups inp, vs_context = calc_context inp, vs_fees = kn_fees inp, vs_reliefs = kn_reliefs inp\<rparr>,
      sg_scheduledFor = kn_scheduledFor inp, sg_stepId = kn_stepId inp, sg_target = cl_newAnnual c, sg_today = kn_today inp\<rparr>"

lemma recheck_input:
  assumes "done_on inp c base existing row plan w"
  shows "stored_written_input (recheck inp c) base (before_review inp base) =
    calc_written_input inp base (before_review inp base) (sr_annual row) plan (cl_newAnnual c) (cl_appliedPercent c)"
  using assms
  by (cases plan) (simp_all add: done_on_def stored_written_input_def calc_written_input_def recheck_def Let_def option.map_comp comp_def)

lemma recheck_written:
  assumes "done_on inp c base existing row plan w"
  shows "writtenFromCalc (recheck inp c) = Written w existing"
proof -
  have t: "stored_review_target (recheck inp c) = calc_target inp" "vs_context (sg_schedule (recheck inp c)) = calc_context inp"
    "sg_reviewId (recheck inp c) = kn_reviewId inp" "sg_calc (recheck inp c) = c" "sc_steps (calc_context inp) = kn_steps inp"
    using assms by (simp_all add: done_on_def stored_review_target_def calc_target_def recheck_def calc_context_def)
  have "simulate (calc_context inp) (waivedStep base (kn_reviewId inp)) = before_review inp base" by (simp add: before_review_def)
  with recheck_input [OF assms] show ?thesis
    unfolding writtenFromCalc_def t Let_def using assms by (simp add: done_on_def)
qed

lemma writtenReview_Some:
  assumes "writtenReview inp = Some w"
  shows "\<exists>r. representStep (represent_of inp) = Some r \<and> wr_representation w = rp_representation r \<and> wr_row w = rp_row r \<and>
    wr_simulation w = rp_simulation r \<and> wr_step w = rp_step r \<and> wr_cascade w = computeCascade (cascade_of inp r)"
  using assms by (auto simp: writtenReview_def Let_def split: option.splits)

text \<open>C14: What a review's calculation shows is what will be written: on the schedule it was worked out on the stored calculation
  is never stale or refused, its charges and arrears are those of the write, and the schedule written says exactly the
  new rent on the review's row, settled as applied by this review on its date.\<close>

theorem shown_is_written:
  assumes "calculateReview inp = Some (CalcDone c)"
  shows "\<exists>w existing. writtenFromCalc (recheck inp c) = Written w existing \<and>
    wr_cascade w = cl_cascade c \<and> wr_arrears w = cl_arrears c \<and>
    sr_annual (wr_row w) = cl_newAnnual c \<and> \<not> sr_pending (wr_row w) \<and>
    si_row (simulate (calc_context inp) (wr_step w)) = Some (wr_row w) \<and>
    rs_resolution (wr_step w) = Some Applied \<and> rs_reviewId (wr_step w) = Some (kn_reviewId inp)"
proof -
  obtain base existing row plan w where d: "done_on inp c base existing row plan w" using calc_done_on [OF assms] by blast
  let ?i = "represent_of (calc_written_input inp base (before_review inp base) (sr_annual row) plan (cl_newAnnual c) (cl_appliedPercent c))"
  obtain r where r: "representStep ?i = Some r" "wr_row w = rp_row r" "wr_step w = rp_step r"
    using d writtenReview_Some by (fastforce simp: done_on_def)
  have i: "ri_target ?i = cl_newAnnual c" "ri_context ?i = calc_context inp" "ri_reviewId ?i = kn_reviewId inp"
    by (simp_all add: represent_of_def calc_written_input_def)
  have "sr_annual (rp_row r) = ri_target ?i \<and> \<not> sr_pending (rp_row r) \<and> si_row (simulate (ri_context ?i) (rp_step r)) = Some (rp_row r) \<and>
    rs_resolution (rp_step r) = Some Applied \<and> rs_reviewId (rp_step r) = Some (ri_reviewId ?i)"
    using representStep_cases [OF r(1)]
    by (elim disjE conjE exE)
       (auto dest!: accept_step_Some simp: rated_step_def appliedStep_def with_exemption_def split: option.splits)
  with recheck_written [OF d] d show ?thesis by (auto simp: i r done_on_def)
qed

section \<open>A review on the lease's own terms\<close>

lemma reviewRow_review:
  assumes "reviewRow steps target = RowPlaced base existing" "rt_method target \<noteq> MCommencement"
  shows "rs_method base \<noteq> Some MCommencement"
proof -
  define linked where "linked = (if text_set (rt_stepId target)
    then find (\<lambda>step. Some (rs_id step) = rt_stepId target \<and> on_date target step) steps else None)"
  have found: "find p steps = Some e \<Longrightarrow> p e" for p e by (auto simp: find_Some_iff)
  have "linked = Some e \<Longrightarrow> on_date target e" for e using found by (auto simp: linked_def split: if_splits)
  then have "or_default linked (find (on_date target) steps) = Some e \<Longrightarrow> on_date target e" for e
    using found by (auto simp: or_default_def split: option.splits)
  with assms show ?thesis
    unfolding reviewRow_def Let_def linked_def [symmetric]
    by (cases "or_default linked (find (on_date target) steps)") (auto simp: on_date_def added_row_def split: if_splits)
qed

text \<open>Where the row waived has the rent \<open>r2 K\<close>, the row written with a settled value of factor \<open>f\<close> has \<open>r2 (K * f)\<close>.\<close>

lemma written_row:
  assumes "distinct (map rs_id (sc_steps ctx))" "rs_method base \<noteq> Some MCommencement" "av_method v \<noteq> MCommencement"
    and before: "si_row (simulate ctx (waivedStep base rid)) = Some row" "\<not> sr_pending row"
    and f: "\<And>y b. core y = core (appliedStep base rid v) \<Longrightarrow>
      ro_factor (reviewOutcome y (or_default (rs_cpiValuePrev y) b) (sc_lease ctx)) = f"
  shows "\<exists>K nrow. sr_annual row = r2 K \<and> si_row (simulate ctx (appliedStep base rid v)) = Some nrow \<and> \<not> sr_pending nrow \<and>
    sr_annual nrow = r2 (K * f) \<and> sr_factor nrow = Some f"
proof -
  let ?w = "waivedStep base rid" and ?n = "appliedStep base rid v"
  let ?fa = "if sc_fallbackSqm ctx > 0 then sc_fallbackSqm ctx else 0"
  obtain st x where w: "placed_row ctx ?w = Some (st, x)" using before(1) by (auto simp: simulate_row)
  have place: "same_place ?w ?n" "rs_flagComment ?w = rs_flagComment ?n" "rs_reviewId ?w \<noteq> None" "rs_resolution ?w \<noteq> None"
    "rs_resolution ?n \<noteq> None" "rs_sqm ?n = rs_sqm ?w"
    by (simp_all add: waivedStep_def appliedStep_def same_place_def)
  from two_writings [OF assms(1) place(1-5) w]
  obtain y where y: "placed_row ctx ?n = Some (st, y)" "twin ?w ?n x y" "rs_id x = rs_id ?w" by blast
  then have y': "core y = core ?n" "core x = core ?w" "rs_sqm y = rs_sqm x"
    by (simp_all add: twin_def same_place_def)
  have xs: "rs_resolution x = Some Waived" "rs_method x \<noteq> Some MCommencement"
    using y'(2) assms(2) by (simp_all add: core_def waivedStep_def)
  have ys: "rs_resolution y = Some Applied" "rs_method y = Some (av_method v)" using y'(1) by (simp_all add: core_def appliedStep_def)
  define K where "K = en_annual (review_row st x 1)"
  have calm: "\<not> en_cascade st" using before w settled_row(1) [of x] xs by (auto simp: simulate_row)
  have "sr_annual row = r2 K"
    using before w settled_row(2) [of x st] xs calm by (auto simp: simulate_row K_def reviewOutcome_waived)
  moreover have "sr_annual (snd (schedule_step (sc_lease ctx) ?fa st y)) = r2 (K * f)"
    using settled_row(2) [of y st] ys calm f [OF y'(1)] assms(3) review_row_linear [of st y f] review_row_place [OF y'(3), of st 1]
    by (simp add: K_def)
  moreover have "\<not> row_waits (sc_lease ctx) st y"
    using settled_row(1) [of y "sc_lease ctx" ?fa st] ys calm assms(3) by (simp add: schedule_step_row)
  then have "sr_factor (snd (schedule_step (sc_lease ctx) ?fa st y)) = Some f"
    using ys assms(3) f [OF y'(1)] by (simp add: schedule_step_review)
  ultimately show ?thesis
    using y(1) settled_row(1) [of y "sc_lease ctx" ?fa st] ys calm assms(3) by (auto simp: simulate_row)
qed

text \<open>The calculation's bounds are the engine's.\<close>

lemma boundFactor_is_engine:
  "fst (snd (boundFactor ratio cap flr ratchet)) =
     (let g = fst (cap_factor cap (fst (floor_factor flr ratio))) in if ratchet \<and> g < 1 then 1 else g)"
  by (auto simp: boundFactor_def Let_def split: prod.splits)

definition on_lease_terms :: "calc_input \<Rightarrow> bool" where
  "on_lease_terms inp \<longleftrightarrow>
     ratchet_in (kn_basis inp) = st_ratchet (kn_lease inp) \<and> kn_departures inp = [] \<and>
     (kn_method inp = CalcCpi \<longrightarrow>
        number_in (obj_get (kn_basis inp) ''capPercent'') = st_cpiCap (kn_lease inp) \<and>
        number_in (obj_get (kn_basis inp) ''floorPercent'') = st_cpiFloor (kn_lease inp))"

lemma plan_cases:
  assumes "plan_of inp base = Some (FactorPlanned p)"
  shows "(kn_method inp = CalcCpi \<and> (\<exists>region reference previous b current earlier.
      p = cpi_plan inp base region reference previous b current earlier)) \<or>
    (kn_method inp \<noteq> CalcCpi \<and> fixedFactor inp base = FactorPlanned p)"
  using assms
  by (auto simp: plan_of_def cpiFactor_def index_pending_def Let_def split: if_splits option.splits) blast+

lemma plan_natural:
  assumes "plan_of inp base = Some (FactorPlanned p)" "on_lease_terms inp" "rs_exempt base = None" "kn_method inp \<noteq> CalcOther"
  shows "\<exists>v. fp_natural p = appliedStep base (kn_reviewId inp) v \<and> av_method v = method_kind_of (kn_method inp) \<and>
    av_cpiValue v = map_option cc_current (fp_cpi p) \<and> av_cpiValuePrev v = map_option cc_previous (fp_cpi p) \<and>
    (fp_cpi p \<noteq> None \<longleftrightarrow> kn_method inp = CalcCpi) \<and>
    av_ratePercent v = (case fp_fixedPercent p of Some r \<Rightarrow> r | None \<Rightarrow> r4 ((fp_factor p - 1) * 100)) \<and>
    (fp_fixedPercent p \<noteq> None \<longleftrightarrow> kn_method inp = CalcFixed) \<and>
    (\<forall>y b. core y = core (appliedStep base (kn_reviewId inp) v) \<longrightarrow>
      ro_factor (reviewOutcome y (or_default (rs_cpiValuePrev y) b) (kn_lease inp)) = fp_factor p)"
  using plan_cases [OF assms(1)]
proof (elim disjE conjE exE)
  fix region reference previous b current earlier
  assume m: "kn_method inp = CalcCpi" and p: "p = cpi_plan inp base region reference previous b current earlier"
  let ?v = "\<lparr>av_cpiValue = Some (ci_value current), av_cpiValuePrev = Some (ci_value earlier), av_method = MCpi,
    av_ratePercent = r4 ((fp_factor p - 1) * 100)\<rparr>"
  have f: "fp_factor p = fst (snd (boundFactor (ci_value current / ci_value earlier) (st_cpiCap (kn_lease inp)) (st_cpiFloor (kn_lease inp)) (st_ratchet (kn_lease inp))))"
    using assms(2) m by (simp add: p cpi_plan_def on_lease_terms_def Let_def split: prod.splits)
  have "fp_natural p = appliedStep base (kn_reviewId inp) ?v" "fp_fixedPercent p = None"
    "map_option cc_current (fp_cpi p) = Some (ci_value current)" "map_option cc_previous (fp_cpi p) = Some (ci_value earlier)"
    by (simp_all add: p cpi_plan_def Let_def split: prod.splits)
  moreover have "ro_factor (reviewOutcome y (or_default (rs_cpiValuePrev y) c) (kn_lease inp)) = fp_factor p"
    if "core y = core (appliedStep base (kn_reviewId inp) ?v)" for y c
    using that assms(3)
    by (simp add: core_def appliedStep_def reviewOutcome_factor reviewFactor_def or_default_def f boundFactor_is_engine Let_def)
  ultimately show ?thesis using m by (intro exI [of _ ?v]) auto
next
  assume m: "kn_method inp \<noteq> CalcCpi" and "fixedFactor inp base = FactorPlanned p"
  then obtain r where r: "p = \<lparr>fp_bounds = fp_bounds p, fp_cpi = None, fp_factor = fp_factor p, fp_fixedPercent = Some r,
      fp_natural = appliedStep base (kn_reviewId inp) \<lparr>av_cpiValue = None, av_cpiValuePrev = None, av_method = MFixed, av_ratePercent = r\<rparr>\<rparr>"
    and f: "fp_factor p = fst (snd (boundFactor (1 + r / 100) None None (st_ratchet (kn_lease inp))))"
    using assms(2) by (auto simp: fixedFactor_def on_lease_terms_def Let_def split: option.splits prod.splits)
  let ?v = "\<lparr>av_cpiValue = None, av_cpiValuePrev = None, av_method = MFixed, av_ratePercent = r\<rparr>"
  have "fp_natural p = appliedStep base (kn_reviewId inp) ?v" "fp_fixedPercent p = Some r" "fp_cpi p = None"
    by (subst r, simp)+
  moreover have "ro_factor (reviewOutcome y (or_default (rs_cpiValuePrev y) c) (kn_lease inp)) = fp_factor p"
    if "core y = core (appliedStep base (kn_reviewId inp) ?v)" for y c
    using that assms(3)
    by (simp add: core_def appliedStep_def reviewOutcome_factor reviewFactor_def f boundFactor_is_engine floor_factor_def cap_factor_def Let_def)
  ultimately show ?thesis using m assms(4) by (intro exI [of _ ?v]) (cases "kn_method inp", auto)
qed

text \<open>A plan on the lease's own terms never needs the ratchet overridden, and is written as its natural step.\<close>

lemma plan_ratchet:
  assumes "plan_of inp base = Some (FactorPlanned p)" "on_lease_terms inp" "st_ratchet (kn_lease inp)"
  shows "1 \<le> fp_factor p"
  using plan_cases [OF assms(1)] assms(2,3)
  by (auto simp: cpi_plan_def fixedFactor_def boundFactor_def on_lease_terms_def Let_def split: option.splits prod.splits if_splits)

lemma natural_accepted:
  assumes nrow: "si_row (simulate (ri_context i) s) = Some nrow" "\<not> sr_pending nrow" "sr_annual nrow = ri_target i" "ri_exempt i = None"
    and way: "(ri_method i = MCpi \<and> ri_cpi i \<noteq> None \<and> \<not> ri_departs i \<and> s = rated_step i (ri_cpi i) MCpi (ri_naturalRate i)) \<or>
      (ri_method i = MFixed \<and> s = rated_step i None MFixed (ri_naturalRate i))"
  shows "\<exists>r. representStep i = Some r \<and> rp_representation r = Natural \<and> rp_step r = s"
proof -
  have "accept_step i s Natural = Some \<lparr>rp_representation = Natural, rp_row = nrow, rp_simulation = simulate (ri_context i) s, rp_step = s\<rparr>"
    using nrow by (simp add: accept_step_def with_exemption_def)
  with way show ?thesis by (auto simp: representStep_def or_default_def)
qed

lemma natural_form:
  assumes "kn_method inp \<noteq> CalcOther" "fp_natural p = appliedStep base (kn_reviewId inp) v" "av_method v = method_kind_of (kn_method inp)"
    "av_cpiValue v = map_option cc_current (fp_cpi p)" "av_cpiValuePrev v = map_option cc_previous (fp_cpi p)"
    "fp_cpi p \<noteq> None \<longleftrightarrow> kn_method inp = CalcCpi"
    "av_ratePercent v = (case fp_fixedPercent p of Some r \<Rightarrow> r | None \<Rightarrow> r4 ((fp_factor p - 1) * 100))"
    "fp_fixedPercent p \<noteq> None \<longleftrightarrow> kn_method inp = CalcFixed" "kn_departures inp = []"
    and i_def: "i = represent_of (calc_written_input inp base before cur (Some p) new (r4 ((fp_factor p - 1) * 100)))"
  shows "(ri_method i = MCpi \<and> ri_cpi i \<noteq> None \<and> \<not> ri_departs i \<and> fp_natural p = rated_step i (ri_cpi i) MCpi (ri_naturalRate i)) \<or>
    (ri_method i = MFixed \<and> fp_natural p = rated_step i None MFixed (ri_naturalRate i))"
proof -
  have i: "ri_base i = base" "ri_reviewId i = kn_reviewId inp" "ri_method i = method_kind_of (kn_method inp)" "ri_departs i = (kn_departures inp \<noteq> [])"
    "ri_cpi i = map_option (\<lambda>c. (cc_current c, cc_previous c)) (fp_cpi p)"
    "ri_naturalRate i = (if kn_method inp = CalcFixed then (case fp_fixedPercent p of Some p \<Rightarrow> p | None \<Rightarrow> 0) else r4 ((fp_factor p - 1) * 100))"
    by (simp_all add: i_def represent_of_def calc_written_input_def)
  show ?thesis
  proof (cases "kn_method inp = CalcCpi")
    case True
    then have "fp_fixedPercent p = None" using assms(8) by (cases "fp_fixedPercent p") simp_all
    moreover obtain c where "fp_cpi p = Some c" using assms(6) True by blast
    ultimately have "v = \<lparr>av_cpiValue = map_option fst (ri_cpi i), av_cpiValuePrev = map_option snd (ri_cpi i), av_method = MCpi, av_ratePercent = ri_naturalRate i\<rparr>"
      "ri_cpi i \<noteq> None"
      using assms(3-5,7) True by (cases v; simp add: i)+
    then show ?thesis using assms(2,9) True by (simp add: i rated_step_def)
  next
    case False
    with assms(1) have f: "kn_method inp = CalcFixed" by (cases "kn_method inp") simp_all
    have "fp_cpi p = None" using assms(6) False by (cases "fp_cpi p") simp_all
    moreover obtain r where "fp_fixedPercent p = Some r" using assms(8) f by blast
    ultimately have "v = \<lparr>av_cpiValue = None, av_cpiValuePrev = None, av_method = MFixed, av_ratePercent = ri_naturalRate i\<rparr>"
      using assms(3-5,7) f by (cases v) (simp add: i)
    then show ?thesis using assms(2) f by (simp add: i rated_step_def)
  qed
qed

text \<open>C17: A CPI or fixed review on the lease's own terms is never refused once its figures are there: its new rent is the exact
  rent before it times the bounded factor, rounded once, no ratchet has to be overridden for it, and the schedule holds it
  as the natural row of its method (its index pair or its fixed percentage), which says exactly that rent.\<close>

theorem lease_review_written_naturally:
  assumes "distinct (map rs_id (kn_steps inp))" "reviewRow (kn_steps inp) (calc_target inp) = RowPlaced base existing"
    and "si_row (before_review inp base) = Some row" "\<not> sr_pending row" "0 < sr_annual row" "rs_exempt base = None"
    and "plan_of inp base = Some (FactorPlanned p)" "on_lease_terms inp" "kn_method inp \<noteq> CalcOther"
  shows "\<exists>c K w. calculateReview inp = Some (CalcDone c) \<and> cl_currentAnnual c = r2 K \<and> cl_newAnnual c = r2 (K * fp_factor p) \<and>
    \<not> cl_ratchetOverrideNeeded c \<and> writtenFromCalc (recheck inp c) = Written w existing \<and>
    wr_representation w = Natural \<and> wr_step w = fp_natural p"
proof -
  let ?ctx = "calc_context inp"
  have ctx: "sc_steps ?ctx = kn_steps inp" "sc_lease ?ctx = kn_lease inp" by (simp_all add: calc_context_def)
  obtain v where v: "fp_natural p = appliedStep base (kn_reviewId inp) v" "av_method v = method_kind_of (kn_method inp)"
    "av_cpiValue v = map_option cc_current (fp_cpi p)" "av_cpiValuePrev v = map_option cc_previous (fp_cpi p)"
    "fp_cpi p \<noteq> None \<longleftrightarrow> kn_method inp = CalcCpi"
    "av_ratePercent v = (case fp_fixedPercent p of Some r \<Rightarrow> r | None \<Rightarrow> r4 ((fp_factor p - 1) * 100))"
    "fp_fixedPercent p \<noteq> None \<longleftrightarrow> kn_method inp = CalcFixed"
    "\<And>y b. core y = core (appliedStep base (kn_reviewId inp) v) \<Longrightarrow>
      ro_factor (reviewOutcome y (or_default (rs_cpiValuePrev y) b) (kn_lease inp)) = fp_factor p"
    using plan_natural [OF assms(7,8,6,9)] by blast
  have kinds: "rs_method base \<noteq> Some MCommencement" "av_method v \<noteq> MCommencement"
    using reviewRow_review [OF assms(2)] v(2) by (cases "kn_method inp"; simp add: calc_target_def)+
  obtain K nrow where K: "sr_annual row = r2 K" "si_row (simulate ?ctx (fp_natural p)) = Some nrow" "\<not> sr_pending nrow"
    "sr_annual nrow = r2 (K * fp_factor p)" "sr_factor nrow = Some (fp_factor p)"
    using written_row [of ?ctx base v "kn_reviewId inp" row "fp_factor p"] assms(1,3,4) kinds v(1,8) by (auto simp: ctx before_review_def)
  define new where "new = planned_rent ?ctx p (sr_annual row)"
  have new: "new = r2 (K * fp_factor p)" by (simp add: new_def planned_rent_def K)
  have "0 < r2 K" using assms(5) K(1) by simp
  then have "0 < K" using r2_positive [of K] r2_bounds(2) [of K] by linarith
  then have "1 \<le> fp_factor p \<Longrightarrow> K \<le> K * fp_factor p" by (simp add: mult_le_cancel_left1)
  then have ratchet: "st_ratchet (kn_lease inp) \<Longrightarrow> \<not> new < sr_annual row"
    using plan_ratchet [OF assms(7,8)] by (auto simp: new K(1) not_less intro: r2_mono)
  let ?i = "calc_written_input inp base (before_review inp base) (sr_annual row) (Some p) new (r4 ((fp_factor p - 1) * 100))"
  have dep: "kn_departures inp = []" using assms(8) by (simp add: on_lease_terms_def)
  have "\<exists>r. representStep (represent_of ?i) = Some r \<and> rp_representation r = Natural \<and> rp_step r = fp_natural p"
  proof (rule natural_accepted [where nrow = nrow])
    show "(ri_method (represent_of ?i) = MCpi \<and> ri_cpi (represent_of ?i) \<noteq> None \<and> \<not> ri_departs (represent_of ?i) \<and>
        fp_natural p = rated_step (represent_of ?i) (ri_cpi (represent_of ?i)) MCpi (ri_naturalRate (represent_of ?i))) \<or>
      (ri_method (represent_of ?i) = MFixed \<and> fp_natural p = rated_step (represent_of ?i) None MFixed (ri_naturalRate (represent_of ?i)))"
      by (rule natural_form [OF assms(9) v(1-7) dep refl])
  qed (use K ratchet in \<open>auto simp: represent_of_def calc_written_input_def new\<close>)
  then obtain w where w: "writtenReview ?i = Some w" "wr_representation w = Natural" "wr_step w = fp_natural p"
    by (auto simp: writtenReview_def Let_def)
  have pl: "(if kn_method inp = CalcCpi then cpiFactor inp base else Some (fixedFactor inp base)) = Some (FactorPlanned p)"
    using assms(7) by (simp add: plan_of_def)
  have at: "simulate ?ctx (waivedStep base (kn_reviewId inp)) = before_review inp base" by (simp add: before_review_def)
  have "\<exists>c. finish_calc inp base (before_review inp base) row (Some p) None (fp_factor p) new = CalcDone c"
    unfolding finish_calc_def Let_def using assms(9) w(1) by simp
  then obtain c where c: "finish_calc inp base (before_review inp base) row (Some p) None (fp_factor p) new = CalcDone c" by blast
  have result: "calculateReview inp = Some (CalcDone c)"
    unfolding calculateReview_def assms(2) review_row_result.case Let_def at assms(3) option.case work_out_def pl factor_result.case new_def [symmetric] c
    using assms(4,5,9) by simp
  from finish_calc_done [OF c] w(1) assms(2-5,7,9) have "done_on inp c base existing row (Some p) w"
    by (auto simp: done_on_def new_def)
  from recheck_written [OF this] result w(2,3) finish_calc_done [OF c] new K(1) ratchet show ?thesis by auto
qed

section \<open>A review nobody else has to approve\<close>

lemma r4_mono: "x \<le> y \<Longrightarrow> r4 x \<le> r4 y"
proof -
  assume "x \<le> y"
  then have "js_round (x * 10000) \<le> js_round (y * 10000)" by (simp add: js_round_def floor_mono)
  then show ?thesis by (simp add: r4_def divide_right_mono)
qed

lemma sameNumber_Some:
  assumes "sameNumber a (Some y)"
  shows "\<exists>x. a = Some x \<and> x \<le> y + 1 / 10 ^ 9"
proof -
  obtain x where x: "a = Some x" "\<bar>x - y\<bar> < 1 / 10 ^ 9" using assms unfolding sameNumber_def by (cases a) simp_all
  from x(2) have "x - y < 1 / 10 ^ 9" by (rule order_le_less_trans [OF abs_ge_self])
  with x(1) show ?thesis by (intro exI [of _ x]) linarith
qed

lemma cpi_plan_factor:
  "fp_factor (cpi_plan inp base region reference previous b current earlier) =
     fst (snd (boundFactor (ci_value current / ci_value earlier) (number_in (obj_get (kn_basis inp) ''capPercent''))
       (number_in (obj_get (kn_basis inp) ''floorPercent'')) (ratchet_in (kn_basis inp))))"
  by (simp add: cpi_plan_def Let_def split: prod.split)

lemma boundFactor_cap: "fst (snd (boundFactor ratio (Some cap) flr ratchet)) \<le> max (1 + cap / 100) 1"
  by (auto simp: boundFactor_def cap_factor_def Let_def split: prod.splits)

text \<open>C18: A calculation that gives no reason for a second person is a CPI or fixed review at its own computed rent, inside the
  sanity band, not below the rent before it, and, where the departures are those from the lease, on the lease's own ratchet
  with a CPI percentage no higher than the lease's cap (or nothing, on a cap below nothing).\<close>

theorem one_step_within_lease:
  assumes "calculateReview inp = Some (CalcDone c)" "approvalReasonsOf c = []"
    and "kn_departures inp = leaseDepartures (kn_method inp) (kn_basis inp) lease"
  shows "kn_method inp \<noteq> CalcOther \<and> chosen_percent c = cl_appliedPercent c \<and> chosen_annual c = cl_newAnnual c \<and>
    cl_currentAnnual c \<le> cl_newAnnual c \<and> fst (kn_sanity inp) \<le> cl_appliedPercent c \<and> cl_appliedPercent c \<le> snd (kn_sanity inp) \<and>
    ratchet_in (kn_basis inp) = ls_reviewRatchet lease \<and> (kn_method inp = CalcCpi \<longrightarrow> region_in (kn_basis inp) = lease_region lease) \<and>
    (case ls_cpiCapPercent lease of
       Some cap \<Rightarrow> kn_method inp = CalcCpi \<longrightarrow> cl_appliedPercent c \<le> r4 (max (cap + 1 / 10 ^ 9) 0)
     | None \<Rightarrow> True)"
proof -
  obtain base existing row plan w where d: "done_on inp c base existing row plan w" using calc_done_on [OF assms(1)] by blast
  have c: "cl_override c = None" "cl_sanity c = Some (sanityOf (cl_appliedPercent c) (kn_sanity inp))" "cl_method c = kn_method inp"
    "cl_departures c = Some (kn_departures inp)" using d by (simp_all add: done_on_def)
  have band: "sb_inBand (sanityOf (cl_appliedPercent c) (kn_sanity inp))" and other: "kn_method inp \<noteq> CalcOther"
    and dep: "kn_departures inp = []" and up: "\<not> isReduction c"
    using assms(2) c by (auto simp: approvalReasonsOf_def split: list.splits if_splits)
  have figures: "chosen_percent c = cl_appliedPercent c" "chosen_annual c = cl_newAnnual c"
    by (simp_all add: chosen_percent_def chosen_annual_def chosenFigures_def c(1))
  have terms: "ratchet_in (kn_basis inp) = ls_reviewRatchet lease"
    "kn_method inp = CalcCpi \<Longrightarrow> region_in (kn_basis inp) = lease_region lease \<and> sameNumber (number_in (obj_get (kn_basis inp) ''capPercent'')) (ls_cpiCapPercent lease)"
    using dep unfolding assms(3) leaseDepartures_def Let_def by (auto split: if_splits)
  have "cl_appliedPercent c \<le> r4 (max (cap + 1 / 10 ^ 9) 0)" if cap: "ls_cpiCapPercent lease = Some cap" "kn_method inp = CalcCpi" for cap
  proof -
    obtain p where p: "plan_of inp base = Some (FactorPlanned p)" "cl_appliedPercent c = r4 ((fp_factor p - 1) * 100)"
      using d other by (cases plan) (auto simp: done_on_def)
    obtain x where x: "number_in (obj_get (kn_basis inp) ''capPercent'') = Some x" "x \<le> cap + 1 / 10 ^ 9"
      using sameNumber_Some terms(2) [OF cap(2)] cap(1) by auto
    obtain ratio where "fp_factor p = fst (snd (boundFactor ratio (Some x) (number_in (obj_get (kn_basis inp) ''floorPercent'')) (ratchet_in (kn_basis inp))))"
      using plan_cases [OF p(1)] cap(2) x(1) cpi_plan_factor by metis
    with boundFactor_cap [of ratio x] have "fp_factor p \<le> max (1 + x / 100) 1" by metis
    with x(2) have "(fp_factor p - 1) * 100 \<le> max (cap + 1 / 10 ^ 9) 0" by (auto simp: max_def field_simps split: if_splits)
    then show ?thesis unfolding p(2) by (rule r4_mono)
  qed
  with band other up terms figures show ?thesis
    by (auto simp: sanityOf_def isReduction_def split: option.split)
qed

section \<open>A review on the sample schedule\<close>

definition sample_lease :: lease_terms where
  "sample_lease =
     \<lparr>ls_cpiCapPercent = Some 5, ls_cpiFloorPercent = None, ls_cpiReferenceRule = None, ls_cpiRegion = Some ''Darwin'', ls_fixedPercent = None,
      ls_reviewIntervalMonths = Some 12, ls_reviewRatchet = True\<rparr>"

definition cpi_review :: calc_input where
  "cpi_review =
     \<lparr>kn_basis = leaseBasis CalcCpi sample_lease ''2025-07-01'', kn_groups = [], kn_computedAt = ''2025-09-01'',
      kn_computedBy = \<lparr>pe_name = ''Ada'', pe_userId = Some 7\<rparr>,
      kn_cpiRows = [\<lparr>ci_value = 103, ci_period = ''2025-Q2'', ci_base = Some ''2024''\<rparr>, \<lparr>ci_value = 100, ci_period = ''2024-Q2'', ci_base = Some ''2024''\<rparr>],
      kn_departures = [], kn_fallbackAnnual = 0, kn_fallbackSqm = 0, kn_lease = sample_terms, kn_manual = None, kn_method = CalcCpi,
      kn_fees = [], kn_newStepId = ''n'', kn_reliefs = [], kn_reviewId = ''r1'', kn_sanity = DEFAULT_SANITY,
      kn_scheduledFor = ''2025-07-01'', kn_scheduleVersion = 3, kn_stepId = Some ''b'', kn_steps = take 2 sample_steps, kn_today = ''2025-09-01''\<rparr>"

definition cpi_calc :: review_calc where
  "cpi_calc = (case calculateReview cpi_review of Some (CalcDone c) \<Rightarrow> c | _ \<Rightarrow> undefined)"

lemma cpi_calculated: "case calculateReview cpi_review of Some (CalcDone c) \<Rightarrow> approvalReasonsOf c = [] \<and> cl_newAnnual c = 103000 | _ \<Rightarrow> False"
  by code_simp

lemma cpi_done: "calculateReview cpi_review = Some (CalcDone cpi_calc)" "approvalReasonsOf cpi_calc = []" "cl_newAnnual cpi_calc = 103000"
  using cpi_calculated by (auto simp: cpi_calc_def split: option.splits calc_result.splits)

theorem shown_is_written_witness:
  "\<exists>w existing. writtenFromCalc (recheck cpi_review cpi_calc) = Written w existing \<and> sr_annual (wr_row w) = 103000"
  using shown_is_written [OF cpi_done(1)] cpi_done(3) by auto

theorem one_step_within_lease_witness: "cl_appliedPercent cpi_calc \<le> r4 (max (5 + 1 / 10 ^ 9) 0)"
proof -
  have "kn_departures cpi_review = leaseDepartures (kn_method cpi_review) (kn_basis cpi_review) sample_lease" by code_simp
  moreover have "kn_method cpi_review = CalcCpi" "ls_cpiCapPercent sample_lease = Some 5" by (simp_all add: cpi_review_def sample_lease_def)
  ultimately show ?thesis using one_step_within_lease [OF cpi_done(1,2), of sample_lease] cpi_done(3) by simp
qed

theorem lease_review_written_naturally_witness:
  "\<exists>w existing. writtenFromCalc (recheck cpi_review cpi_calc) = Written w existing \<and> wr_representation w = Natural"
proof -
  let ?base = "plain_step ''b'' ''2025-07-01'' MFixed 3"
  have base: "reviewRow (kn_steps cpi_review) (calc_target cpi_review) = RowPlaced ?base (Some ?base)" by code_simp
  have before: "map_option (\<lambda>r. (sr_pending r, sr_annual r)) (si_row (before_review cpi_review ?base)) = Some (False, 100000)" by code_simp
  then obtain row where row: "si_row (before_review cpi_review ?base) = Some row" "\<not> sr_pending row" "0 < sr_annual row" by auto
  have "case plan_of cpi_review ?base of Some (FactorPlanned p) \<Rightarrow> True | _ \<Rightarrow> False" by code_simp
  then obtain p where p: "plan_of cpi_review ?base = Some (FactorPlanned p)" by (auto split: option.splits factor_result.splits)
  have side: "distinct (map rs_id (kn_steps cpi_review))" "rs_exempt ?base = None" "on_lease_terms cpi_review" "kn_method cpi_review \<noteq> CalcOther"
    by code_simp+
  from lease_review_written_naturally [OF side(1) base row side(2) p side(3,4)] cpi_done(1) show ?thesis by auto
qed
end
