(* ===== verification/Arrears_Correct.thy ===== *)
theory Arrears_Correct
  imports Review_Receipt Review_Cascade_Correct
begin

text \<open>
  The arrears of a rent review: on any reliefs a tenancy can have, an increase owes something between nothing and the
  days' share of it, to half a cent a stretch.
\<close>

section \<open>Cents\<close>

lemma r2_add_cents:
  assumes "in_cents d"
  shows "r2 (x + d) = r2 x + d"
proof -
  obtain k where k: "d = of_int k / 100" using assms unfolding in_cents_iff by blast
  have "js_round (x * 100 + of_int k) = js_round (x * 100) + k" by (simp add: js_round_def add.commute add.left_commute)
  then show ?thesis by (simp add: r2_def k distrib_right add_divide_distrib)
qed

lemma in_cents_diff: "in_cents a \<Longrightarrow> in_cents b \<Longrightarrow> in_cents (a - b)"
  unfolding in_cents_iff by (metis diff_divide_distrib of_int_diff)

text \<open>A figure that grows no faster than an amount in cents still does once both are rounded.\<close>

lemma r2_lipschitz: "in_cents d \<Longrightarrow> y \<le> x + d \<Longrightarrow> r2 y \<le> r2 x + d"
  using r2_mono [of y "x + d"] by (simp add: r2_add_cents)

lemma to_the_cent_iff: "to_the_cent a \<longleftrightarrow> 0 \<le> a \<and> in_cents a"
  by (simp add: to_the_cent_def in_cents_def)

section \<open>A relief on a change\<close>

lemma relieve_change:
  assumes "to_the_cent b" "to_the_cent a" "b \<le> a" "sound_relief r"
  shows "the (relieve (Some b) r scope) \<le> the (relieve (Some a) r scope)"
    and "the (relieve (Some a) r scope) - the (relieve (Some b) r scope) \<le> a - b"
proof -
  have v: "0 \<le> rr_value r" "rr_kind r = RkPercent \<Longrightarrow> rr_value r \<le> 100" using assms(4) by (simp_all add: sound_relief_def)
  have d: "in_cents (a - b)" using assms(1,2) by (simp add: to_the_cent_iff in_cents_diff)
  have p: "rr_kind r = RkPercent \<Longrightarrow> b * (100 - rr_value r) \<le> a * (100 - rr_value r)"
    using assms(3) v(2) by (intro mult_right_mono) simp_all
  have "(a - b) * (100 - rr_value r) \<le> (a - b) * 100" using assms(3) v(1) by (intro mult_left_mono) simp_all
  then have q: "a * (100 - rr_value r) / 100 \<le> b * (100 - rr_value r) / 100 + (a - b)" by (simp add: field_simps)
  show "the (relieve (Some b) r scope) \<le> the (relieve (Some a) r scope)"
    using assms(3) p by (auto simp: relieve_def intro!: r2_mono divide_right_mono)
  have "r2 (a * (100 - rr_value r) / 100) \<le> r2 (b * (100 - rr_value r) / 100) + (a - b)" using q by (rule r2_lipschitz [OF d])
  moreover have "r2 (max 0 (a - rr_value r)) \<le> r2 (max 0 (b - rr_value r)) + (a - b)"
    using assms(3) by (intro r2_lipschitz [OF d]) (simp add: max_def)
  moreover have "r2 (min a (rr_value r)) \<le> r2 (min b (rr_value r)) + (a - b)"
    using assms(3) by (intro r2_lipschitz [OF d]) (simp add: min_def)
  ultimately show "the (relieve (Some a) r scope) - the (relieve (Some b) r scope) \<le> a - b"
    by (simp add: relieve_def)
qed

definition sound_change_on :: "arrears_change \<Rightarrow> bool" where
  "sound_change_on c \<longleftrightarrow> to_the_cent (ac_before c) \<and> to_the_cent (ac_after c) \<and> ac_before c \<le> ac_after c"

lemma relieved_change:
  assumes "sound_change_on c" "\<And>r. relief = Some r \<Longrightarrow> sound_relief r"
    and d_def: "d = relieved_value relief scope (ac_after c) - relieved_value relief scope (ac_before c)"
  shows "0 \<le> r2 d" "r2 d \<le> ac_after c - ac_before c"
proof -
  have "0 \<le> d \<and> d \<le> ac_after c - ac_before c"
  proof (cases relief)
    case (Some r)
    with relieve_change [of "ac_before c" "ac_after c" r scope] assms(1,2) show ?thesis
      by (simp add: d_def sound_change_on_def relieved_value_def)
  qed (use assms(1) in \<open>simp add: d_def sound_change_on_def relieved_value_def\<close>)
  moreover have "r2 (ac_after c - ac_before c) = ac_after c - ac_before c"
    using assms(1) in_cents_diff by (simp add: sound_change_on_def to_the_cent_iff in_cents_def)
  ultimately show "0 \<le> r2 d" "r2 d \<le> ac_after c - ac_before c" using r2_nonneg r2_mono [of d "ac_after c - ac_before c"] by auto
qed

section \<open>The stretches\<close>

lemma days_from_day: "day_range D \<Longrightarrow> day_range E \<Longrightarrow> days_from (iso_day D) (iso_day E) = E - D"
  by (simp add: days_from_def daysBetweenIso_day)

lemma share_bounds:
  fixes x d :: rat
  assumes "0 \<le> x" "x \<le> d" "0 \<le> n"
  shows "0 \<le> r2 (x * of_int n / 365)" "r2 (x * of_int n / 365) \<le> d * of_int n / 365 + 1 / 200"
proof -
  show "0 \<le> r2 (x * of_int n / 365)" using assms by (intro r2_nonneg) simp
  have "x * of_int n / 365 \<le> d * of_int n / 365" using assms by (intro divide_right_mono mult_right_mono) simp_all
  moreover have "r2 (x * of_int n / 365) \<le> x * of_int n / 365 + 1 / 200" by (simp add: r2_def js_round_def)
  ultimately show "r2 (x * of_int n / 365) \<le> d * of_int n / 365 + 1 / 200" by simp
qed

lemma stretch_bounds:
  assumes "sound_change_on c" "\<And>r. relief = Some r \<Longrightarrow> sound_relief r" "day_range D" "day_range E" "D \<le> E"
  shows "0 \<le> stretch_amount c relief (iso_day D) (iso_day E)"
    and "stretch_amount c relief (iso_day D) (iso_day E) \<le> (ac_after c - ac_before c) * of_int (E - D) / 365 + 1 / 200"
    and "in_cents (stretch_amount c relief (iso_day D) (iso_day E))"
proof -
  have n: "0 \<le> E - D" using assms(5) by simp
  note s = share_bounds [OF relieved_change [OF assms(1,2) refl, of relief "SCOPE_OF (ac_kind c)"] n]
  show "0 \<le> stretch_amount c relief (iso_day D) (iso_day E)"
    and "stretch_amount c relief (iso_day D) (iso_day E) \<le> (ac_after c - ac_before c) * of_int (E - D) / 365 + 1 / 200"
    and "in_cents (stretch_amount c relief (iso_day D) (iso_day E))"
    using s unfolding stretch_amount_def Let_def days_from_day [OF assms(3,4)] by simp_all
qed

lemma stretches_bounds:
  assumes "sound_change_on c" "\<And>r. r \<in> set covering \<Longrightarrow> sound_relief r"
  shows "sorted (D # Ds) \<Longrightarrow> list_all day_range (D # Ds) \<Longrightarrow> in_cents a \<Longrightarrow>
    in_cents (fst (relieved_stretches c covering (a, used) (map iso_day (D # Ds)))) \<and>
    a \<le> fst (relieved_stretches c covering (a, used) (map iso_day (D # Ds))) \<and>
    fst (relieved_stretches c covering (a, used) (map iso_day (D # Ds))) \<le>
      a + (ac_after c - ac_before c) * of_int (last (D # Ds) - D) / 365 + of_nat (length Ds) / 200"
proof (induction Ds arbitrary: D a used)
  case (Cons E Es)
  let ?relief = "relief_on covering (iso_day D)"
  let ?s = "stretch_amount c ?relief (iso_day D) (iso_day E)"
  have sound: "?relief = Some r \<Longrightarrow> sound_relief r" for r using assms(2) by (auto simp: relief_on_def dest: find_some)
  have s: "0 \<le> ?s" "?s \<le> (ac_after c - ac_before c) * of_int (E - D) / 365 + 1 / 200" "in_cents ?s"
    using Cons.prems by (intro stretch_bounds [OF assms(1) sound]; simp)+
  have next_amount: "r2 (a + ?s) = a + ?s" using in_cents_add [OF Cons.prems(3) s(3)] by (simp add: in_cents_def)
  have split: "(ac_after c - ac_before c) * of_int (last (E # Es) - D) / 365 =
      (ac_after c - ac_before c) * of_int (last (E # Es) - E) / 365 + (ac_after c - ac_before c) * of_int (E - D) / 365"
    by (simp only: add_divide_distrib [symmetric] distrib_left [symmetric] of_int_add [symmetric]) simp
  from Cons.IH [of E "a + ?s" "used @ lowered_by c ?relief"] Cons.prems in_cents_add [OF Cons.prems(3) s(3)] s(1,2) split show ?case
    by (simp add: Let_def next_amount add_divide_distrib del: last.simps) (auto simp: add_divide_distrib)
qed simp

section \<open>The bounds of the stretches\<close>

lemma text_order_le: "text_order a b \<le> 0 \<longleftrightarrow> js_le a b"
  using js_less_linear [of a b] js_less_asym by (auto simp: text_order_def js_le_def)

interpretation texts: consistent_comparator text_order
proof
  show "text_order x y \<le> 0 \<or> text_order y x \<le> 0" for x y using js_le_total by (simp add: text_order_le)
  show "text_order x y \<le> 0 \<Longrightarrow> text_order y z \<le> 0 \<Longrightarrow> text_order x z \<le> 0" for x y z
    unfolding text_order_le by (rule js_le_trans)
qed

lemma day_texts: "(\<And>x. x \<in> set xs \<Longrightarrow> \<exists>D. x = iso_day D \<and> day_range D) \<Longrightarrow> \<exists>Ds. xs = map iso_day Ds \<and> list_all day_range Ds"
proof (induction xs)
  case (Cons x xs)
  then obtain D Ds where "x = iso_day D \<and> day_range D" "xs = map iso_day Ds \<and> list_all day_range Ds" by fastforce
  then show ?case by (intro exI [of _ "D # Ds"]) simp
qed simp

definition dated_relief :: "rent_relief \<Rightarrow> bool" where
  "dated_relief r \<longleftrightarrow> sound_relief r \<and> (\<exists>A B. rr_from r = iso_day A \<and> rr_to r = iso_day B \<and> day_range A \<and> day_range B \<and> day_range (B + 1))"

lemma relief_dates:
  assumes "dated_relief r"
  shows "\<exists>A. rr_from r = iso_day A \<and> day_range A" "\<exists>B. reliefEnd r = iso_day B \<and> day_range B"
  using assms by (auto simp: dated_relief_def reliefEnd_def day_after_def addDaysIso_day)

lemma length_js_unique: "length (js_unique xs) \<le> length xs"
  by (simp add: js_unique_def length_remdups_leq [of "rev xs", simplified])

lemma cuts_days:
  assumes "day_range D" "day_range E" "D \<le> E" "\<And>r. r \<in> set covering \<Longrightarrow> dated_relief r"
  shows "\<exists>Ds. relief_cuts (iso_day D) (iso_day E) covering = map iso_day Ds \<and> list_all day_range Ds \<and> sorted (D # Ds @ [E]) \<and>
    length Ds \<le> 2 * length covering"
proof -
  let ?cuts = "relief_cuts (iso_day D) (iso_day E) covering"
  have cut: "x \<in> set ?cuts \<Longrightarrow> js_less (iso_day D) x \<and> js_less x (iso_day E) \<and> (\<exists>C. x = iso_day C \<and> day_range C)" for x
    using relief_dates assms(4) by (auto simp: relief_cuts_def)
  with day_texts [of ?cuts] obtain Ds where Ds: "?cuts = map iso_day Ds" "list_all day_range Ds" by blast
  have inside: "C \<in> set Ds \<Longrightarrow> D \<le> C \<and> C \<le> E" for C
    using cut [of "iso_day C"] Ds assms(1,2) by (auto simp: iso_day_less list_all_iff)
  have "sorted_wrt (\<lambda>a b. text_order a b \<le> 0) ?cuts" unfolding relief_cuts_def by (rule texts.sorted_sort_by)
  then have "sorted_wrt (\<lambda>a b. text_order (iso_day a) (iso_day b) \<le> 0) Ds" by (simp add: Ds sorted_wrt_map)
  then have "sorted Ds"
    by (rule sorted_wrt_mono_rel [rotated]) (use Ds(2) in \<open>simp add: text_order_le list_all_iff js_le_iso_day\<close>)
  moreover have "length ?cuts \<le> length (concat (map (\<lambda>r. [rr_from r, reliefEnd r]) covering))"
    unfolding relief_cuts_def length_sort_by by (rule order_trans [OF length_filter_le length_js_unique])
  then have "length ?cuts \<le> 2 * length covering" by (simp add: length_concat comp_def sum_list_triv)
  ultimately show ?thesis using Ds inside assms(3) by (intro exI [of _ Ds]) (auto simp: sorted_append)
qed

section \<open>The arrears\<close>

lemma change_bounds:
  assumes "sound_change_on c" "day_range D" "day_range E" "D \<le> E" "\<And>r. r \<in> set reliefs \<Longrightarrow> dated_relief r"
  shows "list_all (\<lambda>p. 0 \<le> ap_amount p \<and> in_cents (ap_amount p)) (fst (arrears_part_of (iso_day D) (iso_day E) reliefs c)) \<and>
    (\<Sum>p\<leftarrow>fst (arrears_part_of (iso_day D) (iso_day E) reliefs c). ap_amount p) \<le>
      (ac_after c - ac_before c) * of_int (E - D) / 365 + of_nat (2 * length reliefs + 1) / 200"
proof -
  let ?covering = "covering_reliefs (SCOPE_OF (ac_kind c)) (iso_day D) (iso_day E) reliefs"
  let ?share = "(ac_after c - ac_before c) * of_int (E - D) / 365"
  have share: "0 \<le> ?share" using assms(1,4) by (simp add: sound_change_on_def)
  have d: "0 \<le> r2 (ac_after c - ac_before c)" "r2 (ac_after c - ac_before c) \<le> ac_after c - ac_before c"
    using relieved_change [OF assms(1) _ refl, where relief = None] by (simp_all add: relieved_value_def)
  show ?thesis
  proof (cases "relievedPart c (iso_day D) (iso_day E) reliefs")
    case None
    have "0 \<le> E - D" using assms(4) by simp
    note p = share_bounds [OF d this]
    have "(1 :: rat) / 200 \<le> of_nat (2 * length reliefs + 1) / 200" by (intro divide_right_mono) simp_all
    with p(2) have "plain_part c (E - D) \<le> ?share + of_nat (2 * length reliefs + 1) / 200" "0 \<le> ?share + of_nat (2 * length reliefs + 1) / 200"
      using share unfolding plain_part_def by linarith+
    moreover have "0 \<le> plain_part c (E - D)" "in_cents (plain_part c (E - D))" using p(1) by (simp_all add: plain_part_def)
    ultimately show ?thesis by (simp add: arrears_part_of_def Let_def None days_from_day [OF assms(2,3)])
  next
    case (Some part)
    have covering: "set ?covering \<subseteq> set reliefs" "length ?covering \<le> length reliefs" by (auto simp: covering_reliefs_def)
    then have dated: "r \<in> set ?covering \<Longrightarrow> dated_relief r" for r using assms(5) by blast
    obtain Ds where Ds: "relief_cuts (iso_day D) (iso_day E) ?covering = map iso_day Ds" "list_all day_range Ds" "sorted (D # Ds @ [E])"
      "length Ds \<le> 2 * length ?covering"
      using cuts_days [OF assms(2-4) dated] by blast
    have part: "part = relieved_stretches c ?covering (0, []) (map iso_day (D # Ds @ [E]))"
      using Some by (simp add: relievedPart_def Let_def Ds(1) split: if_splits)
    have sound: "r \<in> set ?covering \<Longrightarrow> sound_relief r" for r using dated by (simp add: dated_relief_def)
    have b: "in_cents (fst part)" "0 \<le> fst part" "fst part \<le> ?share + of_nat (length Ds + 1) / 200"
      using stretches_bounds [OF assms(1) sound, of ?covering D "Ds @ [E]" 0 "[]"] Ds(2,3) assms(2,3) by (simp_all add: part)
    have "(of_nat (length Ds + 1) :: rat) \<le> of_nat (2 * length reliefs + 1)"
      unfolding of_nat_le_iff using Ds(4) covering(2) by linarith
    then have "(of_nat (length Ds + 1) :: rat) / 200 \<le> of_nat (2 * length reliefs + 1) / 200" by (rule divide_right_mono) simp
    with b(3) have "fst part \<le> ?share + of_nat (2 * length reliefs + 1) / 200" by linarith
    moreover have "0 \<le> ?share + of_nat (2 * length reliefs + 1) / 200" using share by (intro add_nonneg_nonneg) simp_all
    ultimately show ?thesis using b(1,2) by (cases part) (simp add: arrears_part_of_def Let_def Some)
  qed
qed

lemma changes_bounds:
  assumes "\<And>c. c \<in> set changes \<Longrightarrow> sound_change_on c" "day_range D" "day_range E" "D \<le> E" "\<And>r. r \<in> set reliefs \<Longrightarrow> dated_relief r"
  shows "list_all (\<lambda>p. 0 \<le> ap_amount p \<and> in_cents (ap_amount p)) (concat (map fst (map (arrears_part_of (iso_day D) (iso_day E) reliefs) changes))) \<and>
    (\<Sum>p\<leftarrow>concat (map fst (map (arrears_part_of (iso_day D) (iso_day E) reliefs) changes)). ap_amount p) \<le>
      (\<Sum>c\<leftarrow>changes. ac_after c - ac_before c) * of_int (E - D) / 365 + of_nat (length changes * (2 * length reliefs + 1)) / 200"
  using assms(1)
proof (induction changes)
  case (Cons c changes)
  define S P n where "S = (\<Sum>c\<leftarrow>changes. ac_after c - ac_before c)"
    and "P = concat (map fst (map (arrears_part_of (iso_day D) (iso_day E) reliefs) changes))" and "n = 2 * length reliefs + 1"
  note folds = S_def [symmetric] P_def [symmetric] n_def [symmetric]
  have head: "list_all (\<lambda>p. 0 \<le> ap_amount p \<and> in_cents (ap_amount p)) (fst (arrears_part_of (iso_day D) (iso_day E) reliefs c))"
    "(\<Sum>p\<leftarrow>fst (arrears_part_of (iso_day D) (iso_day E) reliefs c). ap_amount p) \<le> (ac_after c - ac_before c) * of_int (E - D) / 365 + of_nat n / 200"
    using change_bounds [OF Cons.prems [of c] assms(2-5)] by (simp_all add: n_def)
  have rest: "list_all (\<lambda>p. 0 \<le> ap_amount p \<and> in_cents (ap_amount p)) P"
    "(\<Sum>p\<leftarrow>P. ap_amount p) \<le> S * of_int (E - D) / 365 + of_nat (length changes * n) / 200"
    using Cons.IH Cons.prems unfolding folds by simp_all
  have "((ac_after c - ac_before c) + S) * of_int (E - D) / 365 + of_nat (length (c # changes) * n) / 200 =
      ((ac_after c - ac_before c) * of_int (E - D) / 365 + of_nat n / 200) + (S * of_int (E - D) / 365 + of_nat (length changes * n) / 200)"
    by (simp add: distrib_right add_divide_distrib)
  with add_mono [OF head(2) rest(2)] head(1) rest(1) show ?case
    unfolding list.map concat.simps map_append sum_list_append list_all_append sum_list.Cons folds by simp
qed simp

text \<open>C19: The arrears of an increase, on whatever ratified reliefs the tenancy has, are never below nothing, line by line, add up
  exactly to their total, and the total is at most the days' share of the yearly increase, to half a cent a stretch of
  days between the starts and ends of the reliefs.\<close>

theorem arrears_bounded:
  assumes "arrearsFor (iso_day D) (iso_day E) changes reliefs = Some l" "day_range D" "day_range E"
    and "\<And>c. c \<in> set changes \<Longrightarrow> sound_change_on c" "\<And>r. r \<in> set reliefs \<Longrightarrow> dated_relief r"
  shows "al_amount l = (\<Sum>p\<leftarrow>al_lines l. ap_amount p) \<and> list_all (\<lambda>p. 0 \<le> ap_amount p) (al_lines l) \<and> 0 \<le> al_amount l \<and>
    al_amount l \<le> (\<Sum>c\<leftarrow>changes. ac_after c - ac_before c) * of_int (E - D) / 365 +
      of_nat (length changes * (2 * length reliefs + 1)) / 200"
proof -
  let ?lines = "concat (map fst (map (arrears_part_of (iso_day D) (iso_day E) reliefs) changes))"
  have l: "D \<le> E" "al_lines l = ?lines" "al_amount l = r2 (\<Sum>p\<leftarrow>?lines. ap_amount p)"
    using assms(1-3) by (auto simp: arrearsFor_def Let_def days_from_day split: if_splits)
  have b: "list_all (\<lambda>p. 0 \<le> ap_amount p \<and> in_cents (ap_amount p)) ?lines"
    "(\<Sum>p\<leftarrow>?lines. ap_amount p) \<le> (\<Sum>c\<leftarrow>changes. ac_after c - ac_before c) * of_int (E - D) / 365 +
      of_nat (length changes * (2 * length reliefs + 1)) / 200"
    using changes_bounds [of changes D E reliefs] assms(2-5) l(1) by blast+
  have "in_cents (\<Sum>p\<leftarrow>?lines. ap_amount p)" using b(1) by (intro in_cents_sum) (simp add: list_all_iff)
  then have total: "al_amount l = (\<Sum>p\<leftarrow>al_lines l. ap_amount p)" by (simp add: l in_cents_def)
  moreover have "0 \<le> (\<Sum>p\<leftarrow>?lines. ap_amount p)" using b(1) by (intro sum_list_nonneg) (auto simp: list_all_iff)
  ultimately show ?thesis using b by (simp add: l(2) list_all_iff)
qed

text \<open>A year's increase of 3,650 with half the rent forgiven for its first half year.\<close>

definition half_off :: rent_relief where
  "half_off = \<lparr>rr_from = iso_day 19905, rr_id = ''r'', rr_kind = RkPercent, rr_scope = [ScopeRent], rr_to = iso_day 20004, rr_value = 50\<rparr>"

theorem arrears_bounded_witness:
  "map_option al_amount (arrearsFor (iso_day 19905) (iso_day 20105) [rent_change 100000 103650] [half_off]) = Some 1500 \<and>
    (1500 :: rat) \<le> 3650 * 200 / 365 + 3 / 200"
proof -
  have some: "map_option al_amount (arrearsFor (iso_day 19905) (iso_day 20105) [rent_change 100000 103650] [half_off]) = Some 1500"
    by code_simp
  then obtain l where l: "arrearsFor (iso_day 19905) (iso_day 20105) [rent_change 100000 103650] [half_off] = Some l" "al_amount l = 1500"
    by auto
  have days: "day_range 19905" "day_range 20105" "day_range 20004" "day_range 20005" by code_simp+
  have "sound_change_on (rent_change 100000 103650)" by code_simp
  moreover have "dated_relief half_off"
    unfolding dated_relief_def half_off_def sound_relief_def
    using days by (intro conjI exI [of _ 19905] exI [of _ 20004]) simp_all
  ultimately have "al_amount l \<le> (\<Sum>c\<leftarrow>[rent_change 100000 103650]. ac_after c - ac_before c) * of_int (20105 - 19905) / 365 +
      of_nat (length [rent_change 100000 103650] * (2 * length [half_off] + 1)) / 200"
    using arrears_bounded [OF l(1) days(1,2)] by auto
  with some l(2) show ?thesis by (simp add: rent_change_def)
qed

end
