(* ===== verification/Review_Basis.thy ===== *)
theory Review_Basis
  imports Review_Calc Rent_Review_Machine
begin

text \<open>
  The terms a review is decided on: the basis of \<open>src/rentReview/basis.ts\<close> (its snapshot at commence and the
  edits a person may make) and the method of a review, \<open>src/rentReview/method.ts\<close> with \<open>src/leaseMethod.ts\<close>.
  A basis is its JSON object; the reading of the stored text is not modelled. A check of a key answers the
  cleaned value or \<open>None\<close> for a refusal.
\<close>

section \<open>The method of a review\<close>

fun review_kind :: "method_kind \<Rightarrow> review_method option" where
  "review_kind MCpi = Some cpi"
| "review_kind MFixed = Some fixed"
| "review_kind MMarket = Some market"
| "review_kind MOther = Some other"
| "review_kind MCommencement = None"

definition reviewMethodOf :: "method_kind option \<Rightarrow> review_method option" where
  "reviewMethodOf kind = Option.bind kind review_kind"

definition js_includes :: "string \<Rightarrow> string \<Rightarrow> bool" where
  "js_includes s part \<longleftrightarrow> list_ex (\<lambda>i. take (length part) (drop i s) = part) [0..<length s + 1]"

definition mapMethodKind :: "string \<Rightarrow> method_kind option" where
  "mapMethodKind raw =
     (let normalised = js_lower (js_trim raw)
      in if normalised = '''' then None
         else if js_includes normalised ''commencement'' then Some MCommencement
         else if js_includes normalised ''cpi'' then Some MCpi
         else if js_includes normalised ''market'' then Some MMarket
         else if js_includes normalised ''fixed'' \<or> last normalised = CHR ''%'' then Some MFixed
         else None)"

datatype method_source = FromFallback | FromReviewType | FromStep

definition resolveReviewMethod :: "string option \<Rightarrow> rate_step option \<Rightarrow> review_method \<times> method_source" where
  "resolveReviewMethod reviewType step =
     (case reviewMethodOf (Option.bind step rs_method) of
        Some m \<Rightarrow> (m, FromStep)
      | None \<Rightarrow>
          (case reviewMethodOf (mapMethodKind (case reviewType of Some t \<Rightarrow> t | None \<Rightarrow> '''')) of
             Some m \<Rightarrow> (m, FromReviewType)
           | None \<Rightarrow> (other, FromFallback)))"

definition hasNoReviewClause :: "string option \<Rightarrow> bool" where
  "hasNoReviewClause reviewType \<longleftrightarrow> js_lower (js_trim (case reviewType of Some t \<Rightarrow> t | None \<Rightarrow> '''')) = ''none''"

definition stepOnDate :: "rate_step list \<Rightarrow> string \<Rightarrow> rate_step option" where
  "stepOnDate steps scheduledFor = find (\<lambda>s. rs_from s = scheduledFor \<and> rs_method s \<noteq> Some MCommencement) steps"

section \<open>The snapshot\<close>

definition DEFAULT_REVIEW_INTERVAL_MONTHS :: rat where "DEFAULT_REVIEW_INTERVAL_MONTHS = 12"
definition PERCENT_MIN :: rat where "PERCENT_MIN = -100"
definition PERCENT_MAX :: rat where "PERCENT_MAX = 100"
definition INTERVAL_MIN :: rat where "INTERVAL_MIN = 1"
definition INTERVAL_MAX :: rat where "INTERVAL_MAX = 120"
definition CLAUSE_MAX_CHARS :: nat where "CLAUSE_MAX_CHARS = 500"
definition DESCRIPTION_MAX_CHARS :: nat where "DESCRIPTION_MAX_CHARS = 2000"
definition DEADLINES_MAX :: nat where "DEADLINES_MAX = 20"
definition DEADLINE_LABEL_MAX_CHARS :: nat where "DEADLINE_LABEL_MAX_CHARS = 100"

definition CPI_REFERENCE_RULES :: "string list" where
  "CPI_REFERENCE_RULES = [''quarter_before_review_date'', ''latest_published_before_review'']"

record basis_source =
  bs_cpiCapPercent :: "rat option"
  bs_cpiFloorPercent :: "rat option"
  bs_cpiReferenceRule :: "string option"
  bs_cpiRegion :: "string option"
  bs_fixedReviewPercent :: "rat option"
  bs_intervalMonths :: "rat option"
  bs_method :: review_method
  bs_ratchet :: bool
  bs_reviewType :: "string option"
  bs_reviewDate :: string
  bs_step :: "rate_step option"

definition regionOrNull :: "string option \<Rightarrow> json" where
  "regionOrNull v =
     (case map_option (\<lambda>r. map js_upper_latin (js_trim r)) v of
        Some r \<Rightarrow> if r = ''AUS'' \<or> r = ''DARWIN'' then JStr r else JNull
      | None \<Rightarrow> JNull)"

definition fixedPercentOf :: "basis_source \<Rightarrow> rat option" where
  "fixedPercentOf source =
     (case bs_fixedReviewPercent source of
        Some p \<Rightarrow> Some p
      | None \<Rightarrow> (case bs_step source of Some s \<Rightarrow> if rs_method s = Some MFixed then Some (rs_ratePercent s) else None | None \<Rightarrow> None))"

fun review_method_name :: "review_method \<Rightarrow> string" where
  "review_method_name cpi = ''cpi''"
| "review_method_name fixed = ''fixed''"
| "review_method_name market = ''market''"
| "review_method_name other = ''other''"

definition rule_name :: "string option \<Rightarrow> string" where
  "rule_name v = (if cpi_rule_named v = LatestPublished then ''latest_published_before_review'' else ''quarter_before_review_date'')"

fun snapshot_of_method :: "review_method \<Rightarrow> basis_source \<Rightarrow> json_object" where
  "snapshot_of_method cpi source =
     [(''capPercent'', json_number (bs_cpiCapPercent source)), (''floorPercent'', json_number (bs_cpiFloorPercent source)),
      (''referenceQuarterRule'', JStr (rule_name (bs_cpiReferenceRule source))), (''region'', regionOrNull (bs_cpiRegion source))]"
| "snapshot_of_method fixed source = [(''fixedPercent'', json_number (fixedPercentOf source))]"
| "snapshot_of_method market source = [(''deadlines'', JArr []), (''leaseClause'', JNull)]"
| "snapshot_of_method other source = [(''description'', JNull)]"

definition buildBasisSnapshot :: "basis_source \<Rightarrow> json_object" where
  "buildBasisSnapshot source =
     [(''intervalMonths'', JNum (Num (case bs_intervalMonths source of Some n \<Rightarrow> n | None \<Rightarrow> DEFAULT_REVIEW_INTERVAL_MONTHS))),
      (''method'', JStr (review_method_name (bs_method source))), (''ratchet'', JBool (bs_ratchet source)),
      (''reviewDate'', JStr (bs_reviewDate source)),
      (''reviewType'', case bs_reviewType source of Some t \<Rightarrow> if js_trim t = '''' then JNull else JStr (js_trim t) | None \<Rightarrow> JNull)] @
     snapshot_of_method (bs_method source) source"

section \<open>Editing\<close>

type_synonym key_check = "json \<Rightarrow> json option"

definition check_percent :: key_check where
  "check_percent v =
     (case v of
        JNull \<Rightarrow> Some JNull
      | JNum (Num n) \<Rightarrow> if PERCENT_MIN \<le> n \<and> n \<le> PERCENT_MAX then Some v else None
      | _ \<Rightarrow> None)"

definition check_text :: "nat \<Rightarrow> key_check" where
  "check_text limit v =
     (case v of
        JNull \<Rightarrow> Some JNull
      | JStr s \<Rightarrow> (let t = js_trim s in if length t > limit then None else Some (if t = '''' then JNull else JStr t))
      | _ \<Rightarrow> None)"

definition checkInterval :: key_check where
  "checkInterval v = (case v of JNum (Num n) \<Rightarrow> if is_integer n \<and> INTERVAL_MIN \<le> n \<and> n \<le> INTERVAL_MAX then Some v else None | _ \<Rightarrow> None)"

definition checkRatchet :: key_check where
  "checkRatchet v = (case v of JBool b \<Rightarrow> Some v | _ \<Rightarrow> None)"

definition checkRegion :: key_check where
  "checkRegion v = (if v = JNull \<or> v = JStr ''AUS'' \<or> v = JStr ''DARWIN'' then Some v else None)"

definition checkRule :: key_check where
  "checkRule v = (case v of JStr s \<Rightarrow> if s \<in> set CPI_REFERENCE_RULES then Some v else None | _ \<Rightarrow> None)"

definition clean_deadline :: "json \<Rightarrow> json option" where
  "clean_deadline entry =
     (case entry of
        JObj obj \<Rightarrow>
          (let label = (case text_of (obj_get obj ''label'') of Some s \<Rightarrow> js_trim s | None \<Rightarrow> '''')
           in if \<exists>k\<in>set (map fst obj). k \<noteq> ''label'' \<and> k \<noteq> ''date'' then None
              else if label = '''' \<or> length label > DEADLINE_LABEL_MAX_CHARS then None
              else (case text_of (obj_get obj ''date'') of
                      Some d \<Rightarrow> if isIsoDate d then Some (JObj [(''date'', JStr d), (''label'', JStr label)]) else None
                    | None \<Rightarrow> None))
      | _ \<Rightarrow> None)"

definition checkDeadlines :: key_check where
  "checkDeadlines v =
     (case v of
        JArr entries \<Rightarrow> if length entries > DEADLINES_MAX then None else map_option JArr (those (map clean_deadline entries))
      | _ \<Rightarrow> None)"

definition COMMON_KEYS :: "(string \<times> key_check) list" where
  "COMMON_KEYS = [(''intervalMonths'', checkInterval), (''ratchet'', checkRatchet)]"

fun KEYS_BY_METHOD :: "review_method \<Rightarrow> (string \<times> key_check) list" where
  "KEYS_BY_METHOD cpi = COMMON_KEYS @
     [(''capPercent'', check_percent), (''floorPercent'', check_percent), (''referenceQuarterRule'', checkRule), (''region'', checkRegion)]"
| "KEYS_BY_METHOD fixed = COMMON_KEYS @ [(''fixedPercent'', check_percent)]"
| "KEYS_BY_METHOD market = COMMON_KEYS @ [(''deadlines'', checkDeadlines), (''leaseClause'', check_text CLAUSE_MAX_CHARS)]"
| "KEYS_BY_METHOD other = COMMON_KEYS @ [(''description'', check_text DESCRIPTION_MAX_CHARS)]"

definition editableBasisKeys :: "review_method \<Rightarrow> string list" where
  "editableBasisKeys m = map fst (KEYS_BY_METHOD m)"

datatype basis_error = BasisNotAnObject | KeyNotEditable string | BadBasisValue string

fun check_entries :: "(string \<times> key_check) list \<Rightarrow> json_object \<Rightarrow> basis_error + json_object" where
  "check_entries checks [] = Inr []"
| "check_entries checks ((key, v) # rest) =
     (case map_of checks key of
        None \<Rightarrow> Inl (KeyNotEditable key)
      | Some check \<Rightarrow>
          (case check v of
             None \<Rightarrow> Inl (BadBasisValue key)
           | Some cleaned \<Rightarrow> and_then (check_entries checks rest) (\<lambda>patch. Inr ((key, cleaned) # patch))))"

definition validateBasisPatch :: "review_method \<Rightarrow> json \<Rightarrow> basis_error + json_object" where
  "validateBasisPatch m raw =
     (case raw of
        JObj obj \<Rightarrow> if obj = [] then Inl BasisNotAnObject else check_entries (KEYS_BY_METHOD m) obj
      | _ \<Rightarrow> Inl BasisNotAnObject)"

record basis_change =
  bc_after :: json_object
  bc_basis :: json_object
  bc_before :: json_object

datatype basis_refusal = BasisUnchanged | FloorAboveCap

text \<open>The current value of a key, \<open>null\<close> where it has none; two values are the same when their JSON texts are.\<close>

definition basis_value :: "json_object \<Rightarrow> string \<Rightarrow> json" where
  "basis_value basis key = (case obj_get basis key of Some v \<Rightarrow> v | None \<Rightarrow> JNull)"

definition applyBasisPatch :: "json_object \<Rightarrow> json_object \<Rightarrow> basis_refusal + basis_change" where
  "applyBasisPatch current patch =
     (let after = filter (\<lambda>(key, v). basis_value current key \<noteq> v) patch;
          before = map (\<lambda>(key, v). (key, basis_value current key)) after;
          basis = obj_spread current after
      in if after = [] then Inl BasisUnchanged
         else (case (number_in (obj_get basis ''capPercent''), number_in (obj_get basis ''floorPercent'')) of
                 (Some cap, Some flr) \<Rightarrow>
                   if flr > cap then Inl FloorAboveCap else Inr \<lparr>bc_after = after, bc_basis = basis, bc_before = before\<rparr>
               | _ \<Rightarrow> Inr \<lparr>bc_after = after, bc_basis = basis, bc_before = before\<rparr>))"

end
