(* ===== verification/Review_Records.thy ===== *)
theory Review_Records
  imports Review_Basis Quotes
begin

text \<open>
  What a rent review is stored as and how it is moved: the rows of the review, its tenancy, the decision ledger
  and the schedule's change log, the guarded updates of \<open>src/rentReview/transitions.ts\<close> and
  \<open>src/rentReview/store.ts\<close>, the roles and readers of \<open>src/rentReview/http.ts\<close>, a director's override
  (\<open>directorOverride.ts\<close>), the level and the separation of duties an approval is held to
  (\<open>approvalLevel.ts\<close>, \<open>escalations.ts\<close>), and the tenancy's side of a decision (\<open>reviewTenancy.ts\<close>).

  The tables are lists. Every update stamps the row with the next row version and is held to the filtered unique
  index of migration 101 (one open review per tenancy). The JSON columns hold their values: a basis is its object,
  a calculation its record, the steps of a schedule the list that was stored. A person column pair (name, id) is
  one value.
\<close>

section \<open>The rows\<close>

datatype legacy_type = TypeNone | TypeFixedPercent | TypeCpi | TypeMarketReview
datatype legacy_status = StatusUpcoming | StatusDue | StatusOverdue | StatusCompleted | StatusSkipped

fun legacyReviewType :: "review_method \<Rightarrow> legacy_type" where
  "legacyReviewType cpi = TypeCpi"
| "legacyReviewType fixed = TypeFixedPercent"
| "legacyReviewType market = TypeMarketReview"
| "legacyReviewType other = TypeNone"

fun legacyStatus :: "review_state \<Rightarrow> legacy_status" where
  "legacyStatus approved = StatusCompleted"
| "legacyStatus awaiting_approval = StatusDue"
| "legacyStatus awaiting_index = StatusDue"
| "legacyStatus cancelled = StatusSkipped"
| "legacyStatus completed = StatusCompleted"
| "legacyStatus due = StatusDue"
| "legacyStatus in_progress = StatusDue"
| "legacyStatus referred = StatusDue"
| "legacyStatus scheduled = StatusUpcoming"
| "legacyStatus waived = StatusSkipped"

datatype approval_basis = BySecondPerson | AutoInBounds | ByDirectorOverride

record review_instance =
  rw_id :: string
  rw_approvalBasis :: "approval_basis option"
  rw_approvedAt :: "instant option"
  rw_approvedBy :: "calc_person option"
  rw_basis :: "json_object option"
  rw_billingConfirmed :: "(instant \<times> string) option"
  rw_buildingId :: int
  rw_calc :: "review_calc option"
  rw_cpiUsed :: "(string \<times> rat \<times> rat) option" \<comment> \<open>\<open>CpiIndexUsed, CpiBaseValue, CpiCurrentValue\<close>\<close>
  rw_expectedIndexAt :: "string option"
  rw_increasePercent :: "rat option"
  rw_method :: "review_method option"
  rw_newRent :: "rat option"
  rw_oldRent :: "rat option"
  rw_ownerUserId :: "int option"
  rw_preparedAt :: "instant option"
  rw_preparedBy :: "calc_person option"
  rw_reviewType :: legacy_type
  rw_scheduledFor :: string
  rw_state :: review_state
  rw_status :: legacy_status
  rw_stepId :: "string option"
  rw_submittedAt :: "instant option"
  rw_tenantId :: int
  rw_updatedAt :: instant
  rw_version :: nat
  rw_waiveReason :: "string option"

record tenancy_row =
  tn_id :: int
  tn_archivedAt :: "instant option"
  tn_buildingId :: int
  tn_commencement :: "string option"
  tn_cpiCapPercent :: "rat option"
  tn_cpiFloorPercent :: "rat option"
  tn_cpiReferenceRule :: "string option"
  tn_cpiRegion :: "string option"
  tn_fees :: "misc_fee list"
  tn_fixedReviewPercent :: "rat option"
  tn_groups :: "carpark_group list"
  tn_lastReviewDate :: "string option"
  tn_lastReviewPercent :: "rat option"
  tn_nextReviewDate :: "string option"
  tn_ratchet :: bool
  tn_reliefs :: "rent_relief list"
  tn_rentPerAnnum :: "rat option"
  tn_reviewIntervalMonths :: "int option"
  tn_reviewType :: "string option"
  tn_scheduleVersion :: int
  tn_settledBefore :: "string list" \<comment> \<open>the dates settled by reviews from before the workflow\<close>
  tn_signedOff :: "(string \<times> string) option" \<comment> \<open>when, by whom\<close>
  tn_status :: string
  tn_steps :: "rate_step list"
  tn_updatedBy :: "string \<times> string"

record logged_entry =
  lx_changeId :: string
  lx_change :: logged_change
  lx_tenantId :: int
  lx_changedBy :: "string \<times> string"

text \<open>What the ledger keeps of a tenancy, and of what an apply wrote.\<close>

record tenancy_fields =
  tf_lastReviewDate :: "string option"
  tf_lastReviewPercent :: "rat option"
  tf_nextReviewDate :: "string option"
  tf_rentPerAnnum :: "rat option"
  tf_scheduleVersion :: int

datatype cache_mark = CacheWritten | CacheDeferred | CacheKept

record apply_detail =
  ad_appliedPercent :: rat
  ad_cache :: cache_mark
  ad_newAnnual :: rat
  ad_oldAnnual :: rat
  ad_scheduleChanges :: "(string \<times> string) list" \<comment> \<open>change id, step id\<close>
  ad_step :: rate_step
  ad_tenancyAfter :: tenancy_fields
  ad_tenancyBefore :: tenancy_fields

datatype review_action =
    LSchedule | LOpenWindow | LCommence | LBasisUpdate | LCalculate | LIndexPending | LIndexAvailable | LSubmit | LOverride
  | LBasisDeparture | LDirectorOverride | LApply | LApprove | LReturn | LWaive | LCancel | LRevert | LRentCache | LDenied | LSodBlocked

datatype entry_detail = NoDetail | ApplyDetail apply_detail | CacheDetail "rat option" rat | OverriddenCheck override_check

datatype review_actor = ReviewUser (actor_nm: string) (actor_rl: string) (actor_uid: "int option") | ReviewSystem (actor_nm: string)

record review_entry =
  dl_action :: review_action
  dl_actor :: review_actor
  dl_detail :: entry_detail
  dl_impact :: "rat option"
  dl_reason :: "string option"
  dl_rule :: "string option"
  dl_reviewId :: string
  dl_tenantId :: int

record review_db =
  rb_areas :: "(int \<times> rat) list" \<comment> \<open>the live occupancies: tenancy, square metres\<close>
  rb_changeLog :: "logged_entry list"
  rb_cpi :: "(string \<times> cpi_index_row) list" \<comment> \<open>region, row\<close>
  rb_ledger :: "review_entry list" \<comment> \<open>in the order of their ids, which are the positions\<close>
  rb_reviews :: "review_instance list"
  rb_tenancies :: "tenancy_row list"
  rb_versions :: nat

text \<open>
  What a request reads besides the tables: the day in Darwin, the clock and its ISO text, the settings of the
  environment, the escalations, the verdict of the money-action gate, the caller's Entra id, and the ids of
  \<open>randomUUID\<close>: of the request's own rows, and of the \<open>n\<close>-th row of the change log.
\<close>

record review_env =
  ve_changeId :: "nat \<Rightarrow> string"
  ve_escalations :: "esc_row list"
  ve_gate :: bool
  ve_liveFrom :: "string option"
  ve_now :: instant
  ve_nowText :: string
  ve_oid :: string
  ve_sanityMax :: js_number
  ve_sanityMin :: js_number
  ve_today :: string
  ve_uuid :: "nat \<Rightarrow> string"

section \<open>Refusals\<close>

datatype review_code =
    Approval_level | Bad_request | Basis_incomplete | Changed_since_apply | Cpi_base_mismatch | Earlier_review_pending | Forbidden_role
  | Invalid_state | Manual_required | Method_not_supported | Next_review_in_progress | No_change | No_current_rent | No_user
  | Not_calculated | Not_found | Not_representable | Not_revertible | Not_signed_off | Open_review_exists | Ratchet_holds | Reason_required
  | Sod_blocked | Stale_read | Stale_schedule | Step_settled | Tenancy_archived | Tenancy_vacated | Try_again

definition STATUS_403 :: "review_code list" where "STATUS_403 = [Approval_level, Forbidden_role, Sod_blocked]"
definition STATUS_400 :: "review_code list" where "STATUS_400 = [Bad_request, Manual_required, No_change, Reason_required]"
definition STATUS_409 :: "review_code list" where
  "STATUS_409 = [Changed_since_apply, Invalid_state, Next_review_in_progress, Not_calculated, Not_revertible, Stale_read, Stale_schedule,
     Step_settled, Try_again]"

definition STATUS :: "review_code \<Rightarrow> nat" where
  "STATUS code =
     (if code \<in> set STATUS_403 then 403 else if code \<in> set STATUS_400 then 400 else if code \<in> set STATUS_409 then 409
      else if code = Not_found then 404 else 422)"

text \<open>An error of the decision: a refusal with the attempt to record, an entry the ledger does not take, a row the
  unique index does not take, or an error of another kind.\<close>

datatype review_failure = Refused (failure_code: review_code) (failure_attempt: "review_entry option") | LedgerRefused | UniqueIndex | Failed

fun calc_code :: "calc_refusal \<Rightarrow> review_code" where
  "calc_code BasisIncomplete = Basis_incomplete"
| "calc_code CpiBaseMismatch = Cpi_base_mismatch"
| "calc_code EarlierReviewUnsettled = Earlier_review_pending"
| "calc_code ManualRequired = Manual_required"
| "calc_code NoCurrentRent = No_current_rent"
| "calc_code NotRepresentable = Not_representable"
| "calc_code LeaseRatchet = Ratchet_holds"
| "calc_code StepSettled = Step_settled"

definition refused :: "review_code \<Rightarrow> review_failure + 'a" where "refused code = Inl (Refused code None)"
definition refused_noting :: "review_code \<Rightarrow> review_entry \<Rightarrow> review_failure + 'a" where "refused_noting code e = Inl (Refused code (Some e))"

definition ensure :: "bool \<Rightarrow> review_code \<Rightarrow> review_failure + unit" where
  "ensure b code = (if b then Inr () else refused code)"

definition some_or :: "'a option \<Rightarrow> review_code \<Rightarrow> review_failure + 'a" where
  "some_or v code = (case v of Some x \<Rightarrow> Inr x | None \<Rightarrow> refused code)"

section \<open>The ledger\<close>

definition LEDGER_RULE_MAX :: nat where "LEDGER_RULE_MAX = 64"
definition LEDGER_NAME_MAX :: nat where "LEDGER_NAME_MAX = 200"
definition LEDGER_ROLE_MAX :: nat where "LEDGER_ROLE_MAX = 32"
definition LEDGER_REASON_MAX :: nat where "LEDGER_REASON_MAX = 2000"
definition IMPACT_LIMIT :: rat where "IMPACT_LIMIT = 10 ^ 12"

definition reasonRequired :: "review_action \<Rightarrow> bool" where
  "reasonRequired a \<longleftrightarrow> a \<in> {LBasisUpdate, LCancel, LDirectorOverride, LOverride, LReturn, LRevert, LWaive}"

text \<open>\<open>assertLedgerEntry\<close>, on the fields the entries of a review have; a snapshot of more than 64 KB is not modelled.\<close>

definition assertLedgerEntry :: "review_entry \<Rightarrow> bool" where
  "assertLedgerEntry e \<longleftrightarrow>
     (let reason = (case dl_reason e of Some r \<Rightarrow> js_trim r | None \<Rightarrow> '''')
      in (reasonRequired (dl_action e) \<longrightarrow> reason \<noteq> '''') \<and> length reason \<le> LEDGER_REASON_MAX) \<and>
     (let name = js_trim (actor_nm (dl_actor e)) in name \<noteq> '''' \<and> length name \<le> LEDGER_NAME_MAX) \<and>
     (case dl_actor e of
        ReviewUser nm rl uid \<Rightarrow> js_trim rl \<noteq> '''' \<and> length (js_trim rl) \<le> LEDGER_ROLE_MAX
      | ReviewSystem nm \<Rightarrow> True) \<and>
     (case dl_rule e of Some r \<Rightarrow> length r \<le> LEDGER_RULE_MAX | None \<Rightarrow> True) \<and>
     (case dl_impact e of Some n \<Rightarrow> \<bar>n\<bar> < IMPACT_LIMIT | None \<Rightarrow> True)"

definition add_entry :: "review_entry \<Rightarrow> review_db \<Rightarrow> review_db" where
  "add_entry e db = db\<lparr>rb_ledger := rb_ledger db @ [e]\<rparr>"

definition record_entry :: "review_entry \<Rightarrow> review_db \<Rightarrow> review_failure + review_db" where
  "record_entry e db = (if assertLedgerEntry e then Inr (add_entry e db) else Inl LedgerRefused)"

text \<open>\<open>recordReviewRefusal\<close>: after the rollback, and never in the way of the answer.\<close>

definition recordReviewRefusal :: "review_failure \<Rightarrow> review_db \<Rightarrow> review_db" where
  "recordReviewRefusal failure db =
     (case failure of
        Refused code (Some e) \<Rightarrow> if assertLedgerEntry e then add_entry e db else db
      | _ \<Rightarrow> db)"

end
