(* ===== verification/Review_Store.thy ===== *)
theory Review_Store
  imports Review_Records
begin

text \<open>
  The statements on a review's rows: the reads of \<open>src/rentReview/store.ts\<close>, the guarded updates of
  \<open>src/rentReview/transitions.ts\<close>, who has a say in a review (\<open>src/rentReview/http.ts\<close>, \<open>approvalLevel.ts\<close>,
  \<open>escalations.ts\<close>), the bodies of the requests, and the tenancy's side (\<open>reviewTenancy.ts\<close>,
  \<open>src/rentScheduleChangeLog.ts\<close>).
\<close>

section \<open>Reading\<close>

definition find_tenancy :: "review_db \<Rightarrow> int \<Rightarrow> tenancy_row option" where
  "find_tenancy db tid = find (\<lambda>t. tn_id t = tid) (rb_tenancies db)"

definition find_review :: "review_db \<Rightarrow> string \<Rightarrow> review_instance option" where
  "find_review db rid = find (\<lambda>r. rw_id r = rid) (rb_reviews db)"

text \<open>The review with its tenancy (an inner join), locked for the rest of the transaction.\<close>

definition reviewForUpdate :: "review_db \<Rightarrow> string \<Rightarrow> (review_instance \<times> tenancy_row) option" where
  "reviewForUpdate db rid =
     Option.bind (find_review db rid) (\<lambda>r. map_option (\<lambda>t. (r, t)) (find_tenancy db (rw_tenantId r)))"

definition totalOccupancySqm :: "review_db \<Rightarrow> int \<Rightarrow> rat" where
  "totalOccupancySqm db tid = (\<Sum>(t, sqm)\<leftarrow>rb_areas db. if t = tid then sqm else 0)"

definition otherOpenReview :: "review_db \<Rightarrow> int \<Rightarrow> string \<Rightarrow> string option" where
  "otherOpenReview db tid except =
     map_option rw_id (find (\<lambda>r. rw_tenantId r = tid \<and> rw_id r \<noteq> except \<and> review_isOpenState (rw_state r)) (rb_reviews db))"

definition loadCpiRows :: "review_db \<Rightarrow> string \<Rightarrow> string list \<Rightarrow> cpi_index_row list" where
  "loadCpiRows db region periods = map snd (filter (\<lambda>(r, row). r = region \<and> ci_period row \<in> set periods) (rb_cpi db))"

definition SETTLED_STATES :: "review_state list" where "SETTLED_STATES = [approved, completed, waived]"

definition resolvedReviewDates :: "review_db \<Rightarrow> tenancy_row \<Rightarrow> string list" where
  "resolvedReviewDates db t =
     tn_settledBefore t @
     map rw_scheduledFor (filter (\<lambda>r. rw_tenantId r = tn_id t \<and> rw_state r \<in> set SETTLED_STATES) (rb_reviews db))"

text \<open>The rung a waiting review's escalations have reached since it was last submitted (\<open>APPROVAL_RUNG\<close>).\<close>

definition rung_of :: "esc_row \<Rightarrow> nat" where
  "rung_of e =
     (if r_noIndependentTarget e then 3
      else case map_option js_lower (r_targetRole e) of
        Some role \<Rightarrow> if role = ''accounts_manager'' then 1 else if role = ''cfo'' then 2 else 3
      | None \<Rightarrow> 3)"

definition counts_for :: "review_instance \<Rightarrow> esc_row \<Rightarrow> bool" where
  "counts_for r e \<longleftrightarrow>
     rw_state r = awaiting_approval \<and> r_subjectType e = ''rent_review'' \<and> r_subjectId e = rw_id r \<and>
     r_policyKey e = ''rent_review.approval'' \<and> (case rw_submittedAt r of None \<Rightarrow> True | Some s \<Rightarrow> s \<le> r_createdAt e)"

definition approvalRung :: "review_env \<Rightarrow> review_instance \<Rightarrow> nat option" where
  "approvalRung env r =
     (case map rung_of (filter (counts_for r) (ve_escalations env)) of [] \<Rightarrow> None | n # ns \<Rightarrow> Some (fold max ns n))"

section \<open>Writing a review\<close>

definition write_review :: "review_env \<Rightarrow> string \<Rightarrow> (review_instance \<Rightarrow> review_instance) \<Rightarrow> review_db \<Rightarrow> review_db" where
  "write_review env rid f db =
     db\<lparr>rb_reviews := map (\<lambda>r. if rw_id r = rid then (f r)\<lparr>rw_updatedAt := ve_now env, rw_version := rb_versions db + 1\<rparr> else r) (rb_reviews db),
        rb_versions := rb_versions db + 1\<rparr>"

text \<open>The filtered unique index: one open review per tenancy; and the primary key.\<close>

definition open_tenants :: "review_instance list \<Rightarrow> int list" where
  "open_tenants rs = map rw_tenantId (filter (\<lambda>r. review_isOpenState (rw_state r)) rs)"

definition index_holds :: "review_db \<Rightarrow> bool" where
  "index_holds db \<longleftrightarrow> distinct (open_tenants (rb_reviews db)) \<and> distinct (map rw_id (rb_reviews db))"

definition indexed :: "review_db \<Rightarrow> review_failure + review_db" where
  "indexed db = (if index_holds db then Inr db else Inl UniqueIndex)"

text \<open>A review moved from a state it must be in; \<open>None\<close> when it had moved on already.\<close>

definition move_review ::
  "review_env \<Rightarrow> string \<Rightarrow> review_state list \<Rightarrow> review_state \<Rightarrow> (review_instance \<Rightarrow> review_instance) \<Rightarrow> review_db \<Rightarrow>
   review_failure + review_db option" where
  "move_review env rid from to f db =
     (case find_review db rid of
        None \<Rightarrow> Inr None
      | Some r \<Rightarrow>
          if rw_state r \<notin> set from then Inr None
          else map_sum id Some (indexed (write_review env rid (\<lambda>r. (f r)\<lparr>rw_state := to, rw_status := legacyStatus to\<rparr>) db)))"

definition saveCalc :: "review_env \<Rightarrow> string \<Rightarrow> review_calc \<Rightarrow> review_db \<Rightarrow> review_failure + review_db option" where
  "saveCalc env rid calc = move_review env rid [in_progress] in_progress (\<lambda>r. r\<lparr>rw_calc := Some calc\<rparr>)"

definition markAwaitingIndex :: "review_env \<Rightarrow> string \<Rightarrow> string \<Rightarrow> review_db \<Rightarrow> review_failure + review_db option" where
  "markAwaitingIndex env rid expected =
     move_review env rid [in_progress] awaiting_index (\<lambda>r. r\<lparr>rw_expectedIndexAt := Some expected, rw_calc := None\<rparr>)"

definition markIndexAvailable :: "review_env \<Rightarrow> string \<Rightarrow> review_db \<Rightarrow> review_failure + review_db option" where
  "markIndexAvailable env rid = move_review env rid [awaiting_index] in_progress (\<lambda>r. r\<lparr>rw_expectedIndexAt := None\<rparr>)"

definition prepared :: "review_env \<Rightarrow> calc_person \<Rightarrow> review_instance \<Rightarrow> review_instance" where
  "prepared env who r = r\<lparr>rw_preparedBy := Some who, rw_preparedAt := Some (ve_now env), rw_submittedAt := Some (ve_now env)\<rparr>"

definition markSubmitted :: "review_env \<Rightarrow> string \<Rightarrow> calc_person \<Rightarrow> review_calc \<Rightarrow> review_db \<Rightarrow> review_failure + review_db option" where
  "markSubmitted env rid who calc =
     move_review env rid [in_progress] awaiting_approval (\<lambda>r. (prepared env who r)\<lparr>rw_calc := Some calc\<rparr>)"

record approved_outcome =
  ao_approvalBasis :: approval_basis
  ao_approver :: calc_person
  ao_calc :: review_calc
  ao_cpi :: "(string \<times> rat \<times> rat) option"
  ao_increasePercent :: rat
  ao_newAnnual :: rat
  ao_oldAnnual :: rat
  ao_preparer :: "calc_person option"
  ao_stepId :: string

definition with_outcome :: "review_env \<Rightarrow> approved_outcome \<Rightarrow> review_instance \<Rightarrow> review_instance" where
  "with_outcome env out r =
     (case ao_preparer out of Some who \<Rightarrow> prepared env who r | None \<Rightarrow> r)
       \<lparr>rw_approvedBy := Some (ao_approver out), rw_approvedAt := Some (ve_now env), rw_approvalBasis := Some (ao_approvalBasis out),
        rw_oldRent := Some (ao_oldAnnual out), rw_newRent := Some (ao_newAnnual out), rw_increasePercent := Some (ao_increasePercent out),
        rw_cpiUsed := ao_cpi out, rw_stepId := Some (ao_stepId out), rw_calc := Some (ao_calc out)\<rparr>"

definition markApproved :: "review_env \<Rightarrow> string \<Rightarrow> review_state \<Rightarrow> approved_outcome \<Rightarrow> review_db \<Rightarrow> review_failure + review_db option" where
  "markApproved env rid from out = move_review env rid [from] approved (with_outcome env out)"

definition markReturned :: "review_env \<Rightarrow> string \<Rightarrow> review_db \<Rightarrow> review_failure + review_db option" where
  "markReturned env rid = move_review env rid [awaiting_approval] in_progress (\<lambda>r. r\<lparr>rw_submittedAt := None\<rparr>)"

definition markWaived :: "review_env \<Rightarrow> string \<Rightarrow> string \<Rightarrow> string \<Rightarrow> review_db \<Rightarrow> review_failure + review_db option" where
  "markWaived env rid reason stepId =
     move_review env rid OPEN_RENT_REVIEW_STATES waived (\<lambda>r. r\<lparr>rw_waiveReason := Some reason, rw_stepId := Some stepId\<rparr>)"

definition markCancelled :: "review_env \<Rightarrow> string \<Rightarrow> review_db \<Rightarrow> review_failure + review_db option" where
  "markCancelled env rid = move_review env rid OPEN_RENT_REVIEW_STATES cancelled (\<lambda>r. r\<lparr>rw_expectedIndexAt := None\<rparr>)"

definition markReverted :: "review_env \<Rightarrow> string \<Rightarrow> review_db \<Rightarrow> review_failure + review_db option" where
  "markReverted env rid =
     move_review env rid [approved] in_progress
       (\<lambda>r. r\<lparr>rw_approvedBy := None, rw_approvedAt := None, rw_approvalBasis := None, rw_oldRent := None, rw_newRent := None,
              rw_increasePercent := None, rw_cpiUsed := None, rw_preparedBy := None, rw_preparedAt := None, rw_submittedAt := None,
              rw_billingConfirmed := None, rw_calc := None\<rparr>)"

definition markWindowOpen :: "review_env \<Rightarrow> string \<Rightarrow> review_db \<Rightarrow> review_failure + review_db option" where
  "markWindowOpen env rid = move_review env rid [scheduled] due id"

record commencement =
  cm_basis :: json_object
  cm_buildingId :: int
  cm_method :: review_method
  cm_ownerUserId :: int
  cm_stepId :: "string option"

definition markCommenced :: "review_env \<Rightarrow> string \<Rightarrow> commencement \<Rightarrow> review_db \<Rightarrow> review_failure + review_db option" where
  "markCommenced env rid c =
     move_review env rid [scheduled, due] in_progress
       (\<lambda>r. r\<lparr>rw_reviewType := legacyReviewType (cm_method c), rw_method := Some (cm_method c), rw_ownerUserId := Some (cm_ownerUserId c),
              rw_stepId := cm_stepId c, rw_buildingId := cm_buildingId c, rw_basis := Some (cm_basis c)\<rparr>)"

text \<open>A basis is saved on a review still being worked on, whose state stays.\<close>

definition saveBasis :: "review_env \<Rightarrow> string \<Rightarrow> json_object \<Rightarrow> review_db \<Rightarrow> review_db option" where
  "saveBasis env rid basis db =
     (case find_review db rid of
        None \<Rightarrow> None
      | Some r \<Rightarrow>
          if rw_state r \<in> {in_progress, awaiting_index}
          then Some (write_review env rid (\<lambda>r. r\<lparr>rw_basis := Some basis, rw_calc := None\<rparr>) db) else None)"

definition scheduled_review :: "review_env \<Rightarrow> string \<Rightarrow> int \<Rightarrow> int \<Rightarrow> review_method \<Rightarrow> string \<Rightarrow> nat \<Rightarrow> review_instance" where
  "scheduled_review env rid tid building m scheduledFor version =
     \<lparr>rw_id = rid, rw_approvalBasis = None, rw_approvedAt = None, rw_approvedBy = None, rw_basis = None, rw_billingConfirmed = None,
      rw_buildingId = building, rw_calc = None, rw_cpiUsed = None, rw_expectedIndexAt = None, rw_increasePercent = None,
      rw_method = Some m, rw_newRent = None, rw_oldRent = None, rw_ownerUserId = None, rw_preparedAt = None, rw_preparedBy = None,
      rw_reviewType = legacyReviewType m, rw_scheduledFor = scheduledFor, rw_state = scheduled, rw_status = legacyStatus scheduled,
      rw_stepId = None, rw_submittedAt = None, rw_tenantId = tid, rw_updatedAt = ve_now env, rw_version = version, rw_waiveReason = None\<rparr>"

definition insertScheduledReview :: "review_env \<Rightarrow> string \<Rightarrow> int \<Rightarrow> int \<Rightarrow> review_method \<Rightarrow> string \<Rightarrow> review_db \<Rightarrow> review_failure + review_db" where
  "insertScheduledReview env rid tid building m scheduledFor db =
     indexed (db\<lparr>rb_reviews := rb_reviews db @ [scheduled_review env rid tid building m scheduledFor (rb_versions db + 1)],
                rb_versions := rb_versions db + 1\<rparr>)"

end
