(* ===== verification/Review_Access.thy ===== *)
theory Review_Access
  imports Review_Store Rent_Step_Plan_Correct
begin

text \<open>
  Who has a say in a review, the bodies of the requests, and the tenancy's side of a decision:
  \<open>src/rentReview/http.ts\<close>, \<open>approvalLevel.ts\<close>, \<open>directorOverride.ts\<close>, \<open>reviewTenancy.ts\<close>, the duties of
  \<open>escalations.ts\<close> and the change log of \<open>src/rentScheduleChangeLog.ts\<close>. The caller is the one of the quote
  handlers, a request body its JSON object.
\<close>

section \<open>Roles\<close>

definition TENANCY_EDIT_ROLES :: "string list" where
  "TENANCY_EDIT_ROLES = [''accounts'', ''accounts_manager'', ''admin'', ''director'']"

definition REVIEW_APPLY_ROLES :: "string list" where
  "REVIEW_APPLY_ROLES = [''accounts'', ''accounts_manager'', ''admin'', ''director'']"

definition REVIEW_APPROVE_ROLES :: "string list" where
  "REVIEW_APPROVE_ROLES = [''accounts_manager'', ''cfo'', ''director'']"

definition REVIEW_CANCEL_ROLES :: "string list" where
  "REVIEW_CANCEL_ROLES = [''accounts_manager'', ''admin'', ''director'']"

definition APPROVER_RANK :: "string \<Rightarrow> nat" where
  "APPROVER_RANK role = (if role = ''accounts_manager'' then 1 else if role = ''cfo'' then 2 else if role = ''director'' then 3 else 0)"

definition approverRank :: "string list \<Rightarrow> nat" where
  "approverRank roles = foldl (\<lambda>best role. max best (APPROVER_RANK role)) 0 roles"

definition holdsApproverRole :: "string list \<Rightarrow> bool" where
  "holdsApproverRole roles \<longleftrightarrow> approverRank roles > 0"

definition MANAGER_AND_UP :: "string list" where
  "MANAGER_AND_UP = [''accounts_manager'', ''admin'', ''cfo'', ''director'']"

definition isManagerOrAbove :: "string list \<Rightarrow> bool" where
  "isManagerOrAbove roles \<longleftrightarrow> list_ex (\<lambda>r. r \<in> set MANAGER_AND_UP) roles"

definition owns :: "review_instance \<Rightarrow> money_caller \<Rightarrow> bool" where
  "owns r caller \<longleftrightarrow> rw_ownerUserId r \<noteq> None \<and> rw_ownerUserId r = c_userId caller"

definition ownsOrManages :: "review_instance \<Rightarrow> money_caller \<Rightarrow> bool" where
  "ownsOrManages r caller \<longleftrightarrow> owns r caller \<or> isManagerOrAbove (c_roles caller)"

definition is_director :: "money_caller \<Rightarrow> bool" where
  "is_director caller \<longleftrightarrow> ''director'' \<in> set (c_roles caller)"

definition review_actor_of :: "money_caller \<Rightarrow> review_actor" where
  "review_actor_of caller = ReviewUser (c_name caller) (actor_role caller) (c_userId caller)"

definition person_of :: "money_caller \<Rightarrow> calc_person" where
  "person_of caller = \<lparr>pe_name = c_name caller, pe_userId = c_userId caller\<rparr>"

section \<open>Ledger rows of a review\<close>

definition entry_of :: "review_action \<Rightarrow> review_actor \<Rightarrow> review_instance \<Rightarrow> string option \<Rightarrow> string option \<Rightarrow> review_entry" where
  "entry_of action actor r rule reason =
     \<lparr>dl_action = action, dl_actor = actor, dl_detail = NoDetail, dl_impact = None, dl_reason = reason, dl_rule = rule,
      dl_reviewId = rw_id r, dl_tenantId = rw_tenantId r\<rparr>"

definition deniedAttempt :: "money_caller \<Rightarrow> review_instance \<Rightarrow> string \<Rightarrow> review_entry" where
  "deniedAttempt caller r rule = entry_of LDenied (review_actor_of caller) r (Some rule) None"

section \<open>Request bodies\<close>

definition REASON_MAX_CHARS :: nat where "REASON_MAX_CHARS = 2000"
definition MAX_RENT :: rat where "MAX_RENT = 10 ^ 10"

definition js_alnum :: "char \<Rightarrow> bool" where
  "js_alnum c \<longleftrightarrow> (let n = (of_char c :: nat) in (48 \<le> n \<and> n \<le> 57) \<or> (65 \<le> n \<and> n \<le> 90) \<or> (97 \<le> n \<and> n \<le> 122))"

definition js_hex :: "char \<Rightarrow> bool" where
  "js_hex c \<longleftrightarrow> (let n = (of_char c :: nat) in (48 \<le> n \<and> n \<le> 57) \<or> (65 \<le> n \<and> n \<le> 70) \<or> (97 \<le> n \<and> n \<le> 102))"

definition readReviewId :: "json option \<Rightarrow> review_failure + string" where
  "readReviewId v =
     (let i = (case text_of v of Some s \<Rightarrow> js_trim s | None \<Rightarrow> '''')
      in if i \<noteq> '''' \<and> length i \<le> 40 \<and> list_all (\<lambda>c. js_alnum c \<or> c = CHR ''_'' \<or> c = CHR ''-'') i then Inr i else refused Bad_request)"

definition readRowVersion :: "json option \<Rightarrow> review_failure + string" where
  "readRowVersion v =
     (case map_option js_trim (text_of v) of
        Some s \<Rightarrow> if length s = 16 \<and> list_all js_hex s then Inr (js_lower s) else refused Bad_request
      | None \<Rightarrow> refused Bad_request)"

definition rowVersionHex :: "nat \<Rightarrow> string" where
  "rowVersionHex n = map (\<lambda>i. ''0123456789abcdef'' ! (n div 16 ^ i mod 16)) (rev [0..<16])"

definition readReason :: "json option \<Rightarrow> review_failure + string" where
  "readReason v =
     (case map_option js_trim (text_of v) of
        Some s \<Rightarrow> if s = '''' then refused Reason_required else if length s > REASON_MAX_CHARS then refused Bad_request else Inr s
      | None \<Rightarrow> refused Reason_required)"

fun check_code :: "override_check \<Rightarrow> string" where
  "check_code CheckNotSignedOff = ''not_signed_off''"
| "check_code CheckOutOfBand = ''out_of_band''"
| "check_code CheckRatchet = ''ratchet''"

definition check_named :: "override_check list \<Rightarrow> json \<Rightarrow> override_check option" where
  "check_named allowed v = find (\<lambda>c. v = JStr (check_code c)) allowed"

record director_override =
  do_checks :: "override_check list"
  do_reason :: string

definition readDirectorOverride :: "json option \<Rightarrow> override_check list \<Rightarrow> review_failure + director_override option" where
  "readDirectorOverride raw allowed =
     (case raw of
        None \<Rightarrow> Inr None
      | Some JNull \<Rightarrow> Inr None
      | Some (JObj obj) \<Rightarrow>
          (case obj_get obj ''checks'' of
             Some (JArr checks) \<Rightarrow>
               (case those (map (check_named allowed) checks) of
                  Some named \<Rightarrow>
                    if checks = [] then refused Bad_request
                    else and_then (readReason (obj_get obj ''reason'')) (\<lambda>reason. Inr (Some \<lparr>do_checks = named, do_reason = reason\<rparr>))
                | None \<Rightarrow> refused Bad_request)
           | _ \<Rightarrow> refused Bad_request)
      | _ \<Rightarrow> refused Bad_request)"

definition overrides :: "director_override option \<Rightarrow> override_check \<Rightarrow> bool" where
  "overrides ov check \<longleftrightarrow> (case ov of Some d \<Rightarrow> check \<in> set (do_checks d) | None \<Rightarrow> False)"

definition override_reason :: "director_override option \<Rightarrow> string" where
  "override_reason ov = (case ov of Some d \<Rightarrow> do_reason d | None \<Rightarrow> '''')"

text \<open>\<open>submitRentReview\<close>'s own rent, and \<open>calculateRentReview\<close>'s rent keyed by hand.\<close>

definition readOverride :: "json option \<Rightarrow> review_failure + (rat \<times> string) option" where
  "readOverride raw =
     (case raw of
        None \<Rightarrow> Inr None
      | Some JNull \<Rightarrow> Inr None
      | Some (JObj obj) \<Rightarrow>
          (case number_in (obj_get obj ''newAnnual'') of
             Some n \<Rightarrow>
               if n \<le> 0 \<or> n \<ge> MAX_RENT then refused Bad_request
               else and_then (readReason (obj_get obj ''reason'')) (\<lambda>reason. Inr (Some (r2 n, reason)))
           | None \<Rightarrow> refused Bad_request)
      | _ \<Rightarrow> refused Bad_request)"

definition readManual :: "json option \<Rightarrow> review_failure + (string \<times> js_number) option" where
  "readManual raw =
     (case raw of
        None \<Rightarrow> Inr None
      | Some JNull \<Rightarrow> Inr None
      | Some (JObj obj) \<Rightarrow>
          Inr (Some ((case text_of (obj_get obj ''explanation'') of Some s \<Rightarrow> s | None \<Rightarrow> ''''),
                     (case obj_get obj ''newAnnual'' of Some (JNum n) \<Rightarrow> n | _ \<Rightarrow> NaN)))
      | _ \<Rightarrow> refused Bad_request)"

section \<open>Director's overrides and the level of an approval\<close>

definition storedOverride :: "review_calc \<Rightarrow> override_check \<Rightarrow> stored_override option" where
  "storedOverride calc check = find (\<lambda>s. so_check s = check) (cl_directorOverrides calc)"

fun check_rule :: "override_check \<Rightarrow> string" where
  "check_rule CheckNotSignedOff = ''C3_schedule_sign_off''"
| "check_rule CheckOutOfBand = ''C5_sanity_band''"
| "check_rule CheckRatchet = ''C9_ratchet''"

definition recordDirectorOverride :: "money_caller \<Rightarrow> review_instance \<Rightarrow> override_check \<Rightarrow> string \<Rightarrow> review_db \<Rightarrow> review_failure + review_db" where
  "recordDirectorOverride caller r check reason =
     record_entry ((entry_of LDirectorOverride (review_actor_of caller) r (Some (check_rule check)) (Some reason))
       \<lparr>dl_detail := OverriddenCheck check\<rparr>)"

definition requiredApprovalRoleOf :: "nat option \<Rightarrow> review_calc option \<Rightarrow> string" where
  "requiredApprovalRoleOf reached calc =
     (if (case calc of Some c \<Rightarrow> isReduction c | None \<Rightarrow> False) then ''director''
      else let rung = (case reached of Some n \<Rightarrow> n | None \<Rightarrow> 0)
           in if rung \<ge> 3 then ''director'' else if rung = 2 then ''cfo'' else ''accounts_manager'')"

section \<open>Separation of duties\<close>

definition entry_user :: "review_entry \<Rightarrow> int option" where
  "entry_user e = (case dl_actor e of ReviewUser nm rl uid \<Rightarrow> uid | ReviewSystem nm \<Rightarrow> None)"

definition entries_about :: "string \<Rightarrow> review_db \<Rightarrow> review_entry list" where
  "entries_about rid db = filter (\<lambda>e. dl_reviewId e = rid) (rb_ledger db)"

definition since_commence :: "review_entry list \<Rightarrow> review_entry list" where
  "since_commence es = rev (takeWhile (\<lambda>e. dl_action e \<noteq> LCommence) (rev es))"

definition basisEditorsSinceCommence :: "review_db \<Rightarrow> string \<Rightarrow> int list" where
  "basisEditorsSinceCommence db rid =
     remdups (List.map_filter entry_user (filter (\<lambda>e. dl_action e = LBasisUpdate) (since_commence (entries_about rid db))))"

record review_duties =
  dy_basisEditors :: "int list"
  dy_keyedBy :: "int option"
  dy_preparedBy :: "int option"

definition dutiesOf :: "int list \<Rightarrow> review_calc option \<Rightarrow> int option \<Rightarrow> review_duties" where
  "dutiesOf editors calc preparedById =
     \<lparr>dy_basisEditors = rev (remdups (rev editors)),
      dy_keyedBy = Option.bind calc (\<lambda>c. if cl_manual c \<noteq> None then pe_userId (cl_computedBy c) else None),
      dy_preparedBy = preparedById\<rparr>"

definition separationOfDuties :: "int list \<Rightarrow> review_calc option \<Rightarrow> int option \<Rightarrow> int list" where
  "separationOfDuties editors calc preparedById =
     (let d = dutiesOf editors calc preparedById
      in sort (remdups (dy_basisEditors d @ (case dy_preparedBy d of Some n \<Rightarrow> [n] | None \<Rightarrow> []) @
            (case dy_keyedBy d of Some n \<Rightarrow> [n] | None \<Rightarrow> []))))"

definition prepared_by :: "review_instance \<Rightarrow> int option" where
  "prepared_by r = Option.bind (rw_preparedBy r) pe_userId"

section \<open>The tenancy's side\<close>

definition refuseClosedTenancy :: "bool \<Rightarrow> tenancy_row \<Rightarrow> review_failure + unit" where
  "refuseClosedTenancy allowVacated t =
     (if tn_archivedAt t \<noteq> None then refused Tenancy_archived
      else if tn_status t = ''vacated'' \<and> \<not> allowVacated then refused Tenancy_vacated
      else Inr ())"

definition parsed_steps :: "tenancy_row \<Rightarrow> rate_step list" where
  "parsed_steps t = normaliseLegacyEnds (tn_steps t)"

definition leaseTermsOf :: "tenancy_row \<Rightarrow> rate_step option \<Rightarrow> lease_terms" where
  "leaseTermsOf t step =
     \<lparr>ls_cpiCapPercent = tn_cpiCapPercent t, ls_cpiFloorPercent = tn_cpiFloorPercent t, ls_cpiReferenceRule = tn_cpiReferenceRule t,
      ls_cpiRegion = tn_cpiRegion t,
      ls_fixedPercent = or_default (tn_fixedReviewPercent t)
        (Option.bind step (\<lambda>s. if rs_method s = Some MFixed then Some (rs_ratePercent s) else None)),
      ls_reviewIntervalMonths = map_option of_int (tn_reviewIntervalMonths t), ls_reviewRatchet = tn_ratchet t\<rparr>"

definition scheduleTermsOf :: "review_env \<Rightarrow> tenancy_row \<Rightarrow> schedule_terms" where
  "scheduleTermsOf env t =
     \<lparr>st_cpiCap = tn_cpiCapPercent t, st_cpiFloor = tn_cpiFloorPercent t, st_ratchet = tn_ratchet t,
      st_liveFrom = reviewWorkflowLiveFrom (ve_liveFrom env)\<rparr>"

definition rent_or_zero :: "rat option \<Rightarrow> rat" where
  "rent_or_zero v = (case v of Some n \<Rightarrow> n | None \<Rightarrow> 0)"

definition scheduleOf :: "review_env \<Rightarrow> tenancy_row \<Rightarrow> rate_step list \<Rightarrow> rat \<Rightarrow> review_schedule" where
  "scheduleOf env t steps totalSqm =
     \<lparr>vs_groups = tn_groups t,
      vs_context = \<lparr>sc_fallbackAnnual = rent_or_zero (tn_rentPerAnnum t), sc_fallbackSqm = totalSqm, sc_lease = scheduleTermsOf env t,
        sc_steps = steps\<rparr>,
      vs_fees = tn_fees t, vs_reliefs = tn_reliefs t\<rparr>"

definition nextReviewInputFromRow :: "review_env \<Rightarrow> tenancy_row \<Rightarrow> string list \<Rightarrow> rate_step list \<Rightarrow> next_review_input" where
  "nextReviewInputFromRow env t resolved steps =
     \<lparr>nr_commencement = tn_commencement t, nr_last = tn_lastReviewDate t, nr_resolved = resolved, nr_interval = tn_reviewIntervalMonths t,
      nr_steps = steps, nr_stored = tn_nextReviewDate t, nr_today = ve_today env, nr_liveFrom = reviewWorkflowLiveFrom (ve_liveFrom env)\<rparr>"

text \<open>The next review date where it moves. The row carries the last review date and the settled dates of the write.\<close>

definition derivedNextReview :: "review_env \<Rightarrow> tenancy_row \<Rightarrow> string list \<Rightarrow> rate_step list \<Rightarrow> review_failure + string option" where
  "derivedNextReview env t resolved steps =
     (case deriveNextReviewDate (nextReviewInputFromRow env t resolved steps) of
        None \<Rightarrow> Inl Failed
      | Some None \<Rightarrow> Inr None
      | Some (Some d) \<Rightarrow> Inr (if Some d = tn_nextReviewDate t then None else Some d))"

record tenancy_write =
  tw_actorName :: string
  tw_actorOid :: string
  tw_lastReviewDate :: "string option option"
  tw_lastReviewPercent :: "rat option option"
  tw_nextReviewDate :: "string option"
  tw_rentPerAnnum :: "rat option option"
  tw_steps :: "rate_step list"

definition or_kept :: "'a option \<Rightarrow> 'a \<Rightarrow> 'a" where
  "or_kept v old = (case v of Some x \<Rightarrow> x | None \<Rightarrow> old)"

definition tenancy_written :: "tenancy_write \<Rightarrow> tenancy_row \<Rightarrow> tenancy_row" where
  "tenancy_written w t =
     t\<lparr>tn_steps := tw_steps w, tn_lastReviewDate := or_kept (tw_lastReviewDate w) (tn_lastReviewDate t),
       tn_lastReviewPercent := or_kept (tw_lastReviewPercent w) (tn_lastReviewPercent t),
       tn_rentPerAnnum := or_kept (tw_rentPerAnnum w) (tn_rentPerAnnum t),
       tn_nextReviewDate := (case tw_nextReviewDate w of Some d \<Rightarrow> Some d | None \<Rightarrow> tn_nextReviewDate t),
       tn_scheduleVersion := tn_scheduleVersion t + 1, tn_updatedBy := (tw_actorOid w, tw_actorName w)\<rparr>"

definition writeTenancyForReview :: "int \<Rightarrow> tenancy_write \<Rightarrow> review_db \<Rightarrow> review_db" where
  "writeTenancyForReview tid w db =
     db\<lparr>rb_tenancies := map (\<lambda>t. if tn_id t = tid then tenancy_written w t else t) (rb_tenancies db)\<rparr>"

definition tenancyReviewFields :: "tenancy_row \<Rightarrow> tenancy_fields" where
  "tenancyReviewFields t =
     \<lparr>tf_lastReviewDate = tn_lastReviewDate t, tf_lastReviewPercent = tn_lastReviewPercent t, tf_nextReviewDate = tn_nextReviewDate t,
      tf_rentPerAnnum = tn_rentPerAnnum t, tf_scheduleVersion = tn_scheduleVersion t\<rparr>"

section \<open>The change log\<close>

definition MAX_IDS :: nat where "MAX_IDS = 20"

definition insertRentScheduleChangeLog :: "review_env \<Rightarrow> string \<Rightarrow> int \<Rightarrow> logged_change \<Rightarrow> review_db \<Rightarrow> string \<times> review_db" where
  "insertRentScheduleChangeLog env changedByName tid change db =
     (let changeId = ve_changeId env (length (rb_changeLog db))
      in (changeId, db\<lparr>rb_changeLog := rb_changeLog db @
            [\<lparr>lx_changeId = changeId, lx_change = change, lx_tenantId = tid, lx_changedBy = (ve_oid env, changedByName)\<rparr>]\<rparr>))"

text \<open>One row of the log for each change, in order; the ids given.\<close>

fun log_changes :: "review_env \<Rightarrow> string \<Rightarrow> int \<Rightarrow> logged_change list \<Rightarrow> review_db \<Rightarrow> (string \<times> string) list \<times> review_db" where
  "log_changes env nm tid [] db = ([], db)"
| "log_changes env nm tid (change # changes) db =
     (let (changeId, db1) = insertRentScheduleChangeLog env nm tid change db; (ids, db2) = log_changes env nm tid changes db1
      in ((changeId, lc_stepId change) # ids, db2))"

definition loadChangeLogEntries :: "review_db \<Rightarrow> int \<Rightarrow> string list \<Rightarrow> logged_change list" where
  "loadChangeLogEntries db tid changeIds =
     List.map_filter
       (\<lambda>i. map_option lx_change (find (\<lambda>x. lx_changeId x = i \<and> lx_tenantId x = tid) (rb_changeLog db)))
       (take MAX_IDS changeIds)"

end
