(* ===== verification/Review_Apply.thy ===== *)
theory Review_Apply
  imports Review_Access
begin

text \<open>
  A decided rent written on the schedule and taken back: \<open>applyReview\<close> of \<open>src/rentReview/apply.ts\<close> and
  \<open>revertReview\<close> of \<open>src/rentReview/revert.ts\<close>. Both run in the caller's transaction: an error leaves nothing.
\<close>

section \<open>Apply\<close>

record apply_input =
  ai_actor :: money_caller
  ai_approvalBasis :: approval_basis
  ai_calc :: review_calc
  ai_chosenNewAnnual :: rat
  ai_chosenPercent :: rat
  ai_directorOverride :: "director_override option"
  ai_from :: review_state
  ai_newStepId :: string
  ai_review :: review_instance

definition departuresOf :: "review_calc \<Rightarrow> review_instance \<Rightarrow> tenancy_row \<Rightarrow> rate_step list \<Rightarrow> string list" where
  "departuresOf calc r t steps =
     (case cl_departures calc of
        Some ds \<Rightarrow> ds
      | None \<Rightarrow>
          if cl_method calc = CalcOther then []
          else leaseDepartures (cl_method calc) (case rw_basis r of Some b \<Rightarrow> b | None \<Rightarrow> [])
                 (leaseTermsOf t (stepOnDate steps (rw_scheduledFor r))))"

text \<open>C3, the sign-off, and C9, the lease's ratchet: whether each is overridden now, and the exemption of the row.\<close>

definition sign_off_stored :: "apply_input \<Rightarrow> tenancy_row \<Rightarrow> stored_override option" where
  "sign_off_stored inp t = (if tn_signedOff t \<noteq> None then None else storedOverride (ai_calc inp) CheckNotSignedOff)"

definition sign_off_now :: "apply_input \<Rightarrow> tenancy_row \<Rightarrow> bool" where
  "sign_off_now inp t \<longleftrightarrow>
     tn_signedOff t = None \<and> sign_off_stored inp t = None \<and> overrides (ai_directorOverride inp) CheckNotSignedOff"

definition below_ratchet :: "apply_input \<Rightarrow> tenancy_row \<Rightarrow> bool" where
  "below_ratchet inp t \<longleftrightarrow> ai_chosenNewAnnual inp < cl_currentAnnual (ai_calc inp) \<and> tn_ratchet t"

definition ratchet_stored :: "apply_input \<Rightarrow> tenancy_row \<Rightarrow> stored_override option" where
  "ratchet_stored inp t = (if below_ratchet inp t then storedOverride (ai_calc inp) CheckRatchet else None)"

definition ratchet_now :: "apply_input \<Rightarrow> tenancy_row \<Rightarrow> bool" where
  "ratchet_now inp t \<longleftrightarrow> below_ratchet inp t \<and> ratchet_stored inp t = None \<and> overrides (ai_directorOverride inp) CheckRatchet"

definition exemption_of :: "review_env \<Rightarrow> apply_input \<Rightarrow> tenancy_row \<Rightarrow> ratchet_exemption option" where
  "exemption_of env inp t =
     (case ratchet_stored inp t of
        Some s \<Rightarrow> Some \<lparr>rx_at = so_at s, rx_byName = take 200 (pe_name (so_by s)), rx_reason = so_reason s\<rparr>
      | None \<Rightarrow>
          if ratchet_now inp t
          then Some \<lparr>rx_at = ve_nowText env, rx_byName = take 200 (c_name (ai_actor inp)), rx_reason = override_reason (ai_directorOverride inp)\<rparr>
          else None)"

definition check_apply :: "apply_input \<Rightarrow> tenancy_row \<Rightarrow> review_failure + unit" where
  "check_apply inp t =
     and_then (refuseClosedTenancy False t) (\<lambda>_.
     and_then (ensure (tn_scheduleVersion t = cl_scheduleVersion (ai_calc inp)) Stale_schedule) (\<lambda>_.
     and_then (ensure (tn_signedOff t \<noteq> None \<or> sign_off_stored inp t \<noteq> None \<or> sign_off_now inp t) Not_signed_off) (\<lambda>_.
     ensure (\<not> below_ratchet inp t \<or> ratchet_stored inp t \<noteq> None \<or> ratchet_now inp t) Ratchet_holds)))"

text \<open>The rent written as it was shown, on the schedule as it stands.\<close>

definition apply_target :: "review_env \<Rightarrow> apply_input \<Rightarrow> tenancy_row \<Rightarrow> rat \<Rightarrow> stored_target" where
  "apply_target env inp t totalSqm =
     (let steps = parsed_steps t; r = ai_review inp
      in \<lparr>sg_calc = ai_calc inp, sg_departs = (cl_override (ai_calc inp) \<noteq> None \<or> departuresOf (ai_calc inp) r t steps \<noteq> []),
          sg_newStepId = ai_newStepId inp, sg_exempt = exemption_of env inp t, sg_reviewId = rw_id r,
          sg_schedule = scheduleOf env t steps totalSqm, sg_scheduledFor = rw_scheduledFor r, sg_stepId = rw_stepId r,
          sg_target = ai_chosenNewAnnual inp, sg_today = ve_today env\<rparr>)"

definition written_or_refused :: "stored_target \<Rightarrow> bool \<Rightarrow> review_failure + written_review" where
  "written_or_refused target ratchetHolds =
     (case writtenFromCalc target of
        CalcStepSettled \<Rightarrow> refused Step_settled
      | CalcStale \<Rightarrow> refused Stale_schedule
      | Unrepresentable \<Rightarrow> refused (calc_code (unrepresentableRent (sg_target target) (cl_currentAnnual (sg_calc target)) ratchetHolds))
      | Written written existing \<Rightarrow> Inr written)"

definition index_used :: "review_calc \<Rightarrow> (string \<times> rat \<times> rat) option" where
  "index_used calc =
     map_option
       (\<lambda>c. (take 100 (cc_region c @ '' '' @ cc_referenceQuarter c @ '' / '' @ cc_previousQuarter c @ '' ('' @ cc_referenceBase c @ '')''),
             cc_previous c, cc_current c))
       (cl_cpi calc)"

text \<open>What the write makes of the tenancy: L9, the last review date only moves on; L10, the cache waits for the date.\<close>

definition moves_last :: "review_instance \<Rightarrow> tenancy_row \<Rightarrow> bool" where
  "moves_last r t \<longleftrightarrow> (case tn_lastReviewDate t of None \<Rightarrow> True | Some d \<Rightarrow> js_le d (rw_scheduledFor r))"

definition cache_mark_of :: "review_env \<Rightarrow> review_instance \<Rightarrow> rate_step list \<Rightarrow> cache_mark" where
  "cache_mark_of env r steps =
     (if \<not> rentPerAnnumIsCache steps then CacheKept
      else if js_le (rw_scheduledFor r) (ve_today env) then CacheWritten else CacheDeferred)"

definition last_after :: "review_instance \<Rightarrow> tenancy_row \<Rightarrow> string option" where
  "last_after r t = (if moves_last r t then Some (rw_scheduledFor r) else tn_lastReviewDate t)"

definition apply_write :: "review_env \<Rightarrow> apply_input \<Rightarrow> tenancy_row \<Rightarrow> rate_step list \<Rightarrow> string option \<Rightarrow> tenancy_write" where
  "apply_write env inp t nextSteps nextDate =
     (let moved = moves_last (ai_review inp) t
      in \<lparr>tw_actorName = c_name (ai_actor inp), tw_actorOid = ve_oid env,
          tw_lastReviewDate = (if moved then Some (Some (rw_scheduledFor (ai_review inp))) else None),
          tw_lastReviewPercent = (if moved then Some (Some (ai_chosenPercent inp)) else None),
          tw_nextReviewDate = nextDate,
          tw_rentPerAnnum = (if cache_mark_of env (ai_review inp) nextSteps = CacheWritten then Some (Some (ai_chosenNewAnnual inp)) else None),
          tw_steps = nextSteps\<rparr>)"

definition outcome_of :: "apply_input \<Rightarrow> written_review \<Rightarrow> approved_outcome" where
  "outcome_of inp written =
     \<lparr>ao_approvalBasis = ai_approvalBasis inp, ao_approver = person_of (ai_actor inp), ao_calc = ai_calc inp, ao_cpi = index_used (ai_calc inp),
      ao_increasePercent = ai_chosenPercent inp, ao_newAnnual = ai_chosenNewAnnual inp, ao_oldAnnual = cl_currentAnnual (ai_calc inp),
      ao_preparer = (if ai_from inp = in_progress then Some (person_of (ai_actor inp)) else None), ao_stepId = rs_id (wr_step written)\<rparr>"

fun basis_rule :: "approval_basis \<Rightarrow> string" where
  "basis_rule BySecondPerson = ''approved''"
| "basis_rule AutoInBounds = ''auto_in_bounds''"
| "basis_rule ByDirectorOverride = ''director_override''"

definition apply_entry ::
  "review_env \<Rightarrow> apply_input \<Rightarrow> tenancy_row \<Rightarrow> written_review \<Rightarrow> (string \<times> string) list \<Rightarrow> tenancy_write \<Rightarrow> review_entry" where
  "apply_entry env inp t written changes w =
     (entry_of LApply (review_actor_of (ai_actor inp)) (ai_review inp) (Some (basis_rule (ai_approvalBasis inp))) None)
       \<lparr>dl_detail := ApplyDetail
          \<lparr>ad_appliedPercent = ai_chosenPercent inp, ad_cache = cache_mark_of env (ai_review inp) (tw_steps w),
           ad_newAnnual = ai_chosenNewAnnual inp, ad_oldAnnual = cl_currentAnnual (ai_calc inp), ad_scheduleChanges = changes,
           ad_step = wr_step written, ad_tenancyAfter = tenancyReviewFields (tenancy_written w t), ad_tenancyBefore = tenancyReviewFields t\<rparr>\<rparr>"

definition record_overrides :: "apply_input \<Rightarrow> tenancy_row \<Rightarrow> review_db \<Rightarrow> review_failure + review_db" where
  "record_overrides inp t db =
     (let reason = override_reason (ai_directorOverride inp); rec = (\<lambda>check. recordDirectorOverride (ai_actor inp) (ai_review inp) check reason)
      in and_then (if sign_off_now inp t then rec CheckNotSignedOff db else Inr db)
           (\<lambda>db. if ratchet_now inp t then rec CheckRatchet db else Inr db))"

definition moved_or :: "review_code \<Rightarrow> (review_failure + review_db option) \<Rightarrow> review_failure + review_db" where
  "moved_or code moved = and_then moved (\<lambda>v. some_or v code)"

definition apply_changes :: "tenancy_row \<Rightarrow> written_review \<Rightarrow> logged_change list" where
  "apply_changes t written =
     map log_entry (stepChanges (parsed_steps t) (si_steps (wr_simulation written)) (rs_id (wr_step written)))"

definition applyReview :: "review_env \<Rightarrow> apply_input \<Rightarrow> review_db \<Rightarrow> review_failure + review_db" where
  "applyReview env inp db =
     (let r = ai_review inp; tid = rw_tenantId r
      in and_then (some_or (find_tenancy db tid) Not_found) (\<lambda>t.
         and_then (check_apply inp t) (\<lambda>_.
         and_then (written_or_refused (apply_target env inp t (totalOccupancySqm db tid)) (tn_ratchet t \<and> exemption_of env inp t = None)) (\<lambda>written.
           let nextSteps = si_steps (wr_simulation written);
               (changes, db1) = log_changes env (c_name (ai_actor inp)) tid (apply_changes t written) db
           in and_then (derivedNextReview env (t\<lparr>tn_lastReviewDate := last_after r t\<rparr>) (resolvedReviewDates db t) nextSteps) (\<lambda>nextDate.
                let w = apply_write env inp t nextSteps nextDate
                in and_then (moved_or Invalid_state (markApproved env (rw_id r) (ai_from inp) (outcome_of inp written) (writeTenancyForReview tid w db1))) (\<lambda>db2.
                   and_then (record_overrides inp t db2) (\<lambda>db3.
                   record_entry (apply_entry env inp t written changes w) db3)))))))"

section \<open>Revert\<close>

text \<open>What the last apply wrote, from the ledger; a cache it put off and the generator wrote since counts as written.\<close>

record apply_record =
  ar_rentWritten :: bool
  ar_scheduleChanges :: "(string \<times> string) list"
  ar_tenancyAfter :: tenancy_fields
  ar_tenancyBefore :: tenancy_fields

definition cache_since :: "review_entry list \<Rightarrow> (rat option \<times> rat) option" where
  "cache_since newer =
     Option.bind (find (\<lambda>e. dl_action e = LRentCache) newer)
       (\<lambda>e. case dl_detail e of CacheDetail old upd \<Rightarrow> Some (old, upd) | _ \<Rightarrow> None)"

definition loadApplyRecord :: "review_db \<Rightarrow> string \<Rightarrow> apply_record option" where
  "loadApplyRecord db rid =
     (let newest = rev (entries_about rid db); newer = takeWhile (\<lambda>e. dl_action e \<noteq> LApply) newest
      in (case find (\<lambda>e. dl_action e = LApply) newest of
            None \<Rightarrow> None
          | Some e \<Rightarrow>
              (case dl_detail e of
                 ApplyDetail d \<Rightarrow>
                   (case (if ad_cache d = CacheDeferred then cache_since newer else None) of
                      None \<Rightarrow> Some \<lparr>ar_rentWritten = (ad_cache d = CacheWritten), ar_scheduleChanges = ad_scheduleChanges d,
                                ar_tenancyAfter = ad_tenancyAfter d, ar_tenancyBefore = ad_tenancyBefore d\<rparr>
                    | Some (old, upd) \<Rightarrow>
                        Some \<lparr>ar_rentWritten = True, ar_scheduleChanges = ad_scheduleChanges d,
                          ar_tenancyAfter = (ad_tenancyAfter d)\<lparr>tf_rentPerAnnum := Some upd\<rparr>,
                          ar_tenancyBefore = (ad_tenancyBefore d)\<lparr>tf_rentPerAnnum := old\<rparr>\<rparr>)
               | _ \<Rightarrow> None)))"

text \<open>\<open>same\<close> on numbers: within a millionth, and a \<open>null\<close> on the right is zero.\<close>

definition same_figure :: "rat option \<Rightarrow> rat option \<Rightarrow> bool" where
  "same_figure a b = (case a of None \<Rightarrow> b = None | Some x \<Rightarrow> \<bar>x - rent_or_zero b\<bar> < 1 / 10 ^ 6)"

definition fields_as_applied :: "apply_record \<Rightarrow> tenancy_row \<Rightarrow> bool" where
  "fields_as_applied rec t \<longleftrightarrow>
     tn_lastReviewDate t = tf_lastReviewDate (ar_tenancyAfter rec) \<and>
     same_figure (tn_lastReviewPercent t) (tf_lastReviewPercent (ar_tenancyAfter rec)) \<and>
     (ar_rentWritten rec \<longrightarrow> same_figure (tn_rentPerAnnum t) (tf_rentPerAnnum (ar_tenancyAfter rec)))"

record revert_input =
  vi_actor :: money_caller
  vi_reason :: string
  vi_review :: review_instance

text \<open>The next review, which goes first: only one nobody has started.\<close>

definition cancel_next :: "review_env \<Rightarrow> revert_input \<Rightarrow> review_db \<Rightarrow> review_failure + review_db" where
  "cancel_next env inp db =
     (let r = vi_review inp
      in (case otherOpenReview db (rw_tenantId r) (rw_id r) of
            None \<Rightarrow> Inr db
          | Some nextId \<Rightarrow>
              and_then (some_or (map_option fst (reviewForUpdate db nextId)) Next_review_in_progress) (\<lambda>n.
              and_then (ensure (rw_state n \<in> {scheduled, due} \<and> js_less (rw_scheduledFor r) (rw_scheduledFor n)) Next_review_in_progress) (\<lambda>_.
              and_then (moved_or Next_review_in_progress (markCancelled env nextId db)) (\<lambda>db1.
              record_entry
                (entry_of LCancel (review_actor_of (vi_actor inp)) (n\<lparr>rw_tenantId := rw_tenantId r\<rparr>) (Some ''revert_supersedes_next'')
                   (Some (take 2000 (''The review of '' @ rw_scheduledFor r @ '' was reverted, so the next one isn't due yet: '' @ vi_reason inp))))
                db1)))))"

definition restored_change :: "restored_step \<Rightarrow> logged_change" where
  "restored_change re =
     (case re_after re of
        None \<Rightarrow> \<lparr>lc_kind = ChDeleted, lc_diff = None, lc_snapshot = re_before re, lc_stepId = re_stepId re\<rparr>
      | Some a \<Rightarrow> \<lparr>lc_kind = ChUpdated, lc_diff = diffSteps (re_before re) a, lc_snapshot = a, lc_stepId = re_stepId re\<rparr>)"

definition revert_write :: "review_env \<Rightarrow> revert_input \<Rightarrow> apply_record \<Rightarrow> rate_step list \<Rightarrow> string option \<Rightarrow> tenancy_write" where
  "revert_write env inp rec steps nextDate =
     \<lparr>tw_actorName = c_name (vi_actor inp), tw_actorOid = ve_oid env,
      tw_lastReviewDate = Some (tf_lastReviewDate (ar_tenancyBefore rec)), tw_lastReviewPercent = Some (tf_lastReviewPercent (ar_tenancyBefore rec)),
      tw_nextReviewDate = nextDate,
      tw_rentPerAnnum = (if ar_rentWritten rec then Some (tf_rentPerAnnum (ar_tenancyBefore rec)) else None), tw_steps = steps\<rparr>"

definition undone_increase :: "review_instance \<Rightarrow> rat option" where
  "undone_increase r =
     (case (rw_oldRent r, rw_newRent r) of
        (Some old, Some new_rent) \<Rightarrow> Some (r2 (new_rent - old + an_increase (ancillaryChange (appliedCascade (rw_calc r)))))
      | _ \<Rightarrow> None)"

definition undo_logged :: "review_db \<Rightarrow> tenancy_row \<Rightarrow> apply_record \<Rightarrow> review_failure + restored_step list \<times> rate_step list" where
  "undo_logged db t rec =
     (let logged = loadChangeLogEntries db (tn_id t) (map fst (ar_scheduleChanges rec))
      in if length logged \<noteq> length (ar_scheduleChanges rec) then refused Not_revertible
         else (case undoChanges (parsed_steps t) logged of
                 ChangedSince sid \<Rightarrow> refused Changed_since_apply
               | Undone restored steps \<Rightarrow> Inr (restored, steps)))"

definition revertReview :: "review_env \<Rightarrow> revert_input \<Rightarrow> review_db \<Rightarrow> review_failure + review_db" where
  "revertReview env inp db =
     (let r = vi_review inp; tid = rw_tenantId r
      in and_then (some_or (find_tenancy db tid) Not_found) (\<lambda>t.
         and_then (refuseClosedTenancy False t) (\<lambda>_.
         and_then (some_or (loadApplyRecord db (rw_id r)) Not_revertible) (\<lambda>rec.
         and_then (ensure (ar_scheduleChanges rec \<noteq> []) Not_revertible) (\<lambda>_.
         and_then (undo_logged db t rec) (\<lambda>(restored, steps).
         and_then (ensure (fields_as_applied rec t) Changed_since_apply) (\<lambda>_.
         and_then (cancel_next env inp db) (\<lambda>db1.
         and_then (moved_or Invalid_state (markReverted env (rw_id r) db1)) (\<lambda>db2.
           let (ids, db3) = log_changes env (c_name (vi_actor inp)) tid (map restored_change restored) db2
           in and_then (derivedNextReview env (t\<lparr>tn_lastReviewDate := tf_lastReviewDate (ar_tenancyBefore rec)\<rparr>) (resolvedReviewDates db3 t) steps) (\<lambda>nextDate.
                record_entry
                  ((entry_of LRevert (review_actor_of (vi_actor inp)) r (Some ''revert_from_change_log'') (Some (vi_reason inp)))
                     \<lparr>dl_impact := undone_increase r\<rparr>)
                  (writeTenancyForReview tid (revert_write env inp rec steps nextDate) db3)))))))))))"

end
