(* ===== verification/Review_Generator.thy ===== *)
theory Review_Generator
  imports Review_Access
begin

text \<open>
  The review generator, \<open>src/rentReview/generator.ts\<close>: what a run plans for the tenancies and their open reviews,
  the planned transitions each in a transaction of its own, the run, and the same for one tenancy after a decision;
  and the rent caches a run writes on a review's date, \<open>src/rentReview/rentCache.ts\<close>. The log lines are not
  modelled, the report's counts are.
\<close>

section \<open>The settings\<close>

definition DEFAULT_REVIEW_WINDOW_DAYS :: int where "DEFAULT_REVIEW_WINDOW_DAYS = 60"

text \<open>The setting as \<open>Number\<close> reads it, \<open>NaN\<close> when blank.\<close>

definition reviewWindowDays :: "js_number \<Rightarrow> int" where
  "reviewWindowDays raw =
     (case raw of
        Num n \<Rightarrow> if is_integer n \<and> 0 \<le> n \<and> n \<le> 366 then \<lfloor>n\<rfloor> else DEFAULT_REVIEW_WINDOW_DAYS
      | _ \<Rightarrow> DEFAULT_REVIEW_WINDOW_DAYS)"

datatype generator_mode = ModeDryRun | ModeLive | ModeOff

definition generatorMode :: "string option \<Rightarrow> string option \<Rightarrow> generator_mode" where
  "generatorMode dryRun enabled =
     (if dryRun = Some ''true'' then ModeDryRun else if enabled = Some ''true'' then ModeLive else ModeOff)"

definition GENERATOR_ACTOR :: review_actor where "GENERATOR_ACTOR = ReviewSystem ''tenancyReviewScheduleTimer''"

section \<open>The plan\<close>

datatype generator_action =
    GenSchedule (ga_tenant: int) (ga_building: int) (ga_method: review_method) (ga_opensWindow: bool) (ga_date: string)
  | GenOpenWindow (ga_tenant: int) (ga_building: int) (ga_review: string) (ga_date: string)

datatype skip_reason = SkipArchived | SkipNoClause | SkipNoDate | SkipVacated

record drifted_review =
  dr_derived :: string
  dr_reviewId :: string
  dr_scheduledFor :: string
  dr_state :: review_state
  dr_tenantId :: int

record generator_plan =
  gp_actions :: "generator_action list"
  gp_drift :: "drifted_review list"
  gp_skipped :: "(skip_reason \<times> int) list"
  gp_unchanged :: nat

definition empty_plan :: generator_plan where
  "empty_plan = \<lparr>gp_actions = [], gp_drift = [], gp_skipped = [], gp_unchanged = 0\<rparr>"

definition join_plans :: "generator_plan \<Rightarrow> generator_plan \<Rightarrow> generator_plan" where
  "join_plans p q =
     \<lparr>gp_actions = gp_actions p @ gp_actions q, gp_drift = gp_drift p @ gp_drift q, gp_skipped = gp_skipped p @ gp_skipped q,
      gp_unchanged = gp_unchanged p + gp_unchanged q\<rparr>"

text \<open>The outer \<open>None\<close> is a date the code throws on.\<close>

definition nextReviewFor :: "review_env \<Rightarrow> tenancy_row \<times> string list \<Rightarrow> string option option" where
  "nextReviewFor env row =
     (case deriveNextReviewDate (nextReviewInputFromRow env (fst row) (snd row) (parsed_steps (fst row))) of
        None \<Rightarrow> None
      | Some derived \<Rightarrow> Some (or_default derived (tn_nextReviewDate (fst row))))"

definition within_window :: "review_env \<Rightarrow> int \<Rightarrow> string \<Rightarrow> bool option" where
  "within_window env windowDays date = map_option (\<lambda>n. n \<le> windowDays) (daysBetweenIso (ve_today env) date)"

definition skip_plan :: "skip_reason \<Rightarrow> tenancy_row \<Rightarrow> generator_plan" where
  "skip_plan why t = empty_plan\<lparr>gp_skipped := [(why, tn_id t)]\<rparr>"

definition plan_new :: "review_env \<Rightarrow> int \<Rightarrow> tenancy_row \<Rightarrow> string \<Rightarrow> generator_plan option" where
  "plan_new env windowDays t derived =
     (case resolveReviewMethod (tn_reviewType t) (stepOnDate (parsed_steps t) derived) of
        (m, source) \<Rightarrow>
          if source = FromFallback \<and> hasNoReviewClause (tn_reviewType t) then Some (skip_plan SkipNoClause t)
          else map_option (\<lambda>opens. empty_plan\<lparr>gp_actions := [GenSchedule (tn_id t) (tn_buildingId t) m opens derived]\<rparr>)
                 (within_window env windowDays derived))"

definition drift_of :: "tenancy_row \<Rightarrow> string \<Rightarrow> review_instance \<Rightarrow> drifted_review" where
  "drift_of t derived r =
     \<lparr>dr_derived = derived, dr_reviewId = rw_id r, dr_scheduledFor = rw_scheduledFor r, dr_state = rw_state r, dr_tenantId = tn_id t\<rparr>"

definition plan_open :: "review_env \<Rightarrow> int \<Rightarrow> tenancy_row \<Rightarrow> string \<Rightarrow> review_instance \<Rightarrow> generator_plan option" where
  "plan_open env windowDays t derived r =
     map_option
       (\<lambda>inside.
          let acted = review_canTransition (Some (rw_state r)) OPEN_WINDOW (no_review_facts\<lparr>withinWindow := inside\<rparr>);
              drifts = (rw_scheduledFor r \<noteq> derived)
          in \<lparr>gp_actions = (if acted then [GenOpenWindow (tn_id t) (tn_buildingId t) (rw_id r) (rw_scheduledFor r)] else []),
              gp_drift = (if drifts then [drift_of t derived r] else []), gp_skipped = [],
              gp_unchanged = (if \<not> drifts \<and> \<not> acted then 1 else 0)\<rparr>)
       (within_window env windowDays (rw_scheduledFor r))"

definition plan_tenancy ::
  "review_env \<Rightarrow> int \<Rightarrow> (int \<Rightarrow> review_instance option) \<Rightarrow> tenancy_row \<times> string list \<Rightarrow> generator_plan option" where
  "plan_tenancy env windowDays openOf row =
     (let t = fst row
      in if tn_status t = ''vacated'' then Some (skip_plan SkipVacated t)
         else if tn_archivedAt t \<noteq> None then Some (skip_plan SkipArchived t)
         else (case nextReviewFor env row of
                 None \<Rightarrow> None
               | Some None \<Rightarrow> Some (skip_plan SkipNoDate t)
               | Some (Some derived) \<Rightarrow>
                   (case openOf (tn_id t) of
                      None \<Rightarrow> plan_new env windowDays t derived
                    | Some r \<Rightarrow> plan_open env windowDays t derived r)))"

definition planGenerator ::
  "review_env \<Rightarrow> int \<Rightarrow> (int \<Rightarrow> review_instance option) \<Rightarrow> (tenancy_row \<times> string list) list \<Rightarrow> generator_plan option" where
  "planGenerator env windowDays openOf rows =
     map_option (\<lambda>plans. fold (\<lambda>p acc. join_plans acc p) plans empty_plan) (those (map (plan_tenancy env windowDays openOf) rows))"

section \<open>Reading\<close>

definition live_tenancy :: "tenancy_row \<Rightarrow> bool" where
  "live_tenancy t \<longleftrightarrow> tn_status t \<noteq> ''vacated'' \<and> tn_archivedAt t = None"

definition loadTenancies :: "review_db \<Rightarrow> (tenancy_row \<times> string list) list" where
  "loadTenancies db = map (\<lambda>t. (t, resolvedReviewDates db t)) (filter live_tenancy (rb_tenancies db))"

text \<open>A map filled row by row: the last row of a tenancy counts.\<close>

definition loadOpenReviews :: "review_db \<Rightarrow> int \<Rightarrow> review_instance option" where
  "loadOpenReviews db tid = find (\<lambda>r. rw_tenantId r = tid \<and> review_isOpenState (rw_state r)) (rev (rb_reviews db))"

section \<open>The transitions\<close>

definition system_entry :: "review_action \<Rightarrow> string \<Rightarrow> int \<Rightarrow> string \<Rightarrow> review_entry" where
  "system_entry action rid tid rule =
     \<lparr>dl_action = action, dl_actor = GENERATOR_ACTOR, dl_detail = NoDetail, dl_impact = None, dl_reason = None, dl_rule = Some rule,
      dl_reviewId = rid, dl_tenantId = tid\<rparr>"

text \<open>A transaction of its own answers whether it did something, and the tables; an error leaves them as they were.\<close>

definition openWindow :: "review_env \<Rightarrow> int \<Rightarrow> string \<Rightarrow> int \<Rightarrow> review_db \<Rightarrow> review_failure + bool \<times> review_db" where
  "openWindow env tid rid windowDays db =
     and_then (markWindowOpen env rid db) (\<lambda>moved.
       case moved of
         None \<Rightarrow> Inr (False, db)
       | Some db1 \<Rightarrow>
           and_then (record_entry (system_entry LOpenWindow rid tid (''review_window_'' @ int_text windowDays @ ''_days'')) db1)
             (\<lambda>db2. Inr (True, db2)))"

text \<open>A new review's id, numbered by the reviews there are.\<close>

definition new_review_id :: "review_env \<Rightarrow> review_db \<Rightarrow> string" where
  "new_review_id env db = ve_uuid env (3 + length (rb_reviews db))"

definition schedule_review :: "review_env \<Rightarrow> generator_action \<Rightarrow> string \<Rightarrow> review_db \<Rightarrow> review_failure + bool \<times> review_db" where
  "schedule_review env action rid db =
     (case insertScheduledReview env rid (ga_tenant action) (ga_building action) (ga_method action) (ga_date action) db of
        Inl failure \<Rightarrow> if failure = UniqueIndex then Inr (False, db) else Inl failure
      | Inr db1 \<Rightarrow>
          and_then (record_entry (system_entry LSchedule rid (ga_tenant action) ''derived_next_review'') db1) (\<lambda>db2. Inr (True, db2)))"

record action_result =
  an_raced :: bool
  an_scheduled :: bool
  an_windowError :: bool
  an_windowOpened :: bool

definition action_done :: "bool \<Rightarrow> bool \<Rightarrow> bool \<Rightarrow> bool \<Rightarrow> action_result" where
  "action_done raced sched err opened = \<lparr>an_raced = raced, an_scheduled = sched, an_windowError = err, an_windowOpened = opened\<rparr>"

definition applyAction :: "review_env \<Rightarrow> int \<Rightarrow> generator_action \<Rightarrow> review_db \<Rightarrow> review_failure + action_result \<times> review_db" where
  "applyAction env windowDays action db =
     (case action of
        GenOpenWindow tid building rid date \<Rightarrow>
          and_then (openWindow env tid rid windowDays db) (\<lambda>(opened, db1). Inr (action_done (\<not> opened) False False opened, db1))
      | GenSchedule tid building m opens date \<Rightarrow>
          (let rid = new_review_id env db
           in and_then (schedule_review env action rid db) (\<lambda>(created, db1).
                if \<not> created then Inr (action_done True False False False, db1)
                else if \<not> opens then Inr (action_done False True False False, db1)
                else (case openWindow env tid rid windowDays db1 of
                        Inl err \<Rightarrow> Inr (action_done False True True False, db1)
                      | Inr (opened, db2) \<Rightarrow> Inr (action_done (\<not> opened) True False opened, db2)))))"

section \<open>The rent caches\<close>

datatype rent_cache_plan = CacheWrite "rat option" rat | CacheCurrent rat | CacheSkip

definition planRentCache :: "review_env \<Rightarrow> review_instance \<Rightarrow> tenancy_row \<Rightarrow> rent_cache_plan" where
  "planRentCache env r t =
     (if \<not> live_tenancy t then CacheSkip
      else let steps = parsed_steps t; cached = tn_rentPerAnnum t
      in if \<not> rentPerAnnumIsCache steps then CacheSkip
         else (case resolveCurrentRent (computeScheduleRows steps (rent_or_zero cached) 0 (scheduleTermsOf env t)) (rent_or_zero cached) (ve_today env) of
                 CurRow row \<Rightarrow>
                   if rs_reviewId (sr_step row) \<noteq> Some (rw_id r) \<or> rs_resolution (sr_step row) \<noteq> Some Applied then CacheSkip
                   else (case rw_newRent r of
                           None \<Rightarrow> CacheSkip
                         | Some expected \<Rightarrow>
                             if sr_annual row \<noteq> r2 expected then CacheSkip
                             else (case cached of
                                     Some c \<Rightarrow> if \<bar>c - sr_annual row\<bar> < 1 / 200 then CacheCurrent (sr_annual row) else CacheWrite cached (sr_annual row)
                                   | None \<Rightarrow> CacheWrite cached (sr_annual row)))
               | _ \<Rightarrow> CacheSkip))"

text \<open>The reviews whose latest apply put the cache off, whose date has come, and which nobody has written since.\<close>

definition apply_deferred :: "review_entry \<Rightarrow> bool" where
  "apply_deferred e \<longleftrightarrow> (case dl_detail e of ApplyDetail d \<Rightarrow> ad_cache d = CacheDeferred | _ \<Rightarrow> False)"

definition cache_due :: "review_env \<Rightarrow> review_db \<Rightarrow> review_instance \<Rightarrow> bool" where
  "cache_due env db r \<longleftrightarrow>
     rw_state r \<in> {approved, completed} \<and> js_le (rw_scheduledFor r) (ve_today env) \<and>
     (let newest = rev (entries_about (rw_id r) db); newer = takeWhile (\<lambda>e. dl_action e \<noteq> LApply) newest
      in (case find (\<lambda>e. dl_action e = LApply) newest of
            None \<Rightarrow> False
          | Some e \<Rightarrow> apply_deferred e \<and> list_all (\<lambda>e. dl_action e \<noteq> LRentCache) newer))"

definition due_caches :: "review_env \<Rightarrow> review_db \<Rightarrow> (review_instance \<times> tenancy_row) list" where
  "due_caches env db =
     List.map_filter (\<lambda>r. if cache_due env db r then map_option (\<lambda>t. (r, t)) (find_tenancy db (rw_tenantId r)) else None) (rb_reviews db)"

text \<open>The write, only where the rent is still what was read; its ledger row.\<close>

definition cache_row_written :: "tenancy_row \<Rightarrow> rat option \<Rightarrow> rat \<Rightarrow> review_db \<Rightarrow> review_db option" where
  "cache_row_written t expected rent db =
     (case find_tenancy db (tn_id t) of
        None \<Rightarrow> None
      | Some now_row \<Rightarrow>
          if tn_rentPerAnnum now_row \<noteq> expected then None
          else Some (db\<lparr>rb_tenancies :=
                 map (\<lambda>u. if tn_id u = tn_id t
                          then u\<lparr>tn_rentPerAnnum := Some rent,
                                 tn_updatedBy := (''system:'' @ actor_nm GENERATOR_ACTOR, actor_nm GENERATOR_ACTOR)\<rparr> else u) (rb_tenancies db)\<rparr>))"

definition cache_entry :: "review_instance \<Rightarrow> rat option \<Rightarrow> rat \<Rightarrow> string \<Rightarrow> review_entry" where
  "cache_entry r old rent rule = (system_entry LRentCache (rw_id r) (rw_tenantId r) rule)\<lparr>dl_detail := CacheDetail old rent\<rparr>"

definition write_cache :: "review_env \<Rightarrow> review_instance \<times> tenancy_row \<Rightarrow> review_db \<Rightarrow> review_failure + review_db" where
  "write_cache env rt db =
     (case planRentCache env (fst rt) (snd rt) of
        CacheSkip \<Rightarrow> Inr db
      | CacheCurrent rent \<Rightarrow> record_entry (cache_entry (fst rt) (Some rent) rent ''already_current'') db
      | CacheWrite old rent \<Rightarrow>
          (case cache_row_written (snd rt) old rent db of
             None \<Rightarrow> Inr db
           | Some db1 \<Rightarrow> record_entry (cache_entry (fst rt) old rent ''review_date_arrived'') db1))"

definition or_unchanged :: "'b \<Rightarrow> 'a + 'b \<Rightarrow> 'b" where
  "or_unchanged db result = (case result of Inl err \<Rightarrow> db | Inr db1 \<Rightarrow> db1)"

definition writeDueRentCaches :: "review_env \<Rightarrow> review_db \<Rightarrow> review_db" where
  "writeDueRentCaches env db = fold (\<lambda>rt now_db. or_unchanged now_db (write_cache env rt now_db)) (due_caches env db) db"

section \<open>The run\<close>

record generator_report =
  gr_drift :: "drifted_review list"
  gr_errors :: "int list"
  gr_raced :: nat
  gr_scheduled :: nat
  gr_skipped :: "(skip_reason \<times> int) list"
  gr_unchanged :: nat
  gr_windowsOpened :: nat

definition report_of :: "generator_plan \<Rightarrow> generator_report" where
  "report_of plan =
     \<lparr>gr_drift = gp_drift plan, gr_errors = [], gr_raced = 0, gr_scheduled = 0, gr_skipped = gp_skipped plan, gr_unchanged = gp_unchanged plan,
      gr_windowsOpened = 0\<rparr>"

definition counted :: "generator_action \<Rightarrow> action_result \<Rightarrow> generator_report \<Rightarrow> generator_report" where
  "counted action res rep =
     rep\<lparr>gr_raced := gr_raced rep + (if an_raced res then 1 else 0), gr_scheduled := gr_scheduled rep + (if an_scheduled res then 1 else 0),
         gr_windowsOpened := gr_windowsOpened rep + (if an_windowOpened res then 1 else 0),
         gr_errors := gr_errors rep @ (if an_windowError res then [ga_tenant action] else [])\<rparr>"

fun run_actions :: "review_env \<Rightarrow> int \<Rightarrow> generator_action list \<Rightarrow> generator_report \<times> review_db \<Rightarrow> generator_report \<times> review_db" where
  "run_actions env windowDays [] st = st"
| "run_actions env windowDays (action # actions) (rep, db) =
     run_actions env windowDays actions
       (case applyAction env windowDays action db of
          Inl err \<Rightarrow> (rep\<lparr>gr_errors := gr_errors rep @ [ga_tenant action]\<rparr>, db)
        | Inr (res, db1) \<Rightarrow> (counted action res rep, db1))"

definition to_open :: "generator_action \<Rightarrow> bool" where
  "to_open action = (case action of GenSchedule tid building m opens date \<Rightarrow> opens | _ \<Rightarrow> True)"

definition to_schedule :: "generator_action \<Rightarrow> bool" where
  "to_schedule action = (case action of GenSchedule tid building m opens date \<Rightarrow> True | _ \<Rightarrow> False)"

text \<open>A run of the timer, without its escalations; \<open>None\<close> when the plan throws. A dry run only counts.\<close>

definition runReviewGenerator :: "review_env \<Rightarrow> bool \<Rightarrow> int \<Rightarrow> review_db \<Rightarrow> (generator_report \<times> review_db) option" where
  "runReviewGenerator env dryRun windowDays db =
     map_option
       (\<lambda>plan.
          if dryRun
          then ((report_of plan)\<lparr>gr_scheduled := length (filter to_schedule (gp_actions plan)),
                  gr_windowsOpened := length (filter to_open (gp_actions plan))\<rparr>, db)
          else (case run_actions env windowDays (gp_actions plan) (report_of plan, db) of
                  (rep, db1) \<Rightarrow> (rep, writeDueRentCaches env db1)))
       (planGenerator env windowDays (loadOpenReviews db) (loadTenancies db))"

text \<open>SCHEDULE for one tenancy: the actions of its plan until one fails.\<close>

fun schedule_actions :: "review_env \<Rightarrow> int \<Rightarrow> generator_action list \<Rightarrow> review_db \<Rightarrow> review_db" where
  "schedule_actions env windowDays [] db = db"
| "schedule_actions env windowDays (action # actions) db =
     (case applyAction env windowDays action db of
        Inl err \<Rightarrow> db
      | Inr (res, db1) \<Rightarrow> if an_windowError res then db1 else schedule_actions env windowDays actions db1)"

definition scheduleNextReview :: "review_env \<Rightarrow> int \<Rightarrow> int \<Rightarrow> review_db \<Rightarrow> review_db" where
  "scheduleNextReview env windowDays tid db =
     (case planGenerator env windowDays (loadOpenReviews db) (filter (\<lambda>row. tn_id (fst row) = tid) (loadTenancies db)) of
        None \<Rightarrow> db
      | Some plan \<Rightarrow> if gp_skipped plan \<noteq> [] then db else schedule_actions env windowDays (gp_actions plan) db)"

end
