(* ===== verification/Review_Handlers.thy ===== *)
theory Review_Handlers
  imports Review_Apply Review_Generator
begin

text \<open>
  The requests that work a rent review, one transaction each: \<open>commenceRentReview\<close>, \<open>updateRentReviewBasis\<close>,
  \<open>calculateRentReview\<close> (with \<open>rentReview/calculate.ts\<close> and \<open>rentReview/leaseTerms.ts\<close>), \<open>returnRentReview\<close>,
  \<open>cancelRentReview\<close>, \<open>waiveRentReview\<close>, \<open>revertRentReview\<close> and \<open>approveRentReview\<close>; \<open>submitRentReview\<close> is
  \<open>Review_Submit\<close>. A refused request leaves the tables but for the attempt it may record. The work after the
  commit is the scheduling of the next review (\<open>afterDecision.ts\<close>); the escalations that end, the caches and the
  Planner tasks are not modelled.
\<close>

section \<open>A request\<close>

record review_request =
  rq_body :: "json_object option" \<comment> \<open>\<open>None\<close>: not a JSON object\<close>
  rq_caller :: money_caller
  rq_known :: bool \<comment> \<open>the token resolves to a person\<close>

datatype review_reply = Replied (reply_status: nat) (reply_code: "review_code option")

fun failure_reply :: "review_failure \<Rightarrow> review_reply" where
  "failure_reply (Refused code noted) = Replied (STATUS code) (Some code)"
| "failure_reply LedgerRefused = Replied 400 None"
| "failure_reply UniqueIndex = Replied 500 None"
| "failure_reply Failed = Replied 500 None"

text \<open>The decision's transaction: all of it or, on an error, only the attempt the error carries.\<close>

definition settle :: "(review_failure + review_db) \<Rightarrow> review_db \<Rightarrow> review_reply \<times> review_db" where
  "settle result db =
     (case result of
        Inl failure \<Rightarrow> (failure_reply failure, recordReviewRefusal failure db)
      | Inr db1 \<Rightarrow> (Replied 200 None, db1))"

text \<open>The gates, the body read, the person behind the token, and the decision.\<close>

definition gated ::
  "string list \<Rightarrow> bool \<Rightarrow> review_request \<Rightarrow> (json_object \<Rightarrow> review_failure + 'a) \<Rightarrow> ('a \<Rightarrow> review_failure + review_db) \<Rightarrow> review_db \<Rightarrow>
   review_reply \<times> review_db" where
  "gated roles gate rq reads work db =
     (if \<not> rolesPassGate (c_roles (rq_caller rq)) roles then (Replied 403 None, db)
      else if \<not> gate then (Replied 403 None, db)
      else (case rq_body rq of
              None \<Rightarrow> (failure_reply (Refused Bad_request None), db)
            | Some body \<Rightarrow>
                (case reads body of
                   Inl failure \<Rightarrow> (failure_reply failure, db)
                 | Inr question \<Rightarrow> if rq_known rq then settle (work question) db else (Replied 401 None, db))))"

text \<open>The review named and the row version it was read at, with what else the body says.\<close>

definition review_ref :: "json_object \<Rightarrow> (json_object \<Rightarrow> review_failure + 'a) \<Rightarrow> review_failure + string \<times> string \<times> 'a" where
  "review_ref body rest =
     and_then (readReviewId (obj_get body ''reviewId'')) (\<lambda>rid.
     and_then (readRowVersion (obj_get body ''rowVersion'')) (\<lambda>version.
     and_then (rest body) (\<lambda>said. Inr (rid, version, said))))"

definition read_plain :: "json_object \<Rightarrow> review_failure + string \<times> string \<times> unit" where
  "read_plain body = review_ref body (\<lambda>body. Inr ())"

definition read_reasoned :: "string \<Rightarrow> json_object \<Rightarrow> review_failure + string \<times> string \<times> string" where
  "read_reasoned key body = review_ref body (\<lambda>body. readReason (obj_get body key))"

definition fresh_read :: "review_instance \<Rightarrow> string \<Rightarrow> review_failure + unit" where
  "fresh_read r version = ensure (rowVersionHex (rw_version r) = version) Stale_read"

definition can_move :: "review_instance \<Rightarrow> review_event \<Rightarrow> review_failure + unit" where
  "can_move r e = ensure (review_canTransition (Some (rw_state r)) e no_review_facts) Invalid_state"

text \<open>An archived tenancy's reviews are history, a vacated one's are not decided.\<close>

definition or_noting :: "bool \<Rightarrow> review_code \<Rightarrow> review_entry \<Rightarrow> review_failure + unit" where
  "or_noting b code e = (if b then Inr () else refused_noting code e)"

section \<open>Commence\<close>

definition method_rule :: "method_source \<Rightarrow> string" where
  "method_rule source =
     (case source of FromFallback \<Rightarrow> ''method_other_fallback'' | FromReviewType \<Rightarrow> ''method_from_review_type'' | FromStep \<Rightarrow> ''method_from_step'')"

definition basis_source_of :: "tenancy_row \<Rightarrow> review_method \<Rightarrow> string \<Rightarrow> rate_step option \<Rightarrow> basis_source" where
  "basis_source_of t m scheduledFor step =
     \<lparr>bs_cpiCapPercent = tn_cpiCapPercent t, bs_cpiFloorPercent = tn_cpiFloorPercent t, bs_cpiReferenceRule = tn_cpiReferenceRule t,
      bs_cpiRegion = tn_cpiRegion t, bs_fixedReviewPercent = tn_fixedReviewPercent t,
      bs_intervalMonths = map_option of_int (tn_reviewIntervalMonths t), bs_method = m, bs_ratchet = tn_ratchet t,
      bs_reviewType = tn_reviewType t, bs_reviewDate = scheduledFor, bs_step = step\<rparr>"

definition commencement_of :: "tenancy_row \<Rightarrow> review_instance \<Rightarrow> int \<Rightarrow> commencement \<times> method_source" where
  "commencement_of t r owner =
     (let step = stepOnDate (parsed_steps t) (rw_scheduledFor r); (m, source) = resolveReviewMethod (tn_reviewType t) step
      in (\<lparr>cm_basis = buildBasisSnapshot (basis_source_of t m (rw_scheduledFor r) step), cm_buildingId = tn_buildingId t, cm_method = m,
           cm_ownerUserId = owner, cm_stepId = map_option rs_id step\<rparr>, source))"

definition commence_work :: "review_env \<Rightarrow> review_request \<Rightarrow> review_db \<Rightarrow> string \<times> string \<times> unit \<Rightarrow> review_failure + review_db" where
  "commence_work env rq db = (\<lambda>(rid, version, _).
     and_then (some_or (c_userId (rq_caller rq)) No_user) (\<lambda>owner.
     and_then (some_or (reviewForUpdate db rid) Not_found) (\<lambda>(r, t).
     and_then (fresh_read r version) (\<lambda>_.
     and_then (can_move r COMMENCE) (\<lambda>_.
     and_then (refuseClosedTenancy False t) (\<lambda>_.
     and_then (ensure (otherOpenReview db (rw_tenantId r) rid = None) Open_review_exists) (\<lambda>_.
       let (c, source) = commencement_of t r owner
       in and_then (moved_or Invalid_state (markCommenced env rid c db)) (\<lambda>db1.
          record_entry (entry_of LCommence (review_actor_of (rq_caller rq)) r (Some (method_rule source)) None) db1))))))))"

definition commenceRentReview :: "review_env \<Rightarrow> review_request \<Rightarrow> review_db \<Rightarrow> review_reply \<times> review_db" where
  "commenceRentReview env rq db = gated TENANCY_EDIT_ROLES True rq read_plain (commence_work env rq db) db"

section \<open>The basis\<close>

fun basis_code :: "basis_refusal \<Rightarrow> review_code" where
  "basis_code BasisUnchanged = No_change" | "basis_code FloorAboveCap = Bad_request"

definition patched_basis :: "review_instance \<Rightarrow> json option \<Rightarrow> review_failure + basis_change" where
  "patched_basis r patch =
     and_then (some_or (rw_method r) Invalid_state) (\<lambda>m.
       case validateBasisPatch m (case patch of Some v \<Rightarrow> v | None \<Rightarrow> JNull) of
         Inl err \<Rightarrow> refused Bad_request
       | Inr edits \<Rightarrow>
           (case applyBasisPatch (case rw_basis r of Some b \<Rightarrow> b | None \<Rightarrow> []) edits of
              Inl why \<Rightarrow> refused (basis_code why)
            | Inr change \<Rightarrow> Inr change))"

definition read_basis :: "json_object \<Rightarrow> review_failure + string \<times> string \<times> string \<times> json option" where
  "read_basis body =
     review_ref body (\<lambda>body. and_then (readReason (obj_get body ''reason'')) (\<lambda>reason. Inr (reason, obj_get body ''basis'')))"

definition basis_work :: "review_env \<Rightarrow> review_request \<Rightarrow> review_db \<Rightarrow> string \<times> string \<times> string \<times> json option \<Rightarrow> review_failure + review_db" where
  "basis_work env rq db = (\<lambda>(rid, version, reason, patch).
     and_then (some_or (reviewForUpdate db rid) Not_found) (\<lambda>(r, t).
     and_then (fresh_read r version) (\<lambda>_.
     and_then (ensure (rw_state r \<in> {in_progress, awaiting_index}) Invalid_state) (\<lambda>_.
     and_then (ensure (tn_archivedAt t = None) Tenancy_archived) (\<lambda>_.
     and_then (ensure (ownsOrManages r (rq_caller rq)) Forbidden_role) (\<lambda>_.
     and_then (patched_basis r patch) (\<lambda>change.
     and_then (some_or (saveBasis env rid (bc_basis change) db) Invalid_state) (\<lambda>db1.
     record_entry (entry_of LBasisUpdate (review_actor_of (rq_caller rq)) r None (Some reason)) db1))))))))"

definition updateRentReviewBasis :: "review_env \<Rightarrow> review_request \<Rightarrow> review_db \<Rightarrow> review_reply \<times> review_db" where
  "updateRentReviewBasis env rq db = gated TENANCY_EDIT_ROLES True rq read_basis (basis_work env rq db) db"

section \<open>Calculate\<close>

fun calc_method_of :: "review_method \<Rightarrow> calc_method option" where
  "calc_method_of cpi = Some CalcCpi"
| "calc_method_of fixed = Some CalcFixed"
| "calc_method_of other = Some CalcOther"
| "calc_method_of market = None"

definition review_basis :: "review_instance \<Rightarrow> json_object" where
  "review_basis r = (case rw_basis r of Some b \<Rightarrow> b | None \<Rightarrow> [])"

text \<open>The CPI pair of a basis; the reference quarter is worked out whatever the method.\<close>

definition cpi_rows_for :: "review_db \<Rightarrow> calc_method \<Rightarrow> json_object \<Rightarrow> string \<Rightarrow> review_failure + cpi_index_row list" where
  "cpi_rows_for db m basis scheduledFor =
     (case referenceQuarterFor (cpi_rule_named (text_of (obj_get basis ''referenceQuarterRule''))) scheduledFor of
        None \<Rightarrow> Inl Failed
      | Some reference \<Rightarrow>
          (case region_in basis of
             Some region \<Rightarrow>
               if m = CalcCpi \<and> region \<in> {''AUS'', ''DARWIN''}
               then (case previousQuarter reference (number_in (obj_get basis ''intervalMonths'')) of
                       None \<Rightarrow> Inl Failed
                     | Some previous \<Rightarrow> Inr (loadCpiRows db region [reference, previous]))
               else Inr []
           | None \<Rightarrow> Inr []))"

definition calc_input_of ::
  "review_env \<Rightarrow> review_instance \<Rightarrow> review_schedule \<Rightarrow> calc_method \<Rightarrow> json_object \<Rightarrow> cpi_index_row list \<Rightarrow> int \<Rightarrow> nat \<Rightarrow> calc_input" where
  "calc_input_of env r schedule m basis cpiRows version uuid =
     \<lparr>kn_basis = basis, kn_groups = vs_groups schedule, kn_computedAt = ve_nowText env,
      kn_computedBy = \<lparr>pe_name = ''estimate'', pe_userId = None\<rparr>, kn_cpiRows = cpiRows, kn_departures = [],
      kn_fallbackAnnual = sc_fallbackAnnual (vs_context schedule), kn_fallbackSqm = sc_fallbackSqm (vs_context schedule),
      kn_lease = sc_lease (vs_context schedule), kn_manual = None, kn_method = m, kn_fees = vs_fees schedule, kn_newStepId = ve_uuid env uuid,
      kn_reliefs = [], kn_reviewId = rw_id r, kn_sanity = sanityBandFromEnv (ve_sanityMin env) (ve_sanityMax env),
      kn_scheduledFor = rw_scheduledFor r, kn_scheduleVersion = version, kn_stepId = rw_stepId r,
      kn_steps = sc_steps (vs_context schedule), kn_today = ve_today env\<rparr>"

definition ran :: "calc_result option \<Rightarrow> review_failure + calc_result" where
  "ran result = (case result of None \<Rightarrow> Inl Failed | Some v \<Rightarrow> Inr v)"

definition review_departures :: "calc_method \<Rightarrow> review_instance \<Rightarrow> tenancy_row \<Rightarrow> string list" where
  "review_departures m r t =
     (if m = CalcOther then []
      else leaseDepartures m (review_basis r) (leaseTermsOf t (stepOnDate (parsed_steps t) (rw_scheduledFor r))))"

definition workOutReview ::
  "review_env \<Rightarrow> review_db \<Rightarrow> calc_person \<Rightarrow> (string \<times> js_number) option \<Rightarrow> calc_method \<Rightarrow> review_instance \<Rightarrow> tenancy_row \<Rightarrow>
   review_failure + calc_result" where
  "workOutReview env db computedBy manual m r t =
     and_then (cpi_rows_for db m (review_basis r) (rw_scheduledFor r)) (\<lambda>cpiRows.
       let schedule = scheduleOf env t (parsed_steps t) (totalOccupancySqm db (rw_tenantId r))
       in ran (calculateReview
            ((calc_input_of env r schedule m (review_basis r) cpiRows (tn_scheduleVersion t) 0)
               \<lparr>kn_computedBy := computedBy, kn_manual := manual, kn_departures := review_departures m r t, kn_reliefs := vs_reliefs schedule\<rparr>)))"

definition calculate_rule :: "calc_method \<Rightarrow> review_instance \<Rightarrow> string" where
  "calculate_rule m r =
     (case m of
        CalcCpi \<Rightarrow> ''cpi_'' @ rule_name (text_of (obj_get (review_basis r) ''referenceQuarterRule''))
      | CalcFixed \<Rightarrow> ''fixed_lease_percent''
      | CalcOther \<Rightarrow> ''manual'')"

definition store_result :: "review_env \<Rightarrow> money_caller \<Rightarrow> review_instance \<Rightarrow> calc_method \<Rightarrow> calc_result \<Rightarrow> review_db \<Rightarrow> review_failure + review_db" where
  "store_result env caller r m result db =
     (case result of
        CalcRefused why \<Rightarrow> refused (calc_code why)
      | CalcIndexPending expected missing previous reference region \<Rightarrow>
          and_then (ensure (review_canTransition (Some (rw_state r)) INDEX_PENDING (no_review_facts\<lparr>reviewMethod := Some cpi\<rparr>)) Invalid_state) (\<lambda>_.
          and_then (moved_or Invalid_state (markAwaitingIndex env (rw_id r) expected db)) (\<lambda>db1.
          record_entry (entry_of LIndexPending (review_actor_of caller) r (Some ''reference_quarter_unpublished'') None) db1))
      | CalcDone calc \<Rightarrow>
          and_then (moved_or Invalid_state (saveCalc env (rw_id r) calc db)) (\<lambda>db1.
          record_entry (entry_of LCalculate (review_actor_of caller) r (Some (calculate_rule m r)) None) db1))"

definition read_calculate :: "json_object \<Rightarrow> review_failure + string \<times> string \<times> (string \<times> js_number) option" where
  "read_calculate body = review_ref body (\<lambda>body. readManual (obj_get body ''manual''))"

definition calculate_work ::
  "review_env \<Rightarrow> review_request \<Rightarrow> review_db \<Rightarrow> string \<times> string \<times> (string \<times> js_number) option \<Rightarrow> review_failure + review_db" where
  "calculate_work env rq db = (\<lambda>(rid, version, manual).
     and_then (some_or (reviewForUpdate db rid) Not_found) (\<lambda>(r, t).
     and_then (fresh_read r version) (\<lambda>_.
     and_then (or_noting (ownsOrManages r (rq_caller rq)) Forbidden_role (deniedAttempt (rq_caller rq) r ''not_owner_or_manager'')) (\<lambda>_.
     and_then (ensure (rw_state r = in_progress) Invalid_state) (\<lambda>_.
     and_then (ensure (rw_method r \<noteq> Some market) Method_not_supported) (\<lambda>_.
     and_then (some_or (Option.bind (rw_method r) calc_method_of) Invalid_state) (\<lambda>m.
     and_then (ensure (manual = None \<or> m = CalcOther) Bad_request) (\<lambda>_.
     and_then (refuseClosedTenancy False t) (\<lambda>_.
     and_then (workOutReview env db (person_of (rq_caller rq)) manual m r t) (\<lambda>result.
     store_result env (rq_caller rq) r m result db))))))))))"

definition calculateRentReview :: "review_env \<Rightarrow> review_request \<Rightarrow> review_db \<Rightarrow> review_reply \<times> review_db" where
  "calculateRentReview env rq db = gated TENANCY_EDIT_ROLES True rq read_calculate (calculate_work env rq db) db"

section \<open>Return and cancel\<close>

definition return_work :: "review_env \<Rightarrow> review_request \<Rightarrow> review_db \<Rightarrow> string \<times> string \<times> string \<Rightarrow> review_failure + review_db" where
  "return_work env rq db = (\<lambda>(rid, version, note).
     and_then (some_or (reviewForUpdate db rid) Not_found) (\<lambda>(r, t).
     and_then (or_noting (holdsApproverRole (c_roles (rq_caller rq))) Forbidden_role (deniedAttempt (rq_caller rq) r ''role_not_permitted'')) (\<lambda>_.
     and_then (fresh_read r version) (\<lambda>_.
     and_then (can_move r RETURN) (\<lambda>_.
     and_then (refuseClosedTenancy False t) (\<lambda>_.
     and_then (moved_or Invalid_state (markReturned env rid db)) (\<lambda>db1.
     record_entry (entry_of LReturn (review_actor_of (rq_caller rq)) r None (Some note)) db1)))))))"

definition returnRentReview :: "review_env \<Rightarrow> review_request \<Rightarrow> review_db \<Rightarrow> review_reply \<times> review_db" where
  "returnRentReview env rq db = gated REVIEW_APPROVE_ROLES True rq (read_reasoned ''note'') (return_work env rq db) db"

text \<open>What a decision that answers goes on to schedule, after its commit.\<close>

definition then_schedule :: "review_env \<Rightarrow> int \<Rightarrow> int option \<Rightarrow> review_reply \<times> review_db \<Rightarrow> review_reply \<times> review_db" where
  "then_schedule env windowDays tenant answered =
     (case (answered, tenant) of
        ((Replied status code, db), Some tid) \<Rightarrow>
          if status = 200 then (Replied status code, scheduleNextReview env windowDays tid db) else (Replied status code, db)
      | (other_answer, None) \<Rightarrow> other_answer)"

text \<open>The tenancy of the review a body names.\<close>

definition tenant_named :: "review_request \<Rightarrow> review_db \<Rightarrow> tenancy_row option" where
  "tenant_named rq db =
     (case rq_body rq of
        None \<Rightarrow> None
      | Some body \<Rightarrow>
          (case readReviewId (obj_get body ''reviewId'') of
             Inr rid \<Rightarrow> map_option snd (reviewForUpdate db rid)
           | Inl err \<Rightarrow> None))"

definition cancel_kind :: "tenancy_row \<Rightarrow> string" where
  "cancel_kind t = (if tn_status t = ''vacated'' then ''vacated'' else ''superseded'')"

definition cancel_work :: "review_env \<Rightarrow> review_request \<Rightarrow> review_db \<Rightarrow> string \<times> string \<times> string \<Rightarrow> review_failure + review_db" where
  "cancel_work env rq db = (\<lambda>(rid, version, reason).
     and_then (ensure (isManagerOrAbove (c_roles (rq_caller rq))) Forbidden_role) (\<lambda>_.
     and_then (some_or (reviewForUpdate db rid) Not_found) (\<lambda>(r, t).
     and_then (fresh_read r version) (\<lambda>_.
     and_then (can_move r CANCEL) (\<lambda>_.
     and_then (ensure (tn_archivedAt t = None) Tenancy_archived) (\<lambda>_.
     and_then (moved_or Invalid_state (markCancelled env rid db)) (\<lambda>db1.
     record_entry (entry_of LCancel (review_actor_of (rq_caller rq)) r (Some (''cancel_'' @ cancel_kind t)) (Some reason)) db1)))))))"

definition cancelRentReview :: "review_env \<Rightarrow> int \<Rightarrow> review_request \<Rightarrow> review_db \<Rightarrow> review_reply \<times> review_db" where
  "cancelRentReview env windowDays rq db =
     then_schedule env windowDays
       (Option.bind (tenant_named rq db) (\<lambda>t. if cancel_kind t = ''superseded'' then Some (tn_id t) else None))
       (gated REVIEW_CANCEL_ROLES True rq (read_reasoned ''reason'') (cancel_work env rq db) db)"

section \<open>Waive\<close>

definition forgone_of :: "rat \<Rightarrow> rat \<Rightarrow> cascade_row list \<Rightarrow> rat" where
  "forgone_of chosen current cascade = r2 (chosen - current + an_increase (ancillaryChange cascade))"

definition forgoneIncrease :: "review_env \<Rightarrow> review_db \<Rightarrow> review_instance \<Rightarrow> tenancy_row \<Rightarrow> review_failure + rat option" where
  "forgoneIncrease env db r t =
     (case rw_calc r of
        Some stored \<Rightarrow> Inr (Some (forgone_of (chosen_annual stored) (cl_currentAnnual stored) (appliedCascade (Some stored))))
      | None \<Rightarrow>
          (case Option.bind (rw_method r) calc_method_of of
             None \<Rightarrow> Inr None
           | Some m \<Rightarrow>
               if m = CalcOther then Inr None
               else and_then (cpi_rows_for db m (review_basis r) (rw_scheduledFor r)) (\<lambda>cpiRows.
                    and_then (ran (calculateReview
                        (calc_input_of env r (scheduleOf env t (parsed_steps t) (totalOccupancySqm db (rw_tenantId r))) m (review_basis r) cpiRows
                           (tn_scheduleVersion t) 1))) (\<lambda>estimate.
                      case estimate of
                        CalcDone c \<Rightarrow> Inr (Some (forgone_of (cl_newAnnual c) (cl_currentAnnual c) (cl_cascade c)))
                      | _ \<Rightarrow> Inr None))))"

definition waive_target :: "review_env \<Rightarrow> review_instance \<Rightarrow> review_target" where
  "waive_target env r =
     \<lparr>rt_method = (case rw_method r of Some cpi \<Rightarrow> MCpi | Some fixed \<Rightarrow> MFixed | Some market \<Rightarrow> MMarket | _ \<Rightarrow> MOther),
      rt_newStepId = ve_uuid env 0, rt_reviewId = rw_id r, rt_scheduledFor = rw_scheduledFor r, rt_stepId = rw_stepId r\<rparr>"

text \<open>The waived row written on the schedule.\<close>

definition waive_write :: "review_env \<Rightarrow> money_caller \<Rightarrow> review_instance \<Rightarrow> tenancy_row \<Rightarrow> rate_step \<Rightarrow> review_db \<Rightarrow> review_failure + review_db" where
  "waive_write env caller r t step db =
     (let steps = parsed_steps t; placed = snd (placeStep steps step); tid = rw_tenantId r;
          (changes, db1) = log_changes env (c_name caller) tid (map log_entry (stepChanges steps placed (rs_id step))) db
      in and_then (derivedNextReview env t (resolvedReviewDates db t) placed) (\<lambda>nextDate.
         Inr (writeTenancyForReview tid
           \<lparr>tw_actorName = c_name caller, tw_actorOid = ve_oid env, tw_lastReviewDate = None, tw_lastReviewPercent = None,
            tw_nextReviewDate = nextDate, tw_rentPerAnnum = None, tw_steps = placed\<rparr> db1)))"

definition waive_work :: "review_env \<Rightarrow> review_request \<Rightarrow> review_db \<Rightarrow> string \<times> string \<times> string \<Rightarrow> review_failure + review_db" where
  "waive_work env rq db = (\<lambda>(rid, version, reason).
     and_then (some_or (reviewForUpdate db rid) Not_found) (\<lambda>(r, t).
     and_then (fresh_read r version) (\<lambda>_.
     and_then (can_move r WAIVE) (\<lambda>_.
     let caller = rq_caller rq; denied = deniedAttempt caller r ''role_not_permitted''
     in and_then (or_noting (holdsApproverRole (c_roles caller)) Forbidden_role denied) (\<lambda>_.
        and_then (or_noting (rw_method r \<noteq> Some market \<or> is_director caller) Forbidden_role denied) (\<lambda>_.
        and_then (refuseClosedTenancy False t) (\<lambda>_.
          case reviewRow (parsed_steps t) (waive_target env r) of
            RowSettled e \<Rightarrow> refused Step_settled
          | RowPlaced base existing \<Rightarrow>
              and_then (forgoneIncrease env db r t) (\<lambda>impact.
                let step = waivedStep base (rw_id r)
                in and_then (waive_write env caller r t step db) (\<lambda>db1.
                   and_then (moved_or Invalid_state (markWaived env rid reason (rs_id step) db1)) (\<lambda>db2.
                   record_entry
                     ((entry_of LWaive (review_actor_of caller) r
                         (Some (if rw_method r = Some market then ''waive_market_director'' else ''waive'')) (Some reason))\<lparr>dl_impact := impact\<rparr>)
                     db2))))))))))"

definition waiveRentReview :: "review_env \<Rightarrow> int \<Rightarrow> review_request \<Rightarrow> review_db \<Rightarrow> review_reply \<times> review_db" where
  "waiveRentReview env windowDays rq db =
     then_schedule env windowDays (map_option tn_id (tenant_named rq db))
       (gated REVIEW_APPROVE_ROLES (ve_gate env) rq (read_reasoned ''reason'') (waive_work env rq db) db)"

section \<open>Revert\<close>

definition revert_work :: "review_env \<Rightarrow> review_request \<Rightarrow> review_db \<Rightarrow> string \<times> string \<times> string \<Rightarrow> review_failure + review_db" where
  "revert_work env rq db = (\<lambda>(rid, version, reason).
     and_then (some_or (reviewForUpdate db rid) Not_found) (\<lambda>(r, t).
     and_then (or_noting (holdsApproverRole (c_roles (rq_caller rq))) Forbidden_role (deniedAttempt (rq_caller rq) r ''role_not_permitted'')) (\<lambda>_.
     and_then (fresh_read r version) (\<lambda>_.
     and_then (can_move r REVERT) (\<lambda>_.
       case revertReview env \<lparr>vi_actor = rq_caller rq, vi_reason = reason, vi_review = r\<rparr> db of
         Inl failure \<Rightarrow> Inl (if failure = UniqueIndex then Refused Try_again None else failure)
       | Inr db1 \<Rightarrow> Inr db1)))))"

definition revertRentReview :: "review_env \<Rightarrow> review_request \<Rightarrow> review_db \<Rightarrow> review_reply \<times> review_db" where
  "revertRentReview env rq db = gated REVIEW_APPROVE_ROLES (ve_gate env) rq (read_reasoned ''reason'') (revert_work env rq db) db"

section \<open>Approve\<close>

datatype sod_part = SodBasis | SodKeyed | SodPrepared

fun sod_rule :: "sod_part \<Rightarrow> string" where
  "sod_rule SodBasis = ''approver_edited_basis''"
| "sod_rule SodKeyed = ''approver_keyed_rent''"
| "sod_rule SodPrepared = ''approver_is_preparer''"

definition own_part :: "review_duties \<Rightarrow> int \<Rightarrow> sod_part option" where
  "own_part duties userId =
     (if dy_preparedBy duties = Some userId then Some SodPrepared
      else if dy_keyedBy duties = Some userId then Some SodKeyed
      else if userId \<in> set (dy_basisEditors duties) then Some SodBasis
      else None)"

definition approve_rule :: "sod_part option \<Rightarrow> bool \<Rightarrow> string \<Rightarrow> string" where
  "approve_rule part reduction required =
     (if part \<noteq> None then ''director_own_preparation'' else if reduction then ''reduction_director'' else ''level_'' @ required)"

definition approve_input :: "review_env \<Rightarrow> money_caller \<Rightarrow> director_override option \<Rightarrow> review_instance \<Rightarrow> review_calc \<Rightarrow> apply_input" where
  "approve_input env caller directorOverride r calc =
     \<lparr>ai_actor = caller, ai_approvalBasis = BySecondPerson, ai_calc = calc, ai_chosenNewAnnual = chosen_annual calc,
      ai_chosenPercent = chosen_percent calc, ai_directorOverride = directorOverride, ai_from = awaiting_approval,
      ai_newStepId = ve_uuid env 0, ai_review = r\<rparr>"

text \<open>C6 and C7: who may approve this review. Answers the rule the approval goes by.\<close>

definition approval_rule :: "review_env \<Rightarrow> review_db \<Rightarrow> money_caller \<Rightarrow> director_override option \<Rightarrow> review_instance \<Rightarrow> review_failure + review_calc \<times> string" where
  "approval_rule env db caller directorOverride r =
     (let rank = approverRank (c_roles caller); noted = (\<lambda>action rule. entry_of action (review_actor_of caller) r (Some rule) None)
      in and_then (or_noting (rank \<noteq> 0) Forbidden_role (noted LDenied ''role_not_permitted'')) (\<lambda>_.
         and_then (some_or (rw_calc r) Not_calculated) (\<lambda>calc.
         and_then (some_or (c_userId caller) No_user) (\<lambda>userId.
           let part = own_part (dutiesOf (basisEditorsSinceCommence db (rw_id r)) (Some calc) (prepared_by r)) userId;
               required = requiredApprovalRoleOf (approvalRung env r) (Some calc); reduction = isReduction calc
           in and_then (or_noting (directorOverride = None \<or> is_director caller) Forbidden_role (noted LDenied ''director_override_not_director'')) (\<lambda>_.
              and_then (or_noting (part = None \<or> is_director caller) Sod_blocked (noted LSodBlocked (case part of Some p \<Rightarrow> sod_rule p | None \<Rightarrow> ''''))) (\<lambda>_.
              and_then (or_noting (APPROVER_RANK required \<le> rank) Approval_level
                  (noted LDenied (if reduction then ''reduction_needs_director'' else ''approval_level''))) (\<lambda>_.
              Inr (calc, approve_rule part reduction required))))))))"

definition read_approve :: "json_object \<Rightarrow> review_failure + string \<times> string \<times> director_override option" where
  "read_approve body =
     review_ref body (\<lambda>body. readDirectorOverride (obj_get body ''directorOverride'') [CheckNotSignedOff, CheckRatchet])"

definition approve_work ::
  "review_env \<Rightarrow> review_request \<Rightarrow> review_db \<Rightarrow> string \<times> string \<times> director_override option \<Rightarrow> review_failure + review_db" where
  "approve_work env rq db = (\<lambda>(rid, version, directorOverride).
     and_then (some_or (reviewForUpdate db rid) Not_found) (\<lambda>(r, t).
     and_then (fresh_read r version) (\<lambda>_.
     and_then (can_move r APPROVE) (\<lambda>_.
     and_then (approval_rule env db (rq_caller rq) directorOverride r) (\<lambda>(calc, rule).
     and_then (record_entry (entry_of LApprove (review_actor_of (rq_caller rq)) r (Some rule) None) db) (\<lambda>db1.
     applyReview env (approve_input env (rq_caller rq) directorOverride r calc) db1))))))"

definition approveRentReview :: "review_env \<Rightarrow> int \<Rightarrow> review_request \<Rightarrow> review_db \<Rightarrow> review_reply \<times> review_db" where
  "approveRentReview env windowDays rq db =
     then_schedule env windowDays (map_option tn_id (tenant_named rq db))
       (gated REVIEW_APPROVE_ROLES (ve_gate env) rq read_approve (approve_work env rq db) db)"

end
