(* ===== verification/Review_Submit.thy ===== *)
theory Review_Submit
  imports Review_Handlers
begin

text \<open>
  \<open>submitRentReview\<close> of \<open>src/functions/submitRentReview.ts\<close>, with the rent on the lease's own terms
  (\<open>src/rentReview/leaseTerms.ts\<close>): a calculated review is applied at once when it keeps to the lease and the band,
  and otherwise waits for a second person, the reasons and the departures in the ledger.
\<close>

record submission =
  su_caller :: money_caller
  su_calc :: review_calc
  su_directorOverride :: "director_override option"
  su_override :: "(rat \<times> string) option"
  su_review :: review_instance
  su_tenancy :: tenancy_row

section \<open>The figures\<close>

definition su_chosen :: "submission \<Rightarrow> rat" where
  "su_chosen s = (case su_override s of Some (rent, reason) \<Rightarrow> rent | None \<Rightarrow> cl_newAnnual (su_calc s))"

definition su_percent :: "submission \<Rightarrow> rat" where
  "su_percent s =
     (case su_override s of
        Some (rent, reason) \<Rightarrow> r4 ((rent / cl_currentAnnual (su_calc s) - 1) * 100)
      | None \<Rightarrow> cl_appliedPercent (su_calc s))"

definition su_sanity :: "review_env \<Rightarrow> submission \<Rightarrow> sanity_band" where
  "su_sanity env s = sanityOf (su_percent s) (sanityBandFromEnv (ve_sanityMin env) (ve_sanityMax env))"

definition su_reduces :: "submission \<Rightarrow> bool" where
  "su_reduces s \<longleftrightarrow> su_chosen s < cl_currentAnnual (su_calc s)"

definition sign_off_overridden :: "submission \<Rightarrow> bool" where
  "sign_off_overridden s \<longleftrightarrow> tn_signedOff (su_tenancy s) = None \<and> overrides (su_directorOverride s) CheckNotSignedOff"

definition below_lease_ratchet :: "submission \<Rightarrow> bool" where
  "below_lease_ratchet s \<longleftrightarrow> su_reduces s \<and> tn_ratchet (su_tenancy s)"

definition below_basis_ratchet :: "submission \<Rightarrow> bool" where
  "below_basis_ratchet s \<longleftrightarrow> su_reduces s \<and> ratchet_in (review_basis (su_review s)) \<and> \<not> below_lease_ratchet s"

definition ratchet_overridden :: "submission \<Rightarrow> bool" where
  "ratchet_overridden s \<longleftrightarrow> overrides (su_directorOverride s) CheckRatchet \<and> (below_lease_ratchet s \<or> below_basis_ratchet s)"

definition band_overridden :: "review_env \<Rightarrow> submission \<Rightarrow> bool" where
  "band_overridden env s \<longleftrightarrow> \<not> sb_inBand (su_sanity env s) \<and> overrides (su_directorOverride s) CheckOutOfBand"

definition su_exempt :: "review_env \<Rightarrow> submission \<Rightarrow> ratchet_exemption option" where
  "su_exempt env s =
     (if \<not> below_lease_ratchet s then None
      else if ratchet_overridden s
      then Some \<lparr>rx_at = ve_nowText env, rx_byName = take 200 (c_name (su_caller s)), rx_reason = override_reason (su_directorOverride s)\<rparr>
      else Some (provisionalRatchetExemption (ve_nowText env)))"

definition su_departures :: "submission \<Rightarrow> string list" where
  "su_departures s = review_departures (cl_method (su_calc s)) (su_review s) (su_tenancy s)"

text \<open>Why the rent waits for a second person.\<close>

definition su_reasons :: "review_env \<Rightarrow> submission \<Rightarrow> string list" where
  "su_reasons env s =
     (if su_override s \<noteq> None then [''override''] else []) @
     (if sb_inBand (su_sanity env s) \<or> band_overridden env s then [] else [''out_of_band'']) @
     (if cl_method (su_calc s) = CalcOther then [''manual_method''] else []) @
     (if su_departures s \<noteq> [] then [''basis_departs_from_lease''] else []) @
     (if su_reduces s then [''reduction''] else []) @
     (if below_lease_ratchet s \<and> \<not> ratchet_overridden s then [''ratchet''] else [])"

fun join_with :: "string \<Rightarrow> string list \<Rightarrow> string" where
  "join_with sep [] = ''''"
| "join_with sep [x] = x"
| "join_with sep (x # y # ys) = x @ sep @ join_with sep (y # ys)"

section \<open>The checks\<close>

definition check_submission :: "review_env \<Rightarrow> submission \<Rightarrow> review_failure + unit" where
  "check_submission env s =
     (let t = su_tenancy s; calc = su_calc s
      in and_then (refuseClosedTenancy False t) (\<lambda>_.
         and_then (ensure (tn_scheduleVersion t = cl_scheduleVersion calc) Stale_schedule) (\<lambda>_.
         and_then (ensure (tn_signedOff t \<noteq> None \<or> sign_off_overridden s) Not_signed_off) (\<lambda>_.
         and_then (ensure (map_option fst (su_override s) \<noteq> Some (cl_newAnnual calc)) No_change) (\<lambda>_.
         ensure (\<not> below_basis_ratchet s \<or> overrides (su_directorOverride s) CheckRatchet \<or> (su_override s \<noteq> None \<and> is_director (su_caller s)))
           Ratchet_holds)))))"

text \<open>The rent as the schedule will show it.\<close>

definition su_schedule :: "review_env \<Rightarrow> review_db \<Rightarrow> submission \<Rightarrow> review_schedule" where
  "su_schedule env db s = scheduleOf env (su_tenancy s) (parsed_steps (su_tenancy s)) (totalOccupancySqm db (rw_tenantId (su_review s)))"

definition su_target :: "review_env \<Rightarrow> review_db \<Rightarrow> submission \<Rightarrow> stored_target" where
  "su_target env db s =
     \<lparr>sg_calc = su_calc s, sg_departs = (su_override s \<noteq> None \<or> su_departures s \<noteq> []), sg_newStepId = ve_uuid env 0,
      sg_exempt = su_exempt env s, sg_reviewId = rw_id (su_review s), sg_schedule = su_schedule env db s,
      sg_scheduledFor = rw_scheduledFor (su_review s), sg_stepId = rw_stepId (su_review s), sg_target = su_chosen s,
      sg_today = ve_today env\<rparr>"

section \<open>On the lease's own terms\<close>

definition rentOnLeaseTerms :: "review_env \<Rightarrow> review_db \<Rightarrow> submission \<Rightarrow> review_failure + lease_terms_result" where
  "rentOnLeaseTerms env db s =
     (let r = su_review s; t = su_tenancy s; m = cl_method (su_calc s);
          basis = leaseBasis m (leaseTermsOf t (stepOnDate (parsed_steps t) (rw_scheduledFor r))) (rw_scheduledFor r)
      in and_then (cpi_rows_for db m basis (rw_scheduledFor r)) (\<lambda>cpiRows.
         and_then (ran (calculateReview
             ((calc_input_of env r (su_schedule env db s) m basis cpiRows (cl_scheduleVersion (su_calc s)) 1)
                \<lparr>kn_computedBy := \<lparr>pe_name = ''on the lease's terms'', pe_userId = None\<rparr>, kn_sanity := (-100, 100)\<rparr>))) (\<lambda>result.
           case result of
             CalcDone c \<Rightarrow> Inr (OnLeaseTerms (ancillaryAnnual (cl_cascade c)) (cl_appliedPercent c) (cl_newAnnual c))
           | _ \<Rightarrow> Inr LeaseTermsUnavailable)))"

definition su_leaseTerms :: "review_env \<Rightarrow> review_db \<Rightarrow> submission \<Rightarrow> review_failure + lease_terms_result option" where
  "su_leaseTerms env db s =
     (if su_departures s \<noteq> [] \<and> cl_method (su_calc s) \<noteq> CalcOther then map_sum id Some (rentOnLeaseTerms env db s) else Inr None)"

section \<open>The calculation as submitted\<close>

definition ancillary_difference :: "submission \<Rightarrow> written_review \<Rightarrow> rat" where
  "ancillary_difference s receipt = r2 (ancillaryAnnual (wr_cascade receipt) - ancillaryAnnual (cl_cascade (su_calc s)))"

definition with_rent :: "review_env \<Rightarrow> submission \<Rightarrow> written_review \<Rightarrow> review_calc" where
  "with_rent env s receipt =
     (case su_override s of
        Some (rent, reason) \<Rightarrow>
          (let area = (if sr_areaMissing (wr_row receipt) then 0 else sr_sqm (wr_row receipt))
           in (su_calc s)\<lparr>cl_override := Some
                \<lparr>co_ancillaryDifferenceAnnual = Some (ancillary_difference s receipt), co_appliedPercent = Some (su_percent s),
                 co_arrears = wr_arrears receipt, co_cascade = Some (wr_cascade receipt),
                 co_differenceAnnual = r2 (rent - cl_newAnnual (su_calc s)), co_newAnnual = rent, co_perMonth = Some (r2 (rent / 12)),
                 co_perSqm = (if area > 0 then Some (r2 (rent / area)) else None), co_reason = reason\<rparr>\<rparr>)
      | None \<Rightarrow> (su_calc s)\<lparr>cl_arrears := wr_arrears receipt, cl_cascade := wr_cascade receipt, cl_override := None\<rparr>)"

definition stored_overrides :: "review_env \<Rightarrow> submission \<Rightarrow> stored_override list" where
  "stored_overrides env s =
     (let mk = (\<lambda>check. \<lparr>so_at = ve_nowText env, so_by = person_of (su_caller s), so_check = check,
                         so_reason = override_reason (su_directorOverride s)\<rparr>)
      in (if sign_off_overridden s then [mk CheckNotSignedOff] else []) @ (if ratchet_overridden s then [mk CheckRatchet] else []))"

text \<open>The rest of the calculation stays as it was: its overrides too, when none is made now.\<close>

definition su_submitted :: "review_env \<Rightarrow> submission \<Rightarrow> written_review \<Rightarrow> lease_terms_result option \<Rightarrow> review_calc" where
  "su_submitted env s receipt leaseTerms =
     (let c = with_rent env s receipt
      in c\<lparr>cl_departures := Some (su_departures s), cl_sanity := Some (su_sanity env s),
           cl_leaseTerms := or_default leaseTerms (cl_leaseTerms c),
           cl_ratchetOverrideNeeded := (below_lease_ratchet s \<and> \<not> ratchet_overridden s),
           cl_directorOverrides := (if stored_overrides env s \<noteq> [] then stored_overrides env s else cl_directorOverrides c)\<rparr>)"

section \<open>The ledger rows\<close>

definition su_entry :: "submission \<Rightarrow> review_action \<Rightarrow> string \<Rightarrow> review_entry" where
  "su_entry s action rule = entry_of action (review_actor_of (su_caller s)) (su_review s) (Some rule) None"

definition recordOverrides :: "review_env \<Rightarrow> submission \<Rightarrow> review_db \<Rightarrow> review_failure + review_db" where
  "recordOverrides env s db =
     (let one = (\<lambda>made check db. if made then recordDirectorOverride (su_caller s) (su_review s) check (override_reason (su_directorOverride s)) db
                                else Inr db)
      in and_then (one (sign_off_overridden s) CheckNotSignedOff db) (\<lambda>db1.
         and_then (one (band_overridden env s) CheckOutOfBand db1) (\<lambda>db2.
         one (ratchet_overridden s) CheckRatchet db2)))"

definition override_entry :: "submission \<Rightarrow> written_review \<Rightarrow> rat \<Rightarrow> string \<Rightarrow> review_entry" where
  "override_entry s receipt rent reason =
     (su_entry s LOverride (if su_departures s \<noteq> [] then ''override+basis_departs_from_lease'' else ''override''))
       \<lparr>dl_reason := Some reason, dl_impact := Some (r2 (- (r2 (rent - cl_newAnnual (su_calc s)) + ancillary_difference s receipt)))\<rparr>"

definition departure_rule :: "string list \<Rightarrow> string" where
  "departure_rule departures = take 100 (''departs:'' @ join_with ''+'' departures)"

definition departure_entry :: "submission \<Rightarrow> written_review \<Rightarrow> lease_terms_result \<Rightarrow> review_entry" where
  "departure_entry s receipt leaseTerms =
     (su_entry s LBasisDeparture (departure_rule (su_departures s)))
       \<lparr>dl_impact := (case leaseTerms of
            LeaseTermsUnavailable \<Rightarrow> None
          | OnLeaseTerms anc percent rent \<Rightarrow> Some (r2 (rent + anc - (su_chosen s + ancillaryAnnual (wr_cascade receipt)))))\<rparr>"

section \<open>The decision\<close>

definition one_step_input :: "review_env \<Rightarrow> submission \<Rightarrow> review_calc \<Rightarrow> apply_input" where
  "one_step_input env s submitted =
     \<lparr>ai_actor = su_caller s, ai_approvalBasis = (if band_overridden env s then ByDirectorOverride else AutoInBounds), ai_calc = submitted,
      ai_chosenNewAnnual = su_chosen s, ai_chosenPercent = su_percent s, ai_directorOverride = None, ai_from = in_progress,
      ai_newStepId = ve_uuid env 2, ai_review = su_review s\<rparr>"

definition submit_one_step :: "review_env \<Rightarrow> submission \<Rightarrow> review_calc \<Rightarrow> review_db \<Rightarrow> review_failure + review_db" where
  "submit_one_step env s submitted db =
     (let inp = one_step_input env s submitted
      in and_then (record_entry (su_entry s LSubmit (basis_rule (ai_approvalBasis inp))) db) (\<lambda>db1.
         and_then (recordOverrides env s db1) (\<lambda>db2.
         applyReview env inp db2)))"

definition submit_for_approval ::
  "review_env \<Rightarrow> submission \<Rightarrow> written_review \<Rightarrow> lease_terms_result option \<Rightarrow> review_calc \<Rightarrow> review_db \<Rightarrow> review_failure + review_db" where
  "submit_for_approval env s receipt leaseTerms submitted db =
     and_then (moved_or Invalid_state (markSubmitted env (rw_id (su_review s)) (person_of (su_caller s)) submitted db)) (\<lambda>db1.
     and_then (record_entry (su_entry s LSubmit (join_with ''+'' (su_reasons env s))) db1) (\<lambda>db2.
     and_then (recordOverrides env s db2) (\<lambda>db3.
     and_then (case su_override s of Some (rent, reason) \<Rightarrow> record_entry (override_entry s receipt rent reason) db3 | None \<Rightarrow> Inr db3) (\<lambda>db4.
     case leaseTerms of Some terms \<Rightarrow> record_entry (departure_entry s receipt terms) db4 | None \<Rightarrow> Inr db4))))"

definition submit_decision :: "review_env \<Rightarrow> submission \<Rightarrow> review_db \<Rightarrow> review_failure + review_db" where
  "submit_decision env s db =
     and_then (check_submission env s) (\<lambda>_.
     and_then (written_or_refused (su_target env db s) (su_exempt env s = None \<and> tn_ratchet (su_tenancy s))) (\<lambda>receipt.
     and_then (su_leaseTerms env db s) (\<lambda>leaseTerms.
       let submitted = su_submitted env s receipt leaseTerms
       in if su_reasons env s = [] then submit_one_step env s submitted db
          else submit_for_approval env s receipt leaseTerms submitted db)))"

type_synonym submit_said = "(rat \<times> string) option \<times> director_override option"

definition read_submit :: "json_object \<Rightarrow> review_failure + string \<times> string \<times> submit_said" where
  "read_submit body =
     review_ref body (\<lambda>body.
       and_then (readOverride (obj_get body ''override'')) (\<lambda>ov.
       and_then (readDirectorOverride (obj_get body ''directorOverride'') [CheckNotSignedOff, CheckOutOfBand, CheckRatchet]) (\<lambda>dir.
       Inr (ov, dir))))"

definition submit_work :: "review_env \<Rightarrow> review_request \<Rightarrow> review_db \<Rightarrow> string \<times> string \<times> submit_said \<Rightarrow> review_failure + review_db" where
  "submit_work env rq db = (\<lambda>(rid, version, ov, dir).
     and_then (some_or (reviewForUpdate db rid) Not_found) (\<lambda>(r, t).
     and_then (fresh_read r version) (\<lambda>_.
     and_then (can_move r SUBMIT) (\<lambda>_.
     let caller = rq_caller rq
     in and_then (or_noting (dir = None \<or> is_director caller) Forbidden_role (deniedAttempt caller r ''director_override_not_director'')) (\<lambda>_.
        and_then (or_noting (ownsOrManages r caller) Forbidden_role (deniedAttempt caller r ''not_owner_or_manager'')) (\<lambda>_.
        and_then (some_or (rw_calc r) Not_calculated) (\<lambda>calc.
        submit_decision env
          \<lparr>su_caller = caller, su_calc = calc, su_directorOverride = dir, su_override = ov, su_review = r, su_tenancy = t\<rparr> db)))))))"

text \<open>The next review is scheduled when this one was applied at once.\<close>

definition now_applied :: "review_request \<Rightarrow> review_db \<Rightarrow> int option" where
  "now_applied rq db =
     (case rq_body rq of
        None \<Rightarrow> None
      | Some body \<Rightarrow>
          (case readReviewId (obj_get body ''reviewId'') of
             Inl err \<Rightarrow> None
           | Inr rid \<Rightarrow>
               Option.bind (find_review db rid) (\<lambda>r. if rw_state r = approved then Some (rw_tenantId r) else None)))"

definition submitRentReview :: "review_env \<Rightarrow> int \<Rightarrow> review_request \<Rightarrow> review_db \<Rightarrow> review_reply \<times> review_db" where
  "submitRentReview env windowDays rq db =
     (let answered = gated REVIEW_APPLY_ROLES (ve_gate env) rq read_submit (submit_work env rq db) db
      in then_schedule env windowDays (now_applied rq (snd answered)) answered)"

end
