(* ===== verification/Review_Index.thy ===== *)
theory Review_Index
  imports Review_Submit
begin

text \<open>
  The CPI timer's step on the reviews waiting for their index, \<open>src/rentReview/indexResume.ts\<close>: a review whose two
  quarters are published on one base goes back to in progress and is calculated, each in a transaction of its own.
\<close>

record awaiting_review =
  wt_ownerUserId :: "int option"
  wt_previousQuarter :: string
  wt_referenceQuarter :: string
  wt_region :: "string option"
  wt_reviewId :: string
  wt_tenantId :: int

definition CPI_TIMER_ACTOR :: review_actor where "CPI_TIMER_ACTOR = ReviewSystem ''tenancyCpiSyncTimer''"

definition AUTO_CALC_BY :: calc_person where
  "AUTO_CALC_BY = \<lparr>pe_name = ''Floorplan, when the CPI was published'', pe_userId = None\<rparr>"

definition awaitingReviewOf :: "review_instance \<Rightarrow> awaiting_review option" where
  "awaitingReviewOf r =
     (let basis = review_basis r; region = region_in basis
      in Option.bind (referenceQuarterFor (cpi_rule_named (text_of (obj_get basis ''referenceQuarterRule''))) (rw_scheduledFor r)) (\<lambda>reference.
         map_option (\<lambda>previous.
             \<lparr>wt_ownerUserId = rw_ownerUserId r, wt_previousQuarter = previous, wt_referenceQuarter = reference,
              wt_region = (if region \<in> {Some ''AUS'', Some ''DARWIN''} then region else None), wt_reviewId = rw_id r,
              wt_tenantId = rw_tenantId r\<rparr>)
           (previousQuarter reference (number_in (obj_get basis ''intervalMonths'')))))"

definition indexPublished :: "awaiting_review \<Rightarrow> cpi_index_row list \<Rightarrow> bool" where
  "indexPublished w rows \<longleftrightarrow>
     (case (find (\<lambda>row. ci_period row = wt_referenceQuarter w) rows, find (\<lambda>row. ci_period row = wt_previousQuarter w) rows) of
        (Some current, Some previous) \<Rightarrow> ci_base current \<noteq> None \<and> ci_base current = ci_base previous
      | _ \<Rightarrow> False)"

definition timer_entry :: "review_action \<Rightarrow> awaiting_review \<Rightarrow> string \<Rightarrow> review_entry" where
  "timer_entry action w rule =
     \<lparr>dl_action = action, dl_actor = CPI_TIMER_ACTOR, dl_detail = NoDetail, dl_impact = None, dl_reason = None, dl_rule = Some rule,
      dl_reviewId = wt_reviewId w, dl_tenantId = wt_tenantId w\<rparr>"

text \<open>INDEX_AVAILABLE: the tables and whether the review moved.\<close>

definition resume_review :: "review_env \<Rightarrow> awaiting_review \<Rightarrow> review_db \<Rightarrow> review_failure + bool \<times> review_db" where
  "resume_review env w db =
     and_then (markIndexAvailable env (wt_reviewId w) db) (\<lambda>moved.
       case moved of
         None \<Rightarrow> Inr (False, db)
       | Some db1 \<Rightarrow>
           and_then (record_entry (timer_entry LIndexAvailable w ''reference_quarter_published'') db1) (\<lambda>db2. Inr (True, db2)))"

text \<open>CALCULATE as the system; whether it did.\<close>

definition calculateResumed :: "review_env \<Rightarrow> awaiting_review \<Rightarrow> review_db \<Rightarrow> review_failure + bool \<times> review_db" where
  "calculateResumed env w db =
     (case reviewForUpdate db (wt_reviewId w) of
        None \<Rightarrow> Inr (False, db)
      | Some (r, t) \<Rightarrow>
          if rw_state r \<noteq> in_progress \<or> rw_calc r \<noteq> None \<or> \<not> live_tenancy t then Inr (False, db)
          else and_then (workOutReview env db AUTO_CALC_BY None CalcCpi r t) (\<lambda>result.
               case result of
                 CalcDone calc \<Rightarrow>
                   and_then (saveCalc env (wt_reviewId w) calc db) (\<lambda>saved.
                     case saved of
                       None \<Rightarrow> Inr (False, db)
                     | Some db1 \<Rightarrow>
                         and_then (record_entry (timer_entry LCalculate w (calculate_rule CalcCpi r)) db1) (\<lambda>db2. Inr (True, db2)))
               | _ \<Rightarrow> Inr (False, db)))"

record resume_report =
  ir_calculated :: nat
  ir_errors :: "string list"
  ir_notCalculated :: "string list"
  ir_resumed :: nat
  ir_waiting :: nat

definition empty_resume :: resume_report where
  "empty_resume = \<lparr>ir_calculated = 0, ir_errors = [], ir_notCalculated = [], ir_resumed = 0, ir_waiting = 0\<rparr>"

definition calculate_after :: "review_env \<Rightarrow> awaiting_review \<Rightarrow> resume_report \<times> review_db \<Rightarrow> resume_report \<times> review_db" where
  "calculate_after env w st =
     (case st of (rep, db) \<Rightarrow>
        (case calculateResumed env w db of
           Inr (True, db1) \<Rightarrow> (rep\<lparr>ir_calculated := ir_calculated rep + 1\<rparr>, db1)
         | _ \<Rightarrow> (rep\<lparr>ir_notCalculated := ir_notCalculated rep @ [wt_reviewId w]\<rparr>, db)))"

definition published_rows :: "awaiting_review \<Rightarrow> review_db \<Rightarrow> cpi_index_row list" where
  "published_rows w db =
     (case wt_region w of Some region \<Rightarrow> loadCpiRows db region [wt_referenceQuarter w, wt_previousQuarter w] | None \<Rightarrow> [])"

definition resume_one :: "review_env \<Rightarrow> bool \<Rightarrow> awaiting_review \<Rightarrow> resume_report \<times> review_db \<Rightarrow> resume_report \<times> review_db" where
  "resume_one env dryRun w st =
     (case st of (rep, db) \<Rightarrow>
        if \<not> indexPublished w (published_rows w db) then (rep\<lparr>ir_waiting := ir_waiting rep + 1\<rparr>, db)
        else if dryRun then (rep\<lparr>ir_resumed := ir_resumed rep + 1\<rparr>, db)
        else (case resume_review env w db of
                Inl err \<Rightarrow> (rep\<lparr>ir_errors := ir_errors rep @ [wt_reviewId w]\<rparr>, db)
              | Inr (False, _) \<Rightarrow> (rep, db)
              | Inr (True, db1) \<Rightarrow> calculate_after env w (rep\<lparr>ir_resumed := ir_resumed rep + 1\<rparr>, db1)))"

text \<open>\<open>None\<close> when a waiting review's dates cannot be read, which throws before anything is done.\<close>

definition resumeAwaitingIndex :: "review_env \<Rightarrow> bool \<Rightarrow> review_db \<Rightarrow> (resume_report \<times> review_db) option" where
  "resumeAwaitingIndex env dryRun db =
     map_option (\<lambda>waiting. fold (resume_one env dryRun) waiting (empty_resume, db))
       (those (map awaitingReviewOf (filter (\<lambda>r. rw_state r = awaiting_index) (rb_reviews db))))"

end
