(* ===== verification/Review_Escalations.thy ===== *)
theory Review_Escalations
  imports Review_Index
begin

text \<open>
  When a rent review is escalated: the conditions of \<open>src/rentReview/escalationRules.ts\<close>, the step of the generator
  that raises and ends them (\<open>planReviewEscalations\<close> of \<open>src/rentReview/escalations.ts\<close>, the rows it reads
  included), and the review's adapter, \<open>src/escalation/adapters/rentReview.ts\<close>. The engine that carries the plan
  out is \<open>Engine\<close>. \<open>None\<close> is a date the code throws on.
\<close>

definition POLICY_APPROVAL :: string where "POLICY_APPROVAL = ''rent_review.approval''"
definition POLICY_NOT_COMMENCED :: string where "POLICY_NOT_COMMENCED = ''rent_review.not_commenced''"
definition POLICY_OVERDUE :: string where "POLICY_OVERDUE = ''rent_review.overdue''"

definition NOT_COMMENCED_LEAD_DAYS :: int where "NOT_COMMENCED_LEAD_DAYS = 14"
definition INDEX_GRACE_DAYS :: int where "INDEX_GRACE_DAYS = 7"

record condition_facts =
  cf_expectedIndexAt :: "string option"
  cf_scheduledFor :: string
  cf_signedOff :: bool
  cf_state :: review_state
  cf_tenancyClosed :: bool

definition index_in_grace :: "condition_facts \<Rightarrow> string \<Rightarrow> bool option" where
  "index_in_grace facts today =
     (case cf_expectedIndexAt facts of
        Some expected \<Rightarrow>
          if cf_state facts = awaiting_index then map_option (\<lambda>d. js_le today d) (addDaysIso expected INDEX_GRACE_DAYS) else Some False
      | None \<Rightarrow> Some False)"

definition reviewConditionActive :: "string \<Rightarrow> condition_facts \<Rightarrow> string \<Rightarrow> bool option" where
  "reviewConditionActive policyKey facts today =
     (if cf_tenancyClosed facts then Some False
      else if policyKey = POLICY_NOT_COMMENCED then
        (if \<not> cf_signedOff facts then Some False
         else if cf_state facts \<notin> {scheduled, due} then Some False
         else map_option (\<lambda>n. n \<le> NOT_COMMENCED_LEAD_DAYS) (daysBetweenIso today (cf_scheduledFor facts)))
      else if policyKey = POLICY_OVERDUE then
        (if \<not> cf_signedOff facts then Some False
         else map_option (\<lambda>grace. \<not> grace \<and> review_isOverdue (cf_state facts) (cf_scheduledFor facts) today) (index_in_grace facts today))
      else if policyKey = POLICY_APPROVAL then Some (cf_state facts = awaiting_approval)
      else Some (review_isOpenState (cf_state facts)))"

datatype decision_end = EndedApproved | EndedCancelled | EndedCommenced | EndedReturned | EndedReverted | EndedWaived

fun approvalOutcomeCode :: "review_state \<Rightarrow> decision_end option" where
  "approvalOutcomeCode awaiting_approval = None"
| "approvalOutcomeCode approved = Some EndedApproved"
| "approvalOutcomeCode completed = Some EndedApproved"
| "approvalOutcomeCode waived = Some EndedWaived"
| "approvalOutcomeCode cancelled = Some EndedCancelled"
| "approvalOutcomeCode _ = Some EndedReturned"

definition MANUAL_END_CODES :: "string list" where
  "MANUAL_END_CODES = [''action_taken'', ''no_action_needed'', ''other'', ''withdrawn'']"

record policy_history =
  ph_live :: bool
  ph_reachedRole :: "string option"
  ph_resolutionCode :: "string option"

definition shouldRaise :: "string \<Rightarrow> condition_facts \<Rightarrow> policy_history option \<Rightarrow> string \<Rightarrow> bool option" where
  "shouldRaise policyKey facts last_one today =
     map_option
       (\<lambda>active.
          active \<and>
          (case last_one of
             None \<Rightarrow> True
           | Some h \<Rightarrow>
               \<not> ph_live h \<and>
               (policyKey = POLICY_APPROVAL \<or>
                (case ph_resolutionCode h of Some c \<Rightarrow> c | None \<Rightarrow> '''') \<notin> set MANUAL_END_CODES)))
       (reviewConditionActive policyKey facts today)"

section \<open>What has been raised before\<close>

definition APPROVAL_RUNGS :: "string list" where "APPROVAL_RUNGS = [''accounts_manager'', ''cfo'', ''director'']"

definition rungOf :: "esc_row \<Rightarrow> string" where
  "rungOf e =
     (if r_noIndependentTarget e then ''director''
      else let role = (case r_targetRole e of Some s \<Rightarrow> js_lower (js_trim s) | None \<Rightarrow> '''')
           in if role \<in> set APPROVAL_RUNGS then role else ''director'')"

definition rung_index :: "string \<Rightarrow> int" where
  "rung_index role = (if role = ''accounts_manager'' then 0 else if role = ''cfo'' then 1 else if role = ''director'' then 2 else -1)"

definition higherRung :: "string option \<Rightarrow> string \<Rightarrow> string" where
  "higherRung a b = (case a of Some x \<Rightarrow> if rung_index x \<ge> rung_index b then x else b | None \<Rightarrow> b)"

definition counts_since :: "review_instance \<Rightarrow> esc_row \<Rightarrow> bool" where
  "counts_since r e \<longleftrightarrow>
     r_policyKey e = POLICY_APPROVAL \<and> (case rw_submittedAt r of None \<Rightarrow> True | Some s \<Rightarrow> s \<le> r_createdAt e)"

text \<open>The row of the highest id speaks for the policy; the rung is the highest any row since the submission reached.\<close>

definition history_step :: "review_instance \<Rightarrow> esc_row \<Rightarrow> (int \<times> policy_history) option \<Rightarrow> (int \<times> policy_history) option" where
  "history_step r e seen =
     (let before = Option.bind seen (ph_reachedRole \<circ> snd);
          reached = (if counts_since r e then Some (higherRung before (rungOf e)) else before)
      in (case seen of
            Some (i, h) \<Rightarrow>
              if i > r_escalationId e then Some (i, h\<lparr>ph_reachedRole := reached\<rparr>)
              else Some (r_escalationId e, \<lparr>ph_live = (r_status e \<in> set LIVE_STATUSES), ph_reachedRole = reached, ph_resolutionCode = r_resolutionCode e\<rparr>)
          | None \<Rightarrow>
              Some (r_escalationId e, \<lparr>ph_live = (r_status e \<in> set LIVE_STATUSES), ph_reachedRole = reached, ph_resolutionCode = r_resolutionCode e\<rparr>)))"

definition policy_history_of :: "esc_row list \<Rightarrow> review_instance \<Rightarrow> string \<Rightarrow> policy_history option" where
  "policy_history_of rows r policyKey =
     map_option snd
       (fold (history_step r)
          (filter (\<lambda>e. r_subjectType e = ''rent_review'' \<and> r_subjectId e = rw_id r \<and> r_policyKey e = policyKey) rows) None)"

section \<open>The step's plan\<close>

definition facts_of :: "review_instance \<Rightarrow> tenancy_row \<Rightarrow> condition_facts" where
  "facts_of r t =
     \<lparr>cf_expectedIndexAt = rw_expectedIndexAt r, cf_scheduledFor = rw_scheduledFor r, cf_signedOff = (tn_signedOff t \<noteq> None),
      cf_state = rw_state r, cf_tenancyClosed = (\<not> live_tenancy t)\<rparr>"

datatype escalation_action =
    RaiseReview (ea_policy: string) (ea_review: string) (ea_start: "string option")
  | EndReview (ea_code: decision_end) (ea_review: string)

definition approvalStart :: "review_instance \<Rightarrow> policy_history option \<Rightarrow> string option" where
  "approvalStart r last_one =
     (if (case rw_calc r of Some c \<Rightarrow> isReduction c | None \<Rightarrow> False) then Some ''director''
      else (case Option.bind last_one ph_reachedRole of
              Some role \<Rightarrow> if role = ''accounts_manager'' then None else Some role
            | None \<Rightarrow> None))"

definition raise_for :: "review_env \<Rightarrow> review_instance \<times> tenancy_row \<Rightarrow> string \<Rightarrow> escalation_action list option" where
  "raise_for env rt policyKey =
     (let last_one = policy_history_of (ve_escalations env) (fst rt) policyKey
      in map_option
           (\<lambda>yes. if yes then [RaiseReview policyKey (rw_id (fst rt))
                                (if policyKey = POLICY_APPROVAL then approvalStart (fst rt) last_one else None)] else [])
           (shouldRaise policyKey (facts_of (fst rt) (snd rt)) last_one (ve_today env)))"

definition open_reviews :: "review_db \<Rightarrow> (review_instance \<times> tenancy_row) list" where
  "open_reviews db =
     List.map_filter (\<lambda>r. if review_isOpenState (rw_state r) then map_option (\<lambda>t. (r, t)) (find_tenancy db (rw_tenantId r)) else None)
       (rb_reviews db)"

definition end_stranded :: "review_db \<Rightarrow> esc_row \<Rightarrow> escalation_action list" where
  "end_stranded db e =
     (if r_subjectType e = ''rent_review'' \<and> r_policyKey e = POLICY_APPROVAL \<and> r_status e \<in> set LIVE_STATUSES
      then (case approvalOutcomeCode (case find_review db (r_subjectId e) of Some r \<Rightarrow> rw_state r | None \<Rightarrow> cancelled) of
              Some code \<Rightarrow> [EndReview code (r_subjectId e)]
            | None \<Rightarrow> [])
      else [])"

definition planReviewEscalations :: "review_env \<Rightarrow> review_db \<Rightarrow> escalation_action list option" where
  "planReviewEscalations env db =
     map_option (\<lambda>raised. concat raised @ concat (map (end_stranded db) (ve_escalations env)))
       (those (concat (map (\<lambda>rt. map (raise_for env rt) [POLICY_NOT_COMMENCED, POLICY_OVERDUE, POLICY_APPROVAL]) (open_reviews db))))"

section \<open>The adapter\<close>

definition REVIEW_VIEW_ROLES :: "string list" where
  "REVIEW_VIEW_ROLES = [''accounts'', ''accounts_manager'', ''admin'', ''cfo'', ''director'']"

definition review_isConditionActive :: "review_db \<Rightarrow> string \<Rightarrow> string \<Rightarrow> string \<Rightarrow> bool option" where
  "review_isConditionActive db subjectId policyKey today =
     (case reviewForUpdate db subjectId of
        None \<Rightarrow> Some False
      | Some (r, t) \<Rightarrow> reviewConditionActive policyKey (facts_of r t) today)"

definition review_visibleTo :: "string list \<Rightarrow> bool" where
  "review_visibleTo roles \<longleftrightarrow> list_ex (\<lambda>role. normaliseRole (Some role) \<in> set REVIEW_VIEW_ROLES) roles"

definition review_withdrawable :: "esc_row \<Rightarrow> bool" where
  "review_withdrawable e \<longleftrightarrow> r_policyKey e \<noteq> POLICY_APPROVAL"

end
