(* ===== verification/Review_World.thy ===== *)
theory Review_World
  imports Review_Escalations
begin

text \<open>
  What every request on a rent review keeps. A locale states the laws a relation between the tables before and after
  has to satisfy on the statements the requests are made of (a row added to the ledger, a guarded move, a basis saved,
  an approval, a review inserted, a write of the other tables); its lemmas carry the relation through every request,
  the generator and the CPI timer. The histories at the end are any sequence of those.
\<close>

section \<open>Reading results\<close>

lemma ensure_Inr [simp]: "ensure b code = Inr u \<longleftrightarrow> b"
  by (auto simp: ensure_def refused_def)

lemma or_noting_Inr [simp]: "or_noting b code e = Inr u \<longleftrightarrow> b"
  by (auto simp: or_noting_def refused_noting_def)

lemma some_or_Inr [simp]: "some_or v code = Inr x \<longleftrightarrow> v = Some x"
  by (auto simp: some_or_def refused_def split: option.splits)

lemma moved_or_Inr [simp]: "moved_or code m = Inr db \<longleftrightarrow> m = Inr (Some db)"
  by (auto simp: moved_or_def and_then_Inr_iff)

lemma record_entry_Inr: "record_entry e db = Inr db' \<Longrightarrow> db' = add_entry e db"
  by (auto simp: record_entry_def split: if_splits)

lemma add_entry_sel [simp]:
  "rb_reviews (add_entry e db) = rb_reviews db" "rb_ledger (add_entry e db) = rb_ledger db @ [e]"
  "rb_tenancies (add_entry e db) = rb_tenancies db" "rb_changeLog (add_entry e db) = rb_changeLog db"
  by (simp_all add: add_entry_def)

lemma find_review_entry [simp]: "find_review (add_entry e db) rid = find_review db rid"
  by (simp add: find_review_def)

text \<open>The change log grows by one row for each change, numbered from its length.\<close>

definition log_row :: "review_env \<Rightarrow> string \<Rightarrow> int \<Rightarrow> nat \<times> logged_change \<Rightarrow> logged_entry" where
  "log_row env nm tid row =
     \<lparr>lx_changeId = ve_changeId env (fst row), lx_change = snd row, lx_tenantId = tid, lx_changedBy = (ve_oid env, nm)\<rparr>"

lemma log_changes_eq:
  "log_changes env nm tid changes db =
     (map (\<lambda>row. (ve_changeId env (fst row), lc_stepId (snd row))) (enumerate (length (rb_changeLog db)) changes),
      db\<lparr>rb_changeLog := rb_changeLog db @ map (log_row env nm tid) (enumerate (length (rb_changeLog db)) changes)\<rparr>)"
  by (induction changes arbitrary: db) (simp_all add: insertRentScheduleChangeLog_def log_row_def Let_def)

lemma writeTenancy_sel [simp]:
  "rb_reviews (writeTenancyForReview tid w db) = rb_reviews db" "rb_ledger (writeTenancyForReview tid w db) = rb_ledger db"
  "rb_changeLog (writeTenancyForReview tid w db) = rb_changeLog db"
  by (simp_all add: writeTenancyForReview_def)

section \<open>Histories\<close>

text \<open>
  A request as it arrives, the timers, the market review an exercised option starts
  (\<open>spawnMarketReview\<close> of \<open>src/leaseEvents/apply.ts\<close>: the only other code that writes a review), and the other writers
  of the tables the reviews read (tenancies, occupancies and the CPI table, none of which the reviews own).
\<close>

definition openReviewForUpdate :: "review_db \<Rightarrow> int \<Rightarrow> review_instance option" where
  "openReviewForUpdate db tid = find (\<lambda>r. rw_tenantId r = tid \<and> review_isOpenState (rw_state r)) (rb_reviews db)"

text \<open>In the transaction of the exercise: an error leaves the tables as they were.\<close>

definition spawnMarketReview :: "review_env \<Rightarrow> money_caller \<Rightarrow> int \<Rightarrow> int \<Rightarrow> string \<Rightarrow> review_db \<Rightarrow> review_failure + review_db" where
  "spawnMarketReview env caller tid building optionStart db =
     (case openReviewForUpdate db tid of
        Some r \<Rightarrow> Inr db
      | None \<Rightarrow>
          (let rid = ve_uuid env 0
           in and_then (insertScheduledReview env rid tid building market optionStart db)
                (record_entry
                   \<lparr>dl_action = LSchedule, dl_actor = review_actor_of caller, dl_detail = NoDetail, dl_impact = None, dl_reason = None,
                    dl_rule = Some ''option_exercise_market'', dl_reviewId = rid, dl_tenantId = tid\<rparr>)))"

datatype review_call =
    Commences review_env review_request
  | EditsBasis review_env review_request
  | Calculates review_env review_request
  | Submits review_env int review_request
  | Approves review_env int review_request
  | Returns review_env review_request
  | Waives review_env int review_request
  | Cancels review_env int review_request
  | Reverts review_env review_request
  | GeneratorRuns review_env bool int
  | IndexArrives review_env bool
  | ExercisesOption review_env money_caller int int string
  | OthersWrite "tenancy_row list" "(int \<times> rat) list" "(string \<times> cpi_index_row) list"

fun perform :: "review_call \<Rightarrow> review_db \<Rightarrow> review_db" where
  "perform (Commences env rq) db = snd (commenceRentReview env rq db)"
| "perform (EditsBasis env rq) db = snd (updateRentReviewBasis env rq db)"
| "perform (Calculates env rq) db = snd (calculateRentReview env rq db)"
| "perform (Submits env days rq) db = snd (submitRentReview env days rq db)"
| "perform (Approves env days rq) db = snd (approveRentReview env days rq db)"
| "perform (Returns env rq) db = snd (returnRentReview env rq db)"
| "perform (Waives env days rq) db = snd (waiveRentReview env days rq db)"
| "perform (Cancels env days rq) db = snd (cancelRentReview env days rq db)"
| "perform (Reverts env rq) db = snd (revertRentReview env rq db)"
| "perform (GeneratorRuns env dryRun days) db = (case runReviewGenerator env dryRun days db of None \<Rightarrow> db | Some res \<Rightarrow> snd res)"
| "perform (IndexArrives env dryRun) db = (case resumeAwaitingIndex env dryRun db of None \<Rightarrow> db | Some res \<Rightarrow> snd res)"
| "perform (ExercisesOption env caller tid building optionStart) db = or_unchanged db (spawnMarketReview env caller tid building optionStart db)"
| "perform (OthersWrite ts areas cpiRows) db = db\<lparr>rb_tenancies := ts, rb_areas := areas, rb_cpi := cpiRows\<rparr>"

definition review_history :: "review_call list \<Rightarrow> review_db \<Rightarrow> review_db" where
  "review_history calls db = fold perform calls db"

text \<open>The tables before the first review.\<close>

definition no_reviews :: review_db where
  "no_reviews = \<lparr>rb_areas = [], rb_changeLog = [], rb_cpi = [], rb_ledger = [], rb_reviews = [], rb_tenancies = [], rb_versions = 0\<rparr>"

text \<open>The review a body names, and the machine's events a call may put to a review: the event the request is for, to the
  review it names; SCHEDULE and OPEN_WINDOW where the call goes on to schedule; CANCEL to the next review a revert
  supersedes.\<close>

definition asked_in :: "(json_object \<Rightarrow> review_failure + string \<times> 'a) \<Rightarrow> review_request \<Rightarrow> string \<Rightarrow> bool" where
  "asked_in reads rq rid =
     (case rq_body rq of
        None \<Rightarrow> False
      | Some body \<Rightarrow> (case reads body of Inl failure \<Rightarrow> False | Inr said \<Rightarrow> fst said = rid))"

fun events_of :: "review_call \<Rightarrow> string \<Rightarrow> review_event set" where
  "events_of (Commences env rq) rid = (if asked_in read_plain rq rid then {COMMENCE} else {})"
| "events_of (EditsBasis env rq) rid = {}"
| "events_of (Calculates env rq) rid = (if asked_in read_calculate rq rid then {INDEX_PENDING} else {})"
| "events_of (Submits env days rq) rid = {SCHEDULE, OPEN_WINDOW} \<union> (if asked_in read_submit rq rid then {SUBMIT} else {})"
| "events_of (Approves env days rq) rid = {SCHEDULE, OPEN_WINDOW} \<union> (if asked_in read_approve rq rid then {APPROVE} else {})"
| "events_of (Returns env rq) rid = (if asked_in (read_reasoned ''note'') rq rid then {RETURN} else {})"
| "events_of (Waives env days rq) rid = {SCHEDULE, OPEN_WINDOW} \<union> (if asked_in (read_reasoned ''reason'') rq rid then {WAIVE} else {})"
| "events_of (Cancels env days rq) rid = {SCHEDULE, OPEN_WINDOW} \<union> (if asked_in (read_reasoned ''reason'') rq rid then {CANCEL} else {})"
| "events_of (Reverts env rq) rid = (if asked_in (read_reasoned ''reason'') rq rid then {REVERT} else {CANCEL})"
| "events_of (GeneratorRuns env dryRun days) rid = {SCHEDULE, OPEN_WINDOW}"
| "events_of (IndexArrives env dryRun) rid = {INDEX_AVAILABLE}"
| "events_of (ExercisesOption env caller tid building optionStart) rid = {SCHEDULE}"
| "events_of (OthersWrite ts areas cpiRows) rid = {}"

definition schedules :: "review_call \<Rightarrow> bool" where
  "schedules call \<longleftrightarrow> (\<forall>rid. SCHEDULE \<in> events_of call rid \<and> OPEN_WINDOW \<in> events_of call rid)"

text \<open>Who submits, or approves, this review by the call, and the override the body makes.\<close>

fun submits_with :: "review_call \<Rightarrow> string \<Rightarrow> money_caller \<Rightarrow> director_override option \<Rightarrow> bool" where
  "submits_with (Submits env days rq) rid caller dir =
     (caller = rq_caller rq \<and>
      (case rq_body rq of
         None \<Rightarrow> False
       | Some body \<Rightarrow> (case read_submit body of Inl failure \<Rightarrow> False | Inr (named, version, ov, said) \<Rightarrow> named = rid \<and> said = dir)))"
| "submits_with other_call rid caller dir = False"

fun approves_with :: "review_call \<Rightarrow> string \<Rightarrow> money_caller \<Rightarrow> bool" where
  "approves_with (Approves env days rq) rid caller = (caller = rq_caller rq \<and> asked_in read_approve rq rid)"
| "approves_with other_call rid caller = False"

section \<open>The moves\<close>

definition moves_by :: "review_event set \<Rightarrow> review_state list \<Rightarrow> review_state \<Rightarrow> bool" where
  "moves_by E from to \<longleftrightarrow>
     (\<forall>s\<in>set from. (s = to \<and> to = in_progress) \<or> (\<exists>e\<in>E. \<exists>facts. review_nextState (Some s) e facts = Some to))"

definition keeps_keys :: "(review_instance \<Rightarrow> review_instance) \<Rightarrow> bool" where
  "keeps_keys f \<longleftrightarrow> (\<forall>r. rw_id (f r) = rw_id r \<and> rw_tenantId (f r) = rw_tenantId r)"

definition being_worked :: "review_db \<Rightarrow> string \<Rightarrow> bool" where
  "being_worked db rid \<longleftrightarrow> (\<exists>r. find_review db rid = Some r \<and> rw_state r \<in> {in_progress, awaiting_index})"

text \<open>The row as a move leaves it.\<close>

definition as_moved :: "review_env \<Rightarrow> review_state \<Rightarrow> (review_instance \<Rightarrow> review_instance) \<Rightarrow> review_db \<Rightarrow> review_instance \<Rightarrow> review_instance" where
  "as_moved env to f db r =
     (f r)\<lparr>rw_state := to, rw_status := legacyStatus to, rw_updatedAt := ve_now env, rw_version := rb_versions db + 1\<rparr>"

lemma find_map_id: "(\<And>r. rw_id (g r) = rw_id r) \<Longrightarrow> find (\<lambda>r. rw_id r = x) (map g rs) = map_option g (find (\<lambda>r. rw_id r = x) rs)"
  by (induction rs) auto

lemma find_review_id: "find_review db rid = Some r \<Longrightarrow> rw_id r = rid \<and> r \<in> set (rb_reviews db)"
  by (auto simp: find_review_def find_Some_iff)

lemma reviewForUpdate_iff:
  "reviewForUpdate db rid = Some (r, t) \<longleftrightarrow> find_review db rid = Some r \<and> find_tenancy db (rw_tenantId r) = Some t"
  by (auto simp: reviewForUpdate_def bind_eq_Some_conv)

lemma moved_db:
  assumes "move_review env rid from to f db = Inr (Some db')"
  shows "\<exists>r. find_review db rid = Some r \<and> rw_state r \<in> set from"
    "rb_reviews db' = map (\<lambda>r. if rw_id r = rid then as_moved env to f db r else r) (rb_reviews db)"
    "rb_ledger db' = rb_ledger db" "index_holds db'" "rb_tenancies db' = rb_tenancies db" "rb_changeLog db' = rb_changeLog db"
  using assms by (auto simp: move_review_def indexed_def write_review_def as_moved_def split: option.splits if_splits)

lemma moved_found:
  assumes "move_review env rid from to f db = Inr (Some db')" "keeps_keys f"
  shows "find_review db' x = map_option (\<lambda>r. if rw_id r = rid then as_moved env to f db r else r) (find_review db x)"
  unfolding find_review_def moved_db(2) [OF assms(1)] using assms(2) by (intro find_map_id) (simp add: as_moved_def keeps_keys_def)

text \<open>A row the call may leave approved: what its columns say of the basis, by whom, and whether the rent goes down.\<close>

definition lowers_rent :: "review_instance \<Rightarrow> bool" where
  "lowers_rent r \<longleftrightarrow> (case (rw_oldRent r, rw_newRent r) of (Some old, Some upd) \<Rightarrow> upd < old | _ \<Rightarrow> False)"

definition reasons_are :: "review_instance \<Rightarrow> approval_reason list \<Rightarrow> bool" where
  "reasons_are r reasons \<longleftrightarrow> map_option approvalReasonsOf (rw_calc r) = Some reasons"

definition rightly_approved :: "review_call \<Rightarrow> int list \<Rightarrow> review_instance \<Rightarrow> bool" where
  "rightly_approved call editors r \<longleftrightarrow>
     (\<exists>caller dir.
        rw_approvedBy r = Some (person_of caller) \<and>
        (case rw_approvalBasis r of
           None \<Rightarrow> False
         | Some AutoInBounds \<Rightarrow> submits_with call (rw_id r) caller dir \<and> ownsOrManages r caller \<and> reasons_are r []
         | Some ByDirectorOverride \<Rightarrow>
             submits_with call (rw_id r) caller dir \<and> is_director caller \<and> overrides dir CheckOutOfBand \<and> reasons_are r [ReasonOutOfBand]
         | Some BySecondPerson \<Rightarrow>
             approves_with call (rw_id r) caller \<and> holdsApproverRole (c_roles caller) \<and>
             (\<exists>u. c_userId caller = Some u \<and>
                (is_director caller \<or> u \<notin> set (separationOfDuties editors (rw_calc r) (prepared_by r))))) \<and>
        (lowers_rent r \<longrightarrow> rw_approvalBasis r = Some BySecondPerson \<and> is_director caller))"

definition approves_rightly :: "review_call \<Rightarrow> review_env \<Rightarrow> review_db \<Rightarrow> string \<Rightarrow> review_state \<Rightarrow> approved_outcome \<Rightarrow> bool" where
  "approves_rightly call env db rid from out \<longleftrightarrow>
     moves_by (events_of call rid) [from] approved \<and>
     (\<exists>r. find_review db rid = Some r \<and> rightly_approved call (basisEditorsSinceCommence db rid) (with_outcome env out r))"

lemma moves_by_event:
  "(\<And>s. s \<in> set from \<Longrightarrow> review_nextState (Some s) e facts = Some to) \<Longrightarrow> e \<in> E \<Longrightarrow> moves_by E from to"
  unfolding moves_by_def by blast

lemma moves_by_self [simp]: "moves_by E [in_progress] in_progress"
  by (simp add: moves_by_def)

lemma moves_by_simps [simp]:
  "INDEX_PENDING \<in> E \<Longrightarrow> moves_by E [in_progress] awaiting_index"
  "INDEX_AVAILABLE \<in> E \<Longrightarrow> moves_by E [awaiting_index] in_progress"
  "SUBMIT \<in> E \<Longrightarrow> moves_by E [in_progress] awaiting_approval"
  "RETURN \<in> E \<Longrightarrow> moves_by E [awaiting_approval] in_progress"
  "WAIVE \<in> E \<Longrightarrow> moves_by E OPEN_RENT_REVIEW_STATES waived"
  "CANCEL \<in> E \<Longrightarrow> moves_by E OPEN_RENT_REVIEW_STATES cancelled"
  "REVERT \<in> E \<Longrightarrow> moves_by E [approved] in_progress"
  "OPEN_WINDOW \<in> E \<Longrightarrow> moves_by E [scheduled] due"
  "COMMENCE \<in> E \<Longrightarrow> moves_by E [scheduled, due] in_progress"
  "SUBMIT \<in> E \<Longrightarrow> moves_by E [in_progress] approved"
  "APPROVE \<in> E \<Longrightarrow> moves_by E [awaiting_approval] approved"
proof -
  define f where "f = \<lparr>autoApprove = True, billingConfirmed = False, reviewMethod = Some cpi, noticeHandled = False,
    recordedByDirector = False, withinWindow = True\<rparr>"
  note rules = review_defs f_def no_review_facts_def
  show "INDEX_PENDING \<in> E \<Longrightarrow> moves_by E [in_progress] awaiting_index" by (rule moves_by_event [of _ INDEX_PENDING f]) (simp add: rules)
  show "INDEX_AVAILABLE \<in> E \<Longrightarrow> moves_by E [awaiting_index] in_progress" by (rule moves_by_event [of _ INDEX_AVAILABLE f]) (simp add: rules)
  show "SUBMIT \<in> E \<Longrightarrow> moves_by E [in_progress] awaiting_approval"
    by (rule moves_by_event [of _ SUBMIT no_review_facts]) (simp add: rules)
  show "RETURN \<in> E \<Longrightarrow> moves_by E [awaiting_approval] in_progress" by (rule moves_by_event [of _ RETURN f]) (simp add: rules)
  show "WAIVE \<in> E \<Longrightarrow> moves_by E OPEN_RENT_REVIEW_STATES waived" by (rule moves_by_event [of _ WAIVE f]) (auto simp: rules)
  show "CANCEL \<in> E \<Longrightarrow> moves_by E OPEN_RENT_REVIEW_STATES cancelled" by (rule moves_by_event [of _ CANCEL f]) (auto simp: rules)
  show "REVERT \<in> E \<Longrightarrow> moves_by E [approved] in_progress" by (rule moves_by_event [of _ REVERT f]) (simp add: rules)
  show "OPEN_WINDOW \<in> E \<Longrightarrow> moves_by E [scheduled] due" by (rule moves_by_event [of _ OPEN_WINDOW f]) (simp add: rules)
  show "COMMENCE \<in> E \<Longrightarrow> moves_by E [scheduled, due] in_progress" by (rule moves_by_event [of _ COMMENCE f]) (auto simp: rules)
  show "SUBMIT \<in> E \<Longrightarrow> moves_by E [in_progress] approved" by (rule moves_by_event [of _ SUBMIT f]) (simp add: rules)
  show "APPROVE \<in> E \<Longrightarrow> moves_by E [awaiting_approval] approved" by (rule moves_by_event [of _ APPROVE f]) (simp add: rules)
qed

lemma moved_self:
  assumes "move_review env rid from to f db = Inr (Some db')" "keeps_keys f"
  shows "\<exists>r. find_review db rid = Some r \<and> rw_state r \<in> set from \<and> find_review db' rid = Some (as_moved env to f db r)"
  using moved_db(1) [OF assms(1)] moved_found [OF assms, of rid] by (auto dest: find_review_id)

lemma find_written:
  "(\<And>r. rw_id (f r) = rw_id r) \<Longrightarrow>
   find_review (write_review env rid f db) rid =
     map_option (\<lambda>r. (f r)\<lparr>rw_updatedAt := ve_now env, rw_version := rb_versions db + 1\<rparr>) (find_review db rid)"
  unfolding find_review_def write_review_def by (simp add: find_map_id)
    (rule option.map_cong0; auto simp: find_Some_iff)

section \<open>Refusals record attempts only\<close>

definition quiet :: "(review_failure + 'a) \<Rightarrow> bool" where
  "quiet x \<longleftrightarrow> (\<forall>code e. x = Inl (Refused code (Some e)) \<longrightarrow> dl_action e \<in> {LDenied, LSodBlocked})"

lemma quiet_basic [simp]:
  "quiet (Inr y)" "quiet (ensure b code)" "quiet (some_or v code)" "quiet (refused code)" "quiet (record_entry e db)"
  "quiet (Inl LedgerRefused)" "quiet (Inl UniqueIndex)" "quiet (Inl Failed)" "quiet (indexed db)" "quiet (Inl (Refused code None))"
  by (auto simp: quiet_def ensure_def some_or_def refused_def record_entry_def indexed_def split: option.splits)

lemma quiet_and_then [intro!]: "quiet x \<Longrightarrow> (\<And>a. x = Inr a \<Longrightarrow> quiet (f a)) \<Longrightarrow> quiet (and_then x f)"
  by (cases x) (auto simp: quiet_def)

lemma quiet_or_noting [simp]: "dl_action e \<in> {LDenied, LSodBlocked} \<Longrightarrow> quiet (or_noting b code e)"
  by (auto simp: quiet_def or_noting_def refused_noting_def)

lemma quiet_map_sum [simp]: "quiet (map_sum id f x) \<longleftrightarrow> quiet x"
  by (cases x) (auto simp: quiet_def)

lemma quiet_move [simp]: "quiet (move_review env rid from to f db)"
  by (simp add: move_review_def split: option.split)

lemma entry_of_sel [simp]:
  "dl_action (entry_of a u r rule why) = a" "dl_reviewId (entry_of a u r rule why) = rw_id r" "dl_actor (entry_of a u r rule why) = u"
  "dl_rule (entry_of a u r rule why) = rule"
  by (simp_all add: entry_of_def)

lemma system_entry_sel [simp]:
  "dl_action (system_entry a rid tid rule) = a" "dl_reviewId (system_entry a rid tid rule) = rid"
  by (simp_all add: system_entry_def)

lemma cache_entry_action [simp]: "dl_action (cache_entry r old rent rule) = LRentCache"
  by (simp add: cache_entry_def)

lemma deniedAttempt_action [simp]: "dl_action (deniedAttempt caller r rule) = LDenied"
  by (simp add: deniedAttempt_def)

lemmas move_defs = saveCalc_def markAwaitingIndex_def markIndexAvailable_def markSubmitted_def markApproved_def markReturned_def
  markWaived_def markCancelled_def markReverted_def markWindowOpen_def markCommenced_def

lemma quiet_moved [simp]: "quiet x \<Longrightarrow> quiet (moved_or code x)"
  by (auto simp: moved_or_def)

lemma quiet_parts [simp]:
  "quiet (refuseClosedTenancy b t)" "quiet (derivedNextReview env t ds steps)" "quiet (written_or_refused target b)"
  "quiet (check_apply inp t)" "quiet (recordDirectorOverride caller r check why db)" "quiet (ran res)"
  "quiet (cpi_rows_for db m basis date)" "quiet (undo_logged db t rec)"
  by (auto simp: refuseClosedTenancy_def derivedNextReview_def written_or_refused_def check_apply_def recordDirectorOverride_def ran_def
      cpi_rows_for_def undo_logged_def Let_def split: option.splits from_calc.splits undo_result.splits)

lemma quiet_apply [simp]: "quiet (applyReview env inp db)"
  by (auto simp: applyReview_def record_overrides_def markApproved_def Let_def split: prod.splits)

lemma quiet_revert [simp]: "quiet (revertReview env inp db)"
  by (auto simp: revertReview_def cancel_next_def markReverted_def markCancelled_def Let_def split: prod.splits option.splits)

lemma quiet_works [simp]:
  "quiet (commence_work env rq db said1)" "quiet (basis_work env rq db said2)" "quiet (calculate_work env rq db said3)"
  "quiet (return_work env rq db said4)" "quiet (cancel_work env rq db said5)" "quiet (waive_work env rq db said6)"
  "quiet (revert_work env rq db said7)" "quiet (approve_work env rq db said8)"
proof -
  show "quiet (commence_work env rq db said1)"
    by (auto simp: commence_work_def fresh_read_def can_move_def markCommenced_def split: prod.splits)
  show "quiet (basis_work env rq db said2)"
    by (auto simp: basis_work_def fresh_read_def patched_basis_def split: prod.splits sum.splits)
  show "quiet (calculate_work env rq db said3)"
    by (auto simp: calculate_work_def fresh_read_def workOutReview_def store_result_def markAwaitingIndex_def saveCalc_def Let_def
        split: prod.splits calc_result.splits)
  show "quiet (return_work env rq db said4)"
    by (auto simp: return_work_def fresh_read_def can_move_def markReturned_def split: prod.splits)
  show "quiet (cancel_work env rq db said5)"
    by (auto simp: cancel_work_def fresh_read_def can_move_def markCancelled_def split: prod.splits)
  have "quiet (forgoneIncrease env db r t)" for r t
    by (auto simp: forgoneIncrease_def Let_def split: option.splits calc_result.splits)
  then show "quiet (waive_work env rq db said6)"
    by (auto simp: waive_work_def fresh_read_def can_move_def waive_write_def markWaived_def Let_def split: prod.splits review_row_result.splits)
  have "quiet (Inl e :: review_failure + review_db)" if "revertReview env inp db = Inl e" for inp e
    using that quiet_revert [of env inp db] by (simp add: quiet_def)
  then show "quiet (revert_work env rq db said7)"
    by (auto simp: revert_work_def fresh_read_def can_move_def split: prod.splits sum.splits)
  show "quiet (approve_work env rq db said8)"
    by (auto simp: approve_work_def fresh_read_def can_move_def approval_rule_def Let_def split: prod.splits)
qed

lemma quiet_submit [simp]: "quiet (submit_work env rq db said)"
  by (auto simp: submit_work_def fresh_read_def can_move_def submit_decision_def check_submission_def su_leaseTerms_def rentOnLeaseTerms_def
      submit_one_step_def submit_for_approval_def recordOverrides_def markSubmitted_def Let_def
      split: prod.splits calc_result.splits option.splits)

section \<open>Approvals are right\<close>

lemma rank_director: "3 \<le> APPROVER_RANK role \<Longrightarrow> role = ''director''"
  by (auto simp: APPROVER_RANK_def split: if_splits)

lemma approverRank_director: "3 \<le> approverRank roles \<Longrightarrow> ''director'' \<in> set roles"
proof -
  have "3 \<le> n \<or> ''director'' \<in> set roles" if "3 \<le> foldl (\<lambda>best role. max best (APPROVER_RANK role)) n roles" for n
    using that
  proof (induction roles arbitrary: n)
    case (Cons role roles)
    from Cons.IH [of "max n (APPROVER_RANK role)"] Cons.prems rank_director [of role] show ?case by (auto simp: le_max_iff_disj)
  qed simp
  from this [of 0] show "3 \<le> approverRank roles \<Longrightarrow> ''director'' \<in> set roles" by (simp add: approverRank_def)
qed

lemma basisEditors_entry [simp]:
  "dl_action e \<notin> {LBasisUpdate, LCommence} \<Longrightarrow> basisEditorsSinceCommence (add_entry e db) rid = basisEditorsSinceCommence db rid"
  by (simp add: basisEditorsSinceCommence_def entries_about_def since_commence_def)

lemma set_separation:
  "set (separationOfDuties editors calc preparedById) =
     set editors \<union> set_option preparedById \<union> set_option (dy_keyedBy (dutiesOf editors calc preparedById))"
  by (auto simp: separationOfDuties_def dutiesOf_def Let_def split: option.splits)

lemma own_part_None:
  "own_part (dutiesOf editors calc preparedById) u = None \<longleftrightarrow> u \<notin> set (separationOfDuties editors calc preparedById)"
  by (cases calc) (auto simp: own_part_def set_separation dutiesOf_def split: option.splits)

lemma outcome_row [simp]:
  "rw_approvalBasis (with_outcome env out r) = Some (ao_approvalBasis out)" "rw_calc (with_outcome env out r) = Some (ao_calc out)"
  "rw_approvedBy (with_outcome env out r) = Some (ao_approver out)" "rw_oldRent (with_outcome env out r) = Some (ao_oldAnnual out)"
  "rw_newRent (with_outcome env out r) = Some (ao_newAnnual out)" "rw_id (with_outcome env out r) = rw_id r"
  "ownsOrManages (with_outcome env out r) = ownsOrManages r"
  by (auto simp: with_outcome_def prepared_def ownsOrManages_def owns_def fun_eq_iff split: option.split)

lemma outcome_prepared: "ao_preparer out = None \<Longrightarrow> prepared_by (with_outcome env out r) = prepared_by r"
  by (simp add: with_outcome_def prepared_by_def)

lemma lowers_outcome [simp]: "lowers_rent (with_outcome env out r) \<longleftrightarrow> ao_newAnnual out < ao_oldAnnual out"
  by (simp add: lowers_rent_def)

lemma outcome_of_sel [simp]:
  "ao_approvalBasis (outcome_of inp written) = ai_approvalBasis inp" "ao_approver (outcome_of inp written) = person_of (ai_actor inp)"
  "ao_calc (outcome_of inp written) = ai_calc inp" "ao_newAnnual (outcome_of inp written) = ai_chosenNewAnnual inp"
  "ao_oldAnnual (outcome_of inp written) = cl_currentAnnual (ai_calc inp)"
  by (simp_all add: outcome_of_def)

lemma approval_right:
  assumes rule: "approval_rule env db caller dir r = Inr (calc, rule)" and found: "find_review db (rw_id r) = Some r"
    and asked: "approves_with call (rw_id r) caller" "APPROVE \<in> events_of call (rw_id r)"
  shows "approves_rightly call env (add_entry (entry_of LApprove (review_actor_of caller) r (Some rule) None) db) (rw_id r) awaiting_approval
    (outcome_of (approve_input env caller dir r calc) written)"
proof -
  define part where "part = own_part (dutiesOf (basisEditorsSinceCommence db (rw_id r)) (Some calc) (prepared_by r)) (the (c_userId caller))"
  from rule obtain u where u: "c_userId caller = Some u" and part: "part = None \<or> is_director caller"
    and level: "APPROVER_RANK (requiredApprovalRoleOf (approvalRung env r) (Some calc)) \<le> approverRank (c_roles caller)"
    and role: "holdsApproverRole (c_roles caller)"
    by (auto simp: approval_rule_def Let_def and_then_Inr_iff part_def holdsApproverRole_def)
  have lowers: "is_director caller" if "chosen_annual calc < cl_currentAnnual calc"
    using level that approverRank_director
    by (simp add: requiredApprovalRoleOf_def isReduction_def APPROVER_RANK_def is_director_def split: if_splits)
  have "is_director caller \<or> u \<notin> set (separationOfDuties (basisEditorsSinceCommence db (rw_id r)) (Some calc) (prepared_by r))"
    using part u own_part_None by (auto simp: part_def)
  moreover have "prepared_by (with_outcome env (outcome_of (approve_input env caller dir r calc) written) r) = prepared_by r"
    by (rule outcome_prepared) (simp add: outcome_of_def approve_input_def)
  ultimately have "rightly_approved call (basisEditorsSinceCommence db (rw_id r))
      (with_outcome env (outcome_of (approve_input env caller dir r calc) written) r)"
    unfolding rightly_approved_def using u lowers role asked(1)
    by (intro exI [of _ caller]) (simp add: approve_input_def)
  then show ?thesis using found asked(2) by (simp add: approves_rightly_def)
qed

lemma submit_right:
  assumes reasons: "su_reasons env s = []" and found: "find_review db (rw_id (su_review s)) = Some (su_review s)"
    and asked: "submits_with call (rw_id (su_review s)) (su_caller s) (su_directorOverride s)" "SUBMIT \<in> events_of call (rw_id (su_review s))"
    and allowed: "su_directorOverride s = None \<or> is_director (su_caller s)" "ownsOrManages (su_review s) (su_caller s)"
  shows "approves_rightly call env db (rw_id (su_review s)) in_progress
    (outcome_of (one_step_input env s (su_submitted env s receipt leaseTerms)) written)"
proof -
  let ?c = "su_submitted env s receipt leaseTerms"
  from reasons have plain: "su_override s = None" "sb_inBand (su_sanity env s) \<or> band_overridden env s" "cl_method (su_calc s) \<noteq> CalcOther"
    "su_departures s = []" "\<not> su_reduces s" "\<not> below_lease_ratchet s"
    by (auto simp: su_reasons_def below_lease_ratchet_def not_Some_eq [symmetric] split: if_splits)
  have c: "cl_override ?c = None" "cl_sanity ?c = Some (su_sanity env s)" "cl_method ?c = cl_method (su_calc s)" "cl_departures ?c = Some []"
    "cl_newAnnual ?c = su_chosen s" "cl_currentAnnual ?c = cl_currentAnnual (su_calc s)" "\<not> cl_ratchetOverrideNeeded ?c"
    using plain by (simp_all add: su_submitted_def with_rent_def Let_def su_chosen_def)
  have why: "approvalReasonsOf ?c = (if sb_inBand (su_sanity env s) then [] else [ReasonOutOfBand])"
    using c plain by (simp add: approvalReasonsOf_def isReduction_def chosen_annual_def chosenFigures_def su_reduces_def)
  have band: "band_overridden env s \<longleftrightarrow> \<not> sb_inBand (su_sanity env s)" using plain(2) by (auto simp: band_overridden_def)
  have said: "overrides (su_directorOverride s) CheckOutOfBand \<and> is_director (su_caller s)" if "band_overridden env s"
    using that allowed(1) by (auto simp: band_overridden_def overrides_def split: option.splits)
  have "rightly_approved call editors (with_outcome env (outcome_of (one_step_input env s ?c) written) (su_review s))" for editors
    unfolding rightly_approved_def using asked(1) allowed(2) plain(5) c(6) why band said
    by (intro exI [of _ "su_caller s"] exI [of _ "su_directorOverride s"])
      (simp add: one_step_input_def su_reduces_def reasons_are_def)
  then show ?thesis using found asked(2) by (simp add: approves_rightly_def)
qed

section \<open>The relation carried through\<close>

definition leads :: "(review_db \<Rightarrow> review_db \<Rightarrow> bool) \<Rightarrow> review_db \<Rightarrow> (review_failure + review_db) \<Rightarrow> bool" where
  "leads K db x \<longleftrightarrow> (\<forall>db'. x = Inr db' \<longrightarrow> K db db')"

lemma keeps_keysI: "(\<And>r. rw_id (f r) = rw_id r \<and> rw_tenantId (f r) = rw_tenantId r) \<Longrightarrow> keeps_keys f"
  by (simp add: keeps_keys_def)

lemma approves_rightly_cong:
  "rb_reviews db1 = rb_reviews db \<Longrightarrow> rb_ledger db1 = rb_ledger db \<Longrightarrow> approves_rightly call env db1 rid from out = approves_rightly call env db rid from out"
  by (simp add: approves_rightly_def find_review_def basisEditorsSinceCommence_def entries_about_def)

locale review_relation =
  fixes K :: "review_db \<Rightarrow> review_db \<Rightarrow> bool" and call :: review_call
  assumes K_refl: "K db db"
    and K_trans: "K a b \<Longrightarrow> K b c \<Longrightarrow> K a c"
    and K_tables: "rb_reviews db' = rb_reviews db \<Longrightarrow> rb_ledger db' = rb_ledger db \<Longrightarrow> K db db'"
    and K_entry: "(dl_action e \<in> {LBasisUpdate, LCommence} \<Longrightarrow> being_worked db (dl_reviewId e)) \<Longrightarrow> K db (add_entry e db)"
    and K_move: "move_review env rid from to f db = Inr (Some db') \<Longrightarrow> moves_by (events_of call rid) from to \<Longrightarrow> keeps_keys f \<Longrightarrow>
      to \<noteq> approved \<Longrightarrow> K db db'"
    and K_basis: "saveBasis env rid basis db = Some db' \<Longrightarrow> K db db'"
    and K_insert: "insertScheduledReview env rid tid building m date db = Inr db' \<Longrightarrow> SCHEDULE \<in> events_of call rid \<Longrightarrow> K db db'"
    and K_approved: "markApproved env rid state out db = Inr (Some db') \<Longrightarrow> approves_rightly call env db rid state out \<Longrightarrow> K db db'"
begin

lemma K_plain: "dl_action e \<notin> {LBasisUpdate, LCommence} \<Longrightarrow> K db (add_entry e db)"
  by (rule K_entry) simp

lemma K_recorded: "record_entry e db = Inr db' \<Longrightarrow> dl_action e \<notin> {LBasisUpdate, LCommence} \<Longrightarrow> K db db'"
  using record_entry_Inr K_plain by blast

lemma K_refusal: "quiet (Inl failure :: review_failure + review_db) \<Longrightarrow> K db (recordReviewRefusal failure db)"
  using K_refl [of db] K_plain [of _ db] by (auto simp: recordReviewRefusal_def quiet_def split: review_failure.splits option.splits)

lemma leads_read: "(\<And>a. x = Inr a \<Longrightarrow> leads K db (f a)) \<Longrightarrow> leads K db (and_then x f)"
  by (auto simp: leads_def and_then_Inr_iff)

lemmas leads_reads [intro!] =
  leads_read [where x = "ensure b code" for b code] leads_read [where x = "or_noting b code e" for b code e]
  leads_read [where x = "some_or (v :: 'x option) code" for v code] leads_read [where x = "refuseClosedTenancy b t" for b t]
  leads_read [where x = "can_move r e" for r e] leads_read [where x = "fresh_read r v" for r v]
  leads_read [where x = "patched_basis r v" for r v] leads_read [where x = "workOutReview env db2 p v m r t" for env db2 p v m r t]
  leads_read [where x = "written_or_refused target b" for target b] leads_read [where x = "check_apply inp t" for inp t]
  leads_read [where x = "derivedNextReview env t ds steps" for env t ds steps] leads_read [where x = "forgoneIncrease env db2 r t" for env db2 r t]
  leads_read [where x = "undo_logged db2 t rec" for db2 t rec] leads_read [where x = "approval_rule env db2 caller dir r" for env db2 caller dir r]
  leads_read [where x = "check_submission env s" for env s] leads_read [where x = "su_leaseTerms env db2 s" for env db2 s]

lemma leads_then: "leads K db x \<Longrightarrow> (\<And>db1. x = Inr db1 \<Longrightarrow> leads K db1 (f db1)) \<Longrightarrow> leads K db (and_then x f)"
  by (auto simp: leads_def and_then_Inr_iff intro: K_trans)

lemma leads_from: "K db db1 \<Longrightarrow> leads K db1 x \<Longrightarrow> leads K db x"
  by (auto simp: leads_def intro: K_trans)

lemma leads_refused [simp]: "leads K db (Inl failure)" "leads K db (refused code)"
  by (simp_all add: leads_def refused_def)

lemma leads_same [simp]: "leads K db (Inr db)"
  by (simp add: leads_def K_refl)

lemma leads_recorded: "dl_action e \<notin> {LBasisUpdate, LCommence} \<Longrightarrow> leads K db (record_entry e db)"
  using K_recorded by (auto simp: leads_def)

lemma leads_moved: "moves_by (events_of call rid) from to \<Longrightarrow> keeps_keys f \<Longrightarrow> to \<noteq> approved \<Longrightarrow> leads K db (moved_or code (move_review env rid from to f db))"
  by (auto simp: leads_def intro: K_move)

lemma leads_logged: "leads K (snd (log_changes env nm tid changes db)) x \<Longrightarrow> leads K db x"
  by (rule leads_from [OF K_tables]) (simp_all add: log_changes_eq)

lemma leads_overridden: "leads K db (recordDirectorOverride caller r check why db)"
  unfolding recordDirectorOverride_def by (rule leads_recorded) simp

lemma K_settled: "leads K db x \<Longrightarrow> quiet x \<Longrightarrow> K db (snd (settle x db))"
  by (cases x) (auto simp: settle_def leads_def intro: K_refusal)

lemma K_gated:
  "(\<And>body said. rq_body rq = Some body \<Longrightarrow> reads body = Inr said \<Longrightarrow> leads K db (work said)) \<Longrightarrow> (\<And>said. quiet (work said)) \<Longrightarrow>
   K db (snd (gated roles gate rq reads work db))"
  using K_refl K_settled by (auto simp: gated_def split: option.split sum.split)

lemma leads_moved_then:
  "moves_by (events_of call rid) from to \<Longrightarrow> keeps_keys f \<Longrightarrow> to \<noteq> approved \<Longrightarrow> (\<And>db1. leads K db1 (g db1)) \<Longrightarrow>
   leads K db (and_then (moved_or code (move_review env rid from to f db)) g)"
  by (rule leads_then [OF leads_moved])

section \<open>The generator keeps it\<close>

lemma openWindow_keeps: "OPEN_WINDOW \<in> events_of call rid \<Longrightarrow> openWindow env tid rid days db = Inr (b, db') \<Longrightarrow> K db db'"
proof -
  assume may: "OPEN_WINDOW \<in> events_of call rid" and o: "openWindow env tid rid days db = Inr (b, db')"
  then obtain moved where m: "markWindowOpen env rid db = Inr moved" by (auto simp: openWindow_def and_then_Inr_iff)
  show ?thesis
  proof (cases moved)
    case None
    with o m K_refl show ?thesis by (simp add: openWindow_def)
  next
    case (Some db1)
    with m may have "K db db1" by (intro K_move [of env rid "[scheduled]" due id]) (simp_all add: markWindowOpen_def keeps_keys_def)
    moreover have "K db1 db'"
      using o m Some by (auto simp: openWindow_def and_then_Inr_iff intro!: K_recorded [of _ db1])
    ultimately show ?thesis by (rule K_trans)
  qed
qed

lemma schedule_review_keeps: "SCHEDULE \<in> events_of call rid \<Longrightarrow> schedule_review env action rid db = Inr (b, db') \<Longrightarrow> K db db'"
proof -
  assume may: "SCHEDULE \<in> events_of call rid" and s: "schedule_review env action rid db = Inr (b, db')"
  show ?thesis
  proof (cases "insertScheduledReview env rid (ga_tenant action) (ga_building action) (ga_method action) (ga_date action) db")
    case (Inl e)
    with s K_refl show ?thesis by (simp add: schedule_review_def split: if_splits)
  next
    case (Inr db1)
    have "K db1 db'" using s Inr by (auto simp: schedule_review_def and_then_Inr_iff intro!: K_recorded [of _ db1])
    with K_insert [OF Inr may] show ?thesis by (rule K_trans)
  qed
qed

lemma schedulesD: "schedules call \<Longrightarrow> SCHEDULE \<in> events_of call rid" "schedules call \<Longrightarrow> OPEN_WINDOW \<in> events_of call rid"
  by (simp_all add: schedules_def)

lemma applyAction_keeps: "schedules call \<Longrightarrow> applyAction env days action db = Inr (res, db') \<Longrightarrow> K db db'"
proof -
  assume sched: "schedules call" and done_action: "applyAction env days action db = Inr (res, db')"
  show ?thesis
  proof (cases action)
    case (GenOpenWindow tid building rid date)
    with done_action obtain b where "openWindow env tid rid days db = Inr (b, db')" by (auto simp: applyAction_def and_then_Inr_iff)
    then show ?thesis by (rule openWindow_keeps [OF schedulesD(2) [OF sched]])
  next
    case (GenSchedule tid building m opens date)
    define rid where "rid = new_review_id env db"
    from done_action obtain created db1 where made: "schedule_review env action rid db = Inr (created, db1)"
      and rest: "(if \<not> created then Inr (action_done True False False False, db1)
        else if \<not> opens then Inr (action_done False True False False, db1)
        else (case openWindow env tid rid days db1 of
                Inl err \<Rightarrow> Inr (action_done False True True False, db1)
              | Inr (opened, db2) \<Rightarrow> Inr (action_done (\<not> opened) True False opened, db2))) = (Inr (res, db') :: review_failure + _)"
      unfolding applyAction_def GenSchedule rid_def Let_def
      by (cases "schedule_review env action (new_review_id env db) db") (auto simp: GenSchedule)
    have "db1 = db' \<or> (\<exists>b. openWindow env tid rid days db1 = Inr (b, db'))"
      using rest by (auto split: if_splits sum.splits prod.splits)
    with schedule_review_keeps [OF schedulesD(1) [OF sched] made] K_refl [of db'] show ?thesis
      by (auto dest!: openWindow_keeps [OF schedulesD(2) [OF sched]] intro: K_trans)
  qed
qed

lemma run_actions_keeps: "schedules call \<Longrightarrow> K db (snd (run_actions env days actions (rep, db)))"
proof (induction actions arbitrary: rep db)
  case Nil
  show ?case by (simp add: K_refl)
next
  case (Cons action actions)
  show ?case
  proof (cases "applyAction env days action db")
    case (Inl e)
    with Cons show ?thesis by simp
  next
    case (Inr b)
    then obtain res db1 where b: "applyAction env days action db = Inr (res, db1)" by (cases b) auto
    with Cons.IH [of db1] Cons.prems applyAction_keeps [OF Cons.prems b] show ?thesis by (auto intro: K_trans)
  qed
qed

lemma schedule_actions_keeps: "schedules call \<Longrightarrow> K db (schedule_actions env days actions db)"
proof (induction actions arbitrary: db)
  case Nil
  show ?case by (simp add: K_refl)
next
  case (Cons action actions)
  then show ?case
    by (auto split: sum.splits intro: K_refl dest: applyAction_keeps intro: K_trans [OF applyAction_keeps])
qed

lemma write_cache_keeps: "K db (or_unchanged db (write_cache env rt db))"
proof -
  have "leads K db (write_cache env rt db)"
  proof (cases "planRentCache env (fst rt) (snd rt)")
    case (CacheWrite old rent)
    show ?thesis
    proof (cases "cache_row_written (snd rt) old rent db")
      case (Some db1)
      then have "K db db1" by (intro K_tables) (auto simp: cache_row_written_def split: option.splits if_splits)
      then have "leads K db (record_entry (cache_entry (fst rt) old rent ''review_date_arrived'') db1)"
        by (rule leads_from) (simp add: leads_recorded)
      with CacheWrite Some show ?thesis by (simp add: write_cache_def)
    qed (simp add: write_cache_def CacheWrite)
  qed (simp_all add: write_cache_def leads_recorded)
  then show ?thesis by (auto simp: leads_def or_unchanged_def K_refl split: sum.split)
qed

lemma writeDueRentCaches_keeps: "K db (writeDueRentCaches env db)"
proof -
  have "K db0 (fold (\<lambda>rt now_db. or_unchanged now_db (write_cache env rt now_db)) rts db0)" for rts db0
    by (induction rts arbitrary: db0) (auto intro: K_refl K_trans [OF write_cache_keeps])
  then show ?thesis by (simp add: writeDueRentCaches_def)
qed

lemma generator_keeps: "schedules call \<Longrightarrow> runReviewGenerator env dryRun days db = Some (rep, db') \<Longrightarrow> K db db'"
  using run_actions_keeps [of db env days] writeDueRentCaches_keeps
  by (auto simp: runReviewGenerator_def K_refl split: if_splits prod.splits) (metis K_trans snd_conv)

lemma scheduleNext_keeps: "schedules call \<Longrightarrow> K db (scheduleNextReview env days tid db)"
  by (auto simp: scheduleNextReview_def K_refl schedule_actions_keeps split: option.split)

lemma then_schedule_keeps: "schedules call \<Longrightarrow> K db (snd answered) \<Longrightarrow> K db (snd (then_schedule env days tenant answered))"
  by (auto simp: then_schedule_def split: prod.split option.split review_reply.split intro: K_trans [OF _ scheduleNext_keeps])

section \<open>The requests keep it\<close>

lemma commence_leads:
  assumes asked: "COMMENCE \<in> events_of call (fst said)"
  shows "leads K db (commence_work env rq db said)"
proof -
  have "leads K db (record_entry (entry_of LCommence u r rule why) db1)"
    if m: "markCommenced env (rw_id r) c db = Inr (Some db1)" and may: "COMMENCE \<in> events_of call (rw_id r)" for u r rule why c db1
  proof -
    note moved = m [unfolded markCommenced_def]
    have k: "keeps_keys (\<lambda>r. r\<lparr>rw_reviewType := legacyReviewType (cm_method c), rw_method := Some (cm_method c),
        rw_ownerUserId := Some (cm_ownerUserId c), rw_stepId := cm_stepId c, rw_buildingId := cm_buildingId c, rw_basis := Some (cm_basis c)\<rparr>)"
      by (simp add: keeps_keys_def)
    have "being_worked db1 (rw_id r)"
      using moved_self [OF moved k] by (auto simp: being_worked_def as_moved_def)
    then have "leads K db1 (record_entry (entry_of LCommence u r rule why) db1)"
      by (auto simp: leads_def record_entry_def intro: K_entry)
    with K_move [OF moved _ k] may show ?thesis by (auto intro: leads_from)
  qed
  then have "leads K db (and_then (moved_or Invalid_state (markCommenced env rid c db)) (record_entry (entry_of LCommence u r rule why)))"
    if "find_review db rid = Some r" "COMMENCE \<in> events_of call rid" for rid u r rule why c
    using find_review_id [OF that(1)] that(2) by (auto intro: leads_read)
  then show ?thesis
    using asked by (cases said) (auto simp: commence_work_def reviewForUpdate_iff split: prod.splits)
qed

lemma basis_leads: "leads K db (basis_work env rq db said)"
proof -
  have "leads K db (record_entry (entry_of LBasisUpdate u r rule why) db1)"
    if b: "saveBasis env (rw_id r) basis db = Some db1" for u r rule why basis db1
  proof -
    obtain r0 where r0: "find_review db (rw_id r) = Some r0" "rw_state r0 \<in> {in_progress, awaiting_index}"
      and db1: "db1 = write_review env (rw_id r) (\<lambda>r. r\<lparr>rw_basis := Some basis, rw_calc := None\<rparr>) db"
      using b by (auto simp: saveBasis_def split: option.splits if_splits)
    have "being_worked db1 (rw_id r)"
      using r0 by (simp add: db1 being_worked_def find_written)
    then have "leads K db1 (record_entry (entry_of LBasisUpdate u r rule why) db1)"
      by (auto simp: leads_def record_entry_def intro: K_entry)
    with K_basis [OF b] show ?thesis by (rule leads_from)
  qed
  then have "leads K db (record_entry (entry_of LBasisUpdate u r rule why) db1)"
    if "find_review db rid = Some r" "saveBasis env rid basis db = Some db1" for rid u r rule why basis db1
    using find_review_id [OF that(1)] that(2) by auto
  then show ?thesis
    by (cases said) (auto simp: basis_work_def reviewForUpdate_iff split: prod.splits)
qed

lemma store_result_leads: "INDEX_PENDING \<in> events_of call (rw_id r) \<Longrightarrow> leads K db (store_result env caller r m res db)"
  by (auto simp: store_result_def saveCalc_def markAwaitingIndex_def keeps_keys_def
      split: calc_result.split intro!: leads_moved_then leads_recorded)

lemma calculate_leads: "INDEX_PENDING \<in> events_of call (fst said) \<Longrightarrow> leads K db (calculate_work env rq db said)"
  by (cases said) (auto simp: calculate_work_def reviewForUpdate_iff dest: find_review_id intro!: store_result_leads split: prod.splits)

lemma return_leads: "RETURN \<in> events_of call (fst said) \<Longrightarrow> leads K db (return_work env rq db said)"
  by (cases said)
    (auto simp: return_work_def markReturned_def keeps_keys_def intro!: leads_moved_then leads_recorded split: prod.splits)

lemma cancel_leads: "CANCEL \<in> events_of call (fst said) \<Longrightarrow> leads K db (cancel_work env rq db said)"
  by (cases said)
    (auto simp: cancel_work_def markCancelled_def keeps_keys_def intro!: leads_moved_then leads_recorded split: prod.splits)

lemma waive_write_keeps: "waive_write env caller r t step db = Inr db' \<Longrightarrow> K db db'"
  by (rule K_tables) (auto simp: waive_write_def log_changes_eq and_then_Inr_iff Let_def)

lemma waive_leads:
  assumes asked: "WAIVE \<in> events_of call (fst said)"
  shows "leads K db (waive_work env rq db said)"
proof -
  have "leads K db (and_then (waive_write env caller r t step db) (\<lambda>db1.
      and_then (moved_or Invalid_state (markWaived env rid reason sid db1)) (record_entry (e\<lparr>dl_impact := impact\<rparr>))))"
    if "dl_action e = LWaive" and may: "WAIVE \<in> events_of call rid" for caller r t step rid reason sid e impact
  proof (rule leads_then)
    show "leads K db (waive_write env caller r t step db)" by (auto simp: leads_def dest: waive_write_keeps)
    show "leads K db1 (and_then (moved_or Invalid_state (markWaived env rid reason sid db1)) (record_entry (e\<lparr>dl_impact := impact\<rparr>)))" for db1
      unfolding markWaived_def using may by (intro leads_moved_then leads_recorded) (simp_all add: keeps_keys_def that(1))
  qed
  then show ?thesis
    using asked by (cases said) (auto simp: waive_work_def reviewForUpdate_iff Let_def split: prod.splits review_row_result.split)
qed

lemma apply_leads:
  assumes "\<And>written. approves_rightly call env db (rw_id (ai_review inp)) (ai_from inp) (outcome_of inp written)"
  shows "leads K db (applyReview env inp db)"
proof -
  have over: "leads K db2 (record_overrides inp t db2)" for t db2
    by (auto simp: record_overrides_def Let_def intro!: leads_then leads_overridden split: if_splits)
  have "leads K db (and_then (moved_or Invalid_state (markApproved env (rw_id (ai_review inp)) (ai_from inp) (outcome_of inp written) db1))
      (\<lambda>db2. and_then (record_overrides inp t db2) (record_entry (apply_entry env inp t written changes w))))"
    if "rb_reviews db1 = rb_reviews db" "rb_ledger db1 = rb_ledger db" for written db1 t changes w
  proof (rule leads_from [OF K_tables [OF that]], rule leads_then)
    show "leads K db1 (moved_or Invalid_state (markApproved env (rw_id (ai_review inp)) (ai_from inp) (outcome_of inp written) db1))"
      using assms [of written] approves_rightly_cong [OF that] by (auto simp: leads_def intro: K_approved)
    show "leads K db2 (and_then (record_overrides inp t db2) (record_entry (apply_entry env inp t written changes w)))" for db2
      by (rule leads_then [OF over leads_recorded]) (simp add: apply_entry_def)
  qed
  then show ?thesis
    by (auto simp: applyReview_def Let_def log_changes_eq)
qed

lemma otherOpenReview_other: "otherOpenReview db tid rid = Some other_id \<Longrightarrow> other_id \<noteq> rid"
  by (auto simp: otherOpenReview_def find_Some_iff)

lemma cancel_next_leads:
  assumes "\<And>rid. rid \<noteq> rw_id (vi_review inp) \<Longrightarrow> CANCEL \<in> events_of call rid"
  shows "leads K db (cancel_next env inp db)"
  using assms
  by (auto simp: cancel_next_def markCancelled_def keeps_keys_def Let_def split: option.split dest!: otherOpenReview_other
      intro!: leads_moved_then leads_recorded)

lemma revert_leads:
  assumes others: "\<And>rid. rid \<noteq> rw_id (vi_review inp) \<Longrightarrow> CANCEL \<in> events_of call rid"
    and asked: "REVERT \<in> events_of call (rw_id (vi_review inp))"
  shows "leads K db (revertReview env inp db)"
proof -
  have "leads K db2 (record_entry (e\<lparr>dl_impact := impact\<rparr>) (writeTenancyForReview tid w (db2\<lparr>rb_changeLog := logged\<rparr>)))"
    if "dl_action e = LRevert" for e impact tid w db2 logged
    by (rule leads_from [OF K_tables leads_recorded]) (simp_all add: that)
  then show ?thesis
    using asked
    by (auto simp: revertReview_def markReverted_def keeps_keys_def Let_def log_changes_eq split: prod.splits
        intro!: leads_then [OF cancel_next_leads [OF others]] leads_moved_then)
qed

lemma revert_work_leads:
  assumes "\<And>rid. rid \<noteq> fst said \<Longrightarrow> CANCEL \<in> events_of call rid" "REVERT \<in> events_of call (fst said)"
  shows "leads K db (revert_work env rq db said)"
proof -
  have "leads K db (case revertReview env \<lparr>vi_actor = who, vi_reason = why, vi_review = r\<rparr> db of
        Inl failure \<Rightarrow> Inl (if failure = UniqueIndex then Refused Try_again None else failure)
      | Inr db1 \<Rightarrow> Inr db1)" if "find_review db (fst said) = Some r" for who why r
    using revert_leads [of "\<lparr>vi_actor = who, vi_reason = why, vi_review = r\<rparr>" db env] assms find_review_id [OF that] by (auto simp: leads_def split: sum.splits)
  then show ?thesis
    by (cases said) (auto simp: revert_work_def reviewForUpdate_iff split: prod.splits)
qed

lemma approve_leads:
  assumes asked: "approves_with call (fst said) (rq_caller rq)" "APPROVE \<in> events_of call (fst said)"
  shows "leads K db (approve_work env rq db said)"
proof -
  have "leads K db (and_then (record_entry (entry_of LApprove (review_actor_of (rq_caller rq)) r (Some rule) None) db)
      (applyReview env (approve_input env (rq_caller rq) dir r calc)))"
    if "approval_rule env db (rq_caller rq) dir r = Inr (calc, rule)" "find_review db (fst said) = Some r" for r calc rule dir
  proof (rule leads_then [OF leads_recorded])
    fix db1 assume "record_entry (entry_of LApprove (review_actor_of (rq_caller rq)) r (Some rule) None) db = Inr db1"
    then have db1: "db1 = add_entry (entry_of LApprove (review_actor_of (rq_caller rq)) r (Some rule) None) db" by (rule record_entry_Inr)
    from find_review_id [OF that(2)] that(2) have found: "find_review db (rw_id r) = Some r" and "rw_id r = fst said" by simp_all
    with asked have "approves_with call (rw_id r) (rq_caller rq)" "APPROVE \<in> events_of call (rw_id r)" by simp_all
    from approval_right [of env db "rq_caller rq" dir r calc rule call, OF that(1) found this]
    show "leads K db1 (applyReview env (approve_input env (rq_caller rq) dir r calc) db1)"
      by (intro apply_leads) (simp add: db1 approve_input_def)
  qed simp
  then show ?thesis
    by (cases said) (auto simp: approve_work_def reviewForUpdate_iff split: prod.splits)
qed

lemma overrides_leads: "leads K db (recordOverrides env s db)"
  by (auto simp: recordOverrides_def Let_def intro!: leads_then leads_overridden split: if_splits)

lemma su_entry_leads: "a \<notin> {LBasisUpdate, LCommence} \<Longrightarrow> leads K db (record_entry (su_entry s a rule) db)"
  by (rule leads_recorded) (simp add: su_entry_def)

lemma for_approval_leads:
  assumes may: "SUBMIT \<in> events_of call (rw_id (su_review s))"
  shows "leads K db (submit_for_approval env s receipt leaseTerms submitted db)"
proof -
  have "leads K db (case su_override s of Some (rent, reason) \<Rightarrow> record_entry (override_entry s receipt rent reason) db | None \<Rightarrow> Inr db)" for db
    by (auto simp: override_entry_def su_entry_def split: option.split intro!: leads_recorded)
  moreover have "leads K db (case leaseTerms of Some terms \<Rightarrow> record_entry (departure_entry s receipt terms) db | None \<Rightarrow> Inr db)" for db
    by (auto simp: departure_entry_def su_entry_def split: option.split intro!: leads_recorded)
  ultimately show ?thesis
    unfolding submit_for_approval_def markSubmitted_def
    by (intro leads_moved_then leads_then [OF su_entry_leads] leads_then [OF overrides_leads] leads_then)
      (simp_all add: keeps_keys_def prepared_def may)
qed

lemma one_step_leads:
  assumes plain: "su_reasons env s = []" and found: "find_review db (rw_id (su_review s)) = Some (su_review s)"
    and asked: "submits_with call (rw_id (su_review s)) (su_caller s) (su_directorOverride s)" "SUBMIT \<in> events_of call (rw_id (su_review s))"
    and allowed: "su_directorOverride s = None \<or> is_director (su_caller s)" "ownsOrManages (su_review s) (su_caller s)"
  shows "leads K db (submit_one_step env s (su_submitted env s receipt leaseTerms) db)"
proof -
  let ?inp = "one_step_input env s (su_submitted env s receipt leaseTerms)"
  have entries: "find_review db2 x = find_review db x" if "recordOverrides env s db1 = Inr db2" "record_entry e db = Inr db1" for db1 db2 e x
    using that by (auto simp: recordOverrides_def recordDirectorOverride_def Let_def and_then_Inr_iff dest!: record_entry_Inr split: if_splits)
  have "leads K db2 (applyReview env ?inp db2)"
    if "recordOverrides env s db1 = Inr db2" "record_entry (su_entry s LSubmit rule) db = Inr db1" for db1 db2 rule
    using submit_right [OF plain, of db2 call] entries [OF that] found asked allowed by (intro apply_leads) (simp add: one_step_input_def)
  then show ?thesis
    unfolding submit_one_step_def Let_def by (auto intro!: leads_then [OF su_entry_leads] leads_then [OF overrides_leads])
qed

lemma submit_leads:
  assumes asked: "submits_with call (fst said) (rq_caller rq) (snd (snd (snd said)))" "SUBMIT \<in> events_of call (fst said)"
  shows "leads K db (submit_work env rq db said)"
proof -
  obtain rid version ov dir where said: "said = (rid, version, ov, dir)" by (cases said)
  have "leads K db (submit_decision env s db)"
    if "find_review db rid = Some (su_review s)" "su_caller s = rq_caller rq" "su_directorOverride s = dir"
      "dir = None \<or> is_director (rq_caller rq)" "ownsOrManages (su_review s) (rq_caller rq)" for s
  proof -
    from find_review_id [OF that(1)] have "rw_id (su_review s) = rid" by simp
    with that asked said show ?thesis
      by (auto simp: submit_decision_def Let_def intro!: for_approval_leads one_step_leads)
  qed
  then show ?thesis
    by (auto simp: said submit_work_def reviewForUpdate_iff Let_def split: prod.splits)
qed

text \<open>What the CPI timer does.\<close>

lemma resume_review_keeps:
  assumes may: "\<And>rid. INDEX_AVAILABLE \<in> events_of call rid"
  shows "resume_review env w db = Inr (b, db') \<Longrightarrow> K db db'"
proof -
  assume res: "resume_review env w db = Inr (b, db')"
  then obtain moved where m: "markIndexAvailable env (wt_reviewId w) db = Inr moved" by (auto simp: resume_review_def and_then_Inr_iff)
  show ?thesis
  proof (cases moved)
    case None
    with res m K_refl show ?thesis by (simp add: resume_review_def)
  next
    case (Some db1)
    with m have moved_on: "markIndexAvailable env (wt_reviewId w) db = Inr (Some db1)" by simp
    have "K db db1" by (rule K_move [OF moved_on [unfolded markIndexAvailable_def]]) (simp_all add: keeps_keys_def may)
    moreover have "K db1 db'"
      using res m Some by (auto simp: resume_review_def and_then_Inr_iff timer_entry_def intro!: K_recorded [of _ db1])
    ultimately show ?thesis by (rule K_trans)
  qed
qed

lemma calculateResumed_keeps:
  assumes calculated: "calculateResumed env w db = Inr (b, db')"
  shows "K db db'"
proof -
  have "K db db2" if "saveCalc env rid calc db = Inr (Some db1)" "record_entry (timer_entry LCalculate w rule) db1 = Inr db2"
    for rid calc db1 db2 rule
  proof (rule K_trans)
    show "K db db1" using that(1) unfolding saveCalc_def by (rule K_move) (simp_all add: keeps_keys_def)
    show "K db1 db2" using that(2) by (rule K_recorded) (simp add: timer_entry_def)
  qed
  then have stored: "and_then (saveCalc env rid calc db) (\<lambda>saved. case saved of None \<Rightarrow> Inr (False, db)
        | Some db1 \<Rightarrow> and_then (record_entry (timer_entry LCalculate w rule) db1) (\<lambda>db2. Inr (True, db2))) = Inr (b, db') \<Longrightarrow> K db db'"
    for rid calc rule by (auto simp: and_then_Inr_iff K_refl split: option.splits)
  show ?thesis
  proof (cases "reviewForUpdate db (wt_reviewId w)")
    case None
    with calculated show ?thesis by (simp add: calculateResumed_def K_refl)
  next
    case (Some rt)
    obtain r t where rt: "rt = (r, t)" by (cases rt)
    show ?thesis
    proof (cases "rw_state r \<noteq> in_progress \<or> rw_calc r \<noteq> None \<or> \<not> live_tenancy t")
      case True
      with calculated Some rt show ?thesis by (simp add: calculateResumed_def K_refl)
    next
      case False
      with calculated Some rt obtain result where "workOutReview env db AUTO_CALC_BY None CalcCpi r t = Inr result"
        by (auto simp: calculateResumed_def and_then_Inr_iff)
      with calculated Some rt False show ?thesis by (cases result) (auto simp: calculateResumed_def K_refl intro: stored)
    qed
  qed
qed

lemma calculate_after_keeps: "K db (snd (calculate_after env w (rep, db)))"
  by (auto simp: calculate_after_def K_refl calculateResumed_keeps split: sum.split bool.split)

lemma resume_one_keeps:
  assumes may: "\<And>rid. INDEX_AVAILABLE \<in> events_of call rid"
  shows "K db (snd (resume_one env dryRun w (rep, db)))"
proof (cases "resume_review env w db")
  case (Inl e)
  then show ?thesis by (simp add: resume_one_def K_refl)
next
  case (Inr moved)
  then obtain b db1 where m: "resume_review env w db = Inr (b, db1)" by (cases moved) auto
  show ?thesis
    using K_trans [OF resume_review_keeps [OF may m] calculate_after_keeps] by (cases b) (simp_all add: resume_one_def m K_refl)
qed

lemma index_keeps:
  assumes may: "\<And>rid. INDEX_AVAILABLE \<in> events_of call rid"
  shows "resumeAwaitingIndex env dryRun db = Some (rep, db') \<Longrightarrow> K db db'"
proof -
  have "K db0 (snd (fold (resume_one env dryRun) ws (rep0, db0)))" for ws rep0 db0
  proof (induction ws arbitrary: rep0 db0)
    case (Cons w ws)
    obtain rep1 db1 where o: "resume_one env dryRun w (rep0, db0) = (rep1, db1)" by (cases "resume_one env dryRun w (rep0, db0)")
    show ?case using resume_one_keeps [OF may, of db0 env dryRun w rep0] Cons.IH [of db1 rep1] by (simp add: o) (rule K_trans)
  qed (simp add: K_refl)
  then show "resumeAwaitingIndex env dryRun db = Some (rep, db') \<Longrightarrow> K db db'"
    by (auto simp: resumeAwaitingIndex_def) (metis snd_conv)
qed

lemma spawn_keeps: "SCHEDULE \<in> events_of call (ve_uuid env 0) \<Longrightarrow> K db (or_unchanged db (spawnMarketReview env caller tid building start db))"
proof -
  assume may: "SCHEDULE \<in> events_of call (ve_uuid env 0)"
  have "leads K db (insertScheduledReview env (ve_uuid env 0) tid building market start db)"
    by (auto simp: leads_def intro: K_insert [OF _ may])
  then have "leads K db (spawnMarketReview env caller tid building start db)"
    unfolding spawnMarketReview_def Let_def by (auto split: option.split intro!: leads_then leads_recorded)
  then show ?thesis by (auto simp: leads_def or_unchanged_def K_refl split: sum.split)
qed

lemma perform_keeps: "K db (perform call db)"
proof (cases call)
  case (Commences env rq)
  then show ?thesis by (simp add: commenceRentReview_def) (intro K_gated commence_leads quiet_works; simp add: asked_in_def)
next
  case (EditsBasis env rq)
  then show ?thesis by (simp add: updateRentReviewBasis_def) (intro K_gated basis_leads quiet_works)
next
  case (Calculates env rq)
  then show ?thesis by (simp add: calculateRentReview_def) (intro K_gated calculate_leads quiet_works; simp add: asked_in_def)
next
  case (Submits env days rq)
  then show ?thesis
    by (simp add: submitRentReview_def Let_def)
      (intro then_schedule_keeps K_gated submit_leads quiet_submit; simp add: asked_in_def schedules_def split: prod.split)
next
  case (Approves env days rq)
  then show ?thesis
    by (simp add: approveRentReview_def) (intro then_schedule_keeps K_gated approve_leads quiet_works; simp add: asked_in_def schedules_def)
next
  case (Returns env rq)
  then show ?thesis by (simp add: returnRentReview_def) (intro K_gated return_leads quiet_works; simp add: asked_in_def)
next
  case (Waives env days rq)
  then show ?thesis
    by (simp add: waiveRentReview_def) (intro then_schedule_keeps K_gated waive_leads quiet_works; simp add: asked_in_def schedules_def)
next
  case (Cancels env days rq)
  then show ?thesis
    by (simp add: cancelRentReview_def) (intro then_schedule_keeps K_gated cancel_leads quiet_works; simp add: asked_in_def schedules_def)
next
  case (Reverts env rq)
  then show ?thesis by (simp add: revertRentReview_def) (intro K_gated revert_work_leads quiet_works; simp add: asked_in_def)
next
  case (GeneratorRuns env dryRun days)
  then have "schedules call" by (simp add: schedules_def)
  with GeneratorRuns show ?thesis by (auto simp: K_refl generator_keeps split: option.split)
next
  case (IndexArrives env dryRun)
  then have "INDEX_AVAILABLE \<in> events_of call rid" for rid by simp
  with IndexArrives show ?thesis by (auto simp: K_refl index_keeps split: option.split)
next
  case (ExercisesOption env caller tid building start)
  then show ?thesis by (simp add: spawn_keeps)
next
  case (OthersWrite ts areas cpiRows)
  then show ?thesis by (simp add: K_tables)
qed

end

text \<open>Through a history, call by call.\<close>

lemma history_append: "review_history (calls @ more_calls) db = review_history more_calls (review_history calls db)"
  by (simp add: review_history_def)

lemma history_one [simp]: "review_history [] db = db" "review_history [call] db = perform call db"
  by (simp_all add: review_history_def)

lemma history_carries:
  assumes "\<And>db. K db db" "\<And>a b c. K a b \<Longrightarrow> K b c \<Longrightarrow> K a c" "\<And>call db. K db (perform call db)"
  shows "K db (review_history calls db)"
proof (induction calls rule: rev_induct)
  case (snoc call calls)
  then show ?case using assms(2, 3) by (auto simp: history_append)
qed (simp add: assms(1))

end
