(* ===== verification/Review_World_Correct.thy ===== *)
theory Review_World_Correct
  imports Review_World
begin

text \<open>
  What any history of requests, generator runs, CPI arrivals and option exercises leaves true of the rent reviews: each
  call moves a review by the events of \<open>src/rentReviewMachine.ts\<close> it stands for and by no other, a tenancy has one
  open review, a closed review never changes, and a review that stands approved was approved, by the call that
  approved it, by someone with the right to.
\<close>

section \<open>Rows and moves\<close>

lemma found_row: "index_holds db \<Longrightarrow> r \<in> set (rb_reviews db) \<Longrightarrow> find_review db (rw_id r) = Some r"
proof -
  have "distinct (map rw_id rs) \<Longrightarrow> r \<in> set rs \<Longrightarrow> find (\<lambda>r'. rw_id r' = rw_id r) rs = Some r" for rs
    by (induction rs) force+
  then show "index_holds db \<Longrightarrow> r \<in> set (rb_reviews db) \<Longrightarrow> find_review db (rw_id r) = Some r"
    by (simp add: index_holds_def find_review_def)
qed

lemma as_moved_sel [simp]:
  "rw_state (as_moved env to f db r) = to" "rw_status (as_moved env to f db r) = legacyStatus to"
  by (simp_all add: as_moved_def)

lemma moved_rows:
  assumes "move_review env rid from to f db = Inr (Some db')" "index_holds db" "r' \<in> set (rb_reviews db')"
  obtains (kept) "r' \<in> set (rb_reviews db)" "rw_id r' \<noteq> rid"
  | (moved) r where "r \<in> set (rb_reviews db)" "rw_id r = rid" "rw_state r \<in> set from" "r' = as_moved env to f db r"
proof -
  from assms(3) moved_db(2) [OF assms(1)] obtain r where r: "r \<in> set (rb_reviews db)"
    and r': "r' = (if rw_id r = rid then as_moved env to f db r else r)" by auto
  from moved_db(1) [OF assms(1)] found_row [OF assms(2) r] have "rw_id r = rid \<Longrightarrow> rw_state r \<in> set from" by auto
  with r r' show ?thesis by (cases "rw_id r = rid") (auto intro: kept moved)
qed

lemma moved_others:
  "move_review env rid from to f db = Inr (Some db') \<Longrightarrow> index_holds db \<Longrightarrow> r \<in> set (rb_reviews db) \<Longrightarrow> rw_state r \<notin> set from \<Longrightarrow>
   r \<in> set (rb_reviews db')"
  using moved_db(1, 2) found_row by fastforce

text \<open>A basis saved leaves the states, and the rows not being worked on, as they are.\<close>

lemma basis_saved:
  assumes "saveBasis env rid basis db = Some db'"
  shows "\<exists>r. find_review db rid = Some r \<and> rw_state r \<in> {in_progress, awaiting_index}"
    "rb_reviews db' = map (\<lambda>r. if rw_id r = rid then r\<lparr>rw_basis := Some basis, rw_calc := None, rw_updatedAt := ve_now env,
       rw_version := rb_versions db + 1\<rparr> else r) (rb_reviews db)"
    "rb_ledger db' = rb_ledger db"
  using assms by (auto simp: saveBasis_def write_review_def split: option.splits if_splits)

lemma mapped_index:
  assumes "rb_reviews db' = map g (rb_reviews db)" "\<And>r. rw_id (g r) = rw_id r \<and> rw_state (g r) = rw_state r \<and> rw_tenantId (g r) = rw_tenantId r"
  shows "index_holds db' = index_holds db"
proof -
  have "open_tenants (map g rs) = open_tenants rs" for rs
    using assms(2) by (induction rs) (auto simp: open_tenants_def)
  then show ?thesis by (simp add: index_holds_def assms comp_def)
qed

lemma basis_index: "saveBasis env rid basis db = Some db' \<Longrightarrow> index_holds db' = index_holds db"
  by (drule basis_saved(2)) (erule mapped_index, simp)

lemma basis_others:
  assumes "saveBasis env rid basis db = Some db'" "index_holds db" "r \<in> set (rb_reviews db)" "rw_state r \<notin> {in_progress, awaiting_index}"
  shows "r \<in> set (rb_reviews db')" "rw_id r \<noteq> rid"
  using basis_saved(1, 2) [OF assms(1)] found_row [OF assms(2, 3)] assms(3, 4) by auto

lemma inserted:
  assumes "insertScheduledReview env rid tid building m date db = Inr db'"
  shows "rb_reviews db' = rb_reviews db @ [scheduled_review env rid tid building m date (rb_versions db + 1)]" "rb_ledger db' = rb_ledger db"
    "index_holds db'"
  using assms by (auto simp: insertScheduledReview_def indexed_def split: if_splits)

lemma index_tables: "rb_reviews db' = rb_reviews db \<Longrightarrow> index_holds db' = index_holds db"
  by (simp add: index_holds_def)

lemma find_snoc: "find P (xs @ [y]) = (case find P xs of Some z \<Rightarrow> Some z | None \<Rightarrow> if P y then Some y else None)"
  by (induction xs) auto

lemma scheduled_review_sel [simp]:
  "rw_id (scheduled_review env rid tid building m date v) = rid" "rw_state (scheduled_review env rid tid building m date v) = scheduled"
  "rw_status (scheduled_review env rid tid building m date v) = legacyStatus scheduled"
  by (simp_all add: scheduled_review_def)

lemma find_inserted:
  assumes "insertScheduledReview env rid tid building m date db = Inr db'"
  shows "find_review db' x = (case find_review db x of Some r \<Rightarrow> Some r
    | None \<Rightarrow> if x = rid then Some (scheduled_review env rid tid building m date (rb_versions db + 1)) else None)"
  by (auto simp: find_review_def inserted(1) [OF assms] find_snoc split: option.split)

lemma find_basis_saved:
  assumes "saveBasis env rid basis db = Some db'"
  shows "map_option rw_state (find_review db' x) = map_option rw_state (find_review db x)"
proof -
  have "map_option rw_state (find_review db' x) = map_option rw_state (map_option (\<lambda>r. if rw_id r = rid
      then r\<lparr>rw_basis := Some basis, rw_calc := None, rw_updatedAt := ve_now env, rw_version := rb_versions db + 1\<rparr> else r) (find_review db x))"
    unfolding find_review_def basis_saved(2) [OF assms] by (subst find_map_id) auto
  then show ?thesis by (cases "find_review db x") auto
qed

section \<open>The machine behind the table\<close>

definition review_state_of :: "review_db \<Rightarrow> string \<Rightarrow> review_state option" where
  "review_state_of db rid = map_option rw_state (find_review db rid)"

text \<open>A move by one of the events, under the facts the machine asks for.\<close>

definition may_step :: "review_event set \<Rightarrow> review_state option \<Rightarrow> review_state option \<Rightarrow> bool" where
  "may_step E s s' \<longleftrightarrow> (\<exists>e\<in>E. \<exists>facts t. review_nextState s e facts = Some t \<and> s' = Some t)"

definition one_move :: "review_event set \<Rightarrow> review_state option \<Rightarrow> review_state option \<Rightarrow> bool" where
  "one_move E s s' \<longleftrightarrow> s' = s \<or> may_step E s s'"

text \<open>Two moves by one event end where the first did, and a due review goes where a scheduled one would.\<close>

lemma twice_by_event:
  "review_nextState s e facts = Some t \<Longrightarrow> review_nextState (Some t) e facts' = Some u \<Longrightarrow> u = t"
  by (cases e) (auto simp: review_defs split: if_splits)

lemma due_or_scheduled: "review_nextState (Some due) e facts = Some t \<Longrightarrow> review_nextState (Some scheduled) e facts = Some t"
  by (cases e) (auto simp: review_defs split: if_splits)

lemma to_scheduled: "review_nextState s e facts = Some scheduled \<Longrightarrow> s = None \<and> e = SCHEDULE"
  by (cases e) (auto simp: review_defs split: if_splits)

lemma by_SCHEDULE: "review_nextState s SCHEDULE facts = Some t \<longleftrightarrow> s = None \<and> t = scheduled"
  by (auto simp: review_defs)

lemma by_OPEN_WINDOW: "review_nextState s OPEN_WINDOW facts = Some t \<longleftrightarrow> s = Some scheduled \<and> t = due \<and> withinWindow facts"
  by (auto simp: review_defs)

lemma one_move_more:
  assumes moved: "may_step E mid y" and again: "may_step E y z" and events: "E \<subseteq> {SCHEDULE, OPEN_WINDOW, e}"
  shows "(mid = None \<and> may_step (E \<inter> {SCHEDULE}) mid y) \<or> one_move E mid z"
proof -
  from moved obtain e1 f1 t where one: "e1 \<in> E" "review_nextState mid e1 f1 = Some t" "y = Some t" by (auto simp: may_step_def)
  from again one(3) obtain e2 f2 u where two: "e2 \<in> E" "review_nextState (Some t) e2 f2 = Some u" "z = Some u" by (auto simp: may_step_def)
  consider "e1 = SCHEDULE" | "e1 = OPEN_WINDOW" | "e1 = e2" | "e1 \<noteq> SCHEDULE" "e2 = OPEN_WINDOW" | "e2 = SCHEDULE"
    using one(1) two(1) events by blast
  then show ?thesis
  proof cases
    case 1
    with one show ?thesis by (auto simp: by_SCHEDULE may_step_def)
  next
    case 2
    with one two due_or_scheduled [of e2 f2 u] show ?thesis by (auto simp: by_OPEN_WINDOW one_move_def may_step_def)
  next
    case 3
    with one two twice_by_event [of mid e1 f1 t f2 u] moved show ?thesis by (simp add: one_move_def)
  next
    case 4
    with one(2) two(2) to_scheduled [of mid e1 f1] show ?thesis by (simp add: by_OPEN_WINDOW)
  next
    case 5
    with two(2) show ?thesis by (simp add: by_SCHEDULE)
  qed
qed

lemma moves_collapse:
  assumes "(may_step E)\<^sup>*\<^sup>* s z" and events: "E \<subseteq> {SCHEDULE, OPEN_WINDOW, e}"
  shows "\<exists>made. one_move (E \<inter> {SCHEDULE}) s made \<and> one_move E made z"
  using assms(1)
proof (induction rule: rtranclp_induct)
  case base
  then show ?case by (auto simp: one_move_def)
next
  case (step y z)
  then obtain made where made: "one_move (E \<inter> {SCHEDULE}) s made" "one_move E made y" by blast
  show ?case
  proof (cases "made = y")
    case True
    with made(1) step(2) show ?thesis by (auto simp: one_move_def)
  next
    case False
    with made(2) have "may_step E made y" by (simp add: one_move_def)
    from one_move_more [OF this step(2) events] consider "made = None" "may_step (E \<inter> {SCHEDULE}) made y" | "one_move E made z" by blast
    then show ?thesis
    proof cases
      case 1
      with made(1) have "s = None" by (auto simp: one_move_def may_step_def)
      with 1 step(2) show ?thesis by (auto simp: one_move_def)
    qed (use made(1) in blast)
  qed
qed

lemma events_of_one: "\<exists>e. events_of call rid \<subseteq> {SCHEDULE, OPEN_WINDOW, e}"
  by (cases call) auto

text \<open>The table and the moves a call makes on it.\<close>

definition table_holds :: "review_db \<Rightarrow> bool" where
  "table_holds db \<longleftrightarrow> index_holds db \<and> list_all (\<lambda>r. rw_status r = legacyStatus (rw_state r)) (rb_reviews db)"

definition moves_kept :: "review_call \<Rightarrow> review_db \<Rightarrow> review_db \<Rightarrow> bool" where
  "moves_kept call db db' \<longleftrightarrow>
     (table_holds db \<longrightarrow> table_holds db' \<and> (\<forall>rid. (may_step (events_of call rid))\<^sup>*\<^sup>* (review_state_of db rid) (review_state_of db' rid)))"

lemma moves_kept_same: "rb_reviews db' = rb_reviews db \<Longrightarrow> moves_kept call db db'"
  by (simp add: moves_kept_def table_holds_def index_holds_def review_state_of_def find_review_def)

lemma moves_kept_trans: "moves_kept call a b \<Longrightarrow> moves_kept call b c \<Longrightarrow> moves_kept call a c"
  unfolding moves_kept_def by (blast intro: rtranclp_trans)

lemma move_moves_kept:
  assumes m: "move_review env rid from to f db = Inr (Some db')" and by_call: "moves_by (events_of call rid) from to" and k: "keeps_keys f"
  shows "moves_kept call db db'"
proof -
  have "(may_step (events_of call x))\<^sup>*\<^sup>* (review_state_of db x) (review_state_of db' x)" for x
  proof (cases "x = rid")
    case True
    from moved_self [OF m k] obtain r where r: "find_review db rid = Some r" "rw_state r \<in> set from"
      and now_row: "find_review db' rid = Some (as_moved env to f db r)" by blast
    with by_call have "rw_state r = to \<or> may_step (events_of call rid) (Some (rw_state r)) (Some to)"
      by (auto simp: moves_by_def may_step_def)
    with r now_row True show ?thesis by (auto simp: review_state_of_def)
  next
    case False
    then have "find_review db' x = find_review db x"
      using moved_found [OF m k, of x] by (cases "find_review db x") (auto dest: find_review_id)
    then show ?thesis by (simp add: review_state_of_def)
  qed
  moreover have "list_all (\<lambda>r. rw_status r = legacyStatus (rw_state r)) (rb_reviews db')"
    if "list_all (\<lambda>r. rw_status r = legacyStatus (rw_state r)) (rb_reviews db)"
    using that by (auto simp: moved_db(2) [OF m] list_all_iff)
  ultimately show ?thesis using moved_db(4) [OF m] by (simp add: moves_kept_def table_holds_def)
qed

lemma basis_moves_kept: "saveBasis env rid basis db = Some db' \<Longrightarrow> moves_kept call db db'"
  by (auto simp: moves_kept_def table_holds_def basis_index review_state_of_def find_basis_saved basis_saved(2) list_all_iff)

lemma insert_moves_kept:
  assumes ins: "insertScheduledReview env rid tid building m date db = Inr db'" and may: "SCHEDULE \<in> events_of call rid"
  shows "moves_kept call db db'"
proof -
  have "may_step (events_of call rid) None (Some scheduled)"
    unfolding may_step_def by (rule bexI [OF _ may]) (simp add: by_SCHEDULE)
  then have "(may_step (events_of call x))\<^sup>*\<^sup>* (review_state_of db x) (review_state_of db' x)" for x
    by (auto simp: review_state_of_def find_inserted [OF ins] split: option.split)
  then show ?thesis
    using inserted(3) [OF ins] by (simp add: moves_kept_def table_holds_def inserted(1) [OF ins])
qed

lemma outcome_keys: "keeps_keys (with_outcome env out)"
  by (simp add: keeps_keys_def with_outcome_def prepared_def split: option.split)

interpretation machine: review_relation "moves_kept call" call for call :: review_call
proof unfold_locales
  show "moves_kept call db db'"
    if "markApproved env rid state out db = Inr (Some db')" "approves_rightly call env db rid state out" for env rid state out db db'
    using that move_moves_kept outcome_keys unfolding markApproved_def approves_rightly_def by blast
  show "moves_kept call db (add_entry e db)" for db e by (rule moves_kept_same) simp
qed (simp_all add: moves_kept_same basis_moves_kept insert_moves_kept move_moves_kept, rule moves_kept_trans)

section \<open>Closed reviews and the ledger\<close>

definition closed_kept :: "review_db \<Rightarrow> review_db \<Rightarrow> bool" where
  "closed_kept db db' \<longleftrightarrow>
     (index_holds db \<longrightarrow> index_holds db' \<and>
        (\<forall>r\<in>set (rb_reviews db). rw_state r \<in> {completed, waived, cancelled} \<longrightarrow> r \<in> set (rb_reviews db')) \<and>
        (\<exists>later_entries. rb_ledger db' = rb_ledger db @ later_entries))"

lemma closed_kept_same: "rb_reviews db' = rb_reviews db \<Longrightarrow> rb_ledger db' = rb_ledger db @ es \<Longrightarrow> closed_kept db db'"
  by (simp add: closed_kept_def index_holds_def)

lemma closed_kept_trans: "closed_kept a b \<Longrightarrow> closed_kept b c \<Longrightarrow> closed_kept a c"
  by (fastforce simp: closed_kept_def)

lemma moves_by_open: "moves_by E from to \<Longrightarrow> s \<in> set from \<Longrightarrow> s \<notin> {completed, waived, cancelled}"
  using review_nextState_closed by (fastforce simp: moves_by_def)

lemma move_closed_kept:
  assumes "move_review env rid from to f db = Inr (Some db')" "moves_by E from to"
  shows "closed_kept db db'"
  using moved_others [OF assms(1)] moved_db(3, 4) [OF assms(1)] moves_by_open [OF assms(2)] by (auto simp: closed_kept_def)

lemma basis_closed_kept: "saveBasis env rid basis db = Some db' \<Longrightarrow> closed_kept db db'"
  using basis_others(1) basis_index basis_saved(3) by (fastforce simp: closed_kept_def)

lemma insert_closed_kept: "insertScheduledReview env rid tid building m date db = Inr db' \<Longrightarrow> closed_kept db db'"
  using inserted [of env rid tid building m date db db'] by (simp add: closed_kept_def)

lemma approved_closed_kept:
  "markApproved env rid state out db = Inr (Some db') \<Longrightarrow> approves_rightly call env db rid state out \<Longrightarrow> closed_kept db db'"
  unfolding markApproved_def by (erule move_closed_kept) (auto simp: approves_rightly_def)

interpretation closed: review_relation closed_kept call for call :: review_call
proof unfold_locales
  show "closed_kept db db" for db by (rule closed_kept_same [of db db "[]"]) simp_all
  show "closed_kept db db'" if "rb_reviews db' = rb_reviews db" "rb_ledger db' = rb_ledger db" for db db'
    using that by (intro closed_kept_same [of db' db "[]"]) simp_all
  show "closed_kept db (add_entry e db)" for db e by (rule closed_kept_same) simp_all
qed (blast intro: closed_kept_trans basis_closed_kept insert_closed_kept move_closed_kept approved_closed_kept)+

section \<open>Approved reviews\<close>

text \<open>Every row that is approved after the call was so before, with the same editors of its basis, or the call approved it.\<close>

definition approvals_kept :: "review_call \<Rightarrow> review_db \<Rightarrow> review_db \<Rightarrow> bool" where
  "approvals_kept call db db' \<longleftrightarrow>
     (index_holds db \<longrightarrow> index_holds db' \<and>
        (\<forall>r\<in>set (rb_reviews db'). rw_state r = approved \<longrightarrow>
           (r \<in> set (rb_reviews db) \<and> basisEditorsSinceCommence db' (rw_id r) = basisEditorsSinceCommence db (rw_id r)) \<or>
           rightly_approved call (basisEditorsSinceCommence db' (rw_id r)) r))"

lemma approvals_keptI:
  assumes "index_holds db \<Longrightarrow> index_holds db'"
    and "\<And>r. index_holds db \<Longrightarrow> r \<in> set (rb_reviews db') \<Longrightarrow> rw_state r = approved \<Longrightarrow>
      (r \<in> set (rb_reviews db) \<and> basisEditorsSinceCommence db' (rw_id r) = basisEditorsSinceCommence db (rw_id r)) \<or>
      rightly_approved call (basisEditorsSinceCommence db' (rw_id r)) r"
  shows "approvals_kept call db db'"
  using assms by (simp add: approvals_kept_def)

lemma approvals_kept_trans: "approvals_kept call a b \<Longrightarrow> approvals_kept call b c \<Longrightarrow> approvals_kept call a c"
  unfolding approvals_kept_def by metis

lemma editors_ledger: "rb_ledger db' = rb_ledger db \<Longrightarrow> basisEditorsSinceCommence db' rid = basisEditorsSinceCommence db rid"
  by (simp add: basisEditorsSinceCommence_def entries_about_def)

lemma editors_other: "dl_reviewId e \<noteq> rid \<Longrightarrow> basisEditorsSinceCommence (add_entry e db) rid = basisEditorsSinceCommence db rid"
  by (simp add: basisEditorsSinceCommence_def entries_about_def)

lemma approvals_tables: "rb_reviews db' = rb_reviews db \<Longrightarrow> rb_ledger db' = rb_ledger db \<Longrightarrow> approvals_kept call db db'"
  by (rule approvals_keptI) (simp_all add: index_holds_def editors_ledger [of db' db])

lemma entry_approvals:
  assumes about: "dl_action e \<in> {LBasisUpdate, LCommence} \<Longrightarrow> being_worked db (dl_reviewId e)"
  shows "approvals_kept call db (add_entry e db)"
proof (rule approvals_keptI)
  fix r assume holds: "index_holds db" and r: "r \<in> set (rb_reviews (add_entry e db))" "rw_state r = approved"
  have "basisEditorsSinceCommence (add_entry e db) (rw_id r) = basisEditorsSinceCommence db (rw_id r)"
  proof (cases "dl_action e \<in> {LBasisUpdate, LCommence}")
    case True
    with about found_row [OF holds] r have "dl_reviewId e \<noteq> rw_id r" by (auto simp: being_worked_def)
    then show ?thesis by (rule editors_other)
  qed (rule basisEditors_entry)
  with r show "(r \<in> set (rb_reviews db) \<and> basisEditorsSinceCommence (add_entry e db) (rw_id r) = basisEditorsSinceCommence db (rw_id r)) \<or>
      rightly_approved call (basisEditorsSinceCommence (add_entry e db) (rw_id r)) r" by simp
qed (simp add: index_holds_def)

lemma move_approvals:
  assumes m: "move_review env rid from to f db = Inr (Some db')" and "to \<noteq> approved"
  shows "approvals_kept call db db'"
proof (rule approvals_keptI)
  fix r assume holds: "index_holds db" and r: "r \<in> set (rb_reviews db')" "rw_state r = approved"
  from m holds r(1) have "r \<in> set (rb_reviews db)" by (rule moved_rows) (use r(2) assms(2) in auto)
  then show "(r \<in> set (rb_reviews db) \<and> basisEditorsSinceCommence db' (rw_id r) = basisEditorsSinceCommence db (rw_id r)) \<or>
      rightly_approved call (basisEditorsSinceCommence db' (rw_id r)) r"
    by (simp add: editors_ledger [OF moved_db(3) [OF m]])
qed (rule moved_db(4) [OF m])

lemma basis_approvals:
  assumes b: "saveBasis env rid basis db = Some db'"
  shows "approvals_kept call db db'"
proof (rule approvals_keptI)
  fix r assume holds: "index_holds db" and r: "r \<in> set (rb_reviews db')" "rw_state r = approved"
  from r(1) basis_saved(2) [OF b] obtain r0 where r0: "r0 \<in> set (rb_reviews db)"
    and now_row: "r = (if rw_id r0 = rid then r0\<lparr>rw_basis := Some basis, rw_calc := None, rw_updatedAt := ve_now env,
      rw_version := rb_versions db + 1\<rparr> else r0)" by auto
  with r(2) have "rw_state r0 = approved" by (simp split: if_splits)
  with basis_others(2) [OF b holds r0] now_row r0 have "r \<in> set (rb_reviews db)" by simp
  then show "(r \<in> set (rb_reviews db) \<and> basisEditorsSinceCommence db' (rw_id r) = basisEditorsSinceCommence db (rw_id r)) \<or>
      rightly_approved call (basisEditorsSinceCommence db' (rw_id r)) r"
    by (simp add: editors_ledger [OF basis_saved(3) [OF b]])
qed (simp add: basis_index [OF b])

lemma insert_approvals: "insertScheduledReview env rid tid building m date db = Inr db' \<Longrightarrow> approvals_kept call db db'"
  by (rule approvals_keptI) (auto simp: inserted editors_ledger [OF inserted(2)])

lemma rightly_approved_moved [simp]: "rightly_approved call editors (as_moved env to f db r) = rightly_approved call editors (f r)"
  by (simp add: rightly_approved_def as_moved_def reasons_are_def lowers_rent_def prepared_by_def ownsOrManages_def owns_def
      cong: option.case_cong approval_basis.case_cong)

lemma approved_approvals:
  assumes m: "markApproved env rid state out db = Inr (Some db')" and right: "approves_rightly call env db rid state out"
  shows "approvals_kept call db db'"
proof (rule approvals_keptI)
  note moved = m [unfolded markApproved_def]
  fix r assume holds: "index_holds db" and r: "r \<in> set (rb_reviews db')" "rw_state r = approved"
  from moved holds r(1)
  show "(r \<in> set (rb_reviews db) \<and> basisEditorsSinceCommence db' (rw_id r) = basisEditorsSinceCommence db (rw_id r)) \<or>
      rightly_approved call (basisEditorsSinceCommence db' (rw_id r)) r"
  proof (rule moved_rows)
    assume "r \<in> set (rb_reviews db)"
    then show ?thesis by (simp add: editors_ledger [OF moved_db(3) [OF moved]])
  next
    fix r0 assume r0: "r0 \<in> set (rb_reviews db)" "rw_id r0 = rid" "r = as_moved env approved (with_outcome env out) db r0"
    have "rw_id r = rid" by (simp add: r0 as_moved_def)
    with right found_row [OF holds r0(1)] r0
    show ?thesis by (simp add: approves_rightly_def editors_ledger [OF moved_db(3) [OF moved]])
  qed
qed (rule moved_db(4) [OF m [unfolded markApproved_def]])

interpretation approvals: review_relation "approvals_kept call" call for call :: review_call
proof unfold_locales
  show "approvals_kept call db db" for db by (rule approvals_tables) simp_all
  show "approvals_kept call db (add_entry e db)"
    if "dl_action e \<in> {LBasisUpdate, LCommence} \<Longrightarrow> being_worked db (dl_reviewId e)" for e db
    using that by (rule entry_approvals)
qed (simp_all add: approvals_tables move_approvals basis_approvals insert_approvals approved_approvals, rule approvals_kept_trans)

section \<open>What holds after any history\<close>

lemma no_reviews_hold: "table_holds no_reviews"
  by (simp add: table_holds_def index_holds_def open_tenants_def no_reviews_def)

lemma history_holds: "table_holds (review_history calls no_reviews)"
proof (rule history_carries [where K = "\<lambda>db db'. table_holds db \<longrightarrow> table_holds db'", rule_format])
  show "table_holds (perform call db)" if "table_holds db" for call db
    using machine.perform_keeps [of call db] that by (simp add: moves_kept_def)
qed (simp_all add: no_reviews_hold)

lemma history_indexed: "index_holds (review_history calls no_reviews)"
  using history_holds [of calls] by (simp add: table_holds_def)

text \<open>The call of the history that approved the row, and left it as it still stands.\<close>

definition approved_in :: "review_call list \<Rightarrow> review_instance \<Rightarrow> bool" where
  "approved_in calls r \<longleftrightarrow>
     (\<exists>before call after. calls = before @ call # after \<and>
        r \<in> set (rb_reviews (review_history (before @ [call]) no_reviews)) \<and>
        rightly_approved call (basisEditorsSinceCommence (review_history calls no_reviews) (rw_id r)) r)"

lemma history_approved:
  "r \<in> set (rb_reviews (review_history calls no_reviews)) \<Longrightarrow> rw_state r = approved \<Longrightarrow> approved_in calls r"
proof (induction calls rule: rev_induct)
  case Nil
  then show ?case by (simp add: no_reviews_def)
next
  case (snoc call calls)
  let ?db = "review_history calls no_reviews"
  have after: "review_history (calls @ [call]) no_reviews = perform call ?db" by (simp add: history_append)
  from approvals.perform_keeps [of call ?db] history_indexed [of calls] snoc.prems
  consider "r \<in> set (rb_reviews ?db)" "basisEditorsSinceCommence (perform call ?db) (rw_id r) = basisEditorsSinceCommence ?db (rw_id r)"
    | "rightly_approved call (basisEditorsSinceCommence (perform call ?db) (rw_id r)) r"
    by (auto simp: approvals_kept_def after)
  then show ?case
  proof cases
    case 1
    from snoc.IH [OF 1(1) snoc.prems(2)] obtain before c rest where "calls = before @ c # rest"
      "r \<in> set (rb_reviews (review_history (before @ [c]) no_reviews))" "rightly_approved c (basisEditorsSinceCommence ?db (rw_id r)) r"
      by (auto simp: approved_in_def)
    then show ?thesis
      unfolding approved_in_def after 1(2) by (intro exI [of _ before] exI [of _ c] exI [of _ "rest @ [call]"]) simp
  next
    case 2
    with snoc.prems(1) show ?thesis
      unfolding approved_in_def after by (intro exI [of _ calls] exI [of _ call] exI [of _ "[]"]) (simp add: after)
  qed
qed

text \<open>C4: Whatever has happened to the rent reviews before, one more call (a request from anyone with any body at any
  time, a run of the generator or the CPI timer, an exercised option, a write of the tenancies) moves each review at
  most once and only by an event the call stands for: commencing by COMMENCE and only the review its body names,
  submitting by SUBMIT, approving by APPROVE, returning by RETURN, and so on; a review is created only scheduled and
  only by a call that schedules (which may open its window at once). No review disappears. The facts the guards of the
  machine read are left open here: who may approve is the next property. Each one's legacy status
  agrees with its state, no two rows share an id and no tenancy has two open reviews.\<close>

theorem reviews_follow_machine:
  "(\<exists>made. one_move (events_of call rid \<inter> {SCHEDULE}) (review_state_of (review_history calls no_reviews) rid) made \<and>
      one_move (events_of call rid) made (review_state_of (review_history (calls @ [call]) no_reviews) rid)) \<and>
   list_all (\<lambda>r. rw_status r = legacyStatus (rw_state r)) (rb_reviews (review_history calls no_reviews)) \<and>
   distinct (map rw_id (rb_reviews (review_history calls no_reviews))) \<and>
   distinct (open_tenants (rb_reviews (review_history calls no_reviews)))"
proof -
  have "(may_step (events_of call rid))\<^sup>*\<^sup>* (review_state_of (review_history calls no_reviews) rid)
      (review_state_of (review_history (calls @ [call]) no_reviews) rid)"
    using machine.perform_keeps [of call "review_history calls no_reviews"] history_holds [of calls]
    by (simp add: moves_kept_def history_append)
  moreover obtain e where "events_of call rid \<subseteq> {SCHEDULE, OPEN_WINDOW, e}" using events_of_one by blast
  ultimately show ?thesis
    using moves_collapse history_holds [of calls] by (simp add: table_holds_def index_holds_def)
qed

text \<open>C2: In every history, a review that stands approved was approved by one of its calls, which left the row as it
  still is, by the person the row names, and that call had the right to: a submit of that review by its owner or a
  manager whose stored calculation has no reason for a second person; a submit by a director whose body overrides the
  band and whose calculation has the band as its only reason; or an approval by someone with an approver's role and an
  identity who did not prepare it, key its rent or edit its basis since it was last commenced, or is a director. A rent
  lower than the old one stands only by an approval, and of a director.\<close>

theorem approved_by_right:
  "list_all (approved_in calls) (filter (\<lambda>r. rw_state r = approved) (rb_reviews (review_history calls no_reviews)))"
  by (simp add: list_all_iff history_approved)

text \<open>C12: Whatever happens after, a completed, waived or cancelled review stays exactly as it was closed, and the ledger
  only grows at its end.\<close>

theorem closed_rows_stay:
  "set (filter (\<lambda>r. rw_state r \<in> {completed, waived, cancelled}) (rb_reviews (review_history calls no_reviews)))
     \<subseteq> set (rb_reviews (review_history (calls @ more_calls) no_reviews)) \<and>
   rb_ledger (review_history calls no_reviews) =
     take (length (rb_ledger (review_history calls no_reviews))) (rb_ledger (review_history (calls @ more_calls) no_reviews))"
proof -
  have "closed_kept (review_history calls no_reviews) (review_history (calls @ more_calls) no_reviews)"
    unfolding history_append by (rule history_carries) (auto intro: closed_kept_same closed_kept_trans closed.perform_keeps)
  with history_indexed [of calls] show ?thesis by (auto simp: closed_kept_def)
qed

end
