(* ===== verification/Spec2Isabelle.thy ===== *)
theory Spec2Isabelle
  imports Job_Guard Rent_Review_Machine Lease_Event_Machine Business_Time Engine_History Quotes_Correct
    Rent_Step_Plan_Correct Review_Dates_Correct Schedule_Charges_Correct Review_Calc_Correct Arrears_Correct
    Review_World_Correct
begin

text \<open>
  The work-flow core of a facilities and property-management backend (an Azure Functions app in TypeScript;
  every path below is under \<open>src/src/\<close>). Jobs move through a status machine, contractors quote on them and
  managers approve the quotes within their limits; what waits too long is escalated up a ladder of people on
  business-time clocks; and the rent of a tenancy is a schedule of dated rows that rent reviews are written
  on, from which every charge is computed.

  The theories, in the order of the code they model.

  \<^item> \<open>Prelude\<close>: JavaScript strings, numbers, stable sorting and thrown errors, and the locales of event
    machines (\<open>invariant_machine\<close>, \<open>terminal_machine\<close>) and comparators that the components interpret.
  \<^item> \<open>Job_Machine\<close>, \<open>Job_Guard\<close>: \<open>jobStatusMachine.ts\<close>, \<open>jobTransitionGuard.ts\<close>, and the four ways a job's
    row changes (\<open>functions/jobs.ts\<close> addJobEvent, \<open>jobStatusHelpers.ts\<close>, \<open>jobInvoicesPaid.ts\<close>,
    \<open>functions/reopenJob.ts\<close>). The state is the status, the awaited role and the state before a hold; the
    history theorems range over any sequence of those four operations.
  \<^item> \<open>Rent_Review_Machine\<close>, \<open>Lease_Event_Machine\<close>: the two machines of \<open>rentReviewMachine.ts\<close> and
    \<open>leaseEventMachine.ts\<close> as partial step functions, with what any history of attempts implies.
  \<^item> \<open>Calendar\<close>, \<open>Business_Time\<close>: ECMAScript's day arithmetic and \<open>escalation/businessTime.ts\<close>. Instants
    are milliseconds; the loops are bounded by the 3660 skipped days the code allows, and a search that
    passes the bound is the thrown error.
  \<^item> \<open>Escalation_Types\<close>, \<open>Ladder\<close>, \<open>Escalation_Store\<close>, \<open>Notifier\<close>, \<open>Engine\<close>: the escalation engine of
    \<open>escalation/\<close>. The database is an explicit table with its unique index and the ledger of
    notifications; other requests may write between an operation's reads and its writes (the parameter
    \<open>meanwhile\<close>). \<open>Engine_Laws\<close>, \<open>Engine_Correct\<close>, \<open>Notifier_Correct\<close> and \<open>Engine_History\<close> hold the laws.
  \<^item> \<open>Approval_Authority\<close>, \<open>Money_Rules\<close>, \<open>Quotes\<close>, \<open>Quotes_Correct\<close>: who may approve what
    (\<open>approvalAuthority.ts\<close>), the margins and edits of \<open>moneyRules.ts\<close> and its companions, and the
    handlers of \<open>functions/quotes.ts\<close> with \<open>quote-decisions.ts\<close> over a database of jobs, quotes and ledger
    rows. A handler but \<open>validateQuote\<close> is one atomic step, as its transaction locks the rows it reads; reading the
    quote back after the commit may still fail, which answers 500 with the change made. The three writes of
    \<open>validateQuote\<close> are not in a transaction: any of them may fail and leave those before it.
  \<^item> \<open>Iso_Dates\<close>, \<open>Month_Dates\<close>: \<open>darwinDate.ts\<close> and the month line its theorems are stated on.
  \<^item> \<open>Rent_Schedule\<close>, \<open>Rent_Step_Plan\<close> and their \<open>_Correct\<close> theories: the schedule engine and validators of
    \<open>scheduledRateStepLogic.ts\<close>, and \<open>rentReview/stepPlan.ts\<close>: the row a review lands on, the search for a
    rate that writes an exact rent, and the undoing of a write from its change log.
  \<^item> \<open>Review_Dates\<close>: \<open>nextReviewDate.ts\<close> and \<open>rentReview/cpi.ts\<close>. \<open>Schedule_Charges\<close>: \<open>scheduleCharges.ts\<close>.
  \<^item> \<open>Ancillary_Charges\<close>: the car park groups and fees of \<open>scheduledRateStepLogic.ts\<close> with their validators; the
    three stores kept by id (rent steps, groups, fees) are interpretations of one locale, \<open>keyed_store\<close>.
    \<open>Review_Cascade\<close>: \<open>rentReview/cascade.ts\<close>, what the schedule makes of them and the receipt of a review.
  \<^item> \<open>Review_Receipt\<close>, \<open>Review_Calc\<close>: \<open>rentReview/arrears.ts\<close>, \<open>rentReview/written.ts\<close> and \<open>rentReviewCalc.ts\<close>:
    what a review owes, the review as it will be written, the calculation and what a stored one says. Their laws
    are in \<open>Review_Cascade_Correct\<close>, \<open>Arrears_Correct\<close> and \<open>Review_Calc_Correct\<close>.
  \<^item> \<open>Review_Basis\<close>, \<open>Review_Records\<close>, \<open>Review_Store\<close>, \<open>Review_Access\<close>: the terms a review is decided on
    (\<open>rentReview/basis.ts\<close>, \<open>method.ts\<close>), its rows, the ledger and the change log, the guarded updates
    (\<open>store.ts\<close>, \<open>transitions.ts\<close>) and who has a say (\<open>http.ts\<close>, \<open>approvalLevel.ts\<close>, \<open>directorOverride.ts\<close>).
  \<^item> \<open>Review_Apply\<close>, \<open>Review_Generator\<close>, \<open>Review_Handlers\<close>, \<open>Review_Submit\<close>, \<open>Review_Index\<close>: the write of a decided
    rent and its reversal (\<open>apply.ts\<close>, \<open>revert.ts\<close>), the generator with the rent caches (\<open>generator.ts\<close>,
    \<open>rentCache.ts\<close>), the nine requests on a review (\<open>functions/*RentReview*.ts\<close>), and the CPI timer
    (\<open>indexResume.ts\<close>). A request is one transaction on explicit tables: an error leaves them as they were but for the
    attempt it may record. \<open>Review_Escalations\<close>: when a review is escalated (\<open>escalationRules.ts\<close>, \<open>escalations.ts\<close>).
  \<^item> \<open>Review_World\<close>, \<open>Review_World_Correct\<close>: the calls a history is made of (the requests, the generator, the CPI timer,
    the market review an exercised option starts in \<open>leaseEvents/apply.ts\<close>, and the writers of the other tables), the
    locale \<open>review_relation\<close> of what every statement keeps, carried through every call once, and its interpretations:
    the machine behind the table, closed reviews, approvals.

  What the groups of theorems show. The jobs and money theorems are about authority: a job closes only with
  its invoices in order, a quote stands approved only by someone with the right to approve it, one at a time a
  job, and every standing approval is backed by a ledger row. The escalation theorems are about histories: one
  live escalation a subject and policy whatever is interleaved, an append-only ledger, no decision without its ledger
  row, no excluded user a target, and mail only to the people meant for it or to a mailbox that stands in. The rent theorems are about figures: the rent of a row in closed form, the ratchet, a review written
  exactly and taken back exactly, the charge timeline equal to the rent in force on every day, and charges
  within what the lease asks whatever reliefs are ratified. The review theorems tie the three together: what a
  calculation shows is what is written, its receipt is the charge timeline, a review on the lease's own terms is
  always written naturally, one that needs no second person is inside the lease, and arrears are the days' share.
  The history theorems on reviews range over any calls by anyone: each call moves a review at most once and only by the
  event of the machine it stands for, a tenancy has one open review, a closed review never changes, and a review
  stands approved only by a call that had the right to approve it: a submit in bounds by its owner or a manager, a
  submit by a director who overrides the band, or an approval by an approver who is independent or a director.
  Amounts that are never negative rest on percentage overrides of -100 or more (\<open>percents_ok\<close>), which the validators
  of rent steps ask for but those of car park groups and fees do not (\<open>fee_below_nothing\<close>).

  Bounds. The code's own bounds are kept and shown to be enough: 40 widenings and 200 bisections for the
  exact rate (\<open>rent_writable\<close>), 2400 anniversaries (\<open>next_anniversary_found\<close>), and the search back
  through the quarters, which has none in the code and is a partial function here, ends
  (\<open>reference_quarter_latest\<close>).

  Idealisations. Numbers are exact rationals rounded where the code rounds, so nothing here speaks of
  floating-point error. Strings are Latin-1. On ISO dates \<open>localeCompare\<close> is the order of the texts. What
  \<open>Date.parse\<close> accepts outside the ISO format, the clock, generated ids, the holiday list, the adapters of
  the engine, whether a mail is sent and whether a ledger insert throws are parameters. A failed transaction
  leaves the database as it was; in the quote handlers a failure after the commit is modelled too. The sentences of refusals and notes are constructors that say which it is.

  Not modelled: the reading of stored JSON (\<open>parseSteps\<close>, \<open>parseGroups\<close>, \<open>parseMiscFees\<close>, \<open>parseCalc\<close>; a
  store is the list it holds), the SQL of list and report queries, e-mail wording and triage, the decision of a quote by
  e-mail (\<open>recordEmailQuoteDecision\<close>, \<open>promoteEmailToQuote\<close>), what follows the commit of a review's decision but the
  scheduling of the next review (escalations, Planner tasks, process caches), the 64 KB limit of a ledger snapshot,
  deadlocks, the database readings behind the money gate (its answer is a parameter), invoices and purchase orders beyond the rules they share with quotes, the
  sweep that calls the engine on a timer, and the record-keeping handlers (inspections, keys, vacancies,
  assets, timesheets), which move rows between HTTP and SQL, and the calls of external services.
\<close>

end
